(* ===== verification/Py_Prelude.thy ===== *)
theory Py_Prelude
  imports Complex_Main "HOL-Library.Char_ord" "HOL-Library.List_Lexorder" "HOL-Library.Product_Lexorder"
begin

text \<open>
  What the components share: Python exceptions as values of a sum type, the string operations the
  code uses (on byte strings; case mapping, digit and white-space tests are those of ASCII),
  decimal printing and parsing of integers, insertion-ordered dictionaries as association lists,
  and the collections of lemmas the component proofs use.
\<close>

named_theorems result_simps \<open>how the exception monad computes\<close>
named_theorems str_simps \<open>string predicates the parsers rest on\<close>

section \<open>Exceptions as values\<close>

text \<open>The status of a connector's answer (\<open>connectors/platform/types.py\<close>), which its failures carry.\<close>

datatype result_status = SUCCESS | PARTIAL | NO_DATA | UNSUPPORTED | RS_AUTH_EXPIRED | RATE_LIMITED
  | PROVIDER_UNAVAILABLE | INVALID_MAPPING | INVALID_PAYLOAD | AMBIGUOUS_RESULT | RS_NEEDS_REVIEW

fun status_value :: "result_status \<Rightarrow> string" where
  "status_value SUCCESS = ''SUCCESS''"
| "status_value PARTIAL = ''PARTIAL''"
| "status_value NO_DATA = ''NO_DATA''"
| "status_value UNSUPPORTED = ''UNSUPPORTED''"
| "status_value RS_AUTH_EXPIRED = ''AUTH_EXPIRED''"
| "status_value RATE_LIMITED = ''RATE_LIMITED''"
| "status_value PROVIDER_UNAVAILABLE = ''PROVIDER_UNAVAILABLE''"
| "status_value INVALID_MAPPING = ''INVALID_MAPPING''"
| "status_value INVALID_PAYLOAD = ''INVALID_PAYLOAD''"
| "status_value AMBIGUOUS_RESULT = ''AMBIGUOUS_RESULT''"
| "status_value RS_NEEDS_REVIEW = ''NEEDS_REVIEW''"

text \<open>
  One constructor per exception class that the modelled code raises or lets through. Classes the
  code defines itself carry their message; \<open>AppError\<close> carries code and HTTP status and
  \<open>HTTPException\<close> status and detail.
\<close>

datatype pyexn =
    ValueError string
  | TypeError
  | KeyError string
  | IndexError
  | AttributeError
  | OverflowError
  | ZeroDivisionError
  | InvalidOperation
  | DecimalOverflow
  | MoneyParseError string
  | PermissionError string
  | TallyWriteError string
  | TallyXmlError string
  | LookupFailed string
  | NotImplemented
  | DatabaseError string
  | AppError string string nat
  | HTTPException nat string
  | UploadRejected string string string string
  | FinanceActionError string
  | PayloadHashMismatch string
  | ZohoSyncError string
  | ZohoError result_status string string "int option"
  | TransportError
  | StoredCredentialError string

type_synonym 'a result = "pyexn + 'a"

text \<open>\<open>MoneyParseError\<close> derives from \<open>ValueError\<close>; the decimal signals derive from
  \<open>ArithmeticError\<close>, so \<open>except ValueError\<close> does not stop them.\<close>

fun is_value_error :: "pyexn \<Rightarrow> bool" where
  "is_value_error (ValueError _) = True"
| "is_value_error (MoneyParseError _) = True"
| "is_value_error (UploadRejected _ _ _ _) = True"
| "is_value_error _ = False"

fun rbind :: "'e + 'a \<Rightarrow> ('a \<Rightarrow> 'e + 'b) \<Rightarrow> 'e + 'b" where
  "rbind (Inl e) f = Inl e"
| "rbind (Inr x) f = f x"

fun rmap :: "('a \<Rightarrow> 'e + 'b) \<Rightarrow> 'a list \<Rightarrow> 'e + 'b list" where
  "rmap f [] = Inr []"
| "rmap f (x # xs) = rbind (f x) (\<lambda>y. rbind (rmap f xs) (\<lambda>ys. Inr (y # ys)))"

fun rfold :: "('a \<Rightarrow> 's \<Rightarrow> 'e + 's) \<Rightarrow> 'a list \<Rightarrow> 's \<Rightarrow> 'e + 's" where
  "rfold f [] s = Inr s"
| "rfold f (x # xs) s = rbind (f x s) (rfold f xs)"

text \<open>\<open>any(p(x) for x in xs)\<close> with a predicate that may raise: it stops at the first hit.\<close>

fun rany :: "('a \<Rightarrow> 'e + bool) \<Rightarrow> 'a list \<Rightarrow> 'e + bool" where
  "rany p [] = Inr False"
| "rany p (x # xs) = rbind (p x) (\<lambda>b. if b then Inr True else rany p xs)"

definition is_ok :: "'e + 'a \<Rightarrow> bool" where
  "is_ok r = (case r of Inl _ \<Rightarrow> False | Inr _ \<Rightarrow> True)"

lemma is_ok_simps [simp, result_simps]: "is_ok (Inr x) = True" "is_ok (Inl e) = False"
  by (simp_all add: is_ok_def)

lemma rbind_eq_Inr [result_simps]:
  "rbind m f = Inr y \<longleftrightarrow> (\<exists>x. m = Inr x \<and> f x = Inr y)"
  by (cases m) auto

lemma rbind_eq_Inl [result_simps]:
  "rbind m f = Inl e \<longleftrightarrow> m = Inl e \<or> (\<exists>x. m = Inr x \<and> f x = Inl e)"
  by (cases m) auto

lemma rbind_cong [fundef_cong]:
  "m = m' \<Longrightarrow> (\<And>x. m' = Inr x \<Longrightarrow> f x = f' x) \<Longrightarrow> rbind m f = rbind m' f'"
  by (cases m') auto

lemma rmap_length: "rmap f xs = Inr ys \<Longrightarrow> length ys = length xs"
  by (induction xs arbitrary: ys) (auto simp: rbind_eq_Inr)

lemma rmap_Inr_map: "(\<And>x. x \<in> set xs \<Longrightarrow> f x = Inr (g x)) \<Longrightarrow> rmap f xs = Inr (map g xs)"
  by (induction xs) auto

lemma rmap_list_all2:
  "rmap f xs = Inr ys \<longleftrightarrow> list_all2 (\<lambda>x y. f x = Inr y) xs ys"
  by (induction xs arbitrary: ys) (auto simp: rbind_eq_Inr list_all2_Cons1)

lemma rmap_cong [fundef_cong]:
  "xs = ys \<Longrightarrow> (\<And>x. x \<in> set ys \<Longrightarrow> f x = g x) \<Longrightarrow> rmap f xs = rmap g ys"
proof -
  assume "xs = ys" and fg: "\<And>x. x \<in> set ys \<Longrightarrow> f x = g x"
  have "rmap f ys = rmap g ys"
    using fg by (induction ys) (auto intro: rbind_cong)
  then show ?thesis using \<open>xs = ys\<close> by simp
qed

section \<open>Characters and strings\<close>

definition is_digit :: "char \<Rightarrow> bool" where
  "is_digit c = (48 \<le> (of_char c :: nat) \<and> (of_char c :: nat) \<le> 57)"

definition is_upper :: "char \<Rightarrow> bool" where
  "is_upper c = (65 \<le> (of_char c :: nat) \<and> (of_char c :: nat) \<le> 90)"

definition is_lower :: "char \<Rightarrow> bool" where
  "is_lower c = (97 \<le> (of_char c :: nat) \<and> (of_char c :: nat) \<le> 122)"

definition is_upper_alnum :: "char \<Rightarrow> bool" where
  "is_upper_alnum c = (is_upper c \<or> is_digit c)"

definition is_space :: "char \<Rightarrow> bool" where
  "is_space c = (let n = (of_char c :: nat) in (9 \<le> n \<and> n \<le> 13) \<or> (28 \<le> n \<and> n \<le> 32))"

definition upper_char :: "char \<Rightarrow> char" where
  "upper_char c = (if is_lower c then char_of ((of_char c :: nat) - 32) else c)"

definition lower_char :: "char \<Rightarrow> char" where
  "lower_char c = (if is_upper c then char_of ((of_char c :: nat) + 32) else c)"

definition py_upper :: "string \<Rightarrow> string" where "py_upper s = map upper_char s"
definition py_lower :: "string \<Rightarrow> string" where "py_lower s = map lower_char s"

definition py_lstrip :: "string \<Rightarrow> string" where "py_lstrip s = dropWhile is_space s"
definition py_strip :: "string \<Rightarrow> string" where
  "py_strip s = rev (dropWhile is_space (rev (dropWhile is_space s)))"

fun py_startswith :: "string \<Rightarrow> string \<Rightarrow> bool" where
  "py_startswith s [] = True"
| "py_startswith [] (c # cs) = False"
| "py_startswith (x # xs) (c # cs) = (x = c \<and> py_startswith xs cs)"

definition py_endswith :: "string \<Rightarrow> string \<Rightarrow> bool" where
  "py_endswith s suffix = py_startswith (rev s) (rev suffix)"

text \<open>\<open>needle in haystack\<close>.\<close>

fun py_contains :: "string \<Rightarrow> string \<Rightarrow> bool" where
  "py_contains [] needle = (needle = [])"
| "py_contains (c # cs) needle = (py_startswith (c # cs) needle \<or> py_contains cs needle)"

text \<open>\<open>s.replace(old, new)\<close> for a non-empty \<open>old\<close>.\<close>

function py_replace :: "string \<Rightarrow> string \<Rightarrow> string \<Rightarrow> string" where
  "py_replace old new [] = []"
| "py_replace old new (c # cs) =
     (if old \<noteq> [] \<and> py_startswith (c # cs) old
      then new @ py_replace old new (drop (length old) (c # cs))
      else c # py_replace old new cs)"
  by pat_completeness auto
termination
  by (relation "measure (\<lambda>(old, new, s). length s)") (auto simp: neq_Nil_conv)

definition py_remove_char :: "char \<Rightarrow> string \<Rightarrow> string" where
  "py_remove_char c s = filter (\<lambda>x. x \<noteq> c) s"

text \<open>\<open>s.split()\<close>: the maximal runs of non-white-space.\<close>

fun split_ws_acc :: "string \<Rightarrow> string \<Rightarrow> string list" where
  "split_ws_acc acc [] = (if acc = [] then [] else [rev acc])"
| "split_ws_acc acc (c # cs) =
     (if is_space c then (if acc = [] then split_ws_acc [] cs else rev acc # split_ws_acc [] cs)
      else split_ws_acc (c # acc) cs)"

definition py_split_ws :: "string \<Rightarrow> string list" where "py_split_ws s = split_ws_acc [] s"

text \<open>\<open>s.split(c)\<close> for one separator character.\<close>

fun split_char_acc :: "char \<Rightarrow> string \<Rightarrow> string \<Rightarrow> string list" where
  "split_char_acc sep acc [] = [rev acc]"
| "split_char_acc sep acc (c # cs) =
     (if c = sep then rev acc # split_char_acc sep [] cs else split_char_acc sep (c # acc) cs)"

definition py_split_char :: "char \<Rightarrow> string \<Rightarrow> string list" where
  "py_split_char sep s = split_char_acc sep [] s"

fun py_join :: "string \<Rightarrow> string list \<Rightarrow> string" where
  "py_join sep [] = []"
| "py_join sep [x] = x"
| "py_join sep (x # y # ys) = x @ sep @ py_join sep (y # ys)"

text \<open>Python's \<open>s.isdigit()\<close>: non-empty and only digits.\<close>

definition py_isdigit :: "string \<Rightarrow> bool" where
  "py_isdigit s = (s \<noteq> [] \<and> list_all is_digit s)"

text \<open>\<open>s.zfill(n)\<close> for a string with no sign.\<close>

definition zfill :: "nat \<Rightarrow> string \<Rightarrow> string" where
  "zfill n s = replicate (n - length s) (CHR ''0'') @ s"

lemma startswith_append [simp, str_simps]: "py_startswith (p @ s) p"
  by (induction p) auto

lemma startswith_iff: "py_startswith s p \<longleftrightarrow> (\<exists>t. s = p @ t)"
  by (induction s p rule: py_startswith.induct) auto

lemma endswith_iff: "py_endswith s q \<longleftrightarrow> (\<exists>t. s = t @ q)"
proof
  assume "py_endswith s q"
  then obtain t where "rev s = rev q @ t"
    by (auto simp: py_endswith_def startswith_iff)
  then have "s = rev t @ q" by (metis rev_append rev_rev_ident)
  then show "\<exists>t. s = t @ q" by blast
qed (auto simp: py_endswith_def)

lemma contains_iff: "py_contains s p \<longleftrightarrow> (\<exists>u v. s = u @ p @ v)"
proof (induction s)
  case Nil
  then show ?case by auto
next
  case (Cons c cs)
  have "(\<exists>u v. c # cs = u @ p @ v) \<longleftrightarrow> (\<exists>v. c # cs = p @ v) \<or> (\<exists>u v. cs = u @ p @ v)"
  proof
    assume "\<exists>u v. c # cs = u @ p @ v"
    then obtain u v where uv: "c # cs = u @ p @ v" by blast
    show "(\<exists>v. c # cs = p @ v) \<or> (\<exists>u v. cs = u @ p @ v)"
      using uv by (cases u) auto
  next
    assume "(\<exists>v. c # cs = p @ v) \<or> (\<exists>u v. cs = u @ p @ v)"
    then show "\<exists>u v. c # cs = u @ p @ v"
      by (metis append_Cons append_Nil)
  qed
  then show ?case using Cons by (simp add: startswith_iff)
qed

lemma upper_char_idem [simp]: "upper_char (upper_char c) = upper_char c"
  by (auto simp: upper_char_def is_lower_def)

lemma py_upper_idem [simp]: "py_upper (py_upper s) = py_upper s"
  by (simp add: py_upper_def)

lemma length_py_upper [simp]: "length (py_upper s) = length s"
  by (simp add: py_upper_def)

lemma dropWhile_idem_hd: "xs = [] \<or> \<not> P (hd xs) \<Longrightarrow> dropWhile P xs = xs"
  by (cases xs) auto

lemma dropWhile_rev_keeps_hd:
  "xs \<noteq> [] \<Longrightarrow> \<not> P (hd xs) \<Longrightarrow> hd (rev (dropWhile P (rev xs))) = hd xs
     \<and> rev (dropWhile P (rev xs)) \<noteq> []"
proof -
  assume a: "xs \<noteq> []" "\<not> P (hd xs)"
  then obtain x ys where x: "xs = x # ys" "\<not> P x" by (cases xs) auto
  then have "dropWhile P (rev xs) = (if \<exists>y\<in>set ys. \<not> P y then dropWhile P (rev ys) @ [x] else [x])"
    by (auto simp: dropWhile_append)
  then show ?thesis using x by auto
qed

lemma py_strip_idem [simp]: "py_strip (py_strip s) = py_strip s"
proof -
  define t where "t = dropWhile is_space s"
  show ?thesis
  proof (cases "t = []")
    case True
    have "py_strip s = rev (dropWhile is_space (rev t))" by (simp only: py_strip_def t_def)
    with True have "py_strip s = []" by simp
    then show ?thesis by (simp add: py_strip_def [of "[]"])
  next
    case False
    then have h: "\<not> is_space (hd t)" unfolding t_def using hd_dropWhile by blast
    define u where "u = rev (dropWhile is_space (rev t))"
    have u: "u \<noteq> []" "\<not> is_space (hd u)"
      using dropWhile_rev_keeps_hd [where P = is_space, OF False h] h by (simp_all add: u_def)
    have "dropWhile is_space u = u" using u by (simp add: dropWhile_idem_hd)
    moreover have "rev u = dropWhile is_space (rev t)" by (simp add: u_def)
    ultimately have "py_strip u = u"
      by (simp add: py_strip_def u_def)
    moreover have "py_strip s = u" by (simp add: py_strip_def u_def t_def)
    ultimately show ?thesis by simp
  qed
qed

section \<open>Integers in decimal\<close>

definition digit_val :: "char \<Rightarrow> nat" where "digit_val c = of_char c - 48"
definition digit_char :: "nat \<Rightarrow> char" where "digit_char d = char_of (48 + d)"

fun digits_acc :: "nat \<Rightarrow> string \<Rightarrow> nat" where
  "digits_acc acc [] = acc"
| "digits_acc acc (c # cs) = digits_acc (10 * acc + digit_val c) cs"

definition digits_to_nat :: "string \<Rightarrow> nat" where "digits_to_nat s = digits_acc 0 s"

fun nat_to_str :: "nat \<Rightarrow> string" where
  "nat_to_str n = (if n < 10 then [digit_char n] else nat_to_str (n div 10) @ [digit_char (n mod 10)])"

declare nat_to_str.simps [simp del]

definition int_to_str :: "int \<Rightarrow> string" where
  "int_to_str i = (if i < 0 then CHR ''-'' # nat_to_str (nat (- i)) else nat_to_str (nat i))"

lemma digit_chars:
  "digit_char 0 = CHR ''0''" "digit_char 1 = CHR ''1''" "digit_char 2 = CHR ''2''" "digit_char 3 = CHR ''3''"
  "digit_char 4 = CHR ''4''" "digit_char 5 = CHR ''5''" "digit_char 6 = CHR ''6''" "digit_char 7 = CHR ''7''"
  "digit_char 8 = CHR ''8''" "digit_char 9 = CHR ''9''" "digit_char (Suc 0) = CHR ''1''"
  by code_simp+

lemma digit_char_digit [simp]: "d < 10 \<Longrightarrow> is_digit (digit_char d)"
  by (simp add: is_digit_def digit_char_def)

lemma digit_val_char [simp]: "d < 10 \<Longrightarrow> digit_val (digit_char d) = d"
  by (simp add: digit_val_def digit_char_def)

lemma digits_acc_append: "digits_acc acc (xs @ ys) = digits_acc (digits_acc acc xs) ys"
  by (induction xs arbitrary: acc) auto

lemma nat_to_str_digits [simp]: "list_all is_digit (nat_to_str n)"
  by (induction n rule: nat_to_str.induct) (subst nat_to_str.simps, simp)

lemma nat_to_str_nonempty [simp]: "nat_to_str n \<noteq> []"
  by (subst nat_to_str.simps) simp

lemma digits_nat_to_str [simp]: "digits_to_nat (nat_to_str n) = n"
proof (induction n rule: nat_to_str.induct)
  case (1 n)
  show ?case
  proof (cases "n < 10")
    case True
    then show ?thesis by (simp add: digits_to_nat_def nat_to_str.simps [of n])
  next
    case False
    then have "digits_to_nat (nat_to_str n) = 10 * digits_to_nat (nat_to_str (n div 10)) + n mod 10"
      by (simp add: digits_to_nat_def nat_to_str.simps [of n] digits_acc_append)
    also have "\<dots> = n" using 1 False by simp
    finally show ?thesis .
  qed
qed

lemma nat_to_str_inj: "nat_to_str m = nat_to_str n \<Longrightarrow> m = n"
  by (metis digits_nat_to_str)

lemma py_isdigit_nat_to_str [simp]: "py_isdigit (nat_to_str n)"
  by (simp add: py_isdigit_def)

text \<open>
  \<open>int(text)\<close>: surrounding white space, one sign, digits, and single underscores between digits.
\<close>

fun int_digits :: "bool \<Rightarrow> string \<Rightarrow> string option" where
  "int_digits after_digit [] = (if after_digit then Some [] else None)"
| "int_digits after_digit (c # cs) =
     (if is_digit c then map_option ((#) c) (int_digits True cs)
      else if c = CHR ''_'' \<and> after_digit then int_digits False cs
      else None)"

definition int_of_str :: "string \<Rightarrow> int result" where
  "int_of_str text =
     (let s = py_strip text;
          (neg, body) = (case s of c # cs \<Rightarrow> if c = CHR ''-'' then (True, cs)
                                     else if c = CHR ''+'' then (False, cs) else (False, s)
                         | [] \<Rightarrow> (False, s))
      in case int_digits False body of
           None \<Rightarrow> Inl (ValueError ''invalid literal for int()'')
         | Some ds \<Rightarrow> Inr ((if neg then -1 else 1) * int (digits_to_nat ds)))"

lemma int_digits_all: "list_all is_digit s \<Longrightarrow> s \<noteq> [] \<Longrightarrow> int_digits b s = Some s"
proof (induction s arbitrary: b)
  case Nil
  then show ?case by simp
next
  case (Cons c cs)
  then show ?case by (cases cs) auto
qed

lemma digit_not_space [simp]: "is_digit c \<Longrightarrow> \<not> is_space c"
  by (simp add: is_digit_def is_space_def Let_def)

lemma minus_not_space: "\<not> is_space (CHR ''-'')"
  by (simp add: is_space_def)

lemma digit_not_sign: "is_digit c \<Longrightarrow> c \<noteq> CHR ''-'' \<and> c \<noteq> CHR ''+'' \<and> c \<noteq> CHR ''.''"
  by (auto simp: is_digit_def)

lemma strip_all_nonspace: "list_all (\<lambda>c. \<not> is_space c) s \<Longrightarrow> py_strip s = s"
proof -
  assume a: "list_all (\<lambda>c. \<not> is_space c) s"
  have "dropWhile is_space s = s" using a by (cases s) auto
  moreover have "dropWhile is_space (rev s) = rev s"
    using a by (cases s rule: rev_cases) auto
  ultimately show ?thesis by (simp add: py_strip_def)
qed

lemma list_all_digit_nonspace: "list_all is_digit s \<Longrightarrow> list_all (\<lambda>c. \<not> is_space c) s"
  by (induction s) auto

text \<open>Printing and reading an integer are inverse.\<close>

lemma int_of_str_int_to_str: "int_of_str (int_to_str i) = Inr i"
proof (cases "i < 0")
  case True
  have "list_all (\<lambda>c. \<not> is_space c) (int_to_str i)"
    using True list_all_digit_nonspace [of "nat_to_str (nat (- i))"]
    by (simp add: int_to_str_def minus_not_space)
  then have "py_strip (int_to_str i) = int_to_str i" by (rule strip_all_nonspace)
  then show ?thesis using True
    by (simp add: int_of_str_def int_to_str_def int_digits_all)
next
  case False
  obtain c cs where c: "nat_to_str (nat i) = c # cs" by (cases "nat_to_str (nat i)") auto
  have d: "is_digit c" using nat_to_str_digits [of "nat i"] c by simp
  have "list_all (\<lambda>c. \<not> is_space c) (int_to_str i)"
    using False by (simp add: int_to_str_def list_all_digit_nonspace)
  then have "py_strip (int_to_str i) = int_to_str i" by (rule strip_all_nonspace)
  moreover have "int_to_str i = c # cs" using False c by (simp add: int_to_str_def)
  moreover have "int_digits False (c # cs) = Some (c # cs)"
    using int_digits_all [of "c # cs"] nat_to_str_digits [of "nat i"] c by simp
  moreover have "digits_to_nat (c # cs) = nat i" using c by (metis digits_nat_to_str)
  ultimately show ?thesis using d digit_not_sign [OF d] False
    by (simp add: int_of_str_def Let_def)
qed

section \<open>Dictionaries in insertion order\<close>

type_synonym ('k, 'v) dict = "('k \<times> 'v) list"

fun dict_set :: "'k \<Rightarrow> 'v \<Rightarrow> ('k, 'v) dict \<Rightarrow> ('k, 'v) dict" where
  "dict_set k v [] = [(k, v)]"
| "dict_set k v ((k', v') # d) = (if k = k' then (k, v) # d else (k', v') # dict_set k v d)"

definition dict_get :: "('k, 'v) dict \<Rightarrow> 'k \<Rightarrow> 'v \<Rightarrow> 'v" where
  "dict_get d k dflt = (case map_of d k of None \<Rightarrow> dflt | Some v \<Rightarrow> v)"

text \<open>\<open>d1 | d2\<close> and \<open>d1.update(d2)\<close>.\<close>

definition dict_merge :: "('k, 'v) dict \<Rightarrow> ('k, 'v) dict \<Rightarrow> ('k, 'v) dict" where
  "dict_merge d1 d2 = fold (\<lambda>(k, v) d. dict_set k v d) d2 d1"

text \<open>\<open>list(dict.fromkeys(xs))\<close>: the first occurrences, in order.\<close>

fun from_keys_acc :: "'a list \<Rightarrow> 'a list \<Rightarrow> 'a list" where
  "from_keys_acc seen [] = []"
| "from_keys_acc seen (x # xs) =
     (if x \<in> set seen then from_keys_acc seen xs else x # from_keys_acc (x # seen) xs)"

definition from_keys :: "'a list \<Rightarrow> 'a list" where "from_keys xs = from_keys_acc [] xs"

lemma map_of_dict_set [simp]: "map_of (dict_set k v d) = (map_of d)(k \<mapsto> v)"
  by (induction d) (auto simp: fun_eq_iff)

lemma keys_dict_set: "map fst (dict_set k v d) = (if k \<in> set (map fst d) then map fst d else map fst d @ [k])"
  by (induction d) (auto, force)

lemma distinct_dict_set: "distinct (map fst d) \<Longrightarrow> distinct (map fst (dict_set k v d))"
proof (cases "k \<in> set (map fst d)")
  case True
  then have "map fst (dict_set k v d) = map fst d" by (simp only: keys_dict_set if_True)
  then show "distinct (map fst d) \<Longrightarrow> ?thesis" by simp
next
  case False
  then have "map fst (dict_set k v d) = map fst d @ [k]" by (simp only: keys_dict_set if_False)
  with False show "distinct (map fst d) \<Longrightarrow> ?thesis" by simp
qed

lemma dict_get_set: "dict_get (dict_set k v d) k' x = (if k' = k then v else dict_get d k' x)"
  by (simp add: dict_get_def)

lemma set_from_keys_acc: "set (from_keys_acc seen xs) = set xs - set seen"
  by (induction seen xs rule: from_keys_acc.induct) auto

lemma distinct_from_keys_acc: "distinct (from_keys_acc seen xs)"
  by (induction seen xs rule: from_keys_acc.induct) (auto simp: set_from_keys_acc)

lemma set_from_keys [simp]: "set (from_keys xs) = set xs"
  by (simp add: from_keys_def set_from_keys_acc)

lemma distinct_from_keys [simp]: "distinct (from_keys xs)"
  by (simp add: from_keys_def distinct_from_keys_acc)

section \<open>Sums and minima over lists\<close>

lemma sum_list_nonneg_int: "list_all (\<lambda>x. 0 \<le> (x::int)) xs \<Longrightarrow> 0 \<le> sum_list xs"
  by (induction xs) auto

lemma sum_list_map_eq_cong: "(\<And>x. x \<in> set xs \<Longrightarrow> f x = g x) \<Longrightarrow> sum_list (map f xs) = sum_list (map g xs)"
  by (metis map_eq_conv)

text \<open>\<open>min(pool, key=f)\<close>: the first element with the least key.\<close>

fun min_by :: "('a \<Rightarrow> 'k::linorder) \<Rightarrow> 'a \<Rightarrow> 'a list \<Rightarrow> 'a" where
  "min_by f best [] = best"
| "min_by f best (x # xs) = (if f x < f best then min_by f x xs else min_by f best xs)"

lemma min_by_mem: "min_by f best xs \<in> set (best # xs)"
  by (induction f best xs rule: min_by.induct) auto

lemma min_by_le: "y \<in> set (best # xs) \<Longrightarrow> f (min_by f best xs) \<le> f y"
proof (induction f best xs arbitrary: y rule: min_by.induct)
  case (1 f best)
  then show ?case by simp
next
  case (2 f best x xs)
  show ?case
  proof (cases "f x < f best")
    case True
    have "f (min_by f x xs) \<le> f z" if "z \<in> set (x # xs)" for z
      using "2.IH"(1) [OF True that] .
    then show ?thesis using "2.prems" True by fastforce
  next
    case False
    have "f (min_by f best xs) \<le> f z" if "z \<in> set (best # xs)" for z
      using "2.IH"(2) [OF False that] .
    then show ?thesis using "2.prems" False by fastforce
  qed
qed

lemma rfold_inv:
  assumes "\<And>x s s'. x \<in> set xs \<Longrightarrow> P s \<Longrightarrow> f x s = Inr s' \<Longrightarrow> P s'"
    and "P s" and "rfold f xs s = Inr s'"
  shows "P s'"
  using assms
proof (induction xs arbitrary: s)
  case (Cons x xs)
  then obtain s1 where "f x s = Inr s1" "rfold f xs s1 = Inr s'" by (auto simp: rbind_eq_Inr)
  with Cons show ?case by (metis list.set_intros)
qed simp

lemma sum_dict_count:
  "sum_list (map snd (dict_set k (dict_get d k 0 + 1) d)) = sum_list (map snd d) + (1::int)"
  by (induction d) (auto simp: dict_get_def)

lemma rbindE:
  assumes "rbind x f = Inr y"
  obtains a where "x = Inr a" and "f a = Inr y"
  using assms by (auto simp: rbind_eq_Inr)

end
