(* ===== verification/Py_Float.thy ===== *)
theory Py_Float
  imports Py_Prelude
begin

text \<open>
  Python's \<open>float\<close>: IEEE 754 binary64 with round-to-nearest-even, a finite value being the rational
  it denotes. \<open>f64\<close> rounds a rational to the nearest binary64 number (53 significant bits,
  exponents down to -1074); \<open>float_of\<close> adds the overflow. The true division of two integers, the
  product of an integer and a float and \<open>int(x)\<close> are the operations the tax engines use; a locale
  states what they need of the rounding and proves once that dividing by 100 and truncating is
  exact integer division below \<open>2 ^ 53\<close>.
\<close>

section \<open>Rounding a rational to an integer and to 53 bits\<close>

definition round_half_even :: "rat \<Rightarrow> int" where
  "round_half_even q =
     (let f = \<lfloor>q\<rfloor>; d = q - of_int f
      in if d < 1/2 then f else if d > 1/2 then f + 1 else if even f then f else f + 1)"

fun bit_len :: "nat \<Rightarrow> nat" where
  "bit_len n = (if n = 0 then 0 else Suc (bit_len (n div 2)))"

declare bit_len.simps [simp del]

definition ilog2 :: "rat \<Rightarrow> int" where
  "ilog2 q =
     (let (n, d) = quotient_of q; k = int (bit_len (nat n)) - int (bit_len (nat d))
      in if 2 powi k \<le> q then k else k - 1)"

definition f64_exp :: "rat \<Rightarrow> int" where
  "f64_exp q = max (ilog2 \<bar>q\<bar> - 52) (-1074)"

definition f64 :: "rat \<Rightarrow> rat" where
  "f64 q = (if q = 0 then 0
            else sgn q * of_int (round_half_even (\<bar>q\<bar> / 2 powi (f64_exp q))) * 2 powi (f64_exp q))"

definition float_of :: "rat \<Rightarrow> rat result" where
  "float_of q = (let x = f64 q in if 2 ^ 1024 \<le> \<bar>x\<bar> then Inl OverflowError else Inr x)"

text \<open>\<open>a / b\<close> on integers: correctly rounded, with \<open>OverflowError\<close> and \<open>ZeroDivisionError\<close>.\<close>

definition int_truediv :: "int \<Rightarrow> int \<Rightarrow> rat result" where
  "int_truediv a b = (if b = 0 then Inl ZeroDivisionError else float_of (of_int a / of_int b))"

text \<open>
  \<open>n * x\<close> and \<open>x / n\<close> for a finite float and an integer: the integer is converted first. A result
  beyond the largest float is infinite; the callers pass it to \<open>int\<close>, which then raises
  \<open>OverflowError\<close>, so the overflow is reported here.
\<close>

definition int_float_mult :: "int \<Rightarrow> rat \<Rightarrow> rat result" where
  "int_float_mult n x = rbind (float_of (of_int n)) (\<lambda>y. float_of (y * x))"

definition float_int_div :: "rat \<Rightarrow> int \<Rightarrow> rat result" where
  "float_int_div x n =
     (if n = 0 then Inl ZeroDivisionError else rbind (float_of (of_int n)) (\<lambda>y. float_of (x / y)))"

text \<open>\<open>int(x)\<close> truncates towards zero.\<close>

definition float_trunc :: "rat \<Rightarrow> int" where
  "float_trunc x = (if 0 \<le> x then \<lfloor>x\<rfloor> else \<lceil>x\<rceil>)"

text \<open>\<open>round(x, 2)\<close>: the decimal nearest to the exact value, ties to even, read back as a float.\<close>

definition float_round2 :: "rat \<Rightarrow> rat" where
  "float_round2 x = f64 (of_int (round_half_even (x * 100)) / 100)"

section \<open>Facts on rounding\<close>

lemma round_half_even_ge_int: "of_int m \<le> q \<Longrightarrow> m \<le> round_half_even q"
proof -
  assume "of_int m \<le> q"
  then have "m \<le> \<lfloor>q\<rfloor>" by (simp add: le_floor_iff)
  then show ?thesis by (simp add: round_half_even_def Let_def)
qed

lemma round_half_even_err: "\<bar>of_int (round_half_even q) - q\<bar> \<le> 1/2"
proof -
  have "of_int \<lfloor>q\<rfloor> \<le> q" "q < of_int \<lfloor>q\<rfloor> + 1" by linarith+
  then show ?thesis unfolding round_half_even_def Let_def by (simp add: abs_le_iff)
qed

lemma round_half_even_int [simp]: "round_half_even (of_int m) = m"
  by (simp add: round_half_even_def)

lemma round_half_even_mono: "p \<le> q \<Longrightarrow> round_half_even p \<le> round_half_even q"
proof -
  assume pq: "p \<le> q"
  show ?thesis
  proof (cases "\<lfloor>p\<rfloor> = \<lfloor>q\<rfloor>")
    case True
    then show ?thesis using pq by (auto simp: round_half_even_def Let_def)
  next
    case False
    then have "\<lfloor>p\<rfloor> + 1 \<le> \<lfloor>q\<rfloor>" using pq floor_mono [OF pq] by linarith
    then show ?thesis by (auto simp: round_half_even_def Let_def)
  qed
qed

lemma bit_len_bounds: "0 < n \<Longrightarrow> 2 ^ (bit_len n - 1) \<le> n \<and> n < 2 ^ bit_len n \<and> 0 < bit_len n"
proof (induction n rule: bit_len.induct)
  case (1 n)
  show ?case
  proof (cases "n div 2 = 0")
    case True
    then have "n = 1" using "1.prems" by linarith
    then show ?thesis by (simp add: bit_len.simps)
  next
    case False
    then have ih: "2 ^ (bit_len (n div 2) - 1) \<le> n div 2" "n div 2 < 2 ^ bit_len (n div 2)"
      "0 < bit_len (n div 2)"
      using "1.IH" "1.prems" by auto
    have b: "bit_len n = Suc (bit_len (n div 2))" using "1.prems" by (subst bit_len.simps) simp
    obtain k where k: "bit_len (n div 2) = Suc k" using ih(3) by (cases "bit_len (n div 2)") auto
    show ?thesis using ih by (simp add: b k) linarith
  qed
qed

lemma powi_diff_nat: "(2::rat) powi (int a - int b) = 2 ^ a / 2 ^ b"
  by (simp add: power_int_diff)

lemma ilog2_bounds:
  assumes q: "0 < q"
  shows "2 powi ilog2 q \<le> q" and "q < 2 powi (ilog2 q + 1)"
proof -
  obtain n d where nd: "quotient_of q = (n, d)" by (cases "quotient_of q")
  have d: "0 < d" using nd quotient_of_denom_pos by blast
  have qnd: "q = of_int n / of_int d" using nd quotient_of_div by blast
  have n: "0 < n" using q qnd d by (simp add: zero_less_divide_iff)
  define a where "a = bit_len (nat n)"
  define b where "b = bit_len (nat d)"
  have an: "2 ^ (a - 1) \<le> nat n" "nat n < 2 ^ a" "0 < a"
    using bit_len_bounds [of "nat n"] n by (auto simp: a_def)
  have bd: "2 ^ (b - 1) \<le> nat d" "nat d < 2 ^ b" "0 < b"
    using bit_len_bounds [of "nat d"] d by (auto simp: b_def)
  obtain a' where a': "a = Suc a'" using an(3) by (cases a) auto
  obtain b' where b': "b = Suc b'" using bd(3) by (cases b) auto
  have n1: "(2::int) ^ a' \<le> n" using an(1) n by (simp add: a' le_nat_iff flip: of_nat_le_iff)
  have n2: "n < (2::int) ^ a" using an(2) n by (simp add: nat_less_iff)
  have d1: "(2::int) ^ b' \<le> d" using bd(1) d by (simp add: b' le_nat_iff flip: of_nat_le_iff)
  have d2: "d < (2::int) ^ b" using bd(2) d by (simp add: nat_less_iff)
  have n1': "(2::rat) ^ a' \<le> of_int n" using n1 by (metis of_int_le_iff of_int_numeral of_int_power)
  have n2': "of_int n < (2::rat) ^ a" using n2 by (metis of_int_less_iff of_int_numeral of_int_power)
  have d1': "(2::rat) ^ b' \<le> of_int d" using d1 by (metis of_int_le_iff of_int_numeral of_int_power)
  have d2': "of_int d < (2::rat) ^ b" using d2 by (metis of_int_less_iff of_int_numeral of_int_power)
  let ?k = "int a - int b"
  have up: "q < 2 powi (?k + 1)"
  proof -
    have "q \<le> of_int n / 2 ^ b'" unfolding qnd using d1' n d by (intro divide_left_mono) auto
    also have "\<dots> < 2 ^ a / 2 ^ b'" using n2' by (simp add: divide_strict_right_mono)
    also have "\<dots> = 2 powi (int a - int b')" by (simp only: powi_diff_nat)
    also have "int a - int b' = ?k + 1" by (simp add: b')
    finally show ?thesis .
  qed
  have lo: "2 powi (?k - 1) \<le> q"
  proof -
    have "?k - 1 = int a' - int b" by (simp add: a')
    then have "2 powi (?k - 1) = (2::rat) ^ a' / 2 ^ b" by (simp only: powi_diff_nat)
    also have "\<dots> \<le> of_int n / 2 ^ b" using n1' by (simp add: divide_right_mono)
    also have "\<dots> \<le> q" unfolding qnd using d2' n d by (intro divide_left_mono) auto
    finally show ?thesis .
  qed
  have il: "ilog2 q = (if 2 powi ?k \<le> q then ?k else ?k - 1)"
    by (simp add: ilog2_def nd a_def b_def Let_def)
  show "2 powi ilog2 q \<le> q" using lo by (simp add: il)
  show "q < 2 powi (ilog2 q + 1)" using up by (auto simp: il)
qed

lemma ilog2_less:
  assumes "0 < q" and "q < 2 powi k"
  shows "ilog2 q < k"
proof (rule ccontr)
  assume "\<not> ilog2 q < k"
  then have "(2::rat) powi k \<le> 2 powi ilog2 q" by (intro power_int_increasing) auto
  then show False using ilog2_bounds(1) [OF assms(1)] assms(2) by linarith
qed

lemma f64_0 [simp]: "f64 0 = 0"
  by (simp add: f64_def)

lemma f64_minus: "f64 (- q) = - f64 q"
  by (simp add: f64_def f64_exp_def sgn_minus)

lemma f64_pos: "0 < q \<Longrightarrow> f64 q = of_int (round_half_even (q / 2 powi (f64_exp q))) * 2 powi (f64_exp q)"
  by (simp add: f64_def)

lemma f64_err:
  assumes q: "0 < q"
  shows "\<bar>f64 q - q\<bar> \<le> 2 powi (f64_exp q) / 2"
proof -
  let ?u = "2 powi (f64_exp q) :: rat"
  have u: "0 < ?u" by simp
  have "f64 q - q = (of_int (round_half_even (q / ?u)) - q / ?u) * ?u"
    using q u by (simp add: f64_pos field_simps)
  then have "\<bar>f64 q - q\<bar> = \<bar>of_int (round_half_even (q / ?u)) - q / ?u\<bar> * ?u"
    using u by (simp add: abs_mult)
  also have "\<dots> \<le> (1/2) * ?u"
    using round_half_even_err u by (intro mult_right_mono) auto
  finally show ?thesis by simp
qed

lemma f64_exp_le:
  assumes "0 < q" and "q < 2 powi k" and "-1021 \<le> k"
  shows "f64_exp q \<le> k - 53"
  using ilog2_less [OF assms(1,2)] assms by (simp add: f64_exp_def)

lemma int_over_power:
  assumes "e \<le> 0"
  shows "\<exists>m::int. (of_int n :: rat) / 2 powi e = of_int m"
proof -
  have "2 powi e = 1 / (2::rat) ^ nat (- e)"
    using assms by (simp add: power_int_def field_simps)
  then have "(of_int n :: rat) / 2 powi e = of_int (n * 2 ^ nat (- e))" by simp
  then show ?thesis by blast
qed

text \<open>Integers below the 53-bit grid bound from below: rounding never crosses one.\<close>

lemma f64_ge_int:
  assumes q: "0 < q" "q < 2 ^ 53" and n: "of_int n \<le> q"
  shows "of_int n \<le> f64 q"
proof -
  have "q < 2 powi 53" using q(2) by simp
  then have e: "f64_exp q \<le> 0" using f64_exp_le [OF q(1), of 53] by simp
  obtain m where m: "(of_int n :: rat) / 2 powi (f64_exp q) = of_int m"
    using int_over_power [OF e] by blast
  have "of_int m \<le> q / 2 powi (f64_exp q)"
    unfolding m [symmetric] using n by (simp add: divide_right_mono)
  then have "m \<le> round_half_even (q / 2 powi (f64_exp q))" by (rule round_half_even_ge_int)
  then have "of_int m * 2 powi (f64_exp q) \<le> f64 q" using q by (simp add: f64_pos)
  moreover have "of_int m * 2 powi (f64_exp q) = (of_int n :: rat)" using m by (simp add: field_simps)
  ultimately show ?thesis by simp
qed

lemma f64_int_pos:
  assumes "0 < n" and "n < 2 ^ 53"
  shows "f64 (of_int n) = of_int n"
proof -
  have q: "(0::rat) < of_int n" "(of_int n :: rat) < 2 powi 53"
    using assms of_int_less_iff [of n "2 ^ 53", where 'a = rat] by simp_all
  then have e: "f64_exp (of_int n) \<le> 0" using f64_exp_le [OF q, of ] by simp
  obtain m where m: "(of_int n :: rat) / 2 powi (f64_exp (of_int n)) = of_int m"
    using int_over_power [OF e] by blast
  have "f64 (of_int n) = of_int m * 2 powi (f64_exp (of_int n))"
    using q by (simp add: f64_pos m)
  then show ?thesis using m by (simp add: field_simps)
qed

lemma f64_int: "\<bar>n\<bar> < 2 ^ 53 \<Longrightarrow> f64 (of_int n) = of_int n"
proof (cases n "0::int" rule: linorder_cases)
  case less
  assume "\<bar>n\<bar> < 2 ^ 53"
  then have "f64 (of_int (- n)) = of_int (- n)" using less by (intro f64_int_pos) auto
  then show ?thesis by (simp add: f64_minus)
qed (auto intro: f64_int_pos)

section \<open>What the engines rely on\<close>

text \<open>
  The contract of a rounding function that the engines' integer arithmetic needs: it is odd, it
  never crosses an integer from above, and below \<open>2 ^ 47\<close> it moves a value by at most 1/128.
\<close>

locale paise_rounding =
  fixes rnd :: "rat \<Rightarrow> rat"
  assumes rnd_zero: "rnd 0 = 0"
    and rnd_odd: "rnd (- q) = - rnd q"
    and rnd_ge_int: "0 < q \<Longrightarrow> q < 2 ^ 53 \<Longrightarrow> of_int n \<le> q \<Longrightarrow> of_int n \<le> rnd q"
    and rnd_err: "0 < q \<Longrightarrow> q < 2 ^ 47 \<Longrightarrow> \<bar>rnd q - q\<bar> \<le> 1 / 128"
begin

lemma floor_percent_pos:
  assumes n: "0 \<le> n" "n < 2 ^ 53"
  shows "\<lfloor>rnd (of_int n / 100)\<rfloor> = n div 100" and "0 \<le> rnd (of_int n / 100)"
proof -
  have "\<lfloor>rnd (of_int n / 100)\<rfloor> = n div 100 \<and> 0 \<le> rnd (of_int n / 100)"
  proof (cases "n = 0")
    case True
    then show ?thesis by (simp add: rnd_zero)
  next
    case False
    define k where "k = n div 100"
    define r where "r = n mod 100"
    have nk: "n = 100 * k + r" and r: "0 \<le> r" "r \<le> 99" by (simp_all add: k_def r_def)
    have nn: "(of_int n :: rat) < 2 ^ 53" using n(2) of_int_less_iff [of n "2 ^ 53", where 'a = rat] by simp
    let ?q = "of_int n / 100 :: rat"
    have q0: "0 < ?q" using n False by simp
    have q47: "?q < 2 ^ 47" using nn by simp
    have q53: "?q < 2 ^ 53" using q47 by simp
    have qk: "?q = of_int k + of_int r / 100" by (simp add: nk field_simps)
    have "of_int k \<le> ?q" using r qk by simp
    then have lo: "of_int k \<le> rnd ?q" using q0 q53 by (intro rnd_ge_int)
    have "?q \<le> of_int k + 99 / 100" using r qk by simp
    then have hi: "rnd ?q < of_int k + 1" using rnd_err [OF q0 q47] by linarith
    have "0 \<le> k" using n by (simp add: k_def)
    then have "0 \<le> rnd ?q" using lo by (meson of_int_0_le_iff order_trans)
    moreover have "\<lfloor>rnd ?q\<rfloor> = k" using lo hi by (simp add: floor_eq_iff)
    ultimately show ?thesis by (simp add: k_def)
  qed
  then show "\<lfloor>rnd (of_int n / 100)\<rfloor> = n div 100" and "0 \<le> rnd (of_int n / 100)" by simp_all
qed

lemma trunc_percent:
  assumes "\<bar>n\<bar> < 2 ^ 53"
  shows "float_trunc (rnd (of_int n / 100)) = sgn n * (\<bar>n\<bar> div 100)"
proof (cases "0 \<le> n")
  case True
  then show ?thesis using floor_percent_pos [of n] assms
    by (cases "n = 0") (simp_all add: float_trunc_def rnd_zero)
next
  case False
  then have m: "0 \<le> - n" "- n < 2 ^ 53" using assms by auto
  have "rnd (of_int n / 100) = - rnd (of_int (- n) / 100)"
    using rnd_odd [of "of_int (- n) / 100"] by simp
  moreover note floor_percent_pos [OF m]
  ultimately have "float_trunc (rnd (of_int n / 100)) = - ((- n) div 100)"
    by (cases "rnd (of_int (- n) / 100) = 0") (auto simp: float_trunc_def ceiling_def)
  then show ?thesis using False by simp
qed

end

lemma f64_err_128: "0 < q \<Longrightarrow> q < 2 ^ 47 \<Longrightarrow> \<bar>f64 q - q\<bar> \<le> 1 / 128"
proof -
  assume q: "0 < q" "q < 2 ^ 47"
  then have "f64_exp q \<le> - 6" using f64_exp_le [of q 47] by simp
  then have "(2::rat) powi (f64_exp q) \<le> 2 powi (- 6)" by (intro power_int_increasing) auto
  moreover have "(2::rat) powi (- 6) = 1 / 64" by (simp add: power_int_def power_divide)
  ultimately show ?thesis using f64_err [OF q(1)] by simp
qed

interpretation binary64: paise_rounding f64
proof
  show "f64 (- q) = - f64 q" for q by (rule f64_minus)
  show "of_int n \<le> f64 q" if "0 < q" "q < 2 ^ 53" "of_int n \<le> q" for q n
    using that by (rule f64_ge_int)
  show "\<bar>f64 q - q\<bar> \<le> 1 / 128" if "0 < q" "q < 2 ^ 47" for q
    using that by (rule f64_err_128)
qed simp

lemma float_of_small: "\<bar>q\<bar> < 2 ^ 100 \<Longrightarrow> float_of q = Inr (f64 q)"
proof -
  assume a: "\<bar>q\<bar> < 2 ^ 100"
  have "\<bar>f64 q\<bar> < 2 ^ 1024"
  proof (cases "q = 0")
    case True
    then show ?thesis by simp
  next
    case False
    have absf: "\<bar>f64 q\<bar> = \<bar>f64 \<bar>q\<bar>\<bar>" by (simp add: abs_if f64_minus)
    have q: "0 < \<bar>q\<bar>" using False by simp
    have "\<bar>q\<bar> < 2 powi 100" using a by simp
    then have "f64_exp \<bar>q\<bar> \<le> 100 - 53" using q by (intro f64_exp_le) auto
    then have "f64_exp \<bar>q\<bar> \<le> 47" by simp
    then have "(2::rat) powi (f64_exp \<bar>q\<bar>) \<le> 2 powi 47" by (intro power_int_increasing) auto
    then have u: "(2::rat) powi (f64_exp \<bar>q\<bar>) \<le> 2 ^ 47" by simp
    have "\<bar>f64 \<bar>q\<bar>\<bar> \<le> \<bar>q\<bar> + 2 ^ 47 / 2"
      using f64_err [OF q] u by linarith
    also have "\<dots> < 2 ^ 100 + 2 ^ 100" using a by simp
    also have "\<dots> \<le> 2 ^ 1024" by simp
    finally show ?thesis using absf by simp
  qed
  then show ?thesis by (simp add: float_of_def Let_def not_le)
qed

text \<open>\<open>int(n / 100)\<close> is division truncated towards zero, for every integer of at most 53 bits.\<close>

lemma trunc_truediv_100:
  assumes "\<bar>n\<bar> < 2 ^ 53"
  shows "int_truediv n 100 = Inr (f64 (of_int n / 100))"
    and "float_trunc (f64 (of_int n / 100)) = sgn n * (\<bar>n\<bar> div 100)"
proof -
  have "of_int \<bar>n\<bar> < (2::rat) ^ 53" using assms of_int_less_iff [of "\<bar>n\<bar>" "2 ^ 53", where 'a = rat] by simp
  then have "\<bar>of_int n / 100 :: rat\<bar> < 2 ^ 100" by simp
  then show "int_truediv n 100 = Inr (f64 (of_int n / 100))"
    by (simp add: int_truediv_def float_of_small)
  show "float_trunc (f64 (of_int n / 100)) = sgn n * (\<bar>n\<bar> div 100)"
    by (rule binary64.trunc_percent [OF assms])
qed

end
