(* ===== verification/Py_Decimal.thy ===== *)
theory Py_Decimal
  imports Py_Prelude
begin

text \<open>
  \<open>decimal.Decimal\<close> in the default context: 28 digits, exponents -999999 to 999999, half-even,
  with \<open>InvalidOperation\<close>, \<open>DivisionByZero\<close> and \<open>Overflow\<close> trapped. A finite number is its
  sign, coefficient and exponent, so that the exponent-dependent rules (printing, quantizing,
  rounding to the context) are those of the specification the module implements. Signalling and
  quiet NaN are one value: every operation the code applies to either raises.
\<close>

datatype dec = DFin bool nat int | DInf bool | DNaN

definition sgn_of :: "bool \<Rightarrow> rat" where "sgn_of s = (if s then -1 else 1)"

fun dec_val :: "dec \<Rightarrow> rat" where
  "dec_val (DFin s c e) = sgn_of s * of_nat c * 10 powi e"
| "dec_val _ = 0"

fun dec_is_finite :: "dec \<Rightarrow> bool" where
  "dec_is_finite (DFin s c e) = True"
| "dec_is_finite _ = False"

definition dec_of_int :: "int \<Rightarrow> dec" where "dec_of_int i = DFin (i < 0) (nat \<bar>i\<bar>) 0"

definition ndigits :: "nat \<Rightarrow> int" where "ndigits c = int (length (nat_to_str c))"

definition ctx_prec :: int where "ctx_prec = 28"
definition ctx_emax :: int where "ctx_emax = 999999"
definition ctx_emin :: int where "ctx_emin = -999999"
definition ctx_etiny :: int where "ctx_etiny = -1000026"
definition ctx_etop :: int where "ctx_etop = 999972"

section \<open>Reading and printing\<close>

fun span_digits :: "string \<Rightarrow> string \<times> string" where
  "span_digits [] = ([], [])"
| "span_digits (c # cs) =
     (if is_digit c then let (ds, rest) = span_digits cs in (c # ds, rest) else ([], c # cs))"

text \<open>The exponent part of a literal: nothing, or \<open>E\<close>, a sign and at least one digit.\<close>

definition parse_exponent :: "string \<Rightarrow> int option" where
  "parse_exponent s =
     (case s of [] \<Rightarrow> Some 0
      | c # r \<Rightarrow>
         if c \<noteq> CHR ''e'' \<and> c \<noteq> CHR ''E'' then None
         else let (neg, ds) = (case r of d # r' \<Rightarrow> if d = CHR ''-'' then (True, r')
                                          else if d = CHR ''+'' then (False, r') else (False, r)
                               | [] \<Rightarrow> (False, r))
              in if py_isdigit ds then Some ((if neg then -1 else 1) * int (digits_to_nat ds)) else None)"

text \<open>The constructor is exact; what would need rounding or clamping in the widest context the
  implementation has is refused.\<close>

definition dec_construct :: "bool \<Rightarrow> nat \<Rightarrow> int \<Rightarrow> dec option" where
  "dec_construct s c e =
     (if c = 0 then (if -1999999999999999997 \<le> e \<and> e \<le> 999999999999999999 then Some (DFin s 0 e) else None)
      else if e + ndigits c - 1 > 999999999999999999 \<or> e < -1999999999999999997 then None
      else Some (DFin s c e))"

definition parse_unsigned :: "bool \<Rightarrow> string \<Rightarrow> dec option" where
  "parse_unsigned s body =
     (let low = py_lower body in
      if low = ''inf'' \<or> low = ''infinity'' then Some (DInf s)
      else if py_startswith low ''nan'' \<and> list_all is_digit (drop 3 low) then Some DNaN
      else if py_startswith low ''snan'' \<and> list_all is_digit (drop 4 low) then Some DNaN
      else
        let (ip, rest) = span_digits body;
            (fp, rest') = (case rest of c # r \<Rightarrow> if c = CHR ''.'' then span_digits r else ([], rest)
                           | [] \<Rightarrow> ([], []))
        in if ip = [] \<and> fp = [] then None
           else case parse_exponent rest' of None \<Rightarrow> None
                | Some x \<Rightarrow> dec_construct s (digits_to_nat (ip @ fp)) (x - int (length fp)))"

text \<open>\<open>Decimal(text)\<close>: white space is stripped and underscores ignored.\<close>

definition dec_of_str :: "string \<Rightarrow> dec result" where
  "dec_of_str text =
     (let s = py_remove_char (CHR ''_'') (py_strip text);
          (neg, body) = (case s of c # cs \<Rightarrow> if c = CHR ''-'' then (True, cs)
                                     else if c = CHR ''+'' then (False, cs) else (False, s)
                         | [] \<Rightarrow> (False, s))
      in case parse_unsigned neg body of None \<Rightarrow> Inl InvalidOperation | Some d \<Rightarrow> Inr d)"

text \<open>\<open>str(d)\<close>: plain notation unless the exponent is positive or the number very small.\<close>

fun dec_str :: "dec \<Rightarrow> string" where
  "dec_str (DFin s c e) =
     (let ds = nat_to_str c; len = int (length ds); left = e + len;
          dot = (if e \<le> 0 \<and> left > -6 then left else 1);
          body = (if dot \<le> 0 then ''0.'' @ replicate (nat (- dot)) (CHR ''0'') @ ds
                  else if dot \<ge> len then ds @ replicate (nat (dot - len)) (CHR ''0'')
                  else take (nat dot) ds @ ''.'' @ drop (nat dot) ds);
          ex = (if left = dot then ''''
                else ''E'' @ (if left - dot \<ge> 0 then ''+'' else '''') @ int_to_str (left - dot))
      in (if s then ''-'' else '''') @ body @ ex)"
| "dec_str (DInf s) = (if s then ''-Infinity'' else ''Infinity'')"
| "dec_str DNaN = ''NaN''"

section \<open>Rounding to the context\<close>

datatype rounding = HalfEven | HalfUp

definition round_div :: "rounding \<Rightarrow> nat \<Rightarrow> nat \<Rightarrow> nat" where
  "round_div mode c p =
     (let q = c div p; r = c mod p
      in if 2 * r < p then q
         else if 2 * r > p then q + 1
         else case mode of HalfUp \<Rightarrow> q + 1 | HalfEven \<Rightarrow> if even q then q else q + 1)"

fun dec_fix :: "dec \<Rightarrow> dec result" where
  "dec_fix (DFin s c e) =
     (if c = 0 then Inr (DFin s 0 (min (max e ctx_etiny) ctx_emax))
      else let m0 = ndigits c + e - ctx_prec in
        if m0 > ctx_etop then Inl DecimalOverflow
        else let m = max m0 ctx_etiny in
          if e < m then
            let c' = round_div HalfEven c (10 ^ nat (m - e));
                (c'', m') = (if ndigits c' > ctx_prec then (c' div 10, m + 1) else (c', m))
            in if m' > ctx_etop then Inl DecimalOverflow else Inr (DFin s c'' m')
          else Inr (DFin s c e))"
| "dec_fix d = Inr d"

section \<open>Arithmetic\<close>

fun dec_mul :: "dec \<Rightarrow> dec \<Rightarrow> dec result" where
  "dec_mul (DFin s1 c1 e1) (DFin s2 c2 e2) = dec_fix (DFin (s1 \<noteq> s2) (c1 * c2) (e1 + e2))"
| "dec_mul DNaN _ = Inr DNaN"
| "dec_mul _ DNaN = Inr DNaN"
| "dec_mul (DInf s1) (DInf s2) = Inr (DInf (s1 \<noteq> s2))"
| "dec_mul (DInf s1) (DFin s2 c2 e2) = (if c2 = 0 then Inl InvalidOperation else Inr (DInf (s1 \<noteq> s2)))"
| "dec_mul (DFin s1 c1 e1) (DInf s2) = (if c1 = 0 then Inl InvalidOperation else Inr (DInf (s1 \<noteq> s2)))"

definition signed_coeff :: "bool \<Rightarrow> nat \<Rightarrow> int" where
  "signed_coeff s c = (if s then - int c else int c)"

fun dec_add :: "dec \<Rightarrow> dec \<Rightarrow> dec result" where
  "dec_add (DFin s1 c1 e1) (DFin s2 c2 e2) =
     (let e = min e1 e2;
          i = signed_coeff s1 c1 * 10 ^ nat (e1 - e) + signed_coeff s2 c2 * 10 ^ nat (e2 - e)
      in dec_fix (DFin (if i = 0 then s1 \<and> s2 else i < 0) (nat \<bar>i\<bar>) e))"
| "dec_add DNaN _ = Inr DNaN"
| "dec_add _ DNaN = Inr DNaN"
| "dec_add (DInf s1) (DInf s2) = (if s1 = s2 then Inr (DInf s1) else Inl InvalidOperation)"
| "dec_add (DInf s1) (DFin _ _ _) = Inr (DInf s1)"
| "dec_add (DFin _ _ _) (DInf s2) = Inr (DInf s2)"

fun dec_copy_negate :: "dec \<Rightarrow> dec" where
  "dec_copy_negate (DFin s c e) = DFin (\<not> s) c e"
| "dec_copy_negate (DInf s) = DInf (\<not> s)"
| "dec_copy_negate DNaN = DNaN"

definition dec_sub :: "dec \<Rightarrow> dec \<Rightarrow> dec result" where
  "dec_sub a b = dec_add a (dec_copy_negate b)"

text \<open>\<open>abs\<close> and unary minus round to the context; minus never yields a negative zero.\<close>

fun dec_abs :: "dec \<Rightarrow> dec result" where
  "dec_abs (DFin s c e) = dec_fix (DFin False c e)"
| "dec_abs (DInf s) = Inr (DInf False)"
| "dec_abs DNaN = Inr DNaN"

fun dec_neg :: "dec \<Rightarrow> dec result" where
  "dec_neg (DFin s c e) = dec_fix (DFin (if c = 0 then False else \<not> s) c e)"
| "dec_neg d = Inr (dec_copy_negate d)"

text \<open>Division: one guard digit, a sticky last digit, and the exact quotient brought back towards
  the ideal exponent.\<close>

fun strip_zeros :: "nat \<Rightarrow> nat \<Rightarrow> nat \<times> nat" where
  "strip_zeros 0 c = (c, 0)"
| "strip_zeros (Suc k) c =
     (if c mod 10 = 0 then let (c', n) = strip_zeros k (c div 10) in (c', Suc n) else (c, 0))"

definition dec_div_int :: "dec \<Rightarrow> nat \<Rightarrow> dec result" where
  "dec_div_int d b =
     (case d of
        DFin s a e \<Rightarrow>
          if b = 0 then (if a = 0 then Inl InvalidOperation else Inl ZeroDivisionError)
          else if a = 0 then dec_fix (DFin s 0 e)
          else
            let shift = ndigits b - ndigits a + ctx_prec + 1;
                num = (if shift \<ge> 0 then a * 10 ^ nat shift else a);
                den = (if shift \<ge> 0 then b else b * 10 ^ nat (- shift));
                q = num div den; r = num mod den
            in if r \<noteq> 0 then dec_fix (DFin s (if q mod 5 = 0 then q + 1 else q) (e - shift))
               else let (q', n) = strip_zeros (nat shift) q
                    in dec_fix (DFin s q' (e - shift + int n))
      | _ \<Rightarrow> Inr d)"

text \<open>\<open>d.quantize(Decimal("0.01"), rounding)\<close>.\<close>

definition rescale :: "rounding \<Rightarrow> nat \<Rightarrow> int \<Rightarrow> int \<Rightarrow> nat" where
  "rescale mode c e target =
     (if e \<ge> target then c * 10 ^ nat (e - target) else round_div mode c (10 ^ nat (target - e)))"

definition dec_quantize_paise :: "rounding \<Rightarrow> dec \<Rightarrow> dec result" where
  "dec_quantize_paise mode d =
     (case d of
        DFin s c e \<Rightarrow>
          if c = 0 then Inr (DFin s 0 (-2))
          else if e + ndigits c - 1 > ctx_emax \<or> e + ndigits c - 1 + 2 + 1 > ctx_prec then Inl InvalidOperation
          else let c' = rescale mode c e (-2)
               in if ndigits c' > ctx_prec then Inl InvalidOperation else Inr (DFin s c' (-2))
      | DInf s \<Rightarrow> Inl InvalidOperation
      | DNaN \<Rightarrow> Inr DNaN)"

definition dec_to_integral_exact :: "dec \<Rightarrow> dec" where
  "dec_to_integral_exact d =
     (case d of
        DFin s c e \<Rightarrow> if e \<ge> 0 then d else if c = 0 then DFin s 0 0 else DFin s (rescale HalfEven c e 0) 0
      | _ \<Rightarrow> d)"

text \<open>\<open>int(d)\<close> truncates.\<close>

definition dec_to_int :: "dec \<Rightarrow> int result" where
  "dec_to_int d =
     (case d of
        DFin s c e \<Rightarrow> Inr (signed_coeff s (if e \<ge> 0 then c * 10 ^ nat e else c div 10 ^ nat (- e)))
      | DInf s \<Rightarrow> Inl OverflowError
      | DNaN \<Rightarrow> Inl (ValueError ''cannot convert NaN to integer''))"

text \<open>Ordering comparisons signal on NaN; equality does not.\<close>

definition dec_key :: "dec \<Rightarrow> int \<times> rat" where
  "dec_key d = (case d of DInf s \<Rightarrow> (if s then -1 else 1, 0) | DFin s c e \<Rightarrow> (0, dec_val d) | DNaN \<Rightarrow> (0, 0))"

definition dec_less :: "dec \<Rightarrow> dec \<Rightarrow> bool result" where
  "dec_less a b = (if a = DNaN \<or> b = DNaN then Inl InvalidOperation else Inr (dec_key a < dec_key b))"

definition dec_eq :: "dec \<Rightarrow> dec \<Rightarrow> bool" where
  "dec_eq a b = (a \<noteq> DNaN \<and> b \<noteq> DNaN \<and> dec_key a = dec_key b)"

definition dec_is_zero :: "dec \<Rightarrow> bool" where
  "dec_is_zero d = (case d of DFin s c e \<Rightarrow> c = 0 | _ \<Rightarrow> False)"

section \<open>Facts on digits and rounding\<close>

lemma ndigits_pos: "0 < ndigits c"
  using nat_to_str_nonempty [of c] by (simp add: ndigits_def)

lemma ndigits_le_iff: "0 < k \<Longrightarrow> ndigits c \<le> int k \<longleftrightarrow> c < 10 ^ k"
proof (induction c arbitrary: k rule: nat_to_str.induct)
  case (1 n)
  obtain k' where k: "k = Suc k'" using "1.prems" by (cases k) auto
  show ?case
  proof (cases "n < 10")
    case True
    have "(10::nat) ^ 1 \<le> 10 ^ k" using "1.prems" by (intro power_increasing) auto
    with True have "n < 10 ^ k" by simp
    then show ?thesis using True k by (simp add: ndigits_def nat_to_str.simps [of n])
  next
    case False
    have len: "ndigits n = ndigits (n div 10) + 1"
      using False by (simp add: ndigits_def nat_to_str.simps [of n])
    show ?thesis
    proof (cases "k' = 0")
      case True
      then show ?thesis using False len ndigits_pos [of "n div 10"] k by simp
    next
      case k'0: False
      have "ndigits n \<le> int k \<longleftrightarrow> ndigits (n div 10) \<le> int k'" using len k by simp
      also have "\<dots> \<longleftrightarrow> n div 10 < 10 ^ k'" using "1.IH" False k'0 by simp
      also have "\<dots> \<longleftrightarrow> n < 10 ^ k" by (simp add: k div_less_iff_less_mult mult.commute)
      finally show ?thesis .
    qed
  qed
qed

lemma ndigits_le_28: "ndigits c \<le> 28 \<longleftrightarrow> c < 10 ^ 28"
  using ndigits_le_iff [of 28 c] by simp

lemma ndigits_gt_28: "28 < ndigits c \<longleftrightarrow> 10 ^ 28 \<le> c"
  using ndigits_le_28 [of c] by linarith

lemma ndigits_times_100: "0 < c \<Longrightarrow> ndigits (c * 100) = ndigits c + 2"
proof -
  assume c: "0 < c"
  have "nat_to_str (d * 10) = nat_to_str d @ [digit_char 0]" if "0 < d" for d :: nat
    using that by (subst nat_to_str.simps) simp
  then have "ndigits (d * 10) = ndigits d + 1" if "0 < d" for d :: nat
    using that by (simp add: ndigits_def)
  from this [of c] this [of "c * 10"] c show ?thesis by (simp add: mult.assoc)
qed

lemma round_div_exact: "0 < p \<Longrightarrow> round_div mode (k * p) p = k"
  by (simp add: round_div_def)

lemma round_div_err_int:
  assumes p: "0 < p"
  shows "\<bar>int (round_div mode c p) * int p - int c\<bar> * 2 \<le> int p"
proof -
  define q where "q = c div p"
  define r where "r = c mod p"
  have "c = q * p + r" by (simp add: q_def r_def)
  then have cr: "int c = int q * int p + int r" by simp
  have r: "int r < int p" using p by (simp add: r_def)
  have down: "\<bar>int q * int p - int c\<bar> * 2 \<le> int p" if "2 * r \<le> p"
    using that cr by simp
  have up: "\<bar>int (q + 1) * int p - int c\<bar> * 2 \<le> int p" if "p \<le> 2 * r"
  proof -
    have "int (q + 1) * int p - int c = int p - int r" using cr by (simp add: algebra_simps)
    then show ?thesis using that r by simp
  qed
  consider "2 * r < p" | "p < 2 * r" | "2 * r = p" by linarith
  then show ?thesis
  proof cases
    case 1
    then have "round_div mode c p = q" by (simp add: round_div_def Let_def q_def r_def)
    with 1 down show ?thesis by simp
  next
    case 2
    then have "round_div mode c p = q + 1" by (simp add: round_div_def Let_def q_def r_def)
    with 2 up show ?thesis by simp
  next
    case 3
    then have "round_div mode c p = q \<or> round_div mode c p = q + 1"
      by (simp add: round_div_def Let_def q_def r_def split: rounding.split)
    moreover have "2 * r \<le> p" "p \<le> 2 * r" using 3 by simp_all
    ultimately show ?thesis using down up by metis
  qed
qed

lemma signed_coeff_sgn: "of_int (signed_coeff s c) = sgn_of s * of_nat c"
  by (simp add: signed_coeff_def sgn_of_def)

text \<open>A number of at most 28 digits with an ordinary exponent is unchanged by the context.\<close>

lemma dec_fix_id:
  assumes "c < 10 ^ 28" and "ctx_etiny \<le> e" and "e \<le> ctx_etop"
  shows "dec_fix (DFin s c e) = Inr (DFin s c e)"
proof (cases "c = 0")
  case True
  then show ?thesis using assms by (simp add: ctx_etop_def ctx_emax_def)
next
  case False
  have "ndigits c \<le> 28" using assms(1) by (simp only: ndigits_le_28)
  then have "ndigits c + e - ctx_prec \<le> e" by (simp add: ctx_prec_def)
  then have "\<not> ndigits c + e - ctx_prec > ctx_etop" "\<not> e < max (ndigits c + e - ctx_prec) ctx_etiny"
    using assms by simp_all
  then show ?thesis using False by (simp add: Let_def)
qed

end
