(* ===== verification/Py_Date.thy ===== *)
theory Py_Date
  imports Py_Prelude
begin

text \<open>
  \<open>datetime.date\<close>: proleptic Gregorian dates of the years 1 to 9999, their ordinals (differences
  in days), the ISO form, \<open>date.fromisoformat\<close> and the part of \<open>strptime\<close> the code uses.
  Dates are linearly ordered, and on valid dates the order is that of the ordinals.
\<close>

datatype pydate = Date (dyear: nat) (dmonth: nat) (dday: nat)

instantiation pydate :: linorder
begin

definition less_eq_pydate :: "pydate \<Rightarrow> pydate \<Rightarrow> bool" where
  "less_eq_pydate a b = ((dyear a, dmonth a, dday a) \<le> (dyear b, dmonth b, dday b))"

definition less_pydate :: "pydate \<Rightarrow> pydate \<Rightarrow> bool" where
  "less_pydate a b = ((dyear a, dmonth a, dday a) < (dyear b, dmonth b, dday b))"

instance
  by standard (auto simp: less_eq_pydate_def less_pydate_def pydate.expand)

end

section \<open>The calendar\<close>

definition is_leap :: "nat \<Rightarrow> bool" where
  "is_leap y = (y mod 4 = 0 \<and> (y mod 100 \<noteq> 0 \<or> y mod 400 = 0))"

definition days_in_month :: "nat \<Rightarrow> nat \<Rightarrow> nat" where
  "days_in_month y m = (if m = 2 then (if is_leap y then 29 else 28)
                        else if m \<in> {4, 6, 9, 11} then 30 else 31)"

definition valid_date :: "pydate \<Rightarrow> bool" where
  "valid_date d = (1 \<le> dyear d \<and> dyear d \<le> 9999 \<and> 1 \<le> dmonth d \<and> dmonth d \<le> 12
                   \<and> 1 \<le> dday d \<and> dday d \<le> days_in_month (dyear d) (dmonth d))"

text \<open>\<open>date(y, m, d)\<close>.\<close>

definition mk_date :: "int \<Rightarrow> int \<Rightarrow> int \<Rightarrow> pydate result" where
  "mk_date y m d =
     (if 0 \<le> y \<and> 0 \<le> m \<and> 0 \<le> d \<and> valid_date (Date (nat y) (nat m) (nat d))
      then Inr (Date (nat y) (nat m) (nat d))
      else Inl (ValueError ''date component is out of range''))"

fun days_before_month :: "nat \<Rightarrow> nat \<Rightarrow> nat" where
  "days_before_month y 0 = 0"
| "days_before_month y (Suc m) = (if m = 0 then 0 else days_before_month y m + days_in_month y m)"

definition days_before_year :: "nat \<Rightarrow> int" where
  "days_before_year y = (let k = int y - 1 in k * 365 + k div 4 - k div 100 + k div 400)"

definition toordinal :: "pydate \<Rightarrow> int" where
  "toordinal d = days_before_year (dyear d) + int (days_before_month (dyear d) (dmonth d)) + int (dday d)"

text \<open>\<open>(a - b).days\<close>.\<close>

definition days_between :: "pydate \<Rightarrow> pydate \<Rightarrow> int" where
  "days_between a b = toordinal a - toordinal b"

text \<open>The next calendar day, and the day with a given ordinal reached by stepping: \<open>d + timedelta(n)\<close>
  for a small \<open>n\<close>.\<close>

definition next_day :: "pydate \<Rightarrow> pydate" where
  "next_day d = (if dday d < days_in_month (dyear d) (dmonth d) then Date (dyear d) (dmonth d) (dday d + 1)
                 else if dmonth d < 12 then Date (dyear d) (dmonth d + 1) 1
                 else Date (dyear d + 1) 1 1)"

definition prev_day :: "pydate \<Rightarrow> pydate" where
  "prev_day d = (if 1 < dday d then Date (dyear d) (dmonth d) (dday d - 1)
                 else if 1 < dmonth d then Date (dyear d) (dmonth d - 1) (days_in_month (dyear d) (dmonth d - 1))
                 else Date (dyear d - 1) 12 31)"

section \<open>ISO dates\<close>

definition isoformat :: "pydate \<Rightarrow> string" where
  "isoformat d = zfill 4 (nat_to_str (dyear d)) @ ''-'' @ zfill 2 (nat_to_str (dmonth d)) @ ''-''
                 @ zfill 2 (nat_to_str (dday d))"

definition strftime_compact :: "pydate \<Rightarrow> string" where
  "strftime_compact d = zfill 4 (nat_to_str (dyear d)) @ zfill 2 (nat_to_str (dmonth d))
                 @ zfill 2 (nat_to_str (dday d))"

definition take_digits :: "nat \<Rightarrow> string \<Rightarrow> (nat \<times> string) option" where
  "take_digits n s = (if length (take n s) = n \<and> list_all is_digit (take n s)
                      then Some (digits_to_nat (take n s), drop n s) else None)"

text \<open>Monday of ISO week 1, then the day of the given week.\<close>

definition iso_week1_monday :: "nat \<Rightarrow> int" where
  "iso_week1_monday y =
     (let firstday = toordinal (Date y 1 1); wd = (firstday + 6) mod 7; mon = firstday - wd
      in if wd > 3 then mon + 7 else mon)"

fun add_days :: "nat \<Rightarrow> pydate \<Rightarrow> pydate" where
  "add_days 0 d = d"
| "add_days (Suc n) d = add_days n (next_day d)"

fun sub_days :: "nat \<Rightarrow> pydate \<Rightarrow> pydate" where
  "sub_days 0 d = d"
| "sub_days (Suc n) d = sub_days n (prev_day d)"

definition date_plus :: "pydate \<Rightarrow> int \<Rightarrow> pydate" where
  "date_plus d n = (if 0 \<le> n then add_days (nat n) d else sub_days (nat (- n)) d)"

definition week_date :: "nat \<Rightarrow> nat \<Rightarrow> nat \<Rightarrow> pydate option" where
  "week_date y w d =
     (let jan1 = (toordinal (Date y 1 1)) mod 7;
          long = (jan1 = 4 \<or> (jan1 = 3 \<and> is_leap y))
      in if y < 1 \<or> w < 1 \<or> (w > 52 \<and> \<not> (w = 53 \<and> long)) \<or> d < 1 \<or> d > 7 then None
         else let r = date_plus (Date y 1 1) (iso_week1_monday y + int (7 * (w - 1) + (d - 1)) - toordinal (Date y 1 1))
              in if valid_date r then Some r else None)"

text \<open>\<open>date.fromisoformat\<close> of Python 3.11 and later: \<open>YYYY-MM-DD\<close>, \<open>YYYYMMDD\<close> and the week forms.\<close>

definition date_fromisoformat :: "string \<Rightarrow> pydate result" where
  "date_fromisoformat s =
     (let bad = Inl (ValueError ''Invalid isoformat string'');
          ok = (\<lambda>d. if valid_date d then Inr d else bad)
      in if length s \<notin> {7, 8, 10} then bad
         else case take_digits 4 s of None \<Rightarrow> bad
         | Some (y, r) \<Rightarrow>
           let sep = py_startswith r ''-''; r1 = (if sep then drop 1 r else r) in
           if py_startswith r1 ''W'' then
             (case take_digits 2 (drop 1 r1) of None \<Rightarrow> bad
              | Some (w, r2) \<Rightarrow>
                  if r2 = [] then (case week_date y w 1 of None \<Rightarrow> bad | Some d \<Rightarrow> ok d)
                  else if py_startswith r2 ''-'' \<noteq> sep then bad
                  else (case take_digits 1 (if sep then drop 1 r2 else r2) of None \<Rightarrow> bad
                        | Some (d, r3) \<Rightarrow> if r3 \<noteq> [] then bad
                            else (case week_date y w d of None \<Rightarrow> bad | Some dt \<Rightarrow> ok dt)))
           else
             (case take_digits 2 r1 of None \<Rightarrow> bad
              | Some (m, r2) \<Rightarrow>
                  if py_startswith r2 ''-'' \<noteq> sep then bad
                  else (case take_digits 2 (if sep then drop 1 r2 else r2) of None \<Rightarrow> bad
                        | Some (d, r3) \<Rightarrow> if r3 \<noteq> [] then bad else ok (Date y m d))))"

section \<open>strptime\<close>

text \<open>
  The directives the code uses. \<open>strp_alts\<close> lists the ways a directive can match a prefix, in the
  order of the alternatives of its regular expression; \<open>strp\<close> searches them depth first, and the
  text must be consumed by the first match.
\<close>

datatype directive = DirD | DirM | DirY | Dir_y | DirB | DirH | DirMin | DirS | Lit char | Spaces

definition dig :: "string \<Rightarrow> nat \<Rightarrow> nat option" where
  "dig s i = (if i < length s \<and> is_digit (s ! i) then Some (digit_val (s ! i)) else None)"

definition two_digit :: "string \<Rightarrow> (nat \<Rightarrow> bool) \<Rightarrow> (nat \<times> string) list" where
  "two_digit s p = (case (dig s 0, dig s 1) of
       (Some a, Some b) \<Rightarrow> (if p (10 * a + b) then [(10 * a + b, drop 2 s)] else [])
     | _ \<Rightarrow> [])"

definition one_digit :: "string \<Rightarrow> (nat \<Rightarrow> bool) \<Rightarrow> (nat \<times> string) list" where
  "one_digit s p = (case dig s 0 of Some a \<Rightarrow> (if p a then [(a, drop 1 s)] else []) | None \<Rightarrow> [])"

definition month_abbr :: "string list" where
  "month_abbr = [''jan'', ''feb'', ''mar'', ''apr'', ''may'', ''jun'',
                 ''jul'', ''aug'', ''sep'', ''oct'', ''nov'', ''dec'']"

fun abbr_alts :: "nat \<Rightarrow> string list \<Rightarrow> string \<Rightarrow> (nat \<times> string) list" where
  "abbr_alts i [] s = []"
| "abbr_alts i (a # as) s =
     (if py_startswith (py_lower s) a then [(i, drop (length a) s)] else abbr_alts (Suc i) as s)"

fun strp_alts :: "directive \<Rightarrow> string \<Rightarrow> (nat \<times> string) list" where
  "strp_alts DirD s = two_digit s (\<lambda>n. n = 30 \<or> n = 31) @ two_digit s (\<lambda>n. 10 \<le> n \<and> n \<le> 29)
      @ two_digit s (\<lambda>n. 1 \<le> n \<and> n \<le> 9) @ one_digit s (\<lambda>n. 1 \<le> n)
      @ (case s of c # cs \<Rightarrow> if c = CHR '' '' then one_digit cs (\<lambda>n. 1 \<le> n) else [] | [] \<Rightarrow> [])"
| "strp_alts DirM s = two_digit s (\<lambda>n. 10 \<le> n \<and> n \<le> 12) @ two_digit s (\<lambda>n. 1 \<le> n \<and> n \<le> 9)
      @ one_digit s (\<lambda>n. 1 \<le> n)"
| "strp_alts DirY s = (case take_digits 4 s of Some r \<Rightarrow> [r] | None \<Rightarrow> [])"
| "strp_alts Dir_y s = (case take_digits 2 s of
      Some (n, r) \<Rightarrow> [(if n \<le> 68 then 2000 + n else 1900 + n, r)] | None \<Rightarrow> [])"
| "strp_alts DirB s = abbr_alts 1 month_abbr s"
| "strp_alts DirH s = two_digit s (\<lambda>n. n \<le> 23) @ one_digit s (\<lambda>n. True)"
| "strp_alts DirMin s = two_digit s (\<lambda>n. n \<le> 59) @ one_digit s (\<lambda>n. True)"
| "strp_alts DirS s = two_digit s (\<lambda>n. n \<le> 61) @ one_digit s (\<lambda>n. True)"
| "strp_alts (Lit c) s = (case s of x # xs \<Rightarrow> if lower_char x = lower_char c then [(0, xs)] else [] | [] \<Rightarrow> [])"
| "strp_alts Spaces s = (if s \<noteq> [] \<and> is_space (hd s)
      then map (\<lambda>k. (0, drop k s)) (rev [1..<Suc (length (takeWhile is_space s))]) else [])"

text \<open>Day, month and year as they are read; a missing one is 1, 1 and 1900.\<close>

fun strp_set :: "directive \<Rightarrow> nat \<Rightarrow> pydate \<Rightarrow> pydate" where
  "strp_set DirD n (Date y m d) = Date y m n"
| "strp_set DirM n (Date y m d) = Date y n d"
| "strp_set DirB n (Date y m d) = Date y n d"
| "strp_set DirY n (Date y m d) = Date n m d"
| "strp_set Dir_y n (Date y m d) = Date n m d"
| "strp_set _ n dt = dt"

fun strp :: "directive list \<Rightarrow> pydate \<Rightarrow> string \<Rightarrow> (pydate \<times> string) list" where
  "strp [] dt s = [(dt, s)]"
| "strp (x # xs) dt s = concat (map (\<lambda>(n, r). strp xs (strp_set x n dt) r) (strp_alts x s))"

definition strptime_date :: "directive list \<Rightarrow> string \<Rightarrow> pydate option" where
  "strptime_date fmt s =
     (case strp fmt (Date 1900 1 1) s of
        [] \<Rightarrow> None
      | (d, rest) # _ \<Rightarrow> if rest = [] \<and> valid_date d then Some d else None)"

definition fmt_dmy_dash :: "directive list" where
  "fmt_dmy_dash = [DirD, Lit (CHR ''-''), DirM, Lit (CHR ''-''), DirY]"
definition fmt_dmy_slash :: "directive list" where
  "fmt_dmy_slash = [DirD, Lit (CHR ''/''), DirM, Lit (CHR ''/''), DirY]"
definition fmt_mdy_slash :: "directive list" where
  "fmt_mdy_slash = [DirM, Lit (CHR ''/''), DirD, Lit (CHR ''/''), DirY]"
definition fmt_ymd_dash :: "directive list" where
  "fmt_ymd_dash = [DirY, Lit (CHR ''-''), DirM, Lit (CHR ''-''), DirD]"
definition fmt_ymd_hms :: "directive list" where
  "fmt_ymd_hms = fmt_ymd_dash @ [Spaces, DirH, Lit (CHR '':''), DirMin, Lit (CHR '':''), DirS]"
definition fmt_d_b_Y :: "directive list" where
  "fmt_d_b_Y = [DirD, Lit (CHR ''-''), DirB, Lit (CHR ''-''), DirY]"
definition fmt_d_b_y :: "directive list" where
  "fmt_d_b_y = [DirD, Lit (CHR ''-''), DirB, Lit (CHR ''-''), Dir_y]"

text \<open>The loop over patterns that every date reader of the code has.\<close>

fun first_format :: "directive list list \<Rightarrow> string \<Rightarrow> pydate option" where
  "first_format [] s = None"
| "first_format (f # fs) s = (case strptime_date f s of Some d \<Rightarrow> Some d | None \<Rightarrow> first_format fs s)"

section \<open>Facts\<close>

lemma div_step:
  fixes x k :: int
  assumes "0 < k"
  shows "x div k = (x - 1) div k + (if x mod k = 0 then 1 else 0)"
proof (cases "x mod k = 0")
  case True
  then obtain q where "x = k * q" by (auto elim: dvdE simp: mod_eq_0_iff_dvd)
  moreover have "(k * q - 1) div k = q - 1"
  proof -
    have "k * q - 1 = (k - 1) + k * (q - 1)" by (simp add: algebra_simps)
    also have "\<dots> div k = (k - 1) div k + (q - 1)" using assms by (simp only: div_mult_self2)
    also have "(k - 1) div k = 0" using assms by (simp add: div_pos_pos_trivial)
    finally show ?thesis by simp
  qed
  ultimately show ?thesis using assms by simp
next
  case False
  have r: "0 < x mod k" "x mod k < k"
    using False assms pos_mod_sign [of k x] pos_mod_bound [of k x] by linarith+
  have "x - 1 = (x mod k - 1) + k * (x div k)" using mult_div_mod_eq [of k x] by linarith
  then have "(x - 1) div k = ((x mod k - 1) + k * (x div k)) div k" by (rule arg_cong)
  also have "\<dots> = (x mod k - 1) div k + x div k" using assms by (simp only: div_mult_self2)
  also have "(x mod k - 1) div k = 0" using r by (simp add: div_pos_pos_trivial)
  finally show ?thesis using False by simp
qed

lemma days_before_year_Suc:
  assumes "1 \<le> y"
  shows "days_before_year (Suc y) = days_before_year y + (if is_leap y then 366 else 365)"
proof -
  define x where "x = int y"
  have eq: "int y = x" "int (Suc y) - 1 = x" by (simp_all add: x_def)
  have nat_mod: "(y mod k = 0) = (x mod int k = 0)" for k
    unfolding x_def by (metis of_nat_0_eq_iff zmod_int)
  have leap: "is_leap y = (x mod 4 = 0 \<and> (x mod 100 \<noteq> 0 \<or> x mod 400 = 0))"
    using nat_mod [of 4] nat_mod [of 100] nat_mod [of 400] by (simp add: is_leap_def)
  have regroup: "z * 365 + (a + p) - (b + q) + (c + r) = ((z - 1) * 365 + a - b + c) + (365 + p - q + r)"
    for z a b c p q r :: int by simp
  have i: "x mod 400 = 0 \<longrightarrow> x mod 100 = 0" "x mod 100 = 0 \<longrightarrow> x mod 4 = 0"
    by (auto simp: mod_eq_0_iff_dvd intro: dvd_trans [of _ "400::int"] dvd_trans [of _ "100::int"])
  have "days_before_year (Suc y) = x * 365 + x div 4 - x div 100 + x div 400"
    unfolding days_before_year_def Let_def eq ..
  also have "\<dots> = ((x - 1) * 365 + (x - 1) div 4 - (x - 1) div 100 + (x - 1) div 400)
                 + (365 + (if x mod 4 = 0 then 1 else 0) - (if x mod 100 = 0 then 1 else 0)
                    + (if x mod 400 = 0 then 1 else 0))"
    unfolding div_step [of 4 x, simplified] div_step [of 100 x, simplified] div_step [of 400 x, simplified]
    by (rule regroup)
  also have "(x - 1) * 365 + (x - 1) div 4 - (x - 1) div 100 + (x - 1) div 400 = days_before_year y"
    unfolding days_before_year_def Let_def eq ..
  finally show ?thesis using i unfolding leap by (cases "x mod 4 = 0"; cases "x mod 100 = 0"; cases "x mod 400 = 0") auto
qed

lemma days_before_year_mono:
  assumes "1 \<le> y" "y \<le> y'"
  shows "days_before_year y \<le> days_before_year y'"
  using assms(2) assms(1) by (induction rule: dec_induct) (auto simp: days_before_year_Suc)

lemma days_before_month_step:
  assumes "1 \<le> m" "m < m'"
  shows "days_before_month y m + days_in_month y m \<le> days_before_month y m'"
  using Suc_leI [OF assms(2)] assms(1) by (induction rule: dec_induct) auto

lemma days_before_month_13: "days_before_month y 13 = (if is_leap y then 366 else 365)"
  by (simp add: eval_nat_numeral days_in_month_def)

lemma toordinal_in_year:
  assumes "valid_date d"
  shows "days_before_year (dyear d) < toordinal d" and "toordinal d \<le> days_before_year (Suc (dyear d))"
proof -
  have v: "1 \<le> dyear d" "1 \<le> dmonth d" "dmonth d < 13" "1 \<le> dday d"
      "dday d \<le> days_in_month (dyear d) (dmonth d)"
    using assms by (auto simp: valid_date_def)
  show "days_before_year (dyear d) < toordinal d" using v by (simp add: toordinal_def)
  have "days_before_month (dyear d) (dmonth d) + days_in_month (dyear d) (dmonth d)
        \<le> (if is_leap (dyear d) then 366 else 365)"
    using days_before_month_step [OF v(2,3)] by (simp only: days_before_month_13)
  then show "toordinal d \<le> days_before_year (Suc (dyear d))"
    using v by (simp add: toordinal_def days_before_year_Suc split: if_splits)
qed

lemma toordinal_mono_strict:
  assumes "valid_date a" "valid_date b" "a < b"
  shows "toordinal a < toordinal b"
proof -
  have va: "1 \<le> dyear a" "1 \<le> dmonth a" "dday a \<le> days_in_month (dyear a) (dmonth a)"
    and vb: "1 \<le> dday b"
    using assms by (auto simp: valid_date_def)
  consider "dyear a < dyear b" | "dyear a = dyear b" "dmonth a < dmonth b"
    | "dyear a = dyear b" "dmonth a = dmonth b" "dday a < dday b"
    using assms(3) unfolding less_pydate_def less_prod_simp by linarith
  then show ?thesis
  proof cases
    case 1
    have "toordinal a \<le> days_before_year (Suc (dyear a))" by (rule toordinal_in_year [OF assms(1)])
    also have "\<dots> \<le> days_before_year (dyear b)" using 1 by (intro days_before_year_mono) auto
    also have "\<dots> < toordinal b" by (rule toordinal_in_year [OF assms(2)])
    finally show ?thesis .
  next
    case 2
    have "days_before_month (dyear a) (dmonth a) + days_in_month (dyear a) (dmonth a)
          \<le> days_before_month (dyear a) (dmonth b)"
      using va 2 by (intro days_before_month_step)
    then show ?thesis using 2 va vb by (simp add: toordinal_def)
  next
    case 3
    then show ?thesis by (simp add: toordinal_def)
  qed
qed

text \<open>On valid dates the order, equality and the sign of a difference agree.\<close>

lemma days_between_iff:
  assumes "valid_date a" "valid_date b"
  shows "days_between a b < 0 \<longleftrightarrow> a < b" and "days_between a b = 0 \<longleftrightarrow> a = b"
    and "0 < days_between a b \<longleftrightarrow> b < a"
  using toordinal_mono_strict [OF assms] toordinal_mono_strict [OF assms(2,1)]
  by (auto simp: days_between_def not_less intro: linorder_cases [of a b])

lemma strptime_date_valid: "strptime_date f s = Some d \<Longrightarrow> valid_date d"
  by (auto simp: strptime_date_def split: list.splits prod.splits if_splits)

lemma first_format_valid: "first_format fs s = Some d \<Longrightarrow> valid_date d"
  by (induction fs s rule: first_format.induct) (auto split: option.splits dest: strptime_date_valid)

lemma mk_date_valid: "mk_date y m d = Inr dt \<Longrightarrow> valid_date dt"
  by (auto simp: mk_date_def split: if_splits)

lemma fromisoformat_valid: "date_fromisoformat s = Inr d \<Longrightarrow> valid_date d"
  by (auto simp: date_fromisoformat_def Let_def split: if_splits option.splits prod.splits)

end
