(* ===== verification/Py_Value.thy ===== *)
theory Py_Value
  imports Py_Float Py_Decimal Py_Date
begin

text \<open>
  The dynamic values the code passes around as \<open>Any\<close> and \<open>dict[str, Any]\<close>: what JSON decodes to,
  plus decimals and dates. A dictionary is an association list in insertion order; a float is a finite
  binary64 number given by its rational value, a NaN or an infinity. The theory has truth testing, \<open>or\<close>, \<open>.get\<close> (with
  the \<open>AttributeError\<close> of a value that is no dictionary), \<open>str\<close> and \<open>repr\<close> (the shortest
  representation that reads back for floats) and \<open>int\<close>.
\<close>

datatype pyval =
    VNone
  | VBool bool
  | VInt int
  | VFloat rat
  | VNan
  | VInf bool
  | VDec dec
  | VStr string
  | VDate pydate
  | VList "pyval list"
  | VDict "(string \<times> pyval) list"

fun truthy :: "pyval \<Rightarrow> bool" where
  "truthy VNone = False"
| "truthy (VBool b) = b"
| "truthy (VInt i) = (i \<noteq> 0)"
| "truthy (VFloat x) = (x \<noteq> 0)"
| "truthy VNan = True"
| "truthy (VInf s) = True"
| "truthy (VDec d) = (\<not> dec_is_zero d)"
| "truthy (VStr s) = (s \<noteq> [])"
| "truthy (VDate d) = True"
| "truthy (VList xs) = (xs \<noteq> [])"
| "truthy (VDict kvs) = (kvs \<noteq> [])"

definition py_or :: "pyval \<Rightarrow> pyval \<Rightarrow> pyval" where
  "py_or a b = (if truthy a then a else b)"

definition is_dict :: "pyval \<Rightarrow> bool" where
  "is_dict v = (case v of VDict _ \<Rightarrow> True | _ \<Rightarrow> False)"

definition is_list :: "pyval \<Rightarrow> bool" where
  "is_list v = (case v of VList _ \<Rightarrow> True | _ \<Rightarrow> False)"

definition get_or :: "(string \<times> pyval) list \<Rightarrow> string \<Rightarrow> pyval \<Rightarrow> pyval" where
  "get_or kvs k dflt = (case map_of kvs k of Some v \<Rightarrow> v | None \<Rightarrow> dflt)"

definition py_get_or :: "pyval \<Rightarrow> string \<Rightarrow> pyval \<Rightarrow> pyval result" where
  "py_get_or v k dflt = (case v of VDict kvs \<Rightarrow> Inr (get_or kvs k dflt) | _ \<Rightarrow> Inl AttributeError)"

definition py_get :: "pyval \<Rightarrow> string \<Rightarrow> pyval result" where
  "py_get v k = py_get_or v k VNone"

text \<open>\<open>v[k]\<close>.\<close>

definition py_index :: "pyval \<Rightarrow> string \<Rightarrow> pyval result" where
  "py_index v k = (case v of
       VDict kvs \<Rightarrow> (case map_of kvs k of Some x \<Rightarrow> Inr x | None \<Rightarrow> Inl (KeyError k))
     | _ \<Rightarrow> Inl TypeError)"

fun py_path :: "pyval \<Rightarrow> string list \<Rightarrow> pyval result" where
  "py_path v [] = Inr v"
| "py_path v (k # ks) = rbind (py_index v k) (\<lambda>x. py_path x ks)"

text \<open>Iteration over a value: a list gives its items, a dictionary its keys, a string its characters.\<close>

fun py_iter :: "pyval \<Rightarrow> pyval list result" where
  "py_iter (VList xs) = Inr xs"
| "py_iter (VDict kvs) = Inr (map (VStr \<circ> fst) kvs)"
| "py_iter (VStr s) = Inr (map (\<lambda>c. VStr [c]) s)"
| "py_iter _ = Inl TypeError"

section \<open>The shortest decimal of a float\<close>

definition decimal_point :: "rat \<Rightarrow> int" where
  "decimal_point v =
     (let (n, d) = quotient_of v; k = ndigits (nat n) - ndigits (nat d)
      in if 10 powi k \<le> v then k + 1 else k)"

fun shortest_digits :: "nat list \<Rightarrow> int \<Rightarrow> rat \<Rightarrow> int \<times> int" where
  "shortest_digits [] p v = (\<lfloor>v\<rfloor>, 0)"
| "shortest_digits (k # ks) p v =
     (let s = 10 powi (p - int k); lo = \<lfloor>v / s\<rfloor>;
          okl = f64 (of_int lo * s) = v; okh = f64 (of_int (lo + 1) * s) = v;
          nearer_lo = (v / s - of_int lo \<le> 1 / 2)
      in if okl \<and> (nearer_lo \<or> \<not> okh) then (lo, p - int k)
         else if okh then (lo + 1, p - int k)
         else shortest_digits ks p v)"

fun drop_trailing_zeros :: "string \<Rightarrow> string" where
  "drop_trailing_zeros s = rev (dropWhile (\<lambda>c. c = CHR ''0'') (rev s))"

definition zeros :: "int \<Rightarrow> string" where "zeros n = replicate (nat n) (CHR ''0'')"

definition float_repr :: "rat \<Rightarrow> string" where
  "float_repr x =
     (if x = 0 then ''0.0''
      else
        let v = \<bar>x\<bar>; (m, e) = shortest_digits [1..<18] (decimal_point v) v;
            full = nat_to_str (nat m); ds = drop_trailing_zeros full;
            p = int (length full) + e; n = int (length ds);
            body = (if -4 < p \<and> p \<le> 16 then
                      (if p \<le> 0 then ''0.'' @ zeros (- p) @ ds
                       else if n \<le> p then ds @ zeros (p - n) @ ''.0''
                       else take (nat p) ds @ ''.'' @ drop (nat p) ds)
                    else take 1 ds @ (if n = 1 then '''' else ''.'' @ drop 1 ds) @ ''e''
                         @ (if p - 1 < 0 then ''-'' else ''+'') @ zfill 2 (nat_to_str (nat \<bar>p - 1\<bar>)))
        in (if x < 0 then ''-'' else '''') @ body)"

section \<open>\<open>str\<close> and \<open>repr\<close>\<close>

definition quote_char :: char where "quote_char = char_of (39::nat)"
definition dquote_char :: char where "dquote_char = char_of (34::nat)"
definition backslash :: char where "backslash = char_of (92::nat)"

definition hex_char :: "nat \<Rightarrow> char" where
  "hex_char d = (if d < 10 then digit_char d else char_of (87 + d))"

definition repr_char :: "char \<Rightarrow> char \<Rightarrow> string" where
  "repr_char q c =
     (let n = (of_char c :: nat) in
      if c = q \<or> c = backslash then [backslash, c]
      else if n = 10 then [backslash, CHR ''n''] else if n = 13 then [backslash, CHR ''r'']
      else if n = 9 then [backslash, CHR ''t'']
      else if n < 32 \<or> n = 127 then [backslash, CHR ''x'', hex_char (n div 16), hex_char (n mod 16)]
      else [c])"

definition repr_str :: "string \<Rightarrow> string" where
  "repr_str s =
     (let q = (if quote_char \<in> set s \<and> dquote_char \<notin> set s then dquote_char else quote_char)
      in q # concat (map (repr_char q) s) @ [q])"

definition date_repr :: "pydate \<Rightarrow> string" where
  "date_repr d = ''datetime.date('' @ nat_to_str (dyear d) @ '', '' @ nat_to_str (dmonth d) @ '', ''
                 @ nat_to_str (dday d) @ '')''"

fun py_repr :: "pyval \<Rightarrow> string" where
  "py_repr VNone = ''None''"
| "py_repr (VBool b) = (if b then ''True'' else ''False'')"
| "py_repr (VInt i) = int_to_str i"
| "py_repr (VFloat x) = float_repr x"
| "py_repr VNan = ''nan''"
| "py_repr (VInf s) = (if s then ''-inf'' else ''inf'')"
| "py_repr (VDec d) = ''Decimal('' @ repr_str (dec_str d) @ '')''"
| "py_repr (VStr s) = repr_str s"
| "py_repr (VDate d) = date_repr d"
| "py_repr (VList xs) = ''['' @ py_join '', '' (map py_repr xs) @ '']''"
| "py_repr (VDict kvs) = ''{'' @ py_join '', '' (map (\<lambda>(k, v). repr_str k @ '': '' @ py_repr v) kvs) @ ''}''"

fun py_str :: "pyval \<Rightarrow> string" where
  "py_str (VStr s) = s"
| "py_str (VDec d) = dec_str d"
| "py_str (VDate d) = isoformat d"
| "py_str v = py_repr v"

section \<open>\<open>int\<close>\<close>

fun py_int :: "pyval \<Rightarrow> int result" where
  "py_int (VBool b) = Inr (if b then 1 else 0)"
| "py_int (VInt i) = Inr i"
| "py_int (VFloat x) = Inr (float_trunc x)"
| "py_int VNan = Inl (ValueError ''cannot convert float NaN to integer'')"
| "py_int (VInf s) = Inl OverflowError"
| "py_int (VDec d) = dec_to_int d"
| "py_int (VStr s) = int_of_str s"
| "py_int _ = Inl TypeError"

text \<open>\<open>"sep".join(xs)\<close> over values wants strings.\<close>

fun str_items :: "pyval list \<Rightarrow> string list result" where
  "str_items [] = Inr []"
| "str_items (VStr s # xs) = rbind (str_items xs) (\<lambda>ss. Inr (s # ss))"
| "str_items (_ # xs) = Inl TypeError"

section \<open>Facts\<close>

lemma py_or_truthy [simp]: "truthy a \<Longrightarrow> py_or a b = a" "\<not> truthy a \<Longrightarrow> py_or a b = b"
  by (simp_all add: py_or_def)

lemma py_get_dict [simp]: "py_get (VDict kvs) k = Inr (get_or kvs k VNone)"
  by (simp add: py_get_def py_get_or_def)

lemma py_get_or_dict [simp]: "py_get_or (VDict kvs) k d = Inr (get_or kvs k d)"
  by (simp add: py_get_or_def)

lemma get_or_Cons [simp]: "get_or ((k', v) # kvs) k d = (if k' = k then v else get_or kvs k d)"
  by (simp add: get_or_def)

lemma get_or_Nil [simp]: "get_or [] k d = d"
  by (simp add: get_or_def)

lemma get_or_dict_set [simp]: "get_or (dict_set k v kvs) k' d = (if k = k' then v else get_or kvs k' d)"
  by (simp add: get_or_def map_of_dict_set)

end
