(* ===== verification/Money.thy ===== *)
theory Money
  imports Py_Value
begin

text \<open>
  \<open>core/money.py\<close>: amounts are integer paise; a rupee amount arrives as a number or as text and is
  parsed as a decimal. The lemmas give the value of the conversion for every amount below
  \<open>10 ^ 25\<close> rupees in both precision modes, and the round trip through the printed rupee amount.
\<close>

section \<open>Definitions\<close>

text \<open>The rupee sign U+20B9 in UTF-8.\<close>

definition rupee_sign :: string where
  "rupee_sign = [char_of (226::nat), char_of (130::nat), char_of (185::nat)]"

fun bool_or_none :: "pyval \<Rightarrow> bool" where
  "bool_or_none VNone = True"
| "bool_or_none (VBool b) = True"
| "bool_or_none _ = False"

definition clean_amount :: "string \<Rightarrow> string" where
  "clean_amount s = py_replace rupee_sign [] (py_remove_char (CHR '','') (py_strip s))"

definition parse_decimal :: "pyval \<Rightarrow> dec result" where
  "parse_decimal v =
     (if bool_or_none v then Inl (MoneyParseError ''Money value is missing or invalid'')
      else case dec_of_str (clean_amount (py_str v)) of
        Inl e \<Rightarrow> (if e = InvalidOperation \<or> is_value_error e
                  then Inl (MoneyParseError ''Money value is invalid'') else Inl e)
      | Inr amount \<Rightarrow> (if \<not> dec_is_finite amount then Inl (MoneyParseError ''Money value must be finite'')
                      else Inr amount))"

definition quantized_paise :: "dec \<Rightarrow> int result" where
  "quantized_paise amount =
     rbind (dec_quantize_paise HalfUp amount) (\<lambda>q.
     rbind (dec_mul q (dec_of_int 100)) (\<lambda>p. dec_to_int (dec_to_integral_exact p)))"

definition rupees_to_paise :: "bool \<Rightarrow> pyval \<Rightarrow> int result" where
  "rupees_to_paise strict_precision v =
     rbind (parse_decimal v) (\<lambda>amount.
     rbind (if strict_precision then rbind (dec_quantize_paise HalfEven amount) (\<lambda>q. Inr (\<not> dec_eq amount q))
            else Inr False) (\<lambda>imprecise.
     if imprecise then Inl (MoneyParseError ''Money value has more than two decimal places'')
     else quantized_paise amount))"

definition paise_to_decimal :: "pyval \<Rightarrow> dec result" where
  "paise_to_decimal v =
     (case v of
        VInt n \<Rightarrow> rbind (dec_div_int (dec_of_int n) 100) (\<lambda>d. dec_quantize_paise HalfEven d)
      | _ \<Rightarrow> Inl (MoneyParseError ''Paise must be an integer''))"

text \<open>The trailing \<open>Dr\<close> or \<open>Cr\<close> of a bank statement amount overrides the marker column.\<close>

fun signed_suffix :: "string list \<Rightarrow> string \<Rightarrow> string \<Rightarrow> string \<times> string" where
  "signed_suffix [] suffix t = (suffix, t)"
| "signed_suffix (candidate # cs) suffix t =
     (if py_endswith (py_upper t) candidate then (candidate, py_strip (take (length t - 2) t))
      else signed_suffix cs suffix t)"

definition parse_signed_amount :: "pyval \<Rightarrow> string option \<Rightarrow> int result" where
  "parse_signed_amount v marker =
     (let t = py_strip (py_str v);
          suffix0 = py_upper (py_strip (case marker of None \<Rightarrow> '''' | Some m \<Rightarrow> m));
          (suffix, t') = signed_suffix [''DR'', ''CR''] suffix0 t
      in rbind (rupees_to_paise True (VStr t')) (\<lambda>n. Inr (if suffix = ''DR'' then - \<bar>n\<bar> else \<bar>n\<bar>)))"

definition currency_precision :: "string \<Rightarrow> int" where
  "currency_precision currency = (if py_upper currency \<in> {''JPY'', ''KRW''} then 0 else 2)"

section \<open>The scaled coefficient\<close>

lemma ten_powi_nat: "0 \<le> e \<Longrightarrow> (10::rat) powi e = of_nat (10 ^ nat e)"
  by (simp add: power_int_def)

lemma ten_powi_neg: "e \<le> 0 \<Longrightarrow> (10::rat) powi e = 1 / of_nat (10 ^ nat (- e))"
  by (cases "e = 0") (simp_all add: power_int_def inverse_eq_divide power_one_over)

lemma powi_shift2: "(10::rat) powi e * 100 = 10 powi (e + 2)"
  by (simp add: power_int_add)

lemma paise_value_whole:
  assumes "-2 \<le> e"
  shows "of_nat c * 10 powi e * (100::rat) = of_nat (c * 10 ^ nat (e + 2))"
proof -
  have "of_nat c * 10 powi e * (100::rat) = of_nat c * 10 powi (e + 2)" by (simp add: powi_shift2 mult.assoc)
  also have "\<dots> = of_nat (c * 10 ^ nat (e + 2))" using assms by (simp add: ten_powi_nat)
  finally show ?thesis .
qed

lemma paise_value_fraction:
  assumes "e < -2"
  shows "of_nat c * 10 powi e * (100::rat) = of_nat c / of_nat (10 ^ nat (-2 - e))"
proof -
  have "of_nat c * 10 powi e * (100::rat) = of_nat c * 10 powi (e + 2)" by (simp add: powi_shift2 mult.assoc)
  also have "\<dots> = of_nat c / of_nat (10 ^ nat (- (e + 2)))" using assms by (simp add: ten_powi_neg)
  also have "- (e + 2) = -2 - e" by simp
  finally show ?thesis .
qed

lemma round_div_HalfUp_floor:
  assumes "0 < p"
  shows "int (round_div HalfUp c p) = \<lfloor>(of_nat c / of_nat p :: rat) + 1/2\<rfloor>"
proof -
  define q r where "q = c div p" and "r = c mod p"
  have c: "c = q * p + r" by (simp add: q_def r_def)
  have r: "r < p" using assms by (simp add: r_def)
  have eq: "(of_nat c / of_nat p :: rat) = of_nat q + of_nat r / of_nat p"
    using assms by (simp add: c field_simps)
  have half: "(of_nat r / of_nat p :: rat) < 1 / 2 \<longleftrightarrow> 2 * r < p"
    using assms of_nat_less_iff [of "2 * r" p, where 'a = rat] by (simp add: field_simps)
  have pos: "0 \<le> (of_nat r / of_nat p :: rat)" "(of_nat r / of_nat p :: rat) < 1"
    using assms r by simp_all
  show ?thesis
  proof (cases "2 * r < p")
    case True
    then have "(of_nat r / of_nat p :: rat) < 1 / 2" by (rule iffD2 [OF half])
    then have "\<lfloor>(of_nat c / of_nat p :: rat) + 1/2\<rfloor> = int q"
      using pos unfolding eq by (intro floor_unique) (simp, linarith)
    then show ?thesis using True by (simp add: round_div_def q_def r_def)
  next
    case False
    then have "1 / 2 \<le> (of_nat r / of_nat p :: rat)" using half by linarith
    then have "\<lfloor>(of_nat c / of_nat p :: rat) + 1/2\<rfloor> = int (q + 1)"
      using pos unfolding eq by (intro floor_unique) (simp only: of_int_of_nat_eq of_nat_add of_nat_1, linarith)+
    then show ?thesis using False by (simp add: round_div_def Let_def q_def r_def)
  qed
qed

lemma rescale_HalfUp_floor:
  "int (rescale HalfUp c e (-2)) = \<lfloor>of_nat c * 10 powi e * (100::rat) + 1/2\<rfloor>"
proof (cases "-2 \<le> e")
  case True
  then have "\<lfloor>of_nat c * 10 powi e * (100::rat) + 1/2\<rfloor> = int (c * 10 ^ nat (e + 2))"
    unfolding paise_value_whole [OF True] by (intro floor_unique) auto
  then show ?thesis using True by (simp add: rescale_def)
next
  case False
  then have "e < -2" by simp
  then show ?thesis
    using round_div_HalfUp_floor [of "10 ^ nat (-2 - e)" c] by (simp add: rescale_def paise_value_fraction)
qed

lemma rescale_exact_iff:
  "of_nat (rescale mode c e (-2)) = of_nat c * 10 powi e * (100::rat) \<longleftrightarrow> of_nat c * 10 powi e * (100::rat) \<in> \<int>"
proof (cases "-2 \<le> e")
  case True
  then have "of_nat c * 10 powi e * (100::rat) \<in> \<int>"
    unfolding paise_value_whole [OF True] by (metis Ints_of_nat)
  moreover have "of_nat (rescale mode c e (-2)) = of_nat c * 10 powi e * (100::rat)"
    unfolding paise_value_whole [OF True] using True by (simp add: rescale_def)
  ultimately show ?thesis by simp
next
  case False
  define p :: nat where "p = 10 ^ nat (-2 - e)"
  have p: "0 < p" by (simp add: p_def)
  have v: "of_nat c * 10 powi e * (100::rat) = of_nat c / of_nat p"
    using False unfolding p_def by (intro paise_value_fraction) simp
  have rs: "rescale mode c e (-2) = round_div mode c p" using False by (simp add: rescale_def p_def)
  show ?thesis unfolding v rs
  proof
    assume "of_nat (round_div mode c p) = (of_nat c / of_nat p :: rat)"
    then show "(of_nat c / of_nat p :: rat) \<in> \<int>" by (metis Ints_of_nat)
  next
    assume "(of_nat c / of_nat p :: rat) \<in> \<int>"
    then obtain z where z: "(of_nat c / of_nat p :: rat) = of_int z" by (auto elim: Ints_cases)
    then have "0 \<le> (of_int z :: rat)" by (metis divide_nonneg_nonneg of_nat_0_le_iff)
    then obtain k where k: "z = int k" by (metis of_int_0_le_iff nonneg_int_cases)
    have "(of_nat c :: rat) = of_nat (k * p)" using z p by (simp add: k field_simps)
    then have "c = k * p" by (simp only: of_nat_eq_iff)
    then show "of_nat (round_div mode c p) = (of_nat c / of_nat p :: rat)"
      using p by (simp add: round_div_exact)
  qed
qed

section \<open>Quantizing and scaling\<close>

lemma ndigits_upper:
  assumes "0 < c" and "of_nat c * 10 powi e < (10::rat) powi k"
  shows "e + ndigits c \<le> k"
proof (rule ccontr)
  assume "\<not> e + ndigits c \<le> k"
  then have k: "k - e \<le> ndigits c - 1" by simp
  have n1: "1 \<le> ndigits c" using ndigits_pos [of c] by simp
  have low: "10 ^ nat (ndigits c - 1) \<le> c"
  proof (cases "ndigits c = 1")
    case True
    then show ?thesis using assms(1) by simp
  next
    case False
    then have "0 < nat (ndigits c - 1)" using n1 by simp
    then have "ndigits c \<le> int (nat (ndigits c - 1)) \<longleftrightarrow> c < 10 ^ nat (ndigits c - 1)" by (rule ndigits_le_iff)
    then show ?thesis using n1 by simp
  qed
  have "(10::rat) powi (k - e) \<le> 10 powi (ndigits c - 1)" using k by (intro power_int_increasing) auto
  also have "\<dots> = of_nat (10 ^ nat (ndigits c - 1))" using n1 by (intro ten_powi_nat) simp
  also have "\<dots> \<le> of_nat c" using low by (simp only: of_nat_le_iff)
  finally have "(10::rat) powi (k - e) * 10 powi e \<le> of_nat c * 10 powi e"
    by (intro mult_right_mono) auto
  then have "(10::rat) powi k \<le> of_nat c * 10 powi e"
    by (simp flip: power_int_add)
  then show False using assms(2) by simp
qed

lemma quantize_paise_bounded:
  assumes "of_nat c * 10 powi e < (10::rat) ^ 25"
  shows "dec_quantize_paise mode (DFin s c e) = Inr (DFin s (rescale mode c e (-2)) (-2))"
    and "rescale mode c e (-2) < 10 ^ 28"
proof -
  have bound: "rescale mode c e (-2) \<le> 10 ^ 27"
  proof (cases "-2 \<le> e")
    case True
    have "of_nat (c * 10 ^ nat (e + 2)) < (10::rat) ^ 25 * 100"
      using assms unfolding paise_value_whole [OF True, symmetric] by simp
    then have "of_nat (c * 10 ^ nat (e + 2)) < (of_nat (10 ^ 27) :: rat)" by simp
    then have "c * 10 ^ nat (e + 2) < 10 ^ 27" by (simp only: of_nat_less_iff)
    then show ?thesis using True by (simp add: rescale_def)
  next
    case False
    define p :: nat where "p = 10 ^ nat (-2 - e)"
    have p: "0 < p" by (simp add: p_def)
    have "of_nat c * 10 powi e * (100::rat) = of_nat c / of_nat p"
      using False unfolding p_def by (intro paise_value_fraction) simp
    then have "of_nat c / of_nat p < (10::rat) ^ 25 * 100" using assms by simp
    then have "of_nat c < (of_nat (10 ^ 27 * p) :: rat)" using p by (simp add: field_simps)
    then have "c < 10 ^ 27 * p" by (simp only: of_nat_less_iff)
    then have "c div p < 10 ^ 27" using p by (simp add: div_less_iff_less_mult)
    then have "round_div mode c p \<le> 10 ^ 27" by (auto simp: round_div_def Let_def split: rounding.split)
    then show ?thesis using False by (simp add: rescale_def p_def)
  qed
  then show lt: "rescale mode c e (-2) < 10 ^ 28" by (rule order_le_less_trans) simp
  then have nd: "\<not> ndigits (rescale mode c e (-2)) > ctx_prec"
    using ndigits_le_28 [of "rescale mode c e (-2)"] by (simp add: ctx_prec_def)
  show "dec_quantize_paise mode (DFin s c e) = Inr (DFin s (rescale mode c e (-2)) (-2))"
  proof (cases "c = 0")
    case True
    have "rescale mode 0 e (-2) = 0" by (auto simp: rescale_def round_div_def split: rounding.split)
    then show ?thesis using True by (simp add: dec_quantize_paise_def)
  next
    case False
    have "of_nat c * 10 powi e < (10::rat) powi 25" using assms by simp
    then have "e + ndigits c \<le> 25" using False by (intro ndigits_upper) auto
    then show ?thesis using False nd
      by (simp add: dec_quantize_paise_def ctx_emax_def ctx_prec_def Let_def)
  qed
qed

text \<open>A coefficient of up to 28 digits at two places, scaled by 100: the product has up to 30 digits
  and is rounded to the context, but the digits lost are zeros.\<close>

lemma scaled_to_int:
  assumes "c < 10 ^ 28"
  shows "rbind (dec_mul (DFin s c (-2)) (dec_of_int 100)) (\<lambda>p. dec_to_int (dec_to_integral_exact p))
         = Inr (signed_coeff s c)"
proof -
  have mul: "dec_mul (DFin s c (-2)) (dec_of_int 100) = dec_fix (DFin s (c * 100) (-2))"
    by (simp add: dec_of_int_def del: dec_fix.simps)
  have unscaled: "dec_to_int (dec_to_integral_exact (DFin s (c * 10 ^ k) (- int k))) = Inr (signed_coeff s c)" for k
  proof (cases "k = 0")
    case True
    then show ?thesis by (simp add: dec_to_int_def dec_to_integral_exact_def)
  next
    case False
    then show ?thesis
      by (simp add: dec_to_int_def dec_to_integral_exact_def rescale_def round_div_exact)
  qed
  consider (small) "c * 100 < 10 ^ 28" | (big) "10 ^ 28 \<le> c * 100" by linarith
  then show ?thesis
  proof cases
    case small
    then have "dec_fix (DFin s (c * 100) (-2)) = Inr (DFin s (c * 10 ^ 2) (- int 2))"
      by (subst dec_fix_id) (simp_all add: ctx_etiny_def ctx_etop_def)
    then show ?thesis unfolding mul using unscaled [of 2] by simp
  next
    case big
    then have c0: "0 < c" by (cases c) auto
    define m where "m = ndigits c - 28"
    have nd: "ndigits (c * 100) = ndigits c + 2" by (rule ndigits_times_100 [OF c0])
    have "28 < ndigits (c * 100)" using big by (simp only: ndigits_gt_28)
    moreover have le: "ndigits c \<le> 28" using assms by (simp only: ndigits_le_28)
    ultimately have "m = -1 \<or> m = 0" using nd by (auto simp: m_def)
    then obtain k :: nat where k: "m = - int k" "k \<le> 1"
      by (metis One_nat_def add.inverse_neutral le0 le_refl of_nat_0 of_nat_1)
    have split: "c * 100 = (c * 10 ^ k) * 10 ^ nat (m + 2)" using k by (cases "k = 0") (auto simp: le_Suc_eq)
    have rd: "round_div HalfEven (c * 100) (10 ^ nat (m + 2)) = c * 10 ^ k"
      unfolding split by (rule round_div_exact) simp
    have "ndigits (c * 10 ^ k) \<le> 28"
    proof -
      have "nat_to_str (d * 10) = nat_to_str d @ [digit_char 0]" if "0 < d" for d :: nat
        using that by (subst nat_to_str.simps) simp
      then have "ndigits (c * 10) = ndigits c + 1" using c0 by (simp add: ndigits_def)
      then show ?thesis using k le by (cases "k = 0") (auto simp: m_def le_Suc_eq)
    qed
    then have "dec_fix (DFin s (c * 100) (-2)) = Inr (DFin s (c * 10 ^ k) (- int k))"
      using c0 k rd nd
      by (simp add: Let_def m_def ctx_prec_def ctx_etop_def ctx_etiny_def algebra_simps)
    then show ?thesis unfolding mul using unscaled [of k] by simp
  qed
qed

lemma quantized_paise_bounded:
  assumes "of_nat c * 10 powi e < (10::rat) ^ 25"
  shows "quantized_paise (DFin s c e) = Inr (signed_coeff s (rescale HalfUp c e (-2)))"
  unfolding quantized_paise_def quantize_paise_bounded(1) [OF assms, of HalfUp s]
  using scaled_to_int [OF quantize_paise_bounded(2) [OF assms, of HalfUp], of s] by simp

section \<open>Paise back to rupees\<close>

lemma strip_zeros_spec:
  "strip_zeros k c = (c', n) \<Longrightarrow> c = c' * 10 ^ n \<and> n \<le> k \<and> (\<forall>j\<le>k. 10 ^ j dvd c \<longrightarrow> c \<noteq> 0 \<longrightarrow> j \<le> n)"
proof (induction k c arbitrary: c' n rule: strip_zeros.induct)
  case (1 c)
  then show ?case by simp
next
  case (2 k c)
  show ?case
  proof (cases "c mod 10 = 0")
    case False
    have "j = 0" if "10 ^ j dvd c" for j
    proof (rule ccontr)
      assume "j \<noteq> 0"
      then have "10 dvd (10::nat) ^ j" by simp
      then have "10 dvd c" using that by (rule dvd_trans)
      then show False using False by (simp add: dvd_eq_mod_eq_0)
    qed
    then show ?thesis using 2 False by auto
  next
    case True
    obtain c1 n1 where s: "strip_zeros k (c div 10) = (c1, n1)" by fastforce
    have r: "c' = c1" "n = Suc n1" using "2.prems" True s by auto
    have ih: "c div 10 = c1 * 10 ^ n1" "n1 \<le> k" "\<forall>j\<le>k. 10 ^ j dvd c div 10 \<longrightarrow> c div 10 \<noteq> 0 \<longrightarrow> j \<le> n1"
      using "2.IH" [OF True s] by auto
    have c: "c = c div 10 * 10" using True by (simp add: mod_eq_0_iff_dvd)
    have "j \<le> n" if "j \<le> Suc k" "10 ^ j dvd c" "c \<noteq> 0" for j
    proof (cases j)
      case (Suc i)
      have "10 ^ i dvd c div 10"
        using that(2) c unfolding Suc by (metis dvd_times_right_cancel_iff mult.commute power_Suc zero_neq_numeral)
      then show ?thesis using ih(3) that Suc r c by auto
    qed simp
    then show ?thesis using ih r c by simp
  qed
qed

lemma div_100_of_int:
  assumes "0 < a" "a < 10 ^ 28"
  obtains c e where "dec_div_int (DFin s a 0) 100 = Inr (DFin s c e)" and "-2 \<le> e" "e \<le> 0" "c * 10 ^ nat (e + 2) = a"
proof -
  define sh where "sh = nat (32 - ndigits a)"
  have nd: "ndigits a \<le> 28" using assms(2) by (simp only: ndigits_le_28)
  have nd100: "ndigits 100 = 3" by (simp add: ndigits_def nat_to_str.simps)
  have shift: "ndigits 100 - ndigits a + ctx_prec + 1 = int sh" using nd by (simp add: sh_def nd100 ctx_prec_def)
  have sh: "4 \<le> sh" using nd by (simp add: sh_def)
  have num: "a * 10 ^ sh = (a * 10 ^ (sh - 2)) * 100"
  proof -
    have "sh = (sh - 2) + 2" using sh by simp
    then have "(10::nat) ^ sh = 10 ^ (sh - 2) * 10 ^ 2" by (metis power_add)
    then show ?thesis by simp
  qed
  obtain q n where st: "strip_zeros sh (a * 10 ^ (sh - 2)) = (q, n)" by fastforce
  have sp: "a * 10 ^ (sh - 2) = q * 10 ^ n" "n \<le> sh" "sh - 2 \<le> n"
  proof -
    have "10 ^ (sh - 2) dvd a * 10 ^ (sh - 2)" "a * 10 ^ (sh - 2) \<noteq> 0" "sh - 2 \<le> sh" using assms(1) by simp_all
    then show "a * 10 ^ (sh - 2) = q * 10 ^ n" "n \<le> sh" "sh - 2 \<le> n" using strip_zeros_spec [OF st] by blast+
  qed
  have "q * 10 ^ (n - (sh - 2)) * 10 ^ (sh - 2) = a * 10 ^ (sh - 2)"
    using sp by (simp add: mult.assoc flip: power_add)
  then have qa: "q * 10 ^ (n - (sh - 2)) = a" by simp
  have "q \<le> q * 10 ^ (n - (sh - 2))" by simp
  then have q: "q < 10 ^ 28" using qa assms(2) by (metis order_le_less_trans)
  have nt: "nat (int n - int sh + 2) = n - (sh - 2)" using sp sh by simp
  have div: "dec_div_int (DFin s a 0) 100 = dec_fix (DFin s q (int n - int sh))"
    using assms(1) st unfolding dec_div_int_def Let_def shift dec.case
    by (simp add: num shift del: dec_fix.simps)
  also have "\<dots> = Inr (DFin s q (int n - int sh))"
    using sp sh by (intro dec_fix_id [OF q]) (simp_all add: ctx_etiny_def ctx_etop_def)
  finally have eq: "dec_div_int (DFin s a 0) 100 = Inr (DFin s q (int n - int sh))" .
  show ?thesis
  proof (rule that [OF eq])
    show "-2 \<le> int n - int sh" "int n - int sh \<le> 0" using sp(2,3) sh by linarith+
    show "q * 10 ^ nat (int n - int sh + 2) = a" unfolding nt by (rule qa)
  qed
qed

lemma paise_to_decimal_value:
  assumes "\<bar>n\<bar> < 10 ^ 28"
  shows "paise_to_decimal (VInt n) = Inr (DFin (n < 0) (nat \<bar>n\<bar>) (-2))"
proof (cases "n = 0")
  case True
  then show ?thesis
    by (simp add: paise_to_decimal_def dec_of_int_def dec_div_int_def dec_quantize_paise_def ctx_etiny_def ctx_emax_def)
next
  case False
  define a where "a = nat \<bar>n\<bar>"
  have a: "0 < a" "a < 10 ^ 28" using False assms by (simp_all add: a_def nat_less_iff)
  obtain c e where d: "dec_div_int (DFin (n < 0) a 0) 100 = Inr (DFin (n < 0) c e)"
    and e: "-2 \<le> e" "e \<le> 0" and ca: "c * 10 ^ nat (e + 2) = a"
    using div_100_of_int [OF a] .
  have c0: "0 < c" using ca a by (cases c) auto
  have "of_nat c * 10 powi e * (100::rat) = of_nat a" using paise_value_whole [OF e(1), of c] ca by simp
  moreover have "(of_nat a :: rat) < of_nat (10 ^ 28)" using a(2) by (simp only: of_nat_less_iff)
  ultimately have "of_nat c * 10 powi e < (10::rat) powi 26" by simp
  then have "e + ndigits c \<le> 26" using c0 by (intro ndigits_upper)
  moreover have "rescale HalfEven c e (-2) = a" using e ca by (simp add: rescale_def)
  moreover have "\<not> ndigits a > ctx_prec" using a(2) ndigits_le_28 [of a] by (simp add: ctx_prec_def)
  ultimately have "dec_quantize_paise HalfEven (DFin (n < 0) c e) = Inr (DFin (n < 0) a (-2))"
    using c0 by (simp add: dec_quantize_paise_def ctx_emax_def ctx_prec_def Let_def)
  moreover have "dec_of_int n = DFin (n < 0) a 0" by (simp add: dec_of_int_def a_def)
  ultimately show ?thesis using d by (simp add: paise_to_decimal_def a_def)
qed

section \<open>The printed amount reads back\<close>

lemma digits_acc_zeros: "digits_acc 0 (replicate k (CHR ''0'') @ s) = digits_acc 0 s"
  by (induction k) (simp_all add: digit_val_def)

lemma dec_str_paise:
  obtains ip fp where "dec_str (DFin s a (-2)) = (if s then ''-'' else '''') @ ip @ CHR ''.'' # fp"
    and "ip \<noteq> []" "list_all is_digit ip" "length fp = 2" "list_all is_digit fp" "digits_to_nat (ip @ fp) = a"
proof -
  let ?ds = "nat_to_str a"
  let ?n = "length ?ds"
  have d0: "is_digit (CHR ''0'')" by (simp add: is_digit_def)
  have la: "list_all is_digit (take k ?ds)" "list_all is_digit (drop k ?ds)" for k
    using nat_to_str_digits [of a] by (auto simp: list_all_iff dest: in_set_takeD in_set_dropD)
  show thesis
  proof (cases "?n \<le> 2")
    case True
    have n: "0 < ?n" by simp
    show thesis
    proof (rule that [of "''0''" "replicate (2 - ?n) (CHR ''0'') @ ?ds"])
      have "dec_str (DFin s a (-2)) = (if s then ''-'' else '''') @ ''0.'' @ replicate (nat (2 - int ?n)) (CHR ''0'') @ ?ds"
        using True n by (simp add: Let_def)
      also have "nat (2 - int ?n) = 2 - ?n" by simp
      finally show "dec_str (DFin s a (-2)) = (if s then ''-'' else '''') @ ''0'' @ CHR ''.'' # replicate (2 - ?n) (CHR ''0'') @ ?ds"
        by simp
      show "digits_to_nat (''0'' @ replicate (2 - ?n) (CHR ''0'') @ ?ds) = a"
        using digits_acc_zeros [of "Suc (2 - ?n)" ?ds] digits_nat_to_str [of a] by (simp add: digits_to_nat_def)
      show "length (replicate (2 - ?n) (CHR ''0'') @ ?ds) = 2" using True by simp
    qed (use d0 nat_to_str_digits [of a] in \<open>auto simp: list_all_iff\<close>)
  next
    case False
    then have "dec_str (DFin s a (-2)) = (if s then ''-'' else '''') @ take (?n - 2) ?ds @ CHR ''.'' # drop (?n - 2) ?ds"
      by (simp add: Let_def nat_diff_distrib')
    then show thesis using False la by (intro that [of "take (?n - 2) ?ds" "drop (?n - 2) ?ds"]) auto
  qed
qed

definition money_char :: "char \<Rightarrow> bool" where
  "money_char c = (is_digit c \<or> c = CHR ''.'' \<or> c = CHR ''-'')"

lemma clean_amount_money: "list_all money_char s \<Longrightarrow> clean_amount s = s"
proof -
  assume m: "list_all money_char s"
  have ns: "\<not> is_space c \<and> c \<noteq> CHR '','' \<and> c \<noteq> char_of (226::nat)" if "money_char c" for c
  proof -
    have "(of_char c :: nat) \<le> 57" using that by (auto simp: money_char_def is_digit_def)
    then have "c \<noteq> char_of (226::nat)" by auto
    then show ?thesis using that by (auto simp: money_char_def is_space_def is_digit_def)
  qed
  have st: "py_strip s = s" using m ns by (intro strip_all_nonspace) (auto simp: list_all_iff)
  have rm: "py_remove_char (CHR '','') s = s"
    using m ns by (auto simp: py_remove_char_def list_all_iff intro!: filter_True)
  have "py_replace rupee_sign [] u = u" if "list_all money_char u" for u
    using that
  proof (induction u)
    case (Cons c u)
    then have "c \<noteq> char_of (226::nat)" using ns by simp
    then show ?case using Cons by (simp add: rupee_sign_def)
  qed simp
  then show ?thesis using m by (simp add: clean_amount_def st rm)
qed

lemma span_digits_append:
  "list_all is_digit ds \<Longrightarrow> rest = [] \<or> \<not> is_digit (hd rest) \<Longrightarrow> span_digits (ds @ rest) = (ds, rest)"
  by (induction ds) (cases rest; simp)+

lemma parse_unsigned_fixed:
  assumes "ip \<noteq> []" "list_all is_digit ip" "length fp = 2" "list_all is_digit fp" "digits_to_nat (ip @ fp) < 10 ^ 28"
  shows "parse_unsigned s (ip @ CHR ''.'' # fp) = Some (DFin s (digits_to_nat (ip @ fp)) (-2))"
proof -
  obtain c cs where ip: "ip = c # cs" using assms(1) by (cases ip) auto
  have c: "is_digit c" using assms(2) ip by simp
  then have low: "lower_char c = c" by (simp add: lower_char_def is_upper_def is_digit_def)
  have nc: "c \<noteq> CHR ''i''" "c \<noteq> CHR ''n''" "c \<noteq> CHR ''s''" using c by (auto simp: is_digit_def)
  have dot: "\<not> is_digit (CHR ''.'')" by (simp add: is_digit_def)
  have s1: "span_digits (ip @ CHR ''.'' # fp) = (ip, CHR ''.'' # fp)"
    using assms(2) dot by (intro span_digits_append) auto
  have s2: "span_digits fp = (fp, [])" using span_digits_append [of fp "[]"] assms(4) by simp
  have nd: "ndigits (digits_to_nat (ip @ fp)) \<le> 28" using assms(5) by (simp only: ndigits_le_28)
  then have "dec_construct s (digits_to_nat (ip @ fp)) (-2) = Some (DFin s (digits_to_nat (ip @ fp)) (-2))"
    by (simp add: dec_construct_def)
  then show ?thesis
    using s1 s2 assms(3) low nc unfolding ip by (simp add: parse_unsigned_def py_lower_def parse_exponent_def)
qed

lemma parse_decimal_printed:
  assumes "a < 10 ^ 28"
  shows "parse_decimal (VStr (dec_str (DFin s a (-2)))) = Inr (DFin s a (-2))"
proof -
  obtain ip fp where str: "dec_str (DFin s a (-2)) = (if s then ''-'' else '''') @ ip @ CHR ''.'' # fp"
    and p: "ip \<noteq> []" "list_all is_digit ip" "length fp = 2" "list_all is_digit fp" "digits_to_nat (ip @ fp) = a"
    by (rule dec_str_paise)
  let ?t = "(if s then ''-'' else '''') @ ip @ CHR ''.'' # fp"
  have m: "list_all money_char ?t" using p by (auto simp: list_all_iff money_char_def)
  have nc: "\<not> is_space c" "c \<noteq> CHR ''_''" if "money_char c" for c
    using that by (auto simp: money_char_def is_space_def is_digit_def)
  have st: "py_strip ?t = ?t"
    by (rule strip_all_nonspace) (rule list.pred_mono_strong [OF m], rule nc)
  have us: "py_remove_char (CHR ''_'') ?t = ?t"
    unfolding py_remove_char_def
    by (rule filter_True) (use m nc in \<open>simp only: list_all_iff, blast\<close>)
  obtain c cs where ip: "ip = c # cs" "is_digit c" using p(1,2) by (cases ip) auto
  have c: "c \<noteq> CHR ''-''" "c \<noteq> CHR ''+''" using digit_not_sign [OF ip(2)] by auto
  have pu: "parse_unsigned b (c # cs @ CHR ''.'' # fp) = Some (DFin b a (-2))" for b
    using parse_unsigned_fixed [OF p(1-4), of b] p(5) assms ip(1) by simp
  have "dec_of_str ?t = Inr (DFin s a (-2))"
    unfolding dec_of_str_def st us using c pu [of s] by (cases s) (simp_all add: ip(1))
  then show ?thesis
    using clean_amount_money [OF m] by (simp add: parse_decimal_def str del: dec_str.simps)
qed

section \<open>Properties\<close>

lemma parse_decimal_finite: "parse_decimal v = Inr d \<Longrightarrow> \<exists>s c e. d = DFin s c e"
  by (cases d) (auto simp: parse_decimal_def split: if_splits sum.splits)

lemma dec_eq_quantized: "dec_eq (DFin s c e) (DFin s c' (-2)) \<longleftrightarrow> of_nat c' = of_nat c * 10 powi e * (100::rat)"
  by (auto simp: dec_eq_def dec_key_def sgn_of_def power_int_def field_simps)

lemma Ints_signed: "sgn_of s * x \<in> \<int> \<longleftrightarrow> x \<in> \<int>"
  by (cases s) (auto simp: sgn_of_def minus_in_Ints_iff)

lemma rupees_to_paise_cases:
  assumes "parse_decimal v = Inr d" and "\<bar>dec_val d\<bar> < 10 ^ 25"
  shows "rupees_to_paise True v =
           (if 100 * dec_val d \<in> \<int> then Inr \<lfloor>100 * dec_val d\<rfloor>
            else Inl (MoneyParseError ''Money value has more than two decimal places''))
         \<and> rupees_to_paise False v =
           Inr (if 0 \<le> dec_val d then \<lfloor>100 * dec_val d + 1/2\<rfloor> else - \<lfloor>100 * (- dec_val d) + 1/2\<rfloor>)"
proof -
  obtain s c e where d: "d = DFin s c e" using parse_decimal_finite [OF assms(1)] by auto
  define x where "x = of_nat c * (10::rat) powi e"
  have x: "0 \<le> x" "x < 10 ^ 25" "dec_val d = sgn_of s * x"
    using assms(2) by (auto simp: x_def d sgn_of_def abs_mult split: if_splits)
  note q = quantized_paise_bounded [OF x(2) [unfolded x_def], of s]
  note qe = quantize_paise_bounded(1) [OF x(2) [unfolded x_def], of HalfEven s]
  have fl: "int (rescale HalfUp c e (-2)) = \<lfloor>x * 100 + 1/2\<rfloor>"
    unfolding x_def by (rule rescale_HalfUp_floor)
  have exact: "dec_eq d (DFin s (rescale HalfEven c e (-2)) (-2)) \<longleftrightarrow> 100 * dec_val d \<in> \<int>"
    unfolding d dec_eq_quantized rescale_exact_iff using Ints_signed [of s "x * 100"]
    by (simp add: x_def mult_ac)
  have val: "signed_coeff s (rescale HalfUp c e (-2)) = \<lfloor>100 * dec_val d\<rfloor>" if "100 * dec_val d \<in> \<int>"
  proof -
    have "x * 100 \<in> \<int>" using that Ints_signed [of s "x * 100"] by (simp add: x(3) mult_ac)
    then have "of_nat (rescale HalfUp c e (-2)) = x * 100"
      unfolding x_def by (rule iffD2 [OF rescale_exact_iff])
    then have "of_int (signed_coeff s (rescale HalfUp c e (-2))) = 100 * dec_val d"
      by (simp add: signed_coeff_sgn x(3))
    then show ?thesis by (metis floor_of_int)
  qed
  have sign: "signed_coeff s (rescale HalfUp c e (-2))
      = (if 0 \<le> dec_val d then \<lfloor>100 * dec_val d + 1/2\<rfloor> else - \<lfloor>100 * (- dec_val d) + 1/2\<rfloor>)"
  proof (cases "s \<and> x \<noteq> 0")
    case True
    then show ?thesis using x fl by (simp add: signed_coeff_def sgn_of_def mult.commute)
  next
    case False
    moreover have "\<lfloor>1 / 2 :: rat\<rfloor> = 0" by (intro floor_unique) auto
    ultimately show ?thesis using x fl by (cases s) (auto simp: signed_coeff_def sgn_of_def mult.commute)
  qed
  show ?thesis using assms(1) q qe exact val sign by (simp add: rupees_to_paise_def d)
qed

lemmas rupees_to_paise_exact = rupees_to_paise_cases [THEN conjunct1]

text \<open>
  C13. Reading a rupee amount. For every value that parses to a decimal below ten to the 25th rupees,
  the strict conversion returns exactly one hundred times the amount when that is a whole number of
  paise and refuses it with \<open>MoneyParseError\<close> otherwise; the lenient one rounds half a paisa away
  from zero.
\<close>

theorem rupees_to_paise_value:
  assumes "parse_decimal v = Inr d" and "\<bar>dec_val d\<bar> < 10 ^ 25"
  shows "rupees_to_paise True v =
           (if 100 * dec_val d \<in> \<int> then Inr \<lfloor>100 * dec_val d\<rfloor>
            else Inl (MoneyParseError ''Money value has more than two decimal places''))
         \<and> rupees_to_paise False v =
           Inr (if 0 \<le> dec_val d then \<lfloor>100 * dec_val d + 1/2\<rfloor> else - \<lfloor>100 * (- dec_val d) + 1/2\<rfloor>)"
  by (rule rupees_to_paise_cases [OF assms])

lemma paise_printed:
  assumes "\<bar>n\<bar> < 10 ^ 27"
  shows "rupees_to_paise True (VStr (dec_str (DFin (n < 0) (nat \<bar>n\<bar>) (-2)))) = Inr n"
proof -
  define d where "d = DFin (n < 0) (nat \<bar>n\<bar>) (-2)"
  have n28: "\<bar>n\<bar> < 10 ^ 28" using assms by simp
  have p: "parse_decimal (VStr (dec_str d)) = Inr d"
    unfolding d_def using n28 by (intro parse_decimal_printed) (simp add: nat_less_iff)
  have val: "dec_val d = of_int n / 100"
    by (simp add: d_def sgn_of_def power_int_def power2_eq_square)
  have "\<bar>of_int n :: rat\<bar> < 10 ^ 27" using assms by (metis of_int_abs of_int_less_iff of_int_numeral of_int_power)
  then have b: "\<bar>dec_val d\<bar> < 10 ^ 25" by (simp add: val)
  have "rupees_to_paise True (VStr (dec_str d)) = Inr n"
    using rupees_to_paise_exact [OF p b] by (simp add: val)
  then show ?thesis unfolding d_def .
qed

text \<open>
  C24. An amount of up to 27 digits of paise survives the round trip: printed in rupees with
  \<open>paise_to_decimal\<close> and read back, it is the same number of paise.
\<close>

theorem paise_roundtrip:
  assumes "\<bar>n\<bar> < 10 ^ 27"
  shows "rbind (paise_to_decimal (VInt n)) (\<lambda>d. rupees_to_paise True (VStr (dec_str d))) = Inr n"
  using paise_to_decimal_value [of n] paise_printed [OF assms] assms by (simp del: dec_str.simps)

lemma parse_half: "parse_decimal (VStr ''0.5'') = Inr (DFin False 5 (-1))"
  by code_simp

lemma rupees_to_paise_value_witness: "rupees_to_paise True (VStr ''0.5'') = Inr 50"
proof -
  have v: "dec_val (DFin False 5 (-1)) = 1 / 2" by (simp add: sgn_of_def power_int_def)
  have "rupees_to_paise True (VStr ''0.5'') = Inr \<lfloor>50::rat\<rfloor>"
    using rupees_to_paise_value [OF parse_half, unfolded v] by simp
  then show ?thesis by simp
qed

lemma paise_roundtrip_witness:
  "rbind (paise_to_decimal (VInt (-12345))) (\<lambda>d. rupees_to_paise True (VStr (dec_str d))) = Inr (-12345)"
  by (rule paise_roundtrip) simp

text \<open>The two conversions never return anything but \<open>MoneyParseError\<close> for the amounts above; from
  ten to the 26th rupees on they leak the decimal module's own exception.\<close>

lemma quantize_paise_overflow:
  assumes "(10::rat) ^ 26 \<le> of_nat c * 10 powi e"
  shows "dec_quantize_paise mode (DFin s c e) = Inl InvalidOperation"
proof -
  have "0 < of_nat c * (10::rat) powi e" using assms by (rule less_le_trans [rotated]) simp
  then have c0: "0 < c" by (cases c) auto
  have "0 < nat (ndigits c)" using ndigits_pos [of c] by simp
  then have "ndigits c \<le> int (nat (ndigits c)) \<longleftrightarrow> c < 10 ^ nat (ndigits c)" by (rule ndigits_le_iff)
  then have lt: "c < 10 ^ nat (ndigits c)" using ndigits_pos [of c] by simp
  have "(of_nat c :: rat) < of_nat (10 ^ nat (ndigits c))" using lt by (simp only: of_nat_less_iff)
  also have "\<dots> = 10 powi ndigits c" using ndigits_pos [of c] by (simp add: power_int_def)
  finally have "of_nat c * (10::rat) powi e < 10 powi (ndigits c + e)" by (simp add: power_int_add)
  then have "(10::rat) powi 26 < 10 powi (ndigits c + e)" using assms by simp
  then have "26 < ndigits c + e" by (metis linorder_not_less one_le_numeral power_int_increasing)
  then show ?thesis using c0 by (simp add: dec_quantize_paise_def ctx_prec_def)
qed

text \<open>
  An amount of ten to the 26th rupees or more is not refused with the \<open>MoneyParseError\<close> the
  callers catch: in both modes the quantization raises the decimal module's \<open>InvalidOperation\<close>.
\<close>

theorem rupees_to_paise_escape:
  assumes "parse_decimal v = Inr d" and "10 ^ 26 \<le> \<bar>dec_val d\<bar>"
  shows "rupees_to_paise strict v = Inl InvalidOperation"
proof -
  obtain s c e where d: "d = DFin s c e" using parse_decimal_finite [OF assms(1)] by auto
  have "\<bar>dec_val d\<bar> = of_nat c * 10 powi e" by (simp add: d sgn_of_def abs_mult)
  then show ?thesis
    using assms quantize_paise_overflow [of c e] by (simp add: rupees_to_paise_def quantized_paise_def d)
qed

lemma rupees_to_paise_escape_witness: "rupees_to_paise True (VStr ''1e26'') = Inl InvalidOperation"
proof (rule rupees_to_paise_escape [of _ "DFin False 1 26"])
  show "parse_decimal (VStr ''1e26'') = Inr (DFin False 1 26)" by code_simp
  show "10 ^ 26 \<le> \<bar>dec_val (DFin False 1 26)\<bar>" by (simp add: sgn_of_def)
qed

text \<open>The sign of a bank statement amount comes from its suffix or marker alone.\<close>

lemma parse_signed_amount_sign:
  "parse_signed_amount v marker = Inr n \<Longrightarrow>
     (if fst (signed_suffix [''DR'', ''CR''] (py_upper (py_strip (case marker of None \<Rightarrow> '''' | Some m \<Rightarrow> m)))
           (py_strip (py_str v))) = ''DR'' then n \<le> 0 else 0 \<le> n)"
  by (auto simp: parse_signed_amount_def Let_def split: prod.splits simp: rbind_eq_Inr)

end
