(* ===== verification/Gst_Engine.thy ===== *)
theory Gst_Engine
  imports Money
begin

text \<open>
  \<open>engines/gst.py\<close> and \<open>engines/gst_components.py\<close>: the split of a tax amount into central and
  state halves or the integrated tax, the net payable, the section 49 utilization of the three
  credit ledgers as a state that seven \<open>use\<close> steps transform, the GSTR-3B tables built from it and
  their export, and the reading of tax components from a provider record.
\<close>

section \<open>Rates and net payable\<close>

definition GST_SLABS :: "int list" where "GST_SLABS = [0, 5, 12, 18, 28]"

record gst_split =
  g_cgst :: int
  g_sgst :: int
  g_igst :: int
  g_total :: int

definition calculate_gst :: "int \<Rightarrow> int \<Rightarrow> bool \<Rightarrow> gst_split result" where
  "calculate_gst taxable_paise rate_percent is_interstate =
     (if rate_percent \<notin> set GST_SLABS
      then Inl (ValueError (''Invalid GST rate: '' @ int_to_str rate_percent
                            @ ''%. Valid: '' @ py_repr (VList (map VInt GST_SLABS))))
      else rbind (int_truediv (taxable_paise * rate_percent) 100) (\<lambda>x.
        let gst_paise = float_trunc x in
        if is_interstate then
          Inr \<lparr> g_cgst = 0, g_sgst = 0, g_igst = gst_paise, g_total = taxable_paise + gst_paise \<rparr>
        else
          let half = gst_paise div 2; remainder = gst_paise - half * 2 in
          Inr \<lparr> g_cgst = half, g_sgst = half + remainder, g_igst = 0, g_total = taxable_paise + gst_paise \<rparr>))"

record net_gst =
  n_output_gst :: int
  n_itc_available :: int
  n_itc_eligible :: int
  n_itc_used :: int
  n_net_payable :: int

definition calculate_net_gst_payable :: "int \<Rightarrow> int \<Rightarrow> int \<Rightarrow> net_gst" where
  "calculate_net_gst_payable output_gst itc_available itc_eligible =
     (let usable_itc = min itc_available itc_eligible;
          net_payable = max 0 (output_gst - usable_itc);
          itc_used = output_gst - net_payable
      in \<lparr> n_output_gst = output_gst, n_itc_available = itc_available, n_itc_eligible = itc_eligible,
           n_itc_used = itc_used, n_net_payable = net_payable \<rparr>)"

section \<open>Utilization of input tax credit\<close>

datatype gst_head = Igst | Cgst | Sgst

record itc_state =
  payable :: "gst_head \<Rightarrow> int"
  credit :: "gst_head \<Rightarrow> int"
  used :: "gst_head \<Rightarrow> gst_head \<Rightarrow> int"

fun per_head :: "int \<Rightarrow> int \<Rightarrow> int \<Rightarrow> gst_head \<Rightarrow> int" where
  "per_head i c s Igst = i"
| "per_head i c s Cgst = c"
| "per_head i c s Sgst = s"

definition use_credit :: "gst_head \<Rightarrow> gst_head \<Rightarrow> itc_state \<Rightarrow> itc_state" where
  "use_credit cr p st =
     (let amount = min (credit st cr) (payable st p) in
      st \<lparr> credit := (credit st)(cr := credit st cr - amount),
           payable := (payable st)(p := payable st p - amount),
           used := (used st)(cr := (used st cr)(p := used st cr p + amount)) \<rparr>)"

definition itc_start :: "(gst_head \<Rightarrow> int) \<Rightarrow> (gst_head \<Rightarrow> int) \<Rightarrow> itc_state" where
  "itc_start output itc =
     \<lparr> payable = (\<lambda>h. max 0 (output h)), credit = (\<lambda>h. max 0 (itc h)), used = (\<lambda>_ _. 0) \<rparr>"

definition utilization_order :: "(gst_head \<times> gst_head) list" where
  "utilization_order = [(Igst, Igst), (Igst, Cgst), (Igst, Sgst), (Cgst, Cgst), (Cgst, Igst),
                        (Sgst, Sgst), (Sgst, Igst)]"

definition apply_itc_utilization :: "(gst_head \<Rightarrow> int) \<Rightarrow> (gst_head \<Rightarrow> int) \<Rightarrow> itc_state" where
  "apply_itc_utilization output itc = fold (\<lambda>(cr, p). use_credit cr p) utilization_order (itc_start output itc)"

definition used_for :: "itc_state \<Rightarrow> gst_head \<Rightarrow> int" where
  "used_for st p = used st Igst p + used st Cgst p + used st Sgst p"

definition used_of :: "itc_state \<Rightarrow> gst_head \<Rightarrow> int" where
  "used_of st cr = used st cr Igst + used st cr Cgst + used st cr Sgst"

record itc_check =
  e_eligible :: bool
  e_reason :: string
  e_invoice_amount :: int
  e_gstr2b_amount :: int

definition check_itc_eligibility :: "bool \<Rightarrow> int \<Rightarrow> int \<Rightarrow> int \<Rightarrow> itc_check" where
  "check_itc_eligibility supplier_filed invoice_amount gstr2b_amount tolerance =
     (let amount_matches = (\<bar>invoice_amount - gstr2b_amount\<bar> \<le> tolerance);
          reason = (if \<not> supplier_filed then ''Supplier has not filed GSTR-1''
                    else if \<not> amount_matches
                    then ''Amount mismatch: invoice='' @ int_to_str invoice_amount @ '' vs 2B='' @ int_to_str gstr2b_amount
                    else '''')
      in \<lparr> e_eligible = (supplier_filed \<and> amount_matches), e_reason = reason,
           e_invoice_amount = invoice_amount, e_gstr2b_amount = gstr2b_amount \<rparr>)"

section \<open>The GSTR-3B tables and their export\<close>

definition tax_cells :: "int \<Rightarrow> int \<Rightarrow> int \<Rightarrow> (string \<times> pyval) list" where
  "tax_cells i c s = [(''iamt'', VInt i), (''camt'', VInt c), (''samt'', VInt s), (''csamt'', VInt 0)]"

definition payment_row :: "int \<Rightarrow> int \<Rightarrow> int \<Rightarrow> pyval" where
  "payment_row due itc cash = VDict [(''payable'', VInt due), (''paid_itc'', VInt itc), (''paid_cash'', VInt cash)]"

definition generate_gstr3b_tables ::
    "int \<Rightarrow> (gst_head \<Rightarrow> int) \<Rightarrow> (gst_head \<Rightarrow> int) \<Rightarrow> int \<Rightarrow> int \<Rightarrow> int \<Rightarrow> pyval" where
  "generate_gstr3b_tables output_taxable output itc rcm_inward exempt_inward ineligible_itc =
     (let st = apply_itc_utilization output itc in
      VDict
       [(''table_3_1'', VDict
          [(''a_outward_taxable_supplies'',
              VDict ((''txval'', VInt output_taxable) # tax_cells (output Igst) (output Cgst) (output Sgst))),
           (''b_outward_taxable_zero_rated'', VDict [(''txval'', VInt 0), (''iamt'', VInt 0), (''csamt'', VInt 0)]),
           (''c_other_outward_nil_exempt'', VDict [(''txval'', VInt 0)]),
           (''d_inward_supplies_liable_to_reverse_charge'', VDict ((''txval'', VInt rcm_inward) # tax_cells 0 0 0)),
           (''e_non_gst_outward_supplies'', VDict [(''txval'', VInt 0)])]),
        (''table_3_2'', VDict
          [(''interstate_supplies_unregistered'', VList []),
           (''interstate_supplies_composition'', VList []),
           (''interstate_supplies_uin'', VList [])]),
        (''table_4'', VDict
          [(''A_itc_available'', VDict
             [(''1_import_goods'', VDict [(''iamt'', VInt 0), (''csamt'', VInt 0)]),
              (''2_import_services'', VDict [(''iamt'', VInt 0), (''csamt'', VInt 0)]),
              (''3_inward_supplies_reverse_charge'', VDict (tax_cells 0 0 0)),
              (''4_inward_supplies_isd'', VDict (tax_cells 0 0 0)),
              (''5_all_other_itc'', VDict (tax_cells (itc Igst) (itc Cgst) (itc Sgst)))]),
           (''B_itc_reversed'', VDict
             [(''rule_38_42_43'', VDict (tax_cells 0 0 0)), (''others'', VDict (tax_cells 0 0 0))]),
           (''C_net_itc_available'', VDict (tax_cells (itc Igst) (itc Cgst) (itc Sgst))),
           (''D_ineligible_itc'', VDict
             [(''section_17_5'', VDict (tax_cells ineligible_itc 0 0)), (''others'', VDict (tax_cells 0 0 0))])]),
        (''table_5'', VDict
          [(''exempt_nil_non_gst_inward'', VDict
             [(''inter_state_supplies'', VInt exempt_inward), (''intra_state_supplies'', VInt 0)])]),
        (''table_6_1'', VDict
          [(''payment_of_tax'', VDict
             [(''igst'', payment_row (output Igst) (used_for st Igst) (payable st Igst)),
              (''cgst'', payment_row (output Cgst) (used_for st Cgst) (payable st Cgst)),
              (''sgst'', payment_row (output Sgst) (used_for st Sgst) (payable st Sgst))])])])"

definition p2r :: "pyval \<Rightarrow> pyval result" where
  "p2r v = rbind (paise_to_decimal v) (\<lambda>d. Inr (VStr (dec_str d)))"

definition empty_dict :: pyval where "empty_dict = VDict []"

text \<open>\<open>d.get(k, {}).get(cell, 0)\<close> formatted in rupees.\<close>

definition cell_rupees :: "pyval \<Rightarrow> string \<Rightarrow> string \<Rightarrow> pyval result" where
  "cell_rupees d k cell =
     rbind (py_get_or d k empty_dict) (\<lambda>row. rbind (py_get_or row cell (VInt 0)) p2r)"

definition export_gstr3b_gstn_json :: "string \<Rightarrow> string \<Rightarrow> pyval \<Rightarrow> pyval result" where
  "export_gstr3b_gstn_json gstin period tables =
     rbind (py_get_or tables ''table_3_1'' empty_dict) (\<lambda>t31.
     rbind (py_get_or tables ''table_4'' empty_dict) (\<lambda>t4.
     rbind (py_get_or tables ''table_5'' empty_dict) (\<lambda>t5.
     rbind (cell_rupees t31 ''a_outward_taxable_supplies'' ''txval'') (\<lambda>txval.
     rbind (cell_rupees t31 ''a_outward_taxable_supplies'' ''iamt'') (\<lambda>iamt.
     rbind (cell_rupees t31 ''a_outward_taxable_supplies'' ''camt'') (\<lambda>camt.
     rbind (cell_rupees t31 ''a_outward_taxable_supplies'' ''samt'') (\<lambda>samt.
     rbind (py_get_or t4 ''A_itc_available'' empty_dict) (\<lambda>avail.
     rbind (cell_rupees avail ''5_all_other_itc'' ''iamt'') (\<lambda>itc_i.
     rbind (cell_rupees avail ''5_all_other_itc'' ''camt'') (\<lambda>itc_c.
     rbind (cell_rupees avail ''5_all_other_itc'' ''samt'') (\<lambda>itc_s.
     rbind (cell_rupees t5 ''exempt_nil_non_gst_inward'' ''inter_state_supplies'') (\<lambda>inter.
     Inr (VDict
       [(''gstin'', VStr (py_upper gstin)),
        (''ret_period'', VStr period),
        (''sup_details'', VDict [(''osup_det'', VDict
           [(''txval'', txval), (''iamt'', iamt), (''camt'', camt), (''samt'', samt), (''csamt'', VStr ''0.00'')])]),
        (''inter_sup'', VDict [(''unreg_details'', VList [])]),
        (''itc_elg'', VDict [(''itc_avl'', VList [VDict
           [(''ty'', VStr ''ALL_OTHER_ITC''), (''iamt'', itc_i), (''camt'', itc_c), (''samt'', itc_s),
            (''csamt'', VStr ''0.00'')]])]),
        (''inward_sup'', VDict [(''isup_details'', VList [VDict
           [(''ty'', VStr ''GST''), (''inter'', inter), (''intra'', VStr ''0.00'')]])])])))))))))))))"

section \<open>Tax components of a provider record\<close>

record gst_parts =
  igst_paise :: int
  cgst_paise :: int
  sgst_paise :: int
  cess_paise :: int
  taxable_paise :: int
  components_verified :: bool

definition tax_label :: "pyval \<Rightarrow> string result" where
  "tax_label tax =
     rbind (rmap (\<lambda>k. rbind (py_get_or tax k (VStr '''')) (\<lambda>v. Inr (py_str v)))
              [''tax_type'', ''tax_name'', ''tax_specification''])
       (\<lambda>xs. Inr (py_upper (py_join '' '' xs)))"

definition paise_of :: "pyval \<Rightarrow> int result" where "paise_of v = rupees_to_paise True v"

text \<open>One turn of the loop over the tax lines; the state is the parts so far and whether every label
  was recognised.\<close>

definition add_component :: "pyval \<Rightarrow> gst_parts \<times> bool \<Rightarrow> (gst_parts \<times> bool) result" where
  "add_component tax st =
     rbind (tax_label tax) (\<lambda>label.
     rbind (rbind (py_get_or tax ''amount'' (VInt 0)) (\<lambda>a. py_get_or tax ''tax_amount'' a)) (\<lambda>raw.
     rbind (paise_of raw) (\<lambda>amount.
       let (p, known) = st in
       if py_contains label ''IGST'' then Inr (p \<lparr> igst_paise := igst_paise p + amount \<rparr>, known)
       else if py_contains label ''CGST'' then Inr (p \<lparr> cgst_paise := cgst_paise p + amount \<rparr>, known)
       else if py_contains label ''SGST'' \<or> py_contains label ''UTGST''
         then Inr (p \<lparr> sgst_paise := sgst_paise p + amount \<rparr>, known)
       else if py_contains label ''CESS'' then Inr (p \<lparr> cess_paise := cess_paise p + amount \<rparr>, known)
       else Inr (p, False))))"

definition no_parts :: gst_parts where
  "no_parts = \<lparr> igst_paise = 0, cgst_paise = 0, sgst_paise = 0, cess_paise = 0, taxable_paise = 0,
               components_verified = False \<rparr>"

definition record_tax_total :: "(string \<times> pyval) list \<Rightarrow> int result" where
  "record_tax_total record = paise_of (get_or record ''tax_total'' (get_or record ''tax_total_amount'' (VInt 0)))"

definition extract_components :: "(string \<times> pyval) list \<Rightarrow> gst_parts result" where
  "extract_components record =
     (let taxes = py_or (get_or record ''taxes'' VNone) (VList []) in
      rbind (record_tax_total record) (\<lambda>total_tax.
      rbind (py_iter taxes) (\<lambda>lines.
      rbind (rfold add_component lines (no_parts, truthy taxes)) (\<lambda>(p, known).
      rbind (paise_of (get_or record ''sub_total'' (get_or record ''subtotal'' (VInt 0)))) (\<lambda>sub.
      rbind (if sub = 0
             then rbind (paise_of (get_or record ''total'' VNone)) (\<lambda>total.
                  Inr (if total_tax \<le> total then total - total_tax else sub))
             else Inr sub) (\<lambda>taxable.
        Inr (p \<lparr> taxable_paise := taxable,
                 components_verified := (known \<and> igst_paise p + cgst_paise p + sgst_paise p + cess_paise p = total_tax) \<rparr>)))))))"

section \<open>The split of a tax amount\<close>

text \<open>
  The components of a GST computation add up: for every slab rate and every amount whose product
  with the rate has at most 53 bits, the float division loses nothing, the tax is the percentage
  truncated to a whole paisa, the parts sum to it, the total is taxable value plus tax, and within a
  state the two halves differ by at most one paisa, the odd one going to the state.
\<close>

theorem calculate_gst_split:
  assumes "rate \<in> set GST_SLABS" and "\<bar>taxable * rate\<bar> < 2 ^ 53"
  shows "\<exists>s. calculate_gst taxable rate interstate = Inr s
           \<and> g_cgst s + g_sgst s + g_igst s = sgn (taxable * rate) * (\<bar>taxable * rate\<bar> div 100)
           \<and> g_total s = taxable + (g_cgst s + g_sgst s + g_igst s)
           \<and> (if interstate then g_cgst s = 0 \<and> g_sgst s = 0
              else g_igst s = 0 \<and> (g_sgst s = g_cgst s \<or> g_sgst s = g_cgst s + 1))"
proof -
  define gst where "gst = sgn (taxable * rate) * (\<bar>taxable * rate\<bar> div 100)"
  have half: "gst - gst div 2 * 2 = 0 \<or> gst - gst div 2 * 2 = 1" by presburger
  have "calculate_gst taxable rate interstate
      = (if interstate then Inr \<lparr> g_cgst = 0, g_sgst = 0, g_igst = gst, g_total = taxable + gst \<rparr>
         else Inr \<lparr> g_cgst = gst div 2, g_sgst = gst div 2 + (gst - gst div 2 * 2), g_igst = 0,
                    g_total = taxable + gst \<rparr>)"
    using assms(1) trunc_truediv_100 [OF assms(2)] by (simp add: calculate_gst_def gst_def Let_def)
  then show ?thesis using half by (cases interstate) (auto simp flip: gst_def)
qed

lemma calculate_gst_split_witness:
  "(\<exists>s. calculate_gst 1055 5 False = Inr s \<and> g_cgst s + g_sgst s + g_igst s = 52)"
  using calculate_gst_split [of 5 1055 False] by (auto simp: GST_SLABS_def)

lemma calculate_gst_unknown_rate: "rate \<notin> set GST_SLABS \<Longrightarrow> \<exists>m. calculate_gst t rate i = Inl (ValueError m)"
  by (simp add: calculate_gst_def)

lemma net_gst_consistent:
  "n_itc_used (calculate_net_gst_payable out av el) + n_net_payable (calculate_net_gst_payable out av el) = out"
  "0 \<le> n_net_payable (calculate_net_gst_payable out av el)"
  "0 \<le> out \<Longrightarrow> 0 \<le> min av el \<Longrightarrow> n_itc_used (calculate_net_gst_payable out av el) \<le> min av el"
  by (auto simp: calculate_net_gst_payable_def Let_def)

section \<open>The utilization of credit\<close>

definition itc_inv :: "(gst_head \<Rightarrow> int) \<Rightarrow> (gst_head \<Rightarrow> int) \<Rightarrow> itc_state \<Rightarrow> bool" where
  "itc_inv output itc st =
     ((\<forall>h. used_for st h + payable st h = max 0 (output h)) \<and> (\<forall>h. used_of st h + credit st h = max 0 (itc h))
      \<and> (\<forall>h. 0 \<le> payable st h) \<and> (\<forall>h. 0 \<le> credit st h) \<and> (\<forall>c h. 0 \<le> used st c h))"

lemma itc_inv_start: "itc_inv output itc (itc_start output itc)"
  by (simp add: itc_inv_def itc_start_def used_for_def used_of_def)

definition use_amount :: "gst_head \<Rightarrow> gst_head \<Rightarrow> itc_state \<Rightarrow> int" where
  "use_amount c p st = min (credit st c) (payable st p)"

lemma use_credit_fields:
  "payable (use_credit c p st) h = payable st h - (if h = p then use_amount c p st else 0)"
  "credit (use_credit c p st) h = credit st h - (if h = c then use_amount c p st else 0)"
  "used (use_credit c p st) x h = used st x h + (if x = c \<and> h = p then use_amount c p st else 0)"
  by (auto simp: use_credit_def Let_def use_amount_def)

lemma used_for_use: "used_for (use_credit c p st) h = used_for st h + (if h = p then use_amount c p st else 0)"
  by (cases c) (simp_all add: used_for_def use_credit_fields)

lemma used_of_use: "used_of (use_credit c p st) h = used_of st h + (if h = c then use_amount c p st else 0)"
  by (cases p) (simp_all add: used_of_def use_credit_fields)

lemma itc_inv_use: "itc_inv output itc st \<Longrightarrow> itc_inv output itc (use_credit c p st)"
proof -
  assume inv: "itc_inv output itc st"
  have "0 \<le> use_amount c p st" "use_amount c p st \<le> credit st c" "use_amount c p st \<le> payable st p"
    using inv by (auto simp: use_amount_def itc_inv_def)
  with inv show ?thesis by (simp add: itc_inv_def use_credit_fields used_for_use used_of_use)
qed

lemma itc_inv_fold: "itc_inv output itc st \<Longrightarrow> itc_inv output itc (fold (\<lambda>(c, p). use_credit c p) steps st)"
  by (induction steps arbitrary: st) (auto simp: itc_inv_use)

text \<open>Either the integrated credit is gone after its three uses, or nothing is left to pay.\<close>

lemma use_credit_pays_or_exhausts:
  "credit (use_credit c p st) c = 0 \<or> payable (use_credit c p st) p = 0"
  by (auto simp: use_credit_def Let_def min_def)

lemma use_credit_paid: "payable st p = 0 \<Longrightarrow> 0 \<le> credit st c \<Longrightarrow> use_credit c p st = st"
  by (cases st) (auto simp: use_credit_def Let_def fun_eq_iff)

lemma use_credit_keeps_zero:
  "credit st c = 0 \<Longrightarrow> 0 \<le> payable st p \<Longrightarrow> use_credit c p st = st"
  by (cases st) (auto simp: use_credit_def Let_def fun_eq_iff)

definition igst_first :: "itc_state \<Rightarrow> bool" where
  "igst_first st = (credit st Igst = 0 \<or> (\<forall>h. payable st h = 0))"

lemma igst_first_use: "itc_inv out itc st \<Longrightarrow> igst_first st \<Longrightarrow> igst_first (use_credit c p st)"
  by (cases "c = Igst") (auto simp: igst_first_def itc_inv_def use_credit_paid use_credit_keeps_zero,
      auto simp: use_credit_def Let_def)

lemma use_credit_other_payable: "h \<noteq> p \<Longrightarrow> payable (use_credit c p st) h = payable st h"
  by (simp add: use_credit_def Let_def)

lemma igst_first_start:
  assumes "itc_inv out itc st"
  shows "igst_first (use_credit Igst Sgst (use_credit Igst Cgst (use_credit Igst Igst st)))"
proof -
  define s1 where "s1 = use_credit Igst Igst st"
  define s2 where "s2 = use_credit Igst Cgst s1"
  define s3 where "s3 = use_credit Igst Sgst s2"
  have inv: "itc_inv out itc s1" "itc_inv out itc s2" by (simp_all add: s1_def s2_def assms itc_inv_use)
  then have nn: "0 \<le> payable s1 h" "0 \<le> payable s2 h" for h by (simp_all add: itc_inv_def)
  consider "credit s3 Igst = 0" | "payable s3 Sgst = 0" "credit s3 Igst \<noteq> 0"
    using use_credit_pays_or_exhausts [of Igst Sgst s2] by (auto simp: s3_def)
  then have "igst_first s3"
  proof cases
    case 2
    have c2: "credit s2 Igst \<noteq> 0" using 2 nn use_credit_keeps_zero [of s2 Igst Sgst] by (auto simp: s3_def)
    then have c1: "credit s1 Igst \<noteq> 0" using nn use_credit_keeps_zero [of s1 Igst Cgst] by (auto simp: s2_def)
    have "payable s1 Igst = 0" "payable s2 Cgst = 0"
      using c1 c2 use_credit_pays_or_exhausts [of Igst Igst st] use_credit_pays_or_exhausts [of Igst Cgst s1]
      by (auto simp: s1_def s2_def)
    then have "payable s3 h = 0" for h
      using 2 by (cases h) (simp_all add: s3_def s2_def use_credit_other_payable)
    then show ?thesis by (simp add: igst_first_def)
  qed (simp add: igst_first_def)
  then show ?thesis by (simp add: s1_def s2_def s3_def)
qed

lemma state_credit_unused:
  assumes "itc_inv out itc st" "\<forall>h. payable st h = 0"
  shows "fold (\<lambda>(c, p). use_credit c p) steps st = st"
  using assms by (induction steps) (auto simp: use_credit_paid itc_inv_def)

text \<open>
  C12. Credit utilization keeps the books: whatever the ledgers, for each head the credit used and the
  cash sum to the liability and for each ledger the credit used and left sum to the credit; nothing
  is negative; central credit never pays state tax nor state credit central tax; and central or
  state credit is touched only when the integrated credit is exhausted.
\<close>

theorem itc_utilization_lawful:
  "(let st = apply_itc_utilization output itc in
     (\<forall>h. used_for st h + payable st h = max 0 (output h)) \<and> (\<forall>h. used_of st h + credit st h = max 0 (itc h))
     \<and> (\<forall>h. 0 \<le> payable st h) \<and> (\<forall>h. 0 \<le> credit st h) \<and> (\<forall>c h. 0 \<le> used st c h)
     \<and> used st Cgst Sgst = 0 \<and> used st Sgst Cgst = 0
     \<and> (credit st Igst = 0 \<or> used_of st Cgst + used_of st Sgst = 0))"
proof -
  define step where "step = (\<lambda>(c, p). use_credit c p)"
  define s3 where "s3 = fold step [(Igst, Igst), (Igst, Cgst), (Igst, Sgst)] (itc_start output itc)"
  define st where "st = fold step [(Cgst, Cgst), (Cgst, Igst), (Sgst, Sgst), (Sgst, Igst)] s3"
  have st: "apply_itc_utilization output itc = st"
    by (simp add: apply_itc_utilization_def utilization_order_def st_def s3_def step_def)
  have inv3: "itc_inv output itc s3" unfolding s3_def step_def by (rule itc_inv_fold [OF itc_inv_start])
  have inv: "itc_inv output itc st" unfolding st_def step_def by (rule itc_inv_fold [OF inv3])
  have never: "used st Cgst Sgst = 0" "used st Sgst Cgst = 0"
    by (simp_all add: st_def s3_def step_def use_credit_fields itc_start_def)
  have cs3: "used s3 c p = 0" if "c \<noteq> Igst" for c p
    using that by (simp add: s3_def step_def use_credit_fields itc_start_def)
  have "igst_first s3"
    using igst_first_start [OF itc_inv_start] by (simp add: s3_def step_def)
  then have "credit st Igst = 0 \<or> used_of st Cgst + used_of st Sgst = 0"
    unfolding igst_first_def
  proof
    assume "credit s3 Igst = 0"
    then have "credit st Igst = 0" by (simp add: st_def step_def use_credit_def Let_def)
    then show ?thesis ..
  next
    assume "\<forall>h. payable s3 h = 0"
    then have "st = s3" unfolding st_def step_def by (rule state_credit_unused [OF inv3])
    then show ?thesis by (simp add: used_of_def cs3)
  qed
  with inv never show ?thesis by (simp add: st itc_inv_def)
qed

text \<open>
  The order in which the integrated credit is spread is not neutral: there are ledgers for which
  the code leaves cash to pay although the uses the rules permit, taken in another order, pay all of it.
\<close>

theorem itc_order_not_neutral:
  "payable (apply_itc_utilization (per_head 0 100 100) (per_head 100 100 0)) Sgst = 100
   \<and> (\<forall>h. payable (fold (\<lambda>(c, p). use_credit c p)
            [(Igst, Igst), (Igst, Sgst), (Igst, Cgst), (Cgst, Cgst), (Cgst, Igst), (Sgst, Sgst), (Sgst, Igst)]
            (itc_start (per_head 0 100 100) (per_head 100 100 0))) h = 0)"
proof
  show "payable (apply_itc_utilization (per_head 0 100 100) (per_head 100 100 0)) Sgst = 100"
    by (simp add: apply_itc_utilization_def utilization_order_def itc_start_def use_credit_def)
  show "\<forall>h. payable (fold (\<lambda>(c, p). use_credit c p)
            [(Igst, Igst), (Igst, Sgst), (Igst, Cgst), (Cgst, Cgst), (Cgst, Igst), (Sgst, Sgst), (Sgst, Igst)]
            (itc_start (per_head 0 100 100) (per_head 100 100 0))) h = 0"
  proof
    fix h show "payable (fold (\<lambda>(c, p). use_credit c p)
            [(Igst, Igst), (Igst, Sgst), (Igst, Cgst), (Cgst, Cgst), (Cgst, Igst), (Sgst, Sgst), (Sgst, Igst)]
            (itc_start (per_head 0 100 100) (per_head 100 100 0))) h = 0"
      by (cases h) (simp_all add: itc_start_def use_credit_def)
  qed
qed

section \<open>The tables and their export\<close>

fun head_key :: "gst_head \<Rightarrow> string" where
  "head_key Igst = ''igst''"
| "head_key Cgst = ''cgst''"
| "head_key Sgst = ''sgst''"

lemma table_6_row:
  "py_path (generate_gstr3b_tables tx output itc rcm ex inel) [''table_6_1'', ''payment_of_tax'', head_key h]
   = Inr (payment_row (output h) (used_for (apply_itc_utilization output itc) h)
                      (payable (apply_itc_utilization output itc) h))"
  by (cases h) (simp_all add: generate_gstr3b_tables_def Let_def py_index_def)

lemma utilization_for:
  "used_for (apply_itc_utilization output itc) h + payable (apply_itc_utilization output itc) h = max 0 (output h)"
  using itc_inv_fold [OF itc_inv_start, of "output" itc utilization_order]
  by (simp add: itc_inv_def apply_itc_utilization_def)

text \<open>
  In table 6.1 of the generated return every head balances: what is paid from credit and in cash
  is the liability shown as payable, for every head with a liability that is not negative.
\<close>

theorem gstr3b_payment_balances:
  assumes "0 \<le> output h"
  shows "\<exists>itc_paid cash.
     py_path (generate_gstr3b_tables tx output itc rcm ex inel) [''table_6_1'', ''payment_of_tax'', head_key h]
       = Inr (payment_row (output h) itc_paid cash) \<and> itc_paid + cash = output h"
  unfolding table_6_row using assms utilization_for [of "output" itc h] by fastforce

lemma gstr3b_payment_balances_witness:
  "\<exists>itc_paid cash.
     py_path (generate_gstr3b_tables 1000 (per_head 180 0 0) (per_head 100 0 0) 0 0 0)
        [''table_6_1'', ''payment_of_tax'', head_key Igst]
       = Inr (payment_row 180 itc_paid cash) \<and> itc_paid + cash = 180"
  using gstr3b_payment_balances [of "per_head 180 0 0" Igst 1000 "per_head 100 0 0" 0 0 0] by simp

lemma p2r_reads_back:
  assumes "\<bar>n\<bar> < 10 ^ 27"
  obtains s where "p2r (VInt n) = Inr (VStr s)" "rupees_to_paise True (VStr s) = Inr n"
proof -
  have "\<bar>n\<bar> < 10 ^ 28" using assms by simp
  note pd = paise_to_decimal_value [OF this]
  show thesis
    by (rule that [of "dec_str (DFin (n < 0) (nat \<bar>n\<bar>) (-2))"])
       (use pd paise_printed [OF assms] in \<open>simp_all add: p2r_def del: dec_str.simps\<close>)
qed

lemma cell_rupees_dict:
  "get_or kvs k empty_dict = VDict row \<Longrightarrow> cell_rupees (VDict kvs) k c = p2r (get_or row c (VInt 0))"
  by (simp add: cell_rupees_def)

text \<open>An amount of the exported document, by section, table and cell; the tables for credit and inward
  supplies are lists of one row.\<close>

definition exported_amount :: "pyval \<Rightarrow> string \<times> string \<times> string \<Rightarrow> int result" where
  "exported_amount j cell =
     (case cell of (part, table, k) \<Rightarrow>
        rbind (py_path j [part, table]) (\<lambda>rows.
        rbind (py_index (case rows of VList [row] \<Rightarrow> row | _ \<Rightarrow> rows) k) (rupees_to_paise True)))"

lemma zero_paise_text: "rupees_to_paise True (VStr ''0.00'') = Inr 0"
  by code_simp

text \<open>
  C29. The exported return states the amounts of the tables: for liabilities, credits and an exempt
  value of up to 27 digits of paise the export succeeds, it is for the upper-case GSTIN and the period given, and
  every rupee string it contains reads back as the paise of its own cell: taxable value and tax by head of the
  outward supplies, the credit by head, the exempt inward value between states, and zero for cess and for
  exempt supplies within the state. Reverse-charge inward supplies and ineligible credit, which the tables also hold,
  are not exported: the document is the same whatever they are.
\<close>

theorem gstr3b_export_roundtrip:
  assumes "\<bar>tx\<bar> < 10 ^ 27" "\<bar>ex\<bar> < 10 ^ 27" and "\<And>h. \<bar>output h\<bar> < 10 ^ 27" and "\<And>h. \<bar>itc h\<bar> < 10 ^ 27"
  shows "\<exists>j. (\<forall>rcm inel. export_gstr3b_gstn_json gstin period (generate_gstr3b_tables tx output itc rcm ex inel) = Inr j)
           \<and> py_path j [''gstin''] = Inr (VStr (py_upper gstin)) \<and> py_path j [''ret_period''] = Inr (VStr period)
           \<and> list_all (\<lambda>(cell, amount). exported_amount j cell = Inr amount)
               [((''sup_details'', ''osup_det'', ''txval''), tx), ((''sup_details'', ''osup_det'', ''iamt''), output Igst),
                ((''sup_details'', ''osup_det'', ''camt''), output Cgst), ((''sup_details'', ''osup_det'', ''samt''), output Sgst),
                ((''sup_details'', ''osup_det'', ''csamt''), 0),
                ((''itc_elg'', ''itc_avl'', ''iamt''), itc Igst), ((''itc_elg'', ''itc_avl'', ''camt''), itc Cgst),
                ((''itc_elg'', ''itc_avl'', ''samt''), itc Sgst), ((''itc_elg'', ''itc_avl'', ''csamt''), 0),
                ((''inward_sup'', ''isup_details'', ''inter''), ex), ((''inward_sup'', ''isup_details'', ''intra''), 0)]"
proof -
  obtain s1 where s1: "p2r (VInt tx) = Inr (VStr s1)" "rupees_to_paise True (VStr s1) = Inr tx"
    using p2r_reads_back [OF assms(1)] .
  obtain s2 where s2: "p2r (VInt (output Igst)) = Inr (VStr s2)" "rupees_to_paise True (VStr s2) = Inr (output Igst)"
    using p2r_reads_back [OF assms(3)] .
  obtain s3 where s3: "p2r (VInt (output Cgst)) = Inr (VStr s3)" "rupees_to_paise True (VStr s3) = Inr (output Cgst)"
    using p2r_reads_back [OF assms(3)] .
  obtain s4 where s4: "p2r (VInt (output Sgst)) = Inr (VStr s4)" "rupees_to_paise True (VStr s4) = Inr (output Sgst)"
    using p2r_reads_back [OF assms(3)] .
  obtain s5 where s5: "p2r (VInt (itc Igst)) = Inr (VStr s5)" "rupees_to_paise True (VStr s5) = Inr (itc Igst)"
    using p2r_reads_back [OF assms(4)] .
  obtain s6 where s6: "p2r (VInt (itc Cgst)) = Inr (VStr s6)" "rupees_to_paise True (VStr s6) = Inr (itc Cgst)"
    using p2r_reads_back [OF assms(4)] .
  obtain s7 where s7: "p2r (VInt (itc Sgst)) = Inr (VStr s7)" "rupees_to_paise True (VStr s7) = Inr (itc Sgst)"
    using p2r_reads_back [OF assms(4)] .
  obtain s8 where s8: "p2r (VInt ex) = Inr (VStr s8)" "rupees_to_paise True (VStr s8) = Inr ex"
    using p2r_reads_back [OF assms(2)] .
  note printed = s1 s2 s3 s4 s5 s6 s7 s8
  show ?thesis
    by (simp add: export_gstr3b_gstn_json_def generate_gstr3b_tables_def Let_def cell_rupees_def tax_cells_def
        printed exported_amount_def py_index_def zero_paise_text)
qed

lemma gstr3b_export_roundtrip_witness:
  "\<exists>j. export_gstr3b_gstn_json ''27aapfu0939f1zv'' ''062026''
         (generate_gstr3b_tables 100000 (per_head 18000 0 0) (per_head 5000 0 0) 700 0 0) = Inr j
       \<and> exported_amount j (''sup_details'', ''osup_det'', ''iamt'') = Inr 18000
       \<and> exported_amount j (''itc_elg'', ''itc_avl'', ''iamt'') = Inr 5000"
proof -
  have "\<bar>per_head 18000 0 0 h\<bar> < 10 ^ 27" "\<bar>per_head 5000 0 0 h\<bar> < 10 ^ 27" for h
    by (cases h; simp)+
  then obtain j where "\<forall>rcm inel. export_gstr3b_gstn_json ''27aapfu0939f1zv'' ''062026''
         (generate_gstr3b_tables 100000 (per_head 18000 0 0) (per_head 5000 0 0) rcm 0 inel) = Inr j"
      "exported_amount j (''sup_details'', ''osup_det'', ''iamt'') = Inr 18000"
      "exported_amount j (''itc_elg'', ''itc_avl'', ''iamt'') = Inr 5000"
    using gstr3b_export_roundtrip [of 100000 0 "per_head 18000 0 0" "per_head 5000 0 0" "''27aapfu0939f1zv''" "''062026''"] by auto
  then show ?thesis by blast
qed

section \<open>Verified components\<close>

definition known_label :: "string \<Rightarrow> bool" where
  "known_label label = (py_contains label ''IGST'' \<or> py_contains label ''CGST'' \<or> py_contains label ''SGST''
                        \<or> py_contains label ''UTGST'' \<or> py_contains label ''CESS'')"

lemma add_component_known:
  "add_component tax (p, k) = Inr (p', k') \<Longrightarrow> k' \<Longrightarrow> k \<and> (\<exists>l. tax_label tax = Inr l \<and> known_label l)"
  by (auto simp: add_component_def known_label_def rbind_eq_Inr split: if_splits)

lemma rfold_component_known:
  "rfold add_component lines (p, k) = Inr (p', k') \<Longrightarrow> k' \<Longrightarrow>
     k \<and> (\<forall>tax\<in>set lines. \<exists>l. tax_label tax = Inr l \<and> known_label l)"
proof (induction lines arbitrary: p k)
  case (Cons tax lines)
  obtain p1 k1 where s: "add_component tax (p, k) = Inr (p1, k1)" "rfold add_component lines (p1, k1) = Inr (p', k')"
    using Cons.prems(1) by (auto simp: rbind_eq_Inr)
  have "k1" and tl: "\<forall>tax\<in>set lines. \<exists>l. tax_label tax = Inr l \<and> known_label l"
    using Cons.IH [OF s(2) Cons.prems(2)] by auto
  then show ?case using add_component_known [OF s(1)] by auto
qed simp

text \<open>
  Components read from a provider record are reported as verified only when the record has tax
  lines, every line carries a recognised tax label, and the four components sum to the record's own
  tax total.
\<close>

theorem components_verified_sound:
  assumes "extract_components record = Inr p" and "components_verified p"
  shows "record_tax_total record = Inr (igst_paise p + cgst_paise p + sgst_paise p + cess_paise p)
         \<and> (\<exists>lines. py_iter (get_or record ''taxes'' VNone) = Inr lines \<and> truthy (get_or record ''taxes'' VNone)
                    \<and> (\<forall>tax\<in>set lines. \<exists>l. tax_label tax = Inr l \<and> known_label l))"
proof -
  let ?t = "get_or record ''taxes'' VNone"
  obtain tot lines q k where s: "record_tax_total record = Inr tot" "py_iter (py_or ?t (VList [])) = Inr lines"
    "rfold add_component lines (no_parts, truthy (py_or ?t (VList []))) = Inr (q, k)"
    and p: "components_verified p = (k \<and> igst_paise q + cgst_paise q + sgst_paise q + cess_paise q = tot)"
      "igst_paise p = igst_paise q" "cgst_paise p = cgst_paise q" "sgst_paise p = sgst_paise q" "cess_paise p = cess_paise q"
    using assms(1) by (auto simp: extract_components_def Let_def rbind_eq_Inr split: prod.splits)
  have k: "k" using p(1) assms(2) by simp
  note kn = rfold_component_known [OF s(3) k]
  then have tr: "truthy ?t" by (cases "truthy ?t") auto
  then have "py_or ?t (VList []) = ?t" by simp
  with s kn tr p assms(2) show ?thesis by auto
qed

definition sample_record :: "(string \<times> pyval) list" where
  "sample_record = [(''tax_total'', VStr ''9.00''), (''sub_total'', VStr ''5.00''),
     (''taxes'', VList [VDict [(''tax_name'', VStr ''igst''), (''tax_amount'', VStr ''9.00'')]])]"

lemma components_verified_sound_witness:
  "\<exists>p. extract_components sample_record = Inr p
       \<and> record_tax_total sample_record = Inr (igst_paise p + cgst_paise p + sgst_paise p + cess_paise p)"
proof -
  have r: "rupees_to_paise True (VStr ''9.00'') = Inr 900" "rupees_to_paise True (VStr ''5.00'') = Inr 500"
    using paise_printed [of 900] paise_printed [of 500] by (simp_all add: nat_to_str.simps digit_chars)
  have l: "tax_label (VDict [(''tax_name'', VStr ''igst''), (''tax_amount'', VStr ''9.00'')]) = Inr '' IGST ''"
    by code_simp
  have i: "py_contains '' IGST '' ''IGST''" by code_simp
  have c: "extract_components sample_record =
      Inr \<lparr> igst_paise = 900, cgst_paise = 0, sgst_paise = 0, cess_paise = 0, taxable_paise = 500,
            components_verified = True \<rparr>" (is "_ = Inr ?p")
    by (simp add: extract_components_def sample_record_def record_tax_total_def paise_of_def r l i add_component_def
        no_parts_def del: py_contains.simps)
  have "components_verified ?p" by simp
  from components_verified_sound [OF c this] c show ?thesis by blast
qed

end
