(* ===== verification/Income_Tax.thy ===== *)
theory Income_Tax
  imports Py_Value
begin

text \<open>
  The two income tax engines: \<open>engines/tax.py\<close> (assessment year 2025-26, float arithmetic on the
  slab amounts) and \<open>engines/income_tax_rules.py\<close> (rules as data, integer arithmetic). Slab tables
  are lists of an upper limit and a percentage, the limit \<open>None\<close> closing the table. The lemmas
  relate both slab loops to one sum over the slabs, from which monotony, the bound that makes
  marginal relief work, and the agreement of the two engines follow.
\<close>

section \<open>Slab tables\<close>

type_synonym slabs = "(int option \<times> int) list"

definition NEW_REGIME_SLABS :: slabs where
  "NEW_REGIME_SLABS = [(Some 30000000, 0), (Some 70000000, 5), (Some 100000000, 10), (Some 120000000, 15),
                       (Some 150000000, 20), (None, 30)]"

definition OLD_REGIME_SLABS :: slabs where
  "OLD_REGIME_SLABS = [(Some 25000000, 0), (Some 50000000, 5), (Some 100000000, 20), (None, 30)]"

definition CESS_RATE :: int where "CESS_RATE = 4"

text \<open>\<open>_slab_tax_amount\<close>: one turn takes the part of the remaining income that fits the slab.\<close>

definition in_slab :: "int \<Rightarrow> int \<Rightarrow> int option \<Rightarrow> int" where
  "in_slab remaining previous_limit upper =
     (case upper of None \<Rightarrow> remaining | Some u \<Rightarrow> min remaining (u - previous_limit))"

text \<open>\<open>upper or prev_limit\<close>.\<close>

definition next_limit :: "int option \<Rightarrow> int \<Rightarrow> int" where
  "next_limit upper prev = (case upper of None \<Rightarrow> prev | Some u \<Rightarrow> if u = 0 then prev else u)"

fun slab_amount_loop :: "slabs \<Rightarrow> int \<Rightarrow> int \<Rightarrow> int \<Rightarrow> int" where
  "slab_amount_loop [] remaining tax prev = tax"
| "slab_amount_loop ((upper, rate) # rest) remaining tax prev =
     (let t = in_slab remaining prev upper in
      if t \<le> 0 then tax
      else if remaining - t \<le> 0 then tax + t * rate div 100
      else slab_amount_loop rest (remaining - t) (tax + t * rate div 100) (next_limit upper prev))"

definition slab_tax_amount :: "int \<Rightarrow> slabs \<Rightarrow> int" where
  "slab_tax_amount taxable_income sl = slab_amount_loop sl taxable_income 0 0"

definition surcharge_band :: "int \<Rightarrow> string \<Rightarrow> int \<times> int option \<times> int" where
  "surcharge_band taxable_income regime =
     (if taxable_income \<le> 500000000 then (0, None, 0)
      else if taxable_income \<le> 1000000000 then (10, Some 500000000, 0)
      else if taxable_income \<le> 2000000000 then (15, Some 1000000000, 10)
      else if taxable_income \<le> 5000000000 \<or> regime = ''NEW'' then (25, Some 2000000000, 15)
      else (37, Some 5000000000, 25))"

section \<open>\<open>calculate_income_tax\<close>\<close>

record slab_line =
  l_range :: string
  l_rate :: int
  l_taxable :: int
  l_tax :: int

record income_tax =
  t_taxable_income :: int
  t_regime :: string
  t_base_tax :: int
  t_rebate_87a :: int
  t_surcharge_rate :: int
  t_surcharge :: int
  t_marginal_relief :: int
  t_cess_rate :: int
  t_cess :: int
  t_total_tax :: int
  t_slab_details :: "slab_line list"

text \<open>The infinity sign U+221E in UTF-8.\<close>

definition infinity_sign :: string where
  "infinity_sign = [char_of (226::nat), char_of (136::nat), char_of (158::nat)]"

definition range_text :: "int \<Rightarrow> int option \<Rightarrow> string" where
  "range_text prev upper =
     int_to_str (prev div 100) @ '' - ''
     @ (case upper of None \<Rightarrow> infinity_sign | Some u \<Rightarrow> if u = 0 then infinity_sign else int_to_str (u div 100))"

fun slab_loop :: "slabs \<Rightarrow> int \<Rightarrow> int \<Rightarrow> slab_line list \<Rightarrow> int \<Rightarrow> (int \<times> slab_line list) result" where
  "slab_loop [] remaining tax lines prev = Inr (tax, lines)"
| "slab_loop ((upper, rate) # rest) remaining tax lines prev =
     (let t = in_slab remaining prev upper in
      if t \<le> 0 then Inr (tax, lines)
      else rbind (int_truediv (t * rate) 100) (\<lambda>x.
        let amount = float_trunc x;
            lines' = lines @ [\<lparr> l_range = range_text prev upper, l_rate = rate, l_taxable = t, l_tax = amount \<rparr>]
        in if remaining - t \<le> 0 then Inr (tax + amount, lines')
           else slab_loop rest (remaining - t) (tax + amount) lines' (next_limit upper prev)))"

definition permitted_tax :: "slabs \<Rightarrow> int \<Rightarrow> int \<Rightarrow> int \<Rightarrow> int" where
  "permitted_tax sl threshold preceding_rate taxable_income =
     (let at_threshold = slab_tax_amount threshold sl
      in at_threshold + at_threshold * preceding_rate div 100 + taxable_income - threshold)"

definition calculate_income_tax :: "int \<Rightarrow> string \<Rightarrow> income_tax result" where
  "calculate_income_tax taxable_income regime =
     (let sl = (if regime = ''NEW'' then NEW_REGIME_SLABS else OLD_REGIME_SLABS) in
      rbind (slab_loop sl taxable_income 0 [] 0) (\<lambda>(tax0, lines).
        let rebated = (regime = ''NEW'' \<and> taxable_income \<le> 70000000);
            rebate = (if rebated then tax0 else 0);
            tax = (if rebated then 0 else tax0);
            (rate, threshold, preceding) = surcharge_band taxable_income regime;
            unrelieved = tax * rate div 100;
            relief = (case threshold of None \<Rightarrow> 0
                      | Some th \<Rightarrow> max 0 (tax + unrelieved - permitted_tax sl th preceding taxable_income));
            surcharge = unrelieved - relief
        in rbind (int_truediv ((tax + surcharge) * CESS_RATE) 100) (\<lambda>c.
             let cess = float_trunc c in
             Inr \<lparr> t_taxable_income = taxable_income, t_regime = regime, t_base_tax = tax, t_rebate_87a = rebate,
                   t_surcharge_rate = rate, t_surcharge = surcharge, t_marginal_relief = relief,
                   t_cess_rate = CESS_RATE, t_cess = cess, t_total_tax = tax + surcharge + cess,
                   t_slab_details = lines \<rparr>)))"

section \<open>Rules as data\<close>

record tax_rule =
  new_slabs :: "slabs option"
  old_slabs :: "slabs option"
  new_rebate_threshold :: "int option"
  new_rebate_max :: "int option"
  old_rebate_threshold :: "int option"
  old_rebate_max :: "int option"
  cess_percent :: "int option"
  surcharge_table :: "(int \<times> int) list option"
  new_surcharge_cap :: "int option"
  round_to_paise :: "int option"

definition OLD_SLABS :: slabs where
  "OLD_SLABS = [(Some 25000000, 0), (Some 50000000, 5), (Some 100000000, 20), (None, 30)]"

definition SURCHARGE :: "(int \<times> int) list" where
  "SURCHARGE = [(500000000, 10), (1000000000, 15), (2000000000, 25), (5000000000, 37)]"

definition rule_of :: "slabs \<Rightarrow> int \<Rightarrow> int \<Rightarrow> tax_rule" where
  "rule_of sl threshold maximum =
     \<lparr> new_slabs = Some sl, old_slabs = Some OLD_SLABS, new_rebate_threshold = Some threshold,
       new_rebate_max = Some maximum, old_rebate_threshold = Some 50000000, old_rebate_max = Some 1250000,
       cess_percent = Some 4, surcharge_table = Some SURCHARGE, new_surcharge_cap = Some 25,
       round_to_paise = Some 1000 \<rparr>"

definition DEFAULT_RULES :: "(string, tax_rule) dict" where
  "DEFAULT_RULES =
     [(''2025-26'', rule_of [(Some 30000000, 0), (Some 70000000, 5), (Some 100000000, 10), (Some 120000000, 15),
                             (Some 150000000, 20), (None, 30)] 70000000 2500000),
      (''2026-27'', rule_of [(Some 40000000, 0), (Some 80000000, 5), (Some 120000000, 10), (Some 160000000, 15),
                             (Some 200000000, 20), (Some 240000000, 25), (None, 30)] 120000000 6000000)]"

definition official_rule :: "string \<Rightarrow> tax_rule result" where
  "official_rule assessment_year =
     (case map_of DEFAULT_RULES assessment_year of
        None \<Rightarrow> Inl (ValueError ''No bundled official rule exists for this assessment year'')
      | Some r \<Rightarrow> Inr r)"

text \<open>Sorting a list of limits in which \<open>None\<close> occurs compares it with something, unless it is
  alone.\<close>

definition limits_sorted :: "int option list \<Rightarrow> bool result" where
  "limits_sorted ls = (if length ls \<le> 1 then Inr True
                       else if None \<in> set ls then Inl TypeError
                       else Inr (sorted (map the ls)))"

definition validate_slabs :: "string \<Rightarrow> slabs option \<Rightarrow> unit result" where
  "validate_slabs name sl =
     (let s = (case sl of None \<Rightarrow> [] | Some s \<Rightarrow> s) in
      if s = [] \<or> fst (last s) \<noteq> None then Inl (ValueError (name @ '' must end with an open slab''))
      else rbind (limits_sorted (map fst (butlast s))) (\<lambda>ok.
        if \<not> ok \<or> list_ex (\<lambda>(_, rate). rate < 0 \<or> rate > 100) s
        then Inl (ValueError (name @ '' is invalid'')) else Inr ()))"

definition validate_rule :: "tax_rule \<Rightarrow> unit result" where
  "validate_rule rule =
     rbind (validate_slabs ''new_slabs'' (new_slabs rule)) (\<lambda>_.
     rbind (validate_slabs ''old_slabs'' (old_slabs rule)) (\<lambda>_.
     let c = (case cess_percent rule of None \<Rightarrow> -1 | Some c \<Rightarrow> c) in
     if \<not> (0 \<le> c \<and> c < 101) then Inl (ValueError ''cess_percent is invalid'') else Inr ()))"

record slab_detail =
  from_paise :: int
  to_paise :: "int option"
  rate_percent :: int
  taxable_paise :: int
  tax_paise :: int

definition slab_part :: "int \<Rightarrow> int \<Rightarrow> int option \<Rightarrow> int" where
  "slab_part income lower upper =
     (case upper of None \<Rightarrow> max 0 (income - lower) | Some u \<Rightarrow> max 0 (min income u - lower))"

fun slab_tax_from :: "int \<Rightarrow> slabs \<Rightarrow> int \<Rightarrow> int \<times> slab_detail list" where
  "slab_tax_from income [] lower = (0, [])"
| "slab_tax_from income ((upper, rate) # rest) lower =
     (let taxable = slab_part income lower upper;
          amount = taxable * rate div 100;
          (tax, details) = (case upper of None \<Rightarrow> (0, [])
                            | Some u \<Rightarrow> if income \<le> u then (0, []) else slab_tax_from income rest u)
      in if taxable \<noteq> 0
         then (amount + tax, \<lparr> from_paise = lower, to_paise = upper, rate_percent = rate,
                               taxable_paise = taxable, tax_paise = amount \<rparr> # details)
         else (tax, details))"

definition slab_tax :: "int \<Rightarrow> slabs \<Rightarrow> int \<times> slab_detail list" where
  "slab_tax income sl = slab_tax_from income sl 0"

definition cap_rate :: "tax_rule \<Rightarrow> string \<Rightarrow> int \<Rightarrow> int" where
  "cap_rate rule regime rate =
     (if regime = ''NEW'' then min rate (case new_surcharge_cap rule of None \<Rightarrow> rate | Some c \<Rightarrow> c) else rate)"

definition surcharge_bands :: "tax_rule \<Rightarrow> (int \<times> int) list" where
  "surcharge_bands rule = (case surcharge_table rule of None \<Rightarrow> [] | Some t \<Rightarrow> t)"

definition band_for :: "(int \<times> int) list \<Rightarrow> int \<Rightarrow> int \<times> int" where
  "band_for bands income = fold (\<lambda>(limit, cand) (rate, th). if income > limit then (cand, limit) else (rate, th)) bands (0, 0)"

definition prior_rate :: "(int \<times> int) list \<Rightarrow> int \<Rightarrow> int" where
  "prior_rate bands threshold =
     (case map snd (filter (\<lambda>(limit, _). limit < threshold) bands) of [] \<Rightarrow> 0 | c # cs \<Rightarrow> fold max cs c)"

definition surcharge_of :: "int \<Rightarrow> int \<Rightarrow> tax_rule \<Rightarrow> string \<Rightarrow> slabs \<Rightarrow> int \<times> int \<times> int" where
  "surcharge_of income tax rule regime sl =
     (let (rate0, threshold) = band_for (surcharge_bands rule) income;
          rate = cap_rate rule regime rate0;
          surcharge = tax * rate div 100
      in if rate \<noteq> 0 \<and> threshold \<noteq> 0 then
           let threshold_tax = fst (slab_tax threshold sl);
               prior = cap_rate rule regime (prior_rate (surcharge_bands rule) threshold);
               permitted = threshold_tax + threshold_tax * prior div 100 + (income - threshold);
               relief = max 0 (tax + surcharge - permitted)
           in (rate, surcharge - relief, relief)
         else (rate, surcharge, 0))"

section \<open>\<open>calculate\<close>\<close>

record tax_input =
  i_income :: int
  i_deductions :: int
  i_tax_credits :: int
  i_regime :: string
  i_resident :: bool
  i_special_income :: int
  i_special_tax :: int
  i_new_allowed :: int

record tax_output =
  o_income :: int
  o_deductions :: int
  o_disallowed :: int
  o_normal_taxable :: int
  o_special_income :: int
  o_taxable :: int
  o_regime :: string
  o_details :: "slab_detail list"
  o_slab_tax :: int
  o_rebate :: int
  o_special_tax :: int
  o_surcharge_rate :: int
  o_surcharge :: int
  o_relief :: int
  o_cess :: int
  o_gross :: int
  o_credits :: int
  o_payable :: int
  o_rounded :: int
  o_refund :: int
  o_rounding_rule :: string

definition nz :: "int option \<Rightarrow> int" where "nz x = (case x of None \<Rightarrow> 0 | Some v \<Rightarrow> v)"

definition round_to :: "int \<Rightarrow> int \<Rightarrow> int" where
  "round_to unit payable = ((payable + unit div 2) div unit) * unit"

definition applied_deductions :: "string \<Rightarrow> tax_input \<Rightarrow> int" where
  "applied_deductions regime inp =
     (let requested = max 0 (i_deductions inp)
      in if regime = ''OLD'' then requested else max 0 (min requested (i_new_allowed inp)))"

record assessment =
  a_details :: "slab_detail list"
  a_slab :: int
  a_rebate :: int
  a_rate :: int
  a_surcharge :: int
  a_relief :: int
  a_cess :: int
  a_gross :: int

text \<open>The assessment of a taxable income: slab tax, rebate, surcharge and cess.\<close>

definition assess :: "tax_rule \<Rightarrow> string \<Rightarrow> tax_input \<Rightarrow> int \<Rightarrow> assessment" where
  "assess rule regime inp normal_taxable =
     (let taxable = normal_taxable + i_special_income inp;
          sl = the (if regime = ''NEW'' then new_slabs rule else old_slabs rule);
          (slab, details) = slab_tax normal_taxable sl;
          threshold = nz (if regime = ''NEW'' then new_rebate_threshold rule else old_rebate_threshold rule);
          maximum = nz (if regime = ''NEW'' then new_rebate_max rule else old_rebate_max rule);
          rebate = (if i_resident inp \<and> taxable \<le> threshold then min slab maximum else 0);
          normal_tax = slab - rebate;
          (rate, surcharge, relief) = surcharge_of taxable (normal_tax + i_special_tax inp) rule regime sl;
          cess = (normal_tax + i_special_tax inp + surcharge) * the (cess_percent rule) div 100
      in \<lparr> a_details = details, a_slab = slab, a_rebate = rebate, a_rate = rate, a_surcharge = surcharge,
           a_relief = relief, a_cess = cess, a_gross = normal_tax + i_special_tax inp + surcharge + cess \<rparr>)"

definition rounding_unit :: "tax_rule \<Rightarrow> int" where
  "rounding_unit rule = (case round_to_paise rule of None \<Rightarrow> 1000 | Some u \<Rightarrow> u)"

definition calculate :: "tax_rule \<Rightarrow> tax_input \<Rightarrow> tax_output result" where
  "calculate rule inp =
     rbind (validate_rule rule) (\<lambda>_.
     let regime = py_upper (i_regime inp) in
     if regime \<noteq> ''NEW'' \<and> regime \<noteq> ''OLD'' then Inl (ValueError ''regime must be NEW or OLD'')
     else
       let applied = applied_deductions regime inp;
           normal_taxable = max 0 (i_income inp - applied);
           a = assess rule regime inp normal_taxable;
           payable = max 0 (a_gross a - i_tax_credits inp);
           unit = rounding_unit rule
       in if unit = 0 then Inl ZeroDivisionError
          else Inr \<lparr> o_income = i_income inp, o_deductions = applied,
                     o_disallowed = max 0 (i_deductions inp) - applied,
                     o_normal_taxable = normal_taxable, o_special_income = i_special_income inp,
                     o_taxable = normal_taxable + i_special_income inp, o_regime = regime,
                     o_details = a_details a, o_slab_tax = a_slab a, o_rebate = a_rebate a,
                     o_special_tax = i_special_tax inp, o_surcharge_rate = a_rate a,
                     o_surcharge = a_surcharge a, o_relief = a_relief a, o_cess = a_cess a, o_gross = a_gross a,
                     o_credits = i_tax_credits inp, o_payable = payable, o_rounded = round_to unit payable,
                     o_refund = max 0 (i_tax_credits inp - a_gross a),
                     o_rounding_rule = ''NEAREST_'' @ int_to_str (unit div 100) @ ''_RUPEES'' \<rparr>)"

section \<open>Both loops compute the sum over the slabs\<close>

fun good_slabs :: "int \<Rightarrow> slabs \<Rightarrow> bool" where
  "good_slabs lower [] = False"
| "good_slabs lower ((None, rate) # rest) = (0 \<le> rate \<and> rate \<le> 100)"
| "good_slabs lower ((Some u, rate) # rest) = (lower < u \<and> 0 \<le> rate \<and> rate \<le> 100 \<and> good_slabs u rest)"

lemma good_tables: "good_slabs 0 NEW_REGIME_SLABS" "good_slabs 0 OLD_REGIME_SLABS"
  by (simp_all add: NEW_REGIME_SLABS_def OLD_REGIME_SLABS_def)

lemma fst_slab_tax_from:
  "fst (slab_tax_from x ((upper, rate) # rest) lower) =
     slab_part x lower upper * rate div 100
     + (case upper of None \<Rightarrow> 0 | Some u \<Rightarrow> if x \<le> u then 0 else fst (slab_tax_from x rest u))"
  by (auto simp: Let_def split: prod.splits option.splits)

declare slab_tax_from.simps(2) [simp del]

lemma slab_amount_loop_sum:
  "good_slabs lower sl \<Longrightarrow> 0 \<le> lower \<Longrightarrow>
     slab_amount_loop sl (x - lower) tax lower = tax + fst (slab_tax_from x sl lower)"
proof (induction lower sl arbitrary: tax rule: good_slabs.induct)
  case (3 lower u rate rest)
  then have ih: "slab_amount_loop rest (x - u) tax' u = tax' + fst (slab_tax_from x rest u)" for tax'
    by simp
  consider "x \<le> lower" | "lower < x" "x \<le> u" | "u < x" by linarith
  then show ?case
    using "3.prems" ih by cases (auto simp: Let_def in_slab_def fst_slab_tax_from slab_part_def next_limit_def)
qed (auto simp: Let_def in_slab_def fst_slab_tax_from slab_part_def)

lemma trunc_pos:
  assumes "0 \<le> n" "n < 2 ^ 53"
  shows "\<exists>v. int_truediv n 100 = Inr v \<and> float_trunc v = n div 100"
  using trunc_truediv_100 [of n] assms by (cases "n = 0") auto

lemma slab_loop_sum:
  "good_slabs lower sl \<Longrightarrow> 0 \<le> lower \<Longrightarrow> x < 2 ^ 46 \<Longrightarrow>
     \<exists>lines'. slab_loop sl (x - lower) tax lines lower = Inr (tax + fst (slab_tax_from x sl lower), lines')"
proof (induction lower sl arbitrary: tax lines rule: good_slabs.induct)
  case (2 lower rate rest)
  show ?case
  proof (cases "x \<le> lower")
    case False
    have "(x - lower) * rate \<le> x * 100" using False "2.prems" by (intro mult_mono) auto
    then have b: "0 \<le> (x - lower) * rate" "(x - lower) * rate < 2 ^ 53" using False "2.prems" by auto
    obtain v where "int_truediv ((x - lower) * rate) 100 = Inr v" "float_trunc v = (x - lower) * rate div 100"
      using trunc_pos [OF b] by auto
    then show ?thesis using False by (simp add: Let_def in_slab_def fst_slab_tax_from slab_part_def)
  qed (simp add: Let_def in_slab_def fst_slab_tax_from slab_part_def)
next
  case (3 lower u rate rest)
  then have ih: "\<exists>lines'. slab_loop rest (x - u) tax' l' u = Inr (tax' + fst (slab_tax_from x rest u), lines')" for tax' l'
    by simp
  show ?case
  proof (cases "x \<le> lower")
    case False
    define t where "t = min (x - lower) (u - lower)"
    have t: "0 < t" using False "3.prems" by (simp add: t_def)
    have "t * rate \<le> x * 100" using t "3.prems" by (intro mult_mono) (auto simp: t_def)
    then have b: "0 \<le> t * rate" "t * rate < 2 ^ 53" using t "3.prems" by auto
    obtain v where v: "int_truediv (t * rate) 100 = Inr v" "float_trunc v = t * rate div 100"
      using trunc_pos [OF b] by auto
    have part: "slab_part x lower (Some u) = t" using False "3.prems" by (auto simp: slab_part_def t_def)
    have ins: "in_slab (x - lower) lower (Some u) = t" by (simp add: in_slab_def t_def)
    have rest: "x - lower - t \<le> 0 \<longleftrightarrow> x \<le> u" "\<not> x \<le> u \<Longrightarrow> x - lower - t = x - u"
      using False by (auto simp: t_def)
    have nl: "next_limit (Some u) lower = u" using "3.prems" by (auto simp: next_limit_def)
    show ?thesis
    proof (cases "x \<le> u")
      case True
      then show ?thesis using t v rest by (simp add: Let_def ins part fst_slab_tax_from)
    next
      case False
      have "\<not> x - lower - t \<le> 0" using False rest(1) by simp
      then show ?thesis
        using t v ih [of "tax + t * rate div 100", unfolded add.assoc] False
        by (simp only: slab_loop.simps Let_def ins rbind.simps part nl fst_slab_tax_from rest(2) if_False not_le
            option.case add.assoc)
           simp
    qed
  qed (use "3.prems" in \<open>auto simp: Let_def in_slab_def fst_slab_tax_from slab_part_def\<close>)
qed simp

section \<open>The slab tax grows, and not faster than the income\<close>

lemma percent_step:
  assumes "a \<le> b" "0 \<le> r" "r \<le> (100::int)"
  shows "a * r div 100 \<le> b * r div 100" and "b * r div 100 - a * r div 100 \<le> b - a"
proof -
  show "a * r div 100 \<le> b * r div 100" using assms by (intro zdiv_mono1 mult_right_mono) auto
  have "(b - a) * r \<le> (b - a) * 100" using assms by (intro mult_left_mono) auto
  then have "b * r \<le> a * r + (b - a) * 100" by (simp add: algebra_simps)
  then have "b * r div 100 \<le> (a * r + (b - a) * 100) div 100" by (rule zdiv_mono1) simp
  then show "b * r div 100 - a * r div 100 \<le> b - a" by simp
qed

lemma slab_sum_below: "good_slabs lower sl \<Longrightarrow> x \<le> lower \<Longrightarrow> fst (slab_tax_from x sl lower) = 0"
  by (cases "(lower, sl)" rule: good_slabs.cases) (auto simp: fst_slab_tax_from slab_part_def)

lemma slab_sum_step:
  "good_slabs lower sl \<Longrightarrow> lower \<le> x \<Longrightarrow> x \<le> y \<Longrightarrow>
     fst (slab_tax_from x sl lower) \<le> fst (slab_tax_from y sl lower)
     \<and> fst (slab_tax_from y sl lower) - fst (slab_tax_from x sl lower) \<le> y - x"
proof (induction lower sl arbitrary: x y rule: good_slabs.induct)
  case (2 lower rate rest)
  then show ?case
    using percent_step [of "x - lower" "y - lower" rate]
    by (simp add: fst_slab_tax_from slab_part_def max_def)
next
  case (3 lower u rate rest)
  then have g: "good_slabs u rest" and r: "0 \<le> rate" "rate \<le> 100" and u: "lower < u" by auto
  consider "y \<le> u" | "x \<le> u" "u < y" | "u < x" by linarith
  then show ?case
  proof cases
    case 1
    then show ?thesis using 3 percent_step [of "x - lower" "y - lower" rate]
      by (simp add: fst_slab_tax_from slab_part_def max_def min_def)
  next
    case 2
    then show ?thesis
      using 3 percent_step [of "x - lower" "u - lower" rate] "3.IH" [OF g, of u y] slab_sum_below [OF g, of u]
      by (simp add: fst_slab_tax_from slab_part_def max_def min_def)
  next
    case 3
    then show ?thesis using "3.IH" [OF g, of x y] 3 "3.prems"
      by (simp add: fst_slab_tax_from slab_part_def max_def min_def)
  qed
qed simp

lemma slab_tax_amount_sum: "good_slabs 0 sl \<Longrightarrow> slab_tax_amount x sl = fst (slab_tax x sl)"
  using slab_amount_loop_sum [of 0 sl x 0] by (simp add: slab_tax_amount_def slab_tax_def)

lemma slab_tax_step:
  assumes "good_slabs 0 sl" "0 \<le> x" "x \<le> y"
  shows "fst (slab_tax x sl) \<le> fst (slab_tax y sl)" "fst (slab_tax y sl) - fst (slab_tax x sl) \<le> y - x"
  using slab_sum_step [OF assms] by (simp_all add: slab_tax_def)

lemma slab_tax_nonneg: "good_slabs 0 sl \<Longrightarrow> 0 \<le> x \<Longrightarrow> 0 \<le> fst (slab_tax x sl) \<and> fst (slab_tax x sl) \<le> x"
  using slab_tax_step [of sl 0 x] slab_sum_below [of 0 sl 0] by (simp add: slab_tax_def)

section \<open>Surcharge and marginal relief\<close>

definition regime_slabs :: "string \<Rightarrow> slabs" where
  "regime_slabs regime = (if regime = ''NEW'' then NEW_REGIME_SLABS else OLD_REGIME_SLABS)"

lemma good_regime: "good_slabs 0 (regime_slabs regime)"
  using good_tables by (simp add: regime_slabs_def)

lemma tax_within_permitted:
  assumes "good_slabs 0 sl" "0 \<le> th" "th \<le> x" "0 \<le> pr"
  shows "fst (slab_tax x sl) \<le> permitted_tax sl th pr x"
proof -
  have "0 \<le> fst (slab_tax th sl) * pr div 100"
    using slab_tax_nonneg [OF assms(1,2)] assms(4) by (simp add: pos_imp_zdiv_nonneg_iff)
  then show ?thesis
    using slab_tax_step(2) [OF assms(1-3)] by (simp add: permitted_tax_def Let_def slab_tax_amount_sum [OF assms(1)])
qed

text \<open>The computation with its parts named, for any income in range.\<close>

lemma calculate_income_tax_parts:
  assumes "0 \<le> x" "x < 2 ^ 46"
  obtains t where "calculate_income_tax x regime = Inr t"
    and "t_base_tax t + t_rebate_87a t = fst (slab_tax x (regime_slabs regime))"
    and "t_rebate_87a t = (if regime = ''NEW'' \<and> x \<le> 70000000 then fst (slab_tax x (regime_slabs regime)) else 0)"
    and "t_surcharge_rate t = fst (surcharge_band x regime)"
    and "t_surcharge t + t_marginal_relief t = t_base_tax t * t_surcharge_rate t div 100"
    and "t_marginal_relief t = (case fst (snd (surcharge_band x regime)) of None \<Rightarrow> 0
           | Some th \<Rightarrow> max 0 (t_base_tax t + t_base_tax t * t_surcharge_rate t div 100
                - permitted_tax (regime_slabs regime) th (snd (snd (surcharge_band x regime))) x))"
    and "t_cess t = (t_base_tax t + t_surcharge t) * 4 div 100"
    and "t_total_tax t = t_base_tax t + t_surcharge t + t_cess t"
    and "0 \<le> t_base_tax t" "0 \<le> t_surcharge t" "0 \<le> t_marginal_relief t"
proof -
  define sl where "sl = regime_slabs regime"
  define S where "S = fst (slab_tax x sl)"
  define rebated where "rebated = (regime = ''NEW'' \<and> x \<le> 70000000)"
  define tax where "tax = (if rebated then 0 else S)"
  obtain r th pr where band: "surcharge_band x regime = (r, th, pr)" by (cases "surcharge_band x regime") auto
  define un where "un = tax * r div 100"
  define relief where "relief = (case th of None \<Rightarrow> 0 | Some th \<Rightarrow> max 0 (tax + un - permitted_tax sl th pr x))"
  define cess where "cess = (tax + (un - relief)) * 4 div 100"
  have good: "good_slabs 0 sl" unfolding sl_def by (rule good_regime)
  have S: "0 \<le> S" "S \<le> x" using slab_tax_nonneg [OF good assms(1)] by (auto simp: S_def)
  then have tax: "0 \<le> tax" "tax \<le> S" by (auto simp: tax_def)
  have r: "0 \<le> r" "r \<le> 37" using band by (auto simp: surcharge_band_def split: if_splits)
  have un: "0 \<le> un" "un \<le> tax"
  proof -
    show "0 \<le> un" using tax r by (simp add: un_def pos_imp_zdiv_nonneg_iff)
    have "tax * r \<le> tax * 100" using tax r by (intro mult_left_mono) auto
    then have "un \<le> tax * 100 div 100" unfolding un_def by (intro zdiv_mono1) auto
    then show "un \<le> tax" by simp
  qed
  have rel: "0 \<le> relief" "relief \<le> un"
  proof (atomize (full), cases th)
    case (Some h)
    then have "0 \<le> h" "h \<le> x" "0 \<le> pr" using band by (auto simp: surcharge_band_def split: if_splits)
    then have "S \<le> permitted_tax sl h pr x" unfolding S_def by (rule tax_within_permitted [OF good])
    then show "0 \<le> relief \<and> relief \<le> un" using tax un Some by (simp add: relief_def)
  qed (simp add: relief_def un)
  obtain lines where loop: "slab_loop sl x 0 [] 0 = Inr (S, lines)"
    using slab_loop_sum [OF good _ assms(2), of 0 "[]"] by (auto simp: S_def slab_tax_def)
  have "0 \<le> (tax + (un - relief)) * 4" "(tax + (un - relief)) * 4 < 2 ^ 53"
    using tax un rel S assms by simp_all
  then obtain v where v: "int_truediv ((tax + (un - relief)) * 4) 100 = Inr v" "float_trunc v = cess"
    using trunc_pos by (auto simp: cess_def)
  have sl_if: "(if regime = ''NEW'' then NEW_REGIME_SLABS else OLD_REGIME_SLABS) = sl"
    by (simp add: sl_def regime_slabs_def)
  let ?t = "\<lparr> t_taxable_income = x, t_regime = regime, t_base_tax = tax, t_rebate_87a = (if rebated then S else 0),
        t_surcharge_rate = r, t_surcharge = un - relief, t_marginal_relief = relief, t_cess_rate = CESS_RATE,
        t_cess = cess, t_total_tax = tax + (un - relief) + cess, t_slab_details = lines \<rparr>"
  have "calculate_income_tax x regime = Inr ?t"
    unfolding calculate_income_tax_def sl_if Let_def loop rbind.simps prod.case rebated_def [symmetric]
      tax_def [symmetric] band un_def [symmetric] relief_def [symmetric] CESS_RATE_def v ..
  then show thesis
  proof (rule that)
    show "t_base_tax ?t + t_rebate_87a ?t = fst (slab_tax x (regime_slabs regime))"
      by (simp add: tax_def S_def flip: sl_def)
    show "t_rebate_87a ?t = (if regime = ''NEW'' \<and> x \<le> 70000000 then fst (slab_tax x (regime_slabs regime)) else 0)"
      by (simp add: S_def flip: sl_def rebated_def)
    show "t_surcharge_rate ?t = fst (surcharge_band x regime)" by (simp add: band)
    show "t_surcharge ?t + t_marginal_relief ?t = t_base_tax ?t * t_surcharge_rate ?t div 100" by (simp add: un_def)
    show "t_marginal_relief ?t = (case fst (snd (surcharge_band x regime)) of None \<Rightarrow> 0
           | Some th \<Rightarrow> max 0 (t_base_tax ?t + t_base_tax ?t * t_surcharge_rate ?t div 100
                - permitted_tax (regime_slabs regime) th (snd (snd (surcharge_band x regime))) x))"
      by (cases th) (simp_all add: band relief_def un_def flip: sl_def)
    show "t_cess ?t = (t_base_tax ?t + t_surcharge ?t) * 4 div 100" by (simp add: cess_def)
  qed (use tax un rel in simp_all)
qed

text \<open>The surcharge as the law states it: the steps of the table with the incomes they start above, the step
  to thirty-seven percent only in the old regime.\<close>

definition surcharge_steps :: "string \<Rightarrow> (int \<times> int) list" where
  "surcharge_steps regime =
     [(500000000, 10), (1000000000, 15), (2000000000, 25)] @ (if regime = ''NEW'' then [] else [(5000000000, 37)])"

definition steps_below :: "string \<Rightarrow> int \<Rightarrow> (int \<times> int) list" where
  "steps_below regime x = filter (\<lambda>(threshold, rate). threshold < x) (surcharge_steps regime)"

definition due_rate :: "string \<Rightarrow> int \<Rightarrow> int" where
  "due_rate regime x = (if steps_below regime x = [] then 0 else snd (last (steps_below regime x)))"

text \<open>The tax with surcharge may not exceed that at the last step plus the income above it.\<close>

definition relief_limit :: "string \<Rightarrow> int \<Rightarrow> int" where
  "relief_limit regime x =
     (let th = fst (last (steps_below regime x)); due = fst (slab_tax th (regime_slabs regime))
      in due + due * due_rate regime th div 100 + (x - th))"

lemma band_due:
  "surcharge_band x regime =
     (due_rate regime x,
      if steps_below regime x = [] then None else Some (fst (last (steps_below regime x))),
      if steps_below regime x = [] then 0 else due_rate regime (fst (last (steps_below regime x))))"
  by (auto simp: surcharge_band_def due_rate_def steps_below_def surcharge_steps_def)

text \<open>
  C27. Income tax with rebate, surcharge and marginal relief, for every income below two to the 46th paise.
  The computation returns. The slab tax is split into the base tax and the rebate, and the rebate is
  all of it in the new regime up to seven lakh rupees and nothing otherwise. The surcharge rate is that of
  the last step of the table below the income. Without a step there is no surcharge; otherwise tax and
  surcharge together are exactly the smaller of the tax with the unrelieved surcharge and the tax with surcharge at the
  step plus the income above it, and the relief is the rest of the unrelieved surcharge. The cess is four
  percent of tax and surcharge and the total is the sum; nothing is negative.
\<close>

theorem income_tax_relief:
  assumes "0 \<le> x" and "x < 2 ^ 46"
  shows "\<exists>t. calculate_income_tax x regime = Inr t
           \<and> t_base_tax t = fst (slab_tax x (regime_slabs regime)) - t_rebate_87a t
           \<and> t_rebate_87a t = (if regime = ''NEW'' \<and> x \<le> 70000000 then fst (slab_tax x (regime_slabs regime)) else 0)
           \<and> t_surcharge_rate t = due_rate regime x
           \<and> t_base_tax t + t_surcharge t
               = (if steps_below regime x = [] then t_base_tax t
                  else min (t_base_tax t + t_base_tax t * due_rate regime x div 100) (relief_limit regime x))
           \<and> t_marginal_relief t = t_base_tax t * due_rate regime x div 100 - t_surcharge t
           \<and> t_cess t = (t_base_tax t + t_surcharge t) * 4 div 100
           \<and> t_total_tax t = t_base_tax t + t_surcharge t + t_cess t
           \<and> 0 \<le> t_base_tax t \<and> 0 \<le> t_surcharge t \<and> 0 \<le> t_marginal_relief t"
proof -
  obtain t where t: "calculate_income_tax x regime = Inr t"
    and p: "t_base_tax t + t_rebate_87a t = fst (slab_tax x (regime_slabs regime))"
      "t_rebate_87a t = (if regime = ''NEW'' \<and> x \<le> 70000000 then fst (slab_tax x (regime_slabs regime)) else 0)"
      "t_surcharge_rate t = fst (surcharge_band x regime)"
      "t_surcharge t + t_marginal_relief t = t_base_tax t * t_surcharge_rate t div 100"
      "t_marginal_relief t = (case fst (snd (surcharge_band x regime)) of None \<Rightarrow> 0
           | Some th \<Rightarrow> max 0 (t_base_tax t + t_base_tax t * t_surcharge_rate t div 100
                - permitted_tax (regime_slabs regime) th (snd (snd (surcharge_band x regime))) x))"
      "t_cess t = (t_base_tax t + t_surcharge t) * 4 div 100"
      "t_total_tax t = t_base_tax t + t_surcharge t + t_cess t"
      "0 \<le> t_base_tax t" "0 \<le> t_surcharge t" "0 \<le> t_marginal_relief t"
    using calculate_income_tax_parts [OF assms, of regime] by metis
  have rate: "t_surcharge_rate t = due_rate regime x" using p(3) by (simp add: band_due)
  have sum: "t_base_tax t + t_surcharge t
      = (if steps_below regime x = [] then t_base_tax t
         else min (t_base_tax t + t_base_tax t * due_rate regime x div 100) (relief_limit regime x))"
  proof (cases "steps_below regime x = []")
    case True
    then have "due_rate regime x = 0" by (simp add: due_rate_def)
    then show ?thesis using p(4,5) rate True by (simp add: band_due)
  next
    case False
    have "permitted_tax (regime_slabs regime) (fst (last (steps_below regime x))) (due_rate regime (fst (last (steps_below regime x)))) x
        = relief_limit regime x"
      by (simp add: permitted_tax_def relief_limit_def Let_def slab_tax_amount_sum [OF good_regime])
    then show ?thesis using p(4,5) rate False by (simp add: band_due)
  qed
  have base: "t_base_tax t = fst (slab_tax x (regime_slabs regime)) - t_rebate_87a t" using p(1) by linarith
  have relief: "t_marginal_relief t = t_base_tax t * due_rate regime x div 100 - t_surcharge t"
    using p(4) unfolding rate by linarith
  show ?thesis by (intro exI [of _ t] conjI t base p(2) rate sum relief p(6-10))
qed

lemma income_tax_relief_witness:
  "\<exists>t. calculate_income_tax 500100000 ''NEW'' = Inr t \<and> t_surcharge_rate t = 10
     \<and> t_base_tax t + t_surcharge t = relief_limit ''NEW'' 500100000"
proof -
  have s: "steps_below ''NEW'' 500100000 = [(500000000, 10)]" by (simp add: steps_below_def surcharge_steps_def)
  have "steps_below ''NEW'' 500000000 = []" by (simp add: steps_below_def surcharge_steps_def)
  then have z: "due_rate ''NEW'' 500000000 = 0" by (simp add: due_rate_def)
  have v: "fst (slab_tax 500100000 (regime_slabs ''NEW'')) = 119030000" "fst (slab_tax 500000000 (regime_slabs ''NEW'')) = 119000000"
    by (simp_all add: regime_slabs_def slab_tax_def NEW_REGIME_SLABS_def fst_slab_tax_from slab_part_def)
  have "(0::int) \<le> 500100000" "(500100000::int) < 2 ^ 46" by simp_all
  from income_tax_relief [OF this, of "''NEW''"] show ?thesis
    by (auto simp: due_rate_def [of _ 500100000] s relief_limit_def z v)
qed

section \<open>The two engines agree on the new regime\<close>

definition plain_input :: "int \<Rightarrow> string \<Rightarrow> tax_input" where
  "plain_input income regime =
     \<lparr> i_income = income, i_deductions = 0, i_tax_credits = 0, i_regime = regime, i_resident = True,
       i_special_income = 0, i_special_tax = 0, i_new_allowed = 0 \<rparr>"

definition rule_2025 :: tax_rule where "rule_2025 = rule_of NEW_REGIME_SLABS 70000000 2500000"

lemma official_rule_2025: "official_rule ''2025-26'' = Inr rule_2025"
  by (simp add: official_rule_def DEFAULT_RULES_def rule_2025_def NEW_REGIME_SLABS_def)

lemma validate_2025: "validate_rule rule_2025 = Inr ()"
  by (simp add: validate_rule_def rule_2025_def rule_of_def validate_slabs_def NEW_REGIME_SLABS_def OLD_SLABS_def
      limits_sorted_def)

lemma slab_tax_7L: "0 \<le> x \<Longrightarrow> x \<le> 70000000 \<Longrightarrow> fst (slab_tax x NEW_REGIME_SLABS) \<le> 2500000"
  using slab_tax_step(1) [of NEW_REGIME_SLABS x 70000000] good_tables
  by (simp add: slab_tax_def NEW_REGIME_SLABS_def fst_slab_tax_from slab_part_def)

lemma slab_tax_above_15L:
  "150000000 < x \<Longrightarrow> fst (slab_tax x NEW_REGIME_SLABS) = 14000000 + (x - 150000000) * 30 div 100"
  by (simp add: slab_tax_def NEW_REGIME_SLABS_def fst_slab_tax_from slab_part_def)

text \<open>The surcharge of the rule table for the new regime, and that of the built-in bands.\<close>

lemma cap_2025: "cap_rate rule_2025 ''NEW'' r = min r 25"
  by (simp add: cap_rate_def rule_2025_def rule_of_def)

lemma bands_2025: "surcharge_bands rule_2025 = SURCHARGE"
  by (simp add: surcharge_bands_def rule_2025_def rule_of_def)

lemma slab_tax_beyond:
  assumes "150000000 < th" "th \<le> x" "(th - 150000000) mod 10 = 0"
  shows "fst (slab_tax x NEW_REGIME_SLABS) = fst (slab_tax th NEW_REGIME_SLABS) + (x - th) * 30 div 100"
proof -
  define k where "k = (th - 150000000) div 10"
  have k: "th - 150000000 = 10 * k" using assms(3) by (metis add.right_neutral k_def mult_div_mod_eq)
  then have "(x - 150000000) * 30 = (x - th) * 30 + (3 * k) * 100" by (simp add: algebra_simps)
  then have "(x - 150000000) * 30 div 100 = (x - th) * 30 div 100 + 3 * k"
    by (simp only: div_mult_self1)
  moreover have "(th - 150000000) * 30 div 100 = 3 * k" by (simp add: k)
  ultimately show ?thesis using assms by (simp add: slab_tax_above_15L)
qed

lemma thirty_percent: "0 \<le> d \<Longrightarrow> 0 \<le> d * 30 div 100 \<and> 10 * (d * 30 div 100) \<le> 3 * (d::int)"
proof -
  assume "0 \<le> d"
  moreover have "100 * (d * 30 div 100) + d * 30 mod 100 = d * 30" by (rule mult_div_mod_eq)
  moreover have "0 \<le> d * 30 mod 100" by simp
  ultimately show ?thesis by (simp add: pos_imp_zdiv_nonneg_iff)
qed

lemma quarter: "(4 * k + m) * 25 div 100 = k + m div (4::int)"
proof -
  have "(4 * k + m) * 25 = 25 * (4 * k + m)" "(100::int) = 25 * 4" by simp_all
  then have "(4 * k + m) * 25 div 100 = (4 * k + m) div 4" by (simp only: div_mult_mult1)
  then show ?thesis by simp
qed

lemma relief_above_5Cr:
  assumes "5000000000 < x"
  defines "S \<equiv> fst (slab_tax x NEW_REGIME_SLABS)"
  shows "S + S * 25 div 100 \<le> 1469000000 + 1469000000 * 25 div 100 + (x - 5000000000)"
    and "S + S * 25 div 100 \<le> 569000000 + 569000000 * 15 div 100 + (x - 2000000000)"
proof -
  have 5: "fst (slab_tax 5000000000 NEW_REGIME_SLABS) = 1469000000" by (simp add: slab_tax_above_15L)
  define m where "m = (x - 5000000000) * 30 div 100"
  have S: "S = 4 * 367250000 + m"
    unfolding S_def m_def using slab_tax_beyond [of 5000000000 x] assms(1) by (simp add: 5)
  have m: "0 \<le> m" "10 * m \<le> 3 * (x - 5000000000)"
    unfolding m_def using thirty_percent [of "x - 5000000000"] assms(1) by simp_all
  have "S * 25 div 100 = 367250000 + m div 4" unfolding S by (rule quarter)
  moreover have "m div 4 \<le> m" using m(1) by presburger
  ultimately show "S + S * 25 div 100 \<le> 1469000000 + 1469000000 * 25 div 100 + (x - 5000000000)"
    "S + S * 25 div 100 \<le> 569000000 + 569000000 * 15 div 100 + (x - 2000000000)"
    using m S assms(1) by simp_all
qed

definition agrees :: "income_tax \<Rightarrow> tax_output \<Rightarrow> bool" where
  "agrees t out = (t_base_tax t + t_rebate_87a t = o_slab_tax out \<and> t_rebate_87a t = o_rebate out
     \<and> t_surcharge_rate t = o_surcharge_rate out \<and> t_surcharge t = o_surcharge out
     \<and> t_marginal_relief t = o_relief out \<and> t_cess t = o_cess out \<and> t_total_tax t = o_gross out)"

lemma band_for_2025:
  "band_for SURCHARGE x =
     (if x \<le> 500000000 then (0, 0) else if x \<le> 1000000000 then (10, 500000000)
      else if x \<le> 2000000000 then (15, 1000000000) else if x \<le> 5000000000 then (25, 2000000000)
      else (37, 5000000000))"
  by (simp add: band_for_def SURCHARGE_def)

lemma prior_2025:
  "prior_rate SURCHARGE 500000000 = 0" "prior_rate SURCHARGE 1000000000 = 10"
  "prior_rate SURCHARGE 2000000000 = 15" "prior_rate SURCHARGE 5000000000 = 25"
  by (simp_all add: prior_rate_def SURCHARGE_def)

definition band_surcharge :: "int \<Rightarrow> int \<Rightarrow> int \<times> int \<times> int" where
  "band_surcharge x tax =
     (let (rate, th, pr) = surcharge_band x ''NEW'';
          un = tax * rate div 100;
          relief = (case th of None \<Rightarrow> 0 | Some th \<Rightarrow> max 0 (tax + un - permitted_tax NEW_REGIME_SLABS th pr x))
      in (rate, un - relief, relief))"

lemma surcharge_agrees:
  assumes "tax = (if x \<le> 70000000 then 0 else fst (slab_tax x NEW_REGIME_SLABS))"
  shows "surcharge_of x tax rule_2025 ''NEW'' NEW_REGIME_SLABS = band_surcharge x tax"
proof -
  have sum: "slab_tax_amount h NEW_REGIME_SLABS = fst (slab_tax h NEW_REGIME_SLABS)" for h
    by (rule slab_tax_amount_sum [OF good_tables(1)])
  have th: "fst (slab_tax 5000000000 NEW_REGIME_SLABS) = 1469000000"
    "fst (slab_tax 2000000000 NEW_REGIME_SLABS) = 569000000" by (simp_all add: slab_tax_above_15L)
  consider "x \<le> 500000000" | "500000000 < x" "x \<le> 1000000000" | "1000000000 < x" "x \<le> 2000000000"
    | "2000000000 < x" "x \<le> 5000000000" | "5000000000 < x" by linarith
  then show ?thesis
  proof cases
    case 5
    have "tax = fst (slab_tax x NEW_REGIME_SLABS)" using assms 5 by simp
    with relief_above_5Cr [OF 5] show ?thesis using 5
      by (simp add: surcharge_of_def band_surcharge_def surcharge_band_def bands_2025 band_for_2025 cap_2025
          prior_2025 permitted_tax_def sum th Let_def)
  qed (simp_all add: surcharge_of_def band_surcharge_def surcharge_band_def bands_2025 band_for_2025 cap_2025
      prior_2025 permitted_tax_def sum Let_def algebra_simps)
qed

text \<open>
  C14. The two engines agree. On the new regime of assessment year 2025-26, for every income below two
  to the 46th paise with no deductions, the band engine with its float slabs and the rule engine with
  the bundled official rule return the same slab tax, rebate, surcharge rate, surcharge, marginal
  relief, cess and total.
\<close>

theorem engines_agree_2025:
  assumes "0 \<le> x" and "x < 2 ^ 46"
  shows "\<exists>rule t out. official_rule ''2025-26'' = Inr rule \<and> calculate_income_tax x ''NEW'' = Inr t
           \<and> calculate rule (plain_input x ''NEW'') = Inr out \<and> agrees t out"
proof -
  obtain t where t: "calculate_income_tax x ''NEW'' = Inr t"
    and p: "t_base_tax t + t_rebate_87a t = fst (slab_tax x (regime_slabs ''NEW''))"
      "t_rebate_87a t = (if ''NEW'' = ''NEW'' \<and> x \<le> 70000000 then fst (slab_tax x (regime_slabs ''NEW'')) else 0)"
      "t_surcharge_rate t = fst (surcharge_band x ''NEW'')"
      "t_surcharge t + t_marginal_relief t = t_base_tax t * t_surcharge_rate t div 100"
      "t_marginal_relief t = (case fst (snd (surcharge_band x ''NEW'')) of None \<Rightarrow> 0
           | Some th \<Rightarrow> max 0 (t_base_tax t + t_base_tax t * t_surcharge_rate t div 100
                - permitted_tax (regime_slabs ''NEW'') th (snd (snd (surcharge_band x ''NEW''))) x))"
      "t_cess t = (t_base_tax t + t_surcharge t) * 4 div 100"
      "t_total_tax t = t_base_tax t + t_surcharge t + t_cess t"
    and "0 \<le> t_base_tax t" "0 \<le> t_surcharge t" "0 \<le> t_marginal_relief t"
    by (rule calculate_income_tax_parts [OF assms, of "''NEW''"])
  define S where "S = fst (slab_tax x NEW_REGIME_SLABS)"
  define rebate where "rebate = (if x \<le> 70000000 then S else 0)"
  have rs: "regime_slabs ''NEW'' = NEW_REGIME_SLABS" by (simp add: regime_slabs_def)
  have tax: "t_base_tax t = S - rebate" "t_rebate_87a t = rebate"
    using p(1,2) by (auto simp: rebate_def S_def rs)
  have "S - rebate = (if x \<le> 70000000 then 0 else fst (slab_tax x NEW_REGIME_SLABS))"
    by (simp add: rebate_def S_def)
  note sur = surcharge_agrees [OF this]
  obtain r th pr where band: "surcharge_band x ''NEW'' = (r, th, pr)" by (cases "surcharge_band x ''NEW''") auto
  have bs: "band_surcharge x (S - rebate) = (t_surcharge_rate t, t_surcharge t, t_marginal_relief t)"
    using p(3-5) tax by (cases th) (simp_all add: band_surcharge_def band rs Let_def)
  have reb: "min S 2500000 = S" if "x \<le> 70000000" using slab_tax_7L [OF assms(1) that] by (simp add: S_def)
  have up: "py_upper ''NEW'' = ''NEW''" by code_simp
  obtain details where sl: "slab_tax x NEW_REGIME_SLABS = (S, details)" by (cases "slab_tax x NEW_REGIME_SLABS") (simp add: S_def)
  have f: "the (new_slabs rule_2025) = NEW_REGIME_SLABS" "nz (new_rebate_threshold rule_2025) = 70000000"
    "nz (new_rebate_max rule_2025) = 2500000" "the (cess_percent rule_2025) = 4" "round_to_paise rule_2025 = Some 1000"
    by (simp_all add: rule_2025_def rule_of_def nz_def)
  have rb: "(if x \<le> 70000000 then min S 2500000 else 0) = rebate" using reb by (simp add: rebate_def)
  have as: "assess rule_2025 ''NEW'' (plain_input x ''NEW'') x =
      \<lparr> a_details = details, a_slab = S, a_rebate = rebate, a_rate = t_surcharge_rate t,
        a_surcharge = t_surcharge t, a_relief = t_marginal_relief t, a_cess = t_cess t, a_gross = t_total_tax t \<rparr>"
    using p(6,7) tax sur bs by (simp add: assess_def plain_input_def f sl rb Let_def)
  have ded: "applied_deductions ''NEW'' (plain_input x ''NEW'') = 0"
    by (simp add: applied_deductions_def plain_input_def)
  have inp: "i_regime (plain_input x ''NEW'') = ''NEW''" "i_income (plain_input x ''NEW'') = x"
    by (simp_all add: plain_input_def)
  have "max 0 (x - 0) = x" using assms(1) by simp
  then have "\<exists>out. calculate rule_2025 (plain_input x ''NEW'') = Inr out \<and> agrees t out"
    using tax by (simp add: calculate_def validate_2025 up inp ded as agrees_def rounding_unit_def f(5) Let_def)
  then show ?thesis using t official_rule_2025 by blast
qed

lemma engines_agree_2025_witness:
  "\<exists>rule t out. official_rule ''2025-26'' = Inr rule \<and> calculate_income_tax 700000000 ''NEW'' = Inr t
           \<and> calculate rule (plain_input 700000000 ''NEW'') = Inr out \<and> agrees t out"
  by (rule engines_agree_2025) simp_all

text \<open>
  They do not agree on the old regime: on an income of five lakh rupees the rule engine grants
  the rebate of 12,500 rupees and asks nothing, while the band engine, which knows no old-regime
  rebate, asks 12,500 rupees and the cess on it.
\<close>

theorem old_regime_rebate_missing:
  "(\<exists>t. calculate_income_tax 50000000 ''OLD'' = Inr t \<and> t_base_tax t = 1250000 \<and> t_total_tax t = 1300000)
   \<and> (\<exists>out. calculate rule_2025 (plain_input 50000000 ''OLD'') = Inr out \<and> o_slab_tax out = 1250000
            \<and> o_rebate out = 1250000 \<and> o_gross out = 0)"
proof
  have b: "(0::int) \<le> 50000000" "(50000000::int) < 2 ^ 46" by simp_all
  have s: "fst (slab_tax 50000000 (regime_slabs ''OLD'')) = 1250000" "surcharge_band 50000000 ''OLD'' = (0, None, 0)"
    by (simp_all add: regime_slabs_def OLD_REGIME_SLABS_def slab_tax_def fst_slab_tax_from slab_part_def
        surcharge_band_def)
  show "\<exists>t. calculate_income_tax 50000000 ''OLD'' = Inr t \<and> t_base_tax t = 1250000 \<and> t_total_tax t = 1300000"
    by (rule calculate_income_tax_parts [OF b, of "''OLD''"]) (auto simp: s)
  have up: "py_upper ''OLD'' = ''OLD''" by code_simp
  have sl: "the (old_slabs rule_2025) = OLD_REGIME_SLABS"
    by (simp add: rule_2025_def rule_of_def OLD_SLABS_def OLD_REGIME_SLABS_def)
  obtain d where d: "slab_tax 50000000 OLD_REGIME_SLABS = (1250000, d)"
    using s(1) by (cases "slab_tax 50000000 OLD_REGIME_SLABS") (simp add: regime_slabs_def)
  have sur: "surcharge_of 50000000 0 rule_2025 ''OLD'' OLD_REGIME_SLABS = (0, 0, 0)"
    by (simp add: surcharge_of_def bands_2025 band_for_2025 cap_rate_def)
  have f: "nz (old_rebate_threshold rule_2025) = 50000000" "nz (old_rebate_max rule_2025) = 1250000"
    "the (cess_percent rule_2025) = 4" "round_to_paise rule_2025 = Some 1000"
    by (simp_all add: rule_2025_def rule_of_def nz_def)
  have as: "a_slab (assess rule_2025 ''OLD'' (plain_input 50000000 ''OLD'') 50000000) = 1250000"
    "a_rebate (assess rule_2025 ''OLD'' (plain_input 50000000 ''OLD'') 50000000) = 1250000"
    "a_gross (assess rule_2025 ''OLD'' (plain_input 50000000 ''OLD'') 50000000) = 0"
    by (simp_all add: assess_def plain_input_def sl d f sur Let_def)
  have inp: "applied_deductions ''OLD'' (plain_input 50000000 ''OLD'') = 0"
    "i_regime (plain_input 50000000 ''OLD'') = ''OLD''" "i_income (plain_input 50000000 ''OLD'') = 50000000"
    by (simp_all add: applied_deductions_def plain_input_def)
  show "\<exists>out. calculate rule_2025 (plain_input 50000000 ''OLD'') = Inr out \<and> o_slab_tax out = 1250000
            \<and> o_rebate out = 1250000 \<and> o_gross out = 0"
    by (simp add: calculate_def validate_2025 up inp as rounding_unit_def f(4) Let_def)
qed

section \<open>Every rule\<close>

lemma round_to_nearest:
  assumes "0 < unit"
  shows "unit dvd round_to unit p" and "2 * \<bar>round_to unit p - p\<bar> \<le> unit"
proof -
  show "unit dvd round_to unit p" by (simp add: round_to_def)
  define q where "q = (p + unit div 2) div unit"
  define r where "r = (p + unit div 2) mod unit"
  have "unit * q + r = p + unit div 2" unfolding q_def r_def by (rule mult_div_mod_eq)
  moreover have "0 \<le> r" "r < unit" using assms by (simp_all add: r_def)
  moreover have "2 * (unit div 2) \<le> unit" "unit \<le> 2 * (unit div 2) + 1" by presburger+
  moreover have "round_to unit p = unit * q" by (simp add: round_to_def q_def mult.commute)
  ultimately have "round_to unit p - p \<le> unit div 2" "- (round_to unit p - p) \<le> unit - 1 - unit div 2"
    and h: "2 * (unit div 2) \<le> unit" "unit \<le> 2 * (unit div 2) + 1" by linarith+
  then show "2 * \<bar>round_to unit p - p\<bar> \<le> unit" by (cases "0 \<le> round_to unit p - p") simp_all
qed

lemma calculate_2025_total: "\<exists>out. calculate rule_2025 (plain_input x ''NEW'') = Inr out"
proof -
  have up: "py_upper ''NEW'' = ''NEW''" by code_simp
  have "rounding_unit rule_2025 = 1000" by (simp add: rule_2025_def rule_of_def rounding_unit_def)
  then show ?thesis by (simp add: calculate_def validate_2025 plain_input_def up Let_def)
qed

lemma settlement_fields:
  assumes "calculate rule inp = Inr out"
  shows "o_payable out = max 0 (o_gross out - o_credits out) \<and> o_refund out = max 0 (o_credits out - o_gross out)
     \<and> o_rounded out = round_to (rounding_unit rule) (o_payable out)
     \<and> (o_regime out = ''OLD'' \<or> o_regime out = ''NEW'')
     \<and> o_deductions out = applied_deductions (o_regime out) inp"
  using assms by (auto simp: calculate_def rbind_eq_Inr Let_def split: if_splits)

text \<open>
  What a successful computation returns, for every rule and every input: payable and refund are
  the two sides of gross tax less credits, never both positive; the rounded amount is the multiple of
  the rounding unit nearest to the payable; the deductions applied never exceed those requested, and
  on the new regime never those allowed.
\<close>

theorem calculate_settlement:
  assumes "calculate rule inp = Inr out" and "round_to_paise rule = Some unit" and "0 < unit"
  shows "o_payable out - o_refund out = o_gross out - o_credits out
         \<and> 0 \<le> o_payable out \<and> 0 \<le> o_refund out \<and> (o_payable out = 0 \<or> o_refund out = 0)
         \<and> unit dvd o_rounded out \<and> 2 * \<bar>o_rounded out - o_payable out\<bar> \<le> unit
         \<and> 0 \<le> o_deductions out \<and> o_deductions out \<le> max 0 (i_deductions inp)
         \<and> (o_regime out = ''OLD'' \<or> o_deductions out \<le> max 0 (i_new_allowed inp))"
proof -
  note f = settlement_fields [OF assms(1)]
  have u: "rounding_unit rule = unit" using assms(2) by (simp add: rounding_unit_def)
  have d: "o_deductions out = (if o_regime out = ''OLD'' then max 0 (i_deductions inp)
      else max 0 (min (max 0 (i_deductions inp)) (i_new_allowed inp)))"
    using f by (simp add: applied_deductions_def)
  have p: "o_payable out = max 0 (o_gross out - o_credits out)" "o_refund out = max 0 (o_credits out - o_gross out)"
    and r: "o_rounded out = round_to unit (o_payable out)" using f u by auto
  have "0 \<le> o_deductions out" "o_deductions out \<le> max 0 (i_deductions inp)"
    "o_regime out = ''OLD'' \<or> o_deductions out \<le> max 0 (i_new_allowed inp)" unfolding d by auto
  moreover have "o_payable out - o_refund out = o_gross out - o_credits out" "0 \<le> o_payable out" "0 \<le> o_refund out"
    "o_payable out = 0 \<or> o_refund out = 0" unfolding p by auto
  moreover have "unit dvd o_rounded out" "2 * \<bar>o_rounded out - o_payable out\<bar> \<le> unit"
    unfolding r using round_to_nearest [OF assms(3)] by auto
  ultimately show ?thesis by blast
qed

lemma calculate_settlement_witness:
  "\<exists>out. calculate rule_2025 (plain_input 700000000 ''NEW'') = Inr out \<and> 1000 dvd o_rounded out"
proof -
  obtain out where "calculate rule_2025 (plain_input 700000000 ''NEW'') = Inr out"
    using calculate_2025_total by blast
  then show ?thesis using calculate_settlement [of rule_2025 _ out 1000] by (auto simp: rule_2025_def rule_of_def)
qed

end
