(* ===== verification/Interest_Tds.thy ===== *)
theory Interest_Tds
  imports Py_Value
begin

text \<open>
  \<open>engines/interest.py\<close> (sections 234B and 234C, Rule 119A) and \<open>engines/tds.py\<close> (section rates,
  thresholds, the cumulative base of section 194Q).
\<close>

section \<open>Interest on advance tax\<close>

definition INTEREST_RATE_PER_MONTH :: rat where "INTEREST_RATE_PER_MONTH = 1"

definition rule_119a_base :: "int \<Rightarrow> int" where
  "rule_119a_base amount_paise = max 0 amount_paise div 10000 * 10000"

record interest_234b =
  b_applicable :: bool
  b_shortfall :: int
  b_interest_base :: int
  b_months :: int
  b_interest :: int

definition months_234b :: "pydate \<Rightarrow> pydate \<Rightarrow> int" where
  "months_234b ay_start filing =
     (if filing < ay_start then 0
      else max 1 ((int (dyear filing) - int (dyear ay_start)) * 12 + (int (dmonth filing) - int (dmonth ay_start))
                  + (if dday filing > 1 then 1 else 0)))"

definition calculate_234b_interest :: "int \<Rightarrow> int \<Rightarrow> pydate \<Rightarrow> pydate \<Rightarrow> interest_234b result" where
  "calculate_234b_interest total_tax advance_paid ay_end filing =
     (let threshold = total_tax * 90 div 100; shortfall = max 0 (total_tax - advance_paid) in
      if advance_paid \<ge> threshold then
        Inr \<lparr> b_applicable = False, b_shortfall = 0, b_interest_base = 0, b_months = 0, b_interest = 0 \<rparr>
      else rbind (mk_date (int (dyear ay_end) - 1) 4 1) (\<lambda>ay_start.
        let months = months_234b ay_start filing; base = rule_119a_base shortfall in
        Inr \<lparr> b_applicable = True, b_shortfall = shortfall, b_interest_base = base, b_months = months,
              b_interest = base * float_trunc INTEREST_RATE_PER_MONTH div 100 * months \<rparr>))"

text \<open>Installments are label and amount; a missing label matches nothing and a missing amount is 0.\<close>

record payment =
  pay_label :: "string option"
  pay_amount :: "int option"

record line_234c =
  c_installment :: string
  c_required :: int
  c_interest_threshold :: int
  c_paid_cumulative :: int
  c_shortfall :: int
  c_base :: int
  c_months :: int
  c_interest :: int

definition installments_234c :: "(string \<times> int \<times> int \<times> int) list" where
  "installments_234c = [(''15 Jun'', 15, 12, 3), (''15 Sep'', 45, 36, 3), (''15 Dec'', 75, 75, 3),
                        (''15 Mar'', 100, 100, 1)]"

definition paid_for :: "payment list \<Rightarrow> string \<Rightarrow> int" where
  "paid_for payments label =
     (case find (\<lambda>p. pay_label p = Some label) payments of
        None \<Rightarrow> 0 | Some p \<Rightarrow> (case pay_amount p of None \<Rightarrow> 0 | Some a \<Rightarrow> a))"

definition step_234c :: "int \<Rightarrow> payment list \<Rightarrow> string \<times> int \<times> int \<times> int \<Rightarrow> int \<times> line_234c list \<times> int
    \<Rightarrow> int \<times> line_234c list \<times> int" where
  "step_234c total_tax payments inst st =
     (let (label, due_pct, interest_pct, months) = inst; (total, details, cumulative0) = st;
          required = total_tax * due_pct div 100;
          interest_threshold = total_tax * interest_pct div 100;
          cumulative = cumulative0 + paid_for payments label;
          shortfall = max 0 (required - cumulative)
      in if cumulative < interest_threshold \<and> shortfall > 0 then
           let base = rule_119a_base shortfall;
               interest = base * float_trunc INTEREST_RATE_PER_MONTH div 100 * months
           in (total + interest,
               details @ [\<lparr> c_installment = label, c_required = required, c_interest_threshold = interest_threshold,
                            c_paid_cumulative = cumulative, c_shortfall = shortfall, c_base = base,
                            c_months = months, c_interest = interest \<rparr>], cumulative)
         else (total, details, cumulative))"

definition calculate_234c_interest :: "int \<Rightarrow> payment list \<Rightarrow> bool \<times> int \<times> line_234c list" where
  "calculate_234c_interest total_tax payments =
     (let (total, details, _) = fold (step_234c total_tax payments) installments_234c (0, [], 0)
      in (total > 0, total, details))"

section \<open>Tax deducted at source\<close>

definition TDS_RATES :: "(string, rat) dict" where
  "TDS_RATES = [(''194A'', 10), (''194C'', 1), (''194C_COMPANY'', 2), (''194H'', 5), (''194I_LAND'', 10),
                (''194I_PLANT'', 2), (''194J_TECH'', 2), (''194J_PROF'', 10), (''194Q'', f64 (1 / 10)), (''192'', 0)]"

definition TDS_THRESHOLDS :: "(string, int) dict" where
  "TDS_THRESHOLDS = [(''194A'', 4000000), (''194C'', 3000000), (''194H'', 1500000), (''194I_LAND'', 24000000),
                     (''194I_PLANT'', 24000000), (''194J_TECH'', 3000000), (''194J_PROF'', 3000000),
                     (''194Q'', 500000000)]"

datatype tds_reason = NoReason | NeedsTurnover | LowTurnover | BelowThreshold int

record tds_result =
  d_section :: string
  d_gross :: int
  d_taxable :: "int option"
  d_rate :: "rat option"
  d_tds :: int
  d_net :: int
  d_needs_context :: bool
  d_reason :: tds_reason

definition no_tds :: "string \<Rightarrow> int \<Rightarrow> rat option \<Rightarrow> bool \<Rightarrow> tds_reason \<Rightarrow> tds_result" where
  "no_tds section gross rate ctxt reason =
     \<lparr> d_section = section, d_gross = gross, d_taxable = None, d_rate = rate, d_tds = 0, d_net = gross,
       d_needs_context = ctxt, d_reason = reason \<rparr>"

text \<open>The part of a purchase above the cumulative threshold.\<close>

definition base_194q :: "int \<Rightarrow> int \<Rightarrow> int \<Rightarrow> int" where
  "base_194q threshold prior_amount gross =
     (let prior = max 0 prior_amount; cumulative = prior + gross
      in max 0 (cumulative - threshold) - max 0 (prior - threshold))"

definition tds_rate :: "string \<Rightarrow> rat \<Rightarrow> bool \<Rightarrow> rat" where
  "tds_rate section rate pan_available =
     (if pan_available then rate else max rate (if section = ''194Q'' then 5 else 20))"

definition calculate_tds :: "string \<Rightarrow> int \<Rightarrow> bool \<Rightarrow> int \<Rightarrow> int option \<Rightarrow> tds_result result" where
  "calculate_tds section gross pan_available prior_amount turnover =
     (case map_of TDS_RATES section of
        None \<Rightarrow> Inl (ValueError (''Unknown TDS section: '' @ section))
      | Some rate0 \<Rightarrow>
          let rate = tds_rate section rate0 pan_available;
              threshold = dict_get TDS_THRESHOLDS section 0;
              with_base = (\<lambda>taxable.
                 if taxable \<le> 0 \<or> (section \<noteq> ''194Q'' \<and> gross \<le> threshold)
                 then Inr (no_tds section gross (Some 0) False (BelowThreshold (threshold div 100)))
                 else rbind (int_float_mult taxable rate) (\<lambda>x. rbind (float_int_div x 100) (\<lambda>y.
                   let tds = float_trunc y in
                   Inr \<lparr> d_section = section, d_gross = gross, d_taxable = Some taxable, d_rate = Some rate,
                         d_tds = tds, d_net = gross - tds, d_needs_context = False, d_reason = NoReason \<rparr>)))
          in if section = ''194Q'' then
               (case turnover of
                  None \<Rightarrow> Inr (no_tds section gross None True NeedsTurnover)
                | Some t \<Rightarrow> if t \<le> 10000000000 then Inr (no_tds section gross None False LowTurnover)
                           else with_base (base_194q threshold prior_amount gross))
             else with_base gross)"

section \<open>Lemmas\<close>

lemma rule_119a_bounds: "0 \<le> rule_119a_base a" "rule_119a_base a \<le> max 0 a" "max 0 a < rule_119a_base a + 10000"
  "10000 dvd rule_119a_base a"
proof -
  define m where "m = max 0 a"
  have "10000 * (m div 10000) + m mod 10000 = m" by (rule mult_div_mod_eq)
  moreover have "0 \<le> m mod 10000" "m mod 10000 < 10000" by simp_all
  moreover have "rule_119a_base a = m div 10000 * 10000" by (simp add: rule_119a_base_def m_def)
  ultimately have "rule_119a_base a \<le> m" "m < rule_119a_base a + 10000" by linarith+
  then show "rule_119a_base a \<le> max 0 a" "max 0 a < rule_119a_base a + 10000" unfolding m_def .
  show "0 \<le> rule_119a_base a" by (simp add: rule_119a_base_def pos_imp_zdiv_nonneg_iff)
  show "10000 dvd rule_119a_base a" by (simp add: rule_119a_base_def)
qed

lemma rate_one: "float_trunc INTEREST_RATE_PER_MONTH = 1"
  by (simp add: float_trunc_def INTEREST_RATE_PER_MONTH_def)

lemma base_percent: "rule_119a_base a * 1 div 100 = max 0 a div 10000 * 100"
  by (simp add: rule_119a_base_def)

lemma step_234c_total:
  "step_234c tax pays inst (tot, details, cum) = (tot', details', cum') \<Longrightarrow>
     tot' - tot = sum_list (map c_interest details') - sum_list (map c_interest details)"
  by (auto simp: step_234c_def Let_def split: prod.splits if_splits)

lemma fold_234c_total:
  "fold (step_234c tax pays) insts (tot, details, cum) = (tot', details', cum') \<Longrightarrow>
     tot' - tot = sum_list (map c_interest details') - sum_list (map c_interest details)"
proof (induction insts arbitrary: tot details cum)
  case (Cons i insts)
  obtain t d c where s: "step_234c tax pays i (tot, details, cum) = (t, d, c)" by (cases "step_234c tax pays i (tot, details, cum)")
  show ?case using Cons.IH [of t d c] Cons.prems step_234c_total [OF s] by (simp add: s)
qed simp

text \<open>
  Section 234B interest: it is charged exactly when less than ninety percent was paid in advance;
  then it is one percent of the shortfall, less its fraction of a hundred rupees, for each month, a
  part month counting whole and at least one from the first of April on; otherwise it is nil.
\<close>

theorem interest_234b_value:
  assumes "valid_date ay_end" and "2 \<le> dyear ay_end"
  shows "\<exists>r. calculate_234b_interest tax paid ay_end filing = Inr r
           \<and> (b_applicable r = (paid < tax * 90 div 100))
           \<and> b_interest r = (if b_applicable r then max 0 (tax - paid) div 10000 * 100 * b_months r else 0)
           \<and> 0 \<le> b_interest r
           \<and> (if b_applicable r \<and> \<not> filing < Date (dyear ay_end - 1) 4 1 then 1 \<le> b_months r else b_months r = 0)"
proof -
  have "valid_date (Date (dyear ay_end - 1) 4 1)"
    using assms by (auto simp: valid_date_def days_in_month_def)
  moreover have "nat (int (dyear ay_end) - 1) = dyear ay_end - 1" using assms(2) by simp
  ultimately have d: "mk_date (int (dyear ay_end) - 1) 4 1 = Inr (Date (dyear ay_end - 1) 4 1)"
    using assms(2) by (simp add: mk_date_def)
  have "0 \<le> max 0 (tax - paid) div 10000" by (simp add: pos_imp_zdiv_nonneg_iff)
  moreover have "0 \<le> months_234b a f" for a f by (auto simp: months_234b_def max_def)
  ultimately show ?thesis
    using base_percent [of "max 0 (tax - paid)"]
    by (auto simp: calculate_234b_interest_def Let_def d rate_one months_234b_def)
qed

lemma interest_234b_value_witness:
  "\<exists>r. calculate_234b_interest 10000000 5000000 (Date 2026 3 31) (Date 2025 7 20) = Inr r
     \<and> b_interest r = 5000000 div 10000 * 100 * b_months r"
  using interest_234b_value [of "Date 2026 3 31" 10000000 5000000 "Date 2025 7 20"]
  by (auto simp: valid_date_def days_in_month_def)

lemma interest_234c_sum:
  "calculate_234c_interest tax pays = (app, tot, details) \<Longrightarrow>
     tot = sum_list (map c_interest details) \<and> (app = (0 < tot))"
  using fold_234c_total [of tax pays installments_234c 0 "[]" 0]
  by (auto simp: calculate_234c_interest_def Let_def split: prod.splits)

text \<open>
  A deduction never loses money: whatever the section, amounts and flags, when the deduction is
  computed the tax and the net amount sum to the gross amount, and an amount at or under the section's
  threshold bears no tax.
\<close>

theorem tds_conserves:
  assumes "calculate_tds section gross pan prior turnover = Inr r"
  shows "d_tds r + d_net r = gross \<and> d_gross r = gross \<and> d_section r = section
         \<and> (section = ''194Q'' \<or> dict_get TDS_THRESHOLDS section 0 < gross \<or> d_tds r = 0)"
  using assms
  by (auto simp: calculate_tds_def Let_def no_tds_def rbind_eq_Inr split: option.splits if_splits)

lemma tds_conserves_witness:
  "\<exists>r. calculate_tds ''194A'' 4000000 True 0 None = Inr r \<and> d_tds r + d_net r = 4000000 \<and> d_tds r = 0"
proof -
  have c: "calculate_tds ''194A'' 4000000 True 0 None
      = Inr (no_tds ''194A'' 4000000 (Some 0) False (BelowThreshold 40000))"
    by (simp add: calculate_tds_def TDS_RATES_def TDS_THRESHOLDS_def dict_get_def)
  from tds_conserves [OF c] show ?thesis by (simp add: c no_tds_def)
qed

text \<open>The base of section 194Q is additive: splitting a purchase into two changes nothing.\<close>

lemma base_194q_additive:
  "0 \<le> prior \<Longrightarrow> 0 \<le> g1 \<Longrightarrow> base_194q th prior g1 + base_194q th (prior + g1) g2 = base_194q th prior (g1 + g2)"
  by (simp add: base_194q_def Let_def algebra_simps)

lemma base_194q_bounds: "0 \<le> g \<Longrightarrow> 0 \<le> base_194q th prior g \<and> base_194q th prior g \<le> g"
  by (auto simp: base_194q_def Let_def)

lemma company_contractor_no_threshold: "dict_get TDS_THRESHOLDS ''194C_COMPANY'' 0 = 0"
  by (simp add: TDS_THRESHOLDS_def dict_get_def)

end
