(* ===== verification/Sha256.thy ===== *)
theory Sha256
  imports Py_Value "HOL-Library.Word"
begin

unbundle bit_operations_syntax

text \<open>
  \<open>hashlib.sha256(...).hexdigest()\<close>, which the code uses for identity keys, idempotency keys, match
  ids and payload hashes: FIPS 180-4 on 32-bit words, over byte strings. The digest is always 64
  lower-case hexadecimal characters.
\<close>

type_synonym w32 = "32 word"

definition rotr :: "nat \<Rightarrow> w32 \<Rightarrow> w32" where
  "rotr n w = (drop_bit n w OR push_bit (32 - n) w)"

definition small_sigma0 :: "w32 \<Rightarrow> w32" where "small_sigma0 x = (rotr 7 x XOR rotr 18 x XOR drop_bit 3 x)"
definition small_sigma1 :: "w32 \<Rightarrow> w32" where "small_sigma1 x = (rotr 17 x XOR rotr 19 x XOR drop_bit 10 x)"
definition big_sigma0 :: "w32 \<Rightarrow> w32" where "big_sigma0 x = (rotr 2 x XOR rotr 13 x XOR rotr 22 x)"
definition big_sigma1 :: "w32 \<Rightarrow> w32" where "big_sigma1 x = (rotr 6 x XOR rotr 11 x XOR rotr 25 x)"
definition choice :: "w32 \<Rightarrow> w32 \<Rightarrow> w32 \<Rightarrow> w32" where "choice x y z = ((x AND y) XOR (NOT x AND z))"
definition majority :: "w32 \<Rightarrow> w32 \<Rightarrow> w32 \<Rightarrow> w32" where
  "majority x y z = ((x AND y) XOR (x AND z) XOR (y AND z))"

text \<open>The 64 round constants, in decimal.\<close>

definition round_constants :: "w32 list" where
  "round_constants =
    [1116352408, 1899447441, 3049323471, 3921009573, 961987163, 1508970993, 2453635748, 2870763221,
     3624381080, 310598401, 607225278, 1426881987, 1925078388, 2162078206, 2614888103, 3248222580,
     3835390401, 4022224774, 264347078, 604807628, 770255983, 1249150122, 1555081692, 1996064986,
     2554220882, 2821834349, 2952996808, 3210313671, 3336571891, 3584528711, 113926993, 338241895,
     666307205, 773529912, 1294757372, 1396182291, 1695183700, 1986661051, 2177026350, 2456956037,
     2730485921, 2820302411, 3259730800, 3345764771, 3516065817, 3600352804, 4094571909, 275423344,
     430227734, 506948616, 659060556, 883997877, 958139571, 1322822218, 1537002063, 1747873779,
     1955562222, 2024104815, 2227730452, 2361852424, 2428436474, 2756734187, 3204031479, 3329325298]"

text \<open>Eight working words.\<close>

type_synonym hash_state = "w32 \<times> w32 \<times> w32 \<times> w32 \<times> w32 \<times> w32 \<times> w32 \<times> w32"

definition initial_hash :: hash_state where
  "initial_hash = (1779033703, 3144134277, 1013904242, 2773480762, 1359893119, 2600822924, 528734635, 1541459225)"

text \<open>The message schedule, newest word first.\<close>

fun extend_schedule :: "nat \<Rightarrow> w32 list \<Rightarrow> w32 list" where
  "extend_schedule 0 ws = ws"
| "extend_schedule (Suc n) ws =
     extend_schedule n ((small_sigma1 (ws ! 1) + ws ! 6 + small_sigma0 (ws ! 14) + ws ! 15) # ws)"

definition hash_round :: "w32 \<times> w32 \<Rightarrow> hash_state \<Rightarrow> hash_state" where
  "hash_round kw st =
     (let (k, w) = kw; (a, b, c, d, e, f, g, h) = st;
          t1 = h + big_sigma1 e + choice e f g + k + w;
          t2 = big_sigma0 a + majority a b c
      in (t1 + t2, a, b, c, d + t1, e, f, g))"

definition add_state :: "hash_state \<Rightarrow> hash_state \<Rightarrow> hash_state" where
  "add_state x y =
     (let (a, b, c, d, e, f, g, h) = x; (a', b', c', d', e', f', g', h') = y
      in (a + a', b + b', c + c', d + d', e + e', f + f', g + g', h + h'))"

definition compress :: "w32 list \<Rightarrow> hash_state \<Rightarrow> hash_state" where
  "compress block st =
     add_state st (fold hash_round (zip round_constants (rev (extend_schedule 48 (rev block)))) st)"

section \<open>Padding and bytes\<close>

fun nat_bytes :: "nat \<Rightarrow> nat \<Rightarrow> nat list" where
  "nat_bytes 0 n = []"
| "nat_bytes (Suc k) n = nat_bytes k (n div 256) @ [n mod 256]"

definition pad_message :: "nat list \<Rightarrow> nat list" where
  "pad_message bs = bs @ 0x80 # replicate ((119 - length bs mod 64) mod 64) 0 @ nat_bytes 8 (8 * length bs)"

fun words_of :: "nat list \<Rightarrow> w32 list" where
  "words_of (a # b # c # d # rest) = of_nat (((a * 256 + b) * 256 + c) * 256 + d) # words_of rest"
| "words_of _ = []"

function hash_blocks :: "w32 list \<Rightarrow> hash_state \<Rightarrow> hash_state" where
  "hash_blocks ws st = (if ws = [] then st else hash_blocks (drop 16 ws) (compress (take 16 ws) st))"
  by auto
termination by (relation "measure (\<lambda>(ws, st). length ws)") auto

declare hash_blocks.simps [simp del]

definition word_hex :: "w32 \<Rightarrow> string" where
  "word_hex w = map (\<lambda>i. hex_char (unat (drop_bit (28 - 4 * i) w AND 15))) [0..<8]"

definition sha256_hex :: "string \<Rightarrow> string" where
  "sha256_hex s =
     (let (a, b, c, d, e, f, g, h) = hash_blocks (words_of (pad_message (map of_char s))) initial_hash
      in concat (map word_hex [a, b, c, d, e, f, g, h]))"

section \<open>The shape of the digest\<close>

definition is_hex :: "char \<Rightarrow> bool" where
  "is_hex c = (is_digit c \<or> (97 \<le> (of_char c :: nat) \<and> (of_char c :: nat) \<le> 102))"

lemma hex_char_hex: "n < 16 \<Longrightarrow> is_hex (hex_char n)"
  by (auto simp: is_hex_def hex_char_def digit_char_def is_digit_def)

lemma nibble: "unat (w AND 15 :: w32) < 16"
proof -
  have "w AND 15 \<le> 15" by (rule word_and_le1)
  then have "unat (w AND 15) \<le> unat (15 :: w32)" by (simp only: word_le_nat_alt)
  then show ?thesis by simp
qed

lemma length_word_hex [simp]: "length (word_hex w) = 8"
  by (simp add: word_hex_def)

lemma hex_word_hex: "list_all is_hex (word_hex w)"
  by (auto simp: word_hex_def list_all_iff intro!: hex_char_hex nibble)

lemma length_sha256 [simp]: "length (sha256_hex s) = 64"
  by (simp add: sha256_hex_def split: prod.split)

lemma hex_sha256: "list_all is_hex (sha256_hex s)"
  using hex_word_hex by (simp add: sha256_hex_def split: prod.split)

lemma sha256_nonempty [simp]: "sha256_hex s \<noteq> []"
  using length_sha256 [of s] by (metis length_0_conv zero_neq_numeral)

end
