(* ===== verification/Claim_Loop.thy ===== *)
theory Claim_Loop
  imports Py_Prelude
begin

text \<open>
  The shape shared by the matchers: a loop over source lines that keeps the set of claimed target
  keys, lets a chooser pick at most one unclaimed target for each source, and claims it. The locale
  states what the loop needs of the chooser; what it gives is that no key is claimed twice and that
  every source gets exactly one outcome.
\<close>

fun claim_loop :: "('k set \<Rightarrow> 's \<Rightarrow> 't option result) \<Rightarrow> ('t \<Rightarrow> 'k) \<Rightarrow> 'k set \<Rightarrow> 's list
    \<Rightarrow> (('s \<times> 't option) list \<times> 'k set) result" where
  "claim_loop chooser key used [] = Inr ([], used)"
| "claim_loop chooser key used (s # ss) =
     rbind (chooser used s) (\<lambda>pick.
     rbind (claim_loop chooser key (case pick of None \<Rightarrow> used | Some t \<Rightarrow> insert (key t) used) ss)
       (\<lambda>(outs, used'). Inr ((s, pick) # outs, used')))"

definition picks :: "('s \<times> 't option) list \<Rightarrow> 't list" where
  "picks outs = concat (map (\<lambda>(s, p). case p of None \<Rightarrow> [] | Some t \<Rightarrow> [t]) outs)"

lemma picks_simps [simp]:
  "picks [] = []" "picks ((s, None) # outs) = picks outs" "picks ((s, Some t) # outs) = t # picks outs"
  by (simp_all add: picks_def)

lemma claim_loop_sources:
  "claim_loop chooser key used ss = Inr (outs, used') \<Longrightarrow> map fst outs = ss"
  by (induction chooser key used ss arbitrary: outs used' rule: claim_loop.induct)
     (auto simp: rbind_eq_Inr split: prod.splits)

lemma claim_loop_used:
  "claim_loop chooser key used ss = Inr (outs, used') \<Longrightarrow> used' = used \<union> key ` set (picks outs)"
proof (induction chooser key used ss arbitrary: outs used' rule: claim_loop.induct)
  case (2 chooser key used s ss)
  obtain pick outs1 where p: "chooser used s = Inr pick"
    "claim_loop chooser key (case pick of None \<Rightarrow> used | Some t \<Rightarrow> insert (key t) used) ss = Inr (outs1, used')"
    "outs = (s, pick) # outs1"
    using "2.prems" by (auto simp: rbind_eq_Inr split: prod.splits)
  show ?case using "2.IH" [OF p(1,2)] p(3) by (cases pick) auto
qed simp

locale claiming =
  fixes chooser :: "'k set \<Rightarrow> 's \<Rightarrow> 't option result"
    and key :: "'t \<Rightarrow> 'k"
    and targets :: "'t set"
  assumes choose_target: "chooser used s = Inr (Some t) \<Longrightarrow> t \<in> targets"
    and choose_unclaimed: "chooser used s = Inr (Some t) \<Longrightarrow> key t \<notin> used"
begin

lemma claims_once:
  "claim_loop chooser key used ss = Inr (outs, used') \<Longrightarrow>
     distinct (map key (picks outs)) \<and> key ` set (picks outs) \<inter> used = {} \<and> set (picks outs) \<subseteq> targets"
proof (induction ss arbitrary: used outs used')
  case Nil
  then show ?case by simp
next
  case (Cons s ss)
  obtain pick outs1 where p: "chooser used s = Inr pick"
    "claim_loop chooser key (case pick of None \<Rightarrow> used | Some t \<Rightarrow> insert (key t) used) ss = Inr (outs1, used')"
    "outs = (s, pick) # outs1"
    using Cons.prems by (auto simp: rbind_eq_Inr split: prod.splits)
  show ?case
  proof (cases pick)
    case None
    then show ?thesis using Cons.IH p by simp
  next
    case (Some t)
    have "claim_loop chooser key (insert (key t) used) ss = Inr (outs1, used')" using p(2) Some by simp
    note ih = Cons.IH [OF this]
    show ?thesis using ih choose_target choose_unclaimed p(1,3) Some by auto
  qed
qed

lemma outcome_chosen:
  "claim_loop chooser key used ss = Inr (outs, used') \<Longrightarrow> (s, pick) \<in> set outs \<Longrightarrow> \<exists>u. chooser u s = Inr pick"
proof (induction ss arbitrary: used outs)
  case (Cons s' ss)
  then obtain pick' outs1 where p: "chooser used s' = Inr pick'"
    "claim_loop chooser key (case pick' of None \<Rightarrow> used | Some t \<Rightarrow> insert (key t) used) ss = Inr (outs1, used')"
    "outs = (s', pick') # outs1"
    by (auto simp: rbind_eq_Inr split: prod.splits)
  show ?case using Cons.IH [OF p(2)] Cons.prems(2) p(1,3) by auto
qed simp

end

end
