(* ===== verification/Gstr2b.thy ===== *)
theory Gstr2b
  imports Money Sha256 Claim_Loop "HOL-Library.Multiset"
begin

text \<open>
  \<open>engines/gstr2b_types.py\<close>, \<open>gstr2b_parser.py\<close> and \<open>gstr2b_matcher.py\<close>: the statement of supplier
  invoices, its strict parser and the matching against the purchase register. A register line is the
  \<open>ReconLine\<close> of \<open>models/schemas.py\<close>.
\<close>

section \<open>Records\<close>

record recon_line =
  rl_id :: string
  rl_date :: string
  rl_description :: string
  rl_counterparty :: string
  rl_amount :: int
  rl_ref :: "string option"
  rl_gstin :: "string option"

record g2b_document =
  identity_key :: string
  supplier_gstin :: string
  invoice_number :: string
  invoice_date :: pydate
  document_type :: string
  amendment_of_key :: "string option"
  d_taxable :: int
  d_igst :: int
  d_cgst :: int
  d_sgst :: int
  d_cess :: int
  d_total :: int
  d_original :: "(string \<times> pyval) list"

record g2b_result =
  p_gstin :: string
  p_period :: string
  p_version :: string
  p_documents :: "g2b_document list"
  p_counts :: "(string, int) dict"
  p_taxable :: int
  p_tax :: int
  p_total :: int

text \<open>\<open>"_".title()\<close>: a letter is upper case after a non-letter and lower case after a letter.\<close>

fun title_from :: "bool \<Rightarrow> string \<Rightarrow> string" where
  "title_from after_letter [] = []"
| "title_from after_letter (c # cs) =
     (if is_upper c \<or> is_lower c then (if after_letter then lower_char c else upper_char c) # title_from True cs
      else c # title_from False cs)"

definition underscores_to_spaces :: "string \<Rightarrow> string" where
  "underscores_to_spaces s = map (\<lambda>c. if c = CHR ''_'' then CHR '' '' else c) s"

definition as_recon_line :: "g2b_document \<Rightarrow> recon_line" where
  "as_recon_line d =
     (let section = py_lower (py_str (py_or (get_or (d_original d) ''section'' VNone) (VStr (document_type d))))
      in \<lparr> rl_id = py_lower (''2b-'' @ section @ ''-'' @ supplier_gstin d @ ''-'' @ invoice_number d),
           rl_date = isoformat (invoice_date d),
           rl_description = title_from False (underscores_to_spaces (document_type d)),
           rl_counterparty = supplier_gstin d, rl_amount = d_total d,
           rl_ref = Some (invoice_number d), rl_gstin = Some (supplier_gstin d) \<rparr>)"

section \<open>The parser\<close>

definition PARSER_VERSION :: string where "PARSER_VERSION = ''gstr2b-v2''"

definition alnum_upper :: "pyval \<Rightarrow> string" where
  "alnum_upper v = filter is_upper_alnum (py_upper (py_str (py_or v (VStr ''''))))"

definition clean_gstin :: "pyval \<Rightarrow> string" where "clean_gstin v = alnum_upper v"
definition normal_number :: "pyval \<Rightarrow> string" where "normal_number v = alnum_upper v"

definition gstin_pattern :: "string \<Rightarrow> bool" where
  "gstin_pattern s = (length s = 15 \<and> list_all is_digit (take 2 s) \<and> list_all is_upper_alnum (drop 2 s))"

definition g2b_date :: "pyval \<Rightarrow> pydate result" where
  "g2b_date v =
     (case v of VDate d \<Rightarrow> Inr d
      | _ \<Rightarrow> let t = py_strip (py_str (py_or v (VStr ''''))) in
           case first_format [fmt_dmy_dash, fmt_dmy_slash, fmt_ymd_dash, fmt_ymd_hms] t of
             Some d \<Rightarrow> Inr d
           | None \<Rightarrow> Inl (AppError ''INVALID_GSTR2B_DATE'' (''Unsupported invoice date: '' @ t) 422))"

fun is_money_error :: "pyexn \<Rightarrow> bool" where
  "is_money_error (MoneyParseError m) = True"
| "is_money_error _ = False"

definition g2b_paise :: "pyval \<Rightarrow> int result" where
  "g2b_paise v =
     (case rupees_to_paise True (py_or v (VInt 0)) of
        Inr n \<Rightarrow> Inr n
      | Inl e \<Rightarrow> if is_money_error e
                 then Inl (AppError ''INVALID_GSTR2B_AMOUNT'' ''A GSTR-2B amount is not a valid decimal value.'' 422)
                 else Inl e)"

definition g2b_identity :: "string \<Rightarrow> string \<Rightarrow> pydate \<Rightarrow> string \<Rightarrow> string" where
  "g2b_identity gstin number d doc_type =
     sha256_hex (gstin @ ''|'' @ number @ ''|'' @ isoformat d @ ''|'' @ doc_type)"

type_synonym tax_sums = "int \<times> int \<times> int \<times> int \<times> int"

definition add_item :: "pyval \<Rightarrow> tax_sums \<Rightarrow> tax_sums result" where
  "add_item item acc =
     (let (taxable, igst, cgst, sgst, cess) = acc in
      rbind (py_get_or item ''itm_det'' item) (\<lambda>detail.
      rbind (rbind (py_get detail ''txval'') g2b_paise) (\<lambda>tx.
      rbind (rbind (py_get detail ''iamt'') g2b_paise) (\<lambda>i.
      rbind (rbind (py_get detail ''camt'') g2b_paise) (\<lambda>c.
      rbind (rbind (py_get detail ''samt'') g2b_paise) (\<lambda>s.
      rbind (rbind (py_get detail ''csamt'') g2b_paise) (\<lambda>cs.
      Inr (taxable + tx, igst + i, cgst + c, sgst + s, cess + cs))))))))"

definition g2b_taxes :: "pyval \<Rightarrow> tax_sums result" where
  "g2b_taxes items = rbind (py_iter items) (\<lambda>xs. rfold add_item xs (0, 0, 0, 0, 0))"

text \<open>\<open>raw.get(a) or raw.get(b) or ...\<close>.\<close>

fun get_first :: "(string \<times> pyval) list \<Rightarrow> string list \<Rightarrow> pyval" where
  "get_first raw [] = VNone"
| "get_first raw [k] = get_or raw k VNone"
| "get_first raw (k # k' # ks) = py_or (get_or raw k VNone) (get_first raw (k' # ks))"

definition doc_type_of :: "string \<Rightarrow> (string \<times> pyval) list \<Rightarrow> string" where
  "doc_type_of section raw =
     (case map_of [(''b2b'', ''INVOICE''), (''b2ba'', ''INVOICE''), (''cdnr'', ''CREDIT_NOTE''), (''cdnra'', ''CREDIT_NOTE'')]
             section of
        Some t \<Rightarrow> t
      | None \<Rightarrow> py_upper (py_str (py_or (get_or raw ''document_type'' VNone) (VStr ''IMPORT''))))"

definition amendment_key :: "(string \<times> pyval) list \<Rightarrow> string \<Rightarrow> string \<Rightarrow> string option result" where
  "amendment_key raw gstin doc_type =
     (let original_number = normal_number (get_first raw [''oinum'', ''ont_num'']) in
      if original_number \<noteq> []
      then rbind (g2b_date (get_first raw [''oidt'', ''ont_dt'']))
             (\<lambda>od. Inr (Some (g2b_identity gstin original_number od doc_type)))
      else Inr None)"

definition g2b_document_of :: "pyval \<Rightarrow> pyval \<Rightarrow> string \<Rightarrow> g2b_document result" where
  "g2b_document_of supplier rawv section =
     rbind (py_get supplier ''ctin'') (\<lambda>ctin.
     case rawv of
       VDict raw \<Rightarrow>
         let gstin = clean_gstin (py_or ctin (get_or raw ''gstin'' VNone));
             number = py_strip (py_str (py_or (get_first raw [''inum'', ''ntnum'', ''invoice_number'']) (VStr '''')));
             normalized = normal_number (VStr number)
         in rbind (g2b_date (get_first raw [''idt'', ''ntdt'', ''invoice_date''])) (\<lambda>date.
            let doc_type = doc_type_of section raw in
            if \<not> gstin_pattern gstin \<or> normalized = []
            then Inl (AppError ''INVALID_GSTR2B_DOCUMENT'' ''A supplier GSTIN or invoice number is missing/invalid.'' 422)
            else rbind (g2b_taxes (get_or raw ''itms'' (VList []))) (\<lambda>(taxable, igst, cgst, sgst, cess).
                 rbind (g2b_paise (get_first raw [''val'', ''invoice_value''])) (\<lambda>total.
                 rbind (amendment_key raw gstin doc_type) (\<lambda>amendment.
                 Inr \<lparr> identity_key = g2b_identity gstin normalized date doc_type, supplier_gstin = gstin,
                       invoice_number = number, invoice_date = date, document_type = doc_type,
                       amendment_of_key = amendment, d_taxable = taxable, d_igst = igst, d_cgst = cgst,
                       d_sgst = sgst, d_cess = cess, d_total = total,
                       d_original = dict_merge [(''section'', VStr section)] raw \<rparr>))))
     | _ \<Rightarrow> Inl AttributeError)"

definition g2b_unwrap :: "pyval \<Rightarrow> pyval result" where
  "g2b_unwrap payload =
     (case payload of
        VDict kvs \<Rightarrow>
          let data = get_or kvs ''data'' payload in
          Inr (case data of VDict d \<Rightarrow> get_or d ''docdata'' data | _ \<Rightarrow> VDict [])
      | _ \<Rightarrow> Inl (AppError ''INVALID_GSTR2B_SCHEMA'' ''The uploaded file is not a JSON object.'' 422))"

type_synonym g2b_acc = "g2b_document list \<times> (string, int) dict"

definition parse_supplier :: "string \<Rightarrow> string \<Rightarrow> pyval \<Rightarrow> g2b_acc \<Rightarrow> g2b_acc result" where
  "parse_supplier section child supplier acc =
     rbind (rbind (py_get_or supplier child (VList [])) (\<lambda>v. py_iter (py_or v (VList [])))) (\<lambda>raws.
     rfold (\<lambda>raw (docs, counts).
        rbind (g2b_document_of supplier raw section) (\<lambda>d.
          Inr (docs @ [d], dict_set section (dict_get counts section 0 + 1) counts))) raws acc)"

definition parse_section :: "pyval \<Rightarrow> string \<times> string \<Rightarrow> g2b_acc \<Rightarrow> g2b_acc result" where
  "parse_section docdata sc acc =
     rbind (rbind (py_get_or docdata (fst sc) (VList [])) (\<lambda>v. py_iter (py_or v (VList [])))) (\<lambda>suppliers.
     rfold (parse_supplier (fst sc) (snd sc)) suppliers acc)"

definition g2b_sections :: "(string \<times> string) list" where
  "g2b_sections = [(''b2b'', ''inv''), (''b2ba'', ''inv''), (''cdnr'', ''nt''), (''cdnra'', ''nt'')]"

definition doc_tax :: "g2b_document \<Rightarrow> int" where
  "doc_tax d = d_igst d + d_cgst d + d_sgst d + d_cess d"

definition parse_gstr2b_json :: "pyval \<Rightarrow> g2b_result result" where
  "parse_gstr2b_json payload =
     rbind (g2b_unwrap payload) (\<lambda>docdata.
     rbind (rfold (parse_section docdata) g2b_sections ([], [])) (\<lambda>(documents, counts).
     if documents = [] then
       Inl (AppError ''EMPTY_GSTR2B'' ''No supported invoices or notes were found in this GSTR-2B file.'' 422)
     else
       rbind (py_get payload ''gstin'') (\<lambda>g0. rbind (py_get docdata ''gstin'') (\<lambda>g1. rbind (py_get docdata ''ctin'') (\<lambda>g2.
       rbind (py_get payload ''rtnprd'') (\<lambda>r0. rbind (py_get payload ''return_period'') (\<lambda>r1.
       rbind (py_get docdata ''rtnprd'') (\<lambda>r2.
       Inr \<lparr> p_gstin = clean_gstin (py_or g0 (py_or g1 g2)),
             p_period = py_str (py_or r0 (py_or r1 (py_or r2 (VStr '''')))),
             p_version = PARSER_VERSION, p_documents = documents, p_counts = counts,
             p_taxable = sum_list (map d_taxable documents), p_tax = sum_list (map doc_tax documents),
             p_total = sum_list (map d_total documents) \<rparr>))))))))"

text \<open>The Excel export: the rows the spreadsheet reader returns, grouped by supplier in the order the
  suppliers first occur.\<close>

definition excel_invoice :: "(string \<times> pyval) list \<Rightarrow> pyval" where
  "excel_invoice row = VDict
     [(''inum'', get_or row ''invoice_number'' VNone), (''idt'', get_or row ''invoice_date'' VNone),
      (''val'', get_or row ''invoice_value'' VNone),
      (''itms'', VList [VDict [(''txval'', get_or row ''taxable_value'' VNone), (''iamt'', get_or row ''igst'' VNone),
         (''camt'', get_or row ''cgst'' VNone), (''samt'', get_or row ''sgst'' VNone), (''csamt'', get_or row ''cess'' VNone)]])]"

definition group_row :: "(string \<times> pyval) list \<Rightarrow> (string, pyval list) dict \<Rightarrow> (string, pyval list) dict" where
  "group_row row suppliers =
     (let gstin = clean_gstin (py_or (get_or row ''gstin'' VNone) (get_or row ''supplier_gstin'' VNone))
      in dict_set gstin (dict_get suppliers gstin [] @ [excel_invoice row]) suppliers)"

definition excel_payload :: "(string \<times> pyval) list list \<Rightarrow> pyval" where
  "excel_payload rows =
     (let periods = filter truthy (map (\<lambda>r. get_or r ''return_period'' VNone) rows);
          suppliers = fold group_row rows []
      in VDict [(''return_period'', case periods of [] \<Rightarrow> VStr '''' | p # _ \<Rightarrow> p),
                (''docdata'', VDict [(''b2b'', VList (map (\<lambda>(g, invs). VDict [(''ctin'', VStr g), (''inv'', VList invs)])
                                                  suppliers))])])"

definition parse_gstr2b_rows :: "(string \<times> pyval) list list \<Rightarrow> g2b_result result" where
  "parse_gstr2b_rows rows = parse_gstr2b_json (excel_payload rows)"

section \<open>The matcher\<close>

definition VALUE_TOLERANCE_PAISE :: int where "VALUE_TOLERANCE_PAISE = 100"
definition DATE_TOLERANCE_DAYS :: int where "DATE_TOLERANCE_DAYS = 5"

datatype g2b_bucket = MISSING_IN_2B | DUPLICATE | AMENDMENT_CREDIT_NOTE | EXACT | PROBABLE | MISMATCH
  | MANUAL_REVIEW | MISSING_IN_BOOKS

record g2b_match =
  m_purchase :: "string option"
  m_document :: "g2b_document option"
  m_bucket :: g2b_bucket
  m_score :: "rat option"
  m_value_diff :: "int option"
  m_date_diff :: "int option"
  m_claimed_before :: bool

definition clean_match :: "g2b_match \<Rightarrow> bool" where
  "clean_match m = (m_bucket m = EXACT \<and> \<not> m_claimed_before m)"

definition number_of :: "string option \<Rightarrow> string" where
  "number_of v = normal_number (case v of None \<Rightarrow> VNone | Some s \<Rightarrow> VStr s)"

definition book_date :: "recon_line \<Rightarrow> pydate option" where
  "book_date line = (case date_fromisoformat (rl_date line) of Inl _ \<Rightarrow> None | Inr d \<Rightarrow> Some d)"

definition opt_str :: "string option \<Rightarrow> string" where
  "opt_str v = (case v of None \<Rightarrow> '''' | Some s \<Rightarrow> s)"

definition g2b_candidates :: "g2b_document list \<Rightarrow> string set \<Rightarrow> recon_line \<Rightarrow> g2b_document list" where
  "g2b_candidates documents used purchase =
     filter (\<lambda>d. identity_key d \<notin> used \<and> supplier_gstin d = py_upper (opt_str (rl_gstin purchase))) documents"

definition same_number :: "recon_line \<Rightarrow> g2b_document list \<Rightarrow> g2b_document list" where
  "same_number purchase cands = filter (\<lambda>d. number_of (Some (invoice_number d)) = number_of (rl_ref purchase)) cands"

definition g2b_choose :: "g2b_document list \<Rightarrow> string set \<Rightarrow> recon_line \<Rightarrow> g2b_document option result" where
  "g2b_choose documents used purchase =
     (let cands = g2b_candidates documents used purchase;
          same = same_number purchase cands
      in case (if same \<noteq> [] then same else cands) of
           [] \<Rightarrow> Inr None
         | d # ds \<Rightarrow> Inr (Some (min_by (\<lambda>x. \<bar>d_total x - rl_amount purchase\<bar>) d ds)))"

definition key_count :: "g2b_document list \<Rightarrow> string \<Rightarrow> nat" where
  "key_count documents k = length (filter (\<lambda>d. identity_key d = k) documents)"

definition judge :: "g2b_document list \<Rightarrow> string set \<Rightarrow> bool \<Rightarrow> recon_line \<Rightarrow> g2b_document \<Rightarrow> g2b_match" where
  "judge documents claimed_keys by_number purchase doc =
     (let value_diff = d_total doc - rl_amount purchase;
          date_diff = (case book_date purchase of None \<Rightarrow> 0 | Some d \<Rightarrow> days_between (invoice_date doc) d);
          (bucket, score) =
            (if key_count documents (identity_key doc) > 1 then (DUPLICATE, 0)
             else if (amendment_of_key doc \<noteq> None \<and> amendment_of_key doc \<noteq> Some '''') \<or> document_type doc \<noteq> ''INVOICE''
               then (AMENDMENT_CREDIT_NOTE, f64 (7/10))
             else if by_number \<and> value_diff = 0 \<and> date_diff = 0 then (EXACT, 1)
             else if by_number \<and> \<bar>value_diff\<bar> \<le> VALUE_TOLERANCE_PAISE \<and> \<bar>date_diff\<bar> \<le> DATE_TOLERANCE_DAYS
               then (PROBABLE, f64 (92/100))
             else if by_number then (MISMATCH, f64 (8/10))
             else (MANUAL_REVIEW, 1/2))
      in \<lparr> m_purchase = Some (rl_id purchase), m_document = Some doc, m_bucket = bucket, m_score = Some score,
           m_value_diff = Some value_diff, m_date_diff = Some date_diff,
           m_claimed_before = (identity_key doc \<in> claimed_keys) \<rparr>)"

definition missing_in_2b :: "recon_line \<Rightarrow> g2b_match" where
  "missing_in_2b purchase =
     \<lparr> m_purchase = Some (rl_id purchase), m_document = None, m_bucket = MISSING_IN_2B, m_score = None,
       m_value_diff = None, m_date_diff = None, m_claimed_before = False \<rparr>"

definition left_over :: "g2b_document list \<Rightarrow> g2b_document \<Rightarrow> g2b_match" where
  "left_over documents doc =
     \<lparr> m_purchase = None, m_document = Some doc,
       m_bucket = (if key_count documents (identity_key doc) > 1 then DUPLICATE else MISSING_IN_BOOKS),
       m_score = None, m_value_diff = None, m_date_diff = None, m_claimed_before = False \<rparr>"

text \<open>Whether the pool was narrowed by invoice number depends on the documents free at that turn; the
  document chosen carries the number exactly then.\<close>

definition outcome :: "g2b_document list \<Rightarrow> string set \<Rightarrow> recon_line \<times> g2b_document option \<Rightarrow> g2b_match" where
  "outcome documents claimed_keys po =
     (case snd po of
        None \<Rightarrow> missing_in_2b (fst po)
      | Some doc \<Rightarrow> judge documents claimed_keys
                     (number_of (Some (invoice_number doc)) = number_of (rl_ref (fst po))) (fst po) doc)"

definition match_gstr2b :: "recon_line list \<Rightarrow> g2b_document list \<Rightarrow> string set \<Rightarrow> g2b_match list result" where
  "match_gstr2b purchases documents claimed_keys =
     rbind (claim_loop (g2b_choose documents) identity_key {} purchases) (\<lambda>(outs, used).
       Inr (map (outcome documents claimed_keys) outs
            @ map (left_over documents) (filter (\<lambda>d. identity_key d \<notin> used) documents)))"

section \<open>What the parser accepts\<close>

definition good_document :: "g2b_document \<Rightarrow> bool" where
  "good_document d = (gstin_pattern (supplier_gstin d) \<and> normal_number (VStr (invoice_number d)) \<noteq> []
     \<and> identity_key d = g2b_identity (supplier_gstin d) (normal_number (VStr (invoice_number d)))
                          (invoice_date d) (document_type d))"

lemma document_good:
  assumes "g2b_document_of supplier raw section = Inr d"
  shows "good_document d"
proof -
  obtain ctin where c: "py_get supplier ''ctin'' = Inr ctin"
    using assms unfolding g2b_document_of_def by (rule rbindE)
  then obtain kvs where raw: "raw = VDict kvs"
    using assms by (cases raw) (simp_all add: g2b_document_of_def)
  define gstin where "gstin = clean_gstin (py_or ctin (get_or kvs ''gstin'' VNone))"
  define number where "number = py_strip (py_str (py_or (get_first kvs [''inum'', ''ntnum'', ''invoice_number'']) (VStr '''')))"
  have g: "rbind (g2b_date (get_first kvs [''idt'', ''ntdt'', ''invoice_date''])) (\<lambda>date.
      if \<not> gstin_pattern gstin \<or> normal_number (VStr number) = []
      then Inl (AppError ''INVALID_GSTR2B_DOCUMENT'' ''A supplier GSTIN or invoice number is missing/invalid.'' 422)
      else rbind (g2b_taxes (get_or kvs ''itms'' (VList []))) (\<lambda>(taxable, igst, cgst, sgst, cess).
           rbind (g2b_paise (get_first kvs [''val'', ''invoice_value''])) (\<lambda>total.
           rbind (amendment_key kvs gstin (doc_type_of section kvs)) (\<lambda>amendment.
           Inr \<lparr> identity_key = g2b_identity gstin (normal_number (VStr number)) date (doc_type_of section kvs),
                 supplier_gstin = gstin, invoice_number = number, invoice_date = date,
                 document_type = doc_type_of section kvs, amendment_of_key = amendment, d_taxable = taxable,
                 d_igst = igst, d_cgst = cgst, d_sgst = sgst, d_cess = cess, d_total = total,
                 d_original = dict_merge [(''section'', VStr section)] kvs \<rparr>)))) = Inr d"
    using assms unfolding g2b_document_of_def c raw rbind.simps pyval.case Let_def gstin_def number_def .
  show ?thesis
    using g by (elim rbindE) (auto simp: good_document_def elim!: rbindE split: if_splits prod.splits)
qed

definition acc_ok :: "g2b_acc \<Rightarrow> bool" where
  "acc_ok acc = (sum_list (map snd (snd acc)) = int (length (fst acc)) \<and> (\<forall>d\<in>set (fst acc). good_document d))"

lemma parse_supplier_ok: "acc_ok acc \<Longrightarrow> parse_supplier section child s acc = Inr acc' \<Longrightarrow> acc_ok acc'"
proof -
  assume acc: "acc_ok acc" and "parse_supplier section child s acc = Inr acc'"
  then obtain raws where f: "rfold (\<lambda>raw (docs, counts).
        rbind (g2b_document_of s raw section) (\<lambda>d.
          Inr (docs @ [d], dict_set section (dict_get counts section 0 + 1) counts))) raws acc = Inr acc'"
    unfolding parse_supplier_def by (elim rbindE)
  show "acc_ok acc'"
  proof (rule rfold_inv [where P = acc_ok, OF _ acc f], clarsimp)
    fix raw docs counts docs' counts'
    assume ok: "acc_ok (docs, counts)" and "rbind (g2b_document_of s raw section) (\<lambda>d.
        Inr (docs @ [d], dict_set section (dict_get counts section 0 + 1) counts)) = Inr (docs', counts')"
    then obtain d where d: "g2b_document_of s raw section = Inr d" "docs' = docs @ [d]"
      "counts' = dict_set section (dict_get counts section 0 + 1) counts"
      by (auto elim: rbindE)
    then show "acc_ok (docs', counts')"
      using ok document_good [OF d(1)] sum_dict_count [of "section" counts] by (simp add: acc_ok_def)
  qed
qed

lemma parse_section_ok: "acc_ok acc \<Longrightarrow> parse_section docdata sc acc = Inr acc' \<Longrightarrow> acc_ok acc'"
  unfolding parse_section_def
  by (auto simp: rbind_eq_Inr intro: rfold_inv [where P = acc_ok and f = "parse_supplier (fst sc) (snd sc)"] parse_supplier_ok)

text \<open>
  C26. What a parsed GSTR-2B statement holds: at least one document; every document has a well formed
  supplier GSTIN, a non-empty normalized number and the identity key of its GSTIN, number, date and
  type; the section counts sum to the number of documents and the totals are the sums over them.
\<close>

theorem parsed_statement_sound:
  assumes "parse_gstr2b_json payload = Inr r"
  shows "p_documents r \<noteq> [] \<and> (\<forall>d\<in>set (p_documents r). good_document d)
         \<and> sum_list (map snd (p_counts r)) = int (length (p_documents r))
         \<and> p_taxable r = sum_list (map d_taxable (p_documents r)) \<and> p_tax r = sum_list (map doc_tax (p_documents r))
         \<and> p_total r = sum_list (map d_total (p_documents r))"
proof -
  obtain docdata docs counts where f: "rfold (parse_section docdata) g2b_sections ([], []) = Inr (docs, counts)"
    and ne: "docs \<noteq> []" and r: "p_documents r = docs" "p_counts r = counts" "p_taxable r = sum_list (map d_taxable docs)"
      "p_tax r = sum_list (map doc_tax docs)" "p_total r = sum_list (map d_total docs)"
    using assms by (auto simp: parse_gstr2b_json_def rbind_eq_Inr split: if_splits prod.splits)
  have "acc_ok (docs, counts)"
    by (rule rfold_inv [where P = acc_ok, OF _ _ f]) (erule (1) parse_section_ok, simp add: acc_ok_def)
  then show ?thesis using ne r by (simp add: acc_ok_def)
qed

section \<open>What the matcher does\<close>

lemma g2b_choose_total: "\<exists>p. g2b_choose documents used purchase = Inr p"
  by (auto simp: g2b_choose_def Let_def split: list.split)

lemma g2b_choose_candidate:
  assumes "g2b_choose documents used purchase = Inr (Some d)"
  shows "d \<in> set (g2b_candidates documents used purchase)"
proof -
  let ?c = "g2b_candidates documents used purchase"
  let ?pool = "if same_number purchase ?c \<noteq> [] then same_number purchase ?c else ?c"
  obtain x xs where pool: "?pool = x # xs" and d: "d = min_by (\<lambda>x. \<bar>d_total x - rl_amount purchase\<bar>) x xs"
    using assms by (auto simp: g2b_choose_def Let_def split: list.splits if_splits)
  have "d \<in> set ?pool" unfolding pool d by (rule min_by_mem)
  then show ?thesis by (auto simp: same_number_def split: if_splits)
qed

interpretation g2b: claiming "g2b_choose documents" identity_key "set documents" for documents
  by unfold_locales (auto dest!: g2b_choose_candidate simp: g2b_candidates_def)

lemma claim_loop_total:
  "(\<And>u s. \<exists>p. chooser u s = Inr p) \<Longrightarrow> \<exists>outs used'. claim_loop chooser key used ss = Inr (outs, used')"
proof (induction ss arbitrary: used)
  case (Cons s ss)
  obtain p where "chooser used s = Inr p" using Cons.prems by blast
  then show ?case using Cons.IH [OF Cons.prems, of "case p of None \<Rightarrow> used | Some t \<Rightarrow> insert (key t) used"] by fastforce
qed simp

definition matched_keys :: "g2b_match list \<Rightarrow> string list" where
  "matched_keys ms = concat (map (\<lambda>m. if m_purchase m = None then [] else
     case m_document m of None \<Rightarrow> [] | Some d \<Rightarrow> [identity_key d]) ms)"

lemma outcome_fields [simp]:
  "m_purchase (outcome docs cl po) = Some (rl_id (fst po))" "m_document (outcome docs cl po) = snd po"
  by (auto simp: outcome_def missing_in_2b_def judge_def Let_def split: option.split prod.split)

lemma matched_keys_outcomes: "matched_keys (map (outcome docs cl) outs) = map identity_key (picks outs)"
  by (induction outs) (auto simp: matched_keys_def picks_def split: option.splits)

lemma matched_keys_left: "matched_keys (map (left_over docs) ds) = []"
  by (simp add: matched_keys_def left_over_def)

lemma matched_keys_append: "matched_keys (xs @ ys) = matched_keys xs @ matched_keys ys"
  by (simp add: matched_keys_def)

definition reported :: "g2b_match list \<Rightarrow> g2b_document list" where
  "reported ms = concat (map (\<lambda>m. case m_document m of None \<Rightarrow> [] | Some d \<Rightarrow> [d]) ms)"

lemma reported_outcomes: "reported (map (outcome docs cl) outs) = picks outs"
  by (induction outs) (auto simp: reported_def picks_def split: option.splits)

lemma reported_left: "reported (map (left_over docs) ds) = ds"
  by (induction ds) (simp_all add: reported_def left_over_def)

lemma reported_append: "reported (xs @ ys) = reported xs @ reported ys"
  by (simp add: reported_def)

lemma filter_key_picked:
  assumes "distinct (map key ds)" and "d \<in> set ds"
  shows "filter (\<lambda>x. key x = key d) ds = [d]"
  using assms by (induction ds) (auto simp: filter_empty_conv image_iff)

text \<open>What is reported, one identity key at a time.\<close>

lemma reported_by_key:
  assumes loop: "claim_loop (g2b_choose documents) identity_key {} purchases = Inr (outs, used)"
  defines "ds \<equiv> picks outs @ filter (\<lambda>d. identity_key d \<notin> used) documents"
  shows "k \<notin> set (map identity_key (picks outs)) \<Longrightarrow>
           filter (\<lambda>d. identity_key d = k) ds = filter (\<lambda>d. identity_key d = k) documents"
    and "p \<in> set (picks outs) \<Longrightarrow> filter (\<lambda>d. identity_key d = identity_key p) ds = [p] \<and> p \<in> set documents"
proof -
  have used: "used = set (map identity_key (picks outs))" using claim_loop_used [OF loop] by simp
  have d: "distinct (map identity_key (picks outs))" using g2b.claims_once [OF loop] by simp
  show "filter (\<lambda>d. identity_key d = k) ds = filter (\<lambda>d. identity_key d = k) documents"
    if "k \<notin> set (map identity_key (picks outs))"
  proof -
    have "filter (\<lambda>d. identity_key d = k) (picks outs) = []" using that by (auto simp: filter_empty_conv)
    moreover have "filter (\<lambda>d. identity_key d \<notin> used \<and> identity_key d = k) documents = filter (\<lambda>d. identity_key d = k) documents"
      by (rule filter_cong) (use that used in auto)
    ultimately show ?thesis by (simp add: ds_def)
  qed
  show "filter (\<lambda>d. identity_key d = identity_key p) ds = [p] \<and> p \<in> set documents" if p: "p \<in> set (picks outs)"
  proof
    have "filter (\<lambda>d. identity_key d \<notin> used \<and> identity_key d = identity_key p) documents = []"
      using p used by (auto simp: filter_empty_conv)
    then show "filter (\<lambda>d. identity_key d = identity_key p) ds = [p]"
      using filter_key_picked [OF d p] by (simp add: ds_def)
    obtain s where "(s, Some p) \<in> set outs" using p by (auto simp: picks_def split: option.splits)
    then obtain u where "g2b_choose documents u s = Inr (Some p)" using g2b.outcome_chosen [OF loop] by auto
    then have "p \<in> set (g2b_candidates documents u s)" by (rule g2b_choose_candidate)
    then show "p \<in> set documents" by (simp add: g2b_candidates_def)
  qed
qed

lemma mset_by_key:
  fixes key :: "'a \<Rightarrow> 'b"
  assumes "\<And>k. filter (\<lambda>x. key x = k) xs = filter (\<lambda>x. key x = k) ys"
  shows "mset xs = mset ys"
proof (rule multiset_eqI)
  fix x
  have "count (mset zs) x = count (mset (filter (\<lambda>y. key y = key x) zs)) x" for zs
    by (simp add: count_mset count_list_eq_length_filter)
  then show "count (mset xs) x = count (mset ys) x" by (metis assms)
qed

lemma duplicate_outcome:
  "snd po = Some d \<Longrightarrow> key_count docs (identity_key d) > 1 \<Longrightarrow> m_bucket (outcome docs cl po) = DUPLICATE"
  by (simp add: outcome_def judge_def Let_def)

text \<open>
  C15. The matcher accounts for the purchases and the documents. It always returns; the purchases come
  first, in order and once each, and the rows after them belong to no purchase; no identity key is matched
  to two purchases and only documents of the statement are reported. Key by key: the documents of a key
  that no purchase took are all reported, each as often as the statement has it; of a key that a purchase
  took exactly the matched document is reported, and when the statement has the key more than once its row
  is a \<open>DUPLICATE\<close>, the only trace of the others. So when the keys are distinct the rows report exactly
  the documents of the statement.
\<close>

theorem match_gstr2b_accounts:
  "\<exists>ms. match_gstr2b purchases documents claimed_keys = Inr ms
     \<and> map m_purchase (take (length purchases) ms) = map (\<lambda>p. Some (rl_id p)) purchases
     \<and> (\<forall>m\<in>set (drop (length purchases) ms). m_purchase m = None)
     \<and> distinct (matched_keys ms) \<and> set (reported ms) \<subseteq> set documents
     \<and> (\<forall>k. k \<notin> set (matched_keys ms) \<longrightarrow>
           filter (\<lambda>d. identity_key d = k) (reported ms) = filter (\<lambda>d. identity_key d = k) documents)
     \<and> (\<forall>k\<in>set (matched_keys ms). \<exists>m\<in>set (take (length purchases) ms). \<exists>d. m_document m = Some d
           \<and> filter (\<lambda>d. identity_key d = k) (reported ms) = [d]
           \<and> (key_count documents k > 1 \<longrightarrow> m_bucket m = DUPLICATE))
     \<and> (distinct (map identity_key documents) \<longrightarrow> mset (reported ms) = mset documents)"
proof -
  obtain outs used where loop: "claim_loop (g2b_choose documents) identity_key {} purchases = Inr (outs, used)"
    using claim_loop_total [of "g2b_choose documents", OF g2b_choose_total] by blast
  let ?rest = "filter (\<lambda>d. identity_key d \<notin> used) documents"
  let ?outs = "map (outcome documents claimed_keys) outs"
  let ?ms = "?outs @ map (left_over documents) ?rest"
  have srcs: "map fst outs = purchases" by (rule claim_loop_sources [OF loop])
  have len: "length outs = length purchases" using srcs by (metis length_map)
  have keys: "matched_keys ?ms = map identity_key (picks outs)"
    by (simp only: matched_keys_append matched_keys_outcomes matched_keys_left append_Nil2)
  have rep: "reported ?ms = picks outs @ ?rest" by (simp only: reported_append reported_outcomes reported_left)
  note free = reported_by_key(1) [OF loop, folded rep] and taken = reported_by_key(2) [OF loop, folded rep]
  have by_key: "\<exists>m\<in>set (take (length purchases) ?ms). \<exists>d. m_document m = Some d
      \<and> filter (\<lambda>d. identity_key d = k) (reported ?ms) = [d] \<and> (key_count documents k > 1 \<longrightarrow> m_bucket m = DUPLICATE)"
    if k: "k \<in> set (matched_keys ?ms)" for k
  proof -
    obtain d where d: "d \<in> set (picks outs)" "identity_key d = k" using k unfolding keys by auto
    then obtain s where s: "(s, Some d) \<in> set outs" by (auto simp: picks_def split: option.splits)
    then have "outcome documents claimed_keys (s, Some d) \<in> set ?outs" by (simp only: set_map image_eqI)
    then show ?thesis using taken [OF d(1)] d(2) duplicate_outcome [of "(s, Some d)" d documents] len
      by (intro bexI [of _ "outcome documents claimed_keys (s, Some d)"] exI [of _ d]) simp_all
  qed
  have all: "mset (reported ?ms) = mset documents" if "distinct (map identity_key documents)"
  proof (rule mset_by_key [where key = identity_key])
    fix k show "filter (\<lambda>d. identity_key d = k) (reported ?ms) = filter (\<lambda>d. identity_key d = k) documents"
    proof (cases "k \<in> set (map identity_key (picks outs))")
      case True
      then obtain d where "d \<in> set (picks outs)" "identity_key d = k" by auto
      with taken [of d] filter_key_picked [OF that, of d] show ?thesis by simp
    qed (rule free)
  qed
  have "map m_purchase ?outs = map (\<lambda>p. Some (rl_id p)) purchases" unfolding srcs [symmetric] by simp
  moreover have "match_gstr2b purchases documents claimed_keys = Inr ?ms" by (simp add: match_gstr2b_def loop)
  moreover have "distinct (matched_keys ?ms)" unfolding keys using g2b.claims_once [OF loop] by simp
  moreover have "set (reported ?ms) \<subseteq> set documents" unfolding rep using reported_by_key(2) [OF loop] by auto
  moreover have "\<forall>m\<in>set (drop (length purchases) ?ms). m_purchase m = None" using len by (auto simp: left_over_def)
  ultimately show ?thesis using free by_key all len by (intro exI [of _ ?ms] conjI) (simp_all add: keys)
qed

lemma judge_clean:
  assumes "clean_match (judge docs claimed by_number p d)"
  shows "by_number \<and> d_total d = rl_amount p \<and> key_count docs (identity_key d) \<le> 1 \<and> document_type d = ''INVOICE''
         \<and> identity_key d \<notin> claimed \<and> (case book_date p of None \<Rightarrow> True | Some b \<Rightarrow> days_between (invoice_date d) b = 0)"
  using assms by (auto simp: clean_match_def judge_def Let_def split: if_splits option.splits)

lemma outcome_clean:
  assumes "clean_match (outcome docs claimed (p, pick))"
  obtains d where "pick = Some d" and "clean_match (judge docs claimed
      (number_of (Some (invoice_number d)) = number_of (rl_ref p)) p d)"
  using assms by (cases pick) (auto simp: outcome_def missing_in_2b_def clean_match_def)

lemma left_over_not_clean: "\<not> clean_match (left_over docs d)"
  by (simp add: clean_match_def left_over_def)

text \<open>
  C25. A clean match is a real one: its purchase and document agree in supplier GSTIN, normalized
  number and value, the document is an ordinary invoice whose identity occurs once in the statement
  and was not claimed in another period, and its date is the purchase's date, or the purchase's date
  cannot be read.
\<close>

theorem clean_match_sound:
  assumes "match_gstr2b purchases documents claimed_keys = Inr ms" and "m \<in> set ms" and "clean_match m"
    and "\<forall>d\<in>set documents. valid_date (invoice_date d)"
  shows "\<exists>p\<in>set purchases. \<exists>d\<in>set documents. m_purchase m = Some (rl_id p) \<and> m_document m = Some d
           \<and> supplier_gstin d = py_upper (opt_str (rl_gstin p))
           \<and> number_of (Some (invoice_number d)) = number_of (rl_ref p) \<and> d_total d = rl_amount p
           \<and> document_type d = ''INVOICE'' \<and> key_count documents (identity_key d) = 1
           \<and> identity_key d \<notin> claimed_keys
           \<and> (book_date p = Some (invoice_date d) \<or> book_date p = None)"
proof -
  obtain outs used where loop: "claim_loop (g2b_choose documents) identity_key {} purchases = Inr (outs, used)"
    and ms: "ms = map (outcome documents claimed_keys) outs
                  @ map (left_over documents) (filter (\<lambda>d. identity_key d \<notin> used) documents)"
    using assms(1) unfolding match_gstr2b_def by (elim rbindE) (auto split: prod.splits)
  obtain p pick where out: "(p, pick) \<in> set outs" "m = outcome documents claimed_keys (p, pick)"
    using assms(2,3) ms left_over_not_clean by auto
  obtain d where d: "pick = Some d" and "clean_match (judge documents claimed_keys
      (number_of (Some (invoice_number d)) = number_of (rl_ref p)) p d)"
    using assms(3) unfolding out(2) by (rule outcome_clean)
  note j = judge_clean [OF this(2)]
  obtain u where "g2b_choose documents u p = Inr (Some d)"
    using g2b.outcome_chosen [OF loop out(1)] d by auto
  then have "d \<in> set (g2b_candidates documents u p)" by (rule g2b_choose_candidate)
  then have docs: "d \<in> set documents" "supplier_gstin d = py_upper (opt_str (rl_gstin p))"
    by (auto simp: g2b_candidates_def)
  have p: "p \<in> set purchases" using out(1) claim_loop_sources [OF loop] by force
  have "d \<in> set (filter (\<lambda>x. identity_key x = identity_key d) documents)" using docs(1) by simp
  then have "0 < key_count documents (identity_key d)" unfolding key_count_def by (rule length_pos_if_in_set)
  then have kc: "key_count documents (identity_key d) = 1" using j by simp
  have "book_date p = Some (invoice_date d) \<or> book_date p = None"
  proof (cases "book_date p")
    case (Some b)
    then have "valid_date b" by (auto simp: book_date_def dest: fromisoformat_valid split: sum.splits)
    then have "invoice_date d = b" using j Some days_between_iff(2) [of "invoice_date d" b] assms(4) docs(1) by simp
    then show ?thesis using Some by simp
  qed simp
  then show ?thesis using p docs j kc d out(2) by (intro bexI [of _ p] bexI [of _ d]) simp_all
qed

definition sample_line :: recon_line where
  "sample_line = \<lparr> rl_id = ''p1'', rl_date = ''x'', rl_description = '''', rl_counterparty = ''Acme'', rl_amount = 118,
     rl_ref = Some ''A1'', rl_gstin = Some ''27'' \<rparr>"

definition sample_doc :: g2b_document where
  "sample_doc = \<lparr> identity_key = ''k'', supplier_gstin = ''27'', invoice_number = ''A1'', invoice_date = Date 2026 6 1,
     document_type = ''INVOICE'', amendment_of_key = None, d_taxable = 100, d_igst = 18, d_cgst = 0, d_sgst = 0,
     d_cess = 0, d_total = 118, d_original = [] \<rparr>"

lemma sample_up: "py_upper ''27'' = ''27''" by code_simp
lemma sample_book: "book_date sample_line = None" by (simp add: book_date_def sample_line_def date_fromisoformat_def)

lemma sample_match:
  "match_gstr2b [sample_line] [sample_doc] {} = Inr [outcome [sample_doc] {} (sample_line, Some sample_doc)]"
  by (simp add: match_gstr2b_def g2b_choose_def g2b_candidates_def sample_line_def sample_doc_def
      same_number_def opt_str_def sample_up Let_def)

lemma sample_clean: "clean_match (outcome [sample_doc] {} (sample_line, Some sample_doc))"
  using sample_book
  by (simp add: outcome_def judge_def Let_def clean_match_def key_count_def) (simp add: sample_line_def sample_doc_def)

lemma clean_match_sound_witness:
  "\<exists>p\<in>{sample_line}. \<exists>d\<in>{sample_doc}. d_total d = rl_amount p \<and> (book_date p = Some (invoice_date d) \<or> book_date p = None)"
proof -
  have v: "\<forall>d\<in>set [sample_doc]. valid_date (invoice_date d)"
    by (simp add: sample_doc_def valid_date_def days_in_month_def)
  from clean_match_sound [OF sample_match _ sample_clean v] show ?thesis by auto
qed

text \<open>A purchase whose date cannot be read counts as dated like its document: it is matched clean.\<close>

lemma unreadable_date_is_exact:
  "book_date sample_line = None \<and> m_bucket (outcome [sample_doc] {} (sample_line, Some sample_doc)) = EXACT"
  using sample_clean sample_book by (simp add: clean_match_def)

lemma match_gstr2b_accounts_witness:
  "\<exists>ms. match_gstr2b [sample_line] [sample_doc] {} = Inr ms \<and> mset (reported ms) = {#sample_doc#}"
proof -
  have "distinct (map identity_key [sample_doc])" by simp
  with match_gstr2b_accounts [of "[sample_line]" "[sample_doc]" "{}"] show ?thesis by fastforce
qed

definition sample_payload :: pyval where
  "sample_payload = VDict [(''b2b'', VList [VDict [(''ctin'', VStr ''27AAAAA0000A1Z5''),
     (''inv'', VList [VDict [(''inum'', VStr ''A1''), (''idt'', VDate (Date 2026 6 1))]])]])]"

lemma zero_paise: "rupees_to_paise True (VInt 0) = Inr 0"
  by code_simp

lemma sample_strings:
  "clean_gstin (VStr ''27AAAAA0000A1Z5'') = ''27AAAAA0000A1Z5''" "gstin_pattern ''27AAAAA0000A1Z5''"
  "py_strip ''A1'' = ''A1''" "normal_number (VStr ''A1'') = ''A1''" "normal_number VNone = ''''"
  by code_simp+

lemma sample_parse: "\<exists>r. parse_gstr2b_json sample_payload = Inr r"
proof -
  have doc: "\<exists>d. g2b_document_of (VDict [(''ctin'', VStr ''27AAAAA0000A1Z5''), (''inv'', x)])
      (VDict [(''inum'', VStr ''A1''), (''idt'', VDate (Date 2026 6 1))]) ''b2b'' = Inr d" for x
    by (simp add: g2b_document_of_def sample_strings g2b_date_def g2b_taxes_def g2b_paise_def zero_paise
        amendment_key_def py_or_def doc_type_of_def Let_def)
  obtain d where "g2b_document_of (VDict [(''ctin'', VStr ''27AAAAA0000A1Z5''), (''inv'', VList [VDict
      [(''inum'', VStr ''A1''), (''idt'', VDate (Date 2026 6 1))]])])
      (VDict [(''inum'', VStr ''A1''), (''idt'', VDate (Date 2026 6 1))]) ''b2b'' = Inr d"
    using doc by blast
  then show ?thesis
    by (simp add: parse_gstr2b_json_def sample_payload_def g2b_unwrap_def g2b_sections_def parse_section_def
        parse_supplier_def py_or_def Let_def)
qed

lemma parsed_statement_sound_witness:
  "\<exists>r. parse_gstr2b_json sample_payload = Inr r \<and> p_documents r \<noteq> []
     \<and> sum_list (map snd (p_counts r)) = int (length (p_documents r))"
  using sample_parse parsed_statement_sound by blast

end
