(* ===== verification/Reconcile.thy ===== *)
theory Reconcile
  imports Gstr2b
begin

text \<open>
  \<open>engines/reconcile.py\<close>: the register reconciliation, which claims for each source line the best
  scoring free target. The name similarity is the fuzzy-matching library's; it is the parameter
  \<open>ratio\<close>, a score from 0 to 100.
\<close>

section \<open>Scores\<close>

definition AMOUNT_TOLERANCE_PAISE :: int where "AMOUNT_TOLERANCE_PAISE = 100"
definition FUZZY_THRESHOLD :: rat where "FUZZY_THRESHOLD = 75"

datatype match_flag = AMOUNT_MISMATCH | PORTAL_ENTRY_NOT_IN_BOOKS
datatype match_status = AUTO_MATCHED | SUGGESTED | UNMATCHED

definition present :: "string option \<Rightarrow> bool" where
  "present v = (v \<noteq> None \<and> v \<noteq> Some '''')"

definition hard_key_match :: "recon_line \<Rightarrow> recon_line \<Rightarrow> bool" where
  "hard_key_match src tgt = (present (rl_gstin src) \<and> present (rl_gstin tgt) \<and> rl_gstin src = rl_gstin tgt
     \<and> present (rl_ref src) \<and> present (rl_ref tgt) \<and> rl_ref src = rl_ref tgt)"

definition combined_score :: "rat \<Rightarrow> rat \<Rightarrow> rat" where
  "combined_score name_score amount_score =
     f64 (f64 (f64 (name_score * f64 (6/10)) + f64 (amount_score * f64 (4/10))) / 100)"

text \<open>The score and flag of a pair, or nothing when the pair is skipped.\<close>

definition score_pair :: "(string \<Rightarrow> string \<Rightarrow> rat) \<Rightarrow> recon_line \<Rightarrow> recon_line
    \<Rightarrow> (rat \<times> match_flag option) option result" where
  "score_pair ratio src tgt =
     (let key_match = hard_key_match src tgt;
          amount_diff = \<bar>rl_amount src - rl_amount tgt\<bar>
      in if \<not> key_match \<and> amount_diff > AMOUNT_TOLERANCE_PAISE then Inr None
         else
           let name_score = ratio (py_lower (rl_counterparty src)) (py_lower (rl_counterparty tgt)) in
           if \<not> key_match \<and> name_score < FUZZY_THRESHOLD then Inr None
           else rbind (int_truediv amount_diff 100) (\<lambda>q.
             let amount_score = max 0 (f64 (100 - q));
                 combined = (if key_match then 1 else combined_score name_score amount_score);
                 flag = (if amount_diff > AMOUNT_TOLERANCE_PAISE then Some AMOUNT_MISMATCH else None)
             in Inr (Some (combined, flag))))"

type_synonym best = "(recon_line \<times> match_flag option) option \<times> rat"

definition consider_target :: "(string \<Rightarrow> string \<Rightarrow> rat) \<Rightarrow> string set \<Rightarrow> recon_line \<Rightarrow> recon_line \<Rightarrow> best \<Rightarrow> best result" where
  "consider_target ratio used src tgt best =
     (if rl_id tgt \<in> used then Inr best
      else rbind (score_pair ratio src tgt) (\<lambda>r.
        case r of None \<Rightarrow> Inr best
        | Some (combined, flag) \<Rightarrow> Inr (if combined > snd best then (Some (tgt, flag), combined) else best)))"

definition best_target :: "(string \<Rightarrow> string \<Rightarrow> rat) \<Rightarrow> recon_line list \<Rightarrow> string set \<Rightarrow> recon_line
    \<Rightarrow> (recon_line \<times> match_flag option \<times> rat) option result" where
  "best_target ratio targets used src =
     rbind (rfold (consider_target ratio used src) targets (None, 0)) (\<lambda>(b, score).
       Inr (case b of None \<Rightarrow> None | Some (tgt, flag) \<Rightarrow> Some (tgt, flag, score)))"

section \<open>The reconciliation\<close>

record recon_match =
  rm_id :: string
  rm_status :: match_status
  rm_score :: "rat option"
  rm_source :: "recon_line option"
  rm_target :: "recon_line option"
  rm_flag :: "match_flag option"

record recon_summary =
  s_auto :: nat
  s_suggested :: nat
  s_unmatched :: nat
  s_total_auto :: int
  s_total_suggested :: int
  s_total_unmatched :: int

definition stable_match_id :: "string \<Rightarrow> string \<Rightarrow> string" where
  "stable_match_id source_id target_id = ''rm-'' @ take 24 (sha256_hex (source_id @ '':'' @ target_id))"

definition source_match :: "recon_line \<times> (recon_line \<times> match_flag option \<times> rat) option \<Rightarrow> recon_match" where
  "source_match sp =
     (case sp of
        (src, None) \<Rightarrow> \<lparr> rm_id = stable_match_id (rl_id src) '''', rm_status = UNMATCHED, rm_score = None,
                        rm_source = Some src, rm_target = None, rm_flag = None \<rparr>
      | (src, Some (tgt, flag, score)) \<Rightarrow>
          \<lparr> rm_id = stable_match_id (rl_id src) (rl_id tgt),
            rm_status = (if score \<ge> f64 (8/10) then AUTO_MATCHED else SUGGESTED),
            rm_score = Some (float_round2 score), rm_source = Some src, rm_target = Some tgt, rm_flag = flag \<rparr>)"

definition portal_only :: "recon_line \<Rightarrow> recon_match" where
  "portal_only tgt =
     \<lparr> rm_id = stable_match_id (rl_id tgt) '''', rm_status = UNMATCHED, rm_score = None, rm_source = None,
       rm_target = Some tgt, rm_flag = Some PORTAL_ENTRY_NOT_IN_BOOKS \<rparr>"

definition side_amount :: "recon_match \<Rightarrow> int" where
  "side_amount m = (case rm_source m of Some s \<Rightarrow> rl_amount s
                    | None \<Rightarrow> (case rm_target m of Some t \<Rightarrow> rl_amount t | None \<Rightarrow> 0))"

definition with_status :: "match_status \<Rightarrow> recon_match list \<Rightarrow> recon_match list" where
  "with_status st ms = filter (\<lambda>m. rm_status m = st) ms"

definition summarise :: "recon_match list \<Rightarrow> recon_summary" where
  "summarise ms =
     (let auto_m = with_status AUTO_MATCHED ms; sugg = with_status SUGGESTED ms; un = with_status UNMATCHED ms
      in \<lparr> s_auto = length auto_m, s_suggested = length sugg, s_unmatched = length un,
           s_total_auto = sum_list (map side_amount auto_m), s_total_suggested = sum_list (map side_amount sugg),
           s_total_unmatched = sum_list (map side_amount un) \<rparr>)"

definition target_id :: "recon_line \<times> match_flag option \<times> rat \<Rightarrow> string" where
  "target_id p = rl_id (fst p)"

definition reconcile :: "(string \<Rightarrow> string \<Rightarrow> rat) \<Rightarrow> recon_line list \<Rightarrow> recon_line list
    \<Rightarrow> (recon_match list \<times> recon_summary) result" where
  "reconcile ratio sources targets =
     rbind (claim_loop (best_target ratio targets) target_id {} sources) (\<lambda>(outs, used).
       let ms = map source_match outs @ map portal_only (filter (\<lambda>t. rl_id t \<notin> used) targets)
       in Inr (ms, summarise ms))"

section \<open>The chooser\<close>

definition best_ok :: "(string \<Rightarrow> string \<Rightarrow> rat) \<Rightarrow> recon_line list \<Rightarrow> string set \<Rightarrow> recon_line \<Rightarrow> best \<Rightarrow> bool" where
  "best_ok ratio targets used src b =
     (case fst b of None \<Rightarrow> True
      | Some (tgt, flag) \<Rightarrow> tgt \<in> set targets \<and> rl_id tgt \<notin> used \<and> score_pair ratio src tgt = Inr (Some (snd b, flag)))"

lemma best_target_ok:
  assumes "best_target ratio targets used src = Inr (Some (tgt, flag, score))"
  shows "tgt \<in> set targets \<and> rl_id tgt \<notin> used \<and> score_pair ratio src tgt = Inr (Some (score, flag))"
proof -
  have f: "rfold (consider_target ratio used src) targets (None, 0) = Inr (Some (tgt, flag), score)"
    using assms unfolding best_target_def by (elim rbindE) (auto split: prod.splits option.splits)
  have "best_ok ratio targets used src (Some (tgt, flag), score)"
  proof (rule rfold_inv [where P = "best_ok ratio targets used src", OF _ _ f])
    fix x s s'
    assume x: "x \<in> set targets" and ok: "best_ok ratio targets used src s"
      and c: "consider_target ratio used src x s = Inr s'"
    show "best_ok ratio targets used src s'"
    proof (cases "rl_id x \<in> used")
      case True
      then show ?thesis using ok c by (simp add: consider_target_def)
    next
      case False
      have "rbind (score_pair ratio src x) (\<lambda>r. case r of None \<Rightarrow> Inr s | Some (combined, flag) \<Rightarrow>
            Inr (if combined > snd s then (Some (x, flag), combined) else s)) = Inr s'"
        using c False by (simp add: consider_target_def)
      then obtain r where r: "score_pair ratio src x = Inr r"
        "(case r of None \<Rightarrow> Inr s | Some (combined, flag) \<Rightarrow>
            Inr (if combined > snd s then (Some (x, flag), combined) else s)) = (Inr s' :: best result)"
        by (rule rbindE)
      show ?thesis using r ok x False by (cases r) (auto simp: best_ok_def split: if_splits)
    qed
  qed (simp add: best_ok_def)
  then show ?thesis by (simp add: best_ok_def)
qed

interpretation rec: claiming "best_target ratio targets" target_id
    "{p. fst p \<in> set targets}" for ratio targets
  by unfold_locales (auto simp: target_id_def dest: best_target_ok)

definition claimed_ids :: "recon_match list \<Rightarrow> string list" where
  "claimed_ids ms = concat (map (\<lambda>m. if rm_source m = None then [] else
     case rm_target m of None \<Rightarrow> [] | Some t \<Rightarrow> [rl_id t]) ms)"

lemma claimed_ids_append: "claimed_ids (xs @ ys) = claimed_ids xs @ claimed_ids ys"
  by (simp add: claimed_ids_def)

lemma claimed_ids_sources: "claimed_ids (map source_match outs) = map target_id (picks outs)"
  by (induction outs) (auto simp: claimed_ids_def source_match_def picks_def target_id_def split: option.splits)

lemma claimed_ids_portal: "claimed_ids (map portal_only ts) = []"
  by (simp add: claimed_ids_def portal_only_def)

lemma source_match_source: "rm_source (source_match sp) = Some (fst sp)"
  by (auto simp: source_match_def split: prod.splits option.splits)

lemma status_partition:
  "length (with_status AUTO_MATCHED ms) + length (with_status SUGGESTED ms) + length (with_status UNMATCHED ms) = length ms"
proof (induction ms)
  case (Cons m ms)
  then show ?case by (cases "rm_status m") (simp_all add: with_status_def)
qed (simp add: with_status_def)

lemma amount_partition:
  "sum_list (map side_amount (with_status AUTO_MATCHED ms)) + sum_list (map side_amount (with_status SUGGESTED ms))
   + sum_list (map side_amount (with_status UNMATCHED ms)) = sum_list (map side_amount ms)"
proof (induction ms)
  case (Cons m ms)
  then show ?case by (cases "rm_status m") (simp_all add: with_status_def)
qed (simp add: with_status_def)

section \<open>Properties\<close>

text \<open>
  C16. The reconciliation claims no target twice, gives every source line one row in order, lists every
  target either as claimed or as a portal-only row, and its summary splits the rows and their amounts
  into the three states without loss; this holds for every name-similarity function.
\<close>

theorem reconcile_accounts:
  assumes "reconcile ratio sources targets = Inr (ms, summary)"
  shows "distinct (claimed_ids ms)
     \<and> map rm_source (take (length sources) ms) = map Some sources
     \<and> drop (length sources) ms = map portal_only (filter (\<lambda>t. rl_id t \<notin> set (claimed_ids ms)) targets)
     \<and> s_auto summary + s_suggested summary + s_unmatched summary = length ms
     \<and> s_total_auto summary + s_total_suggested summary + s_total_unmatched summary = sum_list (map side_amount ms)"
proof -
  obtain outs used where loop: "claim_loop (best_target ratio targets) target_id {} sources = Inr (outs, used)"
    and ms: "ms = map source_match outs @ map portal_only (filter (\<lambda>t. rl_id t \<notin> used) targets)"
    and sm: "summary = summarise ms"
    using assms unfolding reconcile_def by (elim rbindE) (auto simp: Let_def split: prod.splits)
  have srcs: "map fst outs = sources" by (rule claim_loop_sources [OF loop])
  then have len: "length outs = length sources" by (metis length_map)
  have ids: "claimed_ids ms = map target_id (picks outs)"
    by (simp add: ms claimed_ids_append claimed_ids_sources claimed_ids_portal)
  have used: "used = set (claimed_ids ms)" using claim_loop_used [OF loop] by (simp add: ids)
  have "distinct (claimed_ids ms)" unfolding ids using rec.claims_once [OF loop] by simp
  moreover have "map rm_source (take (length sources) ms) = map Some sources"
    using len by (simp add: ms source_match_source flip: srcs)
  moreover have "drop (length sources) ms = map portal_only (filter (\<lambda>t. rl_id t \<notin> set (claimed_ids ms)) targets)"
  proof -
    have "drop (length sources) ms = map portal_only (filter (\<lambda>t. rl_id t \<notin> used) targets)"
      using len by (simp add: ms)
    then show ?thesis by (simp only: used)
  qed
  ultimately show ?thesis
    using status_partition [of ms] amount_partition [of ms] by (simp add: sm summarise_def Let_def)
qed

lemma reconcile_accounts_witness:
  "\<exists>ms s. reconcile (\<lambda>a b. 0) [sample_line] [sample_line] = Inr (ms, s) \<and> distinct (claimed_ids ms)
     \<and> s_auto s + s_suggested s + s_unmatched s = length ms"
proof -
  have "hard_key_match sample_line sample_line" by (simp add: hard_key_match_def present_def sample_line_def)
  then have "score_pair (\<lambda>a b. 0) sample_line sample_line = Inr (Some (1, None))"
    by (simp add: score_pair_def AMOUNT_TOLERANCE_PAISE_def int_truediv_def float_of_def Let_def)
  then have "\<exists>ms s. reconcile (\<lambda>a b. 0) [sample_line] [sample_line] = Inr (ms, s)"
    by (simp add: reconcile_def best_target_def consider_target_def Let_def)
  then show ?thesis using reconcile_accounts by blast
qed

text \<open>Automatic matches need the hard key or a similar name and amount.\<close>

lemma score_pair_reason:
  "score_pair ratio src tgt = Inr (Some (score, flag)) \<Longrightarrow>
     hard_key_match src tgt \<and> score = 1
     \<or> \<bar>rl_amount src - rl_amount tgt\<bar> \<le> AMOUNT_TOLERANCE_PAISE
       \<and> FUZZY_THRESHOLD \<le> ratio (py_lower (rl_counterparty src)) (py_lower (rl_counterparty tgt)) \<and> flag = None"
  by (auto simp: score_pair_def Let_def rbind_eq_Inr split: if_splits)

end
