(* ===== verification/Bank.thy ===== *)
theory Bank
  imports Money "HOL-Library.Char_ord" "HOL-Library.List_Lexorder"
begin

text \<open>
  Bank statements: the row reader and balance check of \<open>api/routes/bank_statement_parsing.py\<close>, the
  registry of \<open>engines/bank_registry.py\<close> with the types of \<open>engines/bank_types.py\<close>, and the candidate
  scoring of \<open>engines/bank_matcher.py\<close>. What the spreadsheet and PDF libraries return (rows of
  named cells, tables of text cells) is an argument.
\<close>

section \<open>Rows\<close>

datatype txn_type = CREDIT | DEBIT

record bank_row =
  r_txn_date :: string
  r_description :: string
  r_amount :: int
  r_type :: txn_type
  r_running_balance :: int
  r_ref_no :: string
  r_value_date :: string
  r_source_row :: "int option"
  r_source_page :: "int option"

definition bank_date_formats :: "directive list list" where
  "bank_date_formats = [fmt_dmy_slash, fmt_ymd_dash, fmt_dmy_dash, fmt_mdy_slash, fmt_d_b_Y, fmt_d_b_y]"

definition parse_bank_date :: "string \<Rightarrow> string" where
  "parse_bank_date date_str =
     (if date_str = [] then []
      else case first_format bank_date_formats (py_strip date_str) of
             Some d \<Rightarrow> isoformat d | None \<Rightarrow> py_strip date_str)"

definition is_nan :: "pyval \<Rightarrow> bool" where
  "is_nan v = (v = VNan \<or> v = VDec DNaN)"

fun money_parse_error :: "pyexn \<Rightarrow> bool" where
  "money_parse_error (MoneyParseError m) = True"
| "money_parse_error _ = False"

definition safe_paise :: "pyval \<Rightarrow> int result" where
  "safe_paise v =
     (if v = VNone \<or> v = VStr '''' \<or> is_nan v then Inr 0
      else case rupees_to_paise True v of
             Inr n \<Rightarrow> Inr n | Inl e \<Rightarrow> if money_parse_error e then Inr 0 else Inl e)"

text \<open>\<open>row.get(a, row.get(b, ... default))\<close>: the first key present.\<close>

fun get_chain :: "(string \<times> pyval) list \<Rightarrow> string list \<Rightarrow> pyval \<Rightarrow> pyval" where
  "get_chain row [] dflt = dflt"
| "get_chain row (k # ks) dflt = get_or row k (get_chain row ks dflt)"

definition amount_and_type :: "int \<Rightarrow> int \<Rightarrow> int \<Rightarrow> int \<times> txn_type" where
  "amount_and_type debit credit raw_amount =
     (if debit \<noteq> 0 \<and> credit \<noteq> 0 then (\<bar>credit - debit\<bar>, if credit - debit > 0 then CREDIT else DEBIT)
      else if debit \<noteq> 0 then (debit, DEBIT)
      else if credit \<noteq> 0 then (credit, CREDIT)
      else (\<bar>raw_amount\<bar>, if raw_amount > 0 then CREDIT else DEBIT))"

definition bank_transaction_row :: "(string \<times> pyval) list \<Rightarrow> int option \<Rightarrow> int option \<Rightarrow> bank_row option result" where
  "bank_transaction_row row source_row source_page =
     (let date = py_str (get_chain row [''date'', ''txn date'', ''value date''] (VStr ''''));
          description = py_str (get_chain row [''description'', ''particulars'', ''narration''] (VStr ''''))
      in if date = [] \<or> description = [] \<or> description = ''nan'' then Inr None
         else
           rbind (safe_paise (get_chain row [''withdrawal'', ''debit''] VNone)) (\<lambda>debit.
           rbind (safe_paise (get_chain row [''deposit'', ''credit''] VNone)) (\<lambda>credit.
           rbind (safe_paise (get_or row ''amount'' (VInt 0))) (\<lambda>raw_amount.
           let (amount, ty) = amount_and_type debit credit raw_amount;
               reference = py_strip (py_str (get_chain row [''ref no'', ''reference'', ''chq no''] (VStr '''')))
           in rbind (safe_paise (get_chain row [''balance'', ''closing balance''] (VInt 0))) (\<lambda>balance.
              Inr (Some \<lparr> r_txn_date = parse_bank_date date, r_description = py_strip description, r_amount = amount,
                          r_type = ty, r_running_balance = balance,
                          r_ref_no = (if reference = ''nan'' then '''' else reference),
                          r_value_date = parse_bank_date (py_str (get_or row ''value date'' (VStr ''''))),
                          r_source_row = source_row, r_source_page = source_page \<rparr>))))))"

fun keep_some :: "'a option list \<Rightarrow> 'a list" where
  "keep_some [] = []"
| "keep_some (None # xs) = keep_some xs"
| "keep_some (Some x # xs) = x # keep_some xs"

text \<open>A spreadsheet as read: the frame index of each row and its named cells, headers normalized.\<close>

definition parse_csv_rows :: "(int \<times> (string \<times> pyval) list) list \<Rightarrow> bank_row list result" where
  "parse_csv_rows frame =
     rbind (rmap (\<lambda>(index, row). bank_transaction_row row (Some (index + 2)) None) frame) (\<lambda>rs. Inr (keep_some rs))"

type_synonym pdf_table = "string option list list"

definition header_of :: "string option \<Rightarrow> string" where
  "header_of h = (case h of None \<Rightarrow> '''' | Some s \<Rightarrow> if s = [] then '''' else py_strip (py_lower s))"

definition zip_dict :: "string list \<Rightarrow> string option list \<Rightarrow> (string \<times> pyval) list" where
  "zip_dict headers cells =
     fold (\<lambda>(h, c) d. dict_set h (case c of None \<Rightarrow> VNone | Some s \<Rightarrow> VStr s) d) (zip headers cells) []"

definition parse_pdf_table :: "int \<Rightarrow> pdf_table \<Rightarrow> bank_row list result" where
  "parse_pdf_table page_number table =
     (if length table < 2 then Inr []
      else let headers = map header_of (hd table) in
        rbind (rmap (\<lambda>(n, row). if length row = length headers
                              then bank_transaction_row (zip_dict headers row) (Some n) (Some page_number)
                              else Inr None)
                 (zip (map (\<lambda>i. int i + 2) [0..<length (tl table)]) (tl table)))
          (\<lambda>rs. Inr (keep_some rs)))"

definition parse_pdf_pages :: "pdf_table list list \<Rightarrow> bank_row list result" where
  "parse_pdf_pages pages =
     rbind (rmap (\<lambda>(n, tables). rbind (rmap (parse_pdf_table n) tables) (\<lambda>xs. Inr (concat xs)))
              (zip (map (\<lambda>i. int i + 1) [0..<length pages]) pages))
       (\<lambda>xs. Inr (concat xs))"

section \<open>The running balance\<close>

record balance_break =
  br_row :: nat
  br_expected :: int
  br_actual :: int
  br_description :: string

record balance_check =
  bc_valid :: bool
  bc_breaks :: "balance_break list"
  bc_checked :: "nat option"

definition expected_balance :: "bank_row \<Rightarrow> bank_row \<Rightarrow> int" where
  "expected_balance prev cur =
     (if r_type cur = CREDIT then r_running_balance prev + r_amount cur else r_running_balance prev - r_amount cur)"

fun balance_breaks :: "nat \<Rightarrow> bank_row list \<Rightarrow> balance_break list" where
  "balance_breaks i (prev # cur # rest) =
     (if \<bar>expected_balance prev cur - r_running_balance cur\<bar> > 100
      then [\<lparr> br_row = i, br_expected = expected_balance prev cur, br_actual = r_running_balance cur,
              br_description = r_description cur \<rparr>] else [])
     @ balance_breaks (i + 1) (cur # rest)"
| "balance_breaks i _ = []"

definition validate_running_balance :: "bank_row list \<Rightarrow> balance_check" where
  "validate_running_balance rows =
     (if rows = [] \<or> r_running_balance (hd rows) = 0
      then \<lparr> bc_valid = True, bc_breaks = [], bc_checked = None \<rparr>
      else let breaks = balance_breaks 1 rows
           in \<lparr> bc_valid = (breaks = []), bc_breaks = take 10 breaks, bc_checked = Some (length rows) \<rparr>)"

section \<open>The registry\<close>

record bank_txn =
  b_txn_date :: pydate
  b_value_date :: "pydate option"
  b_description :: string
  b_reference :: string
  b_debit_paise :: int
  b_credit_paise :: int
  b_balance_paise :: "int option"
  b_source_row :: "int option"
  b_source_page :: "int option"
  b_tokens :: "string list"

definition txn_amount :: "bank_txn \<Rightarrow> int" where
  "txn_amount t = (if b_credit_paise t \<noteq> 0 then b_credit_paise t else b_debit_paise t)"

definition txn_kind :: "bank_txn \<Rightarrow> txn_type" where
  "txn_kind t = (if b_credit_paise t \<noteq> 0 then CREDIT else DEBIT)"

record bank_parse =
  bp_adapter :: string
  bp_bank_name :: string
  bp_period_start :: pydate
  bp_period_end :: pydate
  bp_closing_balance :: "int option"
  bp_transactions :: "bank_txn list"
  bp_integrity :: balance_check

definition SUPPORTED :: "(string, string) dict" where
  "SUPPORTED = [(''csv'', ''GENERIC_CSV''), (''xls'', ''GENERIC_XLS''), (''xlsx'', ''GENERIC_XLSX''),
                (''pdf'', ''GENERIC_DIGITAL_PDF'')]"

text \<open>The maximal runs of upper-case letters and digits of length at least three, sorted, once each.\<close>

fun alnum_runs :: "string \<Rightarrow> string \<Rightarrow> string list" where
  "alnum_runs acc [] = (if length acc \<ge> 3 then [rev acc] else [])"
| "alnum_runs acc (c # cs) =
     (if is_upper_alnum c then alnum_runs (c # acc) cs
      else (if length acc \<ge> 3 then [rev acc] else []) @ alnum_runs [] cs)"

definition find_tokens :: "string \<Rightarrow> string list" where "find_tokens s = alnum_runs [] (py_upper s)"

definition sorted_tokens :: "string \<Rightarrow> string list" where
  "sorted_tokens s = sort (remdups (find_tokens s))"

definition registry_date :: "string \<Rightarrow> pydate result" where
  "registry_date v = (case date_fromisoformat v of
      Inr d \<Rightarrow> Inr d
    | Inl _ \<Rightarrow> Inl (AppError ''INVALID_BANK_DATE'' (''Unsupported transaction date: '' @ v) 422))"

definition to_transaction :: "bank_row \<Rightarrow> bank_txn result" where
  "to_transaction row =
     rbind (registry_date (r_txn_date row)) (\<lambda>d.
     rbind (if r_value_date row \<noteq> [] then rbind (registry_date (r_value_date row)) (\<lambda>v. Inr (Some v)) else Inr None) (\<lambda>vd.
     Inr \<lparr> b_txn_date = d, b_value_date = vd, b_description = r_description row, b_reference = r_ref_no row,
           b_debit_paise = (if r_type row = DEBIT then r_amount row else 0),
           b_credit_paise = (if r_type row = CREDIT then r_amount row else 0),
           b_balance_paise = (if r_running_balance row = 0 then None else Some (r_running_balance row)),
           b_source_row = r_source_row row, b_source_page = r_source_page row,
           b_tokens = sorted_tokens (r_description row @ '' '' @ r_ref_no row) \<rparr>))"

definition file_extension :: "string \<Rightarrow> string" where
  "file_extension filename =
     (if CHR ''.'' \<in> set filename then py_lower (last (py_split_char (CHR ''.'') filename)) else '''')"

definition min_date :: "pydate list \<Rightarrow> pydate" where "min_date ds = fold min (tl ds) (hd ds)"
definition max_date :: "pydate list \<Rightarrow> pydate" where "max_date ds = fold max (tl ds) (hd ds)"

text \<open>\<open>rows\<close> is what the reader for the extension returned or raised.\<close>

definition parse_bank_statement :: "bank_row list result \<Rightarrow> string \<Rightarrow> string option \<Rightarrow> bank_parse result" where
  "parse_bank_statement rows filename bank_hint =
     (let extension = file_extension filename in
      case map_of SUPPORTED extension of
        None \<Rightarrow> Inl (AppError ''UNSUPPORTED_FORMAT'' ''This bank statement format is not supported.'' 415)
      | Some adapter \<Rightarrow>
        (case rows of
           Inl _ \<Rightarrow> Inl (AppError ''BANK_PARSE_FAILED'' ''The bank statement could not be parsed.'' 422)
         | Inr rs \<Rightarrow>
             if rs = [] then Inl (AppError (if extension = ''pdf'' then ''UNSUPPORTED_FORMAT'' else ''BANK_PARSE_FAILED'')
                                    ''No supported transaction table was found.'' 422)
             else rbind (rmap to_transaction rs) (\<lambda>txns.
               let hint = (case bank_hint of None \<Rightarrow> '''' | Some h \<Rightarrow> h);
                   balances = keep_some (map b_balance_paise txns)
               in Inr \<lparr> bp_adapter = py_upper (if hint = [] then ''GENERIC'' else hint) @ '':'' @ adapter,
                        bp_bank_name = py_strip (if hint = [] then ''Unknown bank'' else hint),
                        bp_period_start = min_date (map b_txn_date txns), bp_period_end = max_date (map b_txn_date txns),
                        bp_closing_balance = (if balances = [] then None else Some (last balances)),
                        bp_transactions = txns, bp_integrity = validate_running_balance rs \<rparr>)))"

section \<open>Candidate scoring\<close>

record book_candidate =
  k_source :: string
  k_id :: string
  k_date :: pydate
  k_amount :: int
  k_party :: string
  k_reference :: string

record scored_candidate =
  sc_candidate :: book_candidate
  sc_score :: rat
  sc_drift :: int
  sc_overlap :: "string list"

definition base_score :: rat where "base_score = f64 (45/100)"

definition overlap_with :: "bank_txn \<Rightarrow> book_candidate \<Rightarrow> string list" where
  "overlap_with t c =
     filter (\<lambda>x. x \<in> set (find_tokens (k_reference c @ '' '' @ k_party c))) (remdups (b_tokens t))"

definition score_candidate :: "bank_txn \<Rightarrow> book_candidate \<Rightarrow> scored_candidate option" where
  "score_candidate t c =
     (if \<bar>k_amount c - txn_amount t\<bar> > 100 then None
      else
        let drift = \<bar>days_between (k_date c) (b_txn_date t)\<bar>;
            s1 = (if drift \<le> 3 then f64 (base_score + f64 (2/10)) else base_score);
            overlap = overlap_with t c;
            s2 = (if overlap \<noteq> [] then f64 (s1 + min (f64 (35/100)) (f64 (f64 (1/10) * of_nat (length overlap)))) else s1)
        in if s2 > base_score
           then Some \<lparr> sc_candidate = c, sc_score = min s2 1, sc_drift = drift, sc_overlap = overlap \<rparr>
           else None)"

definition score_candidates :: "bank_txn \<Rightarrow> book_candidate list \<Rightarrow> scored_candidate list" where
  "score_candidates t cs = sort_key (\<lambda>s. - sc_score s) (keep_some (map (score_candidate t) cs))"

section \<open>Lemmas\<close>

lemma set_keep_some: "x \<in> set (keep_some xs) \<longleftrightarrow> Some x \<in> set xs"
  by (induction xs rule: keep_some.induct) auto

definition signed_amount :: "bank_row \<Rightarrow> int" where
  "signed_amount r = (if r_type r = CREDIT then r_amount r else - r_amount r)"

lemma breaks_telescope:
  "balance_breaks i rows = [] \<Longrightarrow> rows \<noteq> [] \<Longrightarrow>
     \<bar>r_running_balance (last rows) - (r_running_balance (hd rows) + sum_list (map signed_amount (tl rows)))\<bar>
       \<le> 100 * int (length (tl rows))"
proof (induction i rows rule: balance_breaks.induct)
  case (1 i prev cur rest)
  have step: "\<bar>r_running_balance prev + signed_amount cur - r_running_balance cur\<bar> \<le> 100"
    and rest: "balance_breaks (i + 1) (cur # rest) = []"
    using "1.prems"(1) by (auto simp: expected_balance_def signed_amount_def split: if_splits)
  have "\<bar>r_running_balance (last (cur # rest)) - (r_running_balance cur + sum_list (map signed_amount rest))\<bar>
      \<le> 100 * int (length rest)"
    using "1.IH" [OF rest] by simp
  then show ?case using step by (simp add: algebra_simps)
qed auto

text \<open>
  A statement whose running balance passes the check explains its closing balance: it lies within
  one rupee per row of the first balance plus the credits and less the debits of the rows after it.
\<close>

theorem running_balance_explained:
  assumes "bc_valid (validate_running_balance rows)" and "bc_checked (validate_running_balance rows) \<noteq> None"
  shows "\<bar>r_running_balance (last rows) - (r_running_balance (hd rows) + sum_list (map signed_amount (tl rows)))\<bar>
           \<le> 100 * int (length (tl rows))"
proof -
  have "rows \<noteq> []" "balance_breaks 1 rows = []"
    using assms by (auto simp: validate_running_balance_def Let_def split: if_splits)
  then show ?thesis by (intro breaks_telescope)
qed

definition sample_row :: "int \<Rightarrow> int \<Rightarrow> bank_row" where
  "sample_row amount balance =
     \<lparr> r_txn_date = ''2026-06-01'', r_description = ''x'', r_amount = amount, r_type = CREDIT,
       r_running_balance = balance, r_ref_no = '''', r_value_date = '''', r_source_row = None, r_source_page = None \<rparr>"

lemma running_balance_explained_witness:
  "\<bar>r_running_balance (last [sample_row 5 1000, sample_row 500 1500])
     - (1000 + sum_list (map signed_amount [sample_row 500 1500]))\<bar> \<le> 100 * int (length [sample_row 500 1500])"
  using running_balance_explained [of "[sample_row 5 1000, sample_row 500 1500]"]
  by (simp add: validate_running_balance_def sample_row_def expected_balance_def Let_def)

lemma score_candidate_evidence:
  assumes "score_candidate t c = Some s"
  shows "sc_candidate s = c \<and> \<bar>k_amount c - txn_amount t\<bar> \<le> 100 \<and> sc_score s \<le> 1
         \<and> (\<bar>days_between (k_date c) (b_txn_date t)\<bar> \<le> 3 \<or> overlap_with t c \<noteq> [])"
  using assms by (auto simp: score_candidate_def Let_def split: if_splits)

text \<open>
  Amount alone never makes a bank candidate: every candidate the scorer returns is one of the
  offered ones, its amount is within one rupee, and its date is within three days or its reference or
  party shares a token with the transaction; scores are at most one and come in descending order.
\<close>

theorem bank_candidates_have_evidence:
  assumes "s \<in> set (score_candidates t cs)"
  shows "sc_candidate s \<in> set cs \<and> \<bar>k_amount (sc_candidate s) - txn_amount t\<bar> \<le> 100 \<and> sc_score s \<le> 1
         \<and> (\<bar>days_between (k_date (sc_candidate s)) (b_txn_date t)\<bar> \<le> 3 \<or> overlap_with t (sc_candidate s) \<noteq> [])
         \<and> sorted (map (\<lambda>s. - sc_score s) (score_candidates t cs))"
proof -
  obtain c where "c \<in> set cs" "score_candidate t c = Some s"
    using assms by (auto simp: score_candidates_def set_keep_some)
  then show ?thesis using score_candidate_evidence by (auto simp: score_candidates_def)
qed

definition sample_txn :: bank_txn where
  "sample_txn = \<lparr> b_txn_date = Date 2026 6 1, b_value_date = None, b_description = '''', b_reference = '''',
     b_debit_paise = 0, b_credit_paise = 500, b_balance_paise = None, b_source_row = None, b_source_page = None,
     b_tokens = [] \<rparr>"

definition sample_candidate :: book_candidate where
  "sample_candidate = \<lparr> k_source = ''INVOICE'', k_id = ''c'', k_date = Date 2026 6 1, k_amount = 500, k_party = '''',
     k_reference = '''' \<rparr>"

lemma base_score_value: "base_score < f64 (base_score + f64 (2/10))"
proof -
  have e1: "\<bar>base_score - 45/100\<bar> \<le> 1/128" unfolding base_score_def by (rule f64_err_128) simp_all
  have e2: "\<bar>f64 (2/10) - 2/10\<bar> \<le> 1/128" by (rule f64_err_128) simp_all
  have b: "base_score \<le> 45/100 + 1/128" "45/100 - 1/128 \<le> base_score"
    using abs_le_D1 [OF e1] abs_le_D2 [OF e1] by linarith+
  have d: "f64 (2/10) \<le> 2/10 + 1/128" "2/10 - 1/128 \<le> f64 (2/10)"
    using abs_le_D1 [OF e2] abs_le_D2 [OF e2] by linarith+
  have "0 < base_score + f64 (2/10)" "base_score + f64 (2/10) < 1" using b d by linarith+
  then have e3: "\<bar>f64 (base_score + f64 (2/10)) - (base_score + f64 (2/10))\<bar> \<le> 1/128" by (intro f64_err_128) simp_all
  have "base_score + f64 (2/10) - 1/128 \<le> f64 (base_score + f64 (2/10))" using abs_le_D2 [OF e3] by linarith
  then show ?thesis using d by linarith
qed

lemma sample_scored: "\<exists>s. score_candidates sample_txn [sample_candidate] = [s]"
proof -
  have "days_between (k_date sample_candidate) (b_txn_date sample_txn) = 0"
    by (simp add: days_between_def sample_candidate_def sample_txn_def)
  moreover have "overlap_with sample_txn sample_candidate = []" by (simp add: overlap_with_def sample_txn_def)
  moreover have "k_amount sample_candidate = 500" "txn_amount sample_txn = 500"
    by (simp_all add: sample_candidate_def sample_txn_def txn_amount_def)
  ultimately show ?thesis
    using base_score_value by (simp add: score_candidates_def score_candidate_def Let_def)
qed

lemma bank_candidates_have_evidence_witness:
  "\<exists>s\<in>set (score_candidates sample_txn [sample_candidate]). sc_candidate s = sample_candidate \<and> sc_score s \<le> 1"
proof -
  obtain s where "score_candidates sample_txn [sample_candidate] = [s]" using sample_scored by blast
  then have s: "s \<in> set (score_candidates sample_txn [sample_candidate])" by simp
  from bank_candidates_have_evidence [OF this] s show ?thesis by auto
qed

lemma min_date_le: "d \<in> set (x # xs) \<Longrightarrow> fold min xs x \<le> (d::pydate)"
proof (induction xs arbitrary: x d)
  case (Cons y ys)
  have "fold min ys (min y x) \<le> min y x" using Cons.IH [of "min y x" "min y x"] by simp
  moreover have "fold min ys (min y x) \<le> z" if "z \<in> set ys" for z using Cons.IH [of z "min y x"] that by simp
  ultimately show ?case using Cons.prems by (auto simp: min_le_iff_disj)
qed simp

lemma max_date_ge: "d \<in> set (x # xs) \<Longrightarrow> (d::pydate) \<le> fold max xs x"
proof (induction xs arbitrary: x d)
  case (Cons y ys)
  have "max y x \<le> fold max ys (max y x)" using Cons.IH [of "max y x" "max y x"] by simp
  moreover have "z \<le> fold max ys (max y x)" if "z \<in> set ys" for z using Cons.IH [of z "max y x"] that by simp
  ultimately show ?case using Cons.prems by (auto simp: le_max_iff_disj)
qed simp

lemma to_transaction_fields:
  "to_transaction row = Inr t \<Longrightarrow> b_debit_paise t + b_credit_paise t = r_amount row
     \<and> b_credit_paise t - b_debit_paise t = signed_amount row \<and> valid_date (b_txn_date t)"
  by (auto simp: to_transaction_def rbind_eq_Inr registry_date_def signed_amount_def
      dest: fromisoformat_valid split: sum.splits txn_type.splits if_splits)
     (metis txn_type.exhaust)+

text \<open>
  A parsed statement keeps its rows: one transaction per row, in order, whose credit less debit is
  the row's signed amount and whose date is a calendar date inside the reported period.
\<close>

theorem parsed_bank_statement_sound:
  assumes "parse_bank_statement (Inr rows) filename hint = Inr p"
  shows "list_all2 (\<lambda>row t. b_credit_paise t - b_debit_paise t = signed_amount row
                     \<and> b_debit_paise t + b_credit_paise t = r_amount row \<and> valid_date (b_txn_date t)
                     \<and> bp_period_start p \<le> b_txn_date t \<and> b_txn_date t \<le> bp_period_end p)
           rows (bp_transactions p)"
proof -
  obtain txns where m: "rmap to_transaction rows = Inr txns" and p: "bp_transactions p = txns"
    "bp_period_start p = min_date (map b_txn_date txns)" "bp_period_end p = max_date (map b_txn_date txns)"
    using assms by (auto simp: parse_bank_statement_def Let_def rbind_eq_Inr split: option.splits if_splits)
  have l: "list_all2 (\<lambda>r t. to_transaction r = Inr t) rows txns" using m by (simp add: rmap_list_all2)
  have range: "bp_period_start p \<le> b_txn_date t \<and> b_txn_date t \<le> bp_period_end p" if mem: "t \<in> set txns" for t
  proof -
    obtain x xs where t: "txns = x # xs" using mem by (cases txns) auto
    have "b_txn_date t \<in> set (b_txn_date x # map b_txn_date xs)" using mem t by auto
    then show ?thesis unfolding p t min_date_def max_date_def using min_date_le max_date_ge by simp
  qed
  show ?thesis unfolding p(1) list_all2_conv_all_nth
  proof (intro conjI allI impI)
    show "length rows = length txns" using l by (rule list_all2_lengthD)
    fix i assume i: "i < length rows"
    then have "to_transaction (rows ! i) = Inr (txns ! i)" using l by (simp add: list_all2_conv_all_nth)
    note f = to_transaction_fields [OF this]
    show "b_credit_paise (txns ! i) - b_debit_paise (txns ! i) = signed_amount (rows ! i)"
      "b_debit_paise (txns ! i) + b_credit_paise (txns ! i) = r_amount (rows ! i)" "valid_date (b_txn_date (txns ! i))"
      using f by auto
    have "txns ! i \<in> set txns" using i l by (metis list_all2_lengthD nth_mem)
    from range [OF this] show "bp_period_start p \<le> b_txn_date (txns ! i)" "b_txn_date (txns ! i) \<le> bp_period_end p"
      by auto
  qed
qed

text \<open>A last row with a balance of zero is not seen as the closing balance.\<close>

lemma zero_closing_balance_lost:
  assumes "to_transaction (sample_row 5 1000) = Inr t1" "to_transaction (sample_row 5 0) = Inr t2"
  shows "keep_some (map b_balance_paise [t1, t2]) = [1000]"
  using assms by (auto simp: to_transaction_def rbind_eq_Inr sample_row_def split: if_splits)

lemma sample_date: "date_fromisoformat ''0026-06-01'' = Inr (Date 26 6 1)"
  by code_simp

lemma parsed_bank_statement_sound_witness:
  "\<exists>p. parse_bank_statement (Inr [(sample_row 500 0)\<lparr> r_txn_date := ''0026-06-01'' \<rparr>]) ''a.csv'' None = Inr p
     \<and> list_all2 (\<lambda>row t. b_credit_paise t - b_debit_paise t = signed_amount row)
          [(sample_row 500 0)\<lparr> r_txn_date := ''0026-06-01'' \<rparr>] (bp_transactions p)"
proof -
  have e: "file_extension ''a.csv'' = ''csv''" by code_simp
  have "\<exists>p. parse_bank_statement (Inr [(sample_row 500 0)\<lparr> r_txn_date := ''0026-06-01'' \<rparr>]) ''a.csv'' None = Inr p"
    by (simp add: parse_bank_statement_def e SUPPORTED_def to_transaction_def registry_date_def sample_date
        sample_row_def Let_def)
  then obtain p where p: "parse_bank_statement (Inr [(sample_row 500 0)\<lparr> r_txn_date := ''0026-06-01'' \<rparr>]) ''a.csv'' None = Inr p"
    by blast
  have "list_all2 (\<lambda>row t. b_credit_paise t - b_debit_paise t = signed_amount row)
          [(sample_row 500 0)\<lparr> r_txn_date := ''0026-06-01'' \<rparr>] (bp_transactions p)"
    by (rule list_all2_mono [OF parsed_bank_statement_sound [OF p]]) simp
  then show ?thesis using p by blast
qed

end
