(* ===== verification/Access_Control.thy ===== *)
theory Access_Control
  imports Sha256 "HOL-Library.List_Lexorder"
begin

text \<open>
  Who may do what: the roles and permissions of \<open>api/deps.py\<close>, the fail-closed write switches of
  \<open>core/feature_flags.py\<close>, the capability catalog of \<open>connectors/platform/capabilities.py\<close> and the
  idempotency keys of \<open>core/idempotency.py\<close>. Settings are the fields the code reads.
\<close>

section \<open>Roles\<close>

definition ROLE_PERMISSIONS :: "(string, string list) dict" where
  "ROLE_PERMISSIONS =
     [(''OWNER'', [''connector.manage'', ''books.read'', ''books.propose'', ''books.approve'', ''books.execute'', ''compliance.review'']),
      (''ADMIN'', [''connector.manage'', ''books.read'', ''books.propose'', ''books.approve'', ''books.execute'', ''compliance.review'']),
      (''PREPARER'', [''books.read'', ''books.propose'']),
      (''REVIEWER'', [''books.read'', ''books.approve'', ''compliance.review'']),
      (''VIEWER'', [''books.read''])]"

record firm_context =
  f_user :: string
  f_firm :: string
  f_role :: string
  f_permissions :: "string list"

definition make_firm_context :: "string \<Rightarrow> string \<Rightarrow> string \<Rightarrow> string list option \<Rightarrow> firm_context" where
  "make_firm_context user firm role permissions =
     (let r = py_upper role;
          given = (case permissions of None \<Rightarrow> [] | Some p \<Rightarrow> p)
      in \<lparr> f_user = user, f_firm = firm, f_role = r,
           f_permissions = (if given \<noteq> [] then given else dict_get ROLE_PERMISSIONS r []) \<rparr>)"

definition require :: "firm_context \<Rightarrow> string \<Rightarrow> unit result" where
  "require firm permission =
     (if permission \<in> set (f_permissions firm) then Inr () else Inl (HTTPException 403 ''PERMISSION_DENIED''))"

section \<open>Write switches\<close>

record settings =
  provider_writes_enabled :: bool
  zoho_writes_enabled :: bool
  tally_writes_enabled :: bool
  has_private_storage :: bool
  local_storage_allowed :: bool
  has_extractor_key :: bool

text \<open>A row of \<open>capability_overrides\<close>; an absent or empty field matches anything. The enabled flag is
  that of \<open>is_enabled\<close>.\<close>

record override =
  ov_provider :: "string option"
  ov_firm :: "string option"
  ov_client :: "string option"
  ov_installation :: "string option"
  ov_capability :: "string option"
  ov_enabled :: bool

definition field_matches :: "string option \<Rightarrow> string \<Rightarrow> bool" where
  "field_matches pat v = (pat = None \<or> pat = Some '''' \<or> pat = Some v)"

definition override_matches :: "override \<Rightarrow> string \<Rightarrow> string \<Rightarrow> string \<Rightarrow> string \<Rightarrow> string \<Rightarrow> bool" where
  "override_matches ov provider firm client installation capability =
     (field_matches (ov_provider ov) provider \<and> field_matches (ov_firm ov) firm \<and> field_matches (ov_client ov) client
      \<and> field_matches (ov_installation ov) installation \<and> field_matches (ov_capability ov) capability)"

definition write_block_reason :: "settings \<Rightarrow> string \<Rightarrow> string \<Rightarrow> string \<Rightarrow> string \<Rightarrow> string \<Rightarrow> override list \<Rightarrow> string option" where
  "write_block_reason cfg provider firm client installation capability overrides =
     (if \<not> provider_writes_enabled cfg then Some ''PROVIDER_WRITES_DISABLED''
      else
        let provider_enabled = dict_get [(''ZOHO_BOOKS'', zoho_writes_enabled cfg), (''TALLY_PRIME'', tally_writes_enabled cfg)]
                                 provider False
        in if \<not> provider_enabled then Some ''PROVIDER_WRITE_DISABLED''
           else if list_ex (\<lambda>ov. override_matches ov provider firm client installation capability \<and> \<not> ov_enabled ov) overrides
           then Some ''CAPABILITY_DISABLED'' else None)"

text \<open>The override table as the query returns it for the firm, or the query's failure.\<close>

definition scoped_write_block_reason ::
    "settings \<Rightarrow> override list result option \<Rightarrow> string \<Rightarrow> string \<Rightarrow> string \<Rightarrow> string \<Rightarrow> string option" where
  "scoped_write_block_reason cfg table provider firm client capability =
     (case write_block_reason cfg provider firm client '''' capability [] of
        Some r \<Rightarrow> Some r
      | None \<Rightarrow>
        (case table of
           None \<Rightarrow> None
         | Some (Inl _) \<Rightarrow> Some ''CAPABILITY_OVERRIDE_UNAVAILABLE''
         | Some (Inr rows) \<Rightarrow>
             write_block_reason cfg provider firm client '''' capability
               (filter (\<lambda>r. ov_firm r = None \<or> ov_firm r = Some firm) rows)))"

section \<open>The capability catalog\<close>

datatype cap_state = UNAVAILABLE | DISABLED | INTERNAL_ONLY | CONFIGURATION_REQUIRED | AVAILABLE | DEGRADED
  | BLOCKED_AUTH | BLOCKED_MAPPING | BLOCKED_DEVICE | FAILED_CERTIFICATION

record cap_context =
  cc_role :: string
  cc_installations :: "string list"
  cc_healthy :: "string list"
  cc_reported :: "string list"
  cc_mapped :: "string list"
  cc_levels :: "(string, int) dict"
  cc_overrides :: "override list"
  cc_firm :: string
  cc_client :: string

record capability =
  cap_key :: string
  cap_status :: cap_state
  cap_reason :: string
  cap_level :: int

definition cap :: "string \<Rightarrow> cap_state \<Rightarrow> string \<Rightarrow> int \<Rightarrow> capability" where
  "cap key st reason level = \<lparr> cap_key = key, cap_status = st, cap_reason = reason, cap_level = level \<rparr>"

definition document_upload_cap :: "settings \<Rightarrow> capability" where
  "document_upload_cap cfg =
     (let enabled = (has_private_storage cfg \<or> local_storage_allowed cfg)
      in cap ''documents.upload'' (if enabled then AVAILABLE else CONFIGURATION_REQUIRED)
           (if enabled then '''' else ''PRIVATE_STORAGE_UNAVAILABLE'') 0)"

definition extraction_cap :: "settings \<Rightarrow> capability" where
  "extraction_cap cfg =
     cap ''documents.extract.invoice'' (if has_extractor_key cfg then AVAILABLE else CONFIGURATION_REQUIRED)
       (if has_extractor_key cfg then '''' else ''EXTRACTOR_CREDENTIALS_MISSING'') 0"

definition connector_read_cap :: "cap_context \<Rightarrow> string \<Rightarrow> string \<Rightarrow> capability" where
  "connector_read_cap ctxt provider key =
     (let installed = (provider \<in> set (cc_installations ctxt)); healthy = (provider \<in> set (cc_healthy ctxt));
          reported = (key \<in> set (cc_reported ctxt))
      in cap key
           (if installed \<and> healthy \<and> reported then AVAILABLE
            else if installed \<and> healthy then BLOCKED_AUTH
            else if installed then DEGRADED else CONFIGURATION_REQUIRED)
           (if installed \<and> healthy \<and> reported then ''''
            else if installed \<and> healthy then ''MISSING_OAUTH_SCOPE''
            else if installed then ''INSTALLATION_UNHEALTHY'' else ''CONNECTOR_NOT_INSTALLED'') 0)"

definition connector_write_cap :: "settings \<Rightarrow> cap_context \<Rightarrow> string \<Rightarrow> string \<Rightarrow> capability" where
  "connector_write_cap cfg ctxt provider key =
     (if py_upper (cc_role ctxt) \<notin> {''OWNER'', ''ADMIN''} then cap key DISABLED ''ROLE_REQUIRED'' 0
      else if provider \<notin> set (cc_installations ctxt) then cap key CONFIGURATION_REQUIRED ''CONNECTOR_NOT_INSTALLED'' 0
      else if provider \<notin> set (cc_healthy ctxt) then cap key DEGRADED ''INSTALLATION_UNHEALTHY'' 0
      else if key \<notin> set (cc_reported ctxt) then cap key BLOCKED_AUTH ''MISSING_OAUTH_SCOPE'' 0
      else if py_contains key ''.write.'' \<and> key \<notin> set (cc_mapped ctxt) then cap key BLOCKED_MAPPING ''MAPPINGS_REQUIRED'' 0
      else
        let level = dict_get (cc_levels ctxt) key 0 in
        if level < 5 then cap key FAILED_CERTIFICATION ''CERTIFICATION_L5_REQUIRED'' level
        else case write_block_reason cfg provider (cc_firm ctxt) (cc_client ctxt) '''' key (cc_overrides ctxt) of
               None \<Rightarrow> cap key AVAILABLE '''' level
             | Some r \<Rightarrow> cap key DISABLED r level)"

definition zoho_reads :: "string list" where
  "zoho_reads = [''zoho.connection.oauth'', ''zoho.read.organizations'', ''zoho.read.contacts'', ''zoho.read.accounts'',
     ''zoho.read.items'', ''zoho.read.taxes'', ''zoho.read.purchase_bills'', ''zoho.read.sales_invoices'', ''zoho.read.object'']"

definition zoho_writes :: "string list" where
  "zoho_writes = [''zoho.write.purchase_bill.create'', ''zoho.verify.purchase_bill'',
     ''zoho.write.sales_invoice.create'', ''zoho.verify.sales_invoice'']"

definition tally_reads :: "string list" where
  "tally_reads = [''tally.device.pair'', ''tally.read.companies'', ''tally.read.ledgers'', ''tally.read.vouchers'']"

definition tally_writes :: "string list" where
  "tally_writes = [''tally.write.purchase_voucher.create'', ''tally.verify.purchase_voucher'',
     ''tally.write.sales_voucher.create'', ''tally.verify.sales_voucher'']"

definition evaluate_capabilities :: "settings \<Rightarrow> cap_context \<Rightarrow> capability list" where
  "evaluate_capabilities cfg ctxt =
     [document_upload_cap cfg, extraction_cap cfg]
     @ map (connector_read_cap ctxt ''ZOHO_BOOKS'') zoho_reads
     @ map (connector_write_cap cfg ctxt ''ZOHO_BOOKS'') zoho_writes
     @ map (connector_read_cap ctxt ''TALLY_PRIME'') tally_reads
     @ map (connector_write_cap cfg ctxt ''TALLY_PRIME'') tally_writes
     @ [cap ''gst.manual_filing'' AVAILABLE '''' 0, cap ''whatsapp.inbound'' DISABLED ''NOT_IMPLEMENTED'' 0,
        cap ''decision.email_delivery'' DISABLED ''MANUAL_REVIEW_REQUIRED'' 0]"

section \<open>Idempotency keys\<close>

definition idempotency_key :: "string list \<Rightarrow> string result" where
  "idempotency_key parts =
     (if [] \<in> set parts then Inl (ValueError ''Every idempotency key component is required'')
      else Inr (sha256_hex (py_join [char_of (31::nat)] parts)))"

section \<open>Properties\<close>

lemma override_never_enables:
  "write_block_reason cfg provider firm client inst key [] = Some r \<Longrightarrow>
     write_block_reason cfg provider firm client inst key ovs \<noteq> None"
  by (auto simp: write_block_reason_def Let_def split: if_splits)

lemma write_open_iff:
  "write_block_reason cfg provider firm client inst key ovs = None \<longleftrightarrow>
     provider_writes_enabled cfg
     \<and> (provider = ''ZOHO_BOOKS'' \<and> zoho_writes_enabled cfg \<or> provider = ''TALLY_PRIME'' \<and> tally_writes_enabled cfg)
     \<and> (\<forall>ov\<in>set ovs. override_matches ov provider firm client inst key \<longrightarrow> ov_enabled ov)"
  by (auto simp: write_block_reason_def dict_get_def list_ex_iff Let_def split: if_splits)

text \<open>
  Provider writes fail closed. A write is let through only when the global switch and the
  provider's own switch are on, the override table could be read, and no row that applies to the
  provider, firm, client and capability disables it; no override can open what a switch closes.
\<close>

theorem writes_fail_closed:
  assumes "scoped_write_block_reason cfg (Some table) provider firm client key = None"
  shows "provider_writes_enabled cfg
     \<and> (provider = ''ZOHO_BOOKS'' \<and> zoho_writes_enabled cfg \<or> provider = ''TALLY_PRIME'' \<and> tally_writes_enabled cfg)
     \<and> (\<exists>rows. table = Inr rows
          \<and> (\<forall>ov\<in>set rows. (ov_firm ov = None \<or> ov_firm ov = Some firm)
                \<longrightarrow> override_matches ov provider firm client '''' key \<longrightarrow> ov_enabled ov))"
  using assms unfolding scoped_write_block_reason_def
  by (auto simp: write_open_iff split: option.splits sum.splits)

lemma writes_fail_closed_witness:
  "provider_writes_enabled \<lparr> provider_writes_enabled = True, zoho_writes_enabled = True, tally_writes_enabled = False,
     has_private_storage = False, local_storage_allowed = False, has_extractor_key = False \<rparr>"
  (is "provider_writes_enabled ?cfg")
proof -
  have "write_block_reason ?cfg ''ZOHO_BOOKS'' ''f'' ''c'' '''' ''k'' [] = None"
    by (simp add: write_open_iff)
  then have "scoped_write_block_reason ?cfg (Some (Inr [])) ''ZOHO_BOOKS'' ''f'' ''c'' ''k'' = None"
    by (simp add: scoped_write_block_reason_def)
  from writes_fail_closed [OF this] show ?thesis by blast
qed

lemma available_write_cap:
  "cap_status (connector_write_cap cfg ctxt provider key) = AVAILABLE \<Longrightarrow>
     py_upper (cc_role ctxt) \<in> {''OWNER'', ''ADMIN''} \<and> 5 \<le> dict_get (cc_levels ctxt) key 0
     \<and> provider \<in> set (cc_healthy ctxt) \<and> key \<in> set (cc_reported ctxt)
     \<and> (py_contains key ''.write.'' \<longrightarrow> key \<in> set (cc_mapped ctxt))
     \<and> write_block_reason cfg provider (cc_firm ctxt) (cc_client ctxt) '''' key (cc_overrides ctxt) = None"
  by (auto simp: connector_write_cap_def cap_def Let_def split: if_splits option.splits)

definition write_keys :: "string list" where "write_keys = zoho_writes @ tally_writes"

lemma available_in_catalog:
  assumes "c \<in> set (evaluate_capabilities cfg ctxt)" and "cap_status c = AVAILABLE" and "cap_key c \<in> set write_keys"
  shows "\<exists>provider\<in>{''ZOHO_BOOKS'', ''TALLY_PRIME''}. c = connector_write_cap cfg ctxt provider (cap_key c)"
proof -
  have key: "cap_key (connector_write_cap cfg ctxt p k) = k" "cap_key (connector_read_cap ctxt p k) = k" for p k
    by (simp_all add: connector_write_cap_def connector_read_cap_def cap_def Let_def split: option.split)
  have reads: "cap_key c \<notin> set zoho_reads" "cap_key c \<notin> set tally_reads"
    using assms(3) by (auto simp: write_keys_def zoho_writes_def tally_writes_def zoho_reads_def tally_reads_def)
  have other: "cap_key c \<notin> {''documents.upload'', ''documents.extract.invoice'', ''gst.manual_filing'', ''whatsapp.inbound'',
      ''decision.email_delivery''}"
    using assms(3) by (auto simp: write_keys_def zoho_writes_def tally_writes_def)
  show ?thesis
    using assms(1) reads other key
    by (auto simp: evaluate_capabilities_def document_upload_cap_def extraction_cap_def cap_def Let_def)
qed

text \<open>
  The catalog offers a write only to the right people: every provider write or verification it
  reports as available belongs to an owner or administrator, on a healthy installation that reports
  the capability, with its mappings approved, certified at level five, and with no switch or override
  against it.
\<close>

theorem catalog_writes_guarded:
  assumes "c \<in> set (evaluate_capabilities cfg ctxt)" and "cap_status c = AVAILABLE" and "cap_key c \<in> set write_keys"
  shows "py_upper (cc_role ctxt) \<in> {''OWNER'', ''ADMIN''} \<and> 5 \<le> dict_get (cc_levels ctxt) (cap_key c) 0
     \<and> cap_key c \<in> set (cc_reported ctxt)
     \<and> (py_contains (cap_key c) ''.write.'' \<longrightarrow> cap_key c \<in> set (cc_mapped ctxt))
     \<and> (\<exists>provider\<in>{''ZOHO_BOOKS'', ''TALLY_PRIME''}. provider \<in> set (cc_healthy ctxt)
          \<and> write_block_reason cfg provider (cc_firm ctxt) (cc_client ctxt) '''' (cap_key c) (cc_overrides ctxt) = None)"
proof -
  obtain provider where p: "provider \<in> {''ZOHO_BOOKS'', ''TALLY_PRIME''}"
    "cap_status (connector_write_cap cfg ctxt provider (cap_key c)) = AVAILABLE"
    using available_in_catalog [OF assms] assms(2) by force
  show ?thesis using available_write_cap [OF p(2)] p(1) by blast
qed

definition sample_cfg :: settings where
  "sample_cfg = \<lparr> provider_writes_enabled = True, zoho_writes_enabled = True, tally_writes_enabled = False,
     has_private_storage = False, local_storage_allowed = False, has_extractor_key = False \<rparr>"

definition sample_ctxt :: cap_context where
  "sample_ctxt = \<lparr> cc_role = ''owner'', cc_installations = [''ZOHO_BOOKS''], cc_healthy = [''ZOHO_BOOKS''],
     cc_reported = [''zoho.write.purchase_bill.create''], cc_mapped = [''zoho.write.purchase_bill.create''],
     cc_levels = [(''zoho.write.purchase_bill.create'', 5)], cc_overrides = [], cc_firm = ''f'', cc_client = ''c'' \<rparr>"

lemma catalog_writes_guarded_witness:
  "\<exists>c\<in>set (evaluate_capabilities sample_cfg sample_ctxt). cap_key c = ''zoho.write.purchase_bill.create''
     \<and> cap_status c = AVAILABLE \<and> ''ZOHO_BOOKS'' \<in> set (cc_healthy sample_ctxt) \<and> py_upper (cc_role sample_ctxt) \<in> {''OWNER'', ''ADMIN''}"
proof -
  let ?c = "connector_write_cap sample_cfg sample_ctxt ''ZOHO_BOOKS'' ''zoho.write.purchase_bill.create''"
  have c: "?c = cap ''zoho.write.purchase_bill.create'' AVAILABLE '''' 5" by code_simp
  have m: "?c \<in> set (evaluate_capabilities sample_cfg sample_ctxt)"
    by (simp add: evaluate_capabilities_def zoho_writes_def)
  have k: "cap_status ?c = AVAILABLE" "cap_key ?c \<in> set write_keys"
    by (simp_all add: c cap_def write_keys_def zoho_writes_def)
  show ?thesis
  proof (intro bexI [OF _ m] conjI)
    show "cap_key ?c = ''zoho.write.purchase_bill.create''" by (simp add: c cap_def)
    show "''ZOHO_BOOKS'' \<in> set (cc_healthy sample_ctxt)" by (simp add: sample_ctxt_def)
    show "py_upper (cc_role sample_ctxt) \<in> {''OWNER'', ''ADMIN''}" by (rule catalog_writes_guarded [OF m k, THEN conjunct1])
  qed (rule k(1))
qed

text \<open>
  A kill switch for one installation never fires: both callers of the write check, the worker's and
  the catalog's, pass no installation, so an override row that names one matches nothing, and writes to
  that installation are let through exactly as if the row were not there.
\<close>

theorem installation_kill_switch_ignored:
  assumes "ov_installation ov = Some inst" and "inst \<noteq> ''''"
  shows "scoped_write_block_reason cfg (Some (Inr (pre @ ov # post))) provider firm client key
       = scoped_write_block_reason cfg (Some (Inr (pre @ post))) provider firm client key"
proof -
  have "\<not> override_matches ov provider firm client '''' key"
    using assms by (simp add: override_matches_def field_matches_def)
  then have "write_block_reason cfg provider firm client '''' key (pre' @ ov # post')
           = write_block_reason cfg provider firm client '''' key (pre' @ post')" for pre' post'
    by (simp add: write_block_reason_def Let_def)
  then show ?thesis by (simp add: scoped_write_block_reason_def split: option.split)
qed

lemma installation_kill_switch_ignored_witness:
  "scoped_write_block_reason sample_cfg
     (Some (Inr [\<lparr> ov_provider = Some ''ZOHO_BOOKS'', ov_firm = Some ''f'', ov_client = None,
                   ov_installation = Some ''inst-1'', ov_capability = None, ov_enabled = False \<rparr>]))
     ''ZOHO_BOOKS'' ''f'' ''c'' ''zoho.write.purchase_bill.create'' = None"
  (is "scoped_write_block_reason _ (Some (Inr [?ov])) _ _ _ _ = None")
proof -
  have "scoped_write_block_reason sample_cfg (Some (Inr [])) ''ZOHO_BOOKS'' ''f'' ''c'' ''zoho.write.purchase_bill.create'' = None"
    by code_simp
  then show ?thesis
    using installation_kill_switch_ignored [of ?ov "''inst-1''" sample_cfg "[]" "[]"] by simp
qed

end
