(* ===== verification/Db_Monad.thy ===== *)
theory Db_Monad
  imports Py_Prelude
begin

text \<open>
  Operations on database state: a state transformer that may raise. An exception keeps the effects
  of the statements before it, as autocommitted statements do; \<open>transaction\<close> restores the state, and
  \<open>otry\<close> is an exception handler. The theory also has the row operations the queries use. Invariants
  of operations are composed with \<open>keeps\<close>.
\<close>

type_synonym ('s, 'a) op = "'s \<Rightarrow> 'a result \<times> 's"

definition oret :: "'a \<Rightarrow> ('s, 'a) op" where "oret x s = (Inr x, s)"
definition oraise :: "pyexn \<Rightarrow> ('s, 'a) op" where "oraise e s = (Inl e, s)"
definition obind :: "('s, 'a) op \<Rightarrow> ('a \<Rightarrow> ('s, 'b) op) \<Rightarrow> ('s, 'b) op" where
  "obind m f s = (case m s of (Inl e, s') \<Rightarrow> (Inl e, s') | (Inr x, s') \<Rightarrow> f x s')"
definition othen :: "('s, 'a) op \<Rightarrow> ('s, 'b) op \<Rightarrow> ('s, 'b) op" where
  "othen m k = obind m (\<lambda>_. k)"
definition oget :: "('s \<Rightarrow> 'a) \<Rightarrow> ('s, 'a) op" where "oget f s = (Inr (f s), s)"
definition omod :: "('s \<Rightarrow> 's) \<Rightarrow> ('s, unit) op" where "omod f s = (Inr (), f s)"
definition olift :: "'a result \<Rightarrow> ('s, 'a) op" where "olift r s = (r, s)"
definition transaction :: "('s, 'a) op \<Rightarrow> ('s, 'a) op" where
  "transaction m s = (case m s of (Inl e, s') \<Rightarrow> (Inl e, s) | (Inr x, s') \<Rightarrow> (Inr x, s'))"
definition otry :: "('s, 'a) op \<Rightarrow> (pyexn \<Rightarrow> ('s, 'a) op) \<Rightarrow> ('s, 'a) op" where
  "otry m h s = (case m s of (Inl e, s') \<Rightarrow> h e s' | (Inr x, s') \<Rightarrow> (Inr x, s'))"
definition owhen :: "bool \<Rightarrow> ('s, unit) op \<Rightarrow> ('s, unit) op" where
  "owhen b m = (if b then m else oret ())"

text \<open>A loop over statements.\<close>

fun oeach :: "('a \<Rightarrow> ('s, unit) op) \<Rightarrow> 'a list \<Rightarrow> ('s, unit) op" where
  "oeach m [] = oret ()"
| "oeach m (x # xs) = othen (m x) (oeach m xs)"

text \<open>A guarded \<open>UPDATE ... WHERE\<close>: every matching row is replaced by what the row's triggers make of
  it, or the statement raises; the matching rows are returned as they are now.\<close>

fun update_rows :: "('r \<Rightarrow> bool) \<Rightarrow> ('r \<Rightarrow> 'r result) \<Rightarrow> 'r list \<Rightarrow> ('r list \<times> 'r list) result" where
  "update_rows p f [] = Inr ([], [])"
| "update_rows p f (r # rs) =
     rbind (if p r then f r else Inr r) (\<lambda>r'.
     rbind (update_rows p f rs) (\<lambda>(rs', hits). Inr (r' # rs', if p r then r' # hits else hits)))"

definition map_where :: "('r \<Rightarrow> bool) \<Rightarrow> ('r \<Rightarrow> 'r) \<Rightarrow> 'r list \<Rightarrow> 'r list" where
  "map_where p f rs = map (\<lambda>r. if p r then f r else r) rs"

lemma update_rows_checked:
  assumes "update_rows p (\<lambda>r. check (f r)) rs = Inr (rs', hits)" and "\<And>x y. check x = Inr y \<Longrightarrow> y = x"
  shows "rs' = map_where p f rs" and "hits = map f (filter p rs)" and "r \<in> set rs \<Longrightarrow> p r \<Longrightarrow> check (f r) = Inr (f r)"
proof -
  have "rs' = map_where p f rs \<and> hits = map f (filter p rs) \<and> (\<forall>r\<in>set rs. p r \<longrightarrow> check (f r) = Inr (f r))"
    using assms(1)
  proof (induction rs arbitrary: rs' hits)
    case (Cons r rs)
    then show ?case by (fastforce simp: rbind_eq_Inr map_where_def dest: assms(2) split: if_splits prod.splits)
  qed (simp add: map_where_def)
  then show "rs' = map_where p f rs" and "hits = map f (filter p rs)" and "r \<in> set rs \<Longrightarrow> p r \<Longrightarrow> check (f r) = Inr (f r)"
    by blast+
qed

lemma update_rows_pass:
  assumes "\<And>r. r \<in> set rs \<Longrightarrow> p r \<Longrightarrow> check (f r) = Inr (f r)"
  shows "update_rows p (\<lambda>r. check (f r)) rs = Inr (map_where p f rs, map f (filter p rs))"
  using assms by (induction rs) (auto simp: map_where_def)

text \<open>Running an operation one statement at a time.\<close>

named_theorems op_simps

lemma op_simps_obind [op_simps]:
  "obind (olift (Inr x)) f s = f x s" "obind (olift (Inl e)) f1 s = (Inl e, s)"
  "obind (oget g) f2 s = f2 (g s) s" "obind (oret y) f3 s = f3 y s" "obind (oraise e) f4 s = (Inl e, s)"
  "obind (obind m g1) f5 s = obind m (\<lambda>x. obind (g1 x) f5) s"
  "obind (othen m1 k) f6 s = othen m1 (obind k f6) s" "obind (omod h) f7 s = f7 () (h s)"
  by (simp_all add: obind_def othen_def olift_def oget_def oret_def oraise_def omod_def split: prod.split sum.split)

lemma op_simps_othen [op_simps]:
  "othen (omod g) k1 s = k1 (g s)" "othen (olift (Inr x)) k2 s = k2 s" "othen (olift (Inl e)) k3 s = (Inl e, s)"
  "othen (oret y) k4 s = k4 s" "othen (oraise e) k5 s = (Inl e, s)"
  "othen (othen m2 k6) l s = othen m2 (othen k6 l) s" "othen (obind m3 g1) k7 s = obind m3 (\<lambda>x. othen (g1 x) k7) s"
  "othen (owhen False m4) k8 s = k8 s" "othen (owhen True m5) k9 s = othen m5 k9 s"
  by (simp_all add: obind_def othen_def olift_def oget_def oret_def oraise_def omod_def owhen_def
      split: prod.split sum.split)

lemma op_simps_run [op_simps]:
  "oret x s = (Inr x, s)" "oraise e s = (Inl e, s)" "omod g s = (Inr (), g s)" "oget h s = (Inr (h s), s)"
  "olift r s = (r, s)" "owhen True m s = m s" "owhen False m s = (Inr (), s)"
  by (simp_all add: oret_def oraise_def omod_def oget_def olift_def owhen_def)

lemma obind_step: "m s = (Inr x, s') \<Longrightarrow> obind m f s = f x s'" "m s = (Inl e, s') \<Longrightarrow> obind m f s = (Inl e, s')"
  by (simp_all add: obind_def)

lemma othen_step: "m s = (Inr x, s') \<Longrightarrow> othen m k s = k s'" "m s = (Inl e, s') \<Longrightarrow> othen m k s = (Inl e, s')"
  by (simp_all add: othen_def obind_def)

section \<open>Invariants of operations\<close>

definition keeps :: "('s \<Rightarrow> bool) \<Rightarrow> ('s, 'a) op \<Rightarrow> bool" where
  "keeps I m = (\<forall>s. I s \<longrightarrow> I (snd (m s)))"

named_theorems keeps_intros

lemma keeps_oret [keeps_intros]: "keeps I (oret x)" by (simp add: keeps_def oret_def)
lemma keeps_oraise [keeps_intros]: "keeps I (oraise e)" by (simp add: keeps_def oraise_def)
lemma keeps_olift [keeps_intros]: "keeps I (olift r)" by (simp add: keeps_def olift_def)
lemma keeps_oget [keeps_intros]: "keeps I (oget f)" by (simp add: keeps_def oget_def)
lemma keeps_omod: "(\<And>s. I s \<Longrightarrow> I (f s)) \<Longrightarrow> keeps I (omod f)" by (simp add: keeps_def omod_def)

lemma keeps_obind [keeps_intros]: "keeps I m \<Longrightarrow> (\<And>x. keeps I (f x)) \<Longrightarrow> keeps I (obind m f)"
  unfolding keeps_def obind_def by (auto split: prod.split sum.split)

lemma keeps_obind_post:
  assumes "keeps I m" and "\<And>s x s'. I s \<Longrightarrow> m s = (Inr x, s') \<Longrightarrow> I s' \<Longrightarrow> I (snd (f x s'))"
  shows "keeps I (obind m f)"
  unfolding keeps_def
proof (intro allI impI)
  fix s assume i: "I s"
  then have i': "I (snd (m s))" using assms(1) by (simp add: keeps_def)
  show "I (snd (obind m f s))"
  proof (cases "m s")
    case (Pair r s')
    then show ?thesis using i i' assms(2) [OF i] by (cases r) (simp_all add: obind_def)
  qed
qed

lemma keeps_snd: "keeps I m \<Longrightarrow> I s \<Longrightarrow> I (snd (m s))"
  by (simp add: keeps_def)

lemma keepsD: "keeps I m \<Longrightarrow> I s \<Longrightarrow> m s = (r, s') \<Longrightarrow> I s'"
  by (metis keeps_def snd_conv)

lemma keeps_othen [keeps_intros]: "keeps I m \<Longrightarrow> keeps I k \<Longrightarrow> keeps I (othen m k)"
  unfolding othen_def by (rule keeps_obind)

lemma keeps_transaction [keeps_intros]: "keeps I m \<Longrightarrow> keeps I (transaction m)"
  unfolding keeps_def transaction_def by (auto split: prod.split sum.split)

lemma keeps_transaction_post: "(\<And>s x s'. I s \<Longrightarrow> m s = (Inr x, s') \<Longrightarrow> I s') \<Longrightarrow> keeps I (transaction m)"
  unfolding keeps_def transaction_def by (auto split: prod.split sum.split)

lemma keeps_otry [keeps_intros]: "keeps I m \<Longrightarrow> (\<And>e. keeps I (h e)) \<Longrightarrow> keeps I (otry m h)"
  unfolding keeps_def otry_def by (auto split: prod.split sum.split)

lemma keeps_owhen [keeps_intros]: "keeps I m \<Longrightarrow> keeps I (owhen b m)"
  by (simp add: owhen_def keeps_oret)

lemma keeps_oeach [keeps_intros]: "(\<And>x. keeps I (m x)) \<Longrightarrow> keeps I (oeach m xs)"
  by (induction xs) (simp_all add: keeps_oret keeps_othen)

lemma keeps_if [keeps_intros]: "keeps I m \<Longrightarrow> keeps I k \<Longrightarrow> keeps I (if b then m else k)"
  by simp

lemma keeps_case_option [keeps_intros]:
  "keeps I m \<Longrightarrow> (\<And>x. keeps I (k x)) \<Longrightarrow> keeps I (case v of None \<Rightarrow> m | Some x \<Rightarrow> k x)"
  by (cases v) simp_all

lemma keeps_case_list [keeps_intros]:
  "keeps I m \<Longrightarrow> (\<And>x xs. keeps I (k x xs)) \<Longrightarrow> keeps I (case v of [] \<Rightarrow> m | x # xs \<Rightarrow> k x xs)"
  by (cases v) simp_all

lemma keeps_case_sum [keeps_intros]:
  "(\<And>x. keeps I (m x)) \<Longrightarrow> (\<And>x. keeps I (k x)) \<Longrightarrow> keeps I (case v of Inl x \<Rightarrow> m x | Inr x \<Rightarrow> k x)"
  by (cases v) simp_all

lemma keeps_let [keeps_intros]: "(\<And>x. keeps I (f x)) \<Longrightarrow> keeps I (let x = v in f x)"
  by simp

lemma keeps_prod [keeps_intros]: "(\<And>x y. keeps I (f x y)) \<Longrightarrow> keeps I (case p of (x, y) \<Rightarrow> f x y)"
  by (cases p) simp

lemma pure_tail:
  assumes "\<And>t. keeps (\<lambda>s. s = t) m" and "m s = (r, s')"
  shows "s' = s"
  using keepsD [OF assms(1) refl assms(2)] .

section \<open>State machines\<close>

text \<open>What a component grants its clients as a state machine: an invariant every step keeps.\<close>

locale state_machine =
  fixes step :: "'s \<Rightarrow> 's \<Rightarrow> bool" and I :: "'s \<Rightarrow> bool"
  assumes step_keeps: "step s s' \<Longrightarrow> I s \<Longrightarrow> I s'"
begin

lemma run_keeps: "step\<^sup>*\<^sup>* s s' \<Longrightarrow> I s \<Longrightarrow> I s'"
  by (induction rule: rtranclp_induct) (auto intro: step_keeps)

end

section \<open>What a result tells of the parts\<close>

lemma obind_InrE:
  assumes "obind m f s = (Inr y, s')"
  obtains x s1 where "m s = (Inr x, s1)" and "f x s1 = (Inr y, s')"
  using assms by (cases "m s"; cases "fst (m s)") (auto simp: obind_def)

lemma othen_InrE:
  assumes "othen m k s = (Inr y, s')"
  obtains x s1 where "m s = (Inr x, s1)" and "k s1 = (Inr y, s')"
  using assms unfolding othen_def by (rule obind_InrE)

lemma transaction_Inr: "transaction m s = (Inr y, s') \<longleftrightarrow> m s = (Inr y, s')"
  by (auto simp: transaction_def split: prod.splits sum.splits)

lemma olift_Inr: "olift r s = (Inr x, s') \<longleftrightarrow> r = Inr x \<and> s' = s"
  by (auto simp: olift_def)

lemma oget_Inr: "oget f s = (Inr x, s') \<longleftrightarrow> x = f s \<and> s' = s"
  by (auto simp: oget_def)

lemma omod_Inr: "omod f s = (Inr x, s') \<longleftrightarrow> s' = f s"
  by (auto simp: omod_def)

lemma oret_Inr: "oret v s = (Inr x, s') \<longleftrightarrow> x = v \<and> s' = s"
  by (auto simp: oret_def)

lemma oraise_Inr [simp]: "oraise e s \<noteq> (Inr x, s')"
  by (simp add: oraise_def)

lemmas op_runs = olift_Inr oget_Inr omod_Inr oret_Inr transaction_Inr

lemma obind_Inr: "obind m f s = (Inr y, s') \<longleftrightarrow> (\<exists>x s1. m s = (Inr x, s1) \<and> f x s1 = (Inr y, s'))"
  by (auto simp: obind_def split: prod.split sum.split)

lemma obindE:
  assumes "obind m f s = (r, s')"
  obtains (stop) e where "m s = (Inl e, s')" "r = Inl e" | (go) x s1 where "m s = (Inr x, s1)" "f x s1 = (r, s')"
  using assms by (auto simp: obind_def split: prod.splits sum.splits)

lemma otryE:
  assumes "otry m h s = (r, s')"
  obtains (fine) x where "m s = (Inr x, s')" "r = Inr x" | (caught) e s1 where "m s = (Inl e, s1)" "h e s1 = (r, s')"
  using assms by (auto simp: otry_def split: prod.splits sum.splits)

section \<open>Rows of a guarded update\<close>

lemma list_all2_left: "list_all2 R xs ys \<Longrightarrow> x \<in> set xs \<Longrightarrow> \<exists>y\<in>set ys. R x y"
  by (induction rule: list_all2_induct) auto

lemma list_all2_right: "list_all2 R xs ys \<Longrightarrow> y \<in> set ys \<Longrightarrow> \<exists>x\<in>set xs. R x y"
  by (induction rule: list_all2_induct) auto

text \<open>What a guarded update does to the rows.\<close>

lemma update_rows_all:
  assumes "update_rows p f rs = Inr (rs', hits)" and "\<And>r r'. p r \<Longrightarrow> f r = Inr r' \<Longrightarrow> R r r'" and "\<And>r. R r r"
  shows "list_all2 R rs rs'"
  using assms(1)
proof (induction rs arbitrary: rs' hits)
  case (Cons r rs)
  obtain r' rs1 h1 where s: "(if p r then f r else Inr r) = Inr r'" "update_rows p f rs = Inr (rs1, h1)" "rs' = r' # rs1"
    using Cons.prems by (auto simp: rbind_eq_Inr split: prod.splits)
  have "R r r'" using s(1) assms(2,3) by (auto split: if_splits)
  then show ?case using Cons.IH [OF s(2)] s(3) by simp
qed simp

lemma update_rows_hits:
  "update_rows p f rs = Inr (rs', hits) \<Longrightarrow> r' \<in> set hits \<Longrightarrow> r' \<in> set rs' \<and> (\<exists>r\<in>set rs. p r \<and> f r = Inr r')"
proof (induction rs arbitrary: rs' hits)
  case (Cons r rs)
  obtain r1 rs1 h1 where s: "(if p r then f r else Inr r) = Inr r1" "update_rows p f rs = Inr (rs1, h1)" "rs' = r1 # rs1"
    "hits = (if p r then r1 # h1 else h1)"
    using Cons.prems(1) by (auto simp: rbind_eq_Inr split: prod.splits)
  show ?case using Cons.IH [OF s(2)] Cons.prems(2) s by (auto split: if_splits)
qed simp

end
