(* ===== verification/Json_Canon.thy ===== *)
theory Json_Canon
  imports Sha256 "HOL-Library.Char_ord" "HOL-Library.List_Lexorder" "HOL-Library.Multiset"
begin

text \<open>
  \<open>json.dumps(value, sort_keys=True, separators=(",", ":"))\<close> and the digests built on it: the payload
  hash of a finance action and the snapshot hash of a provider object. Strings are UTF-8; the encoder
  escapes what is not ASCII as UTF-16 code units. The digest of a dictionary does not depend on the
  order its keys were inserted in.
\<close>

section \<open>Strings\<close>

definition hex4 :: "nat \<Rightarrow> string" where
  "hex4 n = [backslash, CHR ''u'', hex_char (n div 4096 mod 16), hex_char (n div 256 mod 16),
             hex_char (n div 16 mod 16), hex_char (n mod 16)]"

definition escape_code_point :: "nat \<Rightarrow> string" where
  "escape_code_point cp =
     (if cp < 65536 then hex4 cp
      else let v = cp - 65536 in hex4 (55296 + v div 1024) @ hex4 (56320 + v mod 1024))"

definition escape_ascii :: "nat \<Rightarrow> string" where
  "escape_ascii n =
     (if n = 34 then [backslash, dquote_char] else if n = 92 then [backslash, backslash]
      else if n = 10 then [backslash, CHR ''n''] else if n = 13 then [backslash, CHR ''r'']
      else if n = 9 then [backslash, CHR ''t''] else if n = 12 then [backslash, CHR ''f'']
      else if n = 8 then [backslash, CHR ''b''] else if n < 32 then hex4 n else [char_of n])"

text \<open>A lead byte and its continuation bytes; a stray byte stands for itself.\<close>

fun json_escape :: "nat list \<Rightarrow> string" where
  "json_escape [] = []"
| "json_escape (a # rest) =
     (if a < 128 then escape_ascii a @ json_escape rest
      else if 240 \<le> a then
        (case rest of b # c # d # r \<Rightarrow>
           escape_code_point ((((a - 240) * 64 + (b - 128)) * 64 + (c - 128)) * 64 + (d - 128)) @ json_escape r
         | _ \<Rightarrow> hex4 a @ json_escape rest)
      else if 224 \<le> a then
        (case rest of b # c # r \<Rightarrow>
           escape_code_point (((a - 224) * 64 + (b - 128)) * 64 + (c - 128)) @ json_escape r
         | _ \<Rightarrow> hex4 a @ json_escape rest)
      else if 192 \<le> a then
        (case rest of b # r \<Rightarrow> escape_code_point ((a - 192) * 64 + (b - 128)) @ json_escape r
         | _ \<Rightarrow> hex4 a @ json_escape rest)
      else hex4 a @ json_escape rest)"

definition json_string :: "string \<Rightarrow> string" where
  "json_string s = dquote_char # json_escape (map of_char s) @ [dquote_char]"

section \<open>Values\<close>

definition json_member :: "string \<times> string \<Rightarrow> string" where
  "json_member kv = json_string (fst kv) @ '':'' @ snd kv"

fun json_sorted :: "pyval \<Rightarrow> string result" where
  "json_sorted VNone = Inr ''null''"
| "json_sorted (VBool b) = Inr (if b then ''true'' else ''false'')"
| "json_sorted (VInt i) = Inr (int_to_str i)"
| "json_sorted (VFloat x) = Inr (float_repr x)"
| "json_sorted VNan = Inr ''NaN''"
| "json_sorted (VInf s) = Inr (if s then ''-Infinity'' else ''Infinity'')"
| "json_sorted (VDec d) = Inl TypeError"
| "json_sorted (VDate d) = Inl TypeError"
| "json_sorted (VStr s) = Inr (json_string s)"
| "json_sorted (VList xs) = rbind (rmap json_sorted xs) (\<lambda>ys. Inr (''['' @ py_join '','' ys @ '']''))"
| "json_sorted (VDict kvs) =
     rbind (rmap (\<lambda>kv. rbind (json_sorted (snd kv)) (\<lambda>y. Inr (fst kv, y))) kvs)
       (\<lambda>ms. Inr (''{'' @ py_join '','' (map json_member (sort_key fst ms)) @ ''}''))"

definition compute_payload_hash :: "pyval \<Rightarrow> string result" where
  "compute_payload_hash payload = rbind (json_sorted payload) (\<lambda>s. Inr (sha256_hex s))"

definition snapshot_hash :: "pyval \<Rightarrow> string result" where
  "snapshot_hash values = rbind (json_sorted values) (\<lambda>s. Inr (sha256_hex s))"

section \<open>Insertion order does not matter\<close>

lemma rmap_perm:
  "mset xs = mset ys \<Longrightarrow> rmap f xs = Inr us \<Longrightarrow> \<exists>vs. rmap f ys = Inr vs \<and> mset us = mset vs"
proof (induction xs arbitrary: ys us)
  case Nil
  then show ?case by simp
next
  case (Cons x xs)
  obtain u us1 where u: "f x = Inr u" "rmap f xs = Inr us1" "us = u # us1"
    using Cons.prems(2) by (auto simp: rbind_eq_Inr)
  have "x \<in> set ys" using Cons.prems(1) by (metis list.set_intros(1) set_mset_mset)
  then obtain y1 y2 where ys: "ys = y1 @ x # y2" by (meson split_list)
  have "mset xs = mset (y1 @ y2)" using Cons.prems(1) by (simp add: ys)
  then obtain vs where vs: "rmap f (y1 @ y2) = Inr vs" "mset us1 = mset vs" using Cons.IH u(2) by blast
  have app: "rmap f (as @ bs) = rbind (rmap f as) (\<lambda>p. rbind (rmap f bs) (\<lambda>q. Inr (p @ q)))" for as bs
  proof (induction as)
    case Nil
    then show ?case by (cases "rmap f bs") simp_all
  next
    case (Cons a as)
    then show ?case by (cases "f a"; cases "rmap f as"; cases "rmap f bs") simp_all
  qed
  obtain v1 v2 where v: "rmap f y1 = Inr v1" "rmap f y2 = Inr v2" "vs = v1 @ v2"
    using vs(1) by (auto simp: app rbind_eq_Inr)
  have "rmap f ys = Inr (v1 @ u # v2)" by (simp add: ys app v u)
  moreover have "mset us = mset (v1 @ u # v2)" using u(3) vs(2) v(3) by simp
  ultimately show ?case by blast
qed

lemma sort_members_unique:
  assumes "mset (ms :: (string \<times> string) list) = mset ns" and "distinct (map fst ms)"
  shows "sort_key fst ms = sort_key fst ns"
proof (rule sort_key_inj_key_eq)
  show "mset ms = mset (sort_key fst ns)" using assms(1) by simp
  show "inj_on fst (set ms)" using assms(2) by (simp add: distinct_map)
  show "sorted (map fst (sort_key fst ns))" by simp
qed

lemma json_dict_perm:
  assumes "mset kvs = mset kvs'" and "distinct (map fst kvs)" and "json_sorted (VDict kvs) = Inr s"
  shows "json_sorted (VDict kvs') = Inr s"
proof -
  let ?f = "\<lambda>kv. rbind (json_sorted (snd kv)) (\<lambda>y. Inr (fst kv, y))"
  obtain ms where ms: "rmap ?f kvs = Inr ms" and s: "s = ''{'' @ py_join '','' (map json_member (sort_key fst ms)) @ ''}''"
    using assms(3) by (auto simp: rbind_eq_Inr)
  obtain ns where ns: "rmap ?f kvs' = Inr ns" "mset ms = mset ns" using rmap_perm [OF assms(1) ms] by blast
  have "list_all2 (\<lambda>kv m. ?f kv = Inr m) kvs ms" using ms by (simp add: rmap_list_all2)
  then have "map fst ms = map fst kvs"
    by (induction rule: list_all2_induct) (auto simp: rbind_eq_Inr)
  then have "distinct (map fst ms)" using assms(2) by simp
  then have "sort_key fst ms = sort_key fst ns" by (rule sort_members_unique [OF ns(2)])
  then show ?thesis using ns(1) s by simp
qed

text \<open>
  The hash a reviewer approves does not depend on how the payload was assembled: two payloads with
  the same members in any insertion order have the same hash, whatever their values.
\<close>

theorem payload_hash_order_independent:
  assumes "mset kvs = mset kvs'" and "distinct (map fst kvs)" and "compute_payload_hash (VDict kvs) = Inr h"
  shows "compute_payload_hash (VDict kvs') = Inr h \<and> length h = 64 \<and> list_all is_hex h"
proof -
  obtain s where s: "json_sorted (VDict kvs) = Inr s" "h = sha256_hex s"
    using assms(3) unfolding compute_payload_hash_def by (auto simp: rbind_eq_Inr)
  then show ?thesis using json_dict_perm [OF assms(1,2) s(1)] hex_sha256 [of s]
    by (simp add: compute_payload_hash_def del: json_sorted.simps)
qed

lemma payload_hash_order_independent_witness:
  "\<exists>h. compute_payload_hash (VDict [(''a'', VInt 1), (''b'', VNone)]) = Inr h
     \<and> compute_payload_hash (VDict [(''b'', VNone), (''a'', VInt 1)]) = Inr h"
proof -
  obtain h where "compute_payload_hash (VDict [(''a'', VInt 1), (''b'', VNone)]) = Inr h"
    by (auto simp: compute_payload_hash_def)
  then show ?thesis using payload_hash_order_independent
      [of "[(''a'', VInt 1), (''b'', VNone)]" "[(''b'', VNone), (''a'', VInt 1)]" h] by (auto simp: add_mset_commute)
qed

end
