(* ===== verification/Ledger_Db.thy ===== *)
theory Ledger_Db
  imports Db_Monad Json_Canon
begin

text \<open>
  The tables of the trust spine and the two triggers that guard \<open>finance_actions\<close>
  (\<open>supabase/migrations/20260714000005_trust_spine.sql\<close>), as a record of row lists in insertion order.
  Identifiers are the serial numbers of a counter, times are seconds, a \<open>jsonb\<close> column holds the value
  that was stored, and \<open>updated_at\<close> is left out. Every statement that changes an action goes through
  \<open>update_actions\<close>, which runs the triggers on each row.
\<close>

section \<open>Rows\<close>

datatype status = DRAFT | VALIDATED | AWAITING_APPROVAL | APPROVED | QUEUED | CLAIMED | EXECUTING
  | PROVIDER_ACCEPTED | VERIFYING | SUCCEEDED | NEEDS_INPUT | NEEDS_REVIEW | RETRY_SCHEDULED
  | AUTH_EXPIRED | FAILED | DEAD_LETTER | CANCELLED

record action =
  a_id :: nat
  a_firm :: string
  a_client :: string
  a_provider :: string
  a_operation :: string
  a_key :: string
  a_payload :: pyval
  a_hash :: string
  a_status :: status
  a_risk :: string
  a_proposed_by :: string
  a_installation :: "nat option"
  a_source_identity :: "string option"
  a_source_version :: string
  a_correlation :: "string option"
  a_approved_by :: "string option"
  a_approved_hash :: "string option"
  a_approved_at :: "int option"
  a_external :: "string option"
  a_version :: nat
  a_attempt :: nat
  a_lease_device :: "string option"
  a_lease_until :: "int option"

record job =
  j_id :: nat
  j_firm :: string
  j_kind :: string
  j_aggregate :: nat
  j_status :: status
  j_attempts :: nat
  j_available :: int
  j_lease_owner :: "string option"
  j_lease_until :: "int option"
  j_correlation :: string

record attempt =
  t_job :: nat
  t_number :: nat
  t_status :: status
  t_error :: "string option"
  t_finished :: "int option"

record dead_letter =
  dl_job :: nat
  dl_reason :: string
  dl_message :: string

record outbox_event =
  oe_firm :: string
  oe_topic :: string
  oe_aggregate :: nat
  oe_correlation :: string

datatype verdict = MATCHED | MISMATCH

record verification =
  vf_id :: nat
  vf_firm :: string
  vf_action :: nat
  vf_object :: nat
  vf_status :: verdict
  vf_fields :: pyval
  vf_mismatches :: "(string, pyval) dict"
  vf_version :: "string option"
  vf_correlation :: string

record provider_object =
  po_id :: nat
  po_firm :: string
  po_installation :: "nat option"
  po_type :: string
  po_provider_id :: string
  po_hash :: string
  po_snapshot :: pyval
  po_version :: "string option"
  po_status :: string
  po_active :: bool
  po_void :: bool
  po_deleted :: bool
  po_last_verified :: "int option"

record draft =
  d_id :: nat
  d_firm :: string
  d_client :: string
  d_document :: string
  d_provider :: string
  d_operation :: string
  d_status :: string
  d_payload :: pyval
  d_missing :: "string list"
  d_action :: "nat option"
  d_version :: nat
  d_validation :: string
  d_mappings :: pyval
  d_totals :: "(string \<times> pyval) list"
  d_hash :: "string option"
  d_external :: "string option"

record revision =
  r_draft :: nat
  r_version :: nat
  r_payload :: pyval
  r_hash :: "string option"
  r_changed_by :: string
  r_reason :: string

record document =
  doc_id :: string
  doc_firm :: string
  doc_vendor :: string
  doc_fields :: "pyval list"
  doc_status :: string

record register_row =
  g_id :: string
  g_firm :: string
  g_client :: string
  g_period :: string
  g_number :: string
  g_party :: string
  g_gstin :: string
  g_date :: string
  g_total :: int
  g_tax :: int
  g_taxable :: int
  g_cgst :: int
  g_sgst :: int
  g_igst :: int
  g_other :: int
  g_status :: string
  g_source :: string
  g_source_version :: string
  g_provider :: string
  g_provider_object :: string
  g_document :: string
  g_draft :: nat
  g_action :: nat
  g_verification :: nat
  g_active :: bool

record installation =
  i_id :: nat
  i_firm :: string
  i_client :: string
  i_provider :: string
  i_status :: string
  i_scopes :: "string list option"

record certification =
  ct_firm :: string
  ct_capability :: string
  ct_provider :: string
  ct_version :: string
  ct_installation :: nat
  ct_level :: nat

record mapping_row =
  mp_installation :: nat
  mp_type :: string
  mp_internal :: string
  mp_provider_id :: string
  mp_active :: bool
  mp_approved :: bool

record db =
  now :: int
  fresh :: nat
  actions :: "action list"
  jobs :: "job list"
  attempts :: "attempt list"
  dead_letters :: "dead_letter list"
  outbox :: "outbox_event list"
  verifications :: "verification list"
  objects :: "provider_object list"
  drafts :: "draft list"
  revisions :: "revision list"
  documents :: "document list"
  purchases :: "register_row list"
  sales :: "register_row list"
  installations :: "installation list"
  certifications :: "certification list"
  mappings :: "mapping_row list"

section \<open>Statements\<close>

definition new_id :: "(db, nat) op" where
  "new_id = obind (oget fresh) (\<lambda>n. othen (omod (\<lambda>s. s\<lparr>fresh := Suc n\<rparr>)) (oret n))"

definition raise_db :: "string \<Rightarrow> (db, 'a) op" where
  "raise_db msg = oraise (DatabaseError msg)"

lemma new_id_step [op_simps]: "obind new_id f s = f (fresh s) (s\<lparr>fresh := Suc (fresh s)\<rparr>)"
  by (simp add: new_id_def op_simps)

fun allowed :: "status \<Rightarrow> status list" where
  "allowed DRAFT = [VALIDATED, CANCELLED, NEEDS_INPUT]"
| "allowed VALIDATED = [AWAITING_APPROVAL, NEEDS_INPUT, CANCELLED]"
| "allowed AWAITING_APPROVAL = [APPROVED, CANCELLED]"
| "allowed APPROVED = [QUEUED, CANCELLED]"
| "allowed QUEUED = [CLAIMED, CANCELLED]"
| "allowed CLAIMED = [EXECUTING, RETRY_SCHEDULED, FAILED]"
| "allowed EXECUTING = [PROVIDER_ACCEPTED, RETRY_SCHEDULED, AUTH_EXPIRED, FAILED, NEEDS_REVIEW]"
| "allowed PROVIDER_ACCEPTED = [VERIFYING, NEEDS_REVIEW]"
| "allowed VERIFYING = [SUCCEEDED, NEEDS_REVIEW, RETRY_SCHEDULED, FAILED]"
| "allowed RETRY_SCHEDULED = [QUEUED, DEAD_LETTER, CANCELLED]"
| "allowed NEEDS_INPUT = [VALIDATED, CANCELLED]"
| "allowed NEEDS_REVIEW = [QUEUED, FAILED, CANCELLED]"
| "allowed AUTH_EXPIRED = [QUEUED, CANCELLED]"
| "allowed FAILED = [QUEUED, DEAD_LETTER, CANCELLED]"
| "allowed _ = []"

definition transition_trigger :: "action \<Rightarrow> action \<Rightarrow> action result" where
  "transition_trigger old new =
     (if a_status new = a_status old then Inr new
      else if a_status new \<notin> set (allowed (a_status old)) then Inl (DatabaseError ''Invalid finance action transition'')
      else Inr (new\<lparr>a_version := a_version old + 1\<rparr>))"

definition has_match :: "db \<Rightarrow> nat \<Rightarrow> bool" where
  "has_match s aid = list_ex (\<lambda>v. vf_action v = aid \<and> vf_status v = MATCHED) (verifications s)"

definition verified_success_trigger :: "db \<Rightarrow> action \<Rightarrow> action \<Rightarrow> action result" where
  "verified_success_trigger s old new =
     (if a_status new = SUCCEEDED \<and> \<not> has_match s (a_id new)
      then Inl (DatabaseError ''SUCCEEDED requires a matched verification result'')
      else if a_approved_at old \<noteq> None \<and> a_payload new \<noteq> a_payload old
      then Inl (DatabaseError ''Approved finance action payload is immutable'')
      else Inr new)"

definition action_triggers :: "db \<Rightarrow> action \<Rightarrow> action \<Rightarrow> action result" where
  "action_triggers s old new = rbind (transition_trigger old new) (verified_success_trigger s old)"

definition update_actions :: "(action \<Rightarrow> bool) \<Rightarrow> (action \<Rightarrow> action) \<Rightarrow> (db, action list) op" where
  "update_actions p f s =
     (case update_rows p (\<lambda>a. action_triggers s a (f a)) (actions s) of
        Inl e \<Rightarrow> (Inl e, s)
      | Inr (rows, hits) \<Rightarrow> (Inr hits, s\<lparr>actions := rows\<rparr>))"

definition execute_actions :: "(action \<Rightarrow> bool) \<Rightarrow> (action \<Rightarrow> action) \<Rightarrow> (db, unit) op" where
  "execute_actions p f = obind (update_actions p f) (\<lambda>_. oret ())"

definition update_jobs :: "(job \<Rightarrow> bool) \<Rightarrow> (job \<Rightarrow> job) \<Rightarrow> (db, unit) op" where
  "update_jobs p f = omod (\<lambda>s. s\<lparr>jobs := map_where p f (jobs s)\<rparr>)"

definition set_status :: "status \<Rightarrow> action \<Rightarrow> action" where
  "set_status st a = a\<lparr>a_status := st\<rparr>"

end
