(* ===== verification/Finance_Actions.thy ===== *)
theory Finance_Actions
  imports Ledger_Db Access_Control
begin

text \<open>
  The proposal and approval service of \<open>core/finance_actions/engine.py\<close>, the versioned drafts of
  \<open>core/purchase_invoices/drafts.py\<close> and the approval and cancellation routes of
  \<open>api/routes/agent_tools.py\<close>, the preparation of a document and the edit of one of its fields. A request runs in
  one transaction (\<open>get_db\<close> of \<open>api/deps.py\<close>), so a route is a \<open>transaction\<close>. The theory then gives the invariant of the action ledger, which every statement of the
  service keeps: unique identities, payloads that match their hash, approval before anything else, and
  success only with a matched read-back.
\<close>

section \<open>The engine\<close>

text \<open>\<open>json.dumps\<close> writes \<open>NaN\<close> and the infinities, which the \<open>jsonb\<close> cast of the statement refuses.\<close>

fun jsonb_ok :: "pyval \<Rightarrow> bool" where
  "jsonb_ok VNan = False"
| "jsonb_ok (VInf s) = False"
| "jsonb_ok (VList xs) = list_all jsonb_ok xs"
| "jsonb_ok (VDict kvs) = list_all (\<lambda>kv. jsonb_ok (snd kv)) kvs"
| "jsonb_ok _ = True"

definition get_action :: "nat \<Rightarrow> string \<Rightarrow> (db, action option) op" where
  "get_action aid firm = oget (\<lambda>s. find (\<lambda>a. a_id a = aid \<and> a_firm a = firm) (actions s))"

record proposal =
  p_firm :: string
  p_client :: string
  p_provider :: string
  p_operation :: string
  p_payload :: pyval
  p_key :: string
  p_proposed_by :: string
  p_risk :: string
  p_installation :: "nat option"
  p_source_identity :: "string option"
  p_source_version :: string
  p_correlation :: "string option"

definition proposed_action :: "nat \<Rightarrow> string \<Rightarrow> proposal \<Rightarrow> action" where
  "proposed_action aid digest p =
     \<lparr> a_id = aid, a_firm = p_firm p, a_client = p_client p, a_provider = p_provider p,
       a_operation = p_operation p, a_key = p_key p, a_payload = p_payload p, a_hash = digest,
       a_status = AWAITING_APPROVAL, a_risk = p_risk p, a_proposed_by = p_proposed_by p,
       a_installation = p_installation p, a_source_identity = p_source_identity p,
       a_source_version = p_source_version p, a_correlation = p_correlation p, a_approved_by = None,
       a_approved_hash = None, a_approved_at = None, a_external = None, a_version = 1, a_attempt = 0,
       a_lease_device = None, a_lease_until = None \<rparr>"

text \<open>\<open>ON CONFLICT(firm_id,idempotency_key) DO UPDATE\<close> touches only \<open>updated_at\<close> of the row that is
  there and returns it.\<close>

definition propose_action :: "proposal \<Rightarrow> (db, action) op" where
  "propose_action p =
     obind (olift (compute_payload_hash (p_payload p))) (\<lambda>digest.
     obind new_id (\<lambda>aid.
     if \<not> jsonb_ok (p_payload p) then raise_db ''invalid input syntax for type json''
     else
       obind (oget (\<lambda>s. find (\<lambda>a. a_firm a = p_firm p \<and> a_key a = p_key p) (actions s))) (\<lambda>clash.
       case clash of
         None \<Rightarrow>
           (let a = proposed_action aid digest p
            in othen (omod (\<lambda>s. s\<lparr>actions := actions s @ [a]\<rparr>)) (oret a))
       | Some _ \<Rightarrow>
           obind (update_actions (\<lambda>a. a_firm a = p_firm p \<and> a_key a = p_key p) (\<lambda>a. a)) (\<lambda>rows.
           case rows of a # _ \<Rightarrow> oret a | [] \<Rightarrow> oraise TypeError))))"

definition add_job :: "string \<Rightarrow> string \<Rightarrow> nat \<Rightarrow> string \<Rightarrow> (db, unit) op" where
  "add_job firm kind agg correlation =
     obind new_id (\<lambda>jid. omod (\<lambda>s.
       if list_ex (\<lambda>j. j_kind j = kind \<and> j_aggregate j = agg) (jobs s) then s
       else s\<lparr>jobs := jobs s @
              [\<lparr> j_id = jid, j_firm = firm, j_kind = kind, j_aggregate = agg, j_status = QUEUED, j_attempts = 0,
                 j_available = now s, j_lease_owner = None, j_lease_until = None, j_correlation = correlation \<rparr>]\<rparr>))"

definition or_str :: "string option \<Rightarrow> string \<Rightarrow> string" where
  "or_str x y = (case x of None \<Rightarrow> y | Some v \<Rightarrow> (if v = '''' then y else v))"

definition approved_row :: "string \<Rightarrow> string \<Rightarrow> string \<Rightarrow> int \<Rightarrow> action \<Rightarrow> action" where
  "approved_row approver digest correlation t a =
     a\<lparr>a_status := APPROVED, a_approved_by := Some approver, a_approved_hash := Some digest,
       a_approved_at := Some t,
       a_correlation := (if correlation \<noteq> '''' then Some correlation else a_correlation a)\<rparr>"

definition enqueue_action :: "nat \<Rightarrow> string \<Rightarrow> string \<Rightarrow> (db, action) op" where
  "enqueue_action aid firm correlation =
     obind (update_actions (\<lambda>a. a_id a = aid \<and> a_firm a = firm) (set_status QUEUED)) (\<lambda>queued.
     case queued of
       [] \<Rightarrow> oraise TypeError
     | row # _ \<Rightarrow>
         (let c = or_str (a_correlation row) correlation
          in othen (omod (\<lambda>s. s\<lparr>outbox := outbox s @
                    [\<lparr> oe_firm = firm, oe_topic = ''finance_action.queued'', oe_aggregate = aid, oe_correlation = c \<rparr>]\<rparr>))
            (othen (add_job firm ''FINANCE_ACTION'' aid c) (oret row))))"

definition approve_action :: "nat \<Rightarrow> string \<Rightarrow> string \<Rightarrow> string \<Rightarrow> string \<Rightarrow> (db, action) op" where
  "approve_action aid firm approver digest correlation =
     obind (get_action aid firm) (\<lambda>found.
     case found of
       None \<Rightarrow> oraise (FinanceActionError ''Finance action was not found'')
     | Some act \<Rightarrow>
         if a_hash act \<noteq> digest then oraise (PayloadHashMismatch ''Approved payload does not match the reviewed proposal'')
         else
           obind (oget now) (\<lambda>t.
           obind (update_actions
             (\<lambda>a. a_id a = aid \<and> a_firm a = firm \<and> a_status a = AWAITING_APPROVAL \<and> a_hash a = digest)
             (approved_row approver digest correlation t)) (\<lambda>rows.
           case rows of
             [] \<Rightarrow> oraise (FinanceActionError ''Finance action is no longer awaiting approval'')
           | _ \<Rightarrow> enqueue_action aid firm correlation)))"

definition cancel_action :: "nat \<Rightarrow> string \<Rightarrow> (db, action) op" where
  "cancel_action aid firm =
     obind (update_actions
       (\<lambda>a. a_id a = aid \<and> a_firm a = firm \<and> a_status a \<in> {AWAITING_APPROVAL, QUEUED, RETRY_SCHEDULED})
       (set_status CANCELLED)) (\<lambda>rows.
     case rows of
       [] \<Rightarrow> oraise (FinanceActionError ''Only an unclaimed action can be cancelled'')
     | row # _ \<Rightarrow>
         othen (update_jobs (\<lambda>j. j_kind j = ''FINANCE_ACTION'' \<and> j_aggregate j = aid \<and> j_status j = QUEUED)
                  (\<lambda>j. j\<lparr>j_status := CANCELLED\<rparr>))
        (othen (omod (\<lambda>s. s\<lparr>drafts := map_where (\<lambda>d. d_action d = Some aid) (\<lambda>d. d\<lparr>d_status := ''CANCELLED''\<rparr>) (drafts s)\<rparr>))
           (oret row)))"

definition execute_action :: "(db, action) op" where
  "execute_action = oraise (FinanceActionError ''Provider execution is restricted to the automation worker'')"

section \<open>Drafts\<close>

record draft_input =
  di_firm :: string
  di_client :: string
  di_document :: string
  di_provider :: string
  di_operation :: string
  di_status :: string
  di_payload :: pyval
  di_mappings :: pyval
  di_totals :: "(string \<times> pyval) list"
  di_validation :: string
  di_missing :: "string list"
  di_action :: "nat option"
  di_changed_by :: string
  di_reason :: string

definition same_draft :: "draft_input \<Rightarrow> draft \<Rightarrow> bool" where
  "same_draft i d = (d_firm d = di_firm i \<and> d_document d = di_document i \<and> d_provider d = di_provider i
                     \<and> d_operation d = di_operation i)"

definition new_draft :: "nat \<Rightarrow> string option \<Rightarrow> draft_input \<Rightarrow> draft" where
  "new_draft did digest i =
     \<lparr> d_id = did, d_firm = di_firm i, d_client = di_client i, d_document = di_document i, d_provider = di_provider i,
       d_operation = di_operation i, d_status = di_status i, d_payload = di_payload i, d_missing = di_missing i,
       d_action = di_action i, d_version = 1, d_validation = di_validation i, d_mappings = di_mappings i,
       d_totals = di_totals i, d_hash = digest, d_external = None \<rparr>"

definition revised_draft :: "string option \<Rightarrow> draft_input \<Rightarrow> draft \<Rightarrow> draft" where
  "revised_draft digest i d =
     d\<lparr>d_status := di_status i, d_payload := di_payload i, d_missing := di_missing i, d_action := di_action i,
       d_version := d_version d + 1, d_validation := di_validation i, d_mappings := di_mappings i,
       d_totals := di_totals i, d_hash := digest\<rparr>"

definition upsert_draft :: "string option \<Rightarrow> draft_input \<Rightarrow> (db, draft) op" where
  "upsert_draft digest i =
     obind new_id (\<lambda>did.
     obind (oget (\<lambda>s. find (same_draft i) (drafts s))) (\<lambda>found.
     case found of
       None \<Rightarrow> (let d = new_draft did digest i in othen (omod (\<lambda>s. s\<lparr>drafts := drafts s @ [d]\<rparr>)) (oret d))
     | Some d \<Rightarrow> othen (omod (\<lambda>s. s\<lparr>drafts := map_where (same_draft i) (revised_draft digest i) (drafts s)\<rparr>))
                   (oret (revised_draft digest i d))))"

definition save_draft :: "draft_input \<Rightarrow> (db, draft) op" where
  "save_draft i =
     obind (if truthy (di_payload i) then obind (olift (compute_payload_hash (di_payload i))) (\<lambda>h. oret (Some h))
            else oret None) (\<lambda>digest.
     if \<not> jsonb_ok (di_payload i) then raise_db ''invalid input syntax for type json''
     else
       obind (upsert_draft digest i) (\<lambda>d.
       othen (omod (\<lambda>s. s\<lparr>revisions := revisions s @
                 [\<lparr> r_draft = d_id d, r_version = d_version d, r_payload = di_payload i, r_hash = digest,
                    r_changed_by = di_changed_by i, r_reason = di_reason i \<rparr>]\<rparr>))
         (oret d)))"

section \<open>Routes\<close>

text \<open>The reviewed version must be the bound one: an agent proposal, or a draft whose version and hash
  are the action's.\<close>

definition bound_to_review :: "db \<Rightarrow> nat \<Rightarrow> string \<Rightarrow> string \<Rightarrow> bool" where
  "bound_to_review s aid firm digest =
     list_ex (\<lambda>a. a_id a = aid \<and> a_firm a = firm \<and> a_hash a = digest
       \<and> (a_source_identity a = Some ''agent-tool''
          \<or> list_ex (\<lambda>d. d_action d = Some (a_id a) \<and> d_firm d = a_firm a
                       \<and> nat_to_str (d_version d) = a_source_version a \<and> d_hash d = Some digest) (drafts s))) (actions s)"

definition as_http :: "(db, 'a) op \<Rightarrow> (db, 'a) op" where
  "as_http m = otry m (\<lambda>e. case e of
      PayloadHashMismatch msg \<Rightarrow> oraise (HTTPException 409 msg)
    | FinanceActionError msg \<Rightarrow> oraise (HTTPException 409 msg)
    | _ \<Rightarrow> oraise e)"

definition approve_route :: "firm_context \<Rightarrow> nat \<Rightarrow> string \<Rightarrow> string \<Rightarrow> (db, action) op" where
  "approve_route firm aid digest correlation =
     transaction (othen (olift (require firm ''books.approve''))
       (as_http
         (obind (oget (\<lambda>s. bound_to_review s aid (f_firm firm) digest)) (\<lambda>bound.
          if \<not> bound then oraise (PayloadHashMismatch ''The reviewed draft version changed; prepare it again before approval'')
          else
            obind (approve_action aid (f_firm firm) (f_user firm) digest correlation) (\<lambda>row.
            othen (omod (\<lambda>s. s\<lparr>drafts := map_where
                     (\<lambda>d. d_firm d = f_firm firm \<and> d_action d = Some aid \<and> d_hash d = Some digest)
                     (\<lambda>d. d\<lparr>d_status := ''QUEUED''\<rparr>) (drafts s)\<rparr>))
              (oret row))))))"

definition cancel_route :: "firm_context \<Rightarrow> nat \<Rightarrow> (db, action) op" where
  "cancel_route firm aid =
     transaction (othen (olift (require firm ''books.approve'')) (as_http (cancel_action aid (f_firm firm))))"

section \<open>Preparing a document\<close>

text \<open>The common end of \<open>propose_purchase\<close> and \<open>propose_sale\<close> (\<open>core/purchase_invoices/actions.py\<close>,
  \<open>core/sales_invoices/actions.py\<close>): the provider payload has been built, or is empty because mappings
  are missing.\<close>

record preparation =
  pr_user :: string
  pr_firm :: string
  pr_client :: string
  pr_document :: string
  pr_provider :: string
  pr_operation :: string
  pr_payload :: pyval
  pr_mappings :: pyval
  pr_totals :: "(string \<times> pyval) list"
  pr_state :: string
  pr_missing :: "string list"
  pr_installation :: "nat option"
  pr_reason :: string

definition document_key :: "preparation \<Rightarrow> string \<Rightarrow> string" where
  "document_key p digest = ''document:'' @ pr_document p @ '':'' @ pr_provider p @ '':'' @ take 24 digest"

definition document_proposal :: "preparation \<Rightarrow> string \<Rightarrow> nat \<Rightarrow> proposal" where
  "document_proposal p digest version =
     \<lparr> p_firm = pr_firm p, p_client = pr_client p, p_provider = pr_provider p, p_operation = pr_operation p,
       p_payload = pr_payload p, p_key = document_key p digest, p_proposed_by = pr_user p, p_risk = ''HIGH'',
       p_installation = pr_installation p, p_source_identity = Some (pr_document p),
       p_source_version = nat_to_str version, p_correlation = None \<rparr>"

definition document_draft :: "preparation \<Rightarrow> nat option \<Rightarrow> draft_input" where
  "document_draft p act =
     \<lparr> di_firm = pr_firm p, di_client = pr_client p, di_document = pr_document p, di_provider = pr_provider p,
       di_operation = pr_operation p, di_status = (if act = None then ''NEEDS_MAPPING'' else ''ACTION_PROPOSED''),
       di_payload = pr_payload p, di_mappings = pr_mappings p, di_totals = pr_totals p, di_validation = pr_state p,
       di_missing = pr_missing p, di_action = act, di_changed_by = pr_user p, di_reason = pr_reason p \<rparr>"

definition current_version :: "preparation \<Rightarrow> db \<Rightarrow> nat" where
  "current_version p s =
     (case find (same_draft (document_draft p None)) (drafts s) of None \<Rightarrow> 0 | Some d \<Rightarrow> d_version d)"

definition prepare_action :: "preparation \<Rightarrow> (db, action option \<times> draft) op" where
  "prepare_action p =
     transaction
     (obind (oget (current_version p)) (\<lambda>current.
      obind (if truthy (pr_payload p)
             then obind (olift (compute_payload_hash (pr_payload p))) (\<lambda>digest.
                  obind (propose_action (document_proposal p digest (current + 1))) (\<lambda>a. oret (Some a)))
             else oret None) (\<lambda>act.
      obind (save_draft (document_draft p (map_option a_id act))) (\<lambda>d. oret (act, d)))))"

text \<open>A reviewer's edit of a field (\<open>api/routes/document_review.py\<close>) withdraws what awaits approval; a
  document whose action went further is locked.\<close>

definition document_locked :: "string \<Rightarrow> string \<Rightarrow> db \<Rightarrow> bool" where
  "document_locked firm doc s =
     list_ex (\<lambda>d. d_firm d = firm \<and> d_document d = doc
       \<and> list_ex (\<lambda>a. d_action d = Some (a_id a) \<and> a_status a \<notin> {AWAITING_APPROVAL, CANCELLED, FAILED, NEEDS_REVIEW}) (actions s))
       (drafts s)"

definition withdraw_document :: "string \<Rightarrow> string \<Rightarrow> string \<Rightarrow> (db, unit) op" where
  "withdraw_document user firm doc =
     transaction
     (obind (oget (\<lambda>s. (document_locked firm doc s, drafts s))) (\<lambda>(locked, ds).
     if locked
     then oraise (HTTPException 409 ''This document is already approved or posted; create a correction instead'')
     else othen (execute_actions
              (\<lambda>a. list_ex (\<lambda>d. d_firm d = firm \<and> d_document d = doc \<and> d_action d = Some (a_id a)) ds
                   \<and> a_status a = AWAITING_APPROVAL) (set_status CANCELLED))
       (omod (\<lambda>s.
          let open_draft = (\<lambda>d. d_firm d = firm \<and> d_document d = doc \<and> d_status d \<in> {''ACTION_PROPOSED'', ''NEEDS_MAPPING''});
              reopened = (\<lambda>d. d\<lparr>d_status := ''NEEDS_REVIEW'', d_action := None, d_payload := VDict [], d_hash := None,
                                d_validation := ''PENDING'', d_version := d_version d + 1\<rparr>)
          in s\<lparr>drafts := map_where open_draft reopened (drafts s),
               revisions := revisions s @ map (\<lambda>d. \<lparr> r_draft = d_id d, r_version = d_version (reopened d), r_payload = VDict [],
                                r_hash = None, r_changed_by = user, r_reason = ''Reviewer edited extracted field'' \<rparr>)
                                (filter open_draft (drafts s))\<rparr>))))"

section \<open>The invariant of the ledger\<close>

text \<open>What no statement changes of an action, the statuses an action has before approval, and the
  statuses reachable from one by permitted transitions.\<close>

definition ident :: "action \<Rightarrow> nat \<times> string \<times> string \<times> string \<times> string \<times> string \<times> pyval \<times> string \<times> nat option" where
  "ident a = (a_id a, a_firm a, a_client a, a_provider a, a_operation a, a_key a, a_payload a, a_hash a, a_installation a)"

definition before_approval :: "status set" where
  "before_approval = {DRAFT, VALIDATED, AWAITING_APPROVAL, NEEDS_INPUT, CANCELLED}"

inductive leads_to :: "status \<Rightarrow> status \<Rightarrow> bool" where
  leads_refl: "leads_to st st"
| leads_step: "leads_to st st' \<Longrightarrow> st'' \<in> set (allowed st') \<Longrightarrow> leads_to st st''"

inductive_simps leads_from_terminal: "leads_to SUCCEEDED st"

definition action_ok :: "db \<Rightarrow> action \<Rightarrow> bool" where
  "action_ok s a =
     (compute_payload_hash (a_payload a) = Inr (a_hash a)
      \<and> (a_approved_at a \<noteq> None \<longrightarrow> a_approved_hash a = Some (a_hash a) \<and> a_approved_by a \<noteq> None)
      \<and> (a_status a \<notin> before_approval \<longrightarrow> a_approved_at a \<noteq> None)
      \<and> (a_status a = SUCCEEDED \<longrightarrow> has_match s (a_id a)))"

definition job_ok :: "db \<Rightarrow> job \<Rightarrow> bool" where
  "job_ok s j = (\<exists>a\<in>set (actions s). a_id a = j_aggregate j \<and> a_approved_at a \<noteq> None)"

text \<open>The ledger is well formed, and follows a set of watched actions with the status each was seen in.\<close>

definition ledger_ok :: "((nat \<times> string \<times> string \<times> string \<times> string \<times> string \<times> pyval \<times> string \<times> nat option) \<times> status) set \<Rightarrow> db \<Rightarrow> bool" where
  "ledger_ok W s =
     (distinct (map a_id (actions s)) \<and> (\<forall>a\<in>set (actions s). a_id a < fresh s)
      \<and> distinct (map (\<lambda>a. (a_firm a, a_key a)) (actions s))
      \<and> (\<forall>a\<in>set (actions s). action_ok s a)
      \<and> distinct (map (\<lambda>j. (j_kind j, j_aggregate j)) (jobs s)) \<and> (\<forall>j\<in>set (jobs s). job_ok s j)
      \<and> (\<forall>w\<in>W. \<exists>a\<in>set (actions s). ident a = fst w \<and> leads_to (snd w) (a_status a)))"

text \<open>An \<open>UPDATE\<close> is lawful when it leaves the identity alone and either leaves the approval alone and
  does not itself approve, or records a complete approval of the row's own hash.\<close>

definition lawful :: "(action \<Rightarrow> bool) \<Rightarrow> (action \<Rightarrow> action) \<Rightarrow> bool" where
  "lawful p f =
     (\<forall>a. p a \<longrightarrow> ident (f a) = ident a
        \<and> (a_approved_at (f a) = a_approved_at a \<and> a_approved_by (f a) = a_approved_by a
             \<and> a_approved_hash (f a) = a_approved_hash a \<and> (a_status (f a) = a_status a \<or> a_status (f a) \<noteq> APPROVED)
           \<or> a_approved_at (f a) \<noteq> None \<and> a_approved_by (f a) \<noteq> None \<and> a_approved_hash (f a) = Some (a_hash a)))"

lemma allowed_before: "st' \<in> set (allowed st) \<Longrightarrow> st \<in> before_approval \<Longrightarrow> st' \<in> before_approval \<or> st' = APPROVED"
  by (cases st) (auto simp: before_approval_def)

lemma triggers_row:
  assumes "action_triggers s a b = Inr a'"
  shows "a' = b\<lparr>a_version := a_version a'\<rparr> \<and> (a_status b = a_status a \<or> a_status b \<in> set (allowed (a_status a)))
     \<and> (a_status b = SUCCEEDED \<longrightarrow> has_match s (a_id b)) \<and> (a_approved_at a \<noteq> None \<longrightarrow> a_payload b = a_payload a)"
  using assms unfolding action_triggers_def transition_trigger_def verified_success_trigger_def
  by (auto simp: rbind_eq_Inr split: if_splits)

lemma lawful_row:
  assumes "lawful p f" and "p a" and "action_triggers s a (f a) = Inr a'" and "action_ok s a"
  shows "action_ok s a' \<and> ident a' = ident a \<and> (a_status a' = a_status a \<or> a_status a' \<in> set (allowed (a_status a)))
     \<and> (a_approved_at a \<noteq> None \<longrightarrow> a_approved_at a' \<noteq> None)"
proof -
  note t = triggers_row [OF assms(3)]
  have fields: "a_id a' = a_id (f a)" "a_status a' = a_status (f a)" "a_payload a' = a_payload (f a)"
    "a_hash a' = a_hash (f a)" "a_approved_at a' = a_approved_at (f a)" "a_approved_by a' = a_approved_by (f a)"
    "a_approved_hash a' = a_approved_hash (f a)" "ident a' = ident (f a)"
    using t [THEN conjunct1] by (cases a'; cases "f a"; simp add: ident_def)+
  have i: "ident (f a) = ident a" using assms(1,2) by (simp add: lawful_def)
  then have same: "a_id (f a) = a_id a" "a_payload (f a) = a_payload a" "a_hash (f a) = a_hash a"
    by (simp_all add: ident_def)
  have step: "a_status (f a) = a_status a \<or> a_status (f a) \<in> set (allowed (a_status a))"
    "a_status (f a) = SUCCEEDED \<longrightarrow> has_match s (a_id (f a))" using t by blast+
  have app: "a_approved_at (f a) = a_approved_at a \<and> a_approved_by (f a) = a_approved_by a
             \<and> a_approved_hash (f a) = a_approved_hash a \<and> (a_status (f a) = a_status a \<or> a_status (f a) \<noteq> APPROVED)
           \<or> a_approved_at (f a) \<noteq> None \<and> a_approved_by (f a) \<noteq> None \<and> a_approved_hash (f a) = Some (a_hash a)"
    using assms(1,2) by (simp add: lawful_def)
  have late: "a_status (f a) \<notin> before_approval \<Longrightarrow> a_approved_at (f a) \<noteq> None"
    using app step(1) allowed_before [of "a_status (f a)" "a_status a"] assms(4) unfolding action_ok_def by metis
  have ok: "action_ok s a'"
    unfolding action_ok_def fields same using assms(4) step(2) late app same by (auto simp: action_ok_def)
  show ?thesis using ok i step(1) app fields by auto
qed

lemma find_distinct_map:
  "list_all2 (\<lambda>a a'. f a' = f a) xs ys \<Longrightarrow> map f ys = map f xs"
  by (induction rule: list_all2_induct) auto

lemma has_match_actions [simp]: "has_match (s\<lparr>actions := rows\<rparr>) = has_match s"
  by (rule ext) (simp add: has_match_def)

lemma action_ok_actions [simp]: "action_ok (s\<lparr>actions := rows\<rparr>) a = action_ok s a"
  by (simp add: action_ok_def)

lemma keeps_update_actions:
  assumes "lawful p f"
  shows "keeps (ledger_ok W) (update_actions p f)"
  unfolding keeps_def
proof (intro allI impI)
  fix s assume inv: "ledger_ok W s"
  show "ledger_ok W (snd (update_actions p f s))"
  proof (cases "update_rows p (\<lambda>a. action_triggers s a (f a)) (actions s)")
    case (Inl e)
    then show ?thesis using inv by (simp add: update_actions_def)
  next
    case (Inr r)
    obtain rows hits where r: "r = (rows, hits)" by (cases r)
    let ?R = "\<lambda>a a'. action_ok s a \<longrightarrow> action_ok s a' \<and> ident a' = ident a
       \<and> (a_status a' = a_status a \<or> a_status a' \<in> set (allowed (a_status a)))
       \<and> (a_approved_at a \<noteq> None \<longrightarrow> a_approved_at a' \<noteq> None)"
    have rel: "list_all2 ?R (actions s) rows"
    proof (rule update_rows_all)
      show "update_rows p (\<lambda>a. action_triggers s a (f a)) (actions s) = Inr (rows, hits)" using Inr r by simp
    qed (use lawful_row [OF assms] in blast)+
    have ok: "\<forall>a\<in>set (actions s). action_ok s a" using inv by (simp add: ledger_ok_def)
    have rel': "list_all2 (\<lambda>a a'. action_ok s a' \<and> ident a' = ident a
       \<and> (a_status a' = a_status a \<or> a_status a' \<in> set (allowed (a_status a)))
       \<and> (a_approved_at a \<noteq> None \<longrightarrow> a_approved_at a' \<noteq> None)) (actions s) rows"
      by (rule list.rel_mono_strong [OF rel]) (use ok in blast)
    have ids: "map ident rows = map ident (actions s)"
      by (rule find_distinct_map, rule list.rel_mono_strong [OF rel']) simp
    have mid: "map a_id rows = map a_id (actions s)" "map (\<lambda>a. (a_firm a, a_key a)) rows = map (\<lambda>a. (a_firm a, a_key a)) (actions s)"
      using ids by (auto intro!: find_distinct_map list.rel_mono_strong [OF rel'] simp: ident_def)
    have fwd: "\<exists>a'\<in>set rows. action_ok s a' \<and> ident a' = ident a
       \<and> (a_status a' = a_status a \<or> a_status a' \<in> set (allowed (a_status a)))
       \<and> (a_approved_at a \<noteq> None \<longrightarrow> a_approved_at a' \<noteq> None)" if "a \<in> set (actions s)" for a
      using list_all2_left [OF rel' that] .
    have bwd: "action_ok s a'" if "a' \<in> set rows" for a'
      using list_all2_right [OF rel' that] by blast
    have lt: "\<forall>a\<in>set rows. a_id a < fresh s"
    proof
      fix a assume "a \<in> set rows"
      then have "a_id a \<in> set (map a_id rows)" by simp
      then show "a_id a < fresh s" using inv by (auto simp: mid(1) ledger_ok_def)
    qed
    have jobs: "\<forall>j\<in>set (jobs s). job_ok (s\<lparr>actions := rows\<rparr>) j"
    proof
      fix j assume "j \<in> set (jobs s)"
      then obtain a where a: "a \<in> set (actions s)" "a_id a = j_aggregate j" "a_approved_at a \<noteq> None"
        using inv by (auto simp: ledger_ok_def job_ok_def)
      then show "job_ok (s\<lparr>actions := rows\<rparr>) j" using fwd [OF a(1)] by (auto simp: job_ok_def ident_def)
    qed
    have watched: "\<forall>w\<in>W. \<exists>a\<in>set rows. ident a = fst w \<and> leads_to (snd w) (a_status a)"
    proof
      fix w assume "w \<in> W"
      then obtain a where a: "a \<in> set (actions s)" "ident a = fst w" "leads_to (snd w) (a_status a)"
        using inv by (auto simp: ledger_ok_def)
      obtain a' where "a' \<in> set rows" "ident a' = ident a" "a_status a' = a_status a \<or> a_status a' \<in> set (allowed (a_status a))"
        using fwd [OF a(1)] by blast
      then show "\<exists>a\<in>set rows. ident a = fst w \<and> leads_to (snd w) (a_status a)" using a(2,3) leads_step by metis
    qed
    show ?thesis using inv bwd lt jobs watched Inr r by (simp add: update_actions_def ledger_ok_def mid)
  qed
qed

section \<open>Every statement of the service keeps the ledger\<close>

lemma ledger_other [simp]:
  "ledger_ok W (s\<lparr>now := x1\<rparr>) = ledger_ok W s" "ledger_ok W (s\<lparr>attempts := x2\<rparr>) = ledger_ok W s"
  "ledger_ok W (s\<lparr>dead_letters := x3\<rparr>) = ledger_ok W s" "ledger_ok W (s\<lparr>outbox := x4\<rparr>) = ledger_ok W s"
  "ledger_ok W (s\<lparr>objects := x5\<rparr>) = ledger_ok W s" "ledger_ok W (s\<lparr>drafts := x6\<rparr>) = ledger_ok W s"
  "ledger_ok W (s\<lparr>revisions := x7\<rparr>) = ledger_ok W s" "ledger_ok W (s\<lparr>documents := x8\<rparr>) = ledger_ok W s"
  "ledger_ok W (s\<lparr>purchases := x9\<rparr>) = ledger_ok W s" "ledger_ok W (s\<lparr>sales := x10\<rparr>) = ledger_ok W s"
  "ledger_ok W (s\<lparr>installations := x11\<rparr>) = ledger_ok W s" "ledger_ok W (s\<lparr>certifications := x12\<rparr>) = ledger_ok W s"
  "ledger_ok W (s\<lparr>mappings := x13\<rparr>) = ledger_ok W s"
  by (simp_all add: ledger_ok_def action_ok_def job_ok_def has_match_def)

lemma keeps_new_id [keeps_intros]: "keeps (ledger_ok W) new_id"
  by (auto simp: keeps_def new_id_def obind_def othen_def oget_def omod_def oret_def ledger_ok_def
      action_ok_def job_ok_def has_match_def less_SucI)

lemma keeps_raise_db [keeps_intros]: "keeps I (raise_db msg)"
  unfolding raise_db_def by (rule keeps_oraise)

lemma keeps_get_action [keeps_intros]: "keeps I (get_action aid firm)"
  unfolding get_action_def by (rule keeps_oget)

lemma map_map_where: "(\<And>r. g (f r) = g r) \<Longrightarrow> map g (map_where p f rs) = map g rs"
  unfolding map_where_def by auto

lemma in_map_where: "r' \<in> set (map_where p f rs) \<Longrightarrow> \<exists>r\<in>set rs. r' = r \<or> p r \<and> r' = f r"
  unfolding map_where_def by auto

lemma keeps_update_jobs:
  assumes "\<And>j. j_kind (f j) = j_kind j" and "\<And>j. j_aggregate (f j) = j_aggregate j"
  shows "keeps (ledger_ok W) (update_jobs p f)"
  unfolding update_jobs_def
proof (rule keeps_omod)
  fix s assume inv: "ledger_ok W s"
  have "map (\<lambda>j. (j_kind j, j_aggregate j)) (map_where p f (jobs s)) = map (\<lambda>j. (j_kind j, j_aggregate j)) (jobs s)"
    by (rule map_map_where) (simp add: assms)
  moreover have "\<forall>j\<in>set (map_where p f (jobs s)). job_ok (s\<lparr>jobs := map_where p f (jobs s)\<rparr>) j"
  proof
    fix j assume "j \<in> set (map_where p f (jobs s))"
    from in_map_where [OF this] obtain j0 where "j0 \<in> set (jobs s)" "j = j0 \<or> j = f j0" by blast
    moreover from this(1) have "job_ok s j0" using inv unfolding ledger_ok_def by blast
    moreover have "j_aggregate (f j0) = j_aggregate j0" by (rule assms(2))
    ultimately show "job_ok (s\<lparr>jobs := map_where p f (jobs s)\<rparr>) j"
      unfolding job_ok_def by (elim disjE) simp_all
  qed
  ultimately show "ledger_ok W (s\<lparr>jobs := map_where p f (jobs s)\<rparr>)" using inv
    by (simp add: ledger_ok_def action_ok_def has_match_def)
qed

lemma keeps_execute_actions: "lawful p f \<Longrightarrow> keeps (ledger_ok W) (execute_actions p f)"
  unfolding execute_actions_def by (intro keeps_intros keeps_update_actions)

lemma lawful_status: "st \<noteq> APPROVED \<Longrightarrow> lawful p (set_status st)"
  by (simp add: lawful_def ident_def set_status_def)

lemma lawful_id: "lawful p (\<lambda>a. a)"
  by (simp add: lawful_def)

lemma lawful_approval:
  "lawful (\<lambda>a. a_id a = aid \<and> a_firm a = firm \<and> a_status a = AWAITING_APPROVAL \<and> a_hash a = digest)
     (approved_row approver digest correlation t)"
  by (simp add: lawful_def approved_row_def ident_def)

lemma keeps_propose_action: "keeps (ledger_ok W) (propose_action p)"
  unfolding keeps_def
proof (intro allI impI)
  fix s assume inv: "ledger_ok W s"
  let ?s = "s\<lparr>fresh := Suc (fresh s)\<rparr>"
  have inv': "ledger_ok W ?s" using inv keeps_new_id [of W]
    by (simp add: keeps_def new_id_def obind_def othen_def oget_def omod_def oret_def)
  show "ledger_ok W (snd (propose_action p s))"
  proof (cases "compute_payload_hash (p_payload p)")
    case (Inl e)
    then show ?thesis using inv by (simp add: propose_action_def obind_def olift_def)
  next
    case (Inr h)
    show ?thesis
    proof (cases "find (\<lambda>a. a_firm a = p_firm p \<and> a_key a = p_key p) (actions s)")
      case None
      let ?a = "proposed_action (fresh s) h p"
      have nokey: "(p_firm p, p_key p) \<notin> set (map (\<lambda>a. (a_firm a, a_key a)) (actions s))"
        using None by (auto simp: find_None_iff)
      have old: "\<forall>a\<in>set (actions s). action_ok (?s\<lparr>actions := actions s @ [?a]\<rparr>) a"
        using inv by (simp add: ledger_ok_def action_ok_def has_match_def)
      have new: "action_ok (?s\<lparr>actions := actions s @ [?a]\<rparr>) ?a"
        using Inr by (simp add: action_ok_def proposed_action_def before_approval_def)
      have jobs: "\<forall>j\<in>set (jobs s). job_ok (?s\<lparr>actions := actions s @ [?a]\<rparr>) j"
        using inv by (auto simp: ledger_ok_def job_ok_def)
      have "ledger_ok W (?s\<lparr>actions := actions s @ [?a]\<rparr>)"
        unfolding ledger_ok_def using inv nokey old new jobs
        by (auto simp: ledger_ok_def proposed_action_def less_SucI)
      moreover have "find (\<lambda>a. a_firm a = p_firm p \<and> a_key a = p_key p) (actions ?s) = None" using None by simp
      ultimately show ?thesis using inv'
        by (simp only: propose_action_def Inr op_simps raise_db_def Let_def option.case snd_conv split: if_split) simp
    next
      case (Some a)
      have "keeps (ledger_ok W) (obind (update_actions (\<lambda>a. a_firm a = p_firm p \<and> a_key a = p_key p) (\<lambda>a. a))
              (\<lambda>rows. case rows of a # _ \<Rightarrow> oret a | [] \<Rightarrow> oraise TypeError))"
        by (intro keeps_intros keeps_update_actions lawful_id)
      moreover have "find (\<lambda>a. a_firm a = p_firm p \<and> a_key a = p_key p) (actions ?s) = Some a" using Some by simp
      ultimately show ?thesis using inv'
        by (simp only: propose_action_def Inr op_simps raise_db_def Let_def option.case snd_conv keeps_def split: if_split) simp
    qed
  qed
qed

lemma update_actions_hits:
  assumes "update_actions p f s = (Inr hits, s')" and "r \<in> set hits"
  shows "r \<in> set (actions s') \<and> (\<exists>a\<in>set (actions s). p a \<and> r = (f a)\<lparr>a_version := a_version r\<rparr>)"
proof -
  obtain rows where u: "update_rows p (\<lambda>a. action_triggers s a (f a)) (actions s) = Inr (rows, hits)" "s' = s\<lparr>actions := rows\<rparr>"
    using assms(1) by (auto simp: update_actions_def split: sum.splits prod.splits)
  from update_rows_hits [OF u(1) assms(2)] obtain a where "r \<in> set rows" "a \<in> set (actions s)" "p a" "action_triggers s a (f a) = Inr r"
    by blast
  then show ?thesis using triggers_row [of s a "f a" r] u(2) by auto
qed

lemma version_only:
  assumes "r = b\<lparr>a_version := v\<rparr>"
  shows "a_status r = a_status b \<and> ident r = ident b \<and> a_id r = a_id b \<and> a_firm r = a_firm b \<and> a_hash r = a_hash b
    \<and> a_approved_at r = a_approved_at b \<and> a_approved_hash r = a_approved_hash b"
  using assms by (simp add: ident_def)

lemma keeps_add_job:
  assumes "ledger_ok W s" and "a \<in> set (actions s)" and "a_id a = agg" and "a_approved_at a \<noteq> None"
  shows "ledger_ok W (snd (add_job firm kind agg c s))"
proof -
  let ?s = "s\<lparr>fresh := Suc (fresh s)\<rparr>"
  have inv: "ledger_ok W ?s" using keepsD [OF keeps_new_id assms(1)] by (simp add: new_id_def op_simps)
  show ?thesis
  proof (cases "list_ex (\<lambda>j. j_kind j = kind \<and> j_aggregate j = agg) (jobs s)")
    case True
    then show ?thesis using inv by (simp add: add_job_def op_simps)
  next
    case False
    let ?j = "\<lparr> j_id = fresh s, j_firm = firm, j_kind = kind, j_aggregate = agg, j_status = QUEUED, j_attempts = 0,
                j_available = now s, j_lease_owner = None, j_lease_until = None, j_correlation = c \<rparr>"
    have new: "(kind, agg) \<notin> set (map (\<lambda>j. (j_kind j, j_aggregate j)) (jobs s))"
      using False by (auto simp: list_ex_iff)
    have "job_ok ?s ?j" using assms(2-4) by (auto simp: job_ok_def)
    then have "ledger_ok W (?s\<lparr>jobs := jobs s @ [?j]\<rparr>)" using inv new
      by (simp add: ledger_ok_def action_ok_def has_match_def job_ok_def)
    then show ?thesis using False by (simp add: add_job_def op_simps)
  qed
qed

lemma queued_is_approved:
  assumes "ledger_ok W s'" and "update_actions p (set_status QUEUED) s = (Inr hits, s')" and "row \<in> set hits"
  shows "row \<in> set (actions s') \<and> a_approved_at row \<noteq> None"
proof -
  obtain a where row: "row \<in> set (actions s')" "row = (set_status QUEUED a)\<lparr>a_version := a_version row\<rparr>"
    using update_actions_hits [OF assms(2,3)] by blast
  have "a_status row = QUEUED" using version_only [OF row(2)] by (simp add: set_status_def)
  moreover have "action_ok s' row" using row(1) assms(1) unfolding ledger_ok_def by blast
  ultimately show ?thesis using row(1) by (auto simp: action_ok_def before_approval_def)
qed

lemma keeps_enqueue_action: "keeps (ledger_ok W) (enqueue_action aid firm correlation)"
  unfolding enqueue_action_def
proof (rule keeps_obind_post)
  show "keeps (ledger_ok W) (update_actions (\<lambda>a. a_id a = aid \<and> a_firm a = firm) (set_status QUEUED))"
    by (intro keeps_update_actions lawful_status) simp
  fix s rows s'
  assume u: "update_actions (\<lambda>a. a_id a = aid \<and> a_firm a = firm) (set_status QUEUED) s = (Inr rows, s')"
    and inv: "ledger_ok W s'"
  let ?k = "\<lambda>queued. case queued of
       [] \<Rightarrow> oraise TypeError
     | row # _ \<Rightarrow>
         (let c = or_str (a_correlation row) correlation
          in othen (omod (\<lambda>s. s\<lparr>outbox := outbox s @
                    [\<lparr> oe_firm = firm, oe_topic = ''finance_action.queued'', oe_aggregate = aid, oe_correlation = c \<rparr>]\<rparr>))
            (othen (add_job firm ''FINANCE_ACTION'' aid c) (oret row)))"
  show "ledger_ok W (snd (?k rows s'))"
  proof (cases rows)
    case Nil
    then show ?thesis using inv by (simp add: op_simps)
  next
    case (Cons row rest)
    let ?c = "or_str (a_correlation row) correlation"
    let ?s = "s'\<lparr>outbox := outbox s' @ [\<lparr> oe_firm = firm, oe_topic = ''finance_action.queued'', oe_aggregate = aid, oe_correlation = ?c \<rparr>]\<rparr>"
    have row: "row \<in> set (actions s')" "a_approved_at row \<noteq> None"
      using queued_is_approved [OF inv u] Cons by simp_all
    have "row \<in> set rows" using Cons by simp
    from update_actions_hits [OF u this] obtain a where
      a: "a_id a = aid" "row = (set_status QUEUED a)\<lparr>a_version := a_version row\<rparr>" by blast
    have "a_id row = aid" using version_only [OF a(2)] a(1) by (simp add: set_status_def)
    then have "ledger_ok W (snd (add_job firm ''FINANCE_ACTION'' aid ?c ?s))"
      by (intro keeps_add_job) (use inv row in simp_all)
    moreover have "snd (?k rows s') = snd (add_job firm ''FINANCE_ACTION'' aid ?c ?s)"
      by (cases "add_job firm ''FINANCE_ACTION'' aid ?c ?s" rule: prod.exhaust; cases "fst (add_job firm ''FINANCE_ACTION'' aid ?c ?s)")
         (simp_all add: Cons op_simps Let_def othen_def obind_def)
    ultimately show ?thesis by simp
  qed
qed

lemma keeps_approve_action: "keeps (ledger_ok W) (approve_action aid firm approver digest correlation)"
  unfolding approve_action_def
  by (intro keeps_intros keeps_get_action keeps_update_actions lawful_approval keeps_enqueue_action)

lemma keeps_cancel_action: "keeps (ledger_ok W) (cancel_action aid firm)"
  unfolding cancel_action_def
  by (intro keeps_intros keeps_update_actions lawful_status keeps_update_jobs keeps_omod) simp_all

lemma keeps_save_draft: "keeps (ledger_ok W) (save_draft i)"
  unfolding save_draft_def upsert_draft_def by (intro keeps_intros keeps_omod) simp_all

lemma keeps_as_http: "keeps I m \<Longrightarrow> keeps I (as_http m)"
  unfolding as_http_def by (intro keeps_intros) (auto intro!: keeps_intros split: pyexn.split)

lemma keeps_approve_route: "keeps (ledger_ok W) (approve_route firm aid digest correlation)"
  unfolding approve_route_def by (intro keeps_intros keeps_as_http keeps_approve_action keeps_omod) simp_all

lemma keeps_cancel_route: "keeps (ledger_ok W) (cancel_route firm aid)"
  unfolding cancel_route_def by (intro keeps_intros keeps_as_http keeps_cancel_action)

lemma keeps_prepare_action: "keeps (ledger_ok W) (prepare_action p)"
  unfolding prepare_action_def by (intro keeps_intros keeps_propose_action keeps_save_draft)

lemma keeps_withdraw: "keeps (ledger_ok W) (withdraw_document user firm doc)"
  unfolding withdraw_document_def Let_def
  by (intro keeps_intros keeps_execute_actions lawful_status keeps_omod) simp_all

section \<open>Proposing\<close>

lemma trigger_unchanged:
  "action_ok s a \<Longrightarrow> action_triggers s a a = Inr a"
  by (simp add: action_triggers_def transition_trigger_def verified_success_trigger_def action_ok_def)

lemma update_rows_touch:
  "(\<And>r. r \<in> set rs \<Longrightarrow> p r \<Longrightarrow> f r = Inr r) \<Longrightarrow> update_rows p f rs = Inr (rs, filter p rs)"
  by (induction rs) auto

lemma touch_actions:
  assumes "ledger_ok W s"
  shows "update_actions p (\<lambda>a. a) s = (Inr (filter p (actions s)), s)"
proof -
  have "update_rows p (\<lambda>a. action_triggers s a a) (actions s) = Inr (actions s, filter p (actions s))"
    by (rule update_rows_touch) (use assms trigger_unchanged in \<open>auto simp: ledger_ok_def\<close>)
  then show ?thesis by (simp add: update_actions_def)
qed

lemma find_filter: "find p xs = (case filter p xs of [] \<Rightarrow> None | x # _ \<Rightarrow> Some x)"
  by (induction xs) auto

lemma propose_new:
  assumes "compute_payload_hash (p_payload p) = Inr h" and "jsonb_ok (p_payload p)"
    and "find (\<lambda>a. a_firm a = p_firm p \<and> a_key a = p_key p) (actions s) = None"
  shows "propose_action p s = (Inr (proposed_action (fresh s) h p),
           s\<lparr>fresh := Suc (fresh s), actions := actions s @ [proposed_action (fresh s) h p]\<rparr>)"
  using assms by (simp add: propose_action_def op_simps Let_def)

lemma propose_again:
  assumes "ledger_ok W s" and "compute_payload_hash (p_payload p) = Inr h" and "jsonb_ok (p_payload p)"
    and "find (\<lambda>a. a_firm a = p_firm p \<and> a_key a = p_key p) (actions s) = Some a"
  shows "propose_action p s = (Inr a, s\<lparr>fresh := Suc (fresh s)\<rparr>)"
proof -
  let ?s = "s\<lparr>fresh := Suc (fresh s)\<rparr>"
  have "ledger_ok W ?s" using keepsD [OF keeps_new_id assms(1)] by (simp add: new_id_def op_simps)
  from touch_actions [OF this, of "\<lambda>a. a_firm a = p_firm p \<and> a_key a = p_key p"]
  show ?thesis using assms(2-4)
    by (auto simp: propose_action_def op_simps obind_step find_filter split: list.splits)
qed

lemma propose_result:
  assumes "ledger_ok W s" and "propose_action p s = (Inr a, s')"
  shows "find (\<lambda>x. a_firm x = p_firm p \<and> a_key x = p_key p) (actions s') = Some a
     \<and> (find (\<lambda>x. a_firm x = p_firm p \<and> a_key x = p_key p) (actions s) = None \<longrightarrow> actions s' = actions s @ [a])
     \<and> (find (\<lambda>x. a_firm x = p_firm p \<and> a_key x = p_key p) (actions s) \<noteq> None \<longrightarrow> actions s' = actions s)"
proof -
  obtain h where h: "compute_payload_hash (p_payload p) = Inr h" "jsonb_ok (p_payload p)"
    using assms(2) by (cases "compute_payload_hash (p_payload p)")
      (auto simp: propose_action_def op_simps raise_db_def split: if_splits)
  show ?thesis
  proof (cases "find (\<lambda>x. a_firm x = p_firm p \<and> a_key x = p_key p) (actions s)")
    case None
    then show ?thesis using propose_new [OF h None] assms(2) h
      by (auto simp: proposed_action_def find_filter split: list.splits)
  next
    case (Some b)
    then show ?thesis using propose_again [OF assms(1) h Some] assms(2) by auto
  qed
qed

text \<open>
  Proposing is idempotent: on a well-formed ledger, a second proposal of the same firm under the
  same idempotency key, whatever its payload, client or operation, returns the row the first one
  created, unchanged, and adds no action.
\<close>

theorem propose_idempotent:
  assumes "ledger_ok {} s" and "propose_action p s = (Inr a, s1)"
    and "p_firm q = p_firm p" and "p_key q = p_key p" and "propose_action q s1 = (Inr b, s2)"
  shows "b = a \<and> actions s2 = actions s1 \<and> ledger_ok {} s2"
proof -
  have i1: "ledger_ok {} s1" by (rule keepsD [OF keeps_propose_action assms(1,2)])
  have i2: "ledger_ok {} s2" by (rule keepsD [OF keeps_propose_action i1 assms(5)])
  note first = propose_result [OF assms(1,2)] and second = propose_result [OF i1 assms(5)]
  have "find (\<lambda>x. a_firm x = p_firm q \<and> a_key x = p_key q) (actions s1) = Some a" using first assms(3,4) by simp
  moreover from this have "actions s2 = actions s1" using second by simp
  ultimately show ?thesis using second i2 by (simp only: assms(3,4) option.inject)
qed

definition empty_db :: db where
  "empty_db = \<lparr> now = 0, fresh = 0, actions = [], jobs = [], attempts = [], dead_letters = [], outbox = [],
     verifications = [], objects = [], drafts = [], revisions = [], documents = [], purchases = [], sales = [],
     installations = [], certifications = [], mappings = [] \<rparr>"

definition sample_proposal :: "pyval \<Rightarrow> proposal" where
  "sample_proposal v = \<lparr> p_firm = ''f'', p_client = ''c'', p_provider = ''ZOHO_BOOKS'', p_operation = ''op'', p_payload = v,
     p_key = ''k'', p_proposed_by = ''agent'', p_risk = ''LOW'', p_installation = None, p_source_identity = None,
     p_source_version = ''1'', p_correlation = None \<rparr>"

lemma ledger_ok_empty [simp]: "ledger_ok {} empty_db"
  by (simp add: ledger_ok_def empty_db_def)

lemma hash_exists: "json_sorted v = Inr s \<Longrightarrow> compute_payload_hash v = Inr (sha256_hex s)"
  by (simp add: compute_payload_hash_def)

lemma propose_idempotent_witness:
  "\<exists>a s1 s2. propose_action (sample_proposal (VDict [])) empty_db = (Inr a, s1)
     \<and> propose_action (sample_proposal (VDict [(''x'', VInt 1)])) s1 = (Inr a, s2) \<and> length (actions s2) = 1"
proof -
  let ?p = "sample_proposal (VDict [])" and ?q = "sample_proposal (VDict [(''x'', VInt 1)])"
  have p: "compute_payload_hash (p_payload ?p) = Inr (sha256_hex ''{}'')" "jsonb_ok (p_payload ?p)"
    by (simp_all add: hash_exists sample_proposal_def)
  obtain h where q: "compute_payload_hash (p_payload ?q) = Inr h" "jsonb_ok (p_payload ?q)"
    by (auto simp: compute_payload_hash_def sample_proposal_def)
  obtain a s1 where f: "propose_action ?p empty_db = (Inr a, s1)" "actions s1 = [a]"
    using propose_new [OF p, of empty_db] by (simp add: empty_db_def)
  have i1: "ledger_ok {} s1" by (rule keepsD [OF keeps_propose_action ledger_ok_empty f(1)])
  have same: "p_firm ?q = p_firm ?p" "p_key ?q = p_key ?p" by (simp_all add: sample_proposal_def)
  have "find (\<lambda>x. a_firm x = p_firm ?q \<and> a_key x = p_key ?q) (actions s1) = Some a"
    using propose_result [OF ledger_ok_empty f(1)] same by simp
  from propose_again [OF i1 q this] obtain s2 where s2: "propose_action ?q s1 = (Inr a, s2)" by blast
  have "actions s2 = [a]" using propose_idempotent [OF ledger_ok_empty f(1) same s2] f(2) by simp
  then have "length (actions s2) = 1" by (simp only: list.size One_nat_def add_0)
  then show ?thesis using f(1) s2 by blast
qed

section \<open>Approving\<close>

lemma as_http_Inr: "as_http m s = (Inr y, s') \<longleftrightarrow> m s = (Inr y, s')"
  by (auto simp: as_http_def otry_def oraise_def split: prod.splits sum.splits pyexn.splits)

lemmas op_results = op_runs as_http_Inr

text \<open>The queue after \<open>ON CONFLICT (kind, aggregate_id) DO NOTHING\<close>: a waiting job for the row is
  kept as it is, otherwise one fresh job is added.\<close>

definition queue_extended :: "string \<Rightarrow> string \<Rightarrow> nat \<Rightarrow> db \<Rightarrow> db \<Rightarrow> bool" where
  "queue_extended firm kind agg s s' =
     (if list_ex (\<lambda>j. j_kind j = kind \<and> j_aggregate j = agg) (jobs s) then jobs s' = jobs s
      else (\<exists>j. jobs s' = jobs s @ [j] \<and> j_kind j = kind \<and> j_aggregate j = agg \<and> j_firm j = firm
              \<and> j_status j = QUEUED \<and> j_attempts j = 0 \<and> j_lease_owner j = None))"

lemma add_job_result:
  "add_job firm kind agg c s = (Inr u, s') \<Longrightarrow> actions s' = actions s \<and> queue_extended firm kind agg s s'"
  by (auto simp: add_job_def op_simps queue_extended_def split: if_splits)

lemma queue_extended_jobs: "jobs s = jobs t \<Longrightarrow> queue_extended firm kind agg s s' = queue_extended firm kind agg t s'"
  by (simp add: queue_extended_def)

lemma update_actions_jobs: "update_actions p f s = (r, s') \<Longrightarrow> jobs s' = jobs s"
  by (auto simp: update_actions_def split: sum.splits prod.splits)

lemma distinct_filter_single:
  assumes "distinct (map f xs)" and "x \<in> set xs"
  shows "filter (\<lambda>y. f y = f x) xs = [x]"
  using assms by (induction xs) (auto simp: filter_empty_conv image_iff)

text \<open>In a ledger without double jobs the extended queue holds exactly one job for the row.\<close>

lemma queue_extended_one:
  assumes "distinct (map (\<lambda>j. (j_kind j, j_aggregate j)) (jobs s))" and "queue_extended firm kind agg s s'"
  shows "\<exists>j. filter (\<lambda>j. j_kind j = kind \<and> j_aggregate j = agg) (jobs s') = [j]"
proof (cases "list_ex (\<lambda>j. j_kind j = kind \<and> j_aggregate j = agg) (jobs s)")
  case True
  then obtain j where j: "j \<in> set (jobs s)" "j_kind j = kind" "j_aggregate j = agg" by (auto simp: list_ex_iff)
  then show ?thesis using distinct_filter_single [OF assms(1) j(1)] assms(2) True by (auto simp: queue_extended_def)
next
  case False
  then have "filter (\<lambda>j. j_kind j = kind \<and> j_aggregate j = agg) (jobs s) = []" by (auto simp: filter_empty_conv list_ex_iff)
  then show ?thesis using assms(2) False by (auto simp: queue_extended_def)
qed

lemma enqueue_actionE:
  assumes "enqueue_action aid firm c s = (Inr row, s')"
  obtains s1 rest where "update_actions (\<lambda>a. a_id a = aid \<and> a_firm a = firm) (set_status QUEUED) s = (Inr (row # rest), s1)"
    "actions s' = actions s1" "queue_extended firm ''FINANCE_ACTION'' aid s s'"
proof -
  from assms obtain queued s1 where 1: "update_actions (\<lambda>a. a_id a = aid \<and> a_firm a = firm) (set_status QUEUED) s = (Inr queued, s1)"
    and 2: "(case queued of [] \<Rightarrow> oraise TypeError
     | row # _ \<Rightarrow>
         (let k = or_str (a_correlation row) c
          in othen (omod (\<lambda>s. s\<lparr>outbox := outbox s @
                    [\<lparr> oe_firm = firm, oe_topic = ''finance_action.queued'', oe_aggregate = aid, oe_correlation = k \<rparr>]\<rparr>))
            (othen (add_job firm ''FINANCE_ACTION'' aid k) (oret row)))) s1 = (Inr row, s')"
    unfolding enqueue_action_def by (rule obind_InrE)
  obtain q rest where q: "queued = q # rest" using 2 by (cases queued) (auto simp: oraise_def)
  obtain k s3 where k: "add_job firm ''FINANCE_ACTION'' aid k s3 = (Inr (), s')" "actions s3 = actions s1" "row = q"
    "jobs s3 = jobs s1"
    using 2 q by (auto simp: Let_def op_simps op_results elim!: othen_InrE)
  with add_job_result [OF k(1)] update_actions_jobs [OF 1]
  have "actions s' = actions s1" "queue_extended firm ''FINANCE_ACTION'' aid s s'"
    by (simp_all add: queue_extended_jobs [of s s3])
  with that [OF 1 [unfolded q, folded k(3)]] show ?thesis by blast
qed

lemma approve_actionE:
  assumes "approve_action aid firm user digest c s = (Inr row, s')"
  obtains t s1 r1 rest1 s2 rest2 where
    "update_actions (\<lambda>a. a_id a = aid \<and> a_firm a = firm \<and> a_status a = AWAITING_APPROVAL \<and> a_hash a = digest)
       (approved_row user digest c t) s = (Inr (r1 # rest1), s1)"
    "update_actions (\<lambda>a. a_id a = aid \<and> a_firm a = firm) (set_status QUEUED) s1 = (Inr (row # rest2), s2)"
    "actions s' = actions s2" "queue_extended firm ''FINANCE_ACTION'' aid s s'"
proof -
  obtain rows s1 where 2: "update_actions
             (\<lambda>a. a_id a = aid \<and> a_firm a = firm \<and> a_status a = AWAITING_APPROVAL \<and> a_hash a = digest)
             (approved_row user digest c (now s)) s = (Inr rows, s1)"
    and 3: "(case rows of
             [] \<Rightarrow> oraise (FinanceActionError ''Finance action is no longer awaiting approval'')
           | _ \<Rightarrow> enqueue_action aid firm c) s1 = (Inr row, s')"
    using assms unfolding approve_action_def
    by (auto elim!: obind_InrE simp: get_action_def op_results oraise_def split: option.splits if_splits)
  obtain r1 rest1 where rows: "rows = r1 # rest1" using 3 by (cases rows) (auto simp: oraise_def)
  have 4: "enqueue_action aid firm c s1 = (Inr row, s')" using 3 rows by simp
  have j: "jobs s1 = jobs s" by (rule update_actions_jobs [OF 2])
  show ?thesis
    by (rule enqueue_actionE [OF 4], rule that [OF 2 [unfolded rows]]) (simp_all add: queue_extended_jobs [OF j])
qed

lemma same_id_same_action:
  "ledger_ok W s \<Longrightarrow> a \<in> set (actions s) \<Longrightarrow> b \<in> set (actions s) \<Longrightarrow> a_id a = a_id b \<Longrightarrow> a = b"
  by (auto simp: ledger_ok_def distinct_map dest: inj_onD)

lemma row_fields:
  assumes "r = b\<lparr>a_version := v\<rparr>"
  shows "a_approved_by r = a_approved_by b \<and> a_payload r = a_payload b"
  using assms by simp

text \<open>
  C6. An approval is bound to what was reviewed. When the approval route succeeds, the caller holds the
  approval permission, the action is the firm's own and was awaiting approval, the hash that was
  approved is the hash of the payload that is now queued, the row records the approver and that hash,
  and the reviewed draft was still current. The queue holds exactly one worker job for the action: unless
  one was waiting already the approval adds one fresh job and nothing else, and it always does for an
  action that had not been approved before.
\<close>

theorem approval_binds_payload:
  assumes "ledger_ok {} s" and "approve_route firm aid digest correlation s = (Inr row, s')"
  shows "''books.approve'' \<in> set (f_permissions firm) \<and> bound_to_review s aid (f_firm firm) digest
     \<and> row \<in> set (actions s') \<and> a_id row = aid \<and> a_firm row = f_firm firm \<and> a_status row = QUEUED
     \<and> a_approved_by row = Some (f_user firm) \<and> a_approved_hash row = Some digest
     \<and> compute_payload_hash (a_payload row) = Inr digest
     \<and> (\<exists>a\<in>set (actions s). ident a = ident row \<and> a_status a = AWAITING_APPROVAL)
     \<and> (\<exists>j. filter (\<lambda>j. j_kind j = ''FINANCE_ACTION'' \<and> j_aggregate j = aid) (jobs s') = [j])
     \<and> (if \<exists>j\<in>set (jobs s). j_kind j = ''FINANCE_ACTION'' \<and> j_aggregate j = aid then jobs s' = jobs s
        else (\<exists>j. jobs s' = jobs s @ [j] \<and> j_kind j = ''FINANCE_ACTION'' \<and> j_aggregate j = aid
                \<and> j_firm j = f_firm firm \<and> j_status j = QUEUED \<and> j_attempts j = 0 \<and> j_lease_owner j = None))
     \<and> ((\<forall>a\<in>set (actions s). a_id a = aid \<longrightarrow> a_approved_at a = None) \<longrightarrow> (\<exists>j. jobs s' = jobs s @ [j]))"
proof -
  have perm: "''books.approve'' \<in> set (f_permissions firm)" and bound: "bound_to_review s aid (f_firm firm) digest"
    and route: "\<exists>s2. approve_action aid (f_firm firm) (f_user firm) digest correlation s = (Inr row, s2)
        \<and> actions s' = actions s2 \<and> jobs s' = jobs s2"
    using assms(2) unfolding approve_route_def
    by (auto elim!: othen_InrE obind_InrE simp: op_results require_def split: if_splits)
  from route obtain s2 where s2: "approve_action aid (f_firm firm) (f_user firm) digest correlation s = (Inr row, s2)"
    "actions s' = actions s2" "jobs s' = jobs s2" by blast
  from s2(1) obtain t u1 r1 rest1 u2 rest2 where u:
    "update_actions (\<lambda>a. a_id a = aid \<and> a_firm a = f_firm firm \<and> a_status a = AWAITING_APPROVAL \<and> a_hash a = digest)
       (approved_row (f_user firm) digest correlation t) s = (Inr (r1 # rest1), u1)"
    "update_actions (\<lambda>a. a_id a = aid \<and> a_firm a = f_firm firm) (set_status QUEUED) u1 = (Inr (row # rest2), u2)"
    "actions s2 = actions u2" and queue: "queue_extended (f_firm firm) ''FINANCE_ACTION'' aid s s2"
    by (rule approve_actionE)
  have i1: "ledger_ok {} u1" by (rule keepsD [OF keeps_update_actions [OF lawful_approval] assms(1) u(1)])
  have i2: "ledger_ok {} u2" by (rule keepsD [OF keeps_update_actions [OF lawful_status] i1 u(2)]) simp
  obtain a0 where a0: "r1 \<in> set (actions u1)" "a0 \<in> set (actions s)" "a_id a0 = aid" "a_firm a0 = f_firm firm"
    "a_status a0 = AWAITING_APPROVAL" "a_hash a0 = digest"
    "r1 = (approved_row (f_user firm) digest correlation t a0)\<lparr>a_version := a_version r1\<rparr>"
    using update_actions_hits [OF u(1), of r1] by auto
  obtain a1 where a1: "row \<in> set (actions u2)" "a1 \<in> set (actions u1)" "a_id a1 = aid"
    "row = (set_status QUEUED a1)\<lparr>a_version := a_version row\<rparr>"
    using update_actions_hits [OF u(2), of row] by auto
  note f1 = version_only [OF a0(7)] row_fields [OF a0(7)] and f2 = version_only [OF a1(4)] row_fields [OF a1(4)]
  have "a_id r1 = aid" using f1 a0(3) by (simp add: approved_row_def)
  then have "a1 = r1" using same_id_same_action [OF i1 a1(2) a0(1)] a1(3) by simp
  then have eq: "a_status row = QUEUED" "ident row = ident a0" "a_approved_by row = Some (f_user firm)"
    "a_approved_hash row = Some digest"
    using f1 f2 by (simp_all add: set_status_def approved_row_def ident_def)
  have "action_ok u2 row" using i2 a1(1) by (simp add: ledger_ok_def)
  then have "compute_payload_hash (a_payload row) = Inr (a_hash row)" by (simp add: action_ok_def)
  moreover have "a_hash row = digest" "a_id row = aid" "a_firm row = f_firm firm"
    using eq(2) a0(3,4,6) by (simp_all add: ident_def)
  moreover have one: "\<exists>j. filter (\<lambda>j. j_kind j = ''FINANCE_ACTION'' \<and> j_aggregate j = aid) (jobs s2) = [j]"
    by (rule queue_extended_one [OF _ queue]) (use assms(1) in \<open>simp add: ledger_ok_def\<close>)
  moreover have new: "\<exists>j. jobs s2 = jobs s @ [j]" if "\<forall>a\<in>set (actions s). a_id a = aid \<longrightarrow> a_approved_at a = None"
  proof -
    have "\<not> list_ex (\<lambda>j. j_kind j = ''FINANCE_ACTION'' \<and> j_aggregate j = aid) (jobs s)"
      using that assms(1) by (fastforce simp: ledger_ok_def job_ok_def list_ex_iff)
    then show ?thesis using queue by (auto simp: queue_extended_def)
  qed
  moreover have "\<exists>a\<in>set (actions s). ident a = ident row \<and> a_status a = AWAITING_APPROVAL" using eq(2) a0(2,5) by metis
  ultimately show ?thesis using perm bound eq a1(1) u(3) s2(2,3) queue
    by (simp add: queue_extended_def list_ex_iff)
qed

definition agent_proposal :: proposal where
  "agent_proposal = (sample_proposal (VDict []))\<lparr>p_source_identity := Some ''agent-tool''\<rparr>"

definition sample_reviewer :: firm_context where
  "sample_reviewer = \<lparr> f_user = ''u'', f_firm = ''f'', f_role = ''REVIEWER'', f_permissions = [''books.approve''] \<rparr>"

definition proposed_db :: "string \<Rightarrow> db" where
  "proposed_db h = empty_db\<lparr>fresh := 1, actions := [proposed_action 0 h agent_proposal]\<rparr>"

lemma proposed_db_ok:
  "compute_payload_hash (VDict []) = Inr h \<Longrightarrow> ledger_ok {} (proposed_db h)"
proof -
  assume h: "compute_payload_hash (VDict []) = Inr h"
  have "propose_action agent_proposal empty_db = (Inr (proposed_action 0 h agent_proposal), proposed_db h)"
    using propose_new [of agent_proposal h empty_db] h
    by (simp add: agent_proposal_def sample_proposal_def proposed_db_def empty_db_def)
  then show ?thesis by (rule keepsD [OF keeps_propose_action ledger_ok_empty])
qed

lemma approve_sample: "\<exists>row s'. approve_route sample_reviewer 0 h ''corr'' (proposed_db h) = (Inr row, s')"
  by (simp add: approve_route_def transaction_def as_http_def otry_def sample_reviewer_def require_def op_simps
      bound_to_review_def proposed_db_def empty_db_def proposed_action_def agent_proposal_def sample_proposal_def
      approve_action_def get_action_def obind_step update_actions_def action_triggers_def transition_trigger_def
      verified_success_trigger_def approved_row_def enqueue_action_def set_status_def Let_def obind_def othen_def
      add_job_def new_id_def oget_def omod_def oret_def)

lemma approval_binds_payload_witness:
  "\<exists>h row s'. approve_route sample_reviewer 0 h ''corr'' (proposed_db h) = (Inr row, s') \<and> a_status row = QUEUED
     \<and> a_approved_by row = Some ''u'' \<and> compute_payload_hash (a_payload row) = Inr h"
proof -
  obtain h where h: "compute_payload_hash (VDict []) = Inr h" by (auto simp: compute_payload_hash_def)
  obtain row s' where r: "approve_route sample_reviewer 0 h ''corr'' (proposed_db h) = (Inr row, s')"
    using approve_sample by blast
  have "f_user sample_reviewer = ''u''" by (simp add: sample_reviewer_def)
  then have "a_status row = QUEUED" "a_approved_by row = Some ''u''" "compute_payload_hash (a_payload row) = Inr h"
    using approval_binds_payload [OF proposed_db_ok [OF h] r] by simp_all
  then show ?thesis using r by blast
qed

section \<open>Preparing twice\<close>

lemma find_append: "find p (xs @ ys) = (case find p xs of None \<Rightarrow> find p ys | Some x \<Rightarrow> Some x)"
  by (induction xs) auto

lemma map_where_none: "find p xs = None \<Longrightarrow> map_where p f xs = xs"
  by (induction xs) (auto simp: map_where_def split: if_splits)

lemma map_where_append: "map_where p f (xs @ ys) = map_where p f xs @ map_where p f ys"
  by (simp add: map_where_def)

lemma save_first:
  assumes "truthy (di_payload i)" and "compute_payload_hash (di_payload i) = Inr h" and "jsonb_ok (di_payload i)"
    and "find (same_draft i) (drafts s) = None" and "save_draft i s = (r, s')"
  shows "actions s' = actions s \<and> drafts s' = drafts s @ [new_draft (fresh s) (Some h) i] \<and> fresh s' = Suc (fresh s)"
  using assms by (auto simp: save_draft_def upsert_draft_def op_simps Let_def)

lemma save_again:
  assumes "truthy (di_payload i)" and "compute_payload_hash (di_payload i) = Inr h" and "jsonb_ok (di_payload i)"
    and "find (same_draft i) (drafts s) = Some d" and "save_draft i s = (r, s')"
  shows "actions s' = actions s \<and> drafts s' = map_where (same_draft i) (revised_draft (Some h) i) (drafts s)"
  using assms by (auto simp: save_draft_def upsert_draft_def op_simps Let_def)

lemma same_draft_any: "same_draft (document_draft p x) = same_draft (document_draft p None)"
  by (rule ext) (simp add: same_draft_def document_draft_def)

lemma current_version_first: "find (same_draft (document_draft p None)) (drafts s) = None \<Longrightarrow> current_version p s = 0"
  by (simp add: current_version_def)

lemma prepare_steps:
  assumes "truthy (pr_payload p)" and "compute_payload_hash (pr_payload p) = Inr h"
    and "propose_action (document_proposal p h (current_version p s + 1)) s = (Inr a, s1)"
    and "save_draft (document_draft p (Some (a_id a))) s1 = (r, s2)" and "is_ok r"
  shows "snd (prepare_action p s) = s2"
  using assms by (cases r) (simp_all add: prepare_action_def transaction_def op_simps obind_step)

lemma save_succeeds:
  assumes "truthy (di_payload i)" and "compute_payload_hash (di_payload i) = Inr h" and "jsonb_ok (di_payload i)"
  shows "is_ok (fst (save_draft i s))"
  using assms by (auto simp: save_draft_def upsert_draft_def op_simps Let_def split: option.split)

lemma no_other_draft_bound:
  assumes "\<forall>d\<in>set (drafts s). \<forall>x. d_action d = Some x \<longrightarrow> x < fresh s"
    and "set ds \<subseteq> set (drafts s) \<union> {d}" and "nat_to_str (d_version d) \<noteq> v"
  shows "\<not> list_ex (\<lambda>d. d_action d = Some (fresh s) \<and> d_firm d = firm \<and> nat_to_str (d_version d) = v \<and> d_hash d = Some h) ds"
  using assms by (auto simp: list_ex_iff)

lemma prepare_twice:
  assumes "ledger_ok {} s" and "truthy (pr_payload p)" and "compute_payload_hash (pr_payload p) = Inr h" and "jsonb_ok (pr_payload p)"
    and "find (same_draft (document_draft p None)) (drafts s) = None"
    and "find (\<lambda>a. a_firm a = pr_firm p \<and> a_key a = document_key p h) (actions s) = None"
    and "s1 = snd (prepare_action p s)" and "s2 = snd (prepare_action p s1)"
  shows "\<exists>a d. actions s2 = actions s @ [a] \<and> drafts s2 = drafts s @ [d] \<and> a_id a = fresh s \<and> d_version d = 2
     \<and> a_source_identity a = Some (pr_document p) \<and> a_source_version a = nat_to_str 1"
proof -
  define a where "a = proposed_action (fresh s) h (document_proposal p h 1)"
  let ?i = "document_draft p (Some (fresh s))"
  have pp: "p_payload (document_proposal p h n) = pr_payload p" "p_firm (document_proposal p h n) = pr_firm p"
    "p_key (document_proposal p h n) = document_key p h" for n by (simp_all add: document_proposal_def)
  have ip: "di_payload ?i = pr_payload p" by (simp add: document_draft_def)
  have id: "a_id a = fresh s" by (simp add: a_def proposed_action_def)
  let ?p1 = "s\<lparr>fresh := Suc (fresh s), actions := actions s @ [a]\<rparr>"
  have 1: "propose_action (document_proposal p h (current_version p s + 1)) s = (Inr a, ?p1)"
    using propose_new [of "document_proposal p h 1" h s] assms(3,4,6) current_version_first [OF assms(5)]
    by (simp add: pp a_def)
  have saved: "is_ok (fst (save_draft ?i t))" for t using save_succeeds [of ?i h t] assms(2-4) ip by simp
  obtain r1 where "save_draft ?i ?p1 = (r1, s1)"
    using prepare_steps [OF assms(2,3) 1] saved [of ?p1] assms(7) id by (cases "save_draft ?i ?p1") simp
  then have s1: "actions s1 = actions s @ [a]" "drafts s1 = drafts s @ [new_draft (Suc (fresh s)) (Some h) ?i]"
    using save_first [of ?i h ?p1 r1 s1] assms(2-4,5) ip same_draft_any [of p "Some (fresh s)"] by simp_all
  have inv1: "ledger_ok {} s1" using keepsD [OF keeps_prepare_action assms(1)] assms(7) by (metis prod.collapse)
  have d1: "same_draft (document_draft p None) (new_draft (Suc (fresh s)) (Some h) ?i)"
    by (simp add: same_draft_def new_draft_def document_draft_def)
  have cv: "current_version p s1 = 1"
    using assms(5) d1 by (simp add: current_version_def s1 find_append new_draft_def)
  have key: "a_firm a = pr_firm p" "a_key a = document_key p h" by (simp_all add: a_def proposed_action_def pp)
  have "find (\<lambda>a. a_firm a = p_firm (document_proposal p h 2) \<and> a_key a = p_key (document_proposal p h 2)) (actions s1) = Some a"
    using assms(6) key by (simp add: s1 find_append pp)
  from propose_again [OF inv1 _ _ this] have 2: "propose_action (document_proposal p h (current_version p s1 + 1)) s1
      = (Inr a, s1\<lparr>fresh := Suc (fresh s1)\<rparr>)"
    using assms(3,4) cv by (simp add: pp numeral_2_eq_2)
  let ?p2 = "s1\<lparr>fresh := Suc (fresh s1)\<rparr>"
  obtain r2 where sv: "save_draft ?i ?p2 = (r2, s2)"
    using prepare_steps [OF assms(2,3) 2] saved [of ?p2] assms(8) id by (cases "save_draft ?i ?p2") simp
  let ?d = "new_draft (Suc (fresh s)) (Some h) ?i"
  have f2: "find (same_draft ?i) (drafts ?p2) = Some ?d"
    using assms(5) d1 same_draft_any [of p "Some (fresh s)"] by (simp add: s1 find_append)
  have s2: "actions s2 = actions s @ [a]" "drafts s2 = drafts s @ [revised_draft (Some h) ?i ?d]"
    using save_again [OF _ _ _ f2 sv] assms(2-4,5) ip s1 d1 same_draft_any [of p "Some (fresh s)"] map_where_none [OF assms(5)]
    by (simp_all add: map_where_append map_where_def [of _ _ "[_]"])
  have "d_version (revised_draft (Some h) ?i ?d) = 2" by (simp add: revised_draft_def new_draft_def)
  moreover have "a_source_identity a = Some (pr_document p)" "a_source_version a = nat_to_str 1"
    by (simp_all add: a_def proposed_action_def document_proposal_def)
  ultimately show ?thesis using s2 id by blast
qed

text \<open>
  C31. Preparing an unchanged document a second time makes its action unapprovable: the proposal is the
  first one's row, still bound to draft version 1, while saving the draft advances it to version 2; every
  later approval is refused with status 409.
\<close>

theorem second_preparation_unapprovable:
  assumes "ledger_ok {} s" and "\<forall>d\<in>set (drafts s). \<forall>x. d_action d = Some x \<longrightarrow> x < fresh s"
    and "truthy (pr_payload p)" and "compute_payload_hash (pr_payload p) = Inr h" and "jsonb_ok (pr_payload p)"
    and "pr_document p \<noteq> ''agent-tool''" and "find (same_draft (document_draft p None)) (drafts s) = None"
    and "find (\<lambda>a. a_firm a = pr_firm p \<and> a_key a = document_key p h) (actions s) = None"
    and "s1 = snd (prepare_action p s)" and "s2 = snd (prepare_action p s1)"
    and "''books.approve'' \<in> set (f_permissions firm)"
  shows "approve_route firm (fresh s) digest correlation s2
       = (Inl (HTTPException 409 ''The reviewed draft version changed; prepare it again before approval''), s2)"
proof -
  obtain a d where s2: "actions s2 = actions s @ [a]" "drafts s2 = drafts s @ [d]" "a_id a = fresh s" "d_version d = 2"
    "a_source_identity a = Some (pr_document p)" "a_source_version a = nat_to_str 1"
    using prepare_twice [OF assms(1,3-5,7-10)] by blast
  have "nat_to_str (d_version d) \<noteq> nat_to_str 1" using nat_to_str_inj [of 2 1] s2(4) by auto
  then have "\<not> list_ex (\<lambda>d. d_action d = Some (fresh s) \<and> d_firm d = a_firm a \<and> nat_to_str (d_version d) = nat_to_str 1
                      \<and> d_hash d = Some digest) (drafts s2)"
    by (intro no_other_draft_bound [OF assms(2), where d = d]) (simp_all add: s2(2))
  moreover have "a_id b \<noteq> fresh s" if "b \<in> set (actions s)" for b using that assms(1) by (auto simp: ledger_ok_def)
  ultimately have "\<not> bound_to_review s2 (fresh s) (f_firm firm) digest"
    using s2(3,5,6) assms(6) by (auto simp: bound_to_review_def s2(1) list_ex_iff)
  then show ?thesis using assms(11)
    by (simp add: approve_route_def transaction_def as_http_def otry_def require_def op_simps)
qed

definition sample_preparation :: preparation where
  "sample_preparation = \<lparr> pr_user = ''u'', pr_firm = ''f'', pr_client = ''c'', pr_document = ''doc-1'',
     pr_provider = ''ZOHO_BOOKS'', pr_operation = ''zoho.write.purchase_bill.create'', pr_payload = VDict [(''x'', VInt 1)],
     pr_mappings = VDict [], pr_totals = [], pr_state = ''PASSED'', pr_missing = [], pr_installation = None,
     pr_reason = ''Reviewer prepared purchase action'' \<rparr>"

lemma second_preparation_unapprovable_witness:
  "fst (approve_route sample_reviewer 0 ''digest'' ''correlation''
      (snd (prepare_action sample_preparation (snd (prepare_action sample_preparation empty_db)))))
   = Inl (HTTPException 409 ''The reviewed draft version changed; prepare it again before approval'')"
proof -
  obtain h where h: "compute_payload_hash (pr_payload sample_preparation) = Inr h"
    by (auto simp: compute_payload_hash_def sample_preparation_def)
  have e: "fresh empty_db = 0" "drafts empty_db = []" "actions empty_db = []" by (simp_all add: empty_db_def)
  show ?thesis
    using second_preparation_unapprovable [of empty_db sample_preparation h, OF _ _ _ h _ _ _ _ refl refl,
        of sample_reviewer "''digest''" "''correlation''"]
    by (simp add: e sample_preparation_def sample_reviewer_def)
qed

end
