(* ===== verification/Registers.thy ===== *)
theory Registers
  imports Finance_Actions Money
begin

text \<open>
  Provider-object snapshots and read-back verification records (\<open>connectors/platform/provider_objects.py\<close>)
  and the purchase and sales registers projected from matched verifications
  (\<open>core/purchase_invoices/projection.py\<close>, \<open>core/sales_invoices/projection.py\<close>). What the database
  driver makes of a text passed for a \<open>date\<close> column is a parameter, \<open>db_date\<close>. The theory proves that a
  projection keeps at most one active row for each source.
\<close>

section \<open>Snapshots\<close>

definition same_object :: "string \<Rightarrow> nat option \<Rightarrow> string \<Rightarrow> string \<Rightarrow> provider_object \<Rightarrow> bool" where
  "same_object firm inst ty pid ob = (po_firm ob = firm \<and> po_installation ob = inst \<and> inst \<noteq> None \<and> po_type ob = ty \<and> po_provider_id ob = pid)"

definition change_kind :: "provider_object option \<Rightarrow> bool \<Rightarrow> string \<Rightarrow> string" where
  "change_kind prior void digest =
     (case prior of
        None \<Rightarrow> ''CREATED''
      | Some ob \<Rightarrow> if void \<and> \<not> po_void ob then ''VOIDED''
                  else if po_deleted ob then ''RESTORED''
                  else if po_hash ob \<noteq> digest then ''EDITED'' else ''UNCHANGED'')"

definition upsert_snapshot :: "string \<Rightarrow> nat option \<Rightarrow> string \<Rightarrow> string \<Rightarrow> pyval \<Rightarrow> string option \<Rightarrow> string \<Rightarrow> bool
    \<Rightarrow> (db, nat \<times> string) op" where
  "upsert_snapshot firm inst ty pid values version st void =
     obind (olift (snapshot_hash values)) (\<lambda>digest.
     obind (oget (\<lambda>s. find (same_object firm inst ty pid) (objects s))) (\<lambda>prior.
     obind new_id (\<lambda>oid.
     if \<not> jsonb_ok values then raise_db ''invalid input syntax for type json''
     else case prior of
       None \<Rightarrow>
         othen (omod (\<lambda>s. s\<lparr>objects := objects s @
             [\<lparr> po_id = oid, po_firm = firm, po_installation = inst, po_type = ty, po_provider_id = pid, po_hash = digest,
                po_snapshot = values, po_version = version, po_status = st, po_active = True, po_void = void,
                po_deleted = False, po_last_verified = None \<rparr>]\<rparr>))
           (oret (oid, change_kind prior void digest))
     | Some ob \<Rightarrow>
         othen (omod (\<lambda>s. s\<lparr>objects := map_where (same_object firm inst ty pid)
             (\<lambda>x. x\<lparr>po_hash := digest, po_snapshot := values, po_version := version, po_status := st, po_void := void,
                    po_active := \<not> void, po_deleted := False\<rparr>) (objects s)\<rparr>))
           (oret (po_id ob, change_kind prior void digest)))))"

definition mark_disappeared :: "string \<Rightarrow> nat \<Rightarrow> string \<Rightarrow> string list \<Rightarrow> (db, nat) op" where
  "mark_disappeared firm inst ty seen =
     obind (oget (\<lambda>s. length (filter (\<lambda>ob. po_firm ob = firm \<and> po_installation ob = Some inst \<and> po_type ob = ty
                          \<and> po_provider_id ob \<notin> set seen \<and> \<not> po_deleted ob) (objects s)))) (\<lambda>n.
     othen (omod (\<lambda>s. s\<lparr>objects := map_where (\<lambda>ob. po_firm ob = firm \<and> po_installation ob = Some inst \<and> po_type ob = ty
                          \<and> po_provider_id ob \<notin> set seen \<and> \<not> po_deleted ob)
                        (\<lambda>ob. ob\<lparr>po_deleted := True, po_active := False, po_status := ''DISAPPEARED''\<rparr>) (objects s)\<rparr>))
       (oret n))"

text \<open>The verdict is \<open>MISMATCH\<close> exactly when there are mismatches.\<close>

definition record_verification :: "string \<Rightarrow> nat option \<Rightarrow> nat \<Rightarrow> string \<Rightarrow> string \<Rightarrow> pyval \<Rightarrow> (string, pyval) dict
    \<Rightarrow> string \<Rightarrow> string option \<Rightarrow> (db, nat) op" where
  "record_verification firm inst aid ty pid values mismatches correlation version =
     obind (upsert_snapshot firm inst ty pid values version ''ACTIVE'' False) (\<lambda>(oid, _).
     othen (omod (\<lambda>s. s\<lparr>objects := map_where (\<lambda>ob. po_id ob = oid) (\<lambda>ob. ob\<lparr>po_last_verified := Some (now s)\<rparr>) (objects s)\<rparr>))
    (obind new_id (\<lambda>vid.
     if \<not> jsonb_ok (VDict mismatches) then raise_db ''invalid input syntax for type json''
     else
       othen (omod (\<lambda>s. s\<lparr>verifications := verifications s @
           [\<lparr> vf_id = vid, vf_firm = firm, vf_action = aid, vf_object = oid,
              vf_status = (if mismatches \<noteq> [] then MISMATCH else MATCHED), vf_fields = values,
              vf_mismatches = mismatches, vf_version = version, vf_correlation = correlation \<rparr>]\<rparr>))
         (oret vid))))"

section \<open>Projection\<close>

text \<open>\<open>_field\<close>: the value of the first extracted field with one of the keys.\<close>

fun field_of :: "pyval list \<Rightarrow> string list \<Rightarrow> string result" where
  "field_of [] keys = Inr ''''"
| "field_of (item # rest) keys =
     rbind (py_get item ''key'') (\<lambda>k.
     if k \<in> VStr ` set keys
     then rbind (py_get item ''value'') (\<lambda>v. Inr (py_strip (py_str (py_or v (VStr '''')))))
     else field_of rest keys)"

definition period_of :: "string \<Rightarrow> string result" where
  "period_of v = rbind (date_fromisoformat (take 10 v)) (\<lambda>d. Inr (zfill 2 (nat_to_str (dmonth d)) @ nat_to_str (dyear d)))"

record projection_source =
  ps_action :: action
  ps_draft :: draft
  ps_document :: document
  ps_verification :: verification
  ps_object :: provider_object

definition find_by :: "('a \<Rightarrow> bool) \<Rightarrow> 'a list \<Rightarrow> ('a \<Rightarrow> 'b option) \<Rightarrow> 'b option" where
  "find_by p xs k = (case find p xs of None \<Rightarrow> None | Some x \<Rightarrow> k x)"

definition projection_row :: "db \<Rightarrow> nat \<Rightarrow> nat \<Rightarrow> projection_source option" where
  "projection_row s aid vid =
     find_by (\<lambda>a. a_id a = aid) (actions s) (\<lambda>a.
     find_by (\<lambda>v. vf_id v = vid \<and> vf_action v = aid) (verifications s) (\<lambda>v.
     find_by (\<lambda>ob. po_id ob = vf_object v) (objects s) (\<lambda>ob.
     find_by (\<lambda>d. d_action d = Some aid \<and> list_ex (\<lambda>doc. doc_id doc = d_document d) (documents s)) (drafts s) (\<lambda>d.
     find_by (\<lambda>doc. doc_id doc = d_document d) (documents s) (\<lambda>doc.
     Some \<lparr> ps_action = a, ps_draft = d, ps_document = doc, ps_verification = v, ps_object = ob \<rparr>)))))"

definition source_identity_of :: "projection_source \<Rightarrow> string" where
  "source_identity_of src = a_provider (ps_action src) @ '':'' @ nat_to_str (po_id (ps_object src))"

definition register_id :: "string \<Rightarrow> projection_source \<Rightarrow> string" where
  "register_id prefix src = prefix @ take 24 (sha256_hex (source_identity_of src @ '':'' @ po_hash (ps_object src)))"

definition dict_of :: "pyval \<Rightarrow> (string \<times> pyval) list result" where
  "dict_of v = (case v of VDict kvs \<Rightarrow> Inr kvs | _ \<Rightarrow> Inl TypeError)"

definition int_or_zero :: "pyval \<Rightarrow> int result" where "int_or_zero v = py_int (py_or v (VInt 0))"

definition component_paise :: "pyval list \<Rightarrow> string \<Rightarrow> int result" where
  "component_paise fds key =
     rbind (field_of fds [key]) (\<lambda>v. rupees_to_paise True (if v = '''' then VInt 0 else VStr v))"

definition purchase_number :: "(string \<times> pyval) list \<Rightarrow> pyval list \<Rightarrow> string result" where
  "purchase_number payload fds =
     (let bill = get_or payload ''bill_number'' VNone; voucher = get_or payload ''voucher_number'' VNone
      in if truthy bill then Inr (py_str bill)
         else if truthy voucher then Inr (py_str voucher)
         else field_of fds [''invoiceNumber'', ''invoice_number''])"

text \<open>What is computed before the first statement, and the row of the second.\<close>

record purchase_amounts =
  pa_payload :: "(string \<times> pyval) list"
  pa_date :: string
  pa_tax :: int
  pa_taxable :: int
  pa_cgst :: int
  pa_sgst :: int
  pa_igst :: int

definition purchase_amounts_of :: "projection_source \<Rightarrow> purchase_amounts result" where
  "purchase_amounts_of src =
     rbind (dict_of (a_payload (ps_action src))) (\<lambda>payload.
     let totals = d_totals (ps_draft src); fds = doc_fields (ps_document src); stated = get_or payload ''date'' VNone in
     rbind (if truthy stated then Inr (py_str stated) else field_of fds [''invoiceDate'', ''invoice_date'']) (\<lambda>date.
     rbind (int_or_zero (get_or totals ''tax_paise'' (get_or payload ''tax_total_paise'' (get_or payload ''tax_paise'' (VInt 0))))) (\<lambda>tax.
     rbind (int_or_zero (get_or totals ''taxable_paise'' (get_or payload ''subtotal_paise'' (get_or payload ''taxable_paise'' (VInt 0))))) (\<lambda>taxable.
     rbind (component_paise fds ''cgst'') (\<lambda>cgst.
     rbind (component_paise fds ''sgst'') (\<lambda>sgst.
     rbind (component_paise fds ''igst'') (\<lambda>igst.
     Inr \<lparr> pa_payload = payload, pa_date = date, pa_tax = tax, pa_taxable = taxable, pa_cgst = cgst, pa_sgst = sgst,
           pa_igst = igst \<rparr>)))))))"

definition purchase_row :: "(string \<Rightarrow> string result) \<Rightarrow> projection_source \<Rightarrow> purchase_amounts \<Rightarrow> register_row result" where
  "purchase_row db_date src pa =
     (let totals = d_totals (ps_draft src); fds = doc_fields (ps_document src); payload = pa_payload pa in
     rbind (period_of (pa_date pa)) (\<lambda>period.
     rbind (purchase_number payload fds) (\<lambda>number.
     rbind (field_of fds [''gstin'', ''vendorGstin'', ''vendor_gstin'']) (\<lambda>gstin.
     rbind (py_int (get_or totals ''total_paise'' (get_or payload ''total_paise'' (VInt 0)))) (\<lambda>total.
     rbind (py_int (get_or totals ''other_charges_paise'' (VInt 0))) (\<lambda>other.
     rbind (db_date (pa_date pa)) (\<lambda>stored.
     Inr \<lparr> g_id = register_id ''pr-'' src, g_firm = a_firm (ps_action src), g_client = a_client (ps_action src), g_period = period,
           g_number = number, g_party = doc_vendor (ps_document src), g_gstin = gstin, g_date = stored, g_total = total,
           g_tax = pa_tax pa, g_taxable = pa_taxable pa, g_cgst = pa_cgst pa, g_sgst = pa_sgst pa, g_igst = pa_igst pa,
           g_other = other, g_status = po_status (ps_object src), g_source = source_identity_of src,
           g_source_version = po_hash (ps_object src), g_provider = a_provider (ps_action src),
           g_provider_object = po_provider_id (ps_object src), g_document = d_document (ps_draft src),
           g_draft = d_id (ps_draft src), g_action = a_id (ps_action src),
           g_verification = vf_id (ps_verification src), g_active = True \<rparr>)))))))"

text \<open>The two statements on the register: older versions of the source are superseded, and the row is
  inserted or, when this version is already there, made the active one again.\<close>

definition supersede :: "projection_source \<Rightarrow> register_row list \<Rightarrow> register_row list" where
  "supersede src = map_where (\<lambda>r. g_firm r = a_firm (ps_action src) \<and> g_client r = a_client (ps_action src)
       \<and> g_source r = source_identity_of src \<and> g_source_version r \<noteq> po_hash (ps_object src) \<and> g_active r)
     (\<lambda>r. r\<lparr>g_active := False\<rparr>)"

definition same_version :: "register_row \<Rightarrow> register_row \<Rightarrow> bool" where
  "same_version row r = (g_firm r = g_firm row \<and> g_client r = g_client row \<and> g_source r = g_source row
     \<and> g_source_version r = g_source_version row)"

definition insert_row :: "register_row \<Rightarrow> register_row list \<Rightarrow> register_row list" where
  "insert_row row rows =
     (if list_ex (same_version row) rows
      then map_where (same_version row)
             (\<lambda>r. r\<lparr>g_status := g_status row, g_verification := g_verification row,
                    g_provider_object := g_provider_object row, g_active := True\<rparr>) rows
      else rows @ [row])"

definition mark_posted :: "projection_source \<Rightarrow> db \<Rightarrow> db" where
  "mark_posted src s =
     s\<lparr>documents := map_where (\<lambda>d. doc_id d = d_document (ps_draft src)) (\<lambda>d. d\<lparr>doc_status := ''POSTED''\<rparr>) (documents s),
       drafts := map_where (\<lambda>d. d_id d = d_id (ps_draft src))
                   (\<lambda>d. d\<lparr>d_status := ''POSTED'', d_external := Some (po_provider_id (ps_object src))\<rparr>) (drafts s)\<rparr>"

definition project_verified_purchase :: "(string \<Rightarrow> string result) \<Rightarrow> nat \<Rightarrow> nat \<Rightarrow> (db, string option) op" where
  "project_verified_purchase db_date aid vid =
     obind (oget (\<lambda>s. projection_row s aid vid)) (\<lambda>found.
     case found of
       None \<Rightarrow> oret None
     | Some src \<Rightarrow>
         if vf_status (ps_verification src) \<noteq> MATCHED then oret None
         else
           obind (olift (purchase_amounts_of src)) (\<lambda>pa.
           othen (omod (\<lambda>s. s\<lparr>purchases := supersede src (purchases s)\<rparr>))
          (obind (olift (purchase_row db_date src pa)) (\<lambda>row.
           othen (omod (\<lambda>s. s\<lparr>purchases := insert_row row (purchases s)\<rparr>))
          (othen (omod (mark_posted src)) (oret (Some (g_id row))))))))"

definition sales_number :: "(string \<times> pyval) list \<Rightarrow> string" where
  "sales_number payload = (let v = get_or payload ''invoice_number'' VNone in if v = VNone then '''' else py_str v)"

definition snapshot_or_field :: "(string \<times> pyval) list \<Rightarrow> string \<Rightarrow> string result \<Rightarrow> string result" where
  "snapshot_or_field snapshot key alternative =
     (let v = get_or snapshot key VNone in if truthy v then Inr (py_str v) else alternative)"

text \<open>The sales projection takes party and number from the provider's snapshot; its place of supply and
  e-invoice columns are left out of the row, and \<open>g_other\<close> holds the cess.\<close>

definition sales_head :: "projection_source \<Rightarrow> ((string \<times> pyval) list \<times> (string \<times> pyval) list \<times> string \<times> string) result" where
  "sales_head src =
     rbind (dict_of (a_payload (ps_action src))) (\<lambda>payload.
     rbind (dict_of (po_snapshot (ps_object src))) (\<lambda>snapshot.
     let stated = get_or payload ''date'' VNone in
     rbind (if truthy stated then Inr (py_str stated)
            else field_of (doc_fields (ps_document src)) [''invoiceDate'', ''invoice_date'']) (\<lambda>date.
     rbind (period_of date) (\<lambda>period. Inr (payload, snapshot, date, period)))))"

definition sales_row :: "(string \<Rightarrow> string result) \<Rightarrow> projection_source
    \<Rightarrow> (string \<times> pyval) list \<times> (string \<times> pyval) list \<times> string \<times> string \<Rightarrow> register_row result" where
  "sales_row db_date src head =
     (let (payload, snapshot, date, period) = head; totals = d_totals (ps_draft src); fds = doc_fields (ps_document src) in
     rbind (snapshot_or_field snapshot ''customer_name'' (Inr (doc_vendor (ps_document src)))) (\<lambda>party.
     rbind (snapshot_or_field snapshot ''customer_gstin'' (field_of fds [''customerGstin'', ''gstin''])) (\<lambda>gstin.
     rbind (py_int (get_or totals ''total_paise'' (get_or payload ''total_paise'' (VInt 0)))) (\<lambda>total.
     rbind (py_int (get_or totals ''tax_paise'' (get_or payload ''tax_total_paise'' (VInt 0)))) (\<lambda>tax.
     rbind (py_int (get_or totals ''taxable_paise'' (get_or payload ''subtotal_paise'' (VInt 0)))) (\<lambda>taxable.
     rbind (component_paise fds ''cgst'') (\<lambda>cgst.
     rbind (component_paise fds ''sgst'') (\<lambda>sgst.
     rbind (component_paise fds ''igst'') (\<lambda>igst.
     rbind (component_paise fds ''cess'') (\<lambda>cess.
     rbind (db_date date) (\<lambda>stored.
     Inr \<lparr> g_id = register_id ''sr-'' src, g_firm = a_firm (ps_action src), g_client = a_client (ps_action src), g_period = period,
           g_number = sales_number payload, g_party = party, g_gstin = gstin, g_date = stored, g_total = total,
           g_tax = tax, g_taxable = taxable, g_cgst = cgst, g_sgst = sgst, g_igst = igst, g_other = cess,
           g_status = po_status (ps_object src), g_source = source_identity_of src, g_source_version = po_hash (ps_object src),
           g_provider = a_provider (ps_action src), g_provider_object = po_provider_id (ps_object src),
           g_document = d_document (ps_draft src), g_draft = d_id (ps_draft src), g_action = a_id (ps_action src),
           g_verification = vf_id (ps_verification src), g_active = True \<rparr>)))))))))))"

text \<open>On conflict the sales statement leaves the provider object id alone.\<close>

definition insert_sales_row :: "register_row \<Rightarrow> register_row list \<Rightarrow> register_row list" where
  "insert_sales_row row rows =
     (if list_ex (same_version row) rows
      then map_where (same_version row)
             (\<lambda>r. r\<lparr>g_status := g_status row, g_verification := g_verification row, g_active := True\<rparr>) rows
      else rows @ [row])"

definition project_verified_sale :: "(string \<Rightarrow> string result) \<Rightarrow> nat \<Rightarrow> nat \<Rightarrow> (db, string option) op" where
  "project_verified_sale db_date aid vid =
     obind (oget (\<lambda>s. projection_row s aid vid)) (\<lambda>found.
     case found of
       None \<Rightarrow> oret None
     | Some src \<Rightarrow>
         if vf_status (ps_verification src) \<noteq> MATCHED then oret None
         else
           obind (olift (sales_head src)) (\<lambda>head.
           othen (omod (\<lambda>s. s\<lparr>sales := supersede src (sales s)\<rparr>))
          (obind (olift (sales_row db_date src head)) (\<lambda>row.
           othen (omod (\<lambda>s. s\<lparr>sales := insert_sales_row row (sales s)\<rparr>))
          (othen (omod (mark_posted src)) (oret (Some (g_id row))))))))"

section \<open>Statements on these tables keep the ledger\<close>

lemma ledger_more_verifications:
  "ledger_ok W s \<Longrightarrow> ledger_ok W (s\<lparr>verifications := verifications s @ vs\<rparr>)"
  by (auto simp: ledger_ok_def action_ok_def job_ok_def has_match_def)

lemma keeps_upsert_snapshot: "keeps (ledger_ok W) (upsert_snapshot firm inst ty pid values version st void)"
  unfolding upsert_snapshot_def by (intro keeps_intros keeps_omod) simp_all

lemma keeps_record_verification:
  "keeps (ledger_ok W) (record_verification firm inst aid ty pid values mismatches correlation version)"
  unfolding record_verification_def
  by (intro keeps_intros keeps_upsert_snapshot keeps_omod) (simp_all add: ledger_more_verifications)

lemma keeps_mark_disappeared: "keeps (ledger_ok W) (mark_disappeared firm inst ty seen)"
  unfolding mark_disappeared_def by (intro keeps_intros keeps_omod) simp_all

lemma keeps_project_purchase: "keeps (ledger_ok W) (project_verified_purchase db_date aid vid)"
  unfolding project_verified_purchase_def by (intro keeps_intros keeps_omod) (simp_all add: mark_posted_def)

lemma keeps_project_sale: "keeps (ledger_ok W) (project_verified_sale db_date aid vid)"
  unfolding project_verified_sale_def by (intro keeps_intros keeps_omod) (simp_all add: mark_posted_def)

section \<open>One active row for each source\<close>

definition row_source :: "register_row \<Rightarrow> string \<times> string \<times> string" where
  "row_source r = (g_firm r, g_client r, g_source r)"

definition register_ok :: "register_row list \<Rightarrow> bool" where
  "register_ok rows = (distinct (map (\<lambda>r. (row_source r, g_source_version r)) rows)
                       \<and> distinct (map row_source (filter g_active rows)))"

definition src_source :: "projection_source \<Rightarrow> string \<times> string \<times> string" where
  "src_source src = (a_firm (ps_action src), a_client (ps_action src), source_identity_of src)"

lemma supersede_map:
  "supersede src rows = map (\<lambda>r. if row_source r = src_source src \<and> g_source_version r \<noteq> po_hash (ps_object src) \<and> g_active r
                                then r\<lparr>g_active := False\<rparr> else r) rows"
  by (auto simp: supersede_def map_where_def row_source_def src_source_def)

lemma same_version_iff: "same_version row r \<longleftrightarrow> row_source r = row_source row \<and> g_source_version r = g_source_version row"
  by (auto simp: same_version_def row_source_def)

lemma distinct_map_filter_mono:
  "distinct (map f (filter p xs)) \<Longrightarrow> (\<And>x. x \<in> set xs \<Longrightarrow> q (g x) \<Longrightarrow> p x) \<Longrightarrow> (\<And>x. f (g x) = f x) \<Longrightarrow>
     distinct (map f (filter q (map g xs)))"
proof (induction xs)
  case (Cons a xs)
  have ih: "distinct (map f (filter q (map g xs)))"
    using Cons.prems by (intro Cons.IH) (auto split: if_splits)
  have "f (g a) \<notin> f ` {y \<in> g ` set xs. q y}" if "q (g a)"
  proof
    assume "f (g a) \<in> f ` {y \<in> g ` set xs. q y}"
    then obtain x where x: "x \<in> set xs" "q (g x)" "f a = f x" using Cons.prems(3) by auto
    have "p a" "p x" using Cons.prems(2) x that by auto
    then show False using Cons.prems(1) x by auto
  qed
  then show ?case using ih by auto
qed simp

lemma supersede_ok:
  assumes "register_ok rows"
  shows "register_ok (supersede src rows)
     \<and> (\<forall>r\<in>set (supersede src rows). g_active r \<longrightarrow> row_source r = src_source src \<longrightarrow> g_source_version r = po_hash (ps_object src))"
proof -
  define g where "g = (\<lambda>r. if row_source r = src_source src \<and> g_source_version r \<noteq> po_hash (ps_object src) \<and> g_active r
                then r\<lparr>g_active := False\<rparr> else r)"
  have sup: "supersede src rows = map g rows" by (simp add: supersede_map g_def)
  have src: "row_source (g r) = row_source r" "g_source_version (g r) = g_source_version r"
    and act: "g_active (g r) \<Longrightarrow> g_active r"
    and old: "g_active (g r) \<Longrightarrow> row_source r = src_source src \<Longrightarrow> g_source_version r = po_hash (ps_object src)" for r
    by (auto simp: g_def row_source_def split: if_splits)
  have "distinct (map row_source (filter g_active (map g rows)))"
    by (rule distinct_map_filter_mono [where p = g_active]) (use assms src act in \<open>auto simp: register_ok_def\<close>)
  moreover have "map (\<lambda>r. (row_source r, g_source_version r)) (map g rows) = map (\<lambda>r. (row_source r, g_source_version r)) rows"
    by (simp add: src)
  ultimately have "register_ok (map g rows)" using assms unfolding register_ok_def by metis
  moreover have "\<forall>r\<in>set (map g rows). g_active r \<longrightarrow> row_source r = src_source src \<longrightarrow> g_source_version r = po_hash (ps_object src)"
    using src old by auto
  ultimately show ?thesis by (simp add: sup)
qed

text \<open>Writing the current version of a source into a register whose other versions are inactive, where
  \<open>f\<close> is what the conflict clause makes of the row that is there.\<close>

definition write_row :: "(register_row \<Rightarrow> register_row) \<Rightarrow> register_row \<Rightarrow> register_row list \<Rightarrow> register_row list" where
  "write_row f row rows = (if list_ex (same_version row) rows then map_where (same_version row) f rows else rows @ [row])"

lemma write_row_ok:
  assumes "register_ok rows" and "g_active row"
    and only: "\<forall>r\<in>set rows. g_active r \<longrightarrow> row_source r = row_source row \<longrightarrow> g_source_version r = g_source_version row"
    and f: "\<And>r. row_source (f r) = row_source r" "\<And>r. g_source_version (f r) = g_source_version r" "\<And>r. g_active (f r)"
  shows "register_ok (write_row f row rows)
     \<and> (\<exists>!r. r \<in> set (write_row f row rows) \<and> row_source r = row_source row \<and> g_active r)
     \<and> (\<forall>r\<in>set (write_row f row rows). row_source r = row_source row \<longrightarrow> g_active r \<longrightarrow> g_source_version r = g_source_version row)"
proof -
  define new where "new = write_row f row rows"
  have versions: "distinct (map (\<lambda>r. (row_source r, g_source_version r)) new)"
  proof (cases "list_ex (same_version row) rows")
    case True
    have "map (\<lambda>r. (row_source r, g_source_version r)) (map_where (same_version row) f rows)
        = map (\<lambda>r. (row_source r, g_source_version r)) rows"
      by (rule map_map_where) (simp add: f)
    then show ?thesis using assms(1) True by (simp add: new_def write_row_def register_ok_def)
  next
    case False
    then show ?thesis using assms(1) by (auto simp: new_def write_row_def register_ok_def list_ex_iff same_version_iff)
  qed
  have members: "r \<in> set new \<Longrightarrow> r \<in> set rows \<and> \<not> same_version row r
      \<or> row_source r = row_source row \<and> g_source_version r = g_source_version row \<and> g_active r" for r
    using assms(2) f by (auto simp: new_def write_row_def map_where_def same_version_iff list_ex_iff split: if_splits)
  have vers: "\<forall>r\<in>set new. row_source r = row_source row \<longrightarrow> g_active r \<longrightarrow> g_source_version r = g_source_version row"
    using members only by (auto simp: same_version_iff)
  have uniq: "a = b" if "a \<in> set new" "b \<in> set new" "row_source a = row_source b" "g_source_version a = g_source_version b" for a b
    using versions that by (auto simp: distinct_map dest: inj_onD)
  have "\<exists>r\<in>set new. same_version row r"
  proof (cases "list_ex (same_version row) rows")
    case True
    then obtain r where "r \<in> set rows" "same_version row r" by (auto simp: list_ex_iff)
    then have "f r \<in> set new" "same_version row (f r)"
      using True f by (auto simp: new_def write_row_def map_where_def same_version_iff)
    then show ?thesis by blast
  qed (simp add: new_def write_row_def same_version_iff)
  then obtain r where r: "r \<in> set new" "row_source r = row_source row" "g_source_version r = g_source_version row"
    by (auto simp: same_version_iff)
  then have "g_active r" using members [OF r(1)] by (auto simp: same_version_iff)
  then have one: "\<exists>!r. r \<in> set new \<and> row_source r = row_source row \<and> g_active r"
    using r vers uniq by (intro ex1I [of _ r]) auto
  have "inj_on row_source {r \<in> set new. g_active r}"
  proof (rule inj_onI)
    fix a b assume ab: "a \<in> {r \<in> set new. g_active r}" "b \<in> {r \<in> set new. g_active r}" "row_source a = row_source b"
    show "a = b"
    proof (cases "row_source a = row_source row")
      case True
      then show ?thesis using one ab by (auto dest: ex1_implies_ex)
    next
      case False
      then have "a \<in> set rows" "b \<in> set rows" using ab members [of a] members [of b] by auto
      then show ?thesis using ab assms(1) by (auto simp: register_ok_def distinct_map dest: inj_onD)
    qed
  qed
  moreover have "distinct (filter g_active new)" using versions by (simp add: distinct_map)
  ultimately have "register_ok new" using versions by (simp add: register_ok_def distinct_map)
  then show ?thesis using one vers unfolding new_def by blast
qed

lemma insert_row_write: "g_active row \<Longrightarrow> insert_row row = write_row (\<lambda>r. r\<lparr>g_status := g_status row, g_verification := g_verification row,
                    g_provider_object := g_provider_object row, g_active := True\<rparr>) row"
  by (rule ext) (simp add: insert_row_def write_row_def)

lemma insert_sales_row_write: "g_active row \<Longrightarrow> insert_sales_row row = write_row (\<lambda>r. r\<lparr>g_status := g_status row,
                    g_verification := g_verification row, g_active := True\<rparr>) row"
  by (rule ext) (simp add: insert_sales_row_def write_row_def)

lemma purchase_row_source:
  "purchase_row db_date src pa = Inr row \<Longrightarrow>
     row_source row = src_source src \<and> g_source_version row = po_hash (ps_object src) \<and> g_active row"
  by (auto simp: purchase_row_def Let_def rbind_eq_Inr row_source_def src_source_def)

lemma sales_row_source:
  "sales_row db_date src head = Inr row \<Longrightarrow>
     row_source row = src_source src \<and> g_source_version row = po_hash (ps_object src) \<and> g_active row"
  by (auto simp: sales_row_def Let_def rbind_eq_Inr row_source_def src_source_def split: prod.splits)

lemma project_purchaseE:
  assumes "project_verified_purchase db_date aid vid s = (Inr (Some rid), s')"
  obtains src pa row where "projection_row s aid vid = Some src" "vf_status (ps_verification src) = MATCHED"
    "purchase_amounts_of src = Inr pa" "purchase_row db_date src pa = Inr row" "rid = g_id row"
    "purchases s' = insert_row row (supersede src (purchases s))" "sales s' = sales s"
  using assms unfolding project_verified_purchase_def
  by (auto elim!: obind_InrE othen_InrE simp: op_results mark_posted_def split: option.splits if_splits)

lemma project_saleE:
  assumes "project_verified_sale db_date aid vid s = (Inr (Some rid), s')"
  obtains src head row where "projection_row s aid vid = Some src" "vf_status (ps_verification src) = MATCHED"
    "sales_head src = Inr head" "sales_row db_date src head = Inr row" "rid = g_id row"
    "sales s' = insert_sales_row row (supersede src (sales s))" "purchases s' = purchases s"
  using assms unfolding project_verified_sale_def
  by (auto elim!: obind_InrE othen_InrE simp: op_results mark_posted_def split: option.splits if_splits)

lemma write_after_supersede:
  assumes "register_ok rows" and "row_source row = src_source src \<and> g_source_version row = po_hash (ps_object src) \<and> g_active row"
    and "\<And>r. row_source (f r) = row_source r" and "\<And>r. g_source_version (f r) = g_source_version r" and "\<And>r. g_active (f r)"
  shows "register_ok (write_row f row (supersede src rows))
     \<and> (\<exists>!r. r \<in> set (write_row f row (supersede src rows)) \<and> row_source r = src_source src \<and> g_active r)
     \<and> (\<forall>r\<in>set (write_row f row (supersede src rows)). row_source r = src_source src \<longrightarrow> g_active r \<longrightarrow> g_source_version r = po_hash (ps_object src))"
  using write_row_ok [of "supersede src rows" row f] supersede_ok [OF assms(1), of src] assms(2-5) by simp

text \<open>
  C11. A projection leaves exactly one active row for its source. From a register with at most one active
  row for each firm, client and source, projecting a matched purchase keeps that so, and the active row
  of the projected source is the one whose version is the verified snapshot's hash.
\<close>

theorem purchase_projection_single_active:
  assumes "register_ok (purchases s)" and "project_verified_purchase db_date aid vid s = (Inr (Some rid), s')"
  shows "register_ok (purchases s')
     \<and> (\<exists>src. projection_row s aid vid = Some src \<and> vf_status (ps_verification src) = MATCHED
          \<and> (\<exists>!r. r \<in> set (purchases s') \<and> row_source r = src_source src \<and> g_active r)
          \<and> (\<forall>r\<in>set (purchases s'). row_source r = src_source src \<longrightarrow> g_active r \<longrightarrow> g_source_version r = po_hash (ps_object src)))"
proof -
  obtain src pa row where p: "projection_row s aid vid = Some src" "vf_status (ps_verification src) = MATCHED"
    "purchase_row db_date src pa = Inr row" "purchases s' = insert_row row (supersede src (purchases s))"
    using assms(2) by (rule project_purchaseE)
  have r: "row_source row = src_source src \<and> g_source_version row = po_hash (ps_object src) \<and> g_active row"
    by (rule purchase_row_source [OF p(3)])
  define f :: "register_row \<Rightarrow> register_row" where "f = (\<lambda>r. r\<lparr>g_status := g_status row, g_verification := g_verification row,
                    g_provider_object := g_provider_object row, g_active := True\<rparr>)"
  have w: "purchases s' = write_row f row (supersede src (purchases s))"
    using p(4) insert_row_write r by (simp add: f_def)
  have f: "row_source (f r) = row_source r" "g_source_version (f r) = g_source_version r" "g_active (f r)" for r
    by (simp_all add: f_def row_source_def)
  show ?thesis using write_after_supersede [OF assms(1) r f] p(1,2) unfolding w by blast
qed

text \<open>Replaying a projection.\<close>

lemma find_map_where:
  "(\<And>x. p (f x) = p x) \<Longrightarrow> find p (map_where q f xs) = map_option (\<lambda>x. if q x then f x else x) (find p xs)"
  by (induction xs) (auto simp: map_where_def)

lemma list_ex_map_where: "(\<And>x. p (f x) = p x) \<Longrightarrow> list_ex p (map_where q f xs) = list_ex p xs"
  by (induction xs) (auto simp: map_where_def)

definition posted :: "projection_source \<Rightarrow> projection_source" where
  "posted src = src\<lparr>ps_draft := (ps_draft src)\<lparr>d_status := ''POSTED'', d_external := Some (po_provider_id (ps_object src))\<rparr>,
                    ps_document := (ps_document src)\<lparr>doc_status := ''POSTED''\<rparr>\<rparr>"

lemma projection_row_posted:
  assumes "projection_row s aid vid = Some src"
  shows "projection_row (mark_posted src s) aid vid = Some (posted src)"
proof -
  let ?fd = "\<lambda>d. d\<lparr>d_status := ''POSTED'', d_external := Some (po_provider_id (ps_object src))\<rparr>"
  let ?fo = "\<lambda>d. d\<lparr>doc_status := ''POSTED''\<rparr>"
  have found: "find (\<lambda>a. a_id a = aid) (actions s) = Some (ps_action src)"
    "find (\<lambda>v. vf_id v = vid \<and> vf_action v = aid) (verifications s) = Some (ps_verification src)"
    "find (\<lambda>ob. po_id ob = vf_object (ps_verification src)) (objects s) = Some (ps_object src)"
    "find (\<lambda>d. d_action d = Some aid \<and> list_ex (\<lambda>doc. doc_id doc = d_document d) (documents s)) (drafts s) = Some (ps_draft src)"
    "find (\<lambda>doc. doc_id doc = d_document (ps_draft src)) (documents s) = Some (ps_document src)"
    using assms by (auto simp: projection_row_def find_by_def split: option.splits)
  have doc: "doc_id (ps_document src) = d_document (ps_draft src)" using found(5) by (auto simp: find_Some_iff)
  have s': "actions (mark_posted src s) = actions s" "verifications (mark_posted src s) = verifications s"
    "objects (mark_posted src s) = objects s"
    "documents (mark_posted src s) = map_where (\<lambda>d. doc_id d = d_document (ps_draft src)) ?fo (documents s)"
    "drafts (mark_posted src s) = map_where (\<lambda>d. d_id d = d_id (ps_draft src)) ?fd (drafts s)"
    by (simp_all add: mark_posted_def)
  have docs: "list_ex (\<lambda>doc. doc_id doc = x) (documents (mark_posted src s)) = list_ex (\<lambda>doc. doc_id doc = x) (documents s)" for x
    by (simp add: s' list_ex_map_where)
  have d: "find (\<lambda>d. d_action d = Some aid \<and> list_ex (\<lambda>doc. doc_id doc = d_document d) (documents (mark_posted src s)))
      (drafts (mark_posted src s)) = Some (?fd (ps_draft src))"
    unfolding docs s'(5) by (subst find_map_where) (simp_all add: found(4))
  have o: "find (\<lambda>doc. doc_id doc = d_document (ps_draft src)) (documents (mark_posted src s)) = Some (?fo (ps_document src))"
    unfolding s'(4) by (subst find_map_where) (simp_all add: found(5) doc)
  show ?thesis using d o by (simp add: projection_row_def find_by_def s'(1-3) found posted_def)
qed

lemma posted_same [simp]:
  "ps_action (posted src) = ps_action src" "ps_verification (posted src) = ps_verification src" "ps_object (posted src) = ps_object src"
  "d_totals (ps_draft (posted src)) = d_totals (ps_draft src)" "doc_fields (ps_document (posted src)) = doc_fields (ps_document src)"
  "doc_vendor (ps_document (posted src)) = doc_vendor (ps_document src)" "d_document (ps_draft (posted src)) = d_document (ps_draft src)"
  "d_id (ps_draft (posted src)) = d_id (ps_draft src)" "source_identity_of (posted src) = source_identity_of src"
  "register_id prefix (posted src) = register_id prefix src" "src_source (posted src) = src_source src"
  "supersede (posted src) = supersede src"
  by (simp_all add: posted_def source_identity_of_def register_id_def src_source_def supersede_def)

lemma amounts_posted: "purchase_amounts_of (posted src) = purchase_amounts_of src"
  by (simp add: purchase_amounts_of_def)

lemma row_posted: "purchase_row db_date (posted src) pa = purchase_row db_date src pa"
  by (simp add: purchase_row_def)

lemma supersede_settled:
  assumes "\<forall>r\<in>set rows. row_source r = src_source src \<longrightarrow> g_active r \<longrightarrow> g_source_version r = po_hash (ps_object src)"
  shows "supersede src rows = rows"
  unfolding supersede_map by (rule map_idI) (use assms in auto)

lemma write_again:
  assumes "\<And>r. f (f r) = f r" and "f row = row" and "\<And>r. same_version row (f r) = same_version row r"
  shows "write_row f row (write_row f row rows) = write_row f row rows"
proof -
  have refl: "same_version row row" by (simp add: same_version_def)
  show ?thesis
  proof (cases "list_ex (same_version row) rows")
    case True
    have "map_where (same_version row) f (map_where (same_version row) f rows) = map_where (same_version row) f rows"
      by (simp add: map_where_def assms(1,3))
    then show ?thesis using True list_ex_map_where [of "same_version row" f, OF assms(3)] by (simp add: write_row_def)
  next
    case False
    then have "map_where (same_version row) f rows = rows"
      by (intro map_where_none) (auto simp: find_None_iff list_ex_iff)
    then show ?thesis using False refl assms(2)
      by (simp add: write_row_def map_where_append) (simp add: map_where_def)
  qed
qed

text \<open>
  Replaying a projection is a no-op on the register: projecting the same action and verification a
  second time succeeds, returns the same register id and leaves every row of the purchase register as
  it was.
\<close>

theorem purchase_projection_replay:
  assumes "register_ok (purchases s)" and "project_verified_purchase db_date aid vid s = (Inr (Some rid), s')"
  shows "\<exists>s''. project_verified_purchase db_date aid vid s' = (Inr (Some rid), s'') \<and> purchases s'' = purchases s'"
proof -
  obtain src pa row where p: "projection_row s aid vid = Some src" "vf_status (ps_verification src) = MATCHED"
    "purchase_amounts_of src = Inr pa" "purchase_row db_date src pa = Inr row" "rid = g_id row"
    "purchases s' = insert_row row (supersede src (purchases s))"
    using assms(2) by (rule project_purchaseE)
  have s': "s' = mark_posted src (s\<lparr>purchases := purchases s'\<rparr>)"
    using assms(2) p by (simp add: project_verified_purchase_def op_simps mark_posted_def)
  have row: "projection_row (s\<lparr>purchases := purchases s'\<rparr>) aid vid = Some src"
    using p(1) by (simp add: projection_row_def)
  have again: "projection_row s' aid vid = Some (posted src)" using projection_row_posted [OF row] s' by simp
  have r: "row_source row = src_source src \<and> g_source_version row = po_hash (ps_object src) \<and> g_active row"
    by (rule purchase_row_source [OF p(4)])
  define f :: "register_row \<Rightarrow> register_row" where "f = (\<lambda>r. r\<lparr>g_status := g_status row, g_verification := g_verification row,
                    g_provider_object := g_provider_object row, g_active := True\<rparr>)"
  have f: "row_source (f r) = row_source r" "g_source_version (f r) = g_source_version r" "g_active (f r)" for r
    by (simp_all add: f_def row_source_def)
  have ins: "insert_row row = write_row f row" using insert_row_write r by (simp add: f_def)
  have "\<forall>r\<in>set (purchases s'). row_source r = src_source src \<longrightarrow> g_active r \<longrightarrow> g_source_version r = po_hash (ps_object src)"
    using write_after_supersede [OF assms(1) r f] p(6) ins by simp
  then have settled: "supersede src (purchases s') = purchases s'" by (rule supersede_settled)
  have "f row = row" using r by (simp add: f_def)
  then have same: "insert_row row (purchases s') = purchases s'"
    unfolding p(6) ins by (intro write_again) (simp_all add: f_def same_version_def)
  show ?thesis using again p(2-5) settled same
    by (simp add: project_verified_purchase_def op_simps amounts_posted row_posted mark_posted_def)
qed

definition projection_db :: db where
  "projection_db = empty_db\<lparr>
     actions := [(proposed_action 0 ''h'' agent_proposal)\<lparr>a_status := VERIFYING, a_payload := VDict [(''date'', VStr ''2025-04-01'')]\<rparr>],
     verifications := [\<lparr> vf_id = 1, vf_firm = ''f'', vf_action = 0, vf_object = 2, vf_status = MATCHED, vf_fields = VDict [],
                         vf_mismatches = [], vf_version = None, vf_correlation = ''c'' \<rparr>],
     objects := [\<lparr> po_id = 2, po_firm = ''f'', po_installation = Some 9, po_type = ''purchase_bill'', po_provider_id = ''b1'',
                   po_hash = ''v1'', po_snapshot = VDict [], po_version = None, po_status = ''ACTIVE'', po_active = True,
                   po_void = False, po_deleted = False, po_last_verified = None \<rparr>],
     drafts := [(new_draft 3 None (document_draft sample_preparation (Some 0)))],
     documents := [\<lparr> doc_id = ''doc-1'', doc_firm = ''f'', doc_vendor = ''V'', doc_fields = [], doc_status = ''REVIEWED'' \<rparr>]\<rparr>"

lemma zero_rupees: "rupees_to_paise True (VInt 0) = Inr 0" by code_simp

lemma sample_period: "period_of ''2025-04-01'' = Inr ''042025''" by code_simp

lemma projection_sample:
  "\<exists>rid s'. project_verified_purchase Inr 0 1 projection_db = (Inr (Some rid), s')"
proof -
  have "get_or [(''date'', VStr ''2025-04-01'')] ''date'' VNone = VStr ''2025-04-01''" by simp
  then show ?thesis
    by (simp add: project_verified_purchase_def op_simps projection_row_def find_by_def projection_db_def empty_db_def
        proposed_action_def agent_proposal_def sample_proposal_def new_draft_def document_draft_def sample_preparation_def
        purchase_amounts_of_def purchase_row_def dict_of_def component_paise_def zero_rupees sample_period int_or_zero_def
        purchase_number_def Let_def)
qed

lemma purchase_projection_single_active_witness:
  "\<exists>rid s'. project_verified_purchase Inr 0 1 projection_db = (Inr (Some rid), s') \<and> register_ok (purchases s')
     \<and> (\<exists>r\<in>set (purchases s'). g_active r)"
proof -
  obtain rid s' where p: "project_verified_purchase Inr 0 1 projection_db = (Inr (Some rid), s')" using projection_sample by blast
  have "register_ok (purchases projection_db)" by (simp add: projection_db_def empty_db_def register_ok_def)
  from purchase_projection_single_active [OF this p] p show ?thesis by blast
qed

lemma purchase_projection_replay_witness:
  "\<exists>rid s' s''. project_verified_purchase Inr 0 1 projection_db = (Inr (Some rid), s')
     \<and> project_verified_purchase Inr 0 1 s' = (Inr (Some rid), s'') \<and> purchases s'' = purchases s'"
proof -
  obtain rid s' where p: "project_verified_purchase Inr 0 1 projection_db = (Inr (Some rid), s')" using projection_sample by blast
  have "register_ok (purchases projection_db)" by (simp add: projection_db_def empty_db_def register_ok_def)
  from purchase_projection_replay [OF this p] p show ?thesis by blast
qed

end
