(* ===== verification/Connector_Types.thy ===== *)
theory Connector_Types
  imports Py_Value
begin

text \<open>
  The canonical requests and results of a connector (\<open>connectors/platform/types.py\<close>). The status of a result is
  declared in the prelude, since a provider's failure carries one.
\<close>

record canonical_object =
  co_type :: string
  co_provider_id :: string
  co_values :: pyval
  co_version :: "string option"

type_synonym cursor = "string option"

record 'a connector_result =
  cr_status :: result_status
  cr_data :: "'a option"
  cr_next :: "cursor option"
  cr_reason :: string
  cr_retry :: "int option"
  cr_details :: "(string, pyval) dict"

definition connector_result_of :: "result_status \<Rightarrow> 'a option \<Rightarrow> string \<Rightarrow> (string, pyval) dict \<Rightarrow> 'a connector_result" where
  "connector_result_of st x reason details =
     \<lparr> cr_status = st, cr_data = x, cr_next = None, cr_reason = reason, cr_retry = None, cr_details = details \<rparr>"

definition plain_result :: "result_status \<Rightarrow> string \<Rightarrow> 'a connector_result" where
  "plain_result st reason = connector_result_of st None reason []"

definition data_result :: "result_status \<Rightarrow> 'a \<Rightarrow> 'a connector_result" where
  "data_result st x = connector_result_of st (Some x) '''' []"

record approved_action =
  aa_operation :: string
  aa_payload :: pyval
  aa_payload_hash :: string

end
