(* ===== verification/Automation.thy ===== *)
theory Automation
  imports Registers Connector_Types
begin

text \<open>
  The financial worker of \<open>automation/worker.py\<close>, the retry scheduler of \<open>automation/scheduler.py\<close> and
  the connector registry they use (\<open>connectors/platform/registry.py\<close>). A connector's answers come from
  outside: they are the fields of \<open>world\<close>, arbitrary functions of the call. The statements of a worker
  run commit one by one, as its connection does outside \<open>conn.transaction()\<close>; heartbeats are left out.
\<close>

section \<open>Results and connectors\<close>

record write_result =
  wr_status :: result_status
  wr_data :: "canonical_object option"
  wr_reason :: string

record verify_result =
  vr_status :: result_status
  vr_data :: pyval
  vr_mismatches :: "(string, pyval) dict"
  vr_version :: "string option"

record world =
  w_execute :: "action \<Rightarrow> nat \<Rightarrow> write_result result"
  w_verify :: "canonical_object \<Rightarrow> pyval \<Rightarrow> verify_result result"
  w_date :: "string \<Rightarrow> string result"
  w_settings :: settings
  w_overrides :: "override list result"

type_synonym registry = "((string \<times> string) \<times> string list) list"

definition register_connector :: "string \<Rightarrow> string \<Rightarrow> string list \<Rightarrow> registry \<Rightarrow> registry result" where
  "register_connector provider version caps reg =
     (if map_of reg (py_upper provider, version) \<noteq> None then Inl (ValueError ''Connector already registered'')
      else Inr (reg @ [((py_upper provider, version), caps)]))"

definition create_connector :: "registry \<Rightarrow> string \<Rightarrow> string \<Rightarrow> string \<Rightarrow> unit result" where
  "create_connector reg provider version capability =
     (case map_of reg (py_upper provider, version) of
        None \<Rightarrow> Inl (LookupFailed ''No certified implementation'')
      | Some caps \<Rightarrow> if capability \<in> set caps then Inr () else Inl (LookupFailed ''No certified implementation''))"

definition worker_registry :: registry where
  "worker_registry = [((''ZOHO_BOOKS'', ''v1''), [''zoho.write.purchase_bill.create'', ''zoho.write.sales_invoice.create''])]"

section \<open>The worker\<close>

definition MAX_ATTEMPTS :: nat where "MAX_ATTEMPTS = 5"

definition RETRYABLE :: "result_status set" where "RETRYABLE = {RATE_LIMITED, PROVIDER_UNAVAILABLE}"

definition claimable :: "db \<Rightarrow> job \<Rightarrow> bool" where
  "claimable s j =
     (j_status j = QUEUED \<and> j_available j \<le> now s
      \<and> \<not> list_ex (\<lambda>a. a_id a = j_aggregate j \<and> a_provider a = ''TALLY_PRIME'') (actions s)
      \<and> (case j_lease_until j of None \<Rightarrow> True | Some t \<Rightarrow> t < now s))"

definition insert_attempt :: "nat \<Rightarrow> nat \<Rightarrow> (db, unit) op" where
  "insert_attempt jid n =
     obind (oget attempts) (\<lambda>ts.
     if list_ex (\<lambda>t. t_job t = jid \<and> t_number t = n) ts then raise_db ''duplicate key value violates unique constraint''
     else omod (\<lambda>s. s\<lparr>attempts := attempts s @
            [\<lparr> t_job = jid, t_number = n, t_status = CLAIMED, t_error = None, t_finished = None \<rparr>]\<rparr>))"

definition claim :: "string \<Rightarrow> (db, job option) op" where
  "claim worker =
     transaction (obind (oget (\<lambda>s. find (claimable s) (jobs s))) (\<lambda>found.
     case found of
       None \<Rightarrow> oret None
     | Some job \<Rightarrow>
         obind (oget now) (\<lambda>t.
         othen (update_jobs (\<lambda>j. j_id j = j_id job)
                  (\<lambda>j. j\<lparr>j_status := CLAIMED, j_lease_owner := Some worker, j_lease_until := Some (t + 60),
                         j_attempts := j_attempts j + 1\<rparr>))
        (othen (execute_actions (\<lambda>a. a_id a = j_aggregate job \<and> a_status a = QUEUED) (set_status CLAIMED))
        (othen (insert_attempt (j_id job) (j_attempts job + 1))
           (oret (Some (job\<lparr>j_attempts := j_attempts job + 1\<rparr>))))))))"

definition complete_attempt :: "job \<Rightarrow> status \<Rightarrow> string option \<Rightarrow> (db, unit) op" where
  "complete_attempt job st code =
     othen (omod (\<lambda>s. s\<lparr>attempts := map_where (\<lambda>t. t_job t = j_id job \<and> t_number t = j_attempts job)
                          (\<lambda>t. t\<lparr>t_status := st, t_error := code, t_finished := Some (now s)\<rparr>) (attempts s)\<rparr>))
       (owhen (st = SUCCEEDED)
          (update_jobs (\<lambda>j. j_id j = j_id job)
             (\<lambda>j. j\<lparr>j_status := SUCCEEDED, j_lease_owner := None, j_lease_until := None\<rparr>)))"

definition retry_delay :: "nat \<Rightarrow> int" where "retry_delay n = min 300 (2 ^ n)"

definition add_dead_letter :: "job \<Rightarrow> string \<Rightarrow> (db, unit) op" where
  "add_dead_letter job code =
     omod (\<lambda>s. if list_ex (\<lambda>x. dl_job x = j_id job) (dead_letters s) then s
                else s\<lparr>dead_letters := dead_letters s @
                   [\<lparr> dl_job = j_id job, dl_reason = code, dl_message = ''Connector execution needs operator review'' \<rparr>]\<rparr>)"

definition finish :: "job \<Rightarrow> status \<Rightarrow> string \<Rightarrow> (db, unit) op" where
  "finish job action_status code =
     (let exhausted = (action_status = RETRY_SCHEDULED \<and> j_attempts job \<ge> MAX_ATTEMPTS);
          st = (if exhausted then DEAD_LETTER else action_status)
      in transaction
        (othen (owhen exhausted (execute_actions (\<lambda>a. a_id a = j_aggregate job) (set_status FAILED)))
        (othen (execute_actions (\<lambda>a. a_id a = j_aggregate job) (set_status st))
        (obind (oget now) (\<lambda>t.
         othen (update_jobs (\<lambda>j. j_id j = j_id job)
                  (\<lambda>j. j\<lparr>j_status := st, j_lease_owner := None, j_lease_until := None,
                         j_available := (if st = RETRY_SCHEDULED then t + retry_delay (j_attempts job) else j_available j)\<rparr>))
        (othen (complete_attempt job st (Some code))
           (owhen (st = DEAD_LETTER) (add_dead_letter job code))))))))"

definition zoho_scope :: "string \<Rightarrow> string" where
  "zoho_scope operation = (if operation = ''zoho.write.sales_invoice.create'' then ''ZohoBooks.invoices.CREATE''
                           else ''ZohoBooks.bills.CREATE'')"

definition installation_ready :: "db \<Rightarrow> action \<Rightarrow> bool" where
  "installation_ready s act =
     list_ex (\<lambda>i. Some (i_id i) = a_installation act \<and> i_firm i = a_firm act \<and> i_client i = a_client act
       \<and> i_status i = ''AVAILABLE'' \<and> i_provider i = ''ZOHO_BOOKS''
       \<and> (case i_scopes i of None \<Rightarrow> False | Some scopes \<Rightarrow> zoho_scope (a_operation act) \<in> set scopes)) (installations s)"

definition certified :: "db \<Rightarrow> action \<Rightarrow> bool" where
  "certified s act =
     list_ex (\<lambda>c. ct_firm c = a_firm act \<and> ct_capability c = a_operation act \<and> ct_provider c = a_provider act
       \<and> ct_version c = (if a_provider act = ''ZOHO_BOOKS'' then ''v3'' else ''unknown'')
       \<and> Some (ct_installation c) = a_installation act \<and> ct_level c = 5) (certifications s)"

definition mapping_types :: "db \<Rightarrow> action \<Rightarrow> string set" where
  "mapping_types s act =
     set (map mp_type (filter (\<lambda>m. Some (mp_installation m) = a_installation act \<and> mp_active m \<and> mp_approved m) (mappings s)))"

definition write_precondition :: "db \<Rightarrow> action \<Rightarrow> string option" where
  "write_precondition s act =
     (if \<not> installation_ready s act then Some ''INSTALLATION_UNAVAILABLE''
      else if \<not> certified s act then Some ''CERTIFICATION_L5_REQUIRED''
      else if a_provider act = ''ZOHO_BOOKS'' \<and> \<not> {''organization'', ''contact'', ''ledger'', ''tax''} \<subseteq> mapping_types s act
      then Some ''MAPPINGS_REQUIRED''
      else if list_ex (\<lambda>v. vf_action v = a_id act) (verifications s) then Some ''ACTION_ALREADY_REACHED_PROVIDER''
      else None)"

definition or_text :: "string \<Rightarrow> string \<Rightarrow> string" where "or_text a b = (if a = '''' then b else a)"

definition result_failure :: "job \<Rightarrow> result_status \<Rightarrow> string \<Rightarrow> (db, unit) op" where
  "result_failure job st code =
     (if st = RS_AUTH_EXPIRED then finish job AUTH_EXPIRED (or_text code (status_value st))
      else finish job (if st \<in> RETRYABLE then RETRY_SCHEDULED else NEEDS_REVIEW) (or_text code (status_value st)))"

definition accept_write :: "action \<Rightarrow> canonical_object \<Rightarrow> (db, unit) op" where
  "accept_write act ob =
     othen (execute_actions (\<lambda>a. a_id a = a_id act) (\<lambda>a. a\<lparr>a_status := PROVIDER_ACCEPTED, a_external := Some (co_provider_id ob)\<rparr>))
       (execute_actions (\<lambda>a. a_id a = a_id act) (set_status VERIFYING))"

definition reject_readback :: "job \<Rightarrow> action \<Rightarrow> canonical_object \<Rightarrow> verify_result \<Rightarrow> (db, unit) op" where
  "reject_readback job act ob v =
     othen (owhen (truthy (vr_data v))
              (transaction (obind (record_verification (a_firm act) (a_installation act) (a_id act) (co_type ob) (co_provider_id ob)
                 (vr_data v) (vr_mismatches v) (j_correlation job) (vr_version v)) (\<lambda>_. oret ()))))
       (finish job NEEDS_REVIEW ''READBACK_MISMATCH'')"

definition or_opt :: "string option \<Rightarrow> string option \<Rightarrow> string option" where
  "or_opt a b = (case a of None \<Rightarrow> b | Some v \<Rightarrow> if v = '''' then b else Some v)"

definition complete_write :: "world \<Rightarrow> job \<Rightarrow> action \<Rightarrow> canonical_object \<Rightarrow> verify_result \<Rightarrow> (db, unit) op" where
  "complete_write w job act ob v =
     transaction
       (obind (record_verification (a_firm act) (a_installation act) (a_id act) (co_type ob) (co_provider_id ob)
                 (py_or (vr_data v) (co_values ob)) [] (j_correlation job) (or_opt (vr_version v) (co_version ob))) (\<lambda>vid.
        othen (owhen (a_operation act = ''zoho.write.purchase_bill.create'')
                 (obind (project_verified_purchase (w_date w) (a_id act) vid) (\<lambda>_. oret ())))
       (othen (owhen (a_operation act = ''zoho.write.sales_invoice.create'')
                 (obind (project_verified_sale (w_date w) (a_id act) vid) (\<lambda>_. oret ())))
       (othen (execute_actions (\<lambda>a. a_id a = a_id act) (set_status SUCCEEDED))
          (complete_attempt job SUCCEEDED None)))))"

definition perform :: "world \<Rightarrow> job \<Rightarrow> action \<Rightarrow> (db, unit) op" where
  "perform w job act =
     othen (olift (create_connector worker_registry (a_provider act) ''v1'' (a_operation act)))
    (obind (olift (w_execute w act (j_attempts job))) (\<lambda>r.
     case (wr_status r, wr_data r) of
       (SUCCESS, Some ob) \<Rightarrow>
         othen (accept_write act ob)
        (obind (olift (w_verify w ob (a_payload act))) (\<lambda>v.
         if vr_status v \<noteq> SUCCESS then reject_readback job act ob v else complete_write w job act ob v))
     | _ \<Rightarrow> result_failure job (wr_status r) (wr_reason r)))"

text \<open>What the worker decides before it touches the provider.\<close>

datatype go = Refuse string | Go action

definition go_ahead :: "world \<Rightarrow> db \<Rightarrow> job \<Rightarrow> go" where
  "go_ahead w s job =
     (case find (\<lambda>a. a_id a = j_aggregate job) (actions s) of
        None \<Rightarrow> Refuse ''ACTION_NOT_FOUND''
      | Some act \<Rightarrow>
          (case write_precondition s act of
             Some r \<Rightarrow> Refuse r
           | None \<Rightarrow>
               (case scoped_write_block_reason (w_settings w) (Some (w_overrides w)) (a_provider act) (a_firm act)
                       (a_client act) (a_operation act) of
                  Some r \<Rightarrow> Refuse r
                | None \<Rightarrow> Go act)))"

definition start_execution :: "action \<Rightarrow> (db, unit) op" where
  "start_execution act = execute_actions (\<lambda>a. a_id a = a_id act) (\<lambda>a. a\<lparr>a_status := EXECUTING, a_attempt := a_attempt a + 1\<rparr>)"

definition on_failure :: "job \<Rightarrow> pyexn \<Rightarrow> (db, unit) op" where
  "on_failure job e =
     (case e of LookupFailed _ \<Rightarrow> finish job FAILED ''CONNECTOR_IMPLEMENTATION_UNAVAILABLE''
      | _ \<Rightarrow> finish job RETRY_SCHEDULED ''UNEXPECTED_CONNECTOR_FAILURE'')"

definition run_finance_action :: "world \<Rightarrow> job \<Rightarrow> (db, unit) op" where
  "run_finance_action w job =
     obind (oget (\<lambda>s. go_ahead w s job)) (\<lambda>g.
     case g of
       Refuse r \<Rightarrow> finish job FAILED r
     | Go act \<Rightarrow> othen (start_execution act) (otry (perform w job act) (on_failure job)))"

text \<open>\<open>run_once\<close>; with no job in the queue the worker turns to connector synchronization, which does not
  touch these tables.\<close>

definition run_once :: "world \<Rightarrow> string \<Rightarrow> (db, bool) op" where
  "run_once w worker =
     obind (claim worker) (\<lambda>job.
     case job of
       None \<Rightarrow> oret False
     | Some j \<Rightarrow> if j_kind j = ''FINANCE_ACTION'' then othen (run_finance_action w j) (oret True) else oret True)"

section \<open>The scheduler\<close>

definition due_retry :: "db \<Rightarrow> job \<Rightarrow> bool" where
  "due_retry s j = (j_status j = RETRY_SCHEDULED \<and> j_available j \<le> now s)"

definition tick :: "(db, nat) op" where
  "tick = transaction
     (obind (oget (\<lambda>s. filter (due_retry s) (jobs s))) (\<lambda>due.
      othen (execute_actions (\<lambda>a. a_status a = RETRY_SCHEDULED \<and> a_id a \<in> j_aggregate ` set due) (set_status QUEUED))
     (othen (update_jobs (\<lambda>j. j \<in> set due) (\<lambda>j. j\<lparr>j_status := QUEUED\<rparr>))
        (oret (length due)))))"

section \<open>Every statement keeps the ledger\<close>

lemma keeps_insert_attempt: "keeps (ledger_ok W) (insert_attempt jid n)"
  unfolding insert_attempt_def by (intro keeps_intros keeps_omod) simp_all

lemma keeps_claim: "keeps (ledger_ok W) (claim worker)"
  unfolding claim_def
  by (intro keeps_intros keeps_update_jobs keeps_execute_actions lawful_status keeps_insert_attempt) simp_all

lemma keeps_complete_attempt: "keeps (ledger_ok W) (complete_attempt job st code)"
  unfolding complete_attempt_def by (intro keeps_intros keeps_omod keeps_update_jobs) simp_all

lemma keeps_add_dead_letter: "keeps (ledger_ok W) (add_dead_letter job code)"
  unfolding add_dead_letter_def by (intro keeps_omod) simp

lemma keeps_finish: "st \<noteq> APPROVED \<Longrightarrow> keeps (ledger_ok W) (finish job st code)"
  unfolding finish_def Let_def
  by (intro keeps_intros keeps_execute_actions lawful_status keeps_update_jobs keeps_complete_attempt keeps_add_dead_letter)
     simp_all

lemma keeps_result_failure: "keeps (ledger_ok W) (result_failure job st code)"
  unfolding result_failure_def by (intro keeps_intros keeps_finish) simp_all

lemma keeps_accept_write: "keeps (ledger_ok W) (accept_write act ob)"
  unfolding accept_write_def
  by (intro keeps_intros keeps_execute_actions lawful_status) (simp_all add: lawful_def ident_def)

lemma keeps_reject_readback: "keeps (ledger_ok W) (reject_readback job act ob v)"
  unfolding reject_readback_def by (intro keeps_intros keeps_record_verification keeps_finish) simp

lemma keeps_complete_write: "keeps (ledger_ok W) (complete_write w job act ob v)"
  unfolding complete_write_def
  by (intro keeps_intros keeps_record_verification keeps_project_purchase keeps_project_sale keeps_execute_actions
      lawful_status keeps_complete_attempt) simp

lemma keeps_perform: "keeps (ledger_ok W) (perform w job act)"
  unfolding perform_def
  by (intro keeps_intros keeps_accept_write) (auto intro!: keeps_intros keeps_accept_write keeps_reject_readback
      keeps_complete_write keeps_result_failure split: result_status.split option.split)

lemma keeps_on_failure: "keeps (ledger_ok W) (on_failure job e)"
  unfolding on_failure_def by (cases e) (simp_all add: keeps_finish)

lemma keeps_start_execution: "keeps (ledger_ok W) (start_execution act)"
  unfolding start_execution_def by (intro keeps_execute_actions) (simp add: lawful_def ident_def)

lemma keeps_run_finance_action: "keeps (ledger_ok W) (run_finance_action w job)"
  unfolding run_finance_action_def
  by (intro keeps_intros) (auto intro!: keeps_intros keeps_finish keeps_start_execution keeps_perform keeps_on_failure
      split: go.split)

lemma keeps_run_once: "keeps (ledger_ok W) (run_once w worker)"
  unfolding run_once_def by (intro keeps_intros keeps_claim keeps_run_finance_action)

lemma keeps_tick: "keeps (ledger_ok W) tick"
  unfolding tick_def by (intro keeps_intros keeps_execute_actions lawful_status keeps_update_jobs) simp_all

section \<open>The provider is called only for approved work\<close>

lemma find_SomeD: "find p xs = Some x \<Longrightarrow> x \<in> set xs \<and> p x"
  by (auto simp: find_Some_iff)

lemma go_aheadD:
  assumes "go_ahead w s job = Go act"
  shows "act \<in> set (actions s) \<and> a_id act = j_aggregate job \<and> write_precondition s act = None
     \<and> scoped_write_block_reason (w_settings w) (Some (w_overrides w)) (a_provider act) (a_firm act) (a_client act) (a_operation act) = None"
  using assms by (auto simp: go_ahead_def dest!: find_SomeD split: option.splits)

lemma go_ahead_sound:
  assumes "ledger_ok {} s" and "job \<in> set (jobs s)" and "go_ahead w s job = Go act"
  shows "a_approved_by act \<noteq> None \<and> a_approved_hash act = Some (a_hash act)
     \<and> compute_payload_hash (a_payload act) = Inr (a_hash act)
     \<and> (\<exists>i\<in>set (installations s). Some (i_id i) = a_installation act \<and> i_firm i = a_firm act \<and> i_client i = a_client act
          \<and> i_status i = ''AVAILABLE'' \<and> (\<exists>scopes. i_scopes i = Some scopes \<and> zoho_scope (a_operation act) \<in> set scopes))
     \<and> certified s act \<and> (\<forall>v\<in>set (verifications s). vf_action v \<noteq> a_id act)
     \<and> provider_writes_enabled (w_settings w)"
proof -
  note g = go_aheadD [OF assms(3)]
  obtain a where a: "a \<in> set (actions s)" "a_id a = j_aggregate job" "a_approved_at a \<noteq> None"
    using assms(1,2) by (auto simp: ledger_ok_def job_ok_def)
  have "a = act" using same_id_same_action [OF assms(1) a(1), of act] a(2) g by simp
  moreover have "action_ok s act" using assms(1) g by (simp add: ledger_ok_def)
  ultimately have approved: "a_approved_by act \<noteq> None" "a_approved_hash act = Some (a_hash act)"
    "compute_payload_hash (a_payload act) = Inr (a_hash act)" using a(3) by (auto simp: action_ok_def)
  have pre: "installation_ready s act" "certified s act" "\<forall>v\<in>set (verifications s). vf_action v \<noteq> a_id act"
    using g by (auto simp: write_precondition_def list_ex_iff split: if_splits)
  have "provider_writes_enabled (w_settings w)"
    using g by (auto simp: scoped_write_block_reason_def write_open_iff split: option.splits sum.splits)
  then show ?thesis using approved pre by (auto simp: installation_ready_def list_ex_iff split: option.splits)
qed

text \<open>Replacing the provider's answers changes nothing before the provider is asked, and nothing at all when
  it is asked the same questions and answers them alike.\<close>

lemma go_ahead_provider: "go_ahead (w\<lparr>w_execute := e, w_verify := v\<rparr>) s job = go_ahead w s job"
  by (simp add: go_ahead_def split: option.split)

lemma complete_write_provider: "complete_write (w\<lparr>w_execute := e, w_verify := v\<rparr>) job act ob r = complete_write w job act ob r"
  by (simp add: complete_write_def)

lemma perform_provider:
  assumes "w_execute w act (j_attempts job) = e act (j_attempts job)" and "\<And>ob. w_verify w ob (a_payload act) = v ob (a_payload act)"
  shows "perform (w\<lparr>w_execute := e, w_verify := v\<rparr>) job act = perform w job act"
  using assms by (simp add: perform_def complete_write_provider cong: option.case_cong result_status.case_cong if_cong)

lemma run_provider:
  assumes "run_finance_action w job s \<noteq> run_finance_action (w\<lparr>w_execute := e, w_verify := v\<rparr>) job s"
  shows "\<exists>act. go_ahead w s job = Go act
     \<and> (w_execute w act (j_attempts job) \<noteq> e act (j_attempts job) \<or> (\<exists>ob. w_verify w ob (a_payload act) \<noteq> v ob (a_payload act)))"
proof (cases "go_ahead w s job")
  case (Refuse r)
  then show ?thesis using assms by (simp add: run_finance_action_def go_ahead_provider op_simps)
next
  case (Go act)
  then have "perform (w\<lparr>w_execute := e, w_verify := v\<rparr>) job act \<noteq> perform w job act"
    using assms by (auto simp: run_finance_action_def go_ahead_provider op_simps)
  with perform_provider Go show ?thesis by blast
qed

text \<open>
  C7. The worker touches the provider only for approved work. Suppose that the run of a job of a
  well-formed ledger depends on the provider: with other answers to its create and read-back calls the run
  ends differently. Then the job's action is in the ledger and the call in which the answers differ is one for this
  action or for its payload; a reviewer approved exactly that payload, the firm's own Zoho
  installation is available with a credential granting the scope, the operation is certified at level five
  for it, the action has no read-back recorded yet, and provider writes are switched on and not blocked
  for the firm. In every other case the worker ends the job without asking the provider anything.
\<close>

theorem provider_called_only_if_approved:
  assumes "ledger_ok {} s" and "job \<in> set (jobs s)"
    and "run_finance_action w job s \<noteq> run_finance_action (w\<lparr>w_execute := e, w_verify := v\<rparr>) job s"
  shows "\<exists>act\<in>set (actions s). a_id act = j_aggregate job
     \<and> (w_execute w act (j_attempts job) \<noteq> e act (j_attempts job) \<or> (\<exists>ob. w_verify w ob (a_payload act) \<noteq> v ob (a_payload act)))
     \<and> a_approved_by act \<noteq> None \<and> a_approved_hash act = Some (a_hash act)
     \<and> compute_payload_hash (a_payload act) = Inr (a_hash act)
     \<and> (\<exists>i\<in>set (installations s). Some (i_id i) = a_installation act \<and> i_firm i = a_firm act \<and> i_client i = a_client act
          \<and> i_status i = ''AVAILABLE'' \<and> (\<exists>scopes. i_scopes i = Some scopes \<and> zoho_scope (a_operation act) \<in> set scopes))
     \<and> certified s act \<and> (\<forall>x\<in>set (verifications s). vf_action x \<noteq> a_id act)
     \<and> provider_writes_enabled (w_settings w)
     \<and> scoped_write_block_reason (w_settings w) (Some (w_overrides w)) (a_provider act) (a_firm act)
         (a_client act) (a_operation act) = None"
proof -
  obtain act where act: "go_ahead w s job = Go act"
    "w_execute w act (j_attempts job) \<noteq> e act (j_attempts job) \<or> (\<exists>ob. w_verify w ob (a_payload act) \<noteq> v ob (a_payload act))"
    using run_provider [OF assms(3)] by blast
  show ?thesis using go_aheadD [OF act(1)] go_ahead_sound [OF assms(1,2) act(1)] act(2)
    by (intro bexI [of _ act] conjI) simp_all
qed

definition bill_proposal :: proposal where
  "bill_proposal = agent_proposal\<lparr>p_operation := ''zoho.write.purchase_bill.create'', p_installation := Some 7\<rparr>"

definition ready_action :: "status \<Rightarrow> string \<Rightarrow> action" where
  "ready_action st h = (proposed_action 0 h bill_proposal)
     \<lparr>a_status := st, a_approved_by := Some ''u'', a_approved_hash := Some h, a_approved_at := Some 0\<rparr>"

definition ready_job :: "status \<Rightarrow> job" where
  "ready_job st = \<lparr> j_id = 1, j_firm = ''f'', j_kind = ''FINANCE_ACTION'', j_aggregate = 0, j_status = st, j_attempts = 1,
     j_available = 0, j_lease_owner = None, j_lease_until = None, j_correlation = ''corr'' \<rparr>"

definition ready_db :: "status \<Rightarrow> status \<Rightarrow> string \<Rightarrow> db" where
  "ready_db ast jst h = empty_db\<lparr>fresh := 2, actions := [ready_action ast h], jobs := [ready_job jst],
     installations := [\<lparr> i_id = 7, i_firm = ''f'', i_client = ''c'', i_provider = ''ZOHO_BOOKS'', i_status = ''AVAILABLE'',
                         i_scopes = Some [''ZohoBooks.bills.CREATE''] \<rparr>],
     certifications := [\<lparr> ct_firm = ''f'', ct_capability = ''zoho.write.purchase_bill.create'', ct_provider = ''ZOHO_BOOKS'',
                          ct_version = ''v3'', ct_installation = 7, ct_level = 5 \<rparr>],
     mappings := map (\<lambda>t. \<lparr> mp_installation = 7, mp_type = t, mp_internal = ''x'', mp_provider_id = ''y'', mp_active = True,
                           mp_approved = True \<rparr>) [''organization'', ''contact'', ''ledger'', ''tax'']\<rparr>"

definition down_world :: world where
  "down_world = \<lparr> w_execute = (\<lambda>_ _. Inr \<lparr> wr_status = PROVIDER_UNAVAILABLE, wr_data = None, wr_reason = '''' \<rparr>),
     w_verify = (\<lambda>_ _. Inl TypeError), w_date = Inr, w_settings = sample_cfg, w_overrides = Inr [] \<rparr>"

lemma ready_db_ok:
  "compute_payload_hash (VDict []) = Inr h \<Longrightarrow> ast \<noteq> SUCCEEDED \<Longrightarrow> ledger_ok {} (ready_db ast jst h)"
  by (simp add: ledger_ok_def ready_db_def empty_db_def ready_action_def proposed_action_def bill_proposal_def
      agent_proposal_def sample_proposal_def action_ok_def ready_job_def job_ok_def)

lemma ready_write_open:
  "scoped_write_block_reason sample_cfg (Some (Inr [])) ''ZOHO_BOOKS'' ''f'' ''c'' ''zoho.write.purchase_bill.create'' = None"
  by code_simp

lemma ready_go: "go_ahead down_world (ready_db ast jst h) (ready_job jst') = Go (ready_action ast h)"
  by (simp add: go_ahead_def ready_db_def empty_db_def ready_action_def proposed_action_def bill_proposal_def
      agent_proposal_def sample_proposal_def ready_job_def write_precondition_def installation_ready_def certified_def
      mapping_types_def zoho_scope_def down_world_def ready_write_open)

text \<open>The same job with the provider down and with a connector that is not there.\<close>

lemma down_run:
  "map j_status (jobs (snd (run_finance_action down_world (ready_job CLAIMED) (ready_db CLAIMED CLAIMED h)))) = [RETRY_SCHEDULED]"
  unfolding run_finance_action_def obind_def oget_def ready_go
  by code_simp

lemma missing_run:
  "map j_status (jobs (snd (run_finance_action (down_world\<lparr>w_execute := \<lambda>_ _. Inl (LookupFailed ''x''), w_verify := \<lambda>_ _. Inl TypeError\<rparr>)
      (ready_job CLAIMED) (ready_db CLAIMED CLAIMED h)))) = [FAILED]"
  unfolding run_finance_action_def obind_def oget_def go_ahead_provider ready_go
  by code_simp

lemma provider_called_only_if_approved_witness:
  "\<exists>h. compute_payload_hash (VDict []) = Inr h \<and>
     (\<exists>act\<in>set (actions (ready_db CLAIMED CLAIMED h)). a_approved_by act \<noteq> None \<and> a_approved_hash act = Some h)"
proof -
  obtain h where h: "compute_payload_hash (VDict []) = Inr h" by (auto simp: compute_payload_hash_def)
  have job: "ready_job CLAIMED \<in> set (jobs (ready_db CLAIMED CLAIMED h))" by (simp add: ready_db_def)
  have "run_finance_action down_world (ready_job CLAIMED) (ready_db CLAIMED CLAIMED h) \<noteq>
      run_finance_action (down_world\<lparr>w_execute := \<lambda>_ _. Inl (LookupFailed ''x''), w_verify := \<lambda>_ _. Inl TypeError\<rparr>)
        (ready_job CLAIMED) (ready_db CLAIMED CLAIMED h)"
    using down_run [of h] missing_run [of h] by auto
  from provider_called_only_if_approved [OF ready_db_ok [OF h] job this] h
  show ?thesis by (intro exI [of _ h]) (auto simp: ready_db_def ready_action_def proposed_action_def)
qed

section \<open>Retries\<close>

lemma update_rows_single:
  assumes "distinct (map key rs)" and "r \<in> set rs" and "\<And>x. p x \<longleftrightarrow> key x = key r" and "f r = Inr r'"
  shows "update_rows p f rs = Inr (map_where p (\<lambda>_. r') rs, [r'])"
  using assms(1,2)
proof (induction rs)
  case (Cons x xs)
  show ?case
  proof (cases "x = r")
    case True
    have "\<not> p y" if "y \<in> set xs" for y
    proof -
      have "key y \<in> key ` set xs" using that by (rule imageI)
      then show ?thesis using Cons.prems(1) True assms(3) by auto
    qed
    then have "find p xs = None" "filter p xs = []" by (simp_all add: find_None_iff filter_empty_conv)
    moreover have "update_rows p f xs = Inr (xs, filter p xs)"
      by (rule update_rows_touch) (use \<open>\<And>y. y \<in> set xs \<Longrightarrow> \<not> p y\<close> in blast)
    ultimately have "update_rows p f xs = Inr (xs, [])" "map_where p (\<lambda>_. r') xs = xs"
      by (simp_all add: map_where_none)
    moreover have "p r" using assms(3) by simp
    ultimately show ?thesis using True assms(4) by (simp add: map_where_def)
  next
    case False
    then have "\<not> p x" using Cons.prems assms(3) by auto
    then show ?thesis using Cons False by (simp add: map_where_def)
  qed
qed simp

lemma update_one_action:
  assumes "ledger_ok W s" and "act \<in> set (actions s)" and "action_triggers s act (f act) = Inr act'"
  shows "update_actions (\<lambda>a. a_id a = a_id act) f s = (Inr [act'], s\<lparr>actions := map_where (\<lambda>a. a_id a = a_id act) (\<lambda>_. act') (actions s)\<rparr>)"
proof -
  have "distinct (map a_id (actions s))" using assms(1) by (simp add: ledger_ok_def)
  from update_rows_single [OF this assms(2), of "\<lambda>a. a_id a = a_id act" "\<lambda>a. action_triggers s a (f a)" act'] assms(3)
  show ?thesis by (simp add: update_actions_def)
qed

lemma set_status_trigger:
  assumes "st \<in> set (allowed (a_status a))" and "st \<noteq> SUCCEEDED" and "st \<noteq> a_status a"
  shows "action_triggers s a (set_status st a) = Inr (a\<lparr>a_status := st, a_version := a_version a + 1\<rparr>)"
  using assms by (simp add: action_triggers_def transition_trigger_def verified_success_trigger_def set_status_def)

lemma set_status_refused:
  assumes "st \<notin> set (allowed (a_status a))" and "st \<noteq> a_status a"
  shows "action_triggers s a (set_status st a) = Inl (DatabaseError ''Invalid finance action transition'')"
  using assms by (simp add: action_triggers_def transition_trigger_def set_status_def)

lemma execute_step:
  assumes "ledger_ok W s" and "act \<in> set (actions s)" and "st \<in> set (allowed (a_status act))" and "st \<noteq> SUCCEEDED" and "st \<noteq> a_status act"
  shows "execute_actions (\<lambda>a. a_id a = a_id act) (set_status st) s
       = (Inr (), s\<lparr>actions := map_where (\<lambda>a. a_id a = a_id act) (\<lambda>_. act\<lparr>a_status := st, a_version := a_version act + 1\<rparr>) (actions s)\<rparr>)"
  using update_one_action [where f = "set_status st", OF assms(1,2) set_status_trigger [OF assms(3-5)]]
  by (simp add: execute_actions_def obind_step oret_def)

lemma update_rows_refused:
  assumes "r \<in> set rs" and "p r" and "\<And>x. x \<in> set rs \<Longrightarrow> p x \<Longrightarrow> f x = Inl e"
  shows "update_rows p f rs = Inl e"
  using assms by (induction rs) (auto simp: rbind_eq_Inl)

lemma execute_refused:
  assumes "ledger_ok W s" and "act \<in> set (actions s)" and "action_triggers s act (f act) = Inl e"
  shows "execute_actions (\<lambda>a. a_id a = a_id act) f s = (Inl e, s)"
proof -
  have "update_rows (\<lambda>a. a_id a = a_id act) (\<lambda>a. action_triggers s a (f a)) (actions s) = Inl e"
    by (rule update_rows_refused [OF assms(2)]) (use same_id_same_action [OF assms(1)] assms(2,3) in auto)
  then show ?thesis by (simp add: execute_actions_def update_actions_def obind_def)
qed

lemma in_replaced:
  "r \<in> set rs \<Longrightarrow> p r \<Longrightarrow> f r \<in> set (map_where p f rs)"
  by (auto simp: map_where_def image_iff intro!: bexI [of _ r])

lemma replaced_ok:
  assumes "ledger_ok W s" and "execute_actions p (set_status st) s = (Inr (), s')" and "st \<noteq> APPROVED"
  shows "ledger_ok W s'"
  using keepsD [OF keeps_execute_actions [OF lawful_status [OF assms(3)]] assms(1,2)] .

text \<open>The rows a finished job leaves behind.\<close>

definition finished_job :: "db \<Rightarrow> job \<Rightarrow> status \<Rightarrow> job \<Rightarrow> job" where
  "finished_job s job st j = j\<lparr>j_status := st, j_lease_owner := None, j_lease_until := None,
     j_available := (if st = RETRY_SCHEDULED then now s + retry_delay (j_attempts job) else j_available j)\<rparr>"

lemma finish_tail:
  "st \<noteq> SUCCEEDED \<Longrightarrow>
   (obind (oget now) (\<lambda>t.
      othen (update_jobs (\<lambda>j. j_id j = j_id job)
               (\<lambda>j. j\<lparr>j_status := st, j_lease_owner := None, j_lease_until := None,
                      j_available := (if st = RETRY_SCHEDULED then t + retry_delay (j_attempts job) else j_available j)\<rparr>))
     (othen (complete_attempt job st (Some code)) (owhen (st = DEAD_LETTER) (add_dead_letter job code))))) s = (r, s')
   \<Longrightarrow> r = Inr () \<and> actions s' = actions s \<and> jobs s' = map_where (\<lambda>j. j_id j = j_id job) (finished_job s job st) (jobs s)
     \<and> (st = DEAD_LETTER \<longrightarrow> (\<exists>d\<in>set (dead_letters s'). dl_job d = j_id job))"
  by (auto simp: update_jobs_def complete_attempt_def add_dead_letter_def owhen_def op_simps finished_job_def [abs_def]
      list_ex_iff split: if_splits)

lemma in_moved:
  "act \<in> set rs \<Longrightarrow> act' \<in> set (map_where (\<lambda>a. a_id a = a_id act) (\<lambda>_. act') rs)"
  using in_replaced [of act rs "\<lambda>a. a_id a = a_id act" "\<lambda>_. act'"] by simp

lemma execute_moves:
  assumes "ledger_ok W s" and "act \<in> set (actions s)" and "a_id act = aid"
    and "st \<in> set (allowed (a_status act))" and "st \<notin> {SUCCEEDED, APPROVED, a_status act}"
  shows "\<exists>s' act'. execute_actions (\<lambda>a. a_id a = aid) (set_status st) s = (Inr (), s') \<and> ledger_ok W s' \<and> jobs s' = jobs s
     \<and> now s' = now s \<and> act' \<in> set (actions s') \<and> a_id act' = aid \<and> a_status act' = st"
proof -
  let ?act = "act\<lparr>a_status := st, a_version := a_version act + 1\<rparr>"
  let ?s = "s\<lparr>actions := map_where (\<lambda>a. a_id a = a_id act) (\<lambda>_. ?act) (actions s)\<rparr>"
  have e: "execute_actions (\<lambda>a. a_id a = aid) (set_status st) s = (Inr (), ?s)"
    using execute_step [OF assms(1,2,4)] assms(3,5) by simp
  have "ledger_ok W ?s" using replaced_ok [OF assms(1) e] assms(5) by simp
  moreover have "?act \<in> set (actions ?s)" using in_moved [OF assms(2), of ?act] by simp
  ultimately show ?thesis using e assms(3) by (intro exI [of _ ?s] exI [of _ ?act]) simp
qed

lemma finish_closes:
  assumes "execute_actions (\<lambda>a. a_id a = j_aggregate job) (set_status st) s1 = (Inr (), s2)" and "st \<noteq> SUCCEEDED"
    and "act' \<in> set (actions s2)"
  shows "\<exists>s'. othen (execute_actions (\<lambda>a. a_id a = j_aggregate job) (set_status st))
        (obind (oget now) (\<lambda>t.
         othen (update_jobs (\<lambda>j. j_id j = j_id job)
                  (\<lambda>j. j\<lparr>j_status := st, j_lease_owner := None, j_lease_until := None,
                         j_available := (if st = RETRY_SCHEDULED then t + retry_delay (j_attempts job) else j_available j)\<rparr>))
        (othen (complete_attempt job st (Some code))
           (owhen (st = DEAD_LETTER) (add_dead_letter job code))))) s1 = (Inr (), s')
     \<and> act' \<in> set (actions s') \<and> jobs s' = map_where (\<lambda>j. j_id j = j_id job) (finished_job s2 job st) (jobs s2)
     \<and> (st = DEAD_LETTER \<longrightarrow> (\<exists>d\<in>set (dead_letters s'). dl_job d = j_id job))"
  (is "\<exists>s'. othen _ ?tail s1 = _ \<and> _")
proof -
  obtain r s' where t: "?tail s2 = (r, s')" by fastforce
  have "othen (execute_actions (\<lambda>a. a_id a = j_aggregate job) (set_status st)) ?tail s1 = ?tail s2"
    by (rule othen_step(1) [where m = "execute_actions (\<lambda>a. a_id a = j_aggregate job) (set_status st)", OF assms(1)])
  with finish_tail [OF assms(2) t] t show ?thesis using assms(3) by (intro exI [of _ s']) simp
qed

lemma closed_jobs:
  "j \<in> set (map_where (\<lambda>j. j_id j = j_id job) (finished_job s job st) js) \<Longrightarrow> j_id j = j_id job \<Longrightarrow>
   j_status j = st \<and> j_lease_owner j = None
   \<and> (st = RETRY_SCHEDULED \<longrightarrow> j_available j = now s + min 300 (2 ^ j_attempts job))"
  by (auto simp: map_where_def finished_job_def retry_delay_def split: if_splits)

text \<open>
  C10. A transient failure is retried with a growing delay until the attempts are used up. When a run of a
  job whose action is claimed, executing or being verified asks for a retry, the bookkeeping always
  succeeds: below five attempts the action is scheduled for a retry and the job becomes due exactly
  \<open>min(300, 2 ^ attempts)\<close> seconds from now; from the fifth attempt on the action and the job end as
  dead letters and a dead-letter row for the operator exists.
\<close>

theorem retry_until_exhausted:
  assumes "ledger_ok {} s" and "act \<in> set (actions s)" and "a_id act = j_aggregate job"
    and "a_status act \<in> {CLAIMED, EXECUTING, VERIFYING}"
  shows "\<exists>s' act'. finish job RETRY_SCHEDULED code s = (Inr (), s') \<and> act' \<in> set (actions s') \<and> a_id act' = a_id act
     \<and> a_status act' = (if j_attempts job < 5 then RETRY_SCHEDULED else DEAD_LETTER)
     \<and> (\<forall>j\<in>set (jobs s'). j_id j = j_id job \<longrightarrow> j_status j = a_status act' \<and> j_lease_owner j = None
          \<and> (j_attempts job < 5 \<longrightarrow> j_available j = now s + min 300 (2 ^ j_attempts job)))
     \<and> (j_attempts job \<ge> 5 \<longrightarrow> (\<exists>d\<in>set (dead_letters s'). dl_job d = j_id job))"
proof (cases "j_attempts job < 5")
  case True
  obtain s2 act' where m: "execute_actions (\<lambda>a. a_id a = j_aggregate job) (set_status RETRY_SCHEDULED) s = (Inr (), s2)"
    "now s2 = now s" "act' \<in> set (actions s2)" "a_id act' = j_aggregate job" "a_status act' = RETRY_SCHEDULED"
    using execute_moves [OF assms(1-3), of RETRY_SCHEDULED] assms(4) by auto
  from finish_closes [OF m(1) _ m(3), of code] obtain s' where
    "finish job RETRY_SCHEDULED code s = (Inr (), s')" "act' \<in> set (actions s')"
    "jobs s' = map_where (\<lambda>j. j_id j = j_id job) (finished_job s2 job RETRY_SCHEDULED) (jobs s2)"
    using True by (auto simp: finish_def transaction_def MAX_ATTEMPTS_def op_simps)
  then show ?thesis using True m(2,4,5) assms(3) closed_jobs [of _ job s2 RETRY_SCHEDULED "jobs s2"]
    by (intro exI [of _ s'] exI [of _ act']) simp
next
  case False
  obtain s1 act1 where f: "execute_actions (\<lambda>a. a_id a = j_aggregate job) (set_status FAILED) s = (Inr (), s1)"
    "ledger_ok {} s1" "act1 \<in> set (actions s1)" "a_id act1 = j_aggregate job" "a_status act1 = FAILED"
    using execute_moves [OF assms(1-3), of FAILED] assms(4) by auto
  obtain s2 act' where m: "execute_actions (\<lambda>a. a_id a = j_aggregate job) (set_status DEAD_LETTER) s1 = (Inr (), s2)"
    "act' \<in> set (actions s2)" "a_id act' = j_aggregate job" "a_status act' = DEAD_LETTER"
    using execute_moves [OF f(2-4), of DEAD_LETTER] f(5) by auto
  have step: "othen (execute_actions (\<lambda>a. a_id a = j_aggregate job) (set_status FAILED)) k s = k s1" for k :: "(db, unit) op"
    by (rule othen_step(1) [where m = "execute_actions (\<lambda>a. a_id a = j_aggregate job) (set_status FAILED)", OF f(1)])
  from finish_closes [OF m(1) _ m(2), of code] obtain s' d where
    "finish job RETRY_SCHEDULED code s = (Inr (), s')" "act' \<in> set (actions s')"
    "jobs s' = map_where (\<lambda>j. j_id j = j_id job) (finished_job s2 job DEAD_LETTER) (jobs s2)"
    "d \<in> set (dead_letters s')" "dl_job d = j_id job"
    using False by (auto simp: finish_def transaction_def MAX_ATTEMPTS_def op_simps step)
  then show ?thesis using False m(3,4) assms(3) closed_jobs [of _ job s2 DEAD_LETTER "jobs s2"]
    by (intro exI [of _ s'] exI [of _ act']) auto
qed

lemma retry_until_exhausted_witness:
  "\<exists>h s'. finish ((ready_job CLAIMED)\<lparr>j_attempts := 3\<rparr>) RETRY_SCHEDULED ''PROVIDER_UNAVAILABLE'' (ready_db EXECUTING CLAIMED h) = (Inr (), s')
     \<and> (\<forall>j\<in>set (jobs s'). j_id j = 1 \<longrightarrow> j_available j = 8)"
proof -
  obtain h where h: "compute_payload_hash (VDict []) = Inr h" by (auto simp: compute_payload_hash_def)
  have "ready_action EXECUTING h \<in> set (actions (ready_db EXECUTING CLAIMED h))" by (simp add: ready_db_def)
  from retry_until_exhausted [OF ready_db_ok [OF h] this, of "(ready_job CLAIMED)\<lparr>j_attempts := 3\<rparr>" "''PROVIDER_UNAVAILABLE''"]
  show ?thesis by (auto simp: ready_action_def ready_job_def proposed_action_def ready_db_def empty_db_def)
qed

lemma finish_refused:
  assumes "ledger_ok W s" and "act \<in> set (actions s)" and "a_id act = j_aggregate job" and "allowed (a_status act) = []"
    and "st \<noteq> a_status act"
  shows "finish job st code s = (Inl (DatabaseError ''Invalid finance action transition''), s)"
proof -
  have r: "execute_actions (\<lambda>a. a_id a = j_aggregate job) (set_status x) s = (Inl (DatabaseError ''Invalid finance action transition''), s)"
    if "x \<noteq> a_status act" for x
    using execute_refused [where f = "set_status x", OF assms(1,2) set_status_refused] assms(3,4) that by simp
  show ?thesis
  proof (cases "st = RETRY_SCHEDULED \<and> j_attempts job \<ge> MAX_ATTEMPTS")
    case True
    have "a_status act \<noteq> FAILED" using assms(4) by auto
    then show ?thesis using True r [of FAILED] by (simp add: finish_def transaction_def owhen_def othen_def obind_def)
  next
    case False
    then have ex: "(st = RETRY_SCHEDULED \<and> j_attempts job \<ge> MAX_ATTEMPTS) = False" by simp
    show ?thesis unfolding finish_def ex Let_def if_False using r [of st] assms(5)
      by (simp add: transaction_def owhen_def othen_def obind_def oret_def)
  qed
qed

text \<open>
  A job whose action was cancelled meanwhile stops the worker. A retry can be cancelled while it waits;
  the job stays scheduled, the scheduler requeues it and the worker claims it. Running it then raises the
  trigger's error for every provider behaviour, outside the handler that would record a failure: nothing is
  written, so the job stays claimed, and the error leaves \<open>run_once\<close>.
\<close>

theorem cancelled_action_stops_worker:
  assumes "ledger_ok {} s" and "act \<in> set (actions s)" and "a_id act = j_aggregate job" and "a_status act = CANCELLED"
  shows "run_finance_action w job s = (Inl (DatabaseError ''Invalid finance action transition''), s)"
proof (cases "go_ahead w s job")
  case (Refuse r)
  then show ?thesis using finish_refused [OF assms(1-3), of FAILED r] assms(4) by (simp add: run_finance_action_def op_simps)
next
  case (Go act')
  have same: "act' = act" using same_id_same_action [OF assms(1,2), of act'] go_aheadD [OF Go] assms(3) by simp
  have "execute_actions (\<lambda>a. a_id a = a_id act) (\<lambda>a. a\<lparr>a_status := EXECUTING, a_attempt := a_attempt a + 1\<rparr>) s
      = (Inl (DatabaseError ''Invalid finance action transition''), s)"
    by (rule execute_refused [OF assms(1,2)]) (use assms(4) in \<open>simp add: action_triggers_def transition_trigger_def\<close>)
  then show ?thesis using Go same by (simp add: run_finance_action_def start_execution_def op_simps othen_def obind_def)
qed

text \<open>From the cancel endpoint to the stopped worker: a waiting retry is cancelled, its job comes due, is
  requeued and claimed.\<close>

definition after_cancel :: "string \<Rightarrow> db" where
  "after_cancel h = snd (cancel_action 0 ''f'' (ready_db RETRY_SCHEDULED RETRY_SCHEDULED h))"

definition after_tick :: "string \<Rightarrow> db" where "after_tick h = snd (tick (after_cancel h))"

definition after_claim :: "string \<Rightarrow> db" where "after_claim h = snd (claim ''w'' (after_tick h))"

lemmas statement_defs = transaction_def update_actions_def execute_actions_def update_jobs_def action_triggers_def
  transition_trigger_def verified_success_trigger_def set_status_def map_where_def

lemma after_cancel_db:
  "after_cancel h = (ready_db RETRY_SCHEDULED RETRY_SCHEDULED h)\<lparr>actions := [(ready_action CANCELLED h)\<lparr>a_version := 2\<rparr>]\<rparr>"
  by (simp add: after_cancel_def cancel_action_def statement_defs ready_db_def empty_db_def ready_action_def
      proposed_action_def bill_proposal_def agent_proposal_def sample_proposal_def ready_job_def op_simps obind_def)

lemma after_tick_db:
  "after_tick h = (after_cancel h)\<lparr>jobs := [ready_job QUEUED]\<rparr>"
  by (simp add: after_tick_def tick_def after_cancel_db statement_defs ready_db_def empty_db_def ready_action_def
      proposed_action_def ready_job_def op_simps obind_def othen_def due_retry_def)

lemma after_claim_rows:
  "actions (after_claim h) = actions (after_cancel h) \<and> map j_status (jobs (after_claim h)) = [CLAIMED]"
  by (simp add: after_claim_def claim_def claimable_def insert_attempt_def after_tick_db after_cancel_db statement_defs ready_db_def empty_db_def
      ready_action_def proposed_action_def bill_proposal_def agent_proposal_def sample_proposal_def ready_job_def
      op_simps obind_def othen_def)

lemma cancelled_action_stops_worker_witness:
  "\<exists>h. \<forall>w. snd (run_finance_action w (ready_job CLAIMED) (after_claim h)) = after_claim h
        \<and> map j_status (jobs (after_claim h)) = [CLAIMED]"
proof -
  obtain h where h: "compute_payload_hash (VDict []) = Inr h" by (auto simp: compute_payload_hash_def)
  have "ledger_ok {} (after_cancel h)" unfolding after_cancel_def
    using keeps_cancel_action [of "{}" 0 "''f''"] ready_db_ok [OF h] by (simp add: keeps_def)
  then have "ledger_ok {} (after_tick h)" unfolding after_tick_def using keeps_tick by (simp add: keeps_def)
  then have ok: "ledger_ok {} (after_claim h)" unfolding after_claim_def using keeps_claim by (simp add: keeps_def)
  have a: "(ready_action CANCELLED h)\<lparr>a_version := 2\<rparr> \<in> set (actions (after_claim h))"
    using after_claim_rows [of h] after_cancel_db [of h] by simp
  show ?thesis using cancelled_action_stops_worker [OF ok a, of "ready_job CLAIMED"] after_claim_rows [of h]
    by (intro exI [of _ h]) (simp add: ready_action_def proposed_action_def ready_job_def)
qed

end
