(* ===== verification/Tally_Voucher.thy ===== *)
theory Tally_Voucher
  imports Money "HOL-Library.Multiset"
begin

text \<open>
  Tally vouchers: the canonical form that the server validates and compares with the desktop agent's
  read-back (\<open>connectors/tally/canonical.py\<close>), the import envelope (\<open>connectors/tally/write_engine.py\<close>)
  and the release gates (\<open>connectors/tally/versions.py\<close>). A payload is the association list of its
  dictionary; an XML response is the tree its parser makes of it, and the parser is a parameter.
\<close>

section \<open>Canonical vouchers\<close>

text \<open>What both kinds of voucher carry; a purchase adds its currency and GST details.\<close>

record voucher =
  v_date :: string
  v_guid :: string
  v_company :: string
  v_party :: string
  v_ledger :: string
  v_total :: int
  v_narration :: string
  v_reference :: string
  v_entries :: "(string \<times> int) list"
  v_number :: string
  v_tax :: int

record purchase_voucher = voucher +
  v_currency :: string
  v_gst :: "(string \<times> string \<times> int) list"

text \<open>\<open>str(payload.get(key) or "")\<close>, of a dictionary and of a value that may be none.\<close>

definition text_of :: "(string \<times> pyval) list \<Rightarrow> string \<Rightarrow> string" where
  "text_of kvs key = py_str (py_or (get_or kvs key VNone) (VStr ''''))"

definition text_in :: "pyval \<Rightarrow> string \<Rightarrow> string result" where
  "text_in v key = rbind (py_get v key) (\<lambda>x. Inr (py_str (py_or x (VStr ''''))))"

definition int_in :: "pyval \<Rightarrow> string \<Rightarrow> int result" where
  "int_in v key = rbind (py_get_or v key (VInt 0)) py_int"

text \<open>\<open>payload.get(key) or []\<close>, iterated.\<close>

definition items_of :: "(string \<times> pyval) list \<Rightarrow> string \<Rightarrow> pyval list result" where
  "items_of kvs key = py_iter (py_or (get_or kvs key VNone) (VList []))"

definition blank :: "(string \<times> pyval) list \<Rightarrow> string \<Rightarrow> bool" where
  "blank kvs key = (py_strip (text_of kvs key) = '''')"

definition purchase_entry :: "pyval \<Rightarrow> (string \<times> int) result" where
  "purchase_entry line =
     rbind (py_get line ''ledger_name'') (\<lambda>a.
     rbind (if truthy a then Inr a else rbind (py_get line ''ledger'') (\<lambda>b. Inr (py_or b (VStr '''')))) (\<lambda>name.
     rbind (int_in line ''amount_paise'') (\<lambda>amount. Inr (py_strip (py_str name), amount))))"

definition gst_item :: "pyval \<Rightarrow> (string \<times> string \<times> int) result" where
  "gst_item item =
     rbind (text_in item ''ledger_name'') (\<lambda>name.
     rbind (text_in item ''tax_type'') (\<lambda>ty.
     rbind (int_in item ''amount_paise'') (\<lambda>amount. Inr (py_strip name, py_upper (py_strip ty), amount))))"

definition tally_taxes :: "string list" where
  "tally_taxes = [''CGST'', ''SGST'', ''IGST'', ''CESS'']"

definition abs_total :: "(string \<times> string \<times> int) list \<Rightarrow> int" where
  "abs_total gst = sum_list (map (\<lambda>(name, ty, amount). \<bar>amount\<bar>) gst)"

definition purchase_date :: "(string \<times> pyval) list \<Rightarrow> pydate result" where
  "purchase_date kvs =
     (let bad = Inl (ValueError ''Tally purchase date must be YYYY-MM-DD'') in
      case map_of kvs ''date'' of
        None \<Rightarrow> bad
      | Some d \<Rightarrow> (case date_fromisoformat (py_str d) of
            Inr x \<Rightarrow> Inr x | Inl e \<Rightarrow> if is_value_error e then bad else Inl e))"

definition default_entries :: "(string \<times> pyval) list \<Rightarrow> int \<Rightarrow> pyval" where
  "default_entries kvs amount =
     VList [VDict [(''ledger_name'', VStr (text_of kvs ''party_ledger'')), (''amount_paise'', VInt amount)],
            VDict [(''ledger_name'', VStr (text_of kvs ''purchase_ledger'')), (''amount_paise'', VInt (- amount))]]"

definition purchase_entries :: "(string \<times> pyval) list \<Rightarrow> int \<Rightarrow> (string \<times> int) list result" where
  "purchase_entries kvs amount =
     rbind (py_iter (py_or (get_or kvs ''entries'' VNone) (default_entries kvs amount))) (\<lambda>lines.
     rbind (rmap purchase_entry lines) (\<lambda>entries.
     if list_ex (\<lambda>(name, a). name = '''' \<or> a = 0) entries
     then Inl (ValueError ''Every Tally entry requires a ledger and non-zero integer paise'')
     else if sum_list (map snd entries) \<noteq> 0 then Inl (ValueError ''Tally purchase entries must balance to zero paise'')
     else if \<not> {text_of kvs ''party_ledger'', text_of kvs ''purchase_ledger''} \<subseteq> set (map fst entries)
     then Inl (ValueError ''Tally purchase entries must include party and purchase ledgers'')
     else Inr entries))"

definition purchase_gst :: "(string \<times> pyval) list \<Rightarrow> (string \<times> int) list \<Rightarrow> (string \<times> string \<times> int) list result" where
  "purchase_gst kvs entries =
     rbind (items_of kvs ''gst_details'') (\<lambda>items.
     rbind (rmap gst_item items) (\<lambda>gst.
     if list_ex (\<lambda>(name, ty, a). name = '''' \<or> ty \<notin> set tally_taxes \<or> a = 0) gst
     then Inl (ValueError ''Every GST detail requires a GST ledger, supported tax type, and paise'')
     else if list_ex (\<lambda>(name, ty, a). (name, a) \<notin> set entries) gst
     then Inl (ValueError ''Every GST detail must match a balanced voucher ledger entry'')
     else Inr gst))"

definition validate_purchase :: "(string \<times> pyval) list \<Rightarrow> purchase_voucher result" where
  "validate_purchase kvs =
     (if list_ex (blank kvs) [''tally_company'', ''company_guid'', ''party_ledger'', ''purchase_ledger'']
      then Inl (ValueError ''Tally company, company GUID, party, and purchase ledger are required'')
      else
        rbind (purchase_date kvs) (\<lambda>date.
        rbind (int_in (VDict kvs) ''total_paise'') (\<lambda>total.
        if total \<le> 0 then Inl (ValueError ''Tally purchase total must be positive integer paise'')
        else if py_strip (text_of kvs ''party_ledger'') = py_strip (text_of kvs ''purchase_ledger'')
        then Inl (ValueError ''Party and purchase ledgers must be different'')
        else
          rbind (purchase_entries kvs total) (\<lambda>entries.
          let currency = py_upper (py_str (py_or (get_or kvs ''currency'' VNone) (VStr ''INR''))) in
          if currency \<noteq> ''INR'' then Inl (ValueError ''Tally V1 supports INR purchase vouchers only'')
          else
            rbind (purchase_gst kvs entries) (\<lambda>gst.
            rbind (py_int (get_or kvs ''tax_total_paise'' (VInt (abs_total gst)))) (\<lambda>tax.
            if tax \<noteq> abs_total gst then Inl (ValueError ''Tally GST total does not match the GST ledger entries'')
            else Inr \<lparr> v_date = strftime_compact date, v_guid = text_of kvs ''company_guid'',
                       v_company = text_of kvs ''tally_company'', v_party = text_of kvs ''party_ledger'',
                       v_ledger = text_of kvs ''purchase_ledger'', v_total = total, v_narration = text_of kvs ''narration'',
                       v_reference = text_of kvs ''reference'', v_entries = entries, v_number = text_of kvs ''voucher_number'',
                       v_tax = tax, v_currency = currency, v_gst = gst \<rparr>))))))"

definition sales_entry :: "pyval \<Rightarrow> (string \<times> int) result" where
  "sales_entry line =
     rbind (text_in line ''ledger_name'') (\<lambda>name.
     rbind (int_in line ''amount_paise'') (\<lambda>amount. Inr (py_strip name, amount)))"

text \<open>The set of the two ledgers is built from the raw values: an unhashable one is a \<open>TypeError\<close>.\<close>

definition hashable :: "pyval \<Rightarrow> bool" where
  "hashable v = (case v of VList _ \<Rightarrow> False | VDict _ \<Rightarrow> False | _ \<Rightarrow> True)"

definition validate_sales :: "(string \<times> pyval) list \<Rightarrow> voucher result" where
  "validate_sales kvs =
     (if list_ex (blank kvs) [''company_name'', ''company_guid'', ''party_ledger'', ''sales_ledger'']
      then Inl (ValueError ''Tally company, GUID, customer and sales ledger are required'')
      else
        let date = text_of kvs ''date''; party = get_or kvs ''party_ledger'' VNone; income = get_or kvs ''sales_ledger'' VNone in
        if length date \<noteq> 8 \<or> \<not> py_isdigit date then Inl (ValueError ''Tally sales date must be YYYYMMDD'')
        else
          rbind (int_in (VDict kvs) ''total_paise'') (\<lambda>total.
          if total \<le> 0 then Inl (ValueError ''Tally sales total must be positive paise'')
          else
            rbind (items_of kvs ''entries'') (\<lambda>lines.
            rbind (rmap sales_entry lines) (\<lambda>entries.
            if list_ex (\<lambda>(name, a). name = '''' \<or> a = 0) entries \<or> sum_list (map snd entries) \<noteq> 0
            then Inl (ValueError ''Tally sales entries need named, non-zero, balanced ledgers'')
            else if \<not> (hashable party \<and> hashable income) then Inl TypeError
            else if \<not> {party, income} \<subseteq> set (map (VStr \<circ> fst) entries)
            then Inl (ValueError ''Sales entries must include customer and income ledgers'')
            else
              rbind (int_in (VDict kvs) ''tax_total_paise'') (\<lambda>tax.
              Inr \<lparr> v_date = date, v_guid = text_of kvs ''company_guid'', v_company = text_of kvs ''company_name'',
                    v_party = py_str party, v_ledger = py_str income, v_total = total,
                    v_narration = text_of kvs ''narration'', v_reference = text_of kvs ''reference'', v_entries = entries,
                    v_number = text_of kvs ''voucher_number'', v_tax = tax \<rparr>)))))"

definition deterministic_remote_id :: "string \<Rightarrow> string" where
  "deterministic_remote_id aid = ''firmos:'' @ aid"

section \<open>Comparing with what Tally reads back\<close>

definition mismatch :: "pyval \<Rightarrow> pyval \<Rightarrow> pyval" where
  "mismatch expected actual = VDict [(''expected'', expected), (''actual'', actual)]"

definition header_checks :: "string \<Rightarrow> ('a) voucher_scheme \<Rightarrow> string \<Rightarrow> (string \<times> pyval) list" where
  "header_checks kind v remote_id =
     [(''remote_id'', VStr remote_id), (''company_guid'', VStr (v_guid v)), (''voucher_type'', VStr kind),
      (''date'', VStr (v_date v)), (''party_ledger'', VStr (v_party v)), (''total_paise'', VInt (v_total v))]
     @ (if v_reference v = '''' then [] else [(''reference'', VStr (v_reference v))])
     @ (if v_narration v = '''' then [] else [(''narration'', VStr (v_narration v))])
     @ (if v_number v = '''' then [] else [(''voucher_number'', VStr (v_number v))])"

definition header_mismatches :: "(string \<times> pyval) list \<Rightarrow> (string \<times> pyval) list \<Rightarrow> (string, pyval) dict" where
  "header_mismatches checks actual =
     map (\<lambda>(k, v). (k, mismatch v (get_or actual k VNone))) (filter (\<lambda>(k, v). text_of actual k \<noteq> py_str v) checks)"

definition actual_entry :: "pyval \<Rightarrow> (string \<times> int) result" where
  "actual_entry line =
     rbind (text_in line ''ledger_name'') (\<lambda>name. rbind (int_in line ''amount_paise'') (\<lambda>amount. Inr (name, amount)))"

definition actual_gst :: "pyval \<Rightarrow> (string \<times> string \<times> int) result" where
  "actual_gst item =
     rbind (text_in item ''ledger_name'') (\<lambda>name.
     rbind (text_in item ''tax_type'') (\<lambda>ty.
     rbind (int_in item ''amount_paise'') (\<lambda>amount. Inr (name, py_upper ty, amount))))"

definition entry_list :: "(string \<times> int) list \<Rightarrow> pyval" where
  "entry_list xs = VList (map (\<lambda>(n, a). VList [VStr n, VInt a]) xs)"

definition gst_list :: "(string \<times> string \<times> int) list \<Rightarrow> pyval" where
  "gst_list xs = VList (map (\<lambda>(n, t, a). VList [VStr n, VStr t, VInt a]) xs)"

definition entry_mismatches :: "(string \<times> int) list \<Rightarrow> (string \<times> pyval) list \<Rightarrow> (string, pyval) dict result" where
  "entry_mismatches expected actual =
     rbind (items_of actual ''entries'') (\<lambda>lines.
     rbind (rmap actual_entry lines) (\<lambda>entries.
     Inr (if sort entries = sort expected then []
          else [(''entries'', mismatch (entry_list (sort expected)) (entry_list (sort entries)))])))"

definition gst_mismatches :: "(string \<times> string \<times> int) list \<Rightarrow> (string \<times> pyval) list \<Rightarrow> (string, pyval) dict result" where
  "gst_mismatches expected actual =
     rbind (items_of actual ''gst_details'') (\<lambda>items.
     rbind (rmap actual_gst items) (\<lambda>gst.
     Inr (if sort gst = sort expected then []
          else [(''gst_details'', mismatch (gst_list (sort expected)) (gst_list (sort gst)))])))"

definition compare_sales :: "(string \<times> pyval) list \<Rightarrow> (string \<times> pyval) list \<Rightarrow> string \<Rightarrow> (string, pyval) dict result" where
  "compare_sales expected actual remote_id =
     rbind (validate_sales expected) (\<lambda>wanted.
     rbind (entry_mismatches (v_entries wanted) actual) (\<lambda>es.
     Inr (header_mismatches (header_checks ''Sales'' wanted remote_id) actual @ es)))"

definition compare_purchase :: "(string \<times> pyval) list \<Rightarrow> (string \<times> pyval) list \<Rightarrow> string \<Rightarrow> (string, pyval) dict result" where
  "compare_purchase expected actual remote_id =
     rbind (validate_purchase expected) (\<lambda>wanted.
     rbind (entry_mismatches (v_entries wanted) actual) (\<lambda>es.
     rbind (gst_mismatches (v_gst wanted) actual) (\<lambda>gs.
     Inr (header_mismatches (header_checks ''Purchase'' wanted remote_id) actual @ es @ gs))))"

section \<open>The import envelope\<close>

definition assert_write_permitted :: "bool \<Rightarrow> string \<Rightarrow> unit result" where
  "assert_write_permitted allow_write license_mode =
     (if \<not> allow_write
      then Inl (PermissionError ''Tally write operations are gated. Gate 1 (CA sign-off) / Gate 2 unconfirmed.'')
      else if py_contains (py_upper license_mode) ''EDUCATIONAL''
      then Inl (PermissionError ''Tally write prohibited on Educational version. Educational mode corrupts voucher dates.'')
      else Inr ())"

text \<open>\<open>xml.sax.saxutils.escape\<close>.\<close>

definition xml_escape :: "string \<Rightarrow> string" where
  "xml_escape s = concat (map (\<lambda>c. if c = CHR ''&'' then ''&amp;'' else if c = CHR ''>'' then ''&gt;''
                                  else if c = CHR ''<'' then ''&lt;'' else [c]) s)"

definition escape_value :: "pyval \<Rightarrow> string result" where
  "escape_value v = (case v of VStr s \<Rightarrow> Inr (xml_escape s) | _ \<Rightarrow> Inl AttributeError)"

definition newline :: string where "newline = [char_of (10::nat)]"

definition entry_xml :: "string \<Rightarrow> string \<Rightarrow> dec \<Rightarrow> string" where
  "entry_xml ledger positive amount = py_join newline
     [''            <ALLLEDGERENTRIES.LIST>'',
      ''              <LEDGERNAME>'' @ ledger @ ''</LEDGERNAME>'',
      ''              <ISDEEMEDPOSITIVE>'' @ positive @ ''</ISDEEMEDPOSITIVE>'',
      ''              <AMOUNT>'' @ dec_str amount @ ''</AMOUNT>'',
      ''            </ALLLEDGERENTRIES.LIST>'']"

text \<open>One entry: its XML and the signed amount. A debit is deemed positive and written negative.\<close>

definition envelope_entry :: "pyval \<Rightarrow> (string \<times> dec) result" where
  "envelope_entry item =
     rbind (py_index item ''ledger'') (\<lambda>l. rbind (escape_value l) (\<lambda>ledger.
     rbind (py_index item ''is_debit'') (\<lambda>debit.
     rbind (py_index item ''amount_paise'') (\<lambda>a. rbind (py_int a) (\<lambda>paise.
     rbind (paise_to_decimal (VInt \<bar>paise\<bar>)) (\<lambda>rupees.
     rbind (if truthy debit then dec_neg rupees else Inr rupees) (\<lambda>signed.
     Inr (entry_xml ledger (if truthy debit then ''Yes'' else ''No'') signed, signed))))))))"

definition add_entry :: "pyval \<Rightarrow> dec \<times> string list \<Rightarrow> (dec \<times> string list) result" where
  "add_entry item st =
     rbind (envelope_entry item) (\<lambda>(xml, signed).
     rbind (dec_add (fst st) signed) (\<lambda>total'. Inr (total', snd st @ [xml])))"

definition envelope_lines :: "string \<Rightarrow> string \<Rightarrow> string \<Rightarrow> string \<Rightarrow> string list \<Rightarrow> string list" where
  "envelope_lines date kind party remote_id body =
     [''<ENVELOPE>'', ''  <HEADER><TALLYREQUEST>Import Data</TALLYREQUEST></HEADER>'', ''  <BODY>'', ''    <IMPORTDATA>'',
      ''      <REQUESTDESC><REPORTNAME>Vouchers</REPORTNAME></REQUESTDESC>'', ''      <REQUESTDATA>'',
      ''        <TALLYMESSAGE xmlns:UDF='' @ [dquote_char] @ ''TallyUDF'' @ [dquote_char] @ ''>'',
      ''          <VOUCHER VCHTYPE='' @ [dquote_char] @ xml_escape kind @ [dquote_char] @ '' ACTION='' @ [dquote_char] @ ''Create''
        @ [dquote_char] @ '' OBJVIEW='' @ [dquote_char] @ ''Invoice Voucher View'' @ [dquote_char] @ '' REMOTEID='' @ [dquote_char]
        @ xml_escape remote_id @ [dquote_char] @ ''>'',
      ''            <DATE>'' @ xml_escape date @ ''</DATE>'',
      ''            <PARTYLEDGERNAME>'' @ xml_escape party @ ''</PARTYLEDGERNAME>'',
      ''            <VOUCHERTYPENAME>'' @ xml_escape kind @ ''</VOUCHERTYPENAME>'',
      py_join newline body,
      ''          </VOUCHER>'', ''        </TALLYMESSAGE>'', ''      </REQUESTDATA>'', ''    </IMPORTDATA>'', ''  </BODY>'',
      ''</ENVELOPE>'']"

definition build_import_data_envelope :: "string \<Rightarrow> string \<Rightarrow> string \<Rightarrow> string \<Rightarrow> pyval list \<Rightarrow> string result" where
  "build_import_data_envelope date kind party remote_id entries =
     (if kind \<notin> {''Purchase'', ''Sales''}
      then Inl (TallyWriteError ''Tally permits only separately certified Purchase or Sales vouchers'')
      else
        rbind (rfold add_entry entries (DFin False 0 0, [])) (\<lambda>(total, body).
        rbind (dec_quantize_paise HalfEven total) (\<lambda>rounded.
        if \<not> dec_is_zero rounded then Inl (TallyWriteError ''Voucher entries do not net to zero'')
        else Inr (py_join newline (envelope_lines date kind party remote_id body)))))"

text \<open>The response: the first descendant with a tag, in document order.\<close>

datatype xml_node = XNode (xtag: string) (xtext: "string option") (xchildren: "xml_node list")

fun descendants :: "xml_node \<Rightarrow> xml_node list" where
  "descendants (XNode t x cs) = concat (map (\<lambda>c. c # descendants c) cs)"

definition find_tag :: "xml_node \<Rightarrow> string \<Rightarrow> xml_node option" where
  "find_tag tree tag = find (\<lambda>n. xtag n = tag) (descendants tree)"

definition tag_text :: "xml_node \<Rightarrow> string \<Rightarrow> string" where
  "tag_text tree tag = (case find_tag tree tag of None \<Rightarrow> '''' | Some n \<Rightarrow> (case xtext n of None \<Rightarrow> '''' | Some s \<Rightarrow> py_strip s))"

definition tag_int :: "xml_node \<Rightarrow> string \<Rightarrow> int" where
  "tag_int tree tag = (case int_of_str (tag_text tree tag) of Inr n \<Rightarrow> n | Inl _ \<Rightarrow> 0)"

record import_response =
  ir_success :: bool
  ir_created :: int
  ir_altered :: int
  ir_errors :: int
  ir_message :: string

definition parse_import_response :: "(string \<Rightarrow> xml_node option) \<Rightarrow> string \<Rightarrow> import_response result" where
  "parse_import_response fromstring xml =
     (case fromstring xml of
        None \<Rightarrow> Inl (TallyWriteError ''Malformed XML response from Tally'')
      | Some tree \<Rightarrow>
          (let created = tag_int tree ''CREATED''; errors = tag_int tree ''ERRORS''
           in Inr \<lparr> ir_success = (errors = 0 \<and> created > 0), ir_created = created, ir_altered = tag_int tree ''ALTERED'',
                    ir_errors = errors, ir_message = tag_text tree ''LINEERROR'' \<rparr>))"

section \<open>Release gates\<close>

definition CERTIFIED_TALLY_VERSIONS :: "string list" where "CERTIFIED_TALLY_VERSIONS = []"
definition MINIMUM_SECURE_AGENT_VERSION :: string where "MINIMUM_SECURE_AGENT_VERSION = ''1.0.0''"

record version_gates =
  xml_read :: bool
  xml_write :: bool
  json_read :: bool
  json_write :: bool

definition version_support :: "string list \<Rightarrow> string \<Rightarrow> version_gates" where
  "version_support certified_versions version =
     (let ok = py_strip version \<in> set certified_versions
      in \<lparr> xml_read = ok, xml_write = ok, json_read = False, json_write = False \<rparr>)"

definition version_parts :: "string \<Rightarrow> int list result" where
  "version_parts version = rmap int_of_str (py_split_char (CHR ''.'') version)"

definition agent_version_supported :: "string \<Rightarrow> bool" where
  "agent_version_supported version =
     (case (version_parts version, version_parts MINIMUM_SECURE_AGENT_VERSION) of
        (Inr current, Inr minimum) \<Rightarrow> minimum \<le> current
      | _ \<Rightarrow> False)"

section \<open>A validated voucher balances\<close>

definition balanced :: "(string \<times> int) list \<Rightarrow> bool" where
  "balanced entries = (sum_list (map snd entries) = 0 \<and> (\<forall>e\<in>set entries. fst e \<noteq> '''' \<and> snd e \<noteq> 0))"

lemma purchase_entriesE:
  assumes "purchase_entries kvs amount = Inr entries"
  shows "balanced entries" and "text_of kvs ''party_ledger'' \<in> fst ` set entries"
    and "text_of kvs ''purchase_ledger'' \<in> fst ` set entries"
  using assms by (auto simp: purchase_entries_def rbind_eq_Inr balanced_def list_ex_iff split: if_splits)

lemma purchase_gstE:
  assumes "purchase_gst kvs entries = Inr gst" and "(n, t, a) \<in> set gst"
  shows "(n, a) \<in> set entries \<and> t \<in> set tally_taxes"
  using assms by (auto simp: purchase_gst_def rbind_eq_Inr list_ex_iff split: if_splits)

lemma validate_purchaseE:
  assumes "validate_purchase kvs = Inr v"
  shows "purchase_entries kvs (v_total v) = Inr (v_entries v)" and "purchase_gst kvs (v_entries v) = Inr (v_gst v)"
    and "v_tax v = abs_total (v_gst v)" and "0 < v_total v" and "v_currency v = ''INR''"
    and "v_party v = text_of kvs ''party_ledger''" and "v_ledger v = text_of kvs ''purchase_ledger''"
    and "py_strip (v_party v) \<noteq> py_strip (v_ledger v)"
  using assms by (auto simp: validate_purchase_def rbind_eq_Inr Let_def split: if_splits)

text \<open>
  C18. A purchase voucher that passes validation is a balanced double entry: its entries add up to zero
  paise, each names a ledger and is non-zero, the party and purchase ledgers are different and both among
  them, the total is positive, every GST detail is one of the entries with a known tax, and the stated tax
  total is the sum of the details.
\<close>

theorem purchase_voucher_sound:
  assumes "validate_purchase kvs = Inr v"
  shows "balanced (v_entries v) \<and> v_party v \<in> fst ` set (v_entries v) \<and> v_ledger v \<in> fst ` set (v_entries v)
     \<and> v_party v \<noteq> v_ledger v \<and> 0 < v_total v
     \<and> (\<forall>(n, t, a)\<in>set (v_gst v). (n, a) \<in> set (v_entries v) \<and> t \<in> {''CGST'', ''SGST'', ''IGST'', ''CESS''})
     \<and> v_tax v = (\<Sum>(n, t, a)\<leftarrow>v_gst v. \<bar>a\<bar>)"
proof -
  note f = validate_purchaseE [OF assms]
  have "\<forall>(n, t, a)\<in>set (v_gst v). (n, a) \<in> set (v_entries v) \<and> t \<in> {''CGST'', ''SGST'', ''IGST'', ''CESS''}"
    using purchase_gstE [OF f(2)] by (auto simp: tally_taxes_def)
  moreover have "v_party v \<noteq> v_ledger v" using f(8) by auto
  ultimately show ?thesis using purchase_entriesE [OF f(1)] f(3,4,6,7) by (simp add: abs_total_def)
qed

definition sample_purchase :: "(string \<times> pyval) list" where
  "sample_purchase = [(''tally_company'', VStr ''Co''), (''company_guid'', VStr ''g''), (''party_ledger'', VStr ''V''),
     (''purchase_ledger'', VStr ''P''), (''date'', VStr ''2025-04-01''), (''total_paise'', VInt 500)]"

definition sample_voucher :: purchase_voucher where
  "sample_voucher = \<lparr> v_date = ''20250401'', v_guid = ''g'', v_company = ''Co'', v_party = ''V'', v_ledger = ''P'', v_total = 500,
     v_narration = '''', v_reference = '''', v_entries = [(''V'', 500), (''P'', -500)], v_number = '''', v_tax = 0,
     v_currency = ''INR'', v_gst = [] \<rparr>"

lemma sample_purchase_valid: "validate_purchase sample_purchase = Inr sample_voucher"
  by code_simp

lemma purchase_voucher_sound_witness: "balanced [(''V'', 500), (''P'', -500)]"
  using purchase_voucher_sound [OF sample_purchase_valid] by (simp add: sample_voucher_def)

section \<open>A clean read-back is the approved voucher\<close>

lemma header_clean:
  "header_mismatches checks actual = [] \<Longrightarrow> (k, v) \<in> set checks \<Longrightarrow> text_of actual k = py_str v"
  by (auto simp: header_mismatches_def filter_empty_conv)

lemma entries_clean:
  assumes "entry_mismatches expected actual = Inr []"
  shows "\<exists>lines entries. items_of actual ''entries'' = Inr lines \<and> rmap actual_entry lines = Inr entries \<and> mset entries = mset expected"
proof -
  obtain lines entries where e: "items_of actual ''entries'' = Inr lines" "rmap actual_entry lines = Inr entries"
    "sort entries = sort expected"
    using assms by (auto simp: entry_mismatches_def rbind_eq_Inr split: if_splits)
  then have "mset entries = mset expected" by (metis mset_sort)
  then show ?thesis using e by blast
qed

lemma gst_clean:
  assumes "gst_mismatches expected actual = Inr []"
  shows "\<exists>gst. rbind (items_of actual ''gst_details'') (rmap actual_gst) = Inr gst \<and> mset gst = mset expected"
proof -
  obtain gst where g: "rbind (items_of actual ''gst_details'') (rmap actual_gst) = Inr gst" "sort gst = sort expected"
    using assms by (auto simp: gst_mismatches_def rbind_eq_Inr split: if_splits)
  then have "mset gst = mset expected" by (metis mset_sort)
  with g(1) show ?thesis by blast
qed

lemma validated_texts:
  "validate_purchase kvs = Inr v \<Longrightarrow>
     v_guid v = text_of kvs ''company_guid'' \<and> v_party v = text_of kvs ''party_ledger''
     \<and> v_reference v = text_of kvs ''reference'' \<and> v_narration v = text_of kvs ''narration''
     \<and> v_number v = text_of kvs ''voucher_number''"
  by (auto simp: validate_purchase_def Let_def rbind_eq_Inr split: if_splits)

lemma mset_balanced: "mset xs = mset ys \<Longrightarrow> balanced ys \<Longrightarrow> balanced xs"
proof -
  assume m: "mset xs = mset ys" and b: "balanced ys"
  have "mset (map snd xs) = mset (map snd ys)" using m by simp
  then have "sum_list (map snd xs) = sum_list (map snd ys)" by (metis sum_mset_sum_list)
  then show "balanced xs" using b mset_eq_setD [OF m] by (simp add: balanced_def)
qed

text \<open>
  C23. A purchase read-back without mismatches is the approved voucher: the approved payload is a valid
  voucher; the remote identifier, company, type, date, party and total that Tally reports are its own, and
  so are the reference, the narration and the voucher number wherever the payload states them; the ledger
  entries Tally reports are exactly its entries, up to order, so they balance, and the GST details Tally
  reports (ledger, tax type and amount) are exactly its GST details, up to order.
\<close>

theorem clean_readback_is_approved:
  assumes "compare_purchase expected actual remote_id = Inr []"
  shows "\<exists>v entries. validate_purchase expected = Inr v \<and> text_of actual ''remote_id'' = remote_id
     \<and> text_of actual ''company_guid'' = text_of expected ''company_guid'' \<and> text_of actual ''voucher_type'' = ''Purchase''
     \<and> text_of actual ''date'' = v_date v \<and> text_of actual ''party_ledger'' = text_of expected ''party_ledger''
     \<and> text_of actual ''total_paise'' = int_to_str (v_total v)
     \<and> (\<forall>k\<in>{''reference'', ''narration'', ''voucher_number''}.
           text_of expected k \<noteq> '''' \<longrightarrow> text_of actual k = text_of expected k)
     \<and> rbind (items_of actual ''entries'') (rmap actual_entry) = Inr entries
     \<and> mset entries = mset (v_entries v) \<and> balanced entries
     \<and> (\<exists>gst. rbind (items_of actual ''gst_details'') (rmap actual_gst) = Inr gst \<and> mset gst = mset (v_gst v))"
proof -
  obtain v where v: "validate_purchase expected = Inr v" "entry_mismatches (v_entries v) actual = Inr []"
    "header_mismatches (header_checks ''Purchase'' v remote_id) actual = []" "gst_mismatches (v_gst v) actual = Inr []"
    using assms by (auto simp: compare_purchase_def rbind_eq_Inr)
  obtain lines entries where e: "items_of actual ''entries'' = Inr lines" "rmap actual_entry lines = Inr entries"
    "mset entries = mset (v_entries v)" using entries_clean [OF v(2)] by blast
  note h = header_clean [OF v(3)] and t = validated_texts [OF v(1)]
  have "balanced entries" using mset_balanced [OF e(3)] purchase_entriesE(1) [OF validate_purchaseE(1) [OF v(1)]] by simp
  moreover have "text_of actual ''remote_id'' = remote_id" using h [of "''remote_id''"] by (simp add: header_checks_def)
  moreover have "text_of actual ''company_guid'' = text_of expected ''company_guid''"
    using h [of "''company_guid''"] t by (simp add: header_checks_def)
  moreover have "text_of expected ''reference'' \<noteq> '''' \<longrightarrow> text_of actual ''reference'' = text_of expected ''reference''"
    using h [of "''reference''" "VStr (v_reference v)"] t by (simp add: header_checks_def)
  moreover have "text_of expected ''narration'' \<noteq> '''' \<longrightarrow> text_of actual ''narration'' = text_of expected ''narration''"
    using h [of "''narration''" "VStr (v_narration v)"] t by (simp add: header_checks_def)
  moreover have "text_of expected ''voucher_number'' \<noteq> '''' \<longrightarrow> text_of actual ''voucher_number'' = text_of expected ''voucher_number''"
    using h [of "''voucher_number''" "VStr (v_number v)"] t by (simp add: header_checks_def)
  moreover have "text_of actual ''voucher_type'' = ''Purchase''" using h [of "''voucher_type''"] by (simp add: header_checks_def)
  moreover have "text_of actual ''date'' = v_date v" using h [of "''date''"] by (simp add: header_checks_def)
  moreover have "text_of actual ''party_ledger'' = text_of expected ''party_ledger''"
    using h [of "''party_ledger''"] t by (simp add: header_checks_def)
  moreover have "text_of actual ''total_paise'' = int_to_str (v_total v)"
    using h [of "''total_paise''" "VInt (v_total v)"] by (simp add: header_checks_def)
  ultimately show ?thesis using v(1) e gst_clean [OF v(4)] by (intro exI [of _ v] exI [of _ entries]) simp
qed

definition sample_readback :: "(string \<times> pyval) list" where
  "sample_readback = [(''remote_id'', VStr ''r''), (''company_guid'', VStr ''g''), (''voucher_type'', VStr ''Purchase''),
     (''date'', VStr ''20250401''), (''party_ledger'', VStr ''V''), (''total_paise'', VInt 500),
     (''entries'', VList [VDict [(''ledger_name'', VStr ''P''), (''amount_paise'', VInt (-500))],
                          VDict [(''ledger_name'', VStr ''V''), (''amount_paise'', VInt 500)]])]"

lemma clean_readback_is_approved_witness:
  "\<exists>entries. rbind (items_of sample_readback ''entries'') (rmap actual_entry) = Inr entries \<and> balanced entries"
proof -
  have "compare_purchase sample_purchase sample_readback ''r'' = Inr []" by code_simp
  from clean_readback_is_approved [OF this] show ?thesis by blast
qed

section \<open>The envelope is written exactly for vouchers that net to zero\<close>

definition entry_item :: "string \<times> bool \<times> int \<Rightarrow> pyval" where
  "entry_item e = (case e of (l, d, p) \<Rightarrow>
     VDict [(''ledger'', VStr l), (''is_debit'', VBool d), (''amount_paise'', VInt p)])"

definition deemed_amount :: "string \<times> bool \<times> int \<Rightarrow> int" where
  "deemed_amount e = (case e of (l, d, p) \<Rightarrow> if d then - \<bar>p\<bar> else \<bar>p\<bar>)"

definition paise_dec :: "int \<Rightarrow> dec" where
  "paise_dec n = DFin (n < 0) (nat \<bar>n\<bar>) (-2)"

definition item_xml :: "string \<times> bool \<times> int \<Rightarrow> string" where
  "item_xml e = (case e of (l, d, p) \<Rightarrow>
     entry_xml (xml_escape l) (if d then ''Yes'' else ''No'') (paise_dec (deemed_amount (l, d, p))))"

definition volume :: "(string \<times> bool \<times> int) list \<Rightarrow> int" where
  "volume es = (\<Sum>(l, d, p)\<leftarrow>es. \<bar>p\<bar>)"

definition holds :: "dec \<Rightarrow> int \<Rightarrow> bool" where
  "holds d t = (\<exists>s c e. d = DFin s c e \<and> signed_coeff s c = t \<and> (e = -2 \<or> c = 0 \<and> e = 0))"

lemma envelope_item:
  assumes "\<bar>p\<bar> < 10 ^ 27"
  shows "envelope_entry (entry_item (l, d, p)) = Inr (item_xml (l, d, p), paise_dec (deemed_amount (l, d, p)))"
proof -
  have small: "\<bar>\<bar>p\<bar>\<bar> < 10 ^ 28" "nat \<bar>p\<bar> < 10 ^ 28" using assms by simp_all
  have "paise_to_decimal (VInt \<bar>p\<bar>) = Inr (DFin False (nat \<bar>p\<bar>) (-2))" using paise_to_decimal_value [OF small(1)] by simp
  moreover have "dec_neg (DFin False (nat \<bar>p\<bar>) (-2)) = Inr (paise_dec (- \<bar>p\<bar>))"
    using dec_fix_id [OF small(2), of "-2"] by (simp add: paise_dec_def ctx_etiny_def ctx_etop_def del: dec_fix.simps)
  moreover have "DFin False (nat \<bar>p\<bar>) (-2) = paise_dec \<bar>p\<bar>" by (simp add: paise_dec_def)
  ultimately show ?thesis
    by (simp add: envelope_entry_def entry_item_def item_xml_def deemed_amount_def py_index_def escape_value_def)
qed

lemma paise_dec_coeff: "paise_dec n = DFin s c e \<Longrightarrow> signed_coeff s c = n \<and> e = -2"
  by (auto simp: paise_dec_def signed_coeff_def)

lemma dec_add_paise:
  assumes "holds acc t" and "\<bar>t + n\<bar> < 10 ^ 28"
  shows "\<exists>acc'. dec_add acc (paise_dec n) = Inr acc' \<and> holds acc' (t + n)"
proof -
  obtain s c e where a: "acc = DFin s c e" "signed_coeff s c = t" "e = -2 \<or> c = 0 \<and> e = 0"
    using assms(1) by (auto simp: holds_def)
  define s2 where "s2 = (n < 0)"
  define c2 where "c2 = nat \<bar>n\<bar>"
  define sg where "sg = (if t + n = 0 then s \<and> s2 else t + n < 0)"
  have p: "paise_dec n = DFin s2 c2 (-2)" "signed_coeff s2 c2 = n" by (simp_all add: paise_dec_def s2_def c2_def signed_coeff_def)
  have i: "min e (-2) = -2" "signed_coeff s c * 10 ^ nat (e + 2) + signed_coeff s2 c2 = t + n"
    using a(2,3) p(2) by (auto simp: signed_coeff_def)
  have "nat \<bar>t + n\<bar> < 10 ^ 28" using assms(2) by simp
  then have "dec_fix (DFin sg (nat \<bar>t + n\<bar>) (-2)) = Inr (DFin sg (nat \<bar>t + n\<bar>) (-2))"
    by (rule dec_fix_id) (simp_all add: ctx_etiny_def ctx_etop_def)
  moreover have "dec_add acc (paise_dec n) = dec_fix (DFin sg (nat \<bar>t + n\<bar>) (-2))"
    using i by (simp add: a(1) p(1) Let_def sg_def del: dec_fix.simps)
  ultimately have "dec_add acc (paise_dec n) = Inr (DFin sg (nat \<bar>t + n\<bar>) (-2))" by simp
  then show ?thesis by (auto simp: holds_def sg_def signed_coeff_def)
qed

lemma deemed_bound: "\<bar>\<Sum>e\<leftarrow>es. deemed_amount e\<bar> \<le> volume es"
  by (induction es) (auto simp: volume_def deemed_amount_def)

lemma volume_nonneg: "0 \<le> volume es"
  by (induction es) (auto simp: volume_def)

lemma add_entries:
  assumes "holds acc t" and "\<bar>t\<bar> + volume es < 10 ^ 27"
  shows "\<exists>acc'. rfold add_entry (map entry_item es) (acc, body) = Inr (acc', body @ map item_xml es)
     \<and> holds acc' (t + (\<Sum>e\<leftarrow>es. deemed_amount e))"
  using assms
proof (induction es arbitrary: acc t body)
  case (Cons e es)
  obtain l d p where e: "e = (l, d, p)" by (cases e) auto
  have v: "volume (e # es) = \<bar>p\<bar> + volume es" by (simp add: volume_def e)
  have p: "\<bar>p\<bar> < 10 ^ 27" using Cons.prems(2) v volume_nonneg [of es] by linarith
  have dm: "\<bar>deemed_amount e\<bar> = \<bar>p\<bar>" by (simp add: deemed_amount_def e)
  obtain acc1 where a: "dec_add acc (paise_dec (deemed_amount e)) = Inr acc1" "holds acc1 (t + deemed_amount e)"
    using dec_add_paise [OF Cons.prems(1), of "deemed_amount e"] Cons.prems(2) v dm volume_nonneg [of es] by fastforce
  have "\<bar>t + deemed_amount e\<bar> + volume es < 10 ^ 27" using Cons.prems(2) v dm by linarith
  from Cons.IH [OF a(2) this, of "body @ [item_xml e]"] show ?case
    using envelope_item [OF p, of l d] a(1) by (auto simp: add_entry_def e add.assoc)
qed (simp add: holds_def)

lemma quantize_holds:
  assumes "holds d t" and "\<bar>t\<bar> < 10 ^ 27"
  shows "\<exists>r. dec_quantize_paise HalfEven d = Inr r \<and> (dec_is_zero r \<longleftrightarrow> t = 0)"
proof -
  obtain s c e where a: "d = DFin s c e" "signed_coeff s c = t" "e = -2 \<or> c = 0 \<and> e = 0"
    using assms(1) by (auto simp: holds_def)
  show ?thesis
  proof (cases "c = 0")
    case True
    then have "t = 0" using a(2) by (cases s) (simp_all add: signed_coeff_def)
    then show ?thesis using a True by (simp add: dec_quantize_paise_def dec_is_zero_def)
  next
    case False
    have "int c = \<bar>t\<bar>" using a(2) by (auto simp: signed_coeff_def split: if_splits)
    then have "int c < 10 ^ 28" using assms(2) by simp
    then have "int c < int (10 ^ 28)" by simp
    then have c: "c < 10 ^ 28" by (simp only: of_nat_less_iff)
    then have n: "ndigits c \<le> 28" by (simp only: ndigits_le_28)
    show ?thesis using a False n
      by (auto simp: dec_quantize_paise_def ctx_emax_def ctx_prec_def rescale_def dec_is_zero_def signed_coeff_def split: if_splits)
  qed
qed

text \<open>
  C17. The voucher envelope is written exactly when the voucher nets to zero. For a purchase or sales
  voucher of less than ten to the 27th paise in all, the decimal check of the engine is exact: if the
  credits equal the debits in paise, the envelope holds one entry per line, in order, each with its ledger
  escaped, its debit flag and its signed rupee amount; otherwise nothing is written and the unbalanced
  voucher is refused.
\<close>

theorem envelope_iff_balanced:
  assumes "kind \<in> {''Purchase'', ''Sales''}" and "volume es < 10 ^ 27"
  shows "build_import_data_envelope date kind party remote_id (map entry_item es)
       = (if (\<Sum>e\<leftarrow>es. deemed_amount e) = 0
          then Inr (py_join newline (envelope_lines date kind party remote_id (map item_xml es)))
          else Inl (TallyWriteError ''Voucher entries do not net to zero''))"
proof -
  define t where "t = (\<Sum>e\<leftarrow>es. deemed_amount e)"
  have "holds (DFin False 0 0) 0" unfolding holds_def by (intro exI [of _ False] exI [of _ "0 :: nat"] exI [of _ "0 :: int"]) (simp add: signed_coeff_def)
  from add_entries [OF this, of es "[]"] assms(2) obtain acc where
    acc: "rfold add_entry (map entry_item es) (DFin False 0 0, []) = Inr (acc, map item_xml es)" "holds acc t"
    by (auto simp: t_def)
  have "\<bar>t\<bar> < 10 ^ 27" using deemed_bound [of es] assms(2) by (simp add: t_def)
  from quantize_holds [OF acc(2) this] show ?thesis
    using assms(1) acc(1) by (auto simp: build_import_data_envelope_def t_def)
qed

lemma envelope_iff_balanced_witness:
  "build_import_data_envelope ''20260630'' ''Sales'' ''P'' ''r'' (map entry_item [(''A'', True, 5), (''B'', False, 5)])
     = Inr (py_join newline (envelope_lines ''20260630'' ''Sales'' ''P'' ''r'' (map item_xml [(''A'', True, 5), (''B'', False, 5)])))"
  by (subst envelope_iff_balanced) (simp_all add: volume_def deemed_amount_def)

end
