(* ===== verification/Tally_Actions.thy ===== *)
theory Tally_Actions
  imports Automation Tally_Voucher
begin

text \<open>
  Tally work done by a desktop agent: claiming an approved action, renewing its lease and reporting the
  result with a read-back that the server verifies (\<open>api/routes/tally_agent_actions.py\<close>), and the
  retired bridge endpoints (\<open>api/routes/tally_bridge_actions.py\<close>). The device tables, the override
  table and the certified versions do not change here and are the record \<open>tally_env\<close>; the random
  identifier of a missing correlation is an argument. The \<open>finance_runs\<close> log is left out.

  \<open>te_certified\<close> is the value of \<open>CERTIFIED_TALLY_VERSIONS\<close> at a release: \<open>connectors/tally/versions.py\<close> holds the
  empty list at this commit, for which \<open>no_tally_write_uncertified\<close> shows that no claim hands out work, and asks for
  evidence before a version is added, which is the case the other theorems are about. A stored \<open>jsonb\<close> payload is the
  value it encodes, as a driver with a \<open>jsonb\<close> codec delivers it; without one, as the pool is set up at this commit,
  the conversion to a dict raises at the text and the claim fails before any lease is taken.
\<close>

section \<open>What the endpoints read\<close>

record device_context =
  dc_id :: string
  dc_firm :: string
  dc_client :: string
  dc_installation :: nat
  dc_company :: string

record device_row =
  dr_id :: string
  dr_last_seen :: int
  dr_license :: "string option"
  dr_version :: "string option"
  dr_write_enabled :: bool

record tally_ledger =
  tl_installation :: nat
  tl_company :: string
  tl_name :: string
  tl_active :: bool

record tally_env =
  te_certified :: "string list"
  te_settings :: settings
  te_overrides :: "override list result"
  te_devices :: "device_row list"
  te_synced :: "(nat \<times> string) list"
  te_ledgers :: "tally_ledger list"
  te_date :: "string \<Rightarrow> string result"

definition purchase_operation :: string where "purchase_operation = ''tally.write.purchase_voucher.create''"
definition sales_operation :: string where "sales_operation = ''tally.write.sales_voucher.create''"

definition OPERATIONS :: "string list" where "OPERATIONS = [purchase_operation, sales_operation]"

definition opt_text :: "string option \<Rightarrow> string" where "opt_text v = (case v of None \<Rightarrow> '''' | Some s \<Rightarrow> s)"

definition tally_certified :: "device_context \<Rightarrow> string \<Rightarrow> device_row \<Rightarrow> db \<Rightarrow> bool" where
  "tally_certified dev operation row s =
     list_ex (\<lambda>c. ct_firm c = dc_firm dev \<and> ct_capability c = operation \<and> ct_provider c = ''TALLY_PRIME''
       \<and> Some (ct_version c) = dr_version row \<and> ct_installation c = dc_installation dev \<and> ct_level c = 5) (certifications s)"

definition tally_mappings :: "device_context \<Rightarrow> db \<Rightarrow> string set" where
  "tally_mappings dev s = set (map mp_type (filter (\<lambda>m. mp_installation m = dc_installation dev \<and> mp_active m) (mappings s)))"

definition tally_precondition :: "tally_env \<Rightarrow> device_context \<Rightarrow> string \<Rightarrow> db \<Rightarrow> string option" where
  "tally_precondition env dev operation s =
     (case find (\<lambda>r. dr_id r = dc_id dev) (te_devices env) of
        None \<Rightarrow> Some ''DEVICE_UNHEALTHY''
      | Some row \<Rightarrow>
          if \<not> dr_last_seen row > now s - 15 * 60 then Some ''DEVICE_UNHEALTHY''
          else if py_upper (opt_text (dr_license row)) \<in> {''EDUCATIONAL'', ''SILVER EDUCATIONAL''}
          then Some ''TALLY_LICENSE_UNSUPPORTED''
          else if \<not> xml_write (version_support (te_certified env) (opt_text (dr_version row)))
          then Some ''TALLY_VERSION_UNCERTIFIED''
          else if \<not> dr_write_enabled row then Some ''INSTALLATION_WRITE_DISABLED''
          else if (dc_installation dev, dc_company dev) \<notin> set (te_synced env) then Some ''READ_SYNC_REQUIRED''
          else if \<not> tally_certified dev operation row s then Some ''CERTIFICATION_L5_REQUIRED''
          else if \<not> {''company'', ''ledger''} \<subseteq> tally_mappings dev s then Some ''MAPPINGS_REQUIRED''
          else scoped_write_block_reason (te_settings env) (Some (te_overrides env)) ''TALLY_PRIME'' (dc_firm dev) (dc_client dev)
                 operation)"

section \<open>Claiming\<close>

datatype tally_payload = PurchasePayload purchase_voucher | SalesPayload voucher

fun payload_company :: "tally_payload \<Rightarrow> string" where
  "payload_company (PurchasePayload v) = v_guid v"
| "payload_company (SalesPayload v) = v_guid v"

fun payload_entries :: "tally_payload \<Rightarrow> (string \<times> int) list" where
  "payload_entries (PurchasePayload v) = v_entries v"
| "payload_entries (SalesPayload v) = v_entries v"

definition tally_payload_of :: "action \<Rightarrow> tally_payload result" where
  "tally_payload_of act =
     rbind (dict_of (a_payload act)) (\<lambda>kvs.
     if a_operation act = sales_operation then rbind (validate_sales kvs) (\<lambda>v. Inr (SalesPayload v))
     else rbind (validate_purchase kvs) (\<lambda>v. Inr (PurchasePayload v)))"

definition ledgers_known :: "tally_env \<Rightarrow> device_context \<Rightarrow> string list \<Rightarrow> bool" where
  "ledgers_known env dev names =
     (length (remdups (map tl_name (filter (\<lambda>l. tl_installation l = dc_installation dev \<and> tl_company l = dc_company dev
        \<and> tl_active l \<and> tl_name l \<in> set names) (te_ledgers env)))) = length (remdups names))"

record tally_claim =
  tc_action :: nat
  tc_operation :: string
  tc_remote :: string
  tc_payload :: tally_payload
  tc_correlation :: string

definition lapsed :: "device_context \<Rightarrow> int \<Rightarrow> action \<Rightarrow> bool" where
  "lapsed dev t a = (a_installation a = Some (dc_installation dev) \<and> a_provider a = ''TALLY_PRIME'' \<and> a_status a = CLAIMED
                     \<and> (case a_lease_until a of None \<Rightarrow> False | Some u \<Rightarrow> u < t))"

definition release_lapsed :: "device_context \<Rightarrow> (db, unit) op" where
  "release_lapsed dev =
     obind (oget now) (\<lambda>t.
     othen (execute_actions (lapsed dev t) (\<lambda>a. a\<lparr>a_status := RETRY_SCHEDULED, a_lease_device := None, a_lease_until := None\<rparr>))
       (execute_actions (\<lambda>a. a_installation a = Some (dc_installation dev) \<and> a_provider a = ''TALLY_PRIME''
                             \<and> a_status a = RETRY_SCHEDULED \<and> a_attempt a < 3) (set_status QUEUED)))"

definition claimable_by :: "device_context \<Rightarrow> action \<Rightarrow> bool" where
  "claimable_by dev a = (a_firm a = dc_firm dev \<and> a_client a = dc_client dev \<and> a_installation a = Some (dc_installation dev)
     \<and> a_provider a = ''TALLY_PRIME'' \<and> a_operation a \<in> set OPERATIONS \<and> a_status a = QUEUED \<and> a_attempt a < 3)"

definition lease_seconds :: int where "lease_seconds = 90"

definition take_lease :: "device_context \<Rightarrow> action \<Rightarrow> (db, unit) op" where
  "take_lease dev act =
     obind (oget now) (\<lambda>t.
     othen (execute_actions (\<lambda>a. a_id a = a_id act)
              (\<lambda>a. a\<lparr>a_status := CLAIMED, a_lease_device := Some (dc_id dev), a_lease_until := Some (t + lease_seconds),
                     a_attempt := a_attempt a + 1\<rparr>))
       (update_jobs (\<lambda>j. j_kind j = ''FINANCE_ACTION'' \<and> j_aggregate j = a_id act)
          (\<lambda>j. j\<lparr>j_status := CLAIMED, j_lease_owner := Some (''tally:'' @ dc_id dev), j_lease_until := Some (t + lease_seconds),
                 j_attempts := j_attempts j + 1\<rparr>)))"

text \<open>No action to claim is the 204 answer, and commits the releases; every refusal rolls them back.\<close>

definition claim_tally :: "tally_env \<Rightarrow> device_context \<Rightarrow> string \<Rightarrow> (db, tally_claim option) op" where
  "claim_tally env dev uuid =
     transaction (othen (release_lapsed dev)
      (obind (oget (\<lambda>s. find (claimable_by dev) (actions s))) (\<lambda>found.
       case found of
         None \<Rightarrow> oret None
       | Some act \<Rightarrow>
           obind (oget (tally_precondition env dev (a_operation act))) (\<lambda>blocked.
           case blocked of
             Some reason \<Rightarrow> oraise (HTTPException 409 reason)
           | None \<Rightarrow>
               obind (olift (tally_payload_of act)) (\<lambda>p.
               if payload_company p \<noteq> dc_company dev then oraise (HTTPException 409 ''COMPANY_IDENTITY_MISMATCH'')
               else if \<not> ledgers_known env dev (map fst (payload_entries p))
               then oraise (HTTPException 409 ''LEDGER_IDENTITY_NOT_FOUND'')
               else
                 othen (take_lease dev act)
                   (oret (Some \<lparr> tc_action = a_id act, tc_operation = a_operation act,
                                 tc_remote = deterministic_remote_id (nat_to_str (a_id act)), tc_payload = p,
                                 tc_correlation = or_str (a_correlation act) uuid \<rparr>)))))))"

definition holds_lease :: "device_context \<Rightarrow> nat \<Rightarrow> action \<Rightarrow> bool" where
  "holds_lease dev aid a = (a_id a = aid \<and> a_firm a = dc_firm dev \<and> a_installation a = Some (dc_installation dev)
     \<and> a_lease_device a = Some (dc_id dev) \<and> a_status a = CLAIMED)"

definition renew_lease :: "device_context \<Rightarrow> nat \<Rightarrow> (db, unit) op" where
  "renew_lease dev aid =
     transaction (obind (oget now) (\<lambda>t.
       obind (update_actions (holds_lease dev aid) (\<lambda>a. a\<lparr>a_lease_until := Some (t + lease_seconds)\<rparr>)) (\<lambda>rows.
       if rows = [] then oraise (HTTPException 409 ''ACTION_LEASE_INVALID'') else oret ())))"

section \<open>Reporting the result\<close>

record action_result =
  ar_status :: string
  ar_guid :: string
  ar_error :: string
  ar_readback :: "(string \<times> pyval) list"

record report =
  rp_status :: status
  rp_verified :: bool
  rp_verification :: "nat option"
  rp_mismatches :: "(string, pyval) dict"

definition finish_job :: "nat \<Rightarrow> status \<Rightarrow> (db, unit) op" where
  "finish_job aid st =
     update_jobs (\<lambda>j. j_kind j = ''FINANCE_ACTION'' \<and> j_aggregate j = aid)
       (\<lambda>j. j\<lparr>j_status := st, j_lease_owner := None, j_lease_until := None\<rparr>)"

definition close_action :: "nat \<Rightarrow> status \<Rightarrow> (db, unit) op" where
  "close_action aid st =
     othen (execute_actions (\<lambda>a. a_id a = aid) (\<lambda>a. a\<lparr>a_status := st, a_lease_until := None\<rparr>)) (finish_job aid st)"

definition tally_mismatches :: "action \<Rightarrow> action_result \<Rightarrow> (string, pyval) dict result" where
  "tally_mismatches act body =
     rbind (dict_of (a_payload act)) (\<lambda>kvs.
     rbind ((if a_operation act = sales_operation then compare_sales else compare_purchase) kvs (ar_readback body)
              (deterministic_remote_id (nat_to_str (a_id act)))) (\<lambda>ms.
     Inr (if text_of (ar_readback body) ''guid'' \<noteq> ar_guid body
          then dict_set ''provider_guid'' (mismatch (VStr (ar_guid body)) (get_or (ar_readback body) ''guid'' VNone)) ms
          else ms)))"

text \<open>The reported Tally version must be text: a \<open>varchar\<close> parameter takes nothing else.\<close>

definition version_param :: "pyval \<Rightarrow> string option result" where
  "version_param v = (case v of VNone \<Rightarrow> Inr None | VStr x \<Rightarrow> Inr (Some x) | _ \<Rightarrow> Inl (DatabaseError ''invalid input for query argument''))"

definition project_tally :: "tally_env \<Rightarrow> action \<Rightarrow> nat \<Rightarrow> (db, unit) op" where
  "project_tally env act vid =
     (if a_operation act = sales_operation then obind (project_verified_sale (te_date env) (a_id act) vid) (\<lambda>_. oret ())
      else obind (project_verified_purchase (te_date env) (a_id act) vid) (\<lambda>_. oret ()))"

definition verify_report :: "tally_env \<Rightarrow> device_context \<Rightarrow> action \<Rightarrow> action_result \<Rightarrow> string \<Rightarrow> (db, report) op" where
  "verify_report env dev act body uuid =
     obind (olift (tally_mismatches act body)) (\<lambda>ms.
     othen (execute_actions (\<lambda>a. a_id a = a_id act) (\<lambda>a. a\<lparr>a_status := PROVIDER_ACCEPTED, a_external := Some (ar_guid body)\<rparr>))
    (othen (execute_actions (\<lambda>a. a_id a = a_id act) (set_status VERIFYING))
    (obind (olift (version_param (get_or (ar_readback body) ''tally_version'' VNone))) (\<lambda>version.
     obind (record_verification (dc_firm dev) (Some (dc_installation dev)) (a_id act)
              (if a_operation act = sales_operation then ''tally_sales_voucher'' else ''tally_purchase_voucher'')
              (ar_guid body) (VDict (ar_readback body)) ms (or_str (a_correlation act) uuid) version) (\<lambda>vid.
     let final = (if ms \<noteq> [] then NEEDS_REVIEW else SUCCEEDED) in
     othen (owhen (ms = []) (project_tally env act vid))
    (othen (close_action (a_id act) final)
       (oret \<lparr> rp_status = final, rp_verified = (ms = []), rp_verification = Some vid, rp_mismatches = ms \<rparr>)))))))"

definition report_result :: "tally_env \<Rightarrow> device_context \<Rightarrow> nat \<Rightarrow> action_result \<Rightarrow> string \<Rightarrow> (db, report) op" where
  "report_result env dev aid body uuid =
     transaction (obind (oget (\<lambda>s. find (holds_lease dev aid) (actions s))) (\<lambda>found.
       case found of
         None \<Rightarrow> oraise (HTTPException 409 ''ACTION_LEASE_INVALID'')
       | Some act \<Rightarrow>
           othen (execute_actions (\<lambda>a. a_id a = aid) (set_status EXECUTING))
             (if ar_status body \<noteq> ''PROVIDER_ACCEPTED'' \<or> ar_guid body = '''' \<or> ar_readback body = []
              then let final = (if ar_status body = ''AMBIGUOUS'' then NEEDS_REVIEW else FAILED)
                   in othen (close_action aid final)
                        (oret \<lparr> rp_status = final, rp_verified = False, rp_verification = None, rp_mismatches = [] \<rparr>)
              else verify_report env dev act body uuid)))"

section \<open>The retired bridge\<close>

definition bridge_claim :: "bool \<times> string" where "bridge_claim = (False, ''DESKTOP_AGENT_REQUIRED'')"

definition bridge_result :: "firm_context \<Rightarrow> nat \<Rightarrow> string \<Rightarrow> string \<Rightarrow> (db, status) op" where
  "bridge_result firm aid device reported =
     transaction (obind (oget (\<lambda>s. (now s, find (\<lambda>a. a_id a = aid \<and> a_firm a = f_firm firm) (actions s)))) (\<lambda>(t, found).
       case found of
         None \<Rightarrow> oraise (HTTPException 404 ''Action not found'')
       | Some act \<Rightarrow>
           if a_status act \<noteq> EXECUTING \<or> a_lease_device act \<noteq> Some device
           then oraise (HTTPException 409 ''Legacy action lease is invalid'')
           else if (case a_lease_until act of None \<Rightarrow> True | Some u \<Rightarrow> u \<le> t)
           then oraise (HTTPException 409 ''Legacy action lease has expired'')
           else
             let final = (if reported = ''FAILED'' then FAILED else NEEDS_REVIEW) in
             othen (execute_actions (\<lambda>a. a_id a = aid)
                      (\<lambda>a. a\<lparr>a_status := final, a_lease_device := None, a_lease_until := None\<rparr>))
               (oret final)))"

section \<open>Every endpoint keeps the ledger\<close>

lemma keeps_release_lapsed: "keeps (ledger_ok W) (release_lapsed dev)"
  unfolding release_lapsed_def
  by (intro keeps_intros keeps_execute_actions lawful_status) (simp_all add: lawful_def ident_def)

lemma keeps_take_lease: "keeps (ledger_ok W) (take_lease dev act)"
  unfolding take_lease_def
  by (intro keeps_intros keeps_execute_actions keeps_update_jobs) (simp_all add: lawful_def ident_def)

lemma keeps_claim_tally: "keeps (ledger_ok W) (claim_tally env dev uuid)"
  unfolding claim_tally_def by (intro keeps_intros keeps_release_lapsed keeps_take_lease)

lemma keeps_renew_lease: "keeps (ledger_ok W) (renew_lease dev aid)"
  unfolding renew_lease_def by (intro keeps_intros keeps_update_actions) (simp add: lawful_def ident_def)

lemma keeps_close_action: "st \<noteq> APPROVED \<Longrightarrow> keeps (ledger_ok W) (close_action aid st)"
  unfolding close_action_def finish_job_def
  by (intro keeps_intros keeps_execute_actions keeps_update_jobs) (simp_all add: lawful_def ident_def)

lemma keeps_project_tally: "keeps (ledger_ok W) (project_tally env act vid)"
  unfolding project_tally_def by (intro keeps_intros keeps_project_purchase keeps_project_sale)

lemma keeps_verify_report: "keeps (ledger_ok W) (verify_report env dev act body uuid)"
  unfolding verify_report_def Let_def
  by (intro keeps_intros keeps_execute_actions lawful_status keeps_record_verification keeps_project_tally keeps_close_action)
     (simp_all add: lawful_def ident_def)

lemma keeps_report_result: "keeps (ledger_ok W) (report_result env dev aid body uuid)"
  unfolding report_result_def Let_def
  by (intro keeps_intros keeps_execute_actions lawful_status keeps_close_action keeps_verify_report) simp_all

lemma keeps_bridge_result: "keeps (ledger_ok W) (bridge_result firm aid device reported)"
  unfolding bridge_result_def Let_def
  by (intro keeps_intros keeps_execute_actions) (simp add: lawful_def ident_def)

section \<open>A claim hands out approved, balanced work under a lease\<close>

lemma claim_tallyE:
  assumes "claim_tally env dev uuid s = (Inr (Some c), s')"
  obtains s1 act p where "release_lapsed dev s = (Inr (), s1)" "act \<in> set (actions s1)" "claimable_by dev act"
    "tally_precondition env dev (a_operation act) s1 = None" "tally_payload_of act = Inr p"
    "payload_company p = dc_company dev" "ledgers_known env dev (map fst (payload_entries p))"
    "take_lease dev act s1 = (Inr (), s')" "tc_action c = a_id act" "tc_payload c = p"
  using assms unfolding claim_tally_def
  by (auto elim!: obind_InrE othen_InrE simp: op_results dest!: find_SomeD split: option.splits if_splits)

lemma payload_balanced:
  assumes "tally_payload_of act = Inr p"
  shows "balanced (payload_entries p)"
proof (cases "a_operation act = sales_operation")
  case True
  then show ?thesis using assms
    by (auto simp: tally_payload_of_def rbind_eq_Inr validate_sales_def Let_def balanced_def list_ex_iff split: if_splits)
next
  case False
  then obtain kvs v where "validate_purchase kvs = Inr v" "p = PurchasePayload v"
    using assms by (auto simp: tally_payload_of_def rbind_eq_Inr)
  then show ?thesis using purchase_entriesE(1) [OF validate_purchaseE(1)] by simp
qed

definition leased :: "device_context \<Rightarrow> int \<Rightarrow> action \<Rightarrow> action" where
  "leased dev t act = act\<lparr>a_status := CLAIMED, a_lease_device := Some (dc_id dev), a_lease_until := Some (t + lease_seconds),
     a_attempt := a_attempt act + 1\<rparr>"

lemma take_leaseE:
  assumes "ledger_ok W s" and "act \<in> set (actions s)" and "a_status act = QUEUED" and "take_lease dev act s = (Inr (), s')"
  shows "(leased dev (now s) act)\<lparr>a_version := a_version act + 1\<rparr> \<in> set (actions s')"
proof -
  let ?new = "(leased dev (now s) act)\<lparr>a_version := a_version act + 1\<rparr>"
  have "action_triggers s act (leased dev (now s) act) = Inr ?new"
    using assms(3) by (simp add: action_triggers_def transition_trigger_def verified_success_trigger_def leased_def)
  from update_one_action [where f = "leased dev (now s)", OF assms(1,2) this]
  have "update_actions (\<lambda>a. a_id a = a_id act) (leased dev (now s)) s
      = (Inr [?new], s\<lparr>actions := map_where (\<lambda>a. a_id a = a_id act) (\<lambda>_. ?new) (actions s)\<rparr>)" .
  then have "actions s' = map_where (\<lambda>a. a_id a = a_id act) (\<lambda>_. ?new) (actions s)"
    using assms(4) by (auto simp: take_lease_def execute_actions_def update_jobs_def leased_def [abs_def] op_simps obind_step)
  then show ?thesis using in_moved [OF assms(2), of ?new] by simp
qed

lemma now_keeps: "keeps (\<lambda>s. now s = t) (release_lapsed dev)"
proof -
  have "keeps (\<lambda>s. now s = t) (execute_actions p f)" for p f
    by (auto simp: keeps_def execute_actions_def update_actions_def obind_def oret_def split: sum.splits)
  then show ?thesis unfolding release_lapsed_def by (intro keeps_intros)
qed

text \<open>
  C8. What a desktop agent is given to post was approved, balances and is leased to it alone. When a claim
  on a well-formed ledger returns an action, that action now stands claimed with the device's lease for
  ninety seconds and at most three attempts, belongs to the device's firm, client and installation, carries
  a reviewer's approval of its payload hash, and the payload handed out is the validated form of the
  approved payload: of the device's own company, with entries that balance, on a certified Tally version.
\<close>

theorem tally_claim_sound:
  assumes "ledger_ok {} s" and "claim_tally env dev uuid s = (Inr (Some c), s')"
  shows "\<exists>a\<in>set (actions s'). a_id a = tc_action c \<and> a_status a = CLAIMED \<and> a_lease_device a = Some (dc_id dev)
     \<and> a_lease_until a = Some (now s + 90) \<and> a_attempt a \<le> 3
     \<and> a_firm a = dc_firm dev \<and> a_client a = dc_client dev \<and> a_installation a = Some (dc_installation dev)
     \<and> a_approved_by a \<noteq> None \<and> a_approved_hash a = Some (a_hash a) \<and> compute_payload_hash (a_payload a) = Inr (a_hash a)
     \<and> tally_payload_of a = Inr (tc_payload c) \<and> payload_company (tc_payload c) = dc_company dev
     \<and> balanced (payload_entries (tc_payload c))
     \<and> (\<exists>row\<in>set (te_devices env). dr_id row = dc_id dev \<and> py_strip (opt_text (dr_version row)) \<in> set (te_certified env))"
proof -
  obtain s1 act p where c: "release_lapsed dev s = (Inr (), s1)" "act \<in> set (actions s1)" "claimable_by dev act"
    "tally_precondition env dev (a_operation act) s1 = None" "tally_payload_of act = Inr p"
    "payload_company p = dc_company dev" "take_lease dev act s1 = (Inr (), s')" "tc_action c = a_id act" "tc_payload c = p"
    using claim_tallyE [OF assms(2)] by metis
  have ok: "ledger_ok {} s1" by (rule keepsD [OF keeps_release_lapsed assms(1) c(1)])
  have t: "now s1 = now s" by (rule keepsD [OF now_keeps _ c(1)]) simp
  have q: "a_status act = QUEUED" "a_attempt act < 3" using c(3) by (simp_all add: claimable_by_def)
  define a where "a = (leased dev (now s1) act)\<lparr>a_version := a_version act + 1\<rparr>"
  have a: "a \<in> set (actions s')" using take_leaseE [OF ok c(2) q(1) c(7)] by (simp add: a_def)
  have "action_ok s1 act" using ok c(2) by (simp add: ledger_ok_def)
  then have approved: "a_approved_by act \<noteq> None" "a_approved_hash act = Some (a_hash act)"
    "compute_payload_hash (a_payload act) = Inr (a_hash act)" using q(1) by (simp_all add: action_ok_def before_approval_def)
  have row: "\<exists>row\<in>set (te_devices env). dr_id row = dc_id dev \<and> py_strip (opt_text (dr_version row)) \<in> set (te_certified env)"
    using c(4) by (auto simp: tally_precondition_def version_support_def Let_def dest!: find_SomeD split: option.splits if_splits)
  have "tally_payload_of a = Inr p" using c(5) by (simp add: tally_payload_of_def a_def leased_def)
  then show ?thesis using a row approved c(3,6,8,9) q payload_balanced [OF c(5)] t
    by (intro bexI [OF _ a]) (simp add: a_def leased_def claimable_by_def lease_seconds_def)
qed

text \<open>
  As long as no Tally release is certified, no Tally write leaves the server: with the certified
  versions of the code, the claim endpoint hands out no action to any device in any state.
\<close>

theorem no_tally_write_uncertified:
  assumes "te_certified env = CERTIFIED_TALLY_VERSIONS"
  shows "claim_tally env dev uuid s \<noteq> (Inr (Some c), s')"
proof
  assume "claim_tally env dev uuid s = (Inr (Some c), s')"
  then show False
  proof (rule claim_tallyE)
    fix s1 act
    assume "tally_precondition env dev (a_operation act) s1 = None"
    then show False using assms
      by (auto simp: tally_precondition_def version_support_def CERTIFIED_TALLY_VERSIONS_def Let_def split: option.splits if_splits)
  qed
qed

section \<open>A posted voucher is a verified voucher\<close>

lemma keeps_verification_rows:
  "keeps (\<lambda>s. v \<in> set (verifications s)) (execute_actions p f)" "keeps (\<lambda>s. v \<in> set (verifications s)) (finish_job aid st)"
  by (auto simp: keeps_def execute_actions_def update_actions_def finish_job_def update_jobs_def obind_def oret_def omod_def
      split: sum.splits)

lemma keeps_verification_projection: "keeps (\<lambda>s. v \<in> set (verifications s)) (project_tally env act vid)"
  unfolding project_tally_def project_verified_purchase_def project_verified_sale_def
  by (intro keeps_intros keeps_omod) (simp_all add: mark_posted_def)

lemma record_verificationE:
  assumes "record_verification firm inst aid ty pid values ms c ver s = (Inr vid, s')"
  shows "\<exists>v\<in>set (verifications s'). vf_id v = vid \<and> vf_action v = aid \<and> vf_fields v = values \<and> vf_mismatches v = ms
           \<and> vf_status v = (if ms \<noteq> [] then MISMATCH else MATCHED)"
  using assms unfolding record_verification_def
  by (auto elim!: obind_InrE othen_InrE simp: op_results raise_db_def split: if_splits prod.splits)

text \<open>
  C9. A Tally action succeeds only on a matched read-back. When a device's report ends in success, the
  device held the lease of that action, its read-back agrees with the approved payload in every compared
  field and in the reported identifier, and a matched verification row holds exactly that read-back.
\<close>

theorem tally_success_verified:
  assumes "report_result env dev aid body uuid s = (Inr r, s')" and "rp_status r = SUCCEEDED"
  shows "\<exists>act\<in>set (actions s). holds_lease dev aid act \<and> tally_mismatches act body = Inr []
     \<and> (\<exists>v\<in>set (verifications s'). Some (vf_id v) = rp_verification r \<and> vf_action v = aid \<and> vf_status v = MATCHED
          \<and> vf_fields v = VDict (ar_readback body))"
proof -
  obtain act s1 where act: "act \<in> set (actions s)" "holds_lease dev aid act" "verify_report env dev act body uuid s1 = (Inr r, s')"
    using assms unfolding report_result_def
    by (auto elim!: obind_InrE othen_InrE simp: op_results Let_def dest!: find_SomeD split: option.splits if_splits)
  have aid: "a_id act = aid" using act(2) by (simp add: holds_lease_def)
  obtain ms vid s2 s3 s4 version where v: "tally_mismatches act body = Inr ms"
    "record_verification (dc_firm dev) (Some (dc_installation dev)) (a_id act)
        (if a_operation act = sales_operation then ''tally_sales_voucher'' else ''tally_purchase_voucher'')
        (ar_guid body) (VDict (ar_readback body)) ms (or_str (a_correlation act) uuid) version s2 = (Inr vid, s3)"
    "owhen (ms = []) (project_tally env act vid) s3 = (Inr (), s4)"
    "close_action (a_id act) (if ms \<noteq> [] then NEEDS_REVIEW else SUCCEEDED) s4 = (Inr (), s')"
    "r = \<lparr> rp_status = (if ms \<noteq> [] then NEEDS_REVIEW else SUCCEEDED), rp_verified = (ms = []), rp_verification = Some vid, rp_mismatches = ms \<rparr>"
    using act(3) unfolding verify_report_def Let_def by (elim obind_InrE othen_InrE) (simp add: op_results)
  have ms: "ms = []" using v(5) assms(2) by (simp split: if_splits)
  obtain w where w: "w \<in> set (verifications s3)" "vf_id w = vid" "vf_action w = aid" "vf_fields w = VDict (ar_readback body)"
    "vf_status w = MATCHED" using record_verificationE [OF v(2)] ms aid by auto
  have "w \<in> set (verifications s4)" by (rule keepsD [OF keeps_owhen [OF keeps_verification_projection] w(1) v(3)])
  moreover have "keeps (\<lambda>s. w \<in> set (verifications s)) (close_action (a_id act) (if ms \<noteq> [] then NEEDS_REVIEW else SUCCEEDED))"
    unfolding close_action_def by (intro keeps_intros keeps_verification_rows)
  ultimately have "w \<in> set (verifications (snd (close_action (a_id act) (if ms \<noteq> [] then NEEDS_REVIEW else SUCCEEDED) s4)))"
    unfolding keeps_def by blast
  then have "w \<in> set (verifications s')" using v(4) by simp
  then show ?thesis using act(1,2) v(1,5) w ms by auto
qed

section \<open>Concrete runs\<close>

definition sample_device :: device_context where
  "sample_device = \<lparr> dc_id = ''d'', dc_firm = ''f'', dc_client = ''c'', dc_installation = 7, dc_company = ''g'' \<rparr>"

definition sample_env :: tally_env where
  "sample_env = \<lparr> te_certified = [''6.0''], te_settings = sample_cfg\<lparr>tally_writes_enabled := True\<rparr>, te_overrides = Inr [],
     te_devices = [\<lparr> dr_id = ''d'', dr_last_seen = 0, dr_license = None, dr_version = Some ''6.0'', dr_write_enabled = True \<rparr>],
     te_synced = [(7, ''g'')],
     te_ledgers = map (\<lambda>n. \<lparr> tl_installation = 7, tl_company = ''g'', tl_name = n, tl_active = True \<rparr>) [''V'', ''P''],
     te_date = Inr \<rparr>"

definition tally_action :: "status \<Rightarrow> nat \<Rightarrow> string \<Rightarrow> action" where
  "tally_action st n h = (proposed_action 0 h (agent_proposal\<lparr>p_provider := ''TALLY_PRIME'', p_operation := purchase_operation,
       p_payload := VDict sample_purchase, p_installation := Some 7\<rparr>))
     \<lparr>a_status := st, a_attempt := n, a_approved_by := Some ''u'', a_approved_hash := Some h, a_approved_at := Some 0\<rparr>"

definition tally_db :: "action \<Rightarrow> db" where
  "tally_db act = empty_db\<lparr>fresh := 2, actions := [act], jobs := [ready_job CLAIMED],
     certifications := [\<lparr> ct_firm = ''f'', ct_capability = purchase_operation, ct_provider = ''TALLY_PRIME'', ct_version = ''6.0'',
                          ct_installation = 7, ct_level = 5 \<rparr>],
     mappings := map (\<lambda>t. \<lparr> mp_installation = 7, mp_type = t, mp_internal = ''x'', mp_provider_id = ''y'', mp_active = True,
                           mp_approved = True \<rparr>) [''company'', ''ledger'']\<rparr>"

lemmas tally_sample_defs = tally_action_def proposed_action_def agent_proposal_def sample_proposal_def purchase_operation_def
  sales_operation_def sample_device_def

lemma sample_hash: "\<exists>h. compute_payload_hash (VDict sample_purchase) = Inr h"
proof -
  have "is_ok (json_sorted (VDict sample_purchase))" by code_simp
  then show ?thesis by (cases "json_sorted (VDict sample_purchase)") (auto simp: compute_payload_hash_def)
qed

lemma tally_db_ok:
  "compute_payload_hash (VDict sample_purchase) = Inr h \<Longrightarrow> st \<noteq> SUCCEEDED \<Longrightarrow> ledger_ok {} (tally_db (tally_action st n h))"
  by (simp add: ledger_ok_def tally_db_def empty_db_def tally_sample_defs action_ok_def ready_job_def job_ok_def)

lemma tally_open:
  "scoped_write_block_reason (sample_cfg\<lparr>tally_writes_enabled := True\<rparr>) (Some (Inr [])) ''TALLY_PRIME'' ''f'' ''c'' purchase_operation = None"
  by code_simp

lemma sample_precondition:
  "now s = 0 \<Longrightarrow> certifications s = certifications (tally_db act) \<Longrightarrow> mappings s = mappings (tally_db act) \<Longrightarrow>
   tally_precondition sample_env sample_device purchase_operation s = None"
  using tally_open
  by (simp add: tally_precondition_def sample_env_def sample_device_def version_support_def opt_text_def py_strip_def is_space_def
      tally_certified_def tally_mappings_def tally_db_def Let_def py_upper_def)

lemma sample_ledgers: "ledgers_known sample_env sample_device [''V'', ''P'']"
  by (simp add: ledgers_known_def sample_env_def sample_device_def)

lemma sample_payload: "tally_payload_of (tally_action st n h) = Inr (PurchasePayload sample_voucher)"
  using sample_purchase_valid by (simp add: tally_payload_of_def tally_sample_defs dict_of_def)

lemma release_none: "release_lapsed sample_device (tally_db (tally_action QUEUED n h)) = (Inr (), tally_db (tally_action QUEUED n h))"
  by (simp add: release_lapsed_def op_simps othen_def obind_def execute_actions_def update_actions_def tally_db_def
      tally_sample_defs lapsed_def)

definition claimed_db :: "nat \<Rightarrow> string \<Rightarrow> db" where
  "claimed_db n h = (tally_db ((leased sample_device 0 (tally_action QUEUED n h))\<lparr>a_version := 2\<rparr>))
     \<lparr>jobs := [(ready_job CLAIMED)\<lparr>j_lease_owner := Some ''tally:d'', j_lease_until := Some 90, j_attempts := 2\<rparr>]\<rparr>"

lemma sample_claim:
  assumes "n < 3"
  shows "\<exists>c. claim_tally sample_env sample_device ''u'' (tally_db (tally_action QUEUED n h)) = (Inr (Some c), claimed_db n h)
     \<and> tc_payload c = PurchasePayload sample_voucher \<and> tc_action c = 0"
proof -
  let ?act = "tally_action QUEUED n h"
  have f: "find (claimable_by sample_device) (actions (tally_db ?act)) = Some ?act"
    using assms by (simp add: tally_db_def claimable_by_def tally_sample_defs OPERATIONS_def)
  have pre: "tally_precondition sample_env sample_device (a_operation ?act) (tally_db ?act) = None"
  proof -
    have "a_operation ?act = purchase_operation" by (simp add: tally_action_def proposed_action_def)
    moreover have "now (tally_db ?act) = 0" by (simp add: tally_db_def empty_db_def)
    ultimately show ?thesis using sample_precondition [of "tally_db ?act" ?act] by simp
  qed
  have l: "take_lease sample_device ?act (tally_db ?act) = (Inr (), claimed_db n h)"
    by (simp add: take_lease_def op_simps othen_def obind_def execute_actions_def update_actions_def update_jobs_def tally_db_def
        tally_sample_defs action_triggers_def transition_trigger_def verified_success_trigger_def claimed_db_def leased_def
        map_where_def empty_db_def ready_job_def lease_seconds_def)
  have v: "v_guid sample_voucher = ''g''" "map fst (v_entries sample_voucher) = [''V'', ''P'']" "dc_company sample_device = ''g''"
    by (simp_all add: sample_voucher_def sample_device_def)
  have "a_id ?act = 0" by (simp add: tally_sample_defs)
  then show ?thesis
    using f pre l sample_ledgers sample_payload [of QUEUED n h] v
    by (simp add: claim_tally_def transaction_def othen_def obind_def release_none oget_def olift_def oret_def)
qed

lemma tally_claim_sound_witness: "balanced (payload_entries (PurchasePayload sample_voucher))"
proof -
  obtain h where h: "compute_payload_hash (VDict sample_purchase) = Inr h" using sample_hash by blast
  obtain c where c: "claim_tally sample_env sample_device ''u'' (tally_db (tally_action QUEUED 0 h)) = (Inr (Some c), claimed_db 0 h)"
    "tc_payload c = PurchasePayload sample_voucher" using sample_claim [of 0 h] by auto
  from tally_claim_sound [OF tally_db_ok [OF h] c(1)] c(2) show ?thesis by auto
qed

lemma no_tally_write_uncertified_witness:
  "\<forall>h c s'. claim_tally (sample_env\<lparr>te_certified := CERTIFIED_TALLY_VERSIONS\<rparr>) sample_device ''u'' (tally_db (tally_action QUEUED 0 h))
     \<noteq> (Inr (Some c), s')"
  using no_tally_write_uncertified [of "sample_env\<lparr>te_certified := CERTIFIED_TALLY_VERSIONS\<rparr>"] by simp

definition sample_report :: action_result where
  "sample_report = \<lparr> ar_status = ''PROVIDER_ACCEPTED'', ar_guid = ''G'', ar_error = '''',
     ar_readback = dict_set ''remote_id'' (VStr ''firmos:0'') sample_readback @ [(''guid'', VStr ''G'')] \<rparr>"

definition claimed_action :: "string \<Rightarrow> action" where
  "claimed_action h = (tally_action CLAIMED 1 h)\<lparr>a_lease_device := Some ''d''\<rparr>"

lemma sample_report_clean: "tally_mismatches (claimed_action h) sample_report = Inr []"
proof -
  have "compare_purchase sample_purchase (ar_readback sample_report) (deterministic_remote_id (nat_to_str 0)) = Inr []" by code_simp
  moreover have "text_of (ar_readback sample_report) ''guid'' = ar_guid sample_report" by code_simp
  ultimately show ?thesis by (simp add: tally_mismatches_def claimed_action_def tally_sample_defs dict_of_def)
qed

lemma sample_snapshot: "\<exists>h. snapshot_hash (VDict (ar_readback sample_report)) = Inr h"
proof -
  have "is_ok (json_sorted (VDict (ar_readback sample_report)))" by code_simp
  then show ?thesis by (cases "json_sorted (VDict (ar_readback sample_report))") (auto simp: snapshot_hash_def)
qed

lemma sample_read: "jsonb_ok (VDict (ar_readback sample_report))" "jsonb_ok (VDict [])"
  "get_or (ar_readback sample_report) ''tally_version'' VNone = VNone" "ar_readback sample_report \<noteq> []"
  by code_simp+

lemma sample_reported:
  "\<exists>r s'. report_result sample_env sample_device 0 sample_report ''u'' (tally_db (claimed_action h)) = (Inr r, s') \<and> rp_status r = SUCCEEDED
     \<and> map a_status (actions s') = [SUCCEEDED]"
proof -
  obtain d where d: "snapshot_hash (VDict (ar_readback sample_report)) = Inr d" using sample_snapshot by blast
  have st: "ar_status sample_report = ''PROVIDER_ACCEPTED''" "ar_guid sample_report = ''G''" by (simp_all add: sample_report_def)
  show ?thesis using sample_report_clean [of h] d sample_read st
    by (simp add: report_result_def verify_report_def transaction_def op_simps othen_def obind_def execute_actions_def
        update_actions_def tally_db_def empty_db_def claimed_action_def tally_sample_defs holds_lease_def action_triggers_def
        transition_trigger_def verified_success_trigger_def set_status_def record_verification_def upsert_snapshot_def
        has_match_def version_param_def project_tally_def project_verified_purchase_def projection_row_def find_by_def
        close_action_def finish_job_def update_jobs_def map_where_def new_id_def Let_def)
qed

lemma tally_success_verified_witness:
  "\<exists>h s' v. v \<in> set (verifications s') \<and> vf_status v = MATCHED
     \<and> s' = snd (report_result sample_env sample_device 0 sample_report ''u'' (tally_db (claimed_action h)))"
proof -
  obtain r s' where r: "report_result sample_env sample_device 0 sample_report ''u'' (tally_db (claimed_action ''h'')) = (Inr r, s')"
    "rp_status r = SUCCEEDED" using sample_reported by blast
  from tally_success_verified [OF r] r(1) show ?thesis by (intro exI [of _ "''h''"] exI [of _ s']) auto
qed

end
