(* ===== verification/Trust_Spine.thy ===== *)
theory Trust_Spine
  imports Tally_Actions
begin

text \<open>
  The trust spine as a state machine: every endpoint, worker run and scheduler tick that touches the
  ledger of finance actions is a step, in any order and with any arguments, connector behaviour and device
  state, and so are the passing of time and the other components' writes to the tables the ledger reads.
  The locale states what a system must grant the ledger; its lemmas hold for every run of such a system.
\<close>

section \<open>Systems that respect the ledger\<close>

locale ledger_system =
  fixes step :: "db \<Rightarrow> db \<Rightarrow> bool"
  assumes step_keeps: "step s s' \<Longrightarrow> ledger_ok W s \<Longrightarrow> ledger_ok W s'"
begin

lemma run_keeps: "step\<^sup>*\<^sup>* s s' \<Longrightarrow> ledger_ok W s \<Longrightarrow> ledger_ok W s'"
  by (induction rule: rtranclp_induct) (auto intro: step_keeps)

lemma watch: "ledger_ok {} s \<Longrightarrow> ledger_ok ((\<lambda>a. (ident a, a_status a)) ` set (actions s)) s"
  by (auto simp: ledger_ok_def intro: leads_refl)

lemma run_history:
  assumes "step\<^sup>*\<^sup>* s s'" and "ledger_ok {} s" and "a \<in> set (actions s)"
  shows "\<exists>a'\<in>set (actions s'). ident a' = ident a \<and> leads_to (a_status a) (a_status a')"
  using run_keeps [OF assms(1) watch [OF assms(2)]] assms(3) by (auto simp: ledger_ok_def)

lemma run_success:
  assumes "step\<^sup>*\<^sup>* s s'" and "ledger_ok {} s" and "a \<in> set (actions s')" and "a_status a = SUCCEEDED"
  shows "has_match s' (a_id a) \<and> a_approved_by a \<noteq> None \<and> a_approved_hash a = Some (a_hash a)
     \<and> compute_payload_hash (a_payload a) = Inr (a_hash a)"
proof -
  have "action_ok s' a" using run_keeps [OF assms(1,2)] assms(3) by (simp add: ledger_ok_def)
  then show ?thesis using assms(4) by (simp add: action_ok_def before_approval_def)
qed

lemma run_one_job:
  assumes "step\<^sup>*\<^sup>* s s'" and "ledger_ok {} s" and "j \<in> set (jobs s')"
  shows "(\<exists>a\<in>set (actions s'). a_id a = j_aggregate j \<and> a_approved_at a \<noteq> None)
     \<and> (\<forall>k\<in>set (jobs s'). j_kind k = j_kind j \<longrightarrow> j_aggregate k = j_aggregate j \<longrightarrow> k = j)"
proof -
  have inv: "ledger_ok {} s'" by (rule run_keeps [OF assms(1,2)])
  then have "inj_on (\<lambda>j. (j_kind j, j_aggregate j)) (set (jobs s'))" by (simp add: ledger_ok_def distinct_map)
  then show ?thesis using inv assms(3) by (auto simp: ledger_ok_def job_ok_def inj_on_def)
qed

end

section \<open>The steps\<close>

inductive spine_step :: "db \<Rightarrow> db \<Rightarrow> bool" where
  propose: "spine_step s (snd (propose_action p s))"
| prepare: "spine_step s (snd (prepare_action pr s))"
| approve: "spine_step s (snd (approve_route firm aid digest correlation s))"
| cancel: "spine_step s (snd (cancel_route firm aid s))"
| edit: "spine_step s (snd (withdraw_document user fid doc s))"
| worker: "spine_step s (snd (run_once w wid s))"
| worker_claims: "spine_step s (snd (claim wid s))"
| worker_starts: "go_ahead w s jb = Go act \<Longrightarrow> spine_step s (snd (start_execution act s))"
| worker_accepts: "spine_step s (snd (accept_write act ob s))"
| worker_rejects: "spine_step s (snd (reject_readback jb act ob v s))"
| worker_completes: "spine_step s (snd (complete_write w jb act ob v s))"
| worker_finishes: "st \<noteq> APPROVED \<Longrightarrow> spine_step s (snd (finish jb st code s))"
| schedule: "spine_step s (snd (tick s))"
| tally_claims: "spine_step s (snd (claim_tally env dev uuid s))"
| tally_renews: "spine_step s (snd (renew_lease dev aid s))"
| tally_reports: "spine_step s (snd (report_result env dev aid body uuid s))"
| bridge_reports: "spine_step s (snd (bridge_result firm aid device reported s))"
| disappear: "spine_step s (snd (mark_disappeared fid inst ty seen s))"
| snapshot: "spine_step s (snd (upsert_snapshot fid oinst ty pid values version st void s))"
| time: "now s \<le> t \<Longrightarrow> spine_step s (s\<lparr>now := t\<rparr>)"
| others: "spine_step s (s\<lparr>documents := docs, purchases := ps, sales := ss, installations := ins, certifications := cs, mappings := ms\<rparr>)"

inductive_cases time_stepE: "spine_step s (s\<lparr>now := t\<rparr>)"

lemma spine_step_keeps: "spine_step s s' \<Longrightarrow> ledger_ok W s \<Longrightarrow> ledger_ok W s'"
proof (induction rule: spine_step.induct)
  case (worker_finishes st s jb code)
  then show ?case using keeps_finish by (simp add: keeps_def)
qed (simp_all add: keeps_run_once [unfolded keeps_def] keeps_claim [unfolded keeps_def] keeps_start_execution [unfolded keeps_def]
      keeps_accept_write [unfolded keeps_def] keeps_reject_readback [unfolded keeps_def]
      keeps_complete_write [unfolded keeps_def] keeps_propose_action [unfolded keeps_def] keeps_prepare_action [unfolded keeps_def]
      keeps_approve_route [unfolded keeps_def] keeps_cancel_route [unfolded keeps_def] keeps_withdraw [unfolded keeps_def]
      keeps_tick [unfolded keeps_def] keeps_claim_tally [unfolded keeps_def] keeps_renew_lease [unfolded keeps_def]
      keeps_report_result [unfolded keeps_def] keeps_bridge_result [unfolded keeps_def]
      keeps_mark_disappeared [unfolded keeps_def] keeps_upsert_snapshot [unfolded keeps_def])

interpretation spine: ledger_system spine_step
  by unfold_locales (rule spine_step_keeps)

section \<open>What holds in every run\<close>

text \<open>The abstract lifecycle: which actions there are, by everything that identifies them, and their status.\<close>

definition lifecycle :: "db \<Rightarrow> (nat \<times> string \<times> string \<times> string \<times> string \<times> string \<times> pyval \<times> string \<times> nat option) \<rightharpoonup> status" where
  "lifecycle s = map_of (map (\<lambda>a. (ident a, a_status a)) (actions s))"

lemma ledger_empty: "actions s = [] \<Longrightarrow> jobs s = [] \<Longrightarrow> ledger_ok {} s"
  by (simp add: ledger_ok_def)

lemma distinct_ident: "ledger_ok W s \<Longrightarrow> distinct (map ident (actions s))"
  by (auto simp: ledger_ok_def distinct_map ident_def inj_on_def)

lemma lifecycle_iff:
  assumes "ledger_ok W s"
  shows "lifecycle s i = Some st \<longleftrightarrow> (\<exists>a\<in>set (actions s). ident a = i \<and> a_status a = st)"
proof -
  have "distinct (map fst (map (\<lambda>a. (ident a, a_status a)) (actions s)))" using distinct_ident [OF assms] by (simp add: comp_def)
  then show ?thesis by (auto simp: lifecycle_def)
qed

lemma leads_terminal: "leads_to st st' \<Longrightarrow> allowed st = [] \<Longrightarrow> st' = st"
  by (induction rule: leads_to.induct) auto

text \<open>
  C1. An action that counts as posted was verified and approved. In every state of every run, whatever
  the order of requests, worker statements, device reports and retries, an action that has succeeded has
  a matched verification of what the provider holds, and a reviewer approved exactly its payload.
\<close>

theorem succeeded_means_verified:
  assumes "ledger_ok {} s" and "spine_step\<^sup>*\<^sup>* s s'" and "a \<in> set (actions s')" and "a_status a = SUCCEEDED"
  shows "(\<exists>v\<in>set (verifications s'). vf_action v = a_id a \<and> vf_status v = MATCHED)
     \<and> a_approved_by a \<noteq> None \<and> a_approved_hash a = Some (a_hash a) \<and> compute_payload_hash (a_payload a) = Inr (a_hash a)"
  using spine.run_success [OF assms(2,1,3,4)] by (auto simp: has_match_def list_ex_iff)

text \<open>
  C2. The ledger refines its lifecycle. Along every run an action is never lost, its tenant, target,
  payload, hash and installation never change, and its status moves only along permitted transitions; so
  a succeeded, dead-lettered or cancelled action stays so.
\<close>

theorem lifecycle_refined:
  assumes "ledger_ok {} s" and "spine_step\<^sup>*\<^sup>* s s'" and "lifecycle s i = Some st"
  shows "\<exists>st'. lifecycle s' i = Some st' \<and> leads_to st st' \<and> (st \<in> {SUCCEEDED, DEAD_LETTER, CANCELLED} \<longrightarrow> st' = st)"
proof -
  obtain a where a: "a \<in> set (actions s)" "ident a = i" "a_status a = st" using assms(3) lifecycle_iff [OF assms(1)] by blast
  obtain a' where a': "a' \<in> set (actions s')" "ident a' = i" "leads_to st (a_status a')"
    using spine.run_history [OF assms(2,1) a(1)] a(2,3) by auto
  have "lifecycle s' i = Some (a_status a')" using lifecycle_iff [OF spine.run_keeps [OF assms(2,1)]] a' by blast
  then show ?thesis using a'(3) leads_terminal by (intro exI [of _ "a_status a'"]) auto
qed

text \<open>
  C5. Work is queued once and only after approval. In every state of every run each automation job belongs
  to an approved action and is the only job of its kind for it, and an action whose status is past approval
  carries an approver and the approved hash of its own payload.
\<close>

theorem queued_once_after_approval:
  assumes "ledger_ok {} s" and "spine_step\<^sup>*\<^sup>* s s'"
  shows "(\<forall>j\<in>set (jobs s'). (\<exists>a\<in>set (actions s'). a_id a = j_aggregate j \<and> a_approved_at a \<noteq> None)
           \<and> (\<forall>k\<in>set (jobs s'). j_kind k = j_kind j \<longrightarrow> j_aggregate k = j_aggregate j \<longrightarrow> k = j))
     \<and> (\<forall>a\<in>set (actions s'). a_status a \<notin> {DRAFT, VALIDATED, AWAITING_APPROVAL, NEEDS_INPUT, CANCELLED} \<longrightarrow>
           a_approved_by a \<noteq> None \<and> a_approved_hash a = Some (a_hash a))"
proof -
  have "\<forall>a\<in>set (actions s'). action_ok s' a" using spine.run_keeps [OF assms(2,1)] by (simp add: ledger_ok_def)
  then show ?thesis using spine.run_one_job [OF assms(2,1)] by (auto simp: action_ok_def before_approval_def)
qed

section \<open>A run that posts a voucher\<close>

lemma posted_run:
  obtains h s' where "ledger_ok {} (tally_db (claimed_action h))" "spine_step\<^sup>*\<^sup>* (tally_db (claimed_action h)) s'"
    "map a_status (actions s') = [SUCCEEDED]"
proof -
  obtain h where h: "compute_payload_hash (VDict sample_purchase) = Inr h" using sample_hash by blast
  obtain r s' where r: "report_result sample_env sample_device 0 sample_report ''u'' (tally_db (claimed_action h)) = (Inr r, s')"
    "rp_status r = SUCCEEDED" "map a_status (actions s') = [SUCCEEDED]" using sample_reported [of h] by (elim exE conjE)
  have "ledger_ok {} (tally_db (claimed_action h))" using h
    by (simp add: ledger_ok_def tally_db_def empty_db_def claimed_action_def tally_sample_defs action_ok_def ready_job_def job_ok_def)
  moreover have "spine_step (tally_db (claimed_action h)) (snd (report_result sample_env sample_device 0 sample_report ''u'' (tally_db (claimed_action h))))"
    by (rule tally_reports)
  ultimately show thesis using that [of h s'] r(1,3) by auto
qed

lemma succeeded_means_verified_witness: "\<exists>(s :: db) v. v \<in> set (verifications s) \<and> vf_status v = MATCHED \<and> map a_status (actions s) = [SUCCEEDED]"
proof -
  obtain h s' where r: "ledger_ok {} (tally_db (claimed_action h))" "spine_step\<^sup>*\<^sup>* (tally_db (claimed_action h)) s'"
    "map a_status (actions s') = [SUCCEEDED]" by (rule posted_run)
  obtain a where a: "a \<in> set (actions s')" "a_status a = SUCCEEDED" using r(3) by auto
  from succeeded_means_verified [OF r(1,2) a] obtain v where "v \<in> set (verifications s')" "vf_status v = MATCHED" by blast
  with r(3) show ?thesis by (intro exI [of _ s'] exI [of _ v]) simp
qed

lemma lifecycle_refined_witness:
  "\<exists>s i st'. lifecycle s i = Some CLAIMED \<and> leads_to CLAIMED st'"
proof -
  obtain h s' where r: "ledger_ok {} (tally_db (claimed_action h))" "spine_step\<^sup>*\<^sup>* (tally_db (claimed_action h)) s'" by (rule posted_run)
  have "lifecycle (tally_db (claimed_action h)) (ident (claimed_action h)) = Some CLAIMED"
    by (simp add: lifecycle_def tally_db_def claimed_action_def tally_action_def)
  from lifecycle_refined [OF r(1,2) this] this show ?thesis by blast
qed

lemma queued_once_after_approval_witness:
  "\<exists>s :: db. map a_status (actions s) = [SUCCEEDED] \<and> (\<forall>a\<in>set (actions s). a_approved_by a \<noteq> None)"
proof -
  obtain h s' where r: "ledger_ok {} (tally_db (claimed_action h))" "spine_step\<^sup>*\<^sup>* (tally_db (claimed_action h)) s'"
    "map a_status (actions s') = [SUCCEEDED]" by (rule posted_run)
  have "\<forall>a\<in>set (actions s'). a_status a = SUCCEEDED" using r(3) by (auto simp: map_eq_Cons_conv)
  with queued_once_after_approval [OF r(1,2)] r(3) show ?thesis by (intro exI [of _ s']) simp
qed

end
