(* ===== verification/Tally_Lapses.thy ===== *)
theory Tally_Lapses
  imports Tally_Actions
begin

text \<open>
  What becomes of a Tally action whose lease lapses for the third time (\<open>api/routes/tally_agent_actions.py\<close>,
  \<open>automation/scheduler.py\<close>, \<open>automation/worker.py\<close>). The machines of the system are the desktop agents, the worker
  and the scheduler: their claims, renewals, reports, runs and ticks, in any order and with any device state, provider
  behaviour and time, are the steps of a state machine, whose invariant says that the action is left alone.
\<close>

section \<open>An action that is left alone\<close>

text \<open>The action stands as it is, its jobs are claimed, and none of the jobs that are being worked on is its.\<close>

definition left_alone :: "action \<Rightarrow> nat set \<Rightarrow> db \<Rightarrow> bool" where
  "left_alone act N s =
     (ledger_ok {} s \<and> act \<in> set (actions s) \<and> distinct (map j_id (jobs s))
      \<and> (\<forall>j\<in>set (jobs s). j_aggregate j = a_id act \<longrightarrow> j_status j = CLAIMED \<and> j_id j \<notin> N))"

lemma keeps_both: "keeps I m \<Longrightarrow> (\<And>s. I s \<Longrightarrow> J s \<Longrightarrow> J (snd (m s))) \<Longrightarrow> keeps (\<lambda>s. I s \<and> J s) m"
  by (simp add: keeps_def)

lemma update_rows_other:
  "update_rows p f rs = Inr (rs', hits) \<Longrightarrow> r \<in> set rs \<Longrightarrow> \<not> p r \<Longrightarrow> r \<in> set rs'"
  by (induction rs arbitrary: rs' hits) (auto simp: rbind_eq_Inr split: prod.splits if_splits)

lemma update_rows_hit:
  "update_rows p f rs = Inr (rs', hits) \<Longrightarrow> r \<in> set rs \<Longrightarrow> p r \<Longrightarrow> f r = Inr r' \<Longrightarrow> r' \<in> set rs'"
  by (induction rs arbitrary: rs' hits) (auto simp: rbind_eq_Inr split: prod.splits if_splits)

lemma alone_update:
  assumes "lawful p f" and "\<not> p act" and "left_alone act N s"
  shows "left_alone act N (snd (update_actions p f s))"
proof -
  have "ledger_ok {} (snd (update_actions p f s))"
    using keeps_update_actions [OF assms(1)] assms(3) by (simp add: keeps_def left_alone_def)
  moreover have "act \<in> set (actions (snd (update_actions p f s))) \<and> jobs (snd (update_actions p f s)) = jobs s"
    using assms(2,3) update_rows_other [of p "\<lambda>a. action_triggers s a (f a)" "actions s" _ _ act]
    by (auto simp: update_actions_def left_alone_def split: sum.splits)
  ultimately show ?thesis using assms(3) by (simp add: left_alone_def)
qed

lemma keeps_alone_update: "lawful p f \<Longrightarrow> \<not> p act \<Longrightarrow> keeps (left_alone act N) (update_actions p f)"
  using alone_update by (simp add: keeps_def)

lemma keeps_alone_execute: "lawful p f \<Longrightarrow> \<not> p act \<Longrightarrow> keeps (left_alone act N) (execute_actions p f)"
  unfolding execute_actions_def by (intro keeps_intros keeps_alone_update)

text \<open>Statements on jobs spare those of the action when they are addressed to another action or to a job worked on.\<close>

lemma keeps_alone_jobs:
  assumes "\<And>j. j_kind (f j) = j_kind j \<and> j_aggregate (f j) = j_aggregate j \<and> j_id (f j) = j_id j"
    and "\<And>j. p j \<Longrightarrow> j_aggregate j \<noteq> a_id act \<or> j_id j \<in> N"
  shows "keeps (left_alone act N) (update_jobs p f)"
  unfolding keeps_def
proof (intro allI impI)
  fix s assume s: "left_alone act N s"
  have "ledger_ok {} (snd (update_jobs p f s))" using keeps_update_jobs [of f "{}" p] s assms(1) by (simp add: keeps_def left_alone_def)
  moreover have "map j_id (map_where p f (jobs s)) = map j_id (jobs s)" using assms(1) by (simp add: map_where_def)
  moreover have "j_status j = CLAIMED \<and> j_id j \<notin> N" if "j \<in> set (map_where p f (jobs s))" "j_aggregate j = a_id act" for j
    using that s assms by (auto simp: map_where_def left_alone_def split: if_splits)
  ultimately show "left_alone act N (snd (update_jobs p f s))" using s by (simp add: left_alone_def update_jobs_def omod_def)
qed

lemma keeps_alone_other:
  assumes "keeps (ledger_ok {}) m" and "\<And>A J. keeps (\<lambda>s. actions s = A \<and> jobs s = J) m"
  shows "keeps (left_alone act N) m"
  unfolding keeps_def
proof (intro allI impI)
  fix s assume s: "left_alone act N s"
  have "actions (snd (m s)) = actions s \<and> jobs (snd (m s)) = jobs s"
    using assms(2) [of "actions s" "jobs s"] by (simp add: keeps_def)
  moreover have "ledger_ok {} (snd (m s))" using assms(1) s by (simp add: keeps_def left_alone_def)
  ultimately show "left_alone act N (snd (m s))" using s by (simp add: left_alone_def)
qed

lemma keeps_tables:
  "keeps (\<lambda>s. actions s = A \<and> jobs s = J) (record_verification firm inst aid ty pid vals ms correlation version)"
  "keeps (\<lambda>s. actions s = A \<and> jobs s = J) (project_verified_purchase d aid vid)"
  "keeps (\<lambda>s. actions s = A \<and> jobs s = J) (project_verified_sale d aid vid)"
  unfolding record_verification_def upsert_snapshot_def project_verified_purchase_def project_verified_sale_def new_id_def raise_db_def
  by (intro keeps_intros keeps_omod; simp add: mark_posted_def)+

lemma keeps_alone_verification:
  "keeps (left_alone act N) (record_verification firm inst aid ty pid vals ms correlation version)"
  "keeps (left_alone act N) (project_verified_purchase d aid vid)" "keeps (left_alone act N) (project_verified_sale d aid vid)"
  by (rule keeps_alone_other [OF keeps_record_verification keeps_tables(1)], rule keeps_alone_other [OF keeps_project_purchase keeps_tables(2)],
      rule keeps_alone_other [OF keeps_project_sale keeps_tables(3)])

lemma alone_distinct:
  assumes "left_alone act N s" and "other \<in> set (actions s)" and "a_status other \<noteq> a_status act"
  shows "a_id other \<noteq> a_id act"
  using same_id_same_action [of "{}" s other act] assms by (auto simp: left_alone_def)

lemma alone_fewer: "left_alone act N s \<Longrightarrow> M \<subseteq> N \<Longrightarrow> left_alone act M s"
  by (auto simp: left_alone_def)

section \<open>The desktop agents\<close>

lemma keeps_alone_release:
  assumes "a_status act = RETRY_SCHEDULED" and "3 \<le> a_attempt act"
  shows "keeps (left_alone act N) (release_lapsed dev)"
  unfolding release_lapsed_def using assms
  by (intro keeps_intros keeps_alone_execute lawful_status) (simp_all add: lawful_def ident_def lapsed_def)

lemma keeps_alone_lease: "a_id other \<noteq> a_id act \<Longrightarrow> keeps (left_alone act N) (take_lease dev other)"
  unfolding take_lease_def
  by (intro keeps_intros keeps_alone_execute keeps_alone_jobs) (auto simp: lawful_def ident_def)

lemma keeps_alone_rest:
  assumes "a_status act = RETRY_SCHEDULED"
  shows "keeps (left_alone act N)
      (obind (oget (\<lambda>s. find (claimable_by dev) (actions s))) (\<lambda>found.
       case found of
         None \<Rightarrow> oret None
       | Some act \<Rightarrow>
           obind (oget (tally_precondition env dev (a_operation act))) (\<lambda>blocked.
           case blocked of
             Some reason \<Rightarrow> oraise (HTTPException 409 reason)
           | None \<Rightarrow>
               obind (olift (tally_payload_of act)) (\<lambda>p.
               if payload_company p \<noteq> dc_company dev then oraise (HTTPException 409 ''COMPANY_IDENTITY_MISMATCH'')
               else if \<not> ledgers_known env dev (map fst (payload_entries p))
               then oraise (HTTPException 409 ''LEDGER_IDENTITY_NOT_FOUND'')
               else
                 othen (take_lease dev act)
                   (oret (Some \<lparr> tc_action = a_id act, tc_operation = a_operation act,
                                 tc_remote = deterministic_remote_id (nat_to_str (a_id act)), tc_payload = p,
                                 tc_correlation = or_str (a_correlation act) uuid \<rparr>))))))"
proof (rule keeps_obind_post [OF keeps_oget], goal_cases)
  case (1 s found s2)
  show ?case
  proof (cases found)
    case None
    then show ?thesis using 1 by (simp add: oret_def)
  next
    case (Some other)
    then have "other \<in> set (actions s2)" "a_status other = QUEUED" "left_alone act N s2"
      using 1 find_SomeD [of "claimable_by dev" "actions s" other] by (auto simp: oget_Inr claimable_by_def)
    then have "a_id other \<noteq> a_id act" using alone_distinct assms by fastforce
    note lease = keeps_alone_lease [OF this, of N dev]
    show ?thesis unfolding Some option.case
      by (rule keeps_snd [where I = "left_alone act N", OF _ \<open>left_alone act N s2\<close>]) (intro keeps_intros lease)
  qed
qed

lemma keeps_alone_claim:
  assumes "a_status act = RETRY_SCHEDULED" and "3 \<le> a_attempt act"
  shows "keeps (left_alone act N) (claim_tally env dev uuid)"
  unfolding claim_tally_def
  by (intro keeps_transaction keeps_othen keeps_alone_release assms keeps_alone_rest)

lemma keeps_alone_renew:
  assumes "a_status act = RETRY_SCHEDULED"
  shows "keeps (left_alone act N) (renew_lease dev aid)"
  unfolding renew_lease_def
  by (intro keeps_intros keeps_alone_update) (simp_all add: lawful_def ident_def holds_lease_def assms)

lemma keeps_alone_close:
  "aid \<noteq> a_id act \<Longrightarrow> st \<noteq> APPROVED \<Longrightarrow> keeps (left_alone act N) (close_action aid st)"
  unfolding close_action_def finish_job_def
  by (intro keeps_intros keeps_alone_execute keeps_alone_jobs) (auto simp: lawful_def ident_def)

lemma keeps_alone_verify:
  assumes "a_id other \<noteq> a_id act"
  shows "keeps (left_alone act N) (verify_report env dev other body uuid)"
  unfolding verify_report_def project_tally_def Let_def
  by (intro keeps_intros keeps_alone_execute lawful_status keeps_alone_verification keeps_alone_close assms)
     (use assms in \<open>auto simp: lawful_def ident_def\<close>)

lemma keeps_alone_report:
  assumes "a_status act = RETRY_SCHEDULED"
  shows "keeps (left_alone act N) (report_result env dev aid body uuid)"
  unfolding report_result_def Let_def
proof (rule keeps_transaction, rule keeps_obind_post [OF keeps_oget], goal_cases)
  case (1 s found s2)
  show ?case
  proof (cases found)
    case None
    then show ?thesis using 1 by (simp add: oraise_def)
  next
    case (Some other)
    then have o: "other \<in> set (actions s2)" "a_status other = CLAIMED" "a_id other = aid" "left_alone act N s2"
      using 1 find_SomeD [of "holds_lease dev aid" "actions s" other] by (auto simp: oget_Inr holds_lease_def)
    then have "a_id other \<noteq> a_id act" using alone_distinct assms by fastforce
    then have d: "aid \<noteq> a_id act" "a_id other \<noteq> a_id act" using o(3) by simp_all
    show ?thesis unfolding Some option.case
      by (rule keeps_snd [where I = "left_alone act N", OF _ o(4)])
         (intro keeps_intros keeps_alone_execute lawful_status keeps_alone_close keeps_alone_verify, use d in auto)
  qed
qed

lemma keeps_alone_bridge:
  assumes "a_status act = RETRY_SCHEDULED"
  shows "keeps (left_alone act N) (bridge_result firm aid device reported)"
  unfolding bridge_result_def Let_def
proof (rule keeps_transaction, rule keeps_obind_post [OF keeps_oget], goal_cases)
  case (1 s x s2)
  obtain t found where x: "x = (t, found)" by (cases x)
  show ?case
  proof (cases found)
    case None
    then show ?thesis using 1 x by (simp add: oraise_def)
  next
    case (Some other)
    then have o: "other \<in> set (actions s2)" "a_id other = aid" "left_alone act N s2"
      using 1 x find_SomeD [of "\<lambda>a. a_id a = aid \<and> a_firm a = f_firm firm" "actions s" other] by (auto simp: oget_Inr)
    show ?thesis
    proof (cases "a_status other = EXECUTING")
      case True
      then have "aid \<noteq> a_id act" using alone_distinct [OF o(3,1)] o(2) assms by simp
      then show ?thesis unfolding x Some option.case prod.case
        by (intro keeps_snd [where I = "left_alone act N", OF _ o(3)] keeps_intros keeps_alone_execute) (auto simp: lawful_def ident_def)
    qed (use o in \<open>simp add: x Some oraise_def\<close>)
  qed
qed

section \<open>The worker and the scheduler\<close>

lemma keeps_alone_complete:
  "j_id job \<in> N \<Longrightarrow> keeps (left_alone act N) (complete_attempt job st code)"
  unfolding complete_attempt_def
  by (intro keeps_intros keeps_alone_jobs keeps_omod) (auto simp: left_alone_def ledger_ok_def action_ok_def job_ok_def has_match_def)

lemma keeps_alone_finish:
  assumes "j_aggregate job \<noteq> a_id act" and "j_id job \<in> N" and "st \<noteq> APPROVED"
  shows "keeps (left_alone act N) (finish job st code)"
  unfolding finish_def add_dead_letter_def Let_def
  by (intro keeps_intros keeps_alone_execute lawful_status keeps_alone_jobs keeps_alone_complete keeps_omod assms)
     (use assms in \<open>auto simp: left_alone_def ledger_ok_def action_ok_def job_ok_def has_match_def\<close>)

lemma keeps_alone_perform:
  assumes "j_aggregate job \<noteq> a_id act" and "j_id job \<in> N" and "a_id other \<noteq> a_id act"
  shows "keeps (left_alone act N) (perform w job other)"
proof -
  have failure: "keeps (left_alone act N) (result_failure job st code)" for st code
    unfolding result_failure_def by (intro keeps_intros keeps_alone_finish assms(1,2)) simp_all
  have accept: "keeps (left_alone act N) (accept_write other ob)" for ob
    unfolding accept_write_def by (intro keeps_intros keeps_alone_execute lawful_status) (use assms in \<open>auto simp: lawful_def ident_def\<close>)
  have reject: "keeps (left_alone act N) (reject_readback job other ob v)" for ob v
    unfolding reject_readback_def by (intro keeps_intros keeps_alone_verification keeps_alone_finish assms(1,2)) simp
  have complete: "keeps (left_alone act N) (complete_write w job other ob v)" for ob v
    unfolding complete_write_def
    by (intro keeps_intros keeps_alone_verification keeps_alone_execute lawful_status keeps_alone_complete assms(2)) (use assms in auto)
  show ?thesis
    unfolding perform_def
    by (intro keeps_intros accept)
       (auto intro!: keeps_intros accept reject complete failure split: result_status.split option.split)
qed

lemma keeps_alone_finance:
  assumes "j_aggregate job \<noteq> a_id act" and "j_id job \<in> N"
  shows "keeps (left_alone act N) (run_finance_action w job)"
  unfolding run_finance_action_def
proof (rule keeps_obind_post [OF keeps_oget], goal_cases)
  case (1 s g s2)
  have fail: "keeps (left_alone act N) (on_failure job e)" for e
    unfolding on_failure_def by (cases e) (simp_all add: keeps_alone_finish assms)
  show ?case
  proof (cases g)
    case (Refuse r)
    then show ?thesis using keeps_snd [OF keeps_alone_finish [OF assms, of FAILED r]] 1 by simp
  next
    case (Go other)
    then have "a_id other \<noteq> a_id act" using 1 go_aheadD [of w s job other] assms(1) by (auto simp: oget_Inr)
    note parts = keeps_alone_perform [OF assms this, of w] fail keeps_alone_execute [of _ _ act N]
    show ?thesis unfolding Go go.case start_execution_def
      by (rule keeps_snd [where I = "left_alone act N"], intro keeps_intros parts)
         (use \<open>a_id other \<noteq> a_id act\<close> 1 in \<open>auto simp: lawful_def ident_def\<close>)
  qed
qed

text \<open>The worker claims a queued job, so not one of the action.\<close>

lemma alone_claimed:
  assumes "left_alone act {} s" and "claim worker s = (Inr (Some job), s')"
  shows "left_alone act {j_id job} s'" and "j_aggregate job \<noteq> a_id act"
proof -
  obtain j where j: "find (claimable s) (jobs s) = Some j" "job = j\<lparr>j_attempts := j_attempts j + 1\<rparr>"
    and m: "(othen (update_jobs (\<lambda>x. j_id x = j_id j)
                  (\<lambda>x. x\<lparr>j_status := CLAIMED, j_lease_owner := Some worker, j_lease_until := Some (now s + 60),
                         j_attempts := j_attempts x + 1\<rparr>))
        (othen (execute_actions (\<lambda>a. a_id a = j_aggregate j \<and> a_status a = QUEUED) (set_status CLAIMED))
        (othen (insert_attempt (j_id j) (j_attempts j + 1))
           (oret (Some (j\<lparr>j_attempts := j_attempts j + 1\<rparr>)))))) s = (Inr (Some job), s')"
    using assms(2) unfolding claim_def transaction_Inr
    by (auto elim!: othen_InrE simp: op_simps op_runs split: option.splits)
  have q: "j \<in> set (jobs s)" "j_status j = QUEUED" using find_SomeD [OF j(1)] by (auto simp: claimable_def)
  then have other: "j_aggregate j \<noteq> a_id act" using assms(1) by (auto simp: left_alone_def)
  have inj: "x \<in> set (jobs s) \<Longrightarrow> j_id x = j_id j \<Longrightarrow> x = j" for x
    using assms(1) q(1) by (auto simp: left_alone_def distinct_map dest: inj_onD)
  then have start: "left_alone act {j_id j} s" using assms(1) other by (auto simp: left_alone_def)
  have "keeps (left_alone act {j_id j}) (insert_attempt n k)" for n k
    unfolding insert_attempt_def raise_db_def
    by (intro keeps_intros keeps_omod) (auto simp: left_alone_def ledger_ok_def action_ok_def job_ok_def has_match_def)
  then have "keeps (left_alone act {j_id j}) (othen (update_jobs (\<lambda>x. j_id x = j_id j)
                  (\<lambda>x. x\<lparr>j_status := CLAIMED, j_lease_owner := Some worker, j_lease_until := Some (now s + 60),
                         j_attempts := j_attempts x + 1\<rparr>))
        (othen (execute_actions (\<lambda>a. a_id a = j_aggregate j \<and> a_status a = QUEUED) (set_status CLAIMED))
        (othen (insert_attempt (j_id j) (j_attempts j + 1))
           (oret (Some (j\<lparr>j_attempts := j_attempts j + 1\<rparr>))))))"
    by (intro keeps_intros keeps_alone_jobs keeps_alone_execute lawful_status) (use other in auto)
  from keepsD [OF this start m] show "left_alone act {j_id job} s'" by (simp add: j(2))
  show "j_aggregate job \<noteq> a_id act" using other by (simp add: j(2))
qed

lemma claim_nothing: "claim worker s = (Inr None, s') \<Longrightarrow> s' = s" "claim worker s = (Inl e, s') \<Longrightarrow> s' = s"
  unfolding claim_def
  by (auto simp: transaction_def obind_def othen_def oget_def oret_def split: option.splits prod.splits sum.splits)

lemma keeps_alone_run: "keeps (left_alone act {}) (run_once w worker)"
  unfolding keeps_def
proof (intro allI impI)
  fix s assume s: "left_alone act {} s"
  obtain r s1 where c: "claim worker s = (r, s1)" by fastforce
  consider e where "r = Inl e" | "r = Inr None" | job where "r = Inr (Some job)" by (cases r; metis option.exhaust)
  then show "left_alone act {} (snd (run_once w worker s))"
  proof cases
    case (3 job)
    note a = alone_claimed [OF s c [unfolded 3]]
    have run: "keeps (left_alone act {j_id job}) (run_finance_action w job)" by (rule keeps_alone_finance [OF a(2)]) simp
    have "keeps (left_alone act {j_id job})
        (if j_kind job = ''FINANCE_ACTION'' then othen (run_finance_action w job) (oret True) else oret True)"
      by (intro keeps_intros run)
    then have "left_alone act {j_id job} (snd (run_once w worker s))"
      using a(1) c 3 by (simp add: run_once_def obind_def keeps_def)
    then show ?thesis by (rule alone_fewer) simp
  next
    case 1
    then show ?thesis using claim_nothing(2) [OF c [unfolded 1]] c s by (simp add: run_once_def obind_def)
  next
    case 2
    then show ?thesis using claim_nothing(1) [OF c [unfolded 2]] c s by (simp add: run_once_def obind_def oret_def)
  qed
qed

lemma keeps_alone_tick:
  shows "keeps (left_alone act {}) tick"
  unfolding tick_def
proof (rule keeps_transaction, rule keeps_obind_post [OF keeps_oget], goal_cases)
  case (1 s due s2)
  then have due: "due = filter (due_retry s) (jobs s)" "s2 = s" "left_alone act {} s" by (auto simp: oget_Inr)
  then have other: "j_aggregate j \<noteq> a_id act" "a_id act \<noteq> j_aggregate j" if "j \<in> set due" for j
    using that by (auto simp: left_alone_def due_retry_def)
  show ?case unfolding due(2)
    by (rule keeps_snd [where I = "left_alone act {}", OF _ due(3)])
       (intro keeps_intros keeps_alone_execute lawful_status keeps_alone_jobs, (use other in \<open>force simp: lawful_def ident_def\<close>)+)
qed

section \<open>The machines\<close>

inductive machine_step :: "db \<Rightarrow> db \<Rightarrow> bool" where
  agent_claims: "machine_step s (snd (claim_tally env dev uuid s))"
| agent_renews: "machine_step s (snd (renew_lease dev aid s))"
| agent_reports: "machine_step s (snd (report_result env dev aid body uuid s))"
| bridge_reports: "machine_step s (snd (bridge_result firm aid device reported s))"
| worker_runs: "machine_step s (snd (run_once w wid s))"
| scheduler_ticks: "machine_step s (snd (tick s))"
| time_passes: "machine_step s (s\<lparr>now := t\<rparr>)"

lemma machine_leaves_alone:
  assumes "a_status act = RETRY_SCHEDULED" and "3 \<le> a_attempt act"
  shows "machine_step s s' \<Longrightarrow> left_alone act {} s \<Longrightarrow> left_alone act {} s'"
proof (induction rule: machine_step.induct)
  case (time_passes s t)
  then show ?case by (simp add: left_alone_def ledger_ok_def action_ok_def job_ok_def has_match_def)
qed (erule keeps_snd [rotated], rule keeps_alone_claim keeps_alone_renew keeps_alone_report keeps_alone_bridge keeps_alone_run
      keeps_alone_tick, ((rule assms)+)?)+

text \<open>The actions that no machine can take up again.\<close>

definition exhausted :: "action \<Rightarrow> db \<Rightarrow> bool" where
  "exhausted act s = (a_status act = RETRY_SCHEDULED \<and> 3 \<le> a_attempt act \<and> left_alone act {} s)"

interpretation machines: state_machine machine_step "exhausted act" for act
  by unfold_locales (auto simp: exhausted_def intro: machine_leaves_alone)

section \<open>The third lapse\<close>

text \<open>A claim of an action takes its jobs along, and the action it hands out is the only one of its number.\<close>

definition held :: "device_context \<Rightarrow> int \<Rightarrow> action \<Rightarrow> db \<Rightarrow> bool" where
  "held dev u act s =
     (ledger_ok {} s \<and> act \<in> set (actions s) \<and> distinct (map j_id (jobs s))
      \<and> (\<forall>j\<in>set (jobs s). j_aggregate j = a_id act \<longrightarrow> j_status j = CLAIMED)
      \<and> a_status act = CLAIMED \<and> a_provider act = ''TALLY_PRIME'' \<and> a_installation act = Some (dc_installation dev)
      \<and> a_lease_until act = Some u)"

lemma release_keeps_jobs: "keeps (\<lambda>s. jobs s = J) (release_lapsed dev)"
proof -
  have "keeps (\<lambda>s. jobs s = J) (execute_actions p f)" for p f
    by (auto simp: keeps_def execute_actions_def update_actions_def obind_def oret_def split: sum.splits)
  then show ?thesis unfolding release_lapsed_def by (intro keeps_intros)
qed

lemma take_lease_jobs:
  assumes "take_lease dev act s = (Inr (), s')"
  shows "now s' = now s" and "jobs s' = map_where (\<lambda>j. j_kind j = ''FINANCE_ACTION'' \<and> j_aggregate j = a_id act)
          (\<lambda>j. j\<lparr>j_status := CLAIMED, j_lease_owner := Some (''tally:'' @ dc_id dev), j_lease_until := Some (now s + lease_seconds),
                 j_attempts := j_attempts j + 1\<rparr>) (jobs s)"
  using assms by (auto simp: take_lease_def execute_actions_def update_actions_def update_jobs_def omod_def oget_def oret_def
      othen_def obind_def split: sum.splits)

lemma claimed_is_held:
  assumes "ledger_ok {} s" and "distinct (map j_id (jobs s))"
    and "\<forall>j\<in>set (jobs s). j_aggregate j = tc_action c \<longrightarrow> j_kind j = ''FINANCE_ACTION''"
    and claim: "claim_tally env dev uuid s = (Inr (Some c), s1)" and act: "act \<in> set (actions s1)" "a_id act = tc_action c"
  shows "held dev (now s1 + lease_seconds) act s1"
proof -
  from claim obtain s0 old p where o: "release_lapsed dev s = (Inr (), s0)" "old \<in> set (actions s0)" "claimable_by dev old"
    "take_lease dev old s0 = (Inr (), s1)" "tc_action c = a_id old" by (rule claim_tallyE)
  have ok: "ledger_ok {} s0" "ledger_ok {} s1"
    using keepsD [OF keeps_release_lapsed assms(1) o(1)] keepsD [OF keeps_claim_tally assms(1) claim] by simp_all
  have js: "jobs s0 = jobs s" using keepsD [OF release_keeps_jobs refl o(1)] .
  note lease = take_lease_jobs [OF o(4)]
  let ?new = "(leased dev (now s0) old)\<lparr>a_version := a_version old + 1\<rparr>"
  have "?new \<in> set (actions s1)" using take_leaseE [OF ok(1) o(2) _ o(4)] o(3) by (simp add: claimable_by_def)
  moreover have "a_id ?new = a_id act" using act(2) o(5) by (simp add: leased_def)
  ultimately have new: "act = ?new" using same_id_same_action [OF ok(2) act(1)] by metis
  have "distinct (map j_id (jobs s1))" using assms(2) by (simp add: lease(2) js map_where_def comp_def if_distrib cong: if_cong)
  moreover have "\<forall>j\<in>set (jobs s1). j_aggregate j = a_id act \<longrightarrow> j_status j = CLAIMED"
    using assms(3) act(2) o(5) by (auto simp: lease(2) js map_where_def)
  ultimately show ?thesis
    using ok(2) act(1) o(3) new lease(1) by (simp add: held_def leased_def claimable_by_def)
qed

text \<open>When the lease has run out, the claim of any device of the installation releases the action, which no statement takes up.\<close>

lemma lapse_exhausts:
  assumes "held dev u act s" and "u < now s" and "3 \<le> a_attempt act" and "release_lapsed dev s = (Inr (), s')"
  obtains act' where "exhausted act' s'" "a_id act' = a_id act" "a_attempt act' = a_attempt act" "a_lease_device act' = None"
proof -
  let ?f = "\<lambda>a. a\<lparr>a_status := RETRY_SCHEDULED, a_lease_device := None, a_lease_until := None\<rparr>"
  let ?late = "?f act\<lparr>a_version := a_version act + 1\<rparr>"
  have t: "action_triggers s act (?f act) = Inr ?late"
    using assms(1) by (simp add: held_def action_triggers_def transition_trigger_def verified_success_trigger_def)
  from assms(4) obtain s1 where s1: "execute_actions (lapsed dev (now s)) ?f s = (Inr (), s1)"
    "execute_actions (\<lambda>a. a_installation a = Some (dc_installation dev) \<and> a_provider a = ''TALLY_PRIME''
       \<and> a_status a = RETRY_SCHEDULED \<and> a_attempt a < 3) (set_status QUEUED) s1 = (Inr (), s')"
    unfolding release_lapsed_def by (auto elim!: obind_InrE othen_InrE simp: oget_Inr)
  have "ledger_ok {} s1"
    using keepsD [OF keeps_execute_actions _ s1(1)] assms(1) by (auto simp: held_def lawful_def ident_def)
  moreover have "?late \<in> set (actions s1)"
    using s1(1) assms(1,2) t update_rows_hit [of "lapsed dev (now s)" "\<lambda>a. action_triggers s a (?f a)" "actions s" _ _ act ?late]
    by (auto simp: execute_actions_def update_actions_def obind_def oret_def held_def lapsed_def split: sum.splits)
  moreover have "jobs s1 = jobs s"
    using s1(1) by (auto simp: execute_actions_def update_actions_def obind_def oret_def split: sum.splits)
  ultimately have "left_alone ?late {} s1" using assms(1) by (simp add: left_alone_def held_def)
  then have "left_alone ?late {} s'"
    by (rule keepsD [OF keeps_alone_execute [OF lawful_status] _ s1(2), rotated -1]) (use assms(3) in simp_all)
  then show thesis by (intro that [of ?late]) (use assms(3) in \<open>simp_all add: exhausted_def\<close>)
qed

lemma othen_keeps:
  assumes "othen m k s = (Inr r, s')" and "\<And>act N. P act \<Longrightarrow> keeps (I act N) k"
  obtains x s1 where "m s = (Inr x, s1)" and "\<And>act N. P act \<Longrightarrow> I act N s1 \<Longrightarrow> I act N s'"
  using assms by (elim othen_InrE) (metis keepsD)

lemma claim_after_release:
  assumes "claim_tally env dev uuid s = (Inr r, s')"
  obtains s1 where "release_lapsed dev s = (Inr (), s1)"
    and "\<forall>act. a_status act = RETRY_SCHEDULED \<longrightarrow> left_alone act {} s1 \<longrightarrow> left_alone act {} s'"
proof -
  note c = assms [unfolded claim_tally_def transaction_Inr]
  show thesis
  proof (rule othen_keeps [OF c, where P = "\<lambda>act. a_status act = RETRY_SCHEDULED" and I = left_alone], erule keeps_alone_rest)
    fix x s1
    assume "release_lapsed dev s = (Inr x, s1)"
      and "\<And>act N. a_status act = RETRY_SCHEDULED \<Longrightarrow> left_alone act N s1 \<Longrightarrow> left_alone act N s'"
    then show thesis by (intro that [of s1]) simp_all
  qed
qed

lemma held_later: "held dev u act s \<Longrightarrow> dc_installation dev' = dc_installation dev \<Longrightarrow> held dev' u act (s\<lparr>now := t\<rparr>)"
  by (simp add: held_def ledger_ok_def action_ok_def job_ok_def has_match_def)

text \<open>
  C32. The third lapsed lease strands an action. A Tally action that was claimed for the third time and whose lease then ran
  out goes back to retry with its job still claimed, at the next claim of a device of the installation; from there on no
  claim, renewal or report of any agent, no run of the worker and no tick of the scheduler, in any order, ever
  changes it or requeues its job: it can only be cancelled.
\<close>

theorem third_lapse_strands_action:
  assumes "ledger_ok {} s" and "distinct (map j_id (jobs s))"
    and "\<forall>j\<in>set (jobs s). j_aggregate j = tc_action c \<longrightarrow> j_kind j = ''FINANCE_ACTION''"
    and "claim_tally env dev uuid s = (Inr (Some c), s1)"
    and "act \<in> set (actions s1)" and "a_id act = tc_action c" and "3 \<le> a_attempt act"
    and "now s1 + 90 < t" and "dc_installation dev' = dc_installation dev"
    and "claim_tally env' dev' uuid' (s1\<lparr>now := t\<rparr>) = (Inr r, s2)"
    and "machine_step\<^sup>*\<^sup>* s2 s'"
  shows "\<exists>a\<in>set (actions s'). a_id a = tc_action c \<and> a_status a = RETRY_SCHEDULED \<and> a_attempt a = a_attempt act
           \<and> a_lease_device a = None \<and> (\<forall>j\<in>set (jobs s'). j_aggregate j = tc_action c \<longrightarrow> j_status j = CLAIMED)"
proof -
  have "held dev (now s1 + lease_seconds) act s1" by (rule claimed_is_held [OF assms(1-6)])
  then have h: "held dev' (now s1 + 90) act (s1\<lparr>now := t\<rparr>)" using held_later assms(9) unfolding lease_seconds_def by blast
  from assms(10) obtain s3 where s3: "release_lapsed dev' (s1\<lparr>now := t\<rparr>) = (Inr (), s3)"
    and rest: "\<forall>a. a_status a = RETRY_SCHEDULED \<longrightarrow> left_alone a {} s3 \<longrightarrow> left_alone a {} s2"
    by (rule claim_after_release)
  from lapse_exhausts [OF h _ assms(7) s3] assms(8) obtain a where a: "exhausted a s3" "a_id a = a_id act"
    "a_attempt a = a_attempt act" "a_lease_device a = None" by auto
  have "exhausted a s2" using a(1) rest by (simp add: exhausted_def)
  from machines.run_keeps [OF assms(11) this] a assms(6) show ?thesis by (auto simp: exhausted_def left_alone_def)
qed

section \<open>A concrete run\<close>

lemma sample_lapse: "\<exists>s'. claim_tally sample_env sample_device ''u'' (claimed_db 2 h\<lparr>now := 91\<rparr>) = (Inr None, s')"
  by (simp add: claim_tally_def release_lapsed_def transaction_def op_simps othen_def obind_def execute_actions_def update_actions_def
      claimed_db_def tally_db_def empty_db_def tally_sample_defs leased_def lease_seconds_def lapsed_def action_triggers_def
      transition_trigger_def verified_success_trigger_def claimable_by_def)

lemma third_lapse_strands_action_witness:
  "\<exists>h. \<exists>a\<in>set (actions (snd (tick (snd (claim_tally sample_env sample_device ''u'' (claimed_db 2 h\<lparr>now := 91\<rparr>)))))).
     a_id a = 0 \<and> a_status a = RETRY_SCHEDULED \<and> a_attempt a = 3"
proof -
  obtain h where h: "compute_payload_hash (VDict sample_purchase) = Inr h" using sample_hash by blast
  obtain c where c: "claim_tally sample_env sample_device ''u'' (tally_db (tally_action QUEUED 2 h)) = (Inr (Some c), claimed_db 2 h)"
    "tc_action c = 0" using sample_claim [of 2 h] by auto
  let ?act = "(leased sample_device 0 (tally_action QUEUED 2 h))\<lparr>a_version := 2\<rparr>"
  obtain s' where l: "claim_tally sample_env sample_device ''u'' (claimed_db 2 h\<lparr>now := 91\<rparr>) = (Inr None, s')" using sample_lapse by blast
  have act: "?act \<in> set (actions (claimed_db 2 h))" "a_id ?act = tc_action c" "a_attempt ?act = 3"
    by (simp_all add: claimed_db_def tally_db_def leased_def tally_sample_defs c(2))
  have j: "distinct (map j_id (jobs (tally_db (tally_action QUEUED 2 h))))"
    "\<forall>j\<in>set (jobs (tally_db (tally_action QUEUED 2 h))). j_aggregate j = tc_action c \<longrightarrow> j_kind j = ''FINANCE_ACTION''"
    "now (claimed_db 2 h) + 90 < 91" by (simp_all add: tally_db_def ready_job_def claimed_db_def empty_db_def)
  have "machine_step\<^sup>*\<^sup>* s' (snd (tick s'))" by (blast intro: scheduler_ticks)
  from third_lapse_strands_action [OF tally_db_ok [OF h] j(1,2) c(1) act(1,2) _ j(3) refl l this] act(3) c(2) l
  show ?thesis by (auto intro!: exI [of _ h])
qed

end
