(* ===== verification/Invoice_Validation.thy ===== *)
theory Invoice_Validation
  imports Py_Value
begin

text \<open>
  The deterministic checks of an extracted invoice (\<open>core/purchase_invoices/validation.py\<close> and
  \<open>core/sales_invoices/validation.py\<close>). An invoice is the association list of its dictionary and the current
  date is an argument. The lemmas show that the check digit of a GSTIN finds every single wrong character, and what the
  validator guarantees of an invoice it does not fail.
\<close>

section \<open>Identifiers\<close>

definition GST_CHARS :: string where "GST_CHARS = ''0123456789ABCDEFGHIJKLMNOPQRSTUVWXYZ''"

text \<open>A pattern of character classes, as a list of tests.\<close>

definition full_match :: "(char \<Rightarrow> bool) list \<Rightarrow> string \<Rightarrow> bool" where
  "full_match pat s = list_all2 (\<lambda>p c. p c) pat s"

definition gstin_pattern :: "(char \<Rightarrow> bool) list" where
  "gstin_pattern = replicate 2 is_digit @ replicate 5 is_upper @ replicate 4 is_digit
     @ [is_upper, \<lambda>c. is_upper_alnum c \<and> c \<noteq> CHR ''0'', \<lambda>c. c = CHR ''Z'', is_upper_alnum]"

definition pan_pattern :: "(char \<Rightarrow> bool) list" where
  "pan_pattern = replicate 5 is_upper @ replicate 4 is_digit @ [is_upper]"

definition char_index :: "char \<Rightarrow> nat" where
  "char_index c = (if is_digit c then of_char c - 48 else of_char c - 55)"

definition checksum_term :: "nat \<Rightarrow> char \<Rightarrow> nat" where
  "checksum_term factor c = (let product = factor * char_index c in product div 36 + product mod 36)"

fun checksum_total :: "nat \<Rightarrow> string \<Rightarrow> nat" where
  "checksum_total factor [] = 0"
| "checksum_total factor (c # cs) = checksum_term factor c + checksum_total (if factor = 1 then 2 else 1) cs"

definition gstin_checksum :: "string \<Rightarrow> bool" where
  "gstin_checksum v =
     (full_match gstin_pattern v
      \<and> (let total = checksum_total 2 (rev (butlast v)); check = (36 - total mod 36) mod 36
         in GST_CHARS ! check = last v))"

definition validate_gstin :: "pyval \<Rightarrow> bool" where
  "validate_gstin v = full_match gstin_pattern (py_upper (py_strip (py_str (py_or v (VStr '''')))))"

definition validate_arithmetic :: "int \<Rightarrow> int \<Rightarrow> int \<Rightarrow> int \<Rightarrow> int \<Rightarrow> bool" where
  "validate_arithmetic taxable cgst sgst igst stated = (\<bar>taxable + cgst + sgst + igst - stated\<bar> \<le> 100)"

definition compute_field_level :: "rat \<Rightarrow> bool \<Rightarrow> string" where
  "compute_field_level confidence passed =
     (if \<not> passed then ''LOW''
      else if confidence \<ge> f64 (85 / 100) then ''HIGH'' else if confidence \<ge> f64 (6 / 10) then ''REVIEW'' else ''LOW'')"

definition GST_STATE_CODES :: "(string, string) dict" where
  "GST_STATE_CODES =
     [(''JAMMU AND KASHMIR'', ''01''), (''HIMACHAL PRADESH'', ''02''), (''PUNJAB'', ''03''), (''CHANDIGARH'', ''04''),
      (''UTTARAKHAND'', ''05''), (''HARYANA'', ''06''), (''DELHI'', ''07''), (''RAJASTHAN'', ''08''), (''UTTAR PRADESH'', ''09''),
      (''BIHAR'', ''10''), (''SIKKIM'', ''11''), (''ARUNACHAL PRADESH'', ''12''), (''NAGALAND'', ''13''), (''MANIPUR'', ''14''),
      (''MIZORAM'', ''15''), (''TRIPURA'', ''16''), (''MEGHALAYA'', ''17''), (''ASSAM'', ''18''), (''WEST BENGAL'', ''19''),
      (''JHARKHAND'', ''20''), (''ODISHA'', ''21''), (''CHHATTISGARH'', ''22''), (''MADHYA PRADESH'', ''23''), (''GUJARAT'', ''24''),
      (''DADRA AND NAGAR HAVELI AND DAMAN AND DIU'', ''26''), (''MAHARASHTRA'', ''27''), (''KARNATAKA'', ''29''),
      (''GOA'', ''30''), (''LAKSHADWEEP'', ''31''), (''KERALA'', ''32''), (''TAMIL NADU'', ''33''), (''PUDUCHERRY'', ''34''),
      (''ANDAMAN AND NICOBAR ISLANDS'', ''35''), (''TELANGANA'', ''36''), (''ANDHRA PRADESH'', ''37''), (''LADAKH'', ''38'')]"

definition GST_STATE_ABBREVIATIONS :: "(string, string) dict" where
  "GST_STATE_ABBREVIATIONS =
     [(''JK'', ''01''), (''HP'', ''02''), (''PB'', ''03''), (''CH'', ''04''), (''UK'', ''05''), (''HR'', ''06''), (''DL'', ''07''),
      (''RJ'', ''08''), (''UP'', ''09''), (''BR'', ''10''), (''SK'', ''11''), (''AR'', ''12''), (''NL'', ''13''), (''MN'', ''14''),
      (''MZ'', ''15''), (''TR'', ''16''), (''ML'', ''17''), (''AS'', ''18''), (''WB'', ''19''), (''JH'', ''20''), (''OD'', ''21''),
      (''CG'', ''22''), (''MP'', ''23''), (''GJ'', ''24''), (''DN'', ''26''), (''MH'', ''27''), (''KA'', ''29''), (''GA'', ''30''),
      (''LD'', ''31''), (''KL'', ''32''), (''TN'', ''33''), (''PY'', ''34''), (''AN'', ''35''), (''TS'', ''36''), (''AP'', ''37''),
      (''LA'', ''38'')]"

definition gst_state_code :: "pyval \<Rightarrow> string option" where
  "gst_state_code v =
     (let text = py_upper (py_strip (py_str (py_or v (VStr ''''))));
          normalized = py_join '' '' (py_split_ws (map (\<lambda>c. if is_upper c then c else CHR '' '') text))
      in if py_isdigit text \<and> length text \<le> 2
         then (let candidate = zfill 2 text in if candidate \<in> snd ` set GST_STATE_CODES then Some candidate else None)
         else case map_of GST_STATE_ABBREVIATIONS text of Some c \<Rightarrow> Some c | None \<Rightarrow> map_of GST_STATE_CODES normalized)"

section \<open>Dates and money\<close>

definition invoice_date_of :: "pyval \<Rightarrow> pydate option" where
  "invoice_date_of v = first_format [fmt_ymd_dash, fmt_dmy_slash, fmt_dmy_dash] (py_strip (py_str (py_or v (VStr ''''))))"

definition validate_date_not_future :: "pydate \<Rightarrow> pyval \<Rightarrow> bool" where
  "validate_date_not_future today v = (case invoice_date_of v of None \<Rightarrow> True | Some d \<Rightarrow> d \<le> today)"

definition money_of :: "(string \<times> pyval) list \<Rightarrow> string \<Rightarrow> int result" where
  "money_of data key =
     (case get_or data key (VInt 0) of
        VBool b \<Rightarrow> Inl (ValueError key)
      | v \<Rightarrow> (case rbind (dec_of_str (py_str v)) dec_to_int of
               Inr n \<Rightarrow> Inr n
             | Inl e \<Rightarrow> if e = InvalidOperation \<or> is_value_error e \<or> e = TypeError then Inl (ValueError key) else Inl e))"

section \<open>Findings\<close>

record finding =
  fd_code :: string
  fd_severity :: string
  fd_field :: "string option"
  fd_message :: string
  fd_details :: "(string, int) dict"

definition mk_finding :: "string \<Rightarrow> string \<Rightarrow> string \<Rightarrow> string \<Rightarrow> (string, int) dict \<Rightarrow> finding" where
  "mk_finding code message field severity details =
     \<lparr> fd_code = code, fd_severity = severity, fd_field = (if field = '''' then None else Some field), fd_message = message,
       fd_details = details \<rparr>"

definition note_if :: "bool \<Rightarrow> string \<Rightarrow> string \<Rightarrow> string \<Rightarrow> (string, int) dict \<Rightarrow> finding list" where
  "note_if b code message field details = (if b then [mk_finding code message field ''ERROR'' details] else [])"

definition gstin_of :: "(string \<times> pyval) list \<Rightarrow> string \<Rightarrow> string" where
  "gstin_of data key = py_upper (py_strip (py_str (py_or (get_or data key VNone) (VStr ''''))))"

definition identity_findings :: "(string \<times> pyval) list \<Rightarrow> finding list" where
  "identity_findings data =
     (let supplier = gstin_of data ''vendor_gstin''; client = gstin_of data ''client_gstin'';
          pan = py_upper (py_str (py_or (get_or data ''vendor_pan'' VNone)
                  (VStr (if length supplier = 15 then take 10 (drop 2 supplier) else ''''))))
      in note_if (supplier \<noteq> '''' \<and> \<not> gstin_checksum supplier) ''GSTIN_INVALID''
           ''Supplier GSTIN format or checksum is invalid.'' ''vendorGstin'' []
       @ note_if (client \<noteq> '''' \<and> \<not> gstin_checksum client) ''CLIENT_GSTIN_INVALID''
           ''Client GSTIN format or checksum is invalid.'' ''clientGstin'' []
       @ note_if (pan \<noteq> '''' \<and> \<not> full_match pan_pattern pan) ''PAN_INVALID'' ''Supplier PAN format is invalid.'' ''vendorPan'' [])"

definition date_findings :: "pydate \<Rightarrow> (string \<times> pyval) list \<Rightarrow> finding list" where
  "date_findings today data =
     (case invoice_date_of (get_or data ''invoice_date'' VNone) of
        None \<Rightarrow> [mk_finding ''INVOICE_DATE_INVALID'' ''Use YYYY-MM-DD, DD/MM/YYYY, or DD-MM-YYYY.'' ''invoiceDate'' ''ERROR'' []]
      | Some d \<Rightarrow>
          if d > today then [mk_finding ''INVOICE_DATE_FUTURE'' ''Invoice date cannot be in the future.'' ''invoiceDate'' ''ERROR'' []]
          else if days_between today d > 366 * 8
          then [mk_finding ''INVOICE_DATE_OLD'' ''Invoice is more than eight years old; confirm the period.'' ''invoiceDate'' ''WARNING'' []]
          else [])"

record amounts =
  am_taxable :: int
  am_cgst :: int
  am_sgst :: int
  am_igst :: int
  am_other :: int
  am_total :: int

definition amounts_of :: "(string \<times> pyval) list \<Rightarrow> amounts result" where
  "amounts_of data =
     rbind (money_of data ''taxable_amount_paise'') (\<lambda>taxable. rbind (money_of data ''cgst_paise'') (\<lambda>cgst.
     rbind (money_of data ''sgst_paise'') (\<lambda>sgst. rbind (money_of data ''igst_paise'') (\<lambda>igst.
     rbind (money_of data ''other_charges_paise'') (\<lambda>other. rbind (money_of data ''total_paise'') (\<lambda>total.
     Inr \<lparr> am_taxable = taxable, am_cgst = cgst, am_sgst = sgst, am_igst = igst, am_other = other, am_total = total \<rparr>))))))"

definition expected_total :: "amounts \<Rightarrow> int" where
  "expected_total m = am_taxable m + am_cgst m + am_sgst m + am_igst m + am_other m"

definition amount_findings :: "int \<Rightarrow> amounts \<Rightarrow> finding list" where
  "amount_findings tol m =
     (note_if (\<bar>expected_total m - am_total m\<bar> > tol) ''TOTAL_MISMATCH''
        ''Taxable value, taxes and charges do not equal the invoice total.'' ''total''
        [(''expected_paise'', expected_total m), (''actual_paise'', am_total m), (''tolerance_paise'', tol)]
    @ note_if ((am_cgst m = 0) \<noteq> (am_sgst m = 0) \<or> \<bar>am_cgst m - am_sgst m\<bar> > tol) ''CGST_SGST_INCONSISTENT''
        ''CGST and SGST must be paired and equal.'' ''cgst'' []
    @ note_if (am_igst m \<noteq> 0 \<and> (am_cgst m \<noteq> 0 \<or> am_sgst m \<noteq> 0)) ''MIXED_GST_COMPONENTS''
        ''Use IGST or CGST/SGST for one tax treatment, not both.'' ''igst'' [])"

text \<open>The state that decides between IGST and CGST with SGST: the stated place of supply, else the client's.\<close>

definition stated_supply :: "(string \<times> pyval) list \<Rightarrow> bool" where
  "stated_supply data = (py_strip (py_str (py_or (get_or data ''place_of_supply_state'' VNone) (VStr ''''))) \<noteq> '''')"

definition supply_state :: "(string \<times> pyval) list \<Rightarrow> string option" where
  "supply_state data = (if stated_supply data then gst_state_code (get_or data ''place_of_supply_state'' VNone)
                        else Some (take 2 (gstin_of data ''client_gstin'')))"

definition place_findings :: "(string \<times> pyval) list \<Rightarrow> amounts \<Rightarrow> finding list" where
  "place_findings data m =
     (let supplier = gstin_of data ''vendor_gstin''; client = gstin_of data ''client_gstin'' in
      if supplier = '''' \<or> client = '''' then []
      else case supply_state data of
          None \<Rightarrow> [mk_finding ''PLACE_OF_SUPPLY_INVALID''
                    ''Use a recognised GST state name, abbreviation, or two-digit GST state code.'' ''placeOfSupplyState'' ''ERROR'' []]
        | Some st \<Rightarrow>
            (let interstate = (take 2 supplier \<noteq> st) in
             if st = '''' then []
             else note_if (interstate \<and> am_igst m = 0) ''IGST_REQUIRED'' ''Interstate supply normally requires IGST.'' ''igst'' []
                @ note_if (\<not> interstate \<and> am_igst m \<noteq> 0) ''CGST_SGST_REQUIRED''
                    ''Intrastate supply normally requires CGST and SGST.'' ''igst'' []))"

text \<open>One line: the conversions are guarded, the arithmetic after them is not.\<close>

definition line_numbers :: "pyval \<Rightarrow> (dec \<times> dec \<times> dec) result" where
  "line_numbers line =
     rbind (py_get_or line ''qty'' (VInt 0)) (\<lambda>q. rbind (dec_of_str (py_str q)) (\<lambda>quantity.
     rbind (py_get_or line ''rate'' (VInt 0)) (\<lambda>r0. rbind (py_get_or line ''rate_paise'' r0) (\<lambda>r.
     rbind (dec_of_str (py_str r)) (\<lambda>rate.
     rbind (py_get_or line ''amount'' (VInt 0)) (\<lambda>a0. rbind (py_get_or line ''amount_paise'' a0) (\<lambda>a.
     rbind (dec_of_str (py_str a)) (\<lambda>amount. Inr (quantity, rate, amount)))))))))"

definition times_sign :: string where "times_sign = [char_of (195::nat), char_of (151::nat)]"

definition check_line :: "int \<Rightarrow> nat \<Rightarrow> pyval \<Rightarrow> (finding list \<times> int) result" where
  "check_line tol i line =
     (case line_numbers line of
        Inl e \<Rightarrow>
          if e = InvalidOperation \<or> e = AttributeError
          then Inr ([mk_finding ''LINE_INVALID'' (''Line '' @ nat_to_str (i + 1) @ '' has invalid numbers.'') ''lineItems'' ''ERROR'' []], 0)
          else Inl e
      | Inr (quantity, rate, amount) \<Rightarrow>
          rbind (dec_mul quantity rate) (\<lambda>p. rbind (dec_sub p amount) (\<lambda>d. rbind (dec_abs d) (\<lambda>off.
          rbind (dec_less (dec_of_int tol) off) (\<lambda>bad.
          rbind (dec_to_int amount) (\<lambda>paise.
          Inr (note_if bad ''LINE_ARITHMETIC_MISMATCH''
                 (''Line '' @ nat_to_str (i + 1) @ '' quantity '' @ times_sign @ '' rate does not equal amount.'') ''lineItems'' [], paise)))))))"

fun check_lines :: "int \<Rightarrow> nat \<Rightarrow> pyval list \<Rightarrow> (finding list \<times> int) result" where
  "check_lines tol i [] = Inr ([], 0)"
| "check_lines tol i (l # ls) =
     rbind (check_line tol i l) (\<lambda>(fs, amount).
     rbind (check_lines tol (i + 1) ls) (\<lambda>(fs', total'). Inr (fs @ fs', amount + total')))"

definition line_findings :: "int \<Rightarrow> (string \<times> pyval) list \<Rightarrow> amounts \<Rightarrow> finding list result" where
  "line_findings tol data m =
     (case py_or (get_or data ''line_items'' VNone) (VList []) of
        VList (l # ls) \<Rightarrow>
          rbind (check_lines tol 0 (l # ls)) (\<lambda>(fs, total).
          Inr (fs @ note_if (\<bar>total - am_taxable m\<bar> > tol) ''LINE_TOTAL_MISMATCH'' ''Line amounts do not equal taxable value.''
                 ''lineItems'' [(''expected_paise'', am_taxable m), (''actual_paise'', total)]))
      | _ \<Rightarrow> Inr [mk_finding ''LINE_ITEMS_REQUIRED'' ''At least one purchase line is required.'' ''lineItems'' ''ERROR'' []])"

definition closing_findings :: "(string \<times> pyval) list \<Rightarrow> amounts \<Rightarrow> finding list" where
  "closing_findings data m =
     (let credit = (py_upper (py_str (py_or (get_or data ''document_type'' VNone) (VStr ''''))) = ''CREDIT_NOTE'') in
      note_if ((am_total m < 0) \<noteq> credit) ''CREDIT_NOTE_SIGN'' ''Negative totals must be identified as a credit note.'' ''total'' []
    @ note_if (py_upper (py_str (py_or (get_or data ''currency'' VNone) (VStr ''INR''))) \<noteq> ''INR'') ''CURRENCY_UNSUPPORTED''
        ''Only INR purchase posting is currently certified.'' ''currency'' [])"

definition validate_invoice :: "int \<Rightarrow> pydate \<Rightarrow> (string \<times> pyval) list \<Rightarrow> finding list result" where
  "validate_invoice tol today data =
     (let before = identity_findings data @ date_findings today data in
      case amounts_of data of
        Inl e \<Rightarrow>
          (case e of
             ValueError key \<Rightarrow>
               Inr (before @ [mk_finding ''MONEY_INVALID'' ''All monetary values must be integer paise.'' key ''ERROR'' []])
           | _ \<Rightarrow> Inl e)
      | Inr m \<Rightarrow>
          rbind (line_findings tol data m) (\<lambda>ls.
          Inr (before @ amount_findings tol m @ place_findings data m @ ls @ closing_findings data m)))"

definition validation_state :: "finding list \<Rightarrow> string" where
  "validation_state fs = (if list_ex (\<lambda>f. fd_severity f = ''ERROR'') fs then ''FAILED''
                          else if fs \<noteq> [] then ''WARNING'' else ''PASSED'')"

definition default_tolerance :: int where "default_tolerance = 100"

definition validate_sales_invoice :: "pydate \<Rightarrow> (string \<times> pyval) list \<Rightarrow> finding list result" where
  "validate_sales_invoice today data =
     (let given = (\<lambda>k. get_or data k VNone);
          canonical = dict_set ''place_of_supply_state'' (given ''place_of_supply_state'')
            (dict_set ''client_gstin'' (given ''customer_gstin'') (dict_set ''vendor_gstin'' (given ''seller_gstin'') data));
          missing = (\<lambda>(key, message). if py_strip (py_str (py_or (given key) (VStr ''''))) = ''''
             then [\<lparr> fd_code = py_upper key @ ''_REQUIRED'', fd_severity = ''ERROR'', fd_field = Some key, fd_message = message,
                     fd_details = [] \<rparr>] else [])
      in rbind (validate_invoice default_tolerance today canonical) (\<lambda>fs.
         Inr (fs @ concat (map missing [(''customer_name'', ''Customer is required.''),
                                        (''invoice_number'', ''Invoice number is required.''),
                                        (''place_of_supply_state'', ''Place of supply is required.'')]))))"

section \<open>The check digit of a GSTIN\<close>

definition gst_char :: "char \<Rightarrow> bool" where "gst_char c = is_upper_alnum c"

lemma char_index_less: "gst_char c \<Longrightarrow> char_index c < 36"
  by (auto simp: gst_char_def is_upper_alnum_def is_upper_def is_digit_def char_index_def)

lemma char_index_inj: "gst_char c \<Longrightarrow> gst_char d \<Longrightarrow> char_index c = char_index d \<Longrightarrow> c = d"
proof -
  assume a: "gst_char c" "gst_char d" "char_index c = char_index d"
  have "c' = d'" if "48 \<le> c' \<and> c' \<le> 57 \<or> 65 \<le> c' \<and> c' \<le> 90" "48 \<le> d' \<and> d' \<le> 57 \<or> 65 \<le> d' \<and> d' \<le> 90"
      "(if 48 \<le> c' \<and> c' \<le> 57 then c' - 48 else c' - 55) = (if 48 \<le> d' \<and> d' \<le> 57 then d' - 48 else d' - 55)" for c' d' :: nat
    using that by (auto split: if_splits)
  from this [of "of_char c" "of_char d"] a have "(of_char c :: nat) = of_char d"
    by (simp add: gst_char_def is_upper_alnum_def is_upper_def is_digit_def char_index_def disj_commute)
  then show "c = d" by simp
qed

lemma digit_sum_inj:
  fixes i j :: nat
  assumes "i < 36" and "j < 36" and "f \<in> {1, 2}"
    and "(f * i) div 36 + (f * i) mod 36 = (f * j) div 36 + (f * j) mod 36"
  shows "i = j"
proof -
  have low: "(2 * k) div 36 + (2 * k) mod 36 = (if k < 18 then 2 * k else 2 * k - 35)" if "k < 36" for k :: nat
  proof (cases "k < 18")
    case False
    then have "(2 * k) div 36 = 1" "(2 * k) mod 36 = 2 * k - 36" using that by (simp_all add: div_if mod_if)
    then show ?thesis using False by simp
  qed simp
  show ?thesis
  proof (cases "f = 1")
    case False
    then have "(if i < 18 then 2 * i else 2 * i - 35) = (if j < 18 then 2 * j else 2 * j - 35)" using assms low by simp
    then show ?thesis by presburger
  qed (use assms in simp)
qed

lemma checksum_term_inj:
  assumes "gst_char c" and "gst_char d" and "f \<in> {1, 2}" and "checksum_term f c = checksum_term f d"
  shows "c = d"
  using digit_sum_inj [OF char_index_less [OF assms(1)] char_index_less [OF assms(2)] assms(3)] assms(4)
    char_index_inj [OF assms(1,2)] by (simp add: checksum_term_def Let_def)

lemma checksum_term_less: "gst_char c \<Longrightarrow> f \<in> {1, 2} \<Longrightarrow> checksum_term f c < 36"
proof -
  assume a: "gst_char c" "f \<in> {1, 2}"
  have i: "char_index c < 36" using a(1) by (rule char_index_less)
  show ?thesis
  proof (cases "f * char_index c < 36")
    case False
    then have "f = 2" using a(2) i by auto
    then have "(f * char_index c) div 36 = 1" "(f * char_index c) mod 36 = 2 * char_index c - 36"
      using False i by (simp_all add: mod_if div_if)
    then show ?thesis using i False \<open>f = 2\<close> by (simp add: checksum_term_def Let_def)
  qed (simp add: checksum_term_def Let_def)
qed

definition factor_at :: "nat \<Rightarrow> nat \<Rightarrow> nat" where "factor_at f j = (if even j then f else if f = 1 then 2 else 1)"

lemma checksum_total_update:
  "j < length xs \<Longrightarrow> f \<in> {1, 2} \<Longrightarrow>
     checksum_total f (xs[j := c]) + checksum_term (factor_at f j) (xs ! j) = checksum_total f xs + checksum_term (factor_at f j) c"
proof (induction xs arbitrary: f j)
  case (Cons x xs)
  let ?g = "if f = 1 then 2 else 1 :: nat"
  show ?case
  proof (cases j)
    case (Suc k)
    have "factor_at ?g k = factor_at f j" using Suc Cons.prems(2) by (auto simp: factor_at_def)
    moreover have "checksum_total ?g (xs[k := c]) + checksum_term (factor_at ?g k) (xs ! k) = checksum_total ?g xs + checksum_term (factor_at ?g k) c"
      using Cons.IH [of k ?g] Cons.prems(1) Suc by simp
    ultimately show ?thesis using Suc by simp
  qed (simp add: factor_at_def)
qed simp

lemma gstin_pattern_chars: "p \<in> set gstin_pattern \<Longrightarrow> p c \<Longrightarrow> gst_char c"
  by (auto simp: gstin_pattern_def gst_char_def is_upper_alnum_def is_upper_def is_digit_def numeral_eq_Suc)

lemma full_match_chars:
  assumes "full_match gstin_pattern v" and "c \<in> set v"
  shows "gst_char c"
proof -
  obtain i where "i < length v" "c = v ! i" using assms(2) by (auto simp: in_set_conv_nth)
  then have "(gstin_pattern ! i) c" "gstin_pattern ! i \<in> set gstin_pattern"
    using assms(1) by (auto simp: full_match_def list_all2_conv_all_nth)
  then show ?thesis using gstin_pattern_chars by blast
qed

lemma full_match_length: "full_match gstin_pattern v \<Longrightarrow> length v = 15"
  by (auto simp: full_match_def gstin_pattern_def dest!: list_all2_lengthD)

lemma check_digit_inj:
  assumes "GST_CHARS ! ((36 - s mod 36) mod 36) = GST_CHARS ! ((36 - t mod 36) mod 36)"
  shows "s mod 36 = t mod 36"
proof -
  have d: "distinct GST_CHARS" and l: "length GST_CHARS = 36" by (simp_all add: GST_CHARS_def)
  have "(36 - s mod 36) mod 36 < 36" "(36 - t mod 36) mod 36 < (36 :: nat)" by simp_all
  then have "(36 - s mod 36) mod 36 = (36 - t mod 36) mod 36" using assms d l by (metis nth_eq_iff_index_eq)
  moreover have "s mod 36 < 36" "t mod 36 < 36" by simp_all
  moreover have "a = b" if "(36 - a) mod 36 = (36 - b) mod 36" "a < 36" "b < 36" for a b :: nat
    using that by (cases "a = 0"; cases "b = 0") simp_all
  ultimately show ?thesis by blast
qed

lemma residue_cancel:
  fixes A B :: nat
  assumes "B + x = A + y" and "A mod 36 = B mod 36" and "x < 36" and "y < 36"
  shows "x = y"
proof -
  have "36 * (B div 36) + x = 36 * (A div 36) + y"
    using assms(1,2) mult_div_mod_eq [of 36 A] mult_div_mod_eq [of 36 B] by linarith
  then have "(36 * (B div 36) + x) mod 36 = (36 * (A div 36) + y) mod 36" by simp
  then show ?thesis using assms(3,4) by simp
qed

lemma body_change_detected:
  assumes "\<And>x. x \<in> set xs \<Longrightarrow> gst_char x" and "j < length xs" and "gst_char c"
    and "checksum_total 2 xs mod 36 = checksum_total 2 (xs[j := c]) mod 36"
  shows "xs ! j = c"
proof -
  let ?f = "factor_at 2 j"
  have f: "?f \<in> {1, 2}" by (simp add: factor_at_def)
  have x: "gst_char (xs ! j)" using assms(1,2) by simp
  have "checksum_total 2 (xs[j := c]) + checksum_term ?f (xs ! j) = checksum_total 2 xs + checksum_term ?f c"
    using checksum_total_update [OF assms(2), of 2 c] by simp
  then have "checksum_term ?f (xs ! j) = checksum_term ?f c"
    using residue_cancel [OF _ assms(4)] checksum_term_less [OF x f] checksum_term_less [OF assms(3) f] by metis
  then show ?thesis by (rule checksum_term_inj [OF x assms(3) f])
qed

text \<open>
  C20. The check digit of a GSTIN catches every single mistyped character: whatever position of a valid number is
  replaced by another character, the result is refused.
\<close>

theorem gstin_checksum_detects:
  assumes "gstin_checksum v" and "i < length v" and "c \<noteq> v ! i"
  shows "\<not> gstin_checksum (v[i := c])"
proof
  assume g: "gstin_checksum (v[i := c])"
  note m = assms(1) [unfolded gstin_checksum_def] g [unfolded gstin_checksum_def]
  have l: "length v = 15" using m(1) full_match_length by blast
  then have ne: "v \<noteq> []" "butlast v \<noteq> []" by (auto simp: butlast_conv_take)
  show False
  proof (cases "i = 14")
    case True
    then have "butlast (v[i := c]) = butlast v" "last (v[i := c]) = c" "v ! i = last v"
      using l ne by (simp_all add: butlast_list_update last_list_update last_conv_nth)
    then show False using m assms(3) by (simp add: Let_def)
  next
    case False
    define xs where "xs = rev (butlast v)"
    define j where "j = 13 - i"
    have j: "j < length xs" using l by (simp add: xs_def j_def)
    have x: "xs ! j = v ! i" using l assms(2) False by (simp add: xs_def j_def rev_nth nth_butlast)
    have "butlast (v[i := c]) = (butlast v)[i := c]" and lst: "last (v[i := c]) = last v"
      using l ne assms(2) False by (simp_all add: butlast_list_update last_list_update)
    then have u: "rev (butlast (v[i := c])) = xs[j := c]"
      using l assms(2) False by (simp add: xs_def j_def rev_update)
    have "checksum_total 2 xs mod 36 = checksum_total 2 (xs[j := c]) mod 36"
      by (rule check_digit_inj) (use m lst u in \<open>simp add: xs_def Let_def\<close>)
    moreover have "gst_char c" using full_match_chars [of "v[i := c]" c] m(2) assms(2) by (simp add: set_update_memI)
    moreover have "gst_char y" if "y \<in> set xs" for y
      using that full_match_chars [of v y] m(1) by (auto simp: xs_def dest: in_set_butlastD)
    ultimately have "xs ! j = c" using body_change_detected j by blast
    then show False using x assms(3) by simp
  qed
qed

lemma gstin_checksum_detects_witness: "\<not> gstin_checksum (''27AAPFU0939F1ZV''[5 := CHR ''E''])"
proof -
  have "gstin_checksum ''27AAPFU0939F1ZV''" by code_simp
  from gstin_checksum_detects [OF this, of 5 "CHR ''E''"] show ?thesis by simp
qed

section \<open>What an accepted invoice satisfies\<close>

definition no_errors :: "finding list \<Rightarrow> bool" where "no_errors fs = (\<not> list_ex (\<lambda>f. fd_severity f = ''ERROR'') fs)"

lemma not_failed_iff: "(validation_state fs \<noteq> ''FAILED'') = no_errors fs"
  by (simp add: validation_state_def no_errors_def)

lemma no_errors_simps [simp]:
  "no_errors []"
  "no_errors (fs @ gs) = (no_errors fs \<and> no_errors gs)"
  "no_errors (note_if b c msg f det) = (\<not> b)"
  "no_errors (mk_finding c msg f s det # fs) = (s \<noteq> ''ERROR'' \<and> no_errors fs)"
  by (simp_all add: no_errors_def note_if_def mk_finding_def)

text \<open>A line raises no finding exactly when its numbers read and multiply out; its amount is then counted.\<close>

definition line_adds :: "pyval \<Rightarrow> int \<Rightarrow> bool" where
  "line_adds line paise = (case line_numbers line of Inr (_, _, amount) \<Rightarrow> dec_to_int amount = Inr paise | Inl _ \<Rightarrow> False)"

lemma check_line_clean: "check_line tol i line = Inr (fs, p) \<Longrightarrow> no_errors fs \<Longrightarrow> line_adds line p"
  by (auto simp: check_line_def line_adds_def rbind_eq_Inr split: sum.splits prod.splits if_splits)

lemma check_lines_clean: "check_lines tol i ls = Inr (fs, t) \<Longrightarrow> no_errors fs \<Longrightarrow> \<exists>ps. list_all2 line_adds ls ps \<and> t = sum_list ps"
proof (induction ls arbitrary: i fs t)
  case (Cons l ls)
  from Cons.prems obtain f1 p f2 t2 where h: "check_line tol i l = Inr (f1, p)" "check_lines tol (i + 1) ls = Inr (f2, t2)"
      "fs = f1 @ f2" "t = p + t2"
    by (auto simp: rbind_eq_Inr split: sum.splits prod.splits)
  obtain ps where "list_all2 line_adds ls ps" "t2 = sum_list ps" using Cons.IH [OF h(2)] Cons.prems(2) h(3) by auto
  then show ?case using check_line_clean [OF h(1)] Cons.prems(2) h by (intro exI [of _ "p # ps"]) simp
qed (auto intro: exI [of _ "[]"])

lemma line_findings_clean:
  assumes "line_findings tol data m = Inr fs" and "no_errors fs"
  shows "\<exists>lines ps. lines \<noteq> [] \<and> get_or data ''line_items'' VNone = VList lines \<and> list_all2 line_adds lines ps
           \<and> \<bar>sum_list ps - am_taxable m\<bar> \<le> tol"
proof -
  obtain l ls gs t where v: "py_or (get_or data ''line_items'' VNone) (VList []) = VList (l # ls)"
      and c: "check_lines tol 0 (l # ls) = Inr (gs, t)" "no_errors gs" "\<bar>t - am_taxable m\<bar> \<le> tol"
    using assms by (auto simp: line_findings_def rbind_eq_Inr split: pyval.splits list.splits sum.splits prod.splits)
  obtain ps where "list_all2 line_adds (l # ls) ps" "t = sum_list ps" using check_lines_clean [OF c(1,2)] by blast
  moreover have "get_or data ''line_items'' VNone = VList (l # ls)" using v by (auto simp: py_or_def split: if_splits)
  ultimately show ?thesis using c(3) by blast
qed

text \<open>
  C19. An invoice the validator does not fail is consistent: its money fields are read as paise (a fraction is cut off), the taxes and charges add up to
  the total within the tolerance, CGST and SGST come in equal pairs and never beside IGST, IGST is charged exactly for a supply
  to another state, GSTINs carry a right check digit, the date is readable and not in the future, and the lines add up to the
  taxable value.
\<close>

theorem accepted_invoice_sound:
  assumes "validate_invoice tol today data = Inr fs" and "validation_state fs \<noteq> ''FAILED''"
  shows "\<exists>m d lines ps. amounts_of data = Inr m
           \<and> \<bar>am_taxable m + am_cgst m + am_sgst m + am_igst m + am_other m - am_total m\<bar> \<le> tol
           \<and> (am_cgst m = 0 \<longleftrightarrow> am_sgst m = 0) \<and> \<bar>am_cgst m - am_sgst m\<bar> \<le> tol \<and> (am_igst m = 0 \<or> am_cgst m = 0 \<and> am_sgst m = 0)
           \<and> (\<forall>key \<in> {''vendor_gstin'', ''client_gstin''}. gstin_of data key = '''' \<or> gstin_checksum (gstin_of data key))
           \<and> (gstin_of data ''vendor_gstin'' \<noteq> '''' \<and> gstin_of data ''client_gstin'' \<noteq> '''' \<longrightarrow>
                (\<exists>st. supply_state data = Some st \<and> (st = '''' \<or> (am_igst m \<noteq> 0 \<longleftrightarrow> take 2 (gstin_of data ''vendor_gstin'') \<noteq> st))))
           \<and> invoice_date_of (get_or data ''invoice_date'' VNone) = Some d \<and> d \<le> today
           \<and> lines \<noteq> [] \<and> get_or data ''line_items'' VNone = VList lines \<and> list_all2 line_adds lines ps
           \<and> \<bar>sum_list ps - am_taxable m\<bar> \<le> tol"
proof -
  have ok: "no_errors fs" using assms(2) by (simp only: not_failed_iff)
  obtain m ls where m: "amounts_of data = Inr m" and ls: "line_findings tol data m = Inr ls"
      and fs: "fs = identity_findings data @ date_findings today data @ amount_findings tol m @ place_findings data m @ ls @ closing_findings data m"
    using assms(1) ok by (auto simp: validate_invoice_def rbind_eq_Inr Let_def split: sum.splits pyexn.splits)
  have idf: "\<forall>key \<in> {''vendor_gstin'', ''client_gstin''}. gstin_of data key = '''' \<or> gstin_checksum (gstin_of data key)"
    using ok by (auto simp: fs identity_findings_def Let_def)
  obtain d where d: "invoice_date_of (get_or data ''invoice_date'' VNone) = Some d" "d \<le> today"
    using ok by (auto simp: fs date_findings_def split: option.splits if_splits)
  have am: "\<bar>expected_total m - am_total m\<bar> \<le> tol" "(am_cgst m = 0) = (am_sgst m = 0)" "\<bar>am_cgst m - am_sgst m\<bar> \<le> tol"
      "am_igst m = 0 \<or> am_cgst m = 0 \<and> am_sgst m = 0"
    using ok by (auto simp: fs amount_findings_def)
  have pl: "gstin_of data ''vendor_gstin'' \<noteq> '''' \<and> gstin_of data ''client_gstin'' \<noteq> '''' \<longrightarrow>
              (\<exists>st. supply_state data = Some st \<and> (st = '''' \<or> (am_igst m \<noteq> 0 \<longleftrightarrow> take 2 (gstin_of data ''vendor_gstin'') \<noteq> st)))"
    using ok by (auto simp: fs place_findings_def Let_def split: option.splits if_splits)
  obtain lines ps where "lines \<noteq> []" "get_or data ''line_items'' VNone = VList lines" "list_all2 line_adds lines ps"
      "\<bar>sum_list ps - am_taxable m\<bar> \<le> tol"
    using line_findings_clean [OF ls] ok by (auto simp: fs)
  then show ?thesis using m idf d am pl unfolding expected_total_def by blast
qed

definition sample_line :: pyval where "sample_line = VDict [(''qty'', VInt 2), (''rate'', VInt 5), (''amount'', VInt 10)]"

definition sample_invoice :: "(string \<times> pyval) list" where
  "sample_invoice =
     [(''vendor_gstin'', VStr ''27AAPFU0939F1ZV''), (''invoice_date'', VStr ''2025-06-15''),
      (''taxable_amount_paise'', VInt 10), (''total_paise'', VInt 10), (''line_items'', VList [sample_line])]"

lemma sample_line_ok: "check_line 100 0 sample_line = Inr ([], 10)"
proof -
  have "line_numbers sample_line = Inr (dec_of_int 2, dec_of_int 5, dec_of_int 10)" by code_simp
  moreover have "dec_mul (dec_of_int 2) (dec_of_int 5) = Inr (dec_of_int 10)"
    and "dec_sub (dec_of_int 10) (dec_of_int 10) = Inr (dec_of_int 0)" and "dec_abs (dec_of_int 0) = Inr (dec_of_int 0)"
    and "dec_less (dec_of_int 100) (dec_of_int 0) = Inr False" and "dec_to_int (dec_of_int 10) = Inr 10"
    by code_simp+
  ultimately show ?thesis by (simp add: check_line_def note_if_def)
qed

lemma sample_invoice_passes: "validate_invoice 100 (Date 2025 7 1) sample_invoice = Inr []"
proof -
  have "identity_findings sample_invoice = []" "date_findings (Date 2025 7 1) sample_invoice = []" by code_simp+
  moreover have "money_of sample_invoice ''taxable_amount_paise'' = Inr 10" "money_of sample_invoice ''cgst_paise'' = Inr 0"
      "money_of sample_invoice ''sgst_paise'' = Inr 0" "money_of sample_invoice ''igst_paise'' = Inr 0"
      "money_of sample_invoice ''other_charges_paise'' = Inr 0" "money_of sample_invoice ''total_paise'' = Inr 10"
    by code_simp+
  moreover define m where "m = \<lparr> am_taxable = 10, am_cgst = 0, am_sgst = 0, am_igst = 0, am_other = 0, am_total = 10 \<rparr>"
  moreover have "py_or (get_or sample_invoice ''line_items'' VNone) (VList []) = VList [sample_line]" by code_simp
  moreover have "place_findings sample_invoice m = []" "closing_findings sample_invoice m = []" unfolding m_def by code_simp+
  ultimately show ?thesis
    by (simp add: validate_invoice_def amounts_of_def line_findings_def sample_line_ok amount_findings_def expected_total_def note_if_def)
qed

lemma accepted_invoice_sound_witness:
  "\<exists>m. amounts_of sample_invoice = Inr m \<and> \<bar>am_taxable m + am_cgst m + am_sgst m + am_igst m + am_other m - am_total m\<bar> \<le> 100"
  using accepted_invoice_sound [OF sample_invoice_passes] by (auto simp: validation_state_def)

end
