(* ===== verification/Upload_Contract.thy ===== *)
theory Upload_Contract
  imports Py_Prelude
begin

text \<open>
  The contract of an uploaded document (\<open>core/purchase_invoices/file_contract.py\<close>): size, signature, encryption,
  page count and the claimed media type are checked before anything is stored. Bytes are a string of characters below 256.
  What the zip reader of the standard library makes of the bytes is a parameter: the names in the archive, a \<open>BadZipFile\<close>,
  or another exception, such as the \<open>NotImplementedError\<close> of an unknown version or the \<open>UnicodeDecodeError\<close> of a name.
\<close>

definition MAX_BYTES :: nat where "MAX_BYTES = 20 * 1024 * 1024"
definition MAX_PAGES :: nat where "MAX_PAGES = 50"

record safe_upload =
  su_filename :: string
  su_mime :: string
  su_kind :: string
  su_extension :: string
  su_pages :: nat

definition bytes_of :: "nat list \<Rightarrow> string" where "bytes_of ns = map char_of ns"

text \<open>The last component of a path; \<open>.\<close> and empty components are dropped.\<close>

definition path_name :: "string \<Rightarrow> string" where
  "path_name p = (let parts = filter (\<lambda>c. c \<noteq> '''' \<and> c \<noteq> ''.'') (py_split_char (CHR ''/'') p)
                  in if parts = [] then '''' else last parts)"

definition last_bytes :: "nat \<Rightarrow> string \<Rightarrow> string" where "last_bytes n s = drop (length s - n) s"

definition byte_space :: "char \<Rightarrow> bool" where
  "byte_space c = (let n = of_char c :: nat in n = 32 \<or> 9 \<le> n \<and> n \<le> 13)"

definition word_byte :: "char \<Rightarrow> bool" where
  "word_byte c = (is_upper c \<or> is_lower c \<or> is_digit c \<or> c = CHR ''_'')"

text \<open>A page object: the two names, only white space between them, and no word character after them.\<close>

definition page_here :: "string \<Rightarrow> bool" where
  "page_here s =
     (py_startswith s ''/Type''
      \<and> (let rest = dropWhile byte_space (drop 5 s) in
         py_startswith rest ''/Page'' \<and> (case drop 5 rest of [] \<Rightarrow> True | c # _ \<Rightarrow> \<not> word_byte c)))"

fun count_pages :: "string \<Rightarrow> nat" where
  "count_pages [] = 0"
| "count_pages (c # cs) = (if page_here (c # cs) then 1 else 0) + count_pages cs"

datatype zip_listing = ZipNames "string list" | BadZip | ZipRaises pyexn

definition is_xlsx :: "(string \<Rightarrow> zip_listing) \<Rightarrow> string \<Rightarrow> bool result" where
  "is_xlsx archive data =
     (case archive data of
        ZipNames ns \<Rightarrow> Inr (''[Content_Types].xml'' \<in> set ns \<and> ''xl/workbook.xml'' \<in> set ns)
      | BadZip \<Rightarrow> Inr False
      | ZipRaises e \<Rightarrow> Inl e)"

definition jpeg_magic :: string where "jpeg_magic = bytes_of [255, 216, 255]"
definition png_magic :: string where "png_magic = bytes_of [137, 80, 78, 71, 13, 10, 26, 10]"
definition xlsx_mime :: string where "xlsx_mime = ''application/vnd.openxmlformats-officedocument.spreadsheetml.sheet''"

text \<open>Media type, kind, extension and page count of the bytes.\<close>

definition detect_type :: "(string \<Rightarrow> zip_listing) \<Rightarrow> string \<Rightarrow> (string \<times> string \<times> string \<times> nat) result" where
  "detect_type archive data =
     (if py_startswith data ''%PDF-'' then
        if \<not> py_contains ''%%EOF'' (last_bytes 4096 data)
        then Inl (UploadRejected ''PDF_CORRUPT'' ''The PDF is incomplete or corrupt.'' ''CORRUPT'' ''Export the original PDF again and retry.'')
        else if py_contains ''/Encrypt'' (last_bytes 200000 data)
        then Inl (UploadRejected ''PDF_PASSWORD_PROTECTED'' ''Password-protected PDFs cannot be extracted.'' ''PASSWORD_PROTECTED''
                    ''Upload an unlocked copy.'')
        else Inr (''application/pdf'', ''pdf'', ''pdf'', max 1 (count_pages data))
      else if py_startswith data jpeg_magic then Inr (''image/jpeg'', ''image'', ''jpg'', 1)
      else if py_startswith data png_magic then Inr (''image/png'', ''image'', ''png'', 1)
      else rbind (is_xlsx archive data) (\<lambda>xlsx.
        if xlsx then Inr (xlsx_mime, ''spreadsheet'', ''xlsx'', 1)
        else Inl (UploadRejected ''UNSUPPORTED_FILE'' ''Use PDF, JPEG, PNG, or XLSX.'' ''UNSUPPORTED''
                    ''Export the invoice to a supported format.'')))"

definition normalized_claim :: "string \<Rightarrow> string" where
  "normalized_claim claim = py_lower (py_strip (takeWhile (\<lambda>c. c \<noteq> CHR '';'') claim))"

definition accepted_claims :: "string \<Rightarrow> string \<Rightarrow> string list" where
  "accepted_claims mime extension = ['''', ''application/octet-stream'', mime] @ (if extension = ''jpg'' then [''image/jpg''] else [])"

definition inspect_upload :: "(string \<Rightarrow> zip_listing) \<Rightarrow> string \<Rightarrow> string \<Rightarrow> string \<Rightarrow> safe_upload result" where
  "inspect_upload archive filename claimed data =
     (let name = take 240 (path_name (if filename = '''' then ''document'' else filename)) in
      if data = '''' then Inl (UploadRejected ''EMPTY_FILE'' ''The uploaded file is empty.'' ''CORRUPT''
                                ''Choose the original invoice file and try again.'')
      else if length data > MAX_BYTES then Inl (UploadRejected ''FILE_OVERSIZED'' ''The file exceeds the 20 MB limit.'' ''OVERSIZED''
                                ''Compress or split the document, then upload again.'')
      else rbind (detect_type archive data) (\<lambda>(mime, kind, extension, pages).
        if pages > MAX_PAGES
        then Inl (UploadRejected ''PAGE_LIMIT_EXCEEDED'' (''The document has more than '' @ nat_to_str MAX_PAGES @ '' pages.'') ''OVERSIZED''
                    ''Split the document and upload each invoice separately.'')
        else if normalized_claim claimed \<notin> set (accepted_claims mime extension)
        then Inl (UploadRejected ''MIME_MISMATCH'' ''The file contents do not match its reported type.'' ''QUARANTINED''
                    ''Re-export the original file and try again.'')
        else Inr \<lparr> su_filename = name, su_mime = mime, su_kind = kind, su_extension = extension, su_pages = pages \<rparr>))"

section \<open>What an accepted upload is\<close>

text \<open>The signature that each accepted extension stands for.\<close>

definition signature_of :: "(string \<Rightarrow> zip_listing) \<Rightarrow> string \<Rightarrow> string \<Rightarrow> bool" where
  "signature_of archive extension data =
     (extension = ''pdf'' \<and> py_startswith data ''%PDF-'' \<and> py_contains ''%%EOF'' (last_bytes 4096 data)
        \<and> \<not> py_contains ''/Encrypt'' (last_bytes 200000 data)
      \<or> extension = ''jpg'' \<and> py_startswith data jpeg_magic
      \<or> extension = ''png'' \<and> py_startswith data png_magic
      \<or> extension = ''xlsx'' \<and> is_xlsx archive data = Inr True)"

lemma split_char_acc_parts: "p \<in> set (split_char_acc c acc s) \<Longrightarrow> c \<notin> set acc \<Longrightarrow> c \<notin> set p"
  by (induction c acc s rule: split_char_acc.induct) (auto split: if_splits)

lemma path_name_no_slash: "CHR ''/'' \<notin> set (path_name p)"
proof -
  have "CHR ''/'' \<notin> set q" if "q \<in> set (py_split_char (CHR ''/'') p)" for q
    using that split_char_acc_parts [of q "CHR ''/''" "[]" p] by (simp add: py_split_char_def)
  moreover have "last (filter P xs) \<in> set xs" if "filter P xs \<noteq> []" for P and xs :: "string list"
    using last_in_set [OF that] by simp
  ultimately show ?thesis unfolding path_name_def Let_def by simp
qed

lemma detect_type_sound:
  "detect_type archive data = Inr (mime, kind, extension, pages) \<Longrightarrow>
     signature_of archive extension data \<and> 1 \<le> pages \<and> (extension = ''jpg'' \<longleftrightarrow> mime = ''image/jpeg'')"
  by (auto simp: detect_type_def signature_of_def xlsx_mime_def rbind_eq_Inr split: if_splits)

text \<open>Bytes that only the zip reader can tell what they are.\<close>

definition unknown_signature :: "string \<Rightarrow> bool" where
  "unknown_signature data =
     (\<not> py_startswith data ''%PDF-'' \<and> \<not> py_startswith data jpeg_magic \<and> \<not> py_startswith data png_magic)"

lemma detect_type_error:
  "detect_type archive data = Inl e \<Longrightarrow> (\<nexists>c m st u. e = UploadRejected c m st u) \<Longrightarrow> unknown_signature data \<and> archive data = ZipRaises e"
  by (auto simp: detect_type_def unknown_signature_def rbind_eq_Inl is_xlsx_def split: if_splits zip_listing.splits)

text \<open>
  C30. What the upload check accepts is what it says it is: not empty, at most 20 MB and 50 pages, with the signature of its
  extension (for a PDF, complete and without an encryption dictionary at its end), under a file name of at most 240
  characters that names no directory, and with a claimed media type that agrees with the content. Everything else is refused
  with a rejection that carries a code, a message, a state and an instruction, with one exception: for bytes of at most 20 MB that
  are no PDF, JPEG or PNG an exception of the zip reader other than \<open>BadZipFile\<close> always escapes as it is.
\<close>

theorem inspected_upload_safe:
  "(case inspect_upload archive filename claimed data of
      Inl e \<Rightarrow> (\<exists>code message state user_action. e = UploadRejected code message state user_action)
        \<or> unknown_signature data \<and> archive data = ZipRaises e
    | Inr u \<Rightarrow> 0 < length data \<and> length data \<le> 20 * 1024 * 1024 \<and> 1 \<le> su_pages u \<and> su_pages u \<le> 50
        \<and> signature_of archive (su_extension u) data \<and> length (su_filename u) \<le> 240 \<and> CHR ''/'' \<notin> set (su_filename u)
        \<and> normalized_claim claimed \<in> {'''', ''application/octet-stream'', su_mime u} \<union> (if su_mime u = ''image/jpeg'' then {''image/jpg''} else {}))
   \<and> (\<forall>e. archive data = ZipRaises e \<longrightarrow> unknown_signature data \<longrightarrow> 0 < length data \<longrightarrow> length data \<le> 20 * 1024 * 1024 \<longrightarrow>
        inspect_upload archive filename claimed data = Inl e)"
proof (rule conjI)
  show "\<forall>e. archive data = ZipRaises e \<longrightarrow> unknown_signature data \<longrightarrow> 0 < length data \<longrightarrow> length data \<le> 20 * 1024 * 1024 \<longrightarrow>
      inspect_upload archive filename claimed data = Inl e"
    by (auto simp: inspect_upload_def detect_type_def is_xlsx_def unknown_signature_def MAX_BYTES_def)
  show "case inspect_upload archive filename claimed data of
      Inl e \<Rightarrow> (\<exists>code message state user_action. e = UploadRejected code message state user_action)
        \<or> unknown_signature data \<and> archive data = ZipRaises e
    | Inr u \<Rightarrow> 0 < length data \<and> length data \<le> 20 * 1024 * 1024 \<and> 1 \<le> su_pages u \<and> su_pages u \<le> 50
        \<and> signature_of archive (su_extension u) data \<and> length (su_filename u) \<le> 240 \<and> CHR ''/'' \<notin> set (su_filename u)
        \<and> normalized_claim claimed \<in> {'''', ''application/octet-stream'', su_mime u} \<union> (if su_mime u = ''image/jpeg'' then {''image/jpg''} else {})"
  proof (cases "inspect_upload archive filename claimed data")
    case (Inl e)
    then have "(\<exists>c m st u. e = UploadRejected c m st u) \<or> detect_type archive data = Inl e"
      by (auto simp: inspect_upload_def Let_def rbind_eq_Inl split: if_splits)
    with Inl detect_type_error show ?thesis by fastforce
  next
    case (Inr u)
    then obtain mime kind extension pages where
        d: "detect_type archive data = Inr (mime, kind, extension, pages)" "pages \<le> MAX_PAGES"
          "normalized_claim claimed \<in> set (accepted_claims mime extension)"
        and b: "data \<noteq> ''''" "length data \<le> MAX_BYTES"
        and u: "u = \<lparr> su_filename = take 240 (path_name (if filename = '''' then ''document'' else filename)), su_mime = mime,
                       su_kind = kind, su_extension = extension, su_pages = pages \<rparr>"
      by (auto simp: inspect_upload_def Let_def rbind_eq_Inr split: if_splits)
    have "CHR ''/'' \<notin> set (su_filename u)" using path_name_no_slash in_set_takeD unfolding u by fastforce
    then show ?thesis using Inr d b detect_type_sound [OF d(1)]
      by (auto simp: u MAX_BYTES_def MAX_PAGES_def accepted_claims_def split: if_splits)
  qed
qed

text \<open>A zip file of an unknown version, and an image.\<close>

lemma inspected_upload_safe_witness:
  "inspect_upload (\<lambda>_. ZipRaises NotImplemented) ''a.xlsx'' '''' ''PK'' = Inl NotImplemented
   \<and> (\<exists>u. inspect_upload (\<lambda>_. BadZip) ''scan.jpg'' ''image/jpg'' jpeg_magic = Inr u \<and> su_pages u \<le> 50)"
proof -
  have z: "unknown_signature ''PK''" by code_simp
  have "inspect_upload (\<lambda>_. ZipRaises NotImplemented) ''a.xlsx'' '''' ''PK'' = Inl NotImplemented"
    using inspected_upload_safe [where archive = "\<lambda>_. ZipRaises NotImplemented" and filename = "''a.xlsx''"
        and claimed = "''''" and data = "''PK''"] z by simp
  moreover obtain u where u: "inspect_upload (\<lambda>_. BadZip) ''scan.jpg'' ''image/jpg'' jpeg_magic = Inr u"
  proof -
    have j: "\<not> py_startswith jpeg_magic ''%PDF-''" "py_startswith jpeg_magic jpeg_magic" "length jpeg_magic = 3" "jpeg_magic \<noteq> ''''"
      "normalized_claim ''image/jpg'' = ''image/jpg''" by code_simp+
    show thesis using that by (simp add: inspect_upload_def detect_type_def j accepted_claims_def MAX_BYTES_def MAX_PAGES_def)
  qed
  ultimately show ?thesis
    using inspected_upload_safe [where archive = "\<lambda>_. BadZip" and filename = "''scan.jpg''" and claimed = "''image/jpg''"
        and data = jpeg_magic] by simp
qed

end
