(* ===== verification/Zoho_Books.thy ===== *)
theory Zoho_Books
  imports Connector_Types Money Json_Canon
begin

text \<open>
  The Zoho Books payloads: what the service returns mapped into canonical objects
  (\<open>connectors/zoho_books/mappers.py\<close>), the requests built from an approved payload
  (\<open>purchase_bill.py\<close>, \<open>sales_invoice.py\<close>, \<open>models.py\<close>) and the comparison of a read-back with what was
  approved. A dictionary is an association list; every function returns the exception the code raises.
\<close>

section \<open>Mapping what the service returns\<close>

text \<open>A dictionary display: the values are computed in order, and the first exception ends it.\<close>

type_synonym field = "string \<times> (pyval \<Rightarrow> pyval result)"

definition dict_display :: "field list \<Rightarrow> pyval \<Rightarrow> (string \<times> pyval) list result" where
  "dict_display display v = rmap (\<lambda>(k, f). rbind (f v) (\<lambda>x. Inr (k, x))) display"

definition text_or_empty :: "pyval \<Rightarrow> string" where "text_or_empty v = py_str (py_or v (VStr ''''))"

definition get_text :: "string \<Rightarrow> pyval \<Rightarrow> pyval result" where
  "get_text k v = rbind (py_get v k) (\<lambda>x. Inr (VStr (text_or_empty x)))"

text \<open>\<open>v.get(k) or v.get(l)\<close>.\<close>

definition get_either :: "string \<Rightarrow> string \<Rightarrow> pyval \<Rightarrow> pyval result" where
  "get_either k l v = rbind (py_get v k) (\<lambda>x. if truthy x then Inr x else py_get v l)"

definition gstin_like :: "string \<Rightarrow> bool" where
  "gstin_like s = (length s = 15 \<and> list_all is_digit (take 2 s) \<and> list_all is_upper_alnum (drop 2 s))"

definition normalize_gstin :: "pyval \<Rightarrow> string option" where
  "normalize_gstin v = (let n = py_upper (filter (\<lambda>c. \<not> is_space c) (text_or_empty v)) in if gstin_like n then Some n else None)"

definition opt_str :: "string option \<Rightarrow> pyval" where
  "opt_str x = (case x of None \<Rightarrow> VNone | Some s \<Rightarrow> VStr s)"

definition get_gstin :: "pyval \<Rightarrow> pyval result" where
  "get_gstin v = rbind (get_either ''gst_no'' ''gstin'' v) (\<lambda>x. Inr (opt_str (normalize_gstin x)))"

definition zoho_paise :: "pyval \<Rightarrow> int result" where
  "zoho_paise v = rupees_to_paise True (VStr (py_str (py_or v (VStr ''0''))))"

definition get_paise :: "string \<Rightarrow> pyval \<Rightarrow> pyval result" where
  "get_paise k v = rbind (py_get v k) (\<lambda>x. rbind (zoho_paise x) (\<lambda>n. Inr (VInt n)))"

definition line_fields :: "string \<Rightarrow> field list" where
  "line_fields quantity =
     [(''item_id'', get_text ''item_id''), (''account_id'', get_text ''account_id''), (''tax_id'', get_text ''tax_id''),
      (''description'', \<lambda>v. rbind (get_either ''description'' ''name'' v) (\<lambda>x. Inr (VStr (text_or_empty x)))),
      (''quantity'', \<lambda>v. Inr (VStr quantity)), (''rate_paise'', get_paise ''rate''),
      (''line_total_paise'', \<lambda>v. rbind (get_either ''item_total'' ''line_item_total'' v) (\<lambda>x. rbind (zoho_paise x) (\<lambda>n. Inr (VInt n)))),
      (''tax_total_paise'', get_paise ''tax_amount''), (''igst_paise'', get_paise ''igst_amount''),
      (''cgst_paise'', get_paise ''cgst_amount''), (''sgst_paise'', get_paise ''sgst_amount''), (''cess_paise'', get_paise ''cess_amount'')]"

definition map_line :: "pyval \<Rightarrow> pyval result" where
  "map_line line =
     rbind (py_get line ''quantity'') (\<lambda>q. rbind (dec_of_str (py_str (py_or q (VInt 1)))) (\<lambda>quantity.
     rbind (dict_display (line_fields (dec_str quantity)) line) (\<lambda>kvs. Inr (VDict kvs))))"

definition get_lines :: "pyval \<Rightarrow> pyval result" where
  "get_lines v =
     rbind (py_get_or v ''line_items'' (VList [])) (\<lambda>ls. rbind (py_iter ls) (\<lambda>xs. rbind (rmap map_line xs) (\<lambda>ys. Inr (VList ys))))"

definition bill_fields :: "string \<Rightarrow> field list" where
  "bill_fields organization_id =
     [(''organization_id'', \<lambda>v. Inr (VStr organization_id)), (''vendor_id'', get_text ''vendor_id''),
      (''vendor_name'', get_text ''vendor_name''), (''vendor_gstin'', get_gstin), (''bill_number'', get_text ''bill_number''),
      (''reference_number'', get_text ''reference_number''), (''date'', get_text ''date''),
      (''currency'', \<lambda>v. rbind (py_get v ''currency_code'') (\<lambda>x. Inr (VStr (py_str (py_or x (VStr ''INR'')))))),
      (''status'', get_text ''status''), (''place_of_supply'', get_text ''source_of_supply''),
      (''reverse_charge'', \<lambda>v. rbind (py_get_or v ''is_reverse_charge_applied'' (VBool False)) (\<lambda>x. Inr (VBool (truthy x)))),
      (''subtotal_paise'', get_paise ''sub_total''), (''tax_total_paise'', get_paise ''tax_total''), (''total_paise'', get_paise ''total''),
      (''line_items'', get_lines)]"

definition version_of :: "pyval \<Rightarrow> string option result" where
  "version_of v = rbind (py_get v ''last_modified_time'') (\<lambda>x. Inr (if text_or_empty x = '''' then None else Some (text_or_empty x)))"

definition map_bill :: "pyval \<Rightarrow> string \<Rightarrow> canonical_object result" where
  "map_bill payload organization_id =
     rbind (py_get payload ''bill_id'') (\<lambda>bid.
     rbind (dict_display (bill_fields organization_id) payload) (\<lambda>kvs.
     rbind (version_of payload) (\<lambda>version.
     Inr \<lparr> co_type = ''purchase_bill'', co_provider_id = text_or_empty bid, co_values = VDict kvs, co_version = version \<rparr>)))"

definition e_invoice_of :: "pyval \<Rightarrow> pyval result" where
  "e_invoice_of v =
     rbind (rmap (\<lambda>k. rbind (py_get v k) (\<lambda>x. Inr (if truthy x then [(k, x)] else [])))
              [''irn'', ''ack_no'', ''ack_date'', ''ewaybill_number'']) (\<lambda>xss. Inr (VDict (concat xss)))"

definition invoice_fields :: "field list" where
  "invoice_fields =
     [(''customer_id'', get_text ''customer_id''), (''customer_name'', get_text ''customer_name''), (''customer_gstin'', get_gstin),
      (''invoice_number'', get_text ''invoice_number''),
      (''place_of_supply'', \<lambda>v. rbind (get_either ''place_of_supply'' ''source_of_supply'' v) (\<lambda>x. Inr (VStr (text_or_empty x)))),
      (''e_invoice'', e_invoice_of)]"

definition map_invoice :: "pyval \<Rightarrow> string \<Rightarrow> canonical_object result" where
  "map_invoice payload organization_id =
     rbind (map_bill payload organization_id) (\<lambda>mapped.
     rbind (dict_display invoice_fields payload) (\<lambda>kvs.
     rbind (py_get payload ''invoice_id'') (\<lambda>iid.
     (case co_values mapped of
        VDict base \<Rightarrow> Inr \<lparr> co_type = ''sales_invoice'', co_provider_id = text_or_empty iid,
                            co_values = VDict (dict_merge base kvs), co_version = co_version mapped \<rparr>
      | _ \<Rightarrow> Inl TypeError))))"

section \<open>Comparing a read-back with what was approved\<close>

definition mismatch_entry :: "string \<Rightarrow> pyval \<Rightarrow> pyval \<Rightarrow> string \<times> pyval" where
  "mismatch_entry key e a = (key, VDict [(''expected'', e), (''actual'', a)])"

text \<open>The entry of a field that differs.\<close>

definition unless_equal :: "string \<Rightarrow> pyval \<Rightarrow> pyval \<Rightarrow> (string \<times> pyval) list" where
  "unless_equal key e a = (if e = a then [] else [mismatch_entry key e a])"

definition compare_wanted :: "(string \<times> pyval) list \<Rightarrow> pyval \<Rightarrow> (string \<times> pyval) list result" where
  "compare_wanted wanted values =
     rbind (rmap (\<lambda>(k, v). rbind (py_get values k) (\<lambda>a. Inr (unless_equal k v a))) wanted) (\<lambda>xss. Inr (concat xss))"

text \<open>A slice of a list or of a string; anything else has none.\<close>

fun sliceable :: "pyval \<Rightarrow> pyval list result" where
  "sliceable (VList xs) = Inr xs"
| "sliceable (VStr s) = Inr (map (\<lambda>c. VStr [c]) s)"
| "sliceable _ = Inl TypeError"

definition line_key :: "nat \<Rightarrow> string \<Rightarrow> string" where "line_key i k = ''line_items.'' @ nat_to_str i @ ''.'' @ k"

definition line_rate :: "pyval \<Rightarrow> int result" where
  "line_rate line =
     (case line of
        VDict kvs \<Rightarrow> (case map_of kvs ''rate_paise'' of Some r \<Rightarrow> py_int r | None \<Rightarrow> zoho_paise (get_or kvs ''rate'' VNone))
      | _ \<Rightarrow> Inl AttributeError)"

definition compare_line :: "nat \<Rightarrow> pyval \<Rightarrow> pyval \<Rightarrow> (string \<times> pyval) list result" where
  "compare_line i line actual =
     rbind (rmap (\<lambda>k. rbind (py_get line k) (\<lambda>x. rbind (py_get actual k) (\<lambda>a.
              Inr (if VStr (text_or_empty x) = a then [] else [mismatch_entry (line_key i k) x a]))))
            [''account_id'', ''item_id'', ''tax_id'']) (\<lambda>ids.
     rbind (line_rate line) (\<lambda>rate. rbind (py_get actual ''rate_paise'') (\<lambda>ar.
     rbind (py_get_or line ''quantity'' (VInt 1)) (\<lambda>q. rbind (py_get actual ''quantity'') (\<lambda>aq.
     Inr (concat ids @ unless_equal (line_key i ''rate_paise'') (VInt rate) ar
          @ (if py_str q = py_str aq then [] else [mismatch_entry (line_key i ''quantity'') (VStr (py_str q)) aq])))))))"

fun compare_lines :: "nat \<Rightarrow> pyval list \<Rightarrow> pyval list \<Rightarrow> (string \<times> pyval) list result" where
  "compare_lines i (l # ls) (a # as) =
     rbind (compare_line i l a) (\<lambda>m. rbind (compare_lines (i + 1) ls as) (\<lambda>ms. Inr (m @ ms)))"
| "compare_lines i [] as = Inr []"
| "compare_lines i ls [] = Inr []"

definition compare_total :: "pyval \<Rightarrow> pyval \<Rightarrow> string \<Rightarrow> (string \<times> pyval) list result" where
  "compare_total expected values key =
     rbind (py_get expected key) (\<lambda>e. if e = VNone then Inr []
       else rbind (py_int e) (\<lambda>n. rbind (py_get values key) (\<lambda>a. Inr (unless_equal key (VInt n) a))))"

definition compare_status :: "pyval \<Rightarrow> pyval \<Rightarrow> (string \<times> pyval) list result" where
  "compare_status expected values =
     rbind (py_get expected ''expected_status'') (\<lambda>e. if \<not> truthy e then Inr []
       else rbind (py_get values ''status'') (\<lambda>a. Inr (unless_equal ''status'' e a)))"

definition wanted_bill :: "pyval \<Rightarrow> pyval \<Rightarrow> (string \<times> pyval) list result" where
  "wanted_bill expected organization_id =
     dict_display
       [(''organization_id'', \<lambda>v. Inr organization_id), (''vendor_id'', get_text ''vendor_id''),
        (''bill_number'', get_text ''bill_number''), (''reference_number'', get_text ''reference_number''), (''date'', get_text ''date''),
        (''currency'', \<lambda>v. rbind (py_get v ''currency_code'') (\<lambda>x. Inr (VStr (py_str (py_or x (VStr ''INR''))))))] expected"

definition compare_bill :: "pyval \<Rightarrow> canonical_object \<Rightarrow> pyval \<Rightarrow> (string \<times> pyval) list result" where
  "compare_bill expected actual organization_id =
     (let values = co_values actual in
      rbind (wanted_bill expected organization_id) (\<lambda>wanted.
      rbind (compare_wanted wanted values) (\<lambda>header.
      rbind (py_get_or expected ''line_items'' (VList [])) (\<lambda>el. rbind (py_get_or values ''line_items'' (VList [])) (\<lambda>al.
      rbind (sliceable el) (\<lambda>ls. rbind (sliceable al) (\<lambda>as.
      rbind (compare_lines 0 ls as) (\<lambda>lines.
      rbind (rmap (compare_total expected values) [''subtotal_paise'', ''tax_total_paise'', ''total_paise'']) (\<lambda>totals.
      rbind (compare_status expected values) (\<lambda>st.
      Inr (header @ unless_equal ''line_items.count'' (VInt (int (length ls))) (VInt (int (length as))) @ lines @ concat totals @ st)))))))))))"

definition wanted_sales :: "pyval \<Rightarrow> pyval \<Rightarrow> (string \<times> pyval) list result" where
  "wanted_sales expected organization_id =
     dict_display
       [(''organization_id'', \<lambda>v. Inr organization_id), (''customer_id'', get_text ''customer_id''),
        (''invoice_number'', get_text ''invoice_number''), (''date'', get_text ''date''), (''place_of_supply'', get_text ''place_of_supply'')]
       expected"

definition compare_sales_invoice :: "pyval \<Rightarrow> canonical_object \<Rightarrow> pyval \<Rightarrow> (string \<times> pyval) list result" where
  "compare_sales_invoice expected actual organization_id =
     rbind (wanted_sales expected organization_id) (\<lambda>wanted.
     rbind (compare_wanted wanted (co_values actual)) (\<lambda>header.
     rbind (compare_total expected (co_values actual) ''total_paise'') (\<lambda>tot. Inr (header @ tot))))"

section \<open>Building a request\<close>

record zoho_item =
  zi_account :: string
  zi_rate :: int
  zi_quantity :: int
  zi_description :: pyval
  zi_tax :: pyval

record zoho_bill =
  zb_vendor :: string
  zb_number :: string
  zb_date :: string
  zb_items :: "zoho_item list"
  zb_currency :: pyval
  zb_due_date :: pyval
  zb_notes :: pyval

definition rate_decimal :: "int \<Rightarrow> dec result" where
  "rate_decimal rate = rbind (dec_div_int (dec_of_int rate) 100) (\<lambda>d. dec_quantize_paise HalfEven d)"

definition entry_if :: "string \<Rightarrow> pyval \<Rightarrow> (string \<times> pyval) list" where
  "entry_if k v = (if truthy v then [(k, v)] else [])"

definition item_to_zoho :: "zoho_item \<Rightarrow> pyval result" where
  "item_to_zoho item =
     rbind (rate_decimal (zi_rate item)) (\<lambda>r.
     Inr (VDict ([(''account_id'', VStr (zi_account item)), (''rate'', VStr (dec_str r)), (''quantity'', VInt (zi_quantity item))]
                 @ entry_if ''description'' (zi_description item) @ entry_if ''tax_id'' (zi_tax item))))"

definition item_from_dict :: "pyval \<Rightarrow> zoho_item result" where
  "item_from_dict item =
     rbind (py_index item ''account_id'') (\<lambda>account. rbind (rbind (py_index item ''rate_paise'') py_int) (\<lambda>rate.
     rbind (rbind (py_get_or item ''quantity'' (VInt 1)) py_int) (\<lambda>quantity.
     rbind (py_get_or item ''description'' (VStr '''')) (\<lambda>description. rbind (py_get item ''tax_id'') (\<lambda>tax.
     Inr \<lparr> zi_account = py_str account, zi_rate = rate, zi_quantity = quantity, zi_description = description, zi_tax = tax \<rparr>)))))"

definition need :: "bool \<Rightarrow> string \<Rightarrow> unit result" where
  "need b message = (if b then Inr () else Inl (ValueError message))"

definition quoted :: "string \<Rightarrow> string" where "quoted s = quote_char # s @ [quote_char]"

definition bill_from_dict :: "pyval \<Rightarrow> zoho_bill result" where
  "bill_from_dict payload =
     rbind (py_get payload ''vendor_id'') (\<lambda>vendor. rbind (need (truthy vendor) (''ZohoBillCreate requires valid '' @ quoted ''vendor_id'')) (\<lambda>_.
     rbind (py_get payload ''bill_number'') (\<lambda>number. rbind (need (truthy number) (''ZohoBillCreate requires '' @ quoted ''bill_number'')) (\<lambda>_.
     rbind (py_get payload ''date'') (\<lambda>date. rbind (need (truthy date) (''ZohoBillCreate requires '' @ quoted ''date'' @ '' (YYYY-MM-DD)'')) (\<lambda>_.
     rbind (py_get_or payload ''line_items'' (VList [])) (\<lambda>items_data.
     rbind (need (truthy items_data) (''ZohoBillCreate requires at least one item in '' @ quoted ''line_items'')) (\<lambda>_.
     rbind (py_iter items_data) (\<lambda>xs. rbind (rmap item_from_dict xs) (\<lambda>items.
     rbind (py_get_or payload ''currency_code'' (VStr ''INR'')) (\<lambda>currency.
     rbind (py_get payload ''due_date'') (\<lambda>due. rbind (py_get_or payload ''notes'' (VStr '''')) (\<lambda>notes.
     Inr \<lparr> zb_vendor = py_str vendor, zb_number = py_str number, zb_date = py_str date, zb_items = items, zb_currency = currency,
           zb_due_date = due, zb_notes = notes \<rparr>)))))))))))))"

definition bill_to_zoho :: "zoho_bill \<Rightarrow> (string \<times> pyval) list result" where
  "bill_to_zoho b =
     rbind (rmap item_to_zoho (zb_items b)) (\<lambda>items.
     Inr ([(''vendor_id'', VStr (zb_vendor b)), (''bill_number'', VStr (zb_number b)), (''date'', VStr (zb_date b)),
           (''currency_code'', zb_currency b), (''line_items'', VList items)]
          @ entry_if ''due_date'' (zb_due_date b) @ entry_if ''notes'' (zb_notes b)))"

definition line_amount :: "pyval \<Rightarrow> int result" where
  "line_amount line =
     rbind (rbind (py_get_or line ''rate_paise'' (VInt 0)) py_int) (\<lambda>rate.
     rbind (rbind (py_get_or line ''quantity'' (VInt 1)) py_int) (\<lambda>quantity. Inr (rate * quantity)))"

definition request_hash :: "pyval \<Rightarrow> string result" where
  "request_hash payload = rbind (json_sorted payload) (\<lambda>s. Inr (sha256_hex s))"

definition check_bill_totals :: "pyval \<Rightarrow> pyval list \<Rightarrow> unit result" where
  "check_bill_totals canonical lines =
     rbind (rmap line_amount lines) (\<lambda>amounts.
     let calculated = sum_list amounts in
     rbind (if calculated \<le> 0 then Inr False
            else rbind (rbind (py_get_or canonical ''subtotal_paise'' (VInt calculated)) py_int) (\<lambda>s. Inr (s = calculated))) (\<lambda>ok.
     rbind (need ok ''line totals must equal subtotal_paise'') (\<lambda>_.
     rbind (case canonical of VDict kvs \<Rightarrow> need (map_of kvs ''total_paise'' \<noteq> None) ''total_paise is required'' | _ \<Rightarrow> Inl TypeError) (\<lambda>_.
     rbind (rbind (py_get_or canonical ''tax_total_paise'' (VInt 0)) py_int) (\<lambda>tax.
     rbind (rbind (py_index canonical ''total_paise'') py_int) (\<lambda>tot.
     rbind (need (tot = calculated + tax) ''subtotal plus tax must equal total_paise'') (\<lambda>_.
     rbind (if tax = 0 then Inr False else rany (\<lambda>l. rbind (py_get l ''tax_id'') (\<lambda>x. Inr (\<not> truthy x))) lines) (\<lambda>unmapped.
     need (\<not> unmapped) ''every taxed line requires an approved tax mapping''))))))))"

definition build_purchase_bill :: "pyval \<Rightarrow> (pyval \<times> string) result" where
  "build_purchase_bill canonical =
     rbind (py_get_or canonical ''currency_code'' (VStr ''INR'')) (\<lambda>currency.
     rbind (need (currency = VStr ''INR'') ''Zoho V1 purchase bills require INR currency'') (\<lambda>_.
     rbind (py_get canonical ''organization_id'') (\<lambda>org. rbind (need (truthy org) ''organization_id is required'') (\<lambda>_.
     rbind (py_get canonical ''reference_number'') (\<lambda>ref.
     rbind (need (py_strip (text_or_empty ref) \<noteq> '''') ''reference_number is required for exactly-once recovery'') (\<lambda>_.
     rbind (py_get canonical ''line_items'') (\<lambda>ls. rbind (py_iter (py_or ls (VList []))) (\<lambda>lines.
     rbind (check_bill_totals canonical lines) (\<lambda>_.
     rbind (bill_from_dict canonical) (\<lambda>model. rbind (bill_to_zoho model) (\<lambda>base.
     let payload = VDict (dict_set ''reference_number'' (VStr (py_str ref)) (dict_set ''currency_code'' (VStr ''INR'') base)) in
     rbind (request_hash payload) (\<lambda>h. Inr (payload, h)))))))))))))"

text \<open>\<open>f"{x:.2f}"\<close> of a finite float: its exact value rounded half to even at two places.\<close>

definition fixed2 :: "rat \<Rightarrow> string" where
  "fixed2 x = dec_str (DFin (x < 0) (nat (round_half_even (\<bar>x\<bar> * 100))) (-2))"

definition sales_line :: "pyval \<Rightarrow> pyval result" where
  "sales_line line =
     rbind (get_either ''item_id'' ''account_id'' line) (\<lambda>income.
     rbind (if truthy income then py_get line ''tax_id'' else Inr VNone) (\<lambda>tax.
     rbind (need (truthy income \<and> truthy tax) ''Every sales line needs income/item and tax mappings'') (\<lambda>_.
     rbind (rbind (py_get_or line ''rate_paise'' (VInt 0)) py_int) (\<lambda>rate.
     rbind (need (rate > 0) ''Every sales line needs a positive rate'') (\<lambda>_.
     rbind (py_get line ''item_id'') (\<lambda>item. rbind (py_get line ''account_id'') (\<lambda>account.
     rbind (py_get line ''tax_id'') (\<lambda>tax_id. rbind (py_get_or line ''description'' (VStr '''')) (\<lambda>description.
     rbind (py_get_or line ''quantity'' (VInt 1)) (\<lambda>quantity. rbind (int_truediv rate 100) (\<lambda>r.
     Inr (VDict (filter (\<lambda>(k, v). v \<noteq> VNone \<and> v \<noteq> VStr '''')
            [(''item_id'', item), (''account_id'', account), (''tax_id'', tax_id), (''description'', description),
             (''quantity'', quantity), (''rate'', VStr (fixed2 r))])))))))))))))"

definition build_sales_invoice :: "pyval \<Rightarrow> (pyval \<times> string) result" where
  "build_sales_invoice data =
     rbind (rany (\<lambda>k. rbind (py_get data k) (\<lambda>x. Inr (\<not> truthy x)))
              [''organization_id'', ''customer_id'', ''invoice_number'', ''date'', ''place_of_supply'', ''line_items'']) (\<lambda>lacking.
     rbind (if lacking then Inr VNone else py_index data ''line_items'') (\<lambda>items.
     rbind (need (\<not> lacking \<and> is_list items) ''Sales invoice needs customer, number, date, place of supply and lines'') (\<lambda>_.
     rbind (rbind (py_iter items) (rmap sales_line)) (\<lambda>lines.
     rbind (dict_display
              [(''customer_id'', \<lambda>v. rbind (py_index v ''customer_id'') (\<lambda>x. Inr (VStr (py_str x)))),
               (''invoice_number'', \<lambda>v. rbind (py_index v ''invoice_number'') (\<lambda>x. Inr (VStr (py_str x)))),
               (''date'', \<lambda>v. rbind (py_index v ''date'') (\<lambda>x. Inr (VStr (py_str x)))),
               (''place_of_supply'', \<lambda>v. rbind (py_index v ''place_of_supply'') (\<lambda>x. Inr (VStr (py_str x)))),
               (''line_items'', \<lambda>v. Inr (VList lines)), (''reference_number'', get_text ''reference_number'')] data) (\<lambda>kvs.
     rbind (request_hash (VDict kvs)) (\<lambda>h. Inr (VDict kvs, h)))))))"

section \<open>What the requests and the comparisons guarantee\<close>

lemma rmap_concat_empty: "rmap f xs = Inr yss \<Longrightarrow> concat yss = [] \<Longrightarrow> x \<in> set xs \<Longrightarrow> f x = Inr []"
  by (induction xs arbitrary: yss) (auto simp: rbind_eq_Inr)

lemma unless_equal_empty [simp]: "(unless_equal k e a = []) = (e = a)"
  by (simp add: unless_equal_def)

definition line_agrees :: "pyval \<Rightarrow> pyval \<Rightarrow> bool" where
  "line_agrees line actual =
     ((\<forall>k \<in> {''account_id'', ''item_id'', ''tax_id''}. \<exists>x. py_get line k = Inr x \<and> py_get actual k = Inr (VStr (text_or_empty x)))
      \<and> (\<exists>rate. line_rate line = Inr rate \<and> py_get actual ''rate_paise'' = Inr (VInt rate))
      \<and> (\<exists>q a. py_get_or line ''quantity'' (VInt 1) = Inr q \<and> py_get actual ''quantity'' = Inr a \<and> py_str q = py_str a))"

lemma compare_line_clean: "compare_line i line actual = Inr [] \<Longrightarrow> line_agrees line actual"
  by (auto simp: compare_line_def line_agrees_def rbind_eq_Inr mismatch_entry_def split: if_splits)

lemma compare_lines_clean: "compare_lines i ls as = Inr [] \<Longrightarrow> length ls = length as \<Longrightarrow> list_all2 line_agrees ls as"
  by (induction i ls as rule: compare_lines.induct) (auto simp: rbind_eq_Inr compare_line_clean)

definition total_agrees :: "pyval \<Rightarrow> pyval \<Rightarrow> string \<Rightarrow> bool" where
  "total_agrees expected values key =
     (py_get expected key = Inr VNone \<or> (\<exists>e n. py_get expected key = Inr e \<and> py_int e = Inr n \<and> py_get values key = Inr (VInt n)))"

lemma compare_total_clean: "compare_total expected values key = Inr [] \<Longrightarrow> total_agrees expected values key"
  by (auto simp: compare_total_def total_agrees_def rbind_eq_Inr split: if_splits)

lemma compare_wanted_clean:
  "compare_wanted wanted values = Inr [] \<Longrightarrow> (k, v) \<in> set wanted \<Longrightarrow> py_get values k = Inr v"
  unfolding compare_wanted_def rbind_eq_Inr
  by (auto dest!: rmap_concat_empty simp: rbind_eq_Inr)

text \<open>
  C22. A read-back without mismatches is the approved bill: organization, vendor, bill number, reference, date and currency are
  those of the approved payload, it has as many lines, each with the approved account, item, tax mapping, rate in paise and
  quantity, and every total the approved payload states is the one read back.
\<close>

theorem clean_bill_readback:
  assumes "compare_bill expected actual organization_id = Inr []"
  shows "\<exists>wanted el al ls as.
           wanted_bill expected organization_id = Inr wanted
           \<and> list_all (\<lambda>(k, v). py_get (co_values actual) k = Inr v) wanted
           \<and> py_get_or expected ''line_items'' (VList []) = Inr el \<and> sliceable el = Inr ls
           \<and> py_get_or (co_values actual) ''line_items'' (VList []) = Inr al \<and> sliceable al = Inr as
           \<and> list_all2 line_agrees ls as
           \<and> list_all (total_agrees expected (co_values actual)) [''subtotal_paise'', ''tax_total_paise'', ''total_paise'']"
proof -
  let ?v = "co_values actual"
  obtain wanted el al ls as totals where
      w: "wanted_bill expected organization_id = Inr wanted" "compare_wanted wanted ?v = Inr []"
      and l: "py_get_or expected ''line_items'' (VList []) = Inr el" "py_get_or ?v ''line_items'' (VList []) = Inr al"
        "sliceable el = Inr ls" "sliceable al = Inr as" "compare_lines 0 ls as = Inr []" "length ls = length as"
      and t: "rmap (compare_total expected ?v) [''subtotal_paise'', ''tax_total_paise'', ''total_paise''] = Inr totals" "concat totals = []"
    using assms by (auto simp: compare_bill_def Let_def rbind_eq_Inr simp del: rmap.simps)
  have "list_all (\<lambda>(k, v). py_get ?v k = Inr v) wanted"
    using compare_wanted_clean [OF w(2)] by (auto simp: list_all_iff)
  moreover have "list_all2 line_agrees ls as" by (rule compare_lines_clean [OF l(5,6)])
  moreover have "list_all (total_agrees expected ?v) [''subtotal_paise'', ''tax_total_paise'', ''total_paise'']"
    using rmap_concat_empty [OF t] compare_total_clean unfolding list_all_iff by blast
  ultimately show ?thesis using w(1) l(1-4) by blast
qed

lemma clean_bill_readback_witness:
  "\<exists>wanted. wanted_bill (VDict [(''vendor_id'', VStr ''v'')]) (VStr ''o'') = Inr wanted
     \<and> list_all (\<lambda>(k, v). py_get (VDict wanted) k = Inr v) wanted"
proof -
  define w where "w = [(''organization_id'', VStr ''o''), (''vendor_id'', VStr ''v''), (''bill_number'', VStr ''''),
    (''reference_number'', VStr ''''), (''date'', VStr ''''), (''currency'', VStr ''INR'')]"
  have "compare_bill (VDict [(''vendor_id'', VStr ''v'')]) \<lparr> co_type = '''', co_provider_id = '''', co_values = VDict w, co_version = None \<rparr> (VStr ''o'') = Inr []"
    unfolding w_def by code_simp
  moreover have w: "wanted_bill (VDict [(''vendor_id'', VStr ''v'')]) (VStr ''o'') = Inr w" unfolding w_def by code_simp
  ultimately show ?thesis using clean_bill_readback by fastforce
qed

text \<open>
  The read-back of a sales invoice does not look at its lines: whatever lines the service reports, the comparison has the
  same outcome, so that an invoice with other items, rates or taxes and the same total is accepted as verified.
\<close>

theorem sales_readback_ignores_lines:
  "compare_sales_invoice expected (actual\<lparr>co_values := VDict (dict_set ''line_items'' lines kvs)\<rparr>) organization_id
   = compare_sales_invoice expected (actual\<lparr>co_values := VDict kvs\<rparr>) organization_id"
proof -
  have other: "k \<noteq> ''line_items'' \<Longrightarrow> py_get (VDict (dict_set ''line_items'' lines kvs)) k = py_get (VDict kvs) k" for k
    by (simp add: py_get_def py_get_or_def get_or_def map_of_dict_set)
  have tot: "compare_total expected (VDict (dict_set ''line_items'' lines kvs)) ''total_paise'' = compare_total expected (VDict kvs) ''total_paise''"
    by (simp add: compare_total_def other cong: if_cong)
  have "compare_wanted wanted (VDict (dict_set ''line_items'' lines kvs)) = compare_wanted wanted (VDict kvs)"
    if "wanted_sales expected organization_id = Inr wanted" for wanted
    using that by (auto simp: compare_wanted_def wanted_sales_def dict_display_def rbind_eq_Inr other)
  then show ?thesis unfolding compare_sales_invoice_def by (auto simp: tot intro!: rbind_cong)
qed

text \<open>The rate a line is sent with reads back as its paise.\<close>

lemma rate_printed:
  assumes "rate_decimal rate = Inr r" and "\<bar>rate\<bar> < 10 ^ 27"
  shows "rupees_to_paise True (VStr (dec_str r)) = Inr rate"
proof -
  have "rate_decimal rate = paise_to_decimal (VInt rate)" by (simp add: rate_decimal_def paise_to_decimal_def)
  then have "r = DFin (rate < 0) (nat \<bar>rate\<bar>) (-2)" using assms paise_to_decimal_value [of rate] by simp
  then show ?thesis using paise_printed [OF assms(2)] by simp
qed

text \<open>A line as it is sent: its account, its quantity and its tax mapping and description, when they are set, are those of
  the approved line, and the text of its rate reads back as the approved rate.\<close>

definition line_sent :: "pyval \<Rightarrow> pyval \<Rightarrow> bool" where
  "line_sent line item =
     ((\<exists>account. py_index line ''account_id'' = Inr account \<and> py_get item ''account_id'' = Inr (VStr (py_str account)))
      \<and> (\<exists>rate t. rbind (py_index line ''rate_paise'') py_int = Inr rate \<and> py_get item ''rate'' = Inr (VStr t)
           \<and> (\<bar>rate\<bar> < 10 ^ 27 \<longrightarrow> rupees_to_paise True (VStr t) = Inr rate))
      \<and> (\<exists>quantity. rbind (py_get_or line ''quantity'' (VInt 1)) py_int = Inr quantity
           \<and> py_get item ''quantity'' = Inr (VInt quantity))
      \<and> (\<exists>tax. py_get line ''tax_id'' = Inr tax \<and> py_get item ''tax_id'' = Inr (if truthy tax then tax else VNone))
      \<and> (\<exists>text. py_get_or line ''description'' (VStr '''') = Inr text
           \<and> py_get item ''description'' = Inr (if truthy text then text else VNone)))"

lemma line_is_sent:
  assumes "item_from_dict line = Inr z" and "item_to_zoho z = Inr item"
  shows "line_sent line item"
proof -
  obtain account where from_line: "py_index line ''account_id'' = Inr account" "zi_account z = py_str account"
      "rbind (py_index line ''rate_paise'') py_int = Inr (zi_rate z)"
      "rbind (py_get_or line ''quantity'' (VInt 1)) py_int = Inr (zi_quantity z)"
      "py_get_or line ''description'' (VStr '''') = Inr (zi_description z)" "py_get line ''tax_id'' = Inr (zi_tax z)"
    using assms(1) by (auto simp: item_from_dict_def rbind_eq_Inr)
  obtain r where "rate_decimal (zi_rate z) = Inr r" "py_get item ''rate'' = Inr (VStr (dec_str r))"
      "py_get item ''account_id'' = Inr (VStr (zi_account z))" "py_get item ''quantity'' = Inr (VInt (zi_quantity z))"
      "py_get item ''tax_id'' = Inr (if truthy (zi_tax z) then zi_tax z else VNone)"
      "py_get item ''description'' = Inr (if truthy (zi_description z) then zi_description z else VNone)"
    using assms(2) by (auto simp: item_to_zoho_def rbind_eq_Inr py_get_def py_get_or_def get_or_def entry_if_def)
  then show ?thesis unfolding line_sent_def using from_line rate_printed by metis
qed

lemma lines_are_sent: "rmap item_from_dict ls = Inr zs \<Longrightarrow> rmap item_to_zoho zs = Inr items \<Longrightarrow> list_all2 line_sent ls items"
  by (induction ls arbitrary: zs items) (auto simp: rbind_eq_Inr intro: line_is_sent)

lemma need_ok [simp]: "(need b m = Inr u) = b"
  by (simp add: need_def)

lemma bill_to_zoho_lines:
  assumes "bill_from_dict canonical = Inr m" and "bill_to_zoho m = Inr base" and "py_get canonical ''line_items'' = Inr v"
    and "py_iter (py_or v (VList [])) = Inr ls"
  shows "\<exists>items. map_of base ''line_items'' = Some (VList items) \<and> list_all2 line_sent ls items"
proof -
  obtain data xs where d: "py_get_or canonical ''line_items'' (VList []) = Inr data" "truthy data" "py_iter data = Inr xs"
      "rmap item_from_dict xs = Inr (zb_items m)"
    using assms(1) by (auto simp: bill_from_dict_def rbind_eq_Inr simp del: truthy.simps)
  have "data = v" using d(1,2) assms(3) by (auto simp: py_get_def py_get_or_def get_or_def split: pyval.splits option.splits)
  then have x: "xs = ls" using d(2,3) assms(4) by (simp add: py_or_def)
  obtain items where "rmap item_to_zoho (zb_items m) = Inr items" "map_of base ''line_items'' = Some (VList items)"
    using assms(2) by (auto simp: bill_to_zoho_def rbind_eq_Inr)
  then show ?thesis using lines_are_sent [OF d(4)] x by blast
qed

lemma bill_header:
  assumes "bill_from_dict canonical = Inr m" and "bill_to_zoho m = Inr base"
  shows "list_all (\<lambda>k. \<exists>x. py_get canonical k = Inr x \<and> truthy x \<and> map_of base k = Some (VStr (py_str x)))
           [''vendor_id'', ''bill_number'', ''date'']"
  using assms by (auto simp: bill_from_dict_def bill_to_zoho_def rbind_eq_Inr)

lemma checked_totals:
  assumes "check_bill_totals canonical lines = Inr ()"
  shows "\<exists>amounts tax. rmap line_amount lines = Inr amounts \<and> 0 < sum_list amounts
     \<and> rbind (py_get_or canonical ''subtotal_paise'' (VInt (sum_list amounts))) py_int = Inr (sum_list amounts)
     \<and> rbind (py_get_or canonical ''tax_total_paise'' (VInt 0)) py_int = Inr tax
     \<and> rbind (py_index canonical ''total_paise'') py_int = Inr (sum_list amounts + tax)
     \<and> (tax \<noteq> 0 \<longrightarrow> (\<forall>l\<in>set lines. \<exists>x. py_get l ''tax_id'' = Inr x \<and> truthy x))"
proof -
  obtain amounts tax u where a: "rmap line_amount lines = Inr amounts" "0 < sum_list amounts"
      "rbind (py_get_or canonical ''subtotal_paise'' (VInt (sum_list amounts))) py_int = Inr (sum_list amounts)"
      "rbind (py_get_or canonical ''tax_total_paise'' (VInt 0)) py_int = Inr tax"
      "rbind (py_index canonical ''total_paise'') py_int = Inr (sum_list amounts + tax)"
      "(if tax = 0 then Inr False else rany (\<lambda>l. rbind (py_get l ''tax_id'') (\<lambda>x. Inr (\<not> truthy x))) lines) = Inr u" "\<not> u"
    using assms by (auto simp: check_bill_totals_def Let_def rbind_eq_Inr split: if_splits)
  have "rany (\<lambda>l. rbind (py_get l ''tax_id'') (\<lambda>x. Inr (\<not> truthy x))) ls = Inr False \<Longrightarrow>
      \<forall>l\<in>set ls. \<exists>x. py_get l ''tax_id'' = Inr x \<and> truthy x" for ls
    by (induction ls) (auto simp: rbind_eq_Inr split: if_splits)
  with a show ?thesis by (intro exI [of _ amounts] exI [of _ tax]) auto
qed

lemma reference_text: "py_strip (text_or_empty v) \<noteq> '''' \<Longrightarrow> text_or_empty v = py_str v"
  by (auto simp: text_or_empty_def py_or_def py_strip_def py_lstrip_def split: if_splits)

lemma built_reference:
  assumes "build_purchase_bill canonical = Inr (payload, h)"
  shows "\<exists>r. py_get payload ''reference_number'' = Inr (VStr r) \<and> py_strip r \<noteq> ''''"
proof -
  obtain ref base where r: "py_strip (text_or_empty ref) \<noteq> ''''"
      and p: "payload = VDict (dict_set ''reference_number'' (VStr (py_str ref)) (dict_set ''currency_code'' (VStr ''INR'') base))"
    using assms by (auto simp: build_purchase_bill_def Let_def rbind_eq_Inr)
  have "py_get payload ''reference_number'' = Inr (VStr (py_str ref))"
    by (simp add: p py_get_def py_get_or_def get_or_def)
  then show ?thesis using r reference_text [OF r] by auto
qed

text \<open>
  C21. A purchase bill is built only from an approved payload that adds up, and it is what was approved: vendor, bill number,
  date and the reference number that recovery searches for are the payload's, and the lines are those of the payload, one for
  one, each with the approved account, quantity, tax mapping and description and a printed rate that reads back as the approved paise.
  The rates times the quantities sum to a positive subtotal, the one the payload states if it states one, the stated
  total is that subtotal plus the stated tax, and every line of a taxed bill has a tax mapping.
\<close>

theorem bill_request_sound:
  assumes "build_purchase_bill canonical = Inr (payload, h)"
  shows "\<exists>lines amounts tax items.
           rbind (py_get canonical ''line_items'') (\<lambda>v. py_iter (py_or v (VList []))) = Inr lines
           \<and> rmap line_amount lines = Inr amounts \<and> 0 < sum_list amounts
           \<and> rbind (py_get_or canonical ''subtotal_paise'' (VInt (sum_list amounts))) py_int = Inr (sum_list amounts)
           \<and> rbind (py_get_or canonical ''tax_total_paise'' (VInt 0)) py_int = Inr tax
           \<and> rbind (py_index canonical ''total_paise'') py_int = Inr (sum_list amounts + tax)
           \<and> (tax \<noteq> 0 \<longrightarrow> (\<forall>l\<in>set lines. \<exists>x. py_get l ''tax_id'' = Inr x \<and> truthy x))
           \<and> py_get payload ''line_items'' = Inr (VList items) \<and> list_all2 line_sent lines items
           \<and> list_all (\<lambda>k. \<exists>x. py_get canonical k = Inr x \<and> truthy x \<and> py_get payload k = Inr (VStr (py_str x)))
               [''vendor_id'', ''bill_number'', ''date'', ''reference_number'']
           \<and> (\<exists>reference. py_get payload ''reference_number'' = Inr (VStr reference) \<and> py_strip reference \<noteq> '''')
           \<and> py_get_or canonical ''currency_code'' (VStr ''INR'') = Inr (VStr ''INR'')
           \<and> py_get payload ''currency_code'' = Inr (VStr ''INR'') \<and> request_hash payload = Inr h"
proof -
  obtain ref v lines m base where
      r: "py_get canonical ''reference_number'' = Inr ref" "py_strip (text_or_empty ref) \<noteq> ''''"
      and c: "py_get_or canonical ''currency_code'' (VStr ''INR'') = Inr (VStr ''INR'')"
      and l: "py_get canonical ''line_items'' = Inr v" "py_iter (py_or v (VList [])) = Inr lines"
      and t: "check_bill_totals canonical lines = Inr ()"
      and m: "bill_from_dict canonical = Inr m" "bill_to_zoho m = Inr base"
      and p: "payload = VDict (dict_set ''reference_number'' (VStr (py_str ref)) (dict_set ''currency_code'' (VStr ''INR'') base))"
      and h: "request_hash payload = Inr h"
    using assms by (auto simp: build_purchase_bill_def Let_def rbind_eq_Inr)
  have get: "py_get payload k = (if k = ''reference_number'' then Inr (VStr (py_str ref)) else if k = ''currency_code'' then Inr (VStr ''INR'')
      else py_get (VDict base) k)" for k
    by (simp add: p py_get_def py_get_or_def get_or_def map_of_dict_set)
  obtain items where i: "map_of base ''line_items'' = Some (VList items)" "list_all2 line_sent lines items"
    using bill_to_zoho_lines [OF m l] by blast
  have "py_get payload ''line_items'' = Inr (VList items)" "py_get payload ''currency_code'' = Inr (VStr ''INR'')"
      "py_get payload ''reference_number'' = Inr (VStr (py_str ref))"
    using i(1) by (simp_all add: get) (simp add: py_get_def py_get_or_def get_or_def)
  moreover have "py_strip (py_str ref) \<noteq> ''''" using r reference_text [OF r(2)] by simp
  moreover have "truthy ref" using r(2) by (auto simp: text_or_empty_def py_or_def py_strip_def py_lstrip_def split: if_splits)
  then have "list_all (\<lambda>k. \<exists>x. py_get canonical k = Inr x \<and> truthy x \<and> py_get payload k = Inr (VStr (py_str x)))
      [''vendor_id'', ''bill_number'', ''date'', ''reference_number'']"
    using bill_header [OF m] r(1) by (auto simp: get) (auto simp: py_get_def py_get_or_def get_or_def)
  moreover obtain amounts tax where "rmap line_amount lines = Inr amounts" "0 < sum_list amounts"
      "rbind (py_get_or canonical ''subtotal_paise'' (VInt (sum_list amounts))) py_int = Inr (sum_list amounts)"
      "rbind (py_get_or canonical ''tax_total_paise'' (VInt 0)) py_int = Inr tax"
      "rbind (py_index canonical ''total_paise'') py_int = Inr (sum_list amounts + tax)"
      "tax \<noteq> 0 \<longrightarrow> (\<forall>l\<in>set lines. \<exists>x. py_get l ''tax_id'' = Inr x \<and> truthy x)"
    using checked_totals [OF t] by blast
  ultimately show ?thesis using c l i(2) h
    by (intro exI [of _ lines] exI [of _ amounts] exI [of _ tax] exI [of _ items] conjI) simp_all
qed

definition sample_bill :: pyval where
  "sample_bill = VDict [(''organization_id'', VStr ''o''), (''reference_number'', VStr ''R1''), (''vendor_id'', VStr ''v''),
     (''bill_number'', VStr ''B1''), (''date'', VStr ''2025-06-15''), (''tax_total_paise'', VInt 18), (''total_paise'', VInt 118),
     (''line_items'', VList [VDict [(''account_id'', VStr ''a''), (''rate_paise'', VInt 50), (''quantity'', VInt 2), (''tax_id'', VStr ''t'')]])]"

definition sample_zoho_lines :: pyval where
  "sample_zoho_lines = VList [VDict [(''account_id'', VStr ''a''), (''rate'', VStr ''0.50''), (''quantity'', VInt 2), (''tax_id'', VStr ''t'')]]"

definition sample_request :: pyval where
  "sample_request = VDict [(''vendor_id'', VStr ''v''), (''bill_number'', VStr ''B1''), (''date'', VStr ''2025-06-15''),
     (''currency_code'', VStr ''INR''), (''line_items'', sample_zoho_lines), (''reference_number'', VStr ''R1'')]"

definition json_defined :: "pyval \<Rightarrow> bool" where "json_defined v = is_ok (json_sorted v)"

lemma is_ok_rbind: "is_ok m \<Longrightarrow> (\<And>x. is_ok (f x)) \<Longrightarrow> is_ok (rbind m f)"
  by (cases m) simp_all

lemma is_ok_rmap: "\<forall>x \<in> set xs. is_ok (f x) \<Longrightarrow> is_ok (rmap f xs)"
  by (induction xs) (auto intro!: is_ok_rbind)

lemma json_defined_scalar [simp]: "json_defined (VStr s)" "json_defined (VInt i)"
  by (simp_all add: json_defined_def)

lemma json_defined_list: "\<forall>x \<in> set xs. json_defined x \<Longrightarrow> json_defined (VList xs)"
  by (simp add: json_defined_def is_ok_rbind is_ok_rmap)

lemma json_defined_dict: "\<forall>kv \<in> set kvs. json_defined (snd kv) \<Longrightarrow> json_defined (VDict kvs)"
  by (auto simp: json_defined_def intro!: is_ok_rbind is_ok_rmap)

lemma sample_bill_built: "\<exists>h. build_purchase_bill sample_bill = Inr (sample_request, h)"
proof -
  define line where "line = VDict [(''account_id'', VStr ''a''), (''rate_paise'', VInt 50), (''quantity'', VInt 2), (''tax_id'', VStr ''t'')]"
  define m where "m = \<lparr> zb_vendor = ''v'', zb_number = ''B1'', zb_date = ''2025-06-15'',
     zb_items = [\<lparr> zi_account = ''a'', zi_rate = 50, zi_quantity = 2, zi_description = VStr '''', zi_tax = VStr ''t'' \<rparr>],
     zb_currency = VStr ''INR'', zb_due_date = VNone, zb_notes = VStr '''' \<rparr>"
  define base where "base = [(''vendor_id'', VStr ''v''), (''bill_number'', VStr ''B1''), (''date'', VStr ''2025-06-15''),
     (''currency_code'', VStr ''INR''), (''line_items'', sample_zoho_lines)]"
  have g: "py_get_or sample_bill ''currency_code'' (VStr ''INR'') = Inr (VStr ''INR'')" "py_get sample_bill ''organization_id'' = Inr (VStr ''o'')"
      "py_get sample_bill ''reference_number'' = Inr (VStr ''R1'')" "py_get sample_bill ''line_items'' = Inr (VList [line])"
    by (simp_all add: sample_bill_def line_def py_get_def py_get_or_def get_or_def)
  have c: "check_bill_totals sample_bill [line] = Inr ()" unfolding line_def by code_simp
  have b: "bill_from_dict sample_bill = Inr m" unfolding m_def by code_simp
  have "rate_decimal 50 = Inr (DFin False 50 (-2))"
    using paise_to_decimal_value [of 50] by (simp add: rate_decimal_def paise_to_decimal_def)
  moreover have "dec_str (DFin False 50 (-2)) = ''0.50''" by code_simp
  ultimately have z: "bill_to_zoho m = Inr base"
    by (simp add: bill_to_zoho_def item_to_zoho_def m_def base_def sample_zoho_lines_def entry_if_def)
  have s: "py_strip (text_or_empty (VStr ''R1'')) \<noteq> ''''" by code_simp
  have "json_defined sample_zoho_lines"
    unfolding sample_zoho_lines_def by (rule json_defined_list, simp, rule json_defined_dict, simp)
  then have "json_defined sample_request" unfolding sample_request_def by (intro json_defined_dict) simp
  then obtain j where j: "json_sorted sample_request = Inr j" by (auto simp: json_defined_def is_ok_def split: sum.splits)
  have p: "VDict (dict_set ''reference_number'' (VStr (py_str (VStr ''R1''))) (dict_set ''currency_code'' (VStr ''INR'') base)) = sample_request"
    by (simp add: base_def sample_request_def)
  have n: "need (VStr ''INR'' = VStr ''INR'') e1 = Inr ()" "need (truthy (VStr ''o'')) e2 = Inr ()"
      "need (py_strip (text_or_empty (VStr ''R1'')) \<noteq> '''') e3 = Inr ()" "py_iter (py_or (VList [line]) (VList [])) = Inr [line]" for e1 e2 e3
    using s by (simp_all add: need_def py_or_def)
  show ?thesis
    unfolding build_purchase_bill_def Let_def by (simp only: g n c b z p rbind.simps request_hash_def j) blast
qed

lemma bill_request_sound_witness:
  "\<exists>items. py_get sample_request ''line_items'' = Inr (VList items) \<and> py_get sample_request ''currency_code'' = Inr (VStr ''INR'')"
  using sample_bill_built bill_request_sound by blast

section \<open>The rate of a sales line\<close>

lemma f64_err_256: "0 < q \<Longrightarrow> q < 2 ^ 46 \<Longrightarrow> \<bar>f64 q - q\<bar> \<le> 1 / 256"
proof -
  assume q: "0 < q" "q < 2 ^ 46"
  then have "f64_exp q \<le> - 7" using f64_exp_le [of q 46] by simp
  then have "(2::rat) powi (f64_exp q) \<le> 2 powi (- 7)" by (intro power_int_increasing) auto
  moreover have "(2::rat) powi (- 7) = 1 / 128" by (simp add: power_int_def power_divide)
  ultimately show ?thesis using f64_err [OF q(1)] by simp
qed

lemma round_half_even_near: "\<bar>q - of_int n\<bar> < 1 / 2 \<Longrightarrow> round_half_even q = n"
proof -
  assume "\<bar>q - of_int n\<bar> < 1 / 2"
  then have "\<bar>of_int (round_half_even q) - (of_int n :: rat)\<bar> < 1" using round_half_even_err [of q] by linarith
  then have "\<bar>of_int (round_half_even q - n) :: rat\<bar> < of_int 1" by simp
  then have "\<bar>round_half_even q - n\<bar> < 1" by (metis of_int_abs of_int_less_iff)
  then show ?thesis by simp
qed

lemma fixed2_rate:
  assumes "0 < rate" and "rate < 10 ^ 15"
  shows "\<exists>x. int_truediv rate 100 = Inr x \<and> fixed2 x = dec_str (DFin (rate < 0) (nat \<bar>rate\<bar>) (-2))"
proof -
  define q where "q = (of_int rate / 100 :: rat)"
  have r: "(of_int rate :: rat) < 10 ^ 15" using assms(2) by (metis of_int_less_iff of_int_numeral of_int_power)
  have q: "0 < q" "q < 2 ^ 46" "\<bar>q\<bar> < 2 ^ 100" using assms(1) r by (simp_all add: q_def)
  have e: "\<bar>f64 q - q\<bar> \<le> 1 / 256" by (rule f64_err_256 [OF q(1,2)])
  have "0 \<le> f64 q" using f64_ge_int [of q 0] q by simp
  moreover from this have "round_half_even (\<bar>f64 q\<bar> * 100) = rate"
    using e by (intro round_half_even_near) (simp add: q_def abs_if field_simps split: if_splits)
  ultimately have "fixed2 (f64 q) = dec_str (DFin (rate < 0) (nat \<bar>rate\<bar>) (-2))"
    using assms(1) by (simp add: fixed2_def del: dec_str.simps)
  moreover have "int_truediv rate 100 = Inr (f64 q)"
    using float_of_small [OF q(3)] by (simp add: int_truediv_def q_def)
  ultimately show ?thesis by blast
qed

lemma map_of_filter_last: "k \<notin> fst ` set xs \<Longrightarrow> P (k, v) \<Longrightarrow> map_of (filter P (xs @ [(k, v)])) k = Some v"
  by (induction xs) auto

lemma dec_str_nonempty: "dec_str (DFin s c (-2)) \<noteq> ''''"
  by (auto simp: Let_def)

text \<open>
  C28. The rate of a sales line is computed in binary floating point and printed with two places, and no paisa is lost: up to
  ten to the fifteenth paise the text that is sent reads back as the approved rate.
\<close>

theorem sales_rate_exact:
  assumes "sales_line line = Inr item" and "rbind (py_get_or line ''rate_paise'' (VInt 0)) py_int = Inr rate" and "rate < 10 ^ 15"
  shows "\<exists>t. py_get item ''rate'' = Inr (VStr t) \<and> rupees_to_paise True (VStr t) = Inr rate"
proof -
  obtain i a tx d q r where r: "0 < rate" "int_truediv rate 100 = Inr r"
      and item: "item = VDict (filter (\<lambda>(k, v). v \<noteq> VNone \<and> v \<noteq> VStr '''')
        [(''item_id'', i), (''account_id'', a), (''tax_id'', tx), (''description'', d), (''quantity'', q), (''rate'', VStr (fixed2 r))])"
    using assms(1,2) by (auto simp: sales_line_def rbind_eq_Inr simp del: filter.simps truthy.simps py_int.simps)
  have "fixed2 r \<noteq> ''''" unfolding fixed2_def by (rule dec_str_nonempty)
  then have "py_get item ''rate'' = Inr (VStr (fixed2 r))"
    using map_of_filter_last [of "''rate''" "[(''item_id'', i), (''account_id'', a), (''tax_id'', tx), (''description'', d), (''quantity'', q)]"
        "\<lambda>(k, v). v \<noteq> VNone \<and> v \<noteq> VStr ''''" "VStr (fixed2 r)"]
    unfolding item append.simps by (simp add: py_get_def py_get_or_def get_or_def del: filter.simps)
  moreover from r have "fixed2 r = dec_str (DFin (rate < 0) (nat \<bar>rate\<bar>) (-2))" using fixed2_rate [OF r(1) assms(3)] by auto
  ultimately show ?thesis using r(1) assms(3) paise_printed [of rate] by (simp del: dec_str.simps)
qed

lemma sales_rate_exact_witness: "\<exists>t. rupees_to_paise True (VStr t) = Inr 1999"
proof -
  define line where "line = VDict [(''item_id'', VStr ''i''), (''tax_id'', VStr ''t''), (''rate_paise'', VInt 1999)]"
  have "\<exists>item. sales_line line = Inr item"
    using fixed2_rate [of 1999] by (auto simp: line_def sales_line_def get_either_def py_get_def py_get_or_def get_or_def need_def)
  then obtain item where "sales_line line = Inr item" by blast
  moreover have "rbind (py_get_or line ''rate_paise'' (VInt 0)) py_int = Inr 1999" by (simp add: line_def py_get_or_def get_or_def)
  ultimately show ?thesis using sales_rate_exact [of line item 1999] by auto
qed

end
