(* ===== verification/Zoho_Connector.thy ===== *)
theory Zoho_Connector
  imports Zoho_Books Db_Monad
begin

text \<open>
  The Zoho Books connector (\<open>connectors/zoho_books/connector.py\<close>, \<open>sales_write.py\<close>, \<open>paginator.py\<close>,
  \<open>client.py\<close>, \<open>credentials.py\<close>, \<open>errors.py\<close>, \<open>auth.py\<close>). The state is the service's own state, the requests sent to it
  so far with their answers, the installation's credential row, its rate budget and the clock. The service behind the HTTP
  library, its token endpoint, the cipher and the JSON decoder are the parameters of \<open>zoho_env\<close>.
\<close>

section \<open>Requests and answers\<close>

record http_request =
  rq_method :: string
  rq_base :: string
  rq_path :: string
  rq_params :: "(string, pyval) dict"
  rq_body :: "pyval option"
  rq_token :: string

datatype http_answer = Answer (an_status: nat) (an_length: nat) (an_body: "pyval option") (an_retry: "string option") | Broken

record 'p zoho_env =
  ze_http :: "http_request \<Rightarrow> 'p \<Rightarrow> http_answer \<times> 'p"
  ze_token :: "string \<Rightarrow> string \<Rightarrow> 'p \<Rightarrow> pyval result \<times> 'p"
  ze_decrypt :: "string \<Rightarrow> string \<Rightarrow> string \<Rightarrow> string option"
  ze_encrypt :: "string \<Rightarrow> pyval \<Rightarrow> string"
  ze_json :: "string \<Rightarrow> pyval result"
  ze_key_version :: string

record cred_row =
  cw_firm :: string
  cw_configuration :: pyval
  cw_ciphertext :: string
  cw_key_version :: string
  cw_data_center :: "string option"
  cw_api_domain :: "string option"
  cw_scopes :: "string list"
  cw_expires :: "int option"

record budget =
  bu_window :: int
  bu_used :: int
  bu_blocked :: "int option"

record 'p zworld =
  zw_provider :: 'p
  zw_sent :: "(http_request \<times> http_answer) list"
  zw_row :: "cred_row option"
  zw_budget :: "budget option"
  zw_now :: int

record zoho_client =
  zc_token :: string
  zc_org :: string
  zc_base :: string

section \<open>Errors and data centres\<close>

definition error_from_response :: "nat \<Rightarrow> pyval \<Rightarrow> string option \<Rightarrow> pyexn result" where
  "error_from_response status payload retry_after =
     rbind (py_get_or payload ''code'' (VStr ''UNKNOWN'')) (\<lambda>code.
     Inr (if status = 401 then ZohoError RS_AUTH_EXPIRED ''ZOHO_AUTH_EXPIRED'' ''Zoho authorization expired'' None
          else if status = 404 then ZohoError NO_DATA ''ZOHO_NOT_FOUND'' ''Zoho object was not found'' None
          else if status = 429 then
            ZohoError RATE_LIMITED ''ZOHO_RATE_LIMITED'' ''Zoho rate limit reached''
              (Some (case retry_after of Some t \<Rightarrow> if t \<noteq> '''' \<and> py_isdigit t then int (digits_to_nat t) else 60 | None \<Rightarrow> 60))
          else if status \<ge> 500 then
            ZohoError PROVIDER_UNAVAILABLE ''ZOHO_PROVIDER_UNAVAILABLE'' ''Zoho is temporarily unavailable'' None
          else ZohoError INVALID_PAYLOAD (''ZOHO_'' @ py_str code) ''Zoho rejected the request'' None))"

text \<open>\<open>ZohoError.result\<close>; its correlation id is a fresh random one and is left out of the details.\<close>

definition error_result :: "result_status \<Rightarrow> string \<Rightarrow> int option \<Rightarrow> 'a connector_result" where
  "error_result st reason retry = (plain_result st reason)\<lparr>cr_retry := retry\<rparr>"

definition API_BY_DC :: "(string, string) dict" where
  "API_BY_DC =
     [(''us'', ''https://www.zohoapis.com''), (''eu'', ''https://www.zohoapis.eu''), (''in'', ''https://www.zohoapis.in''),
      (''au'', ''https://www.zohoapis.com.au''), (''jp'', ''https://www.zohoapis.jp''), (''ca'', ''https://www.zohoapis.ca''),
      (''sa'', ''https://www.zohoapis.sa''), (''uk'', ''https://www.zohoapis.uk'')]"

definition ACCOUNTS_BY_DC :: "(string, string) dict" where
  "ACCOUNTS_BY_DC =
     [(''us'', ''https://accounts.zoho.com''), (''eu'', ''https://accounts.zoho.eu''), (''in'', ''https://accounts.zoho.in''),
      (''au'', ''https://accounts.zoho.com.au''), (''jp'', ''https://accounts.zoho.jp''), (''ca'', ''https://accounts.zohocloud.ca''),
      (''sa'', ''https://accounts.zoho.sa''), (''uk'', ''https://accounts.zoho.uk'')]"

definition data_center_key :: "string option \<Rightarrow> string" where
  "data_center_key dc = py_lower (case dc of Some d \<Rightarrow> if d = '''' then ''in'' else d | None \<Rightarrow> ''in'')"

definition accounts_url :: "string option \<Rightarrow> string" where
  "accounts_url dc = dict_get ACCOUNTS_BY_DC (data_center_key dc) ''https://accounts.zoho.in''"

definition rstrip_slash :: "string \<Rightarrow> string" where
  "rstrip_slash s = rev (dropWhile (\<lambda>c. c = CHR ''/'') (rev s))"

definition api_domain :: "string option \<Rightarrow> string option \<Rightarrow> string" where
  "api_domain v dc =
     (let fallback = dict_get API_BY_DC (data_center_key dc) ''https://www.zohoapis.in'' in
      case v of
        Some u \<Rightarrow> if u \<noteq> '''' \<and> rstrip_slash u \<in> snd ` set API_BY_DC then rstrip_slash u else fallback
      | None \<Rightarrow> fallback)"

section \<open>Credentials\<close>

definition aad_of :: "string \<Rightarrow> string \<Rightarrow> string \<Rightarrow> string" where
  "aad_of firm installation key_version = firm @ '':'' @ installation @ '':'' @ key_version"

definition open_credentials :: "'p zoho_env \<Rightarrow> string \<Rightarrow> string \<Rightarrow> string \<Rightarrow> string \<Rightarrow> pyval result" where
  "open_credentials env firm installation envelope key_version =
     (case ze_decrypt env (take 12 envelope) (drop 12 envelope) (aad_of firm installation key_version) of
        None \<Rightarrow> Inl (StoredCredentialError ''Connector credential is unavailable; reconnect the installation'')
      | Some plain \<Rightarrow>
          (case ze_json env plain of
             Inl e \<Rightarrow> Inl (StoredCredentialError ''Connector credential is unavailable; reconnect the installation'')
           | Inr v \<Rightarrow> Inr v))"

definition load :: "'p zoho_env \<Rightarrow> string \<Rightarrow> ('p zworld, cred_row \<times> pyval) op" where
  "load env installation =
     obind (oget zw_row) (\<lambda>found. case found of
       None \<Rightarrow> oraise (StoredCredentialError ''Zoho installation is missing or disconnected'')
     | Some row \<Rightarrow>
         obind (olift (open_credentials env (cw_firm row) installation (cw_ciphertext row) (cw_key_version row))) (\<lambda>values.
         oret (row, values)))"

definition refresh_access_token :: "'p zoho_env \<Rightarrow> string \<Rightarrow> string option \<Rightarrow> ('p zworld, pyval \<times> pyval \<times> string) op" where
  "refresh_access_token env refresh_token dc =
     obind (\<lambda>s. case ze_token env (accounts_url dc @ ''/oauth/v2/token'') refresh_token (zw_provider s) of
                  (r, p') \<Rightarrow> (r, s\<lparr>zw_provider := p'\<rparr>)) (\<lambda>data.
     obind (olift (py_index data ''access_token'')) (\<lambda>token.
     obind (olift (py_get_or data ''expires_in'' (VInt 3600))) (\<lambda>expires.
     obind (olift (py_get data ''api_domain'')) (\<lambda>domain.
     obind (olift (if truthy domain then (case domain of VStr u \<Rightarrow> Inr (Some u) | _ \<Rightarrow> Inl AttributeError) else Inr None)) (\<lambda>u.
     oret (token, expires, api_domain u dc))))))"

definition text_index :: "pyval \<Rightarrow> string \<Rightarrow> string result" where
  "text_index v k = rbind (py_index v k) (\<lambda>x. Inr (py_str x))"

definition access_token :: "'p zoho_env \<Rightarrow> string \<Rightarrow> ('p zworld, string) op" where
  "access_token env installation =
     obind (load env installation) (\<lambda>(row, values).
     obind (oget zw_now) (\<lambda>now.
     if (case cw_expires row of Some t \<Rightarrow> t > now + 60 | None \<Rightarrow> False)
     then olift (text_index values ''access_token'')
     else
       obind (olift (text_index values ''refresh_token'')) (\<lambda>refresh_token.
       obind (refresh_access_token env refresh_token (cw_data_center row)) (\<lambda>(token, expires, domain).
       obind (olift (py_int expires)) (\<lambda>seconds.
       case values of
         VDict kvs \<Rightarrow>
           (let sealed = ze_encrypt env (aad_of (cw_firm row) installation (ze_key_version env)) (VDict (dict_set ''access_token'' token kvs)) in
            othen (omod (\<lambda>s. s\<lparr>zw_row := map_option (\<lambda>r. r\<lparr>cw_ciphertext := sealed, cw_key_version := ze_key_version env,
                     cw_api_domain := Some domain, cw_expires := Some (now + seconds)\<rparr>) (zw_row s)\<rparr>))
              (oret (py_str token)))
       | _ \<Rightarrow> oraise TypeError)))))"

definition ZOHO_API_BASE :: string where "ZOHO_API_BASE = ''https://www.zohoapis.in/books/v3''"

definition parsed_configuration :: "'p zoho_env \<Rightarrow> cred_row \<Rightarrow> pyval result" where
  "parsed_configuration env row = (case cw_configuration row of VStr t \<Rightarrow> ze_json env t | v \<Rightarrow> Inr v)"

definition organization_of :: "'p zoho_env \<Rightarrow> cred_row \<Rightarrow> string result" where
  "organization_of env row = rbind (parsed_configuration env row) (\<lambda>c. rbind (py_get c ''organization_id'') (\<lambda>x. Inr (text_or_empty x)))"

definition credential_client :: "'p zoho_env \<Rightarrow> string \<Rightarrow> ('p zworld, zoho_client) op" where
  "credential_client env installation =
     obind (load env installation) (\<lambda>(row, values).
     obind (olift (organization_of env row)) (\<lambda>org.
     if org = '''' then oraise (StoredCredentialError ''Zoho organization mapping is missing'')
     else obind (access_token env installation) (\<lambda>token.
       oret \<lparr> zc_token = token, zc_org = org,
              zc_base = (case cw_api_domain row of
                           Some d \<Rightarrow> if d = '''' then ZOHO_API_BASE else rstrip_slash d @ ''/books/v3'' | None \<Rightarrow> ZOHO_API_BASE) \<rparr>)))"

section \<open>One call of the service\<close>

definition MAX_RESPONSE_BYTES :: nat where "MAX_RESPONSE_BYTES = 5 * 1024 * 1024"

definition send :: "'p zoho_env \<Rightarrow> http_request \<Rightarrow> ('p zworld, http_answer) op" where
  "send env rq s =
     (case ze_http env rq (zw_provider s) of
        (a, p') \<Rightarrow> ((if a = Broken then Inl TransportError else Inr a), s\<lparr>zw_provider := p', zw_sent := zw_sent s @ [(rq, a)]\<rparr>))"

text \<open>A code of \<open>None\<close>, \<open>0\<close> or \<open>"0"\<close>, up to Python's equality.\<close>

definition code_ok :: "pyval \<Rightarrow> bool" where
  "code_ok v = (v \<in> {VNone, VInt 0, VStr ''0'', VBool False, VFloat 0})"

definition payload_of :: "http_answer \<Rightarrow> pyval result" where
  "payload_of a =
     (case a of
        Broken \<Rightarrow> Inl TransportError
      | Answer status len body retry \<Rightarrow>
          if len > MAX_RESPONSE_BYTES
          then Inl (ZohoError PROVIDER_UNAVAILABLE ''ZOHO_RESPONSE_TOO_LARGE'' ''Zoho response exceeded the safe size limit'' None)
          else (case body of
              None \<Rightarrow> Inl (ZohoError PROVIDER_UNAVAILABLE ''ZOHO_INVALID_JSON'' ''Zoho returned an unreadable response'' None)
            | Some payload \<Rightarrow>
                rbind (if status \<ge> 400 then Inr False else rbind (py_get payload ''code'') (\<lambda>c. Inr (code_ok c))) (\<lambda>ok.
                if ok then Inr payload else rbind (error_from_response status payload retry) (\<lambda>e. Inl e))))"

text \<open>A request refused as unauthenticated is sent once more with a renewed token.\<close>

definition authenticated :: "'p zoho_env \<Rightarrow> string \<Rightarrow> http_request \<Rightarrow> ('p zworld, pyval) op" where
  "authenticated env installation rq =
     obind (send env rq) (\<lambda>a.
     obind (if an_status a = 401
            then obind (access_token env installation) (\<lambda>token. send env (rq\<lparr>rq_token := token\<rparr>))
            else oret a) (\<lambda>b. olift (payload_of b)))"

definition request :: "'p zoho_env \<Rightarrow> string \<Rightarrow> zoho_client \<Rightarrow> string \<Rightarrow> string \<Rightarrow> (string, pyval) dict \<Rightarrow> pyval option \<Rightarrow> ('p zworld, pyval) op" where
  "request env installation client method path params body =
     authenticated env installation
       \<lparr> rq_method = method, rq_base = zc_base client, rq_path = path,
         rq_params = dict_set ''organization_id'' (VStr (zc_org client)) params, rq_body = body, rq_token = zc_token client \<rparr>"

section \<open>The connector\<close>

text \<open>\<open>_client\<close>: every use of the client is counted in the rate budget, and a budget that is cooling down stops it.\<close>

definition spend :: "int \<Rightarrow> budget option \<Rightarrow> budget" where
  "spend now b =
     (case b of
        None \<Rightarrow> \<lparr> bu_window = now, bu_used = 1, bu_blocked = None \<rparr>
      | Some x \<Rightarrow>
          \<lparr> bu_window = (if bu_window x < now - 3600 then now else bu_window x),
            bu_used = (if bu_window x < now - 3600 then 1 else bu_used x + 1),
            bu_blocked = (case bu_blocked x of Some t \<Rightarrow> if t < now then None else Some t | None \<Rightarrow> None) \<rparr>)"

definition still_blocked :: "int \<Rightarrow> budget \<Rightarrow> bool" where
  "still_blocked now b = (case bu_blocked b of Some t \<Rightarrow> t > now | None \<Rightarrow> False)"

definition connector_client :: "'p zoho_env \<Rightarrow> string \<Rightarrow> ('p zworld, zoho_client) op" where
  "connector_client env installation =
     obind (load env installation) (\<lambda>(row, values).
     obind (olift (rbind (parsed_configuration env row) (\<lambda>c. py_get c ''organization_id''))) (\<lambda>_.
     othen (omod (\<lambda>s. s\<lparr>zw_budget := Some (spend (zw_now s) (zw_budget s))\<rparr>))
    (obind (oget (\<lambda>s. case zw_budget s of Some b \<Rightarrow> still_blocked (zw_now s) b | None \<Rightarrow> False)) (\<lambda>blocked.
     if blocked then oraise (ZohoError RATE_LIMITED ''ZOHO_RATE_BUDGET_BLOCKED'' ''Zoho rate limit is cooling down'' (Some 60))
     else credential_client env installation))))"

definition block_for :: "int \<Rightarrow> ('p zworld, unit) op" where
  "block_for seconds = omod (\<lambda>s. s\<lparr>zw_budget := map_option (\<lambda>b. b\<lparr>bu_blocked := Some (zw_now s + seconds)\<rparr>) (zw_budget s)\<rparr>)"

definition run_call :: "'p zoho_env \<Rightarrow> string \<Rightarrow> (zoho_client \<Rightarrow> ('p zworld, 'a connector_result) op) \<Rightarrow> ('p zworld, 'a connector_result) op" where
  "run_call env installation operation =
     otry (obind (connector_client env installation) operation)
       (\<lambda>e. case e of
          ZohoError st reason message retry \<Rightarrow>
            othen (owhen (st = RATE_LIMITED) (block_for (case retry of Some n \<Rightarrow> if n = 0 then 60 else n | None \<Rightarrow> 60)))
              (oret (error_result st reason retry))
        | TransportError \<Rightarrow> oret (plain_result PROVIDER_UNAVAILABLE ''ZOHO_CONNECTION_FAILED'')
        | _ \<Rightarrow> oraise e)"

definition GET :: string where "GET = ''GET''"
definition POST :: string where "POST = ''POST''"

definition probe :: "'p zoho_env \<Rightarrow> string \<Rightarrow> ('p zworld, pyval connector_result) op" where
  "probe env installation =
     run_call env installation (\<lambda>client.
       obind (request env installation client GET (''/organizations/'' @ zc_org client) [] None) (\<lambda>response.
       obind (olift (py_get_or response ''organization'' (VDict []))) (\<lambda>org.
       oret (data_result SUCCESS (VDict [(''organization'', org)])))))"

definition PER_PAGE :: int where "PER_PAGE = 200"
definition MAX_LIST_PAGES :: int where "MAX_LIST_PAGES = 1000"

definition fetch_page :: "'p zoho_env \<Rightarrow> string \<Rightarrow> zoho_client \<Rightarrow> string \<Rightarrow> string \<Rightarrow> cursor \<Rightarrow> (string, pyval) dict
    \<Rightarrow> ('p zworld, pyval list connector_result) op" where
  "fetch_page env installation client path key cursor params =
     obind (olift (int_of_str (case cursor of Some t \<Rightarrow> if t = '''' then ''1'' else t | None \<Rightarrow> ''1''))) (\<lambda>page.
     if page < 1 \<or> page > MAX_LIST_PAGES then oret (plain_result INVALID_PAYLOAD ''ZOHO_CURSOR_OUT_OF_RANGE'')
     else
       obind (request env installation client GET path
                (dict_set ''per_page'' (VInt PER_PAGE) (dict_set ''page'' (VInt page) params)) None) (\<lambda>response.
       obind (olift (py_get_or response key (VList []))) (\<lambda>rows. case rows of
         VList xs \<Rightarrow>
           obind (olift (rbind (py_get_or response ''page_context'' (VDict [])) (\<lambda>c. py_get c ''has_more_page''))) (\<lambda>more.
           oret ((data_result (if truthy more then PARTIAL else if xs \<noteq> [] then SUCCESS else NO_DATA) xs)
                   \<lparr>cr_next := (if truthy more then Some (Some (int_to_str (page + 1))) else None)\<rparr>))
       | _ \<Rightarrow> oret (plain_result PROVIDER_UNAVAILABLE ''ZOHO_INVALID_LIST_RESPONSE''))))"

definition READ_RESOURCES :: "(string, string \<times> string \<times> string) dict" where
  "READ_RESOURCES =
     [(''contacts'', (''/contacts'', ''contacts'', ''contact'')), (''accounts'', (''/chartofaccounts'', ''chartofaccounts'', ''account'')),
      (''items'', (''/items'', ''items'', ''item'')), (''taxes'', (''/settings/taxes'', ''taxes'', ''tax''))]"

definition master_object :: "string \<Rightarrow> pyval \<Rightarrow> canonical_object result" where
  "master_object object_type row =
     rbind (get_either (object_type @ ''_id'') ''account_id'' row) (\<lambda>x.
     Inr \<lparr> co_type = object_type, co_provider_id = text_or_empty x, co_values = row, co_version = None \<rparr>)"

definition page_rows :: "pyval list connector_result \<Rightarrow> pyval list" where
  "page_rows page = (case cr_data page of Some rows \<Rightarrow> rows | None \<Rightarrow> [])"

definition list_masters :: "'p zoho_env \<Rightarrow> string \<Rightarrow> string \<Rightarrow> cursor \<Rightarrow> ('p zworld, canonical_object list connector_result) op" where
  "list_masters env installation resource cursor =
     (case map_of READ_RESOURCES resource of
        None \<Rightarrow> oret (plain_result UNSUPPORTED ''ZOHO_MASTER_UNSUPPORTED'')
      | Some (path, key, object_type) \<Rightarrow>
          run_call env installation (\<lambda>client.
            obind (fetch_page env installation client path key cursor []) (\<lambda>page.
            obind (olift (rmap (master_object object_type) (page_rows page))) (\<lambda>objects.
            oret ((data_result (cr_status page) objects)\<lparr>cr_next := cr_next page, cr_reason := cr_reason page\<rparr>)))))"

text \<open>\<open>str.split(":", 1)\<close> into two parts.\<close>

definition split_period :: "string \<Rightarrow> (string \<times> string) option" where
  "split_period p = (if CHR '':'' \<in> set p then Some (takeWhile (\<lambda>c. c \<noteq> CHR '':'') p, tl (dropWhile (\<lambda>c. c \<noteq> CHR '':'') p)) else None)"

definition list_transactions :: "'p zoho_env \<Rightarrow> string \<Rightarrow> string \<Rightarrow> string option \<Rightarrow> cursor
    \<Rightarrow> ('p zworld, canonical_object list connector_result) op" where
  "list_transactions env installation resource period cursor =
     (if resource \<notin> {''purchase_bills'', ''sales_invoices''} then oret (plain_result UNSUPPORTED ''ZOHO_TRANSACTION_UNSUPPORTED'')
      else case split_period (case period of Some p \<Rightarrow> p | None \<Rightarrow> '''') of
        None \<Rightarrow> oret (plain_result INVALID_PAYLOAD ''ZOHO_PERIOD_REQUIRED'')
      | Some (start, finish) \<Rightarrow>
          (let bills = (resource = ''purchase_bills'') in
           run_call env installation (\<lambda>client.
             obind (fetch_page env installation client (if bills then ''/bills'' else ''/invoices'') (if bills then ''bills'' else ''invoices'')
                      cursor [(''date_start'', VStr start), (''date_end'', VStr finish)]) (\<lambda>page.
             obind (olift (rmap (\<lambda>row. (if bills then map_bill else map_invoice) row (zc_org client)) (page_rows page))) (\<lambda>objects.
             oret ((data_result (cr_status page) objects)\<lparr>cr_next := cr_next page\<rparr>))))))"

definition get_object :: "'p zoho_env \<Rightarrow> string \<Rightarrow> string \<Rightarrow> string \<Rightarrow> ('p zworld, canonical_object connector_result) op" where
  "get_object env installation object_type provider_id =
     (if object_type \<notin> {''purchase_bill'', ''sales_invoice''} then oret (plain_result UNSUPPORTED ''ZOHO_OBJECT_UNSUPPORTED'')
      else
        (let bill = (object_type = ''purchase_bill'') in
         run_call env installation (\<lambda>client.
           obind (request env installation client GET ((if bill then ''/bills'' else ''/invoices'') @ ''/'' @ provider_id) [] None) (\<lambda>response.
           obind (olift (py_get_or response (if bill then ''bill'' else ''invoice'') (VDict []))) (\<lambda>payload.
           obind (olift ((if bill then map_bill else map_invoice) payload (zc_org client))) (\<lambda>ob. oret (data_result SUCCESS ob)))))))"

section \<open>Writing\<close>

definition prepare_with :: "(pyval \<times> string) result \<Rightarrow> string \<Rightarrow> (pyval \<times> string) connector_result result" where
  "prepare_with built reason =
     (case built of
        Inr p \<Rightarrow> Inr (data_result SUCCESS p)
      | Inl e \<Rightarrow> if is_value_error e then Inr (plain_result INVALID_PAYLOAD reason) else Inl e)"

definition prepare_write :: "string \<Rightarrow> pyval \<Rightarrow> (pyval \<times> string) connector_result result" where
  "prepare_write operation payload =
     (if operation = ''zoho.write.sales_invoice.create'' then prepare_with (build_sales_invoice payload) ''ZOHO_SALES_INVOICE_INVALID''
      else if operation \<noteq> ''zoho.write.purchase_bill.create'' then Inr (plain_result UNSUPPORTED ''ZOHO_WRITE_UNCERTIFIED'')
      else prepare_with (build_purchase_bill payload) ''ZOHO_BILL_INVALID'')"

text \<open>\<open>len(candidates)\<close> and \<open>candidates[0]\<close>.\<close>

fun py_len :: "pyval \<Rightarrow> nat result" where
  "py_len (VList xs) = Inr (length xs)"
| "py_len (VDict kvs) = Inr (length kvs)"
| "py_len (VStr s) = Inr (length s)"
| "py_len _ = Inl TypeError"

fun first_of :: "pyval \<Rightarrow> pyval result" where
  "first_of (VList (x # xs)) = Inr x"
| "first_of (VStr (c # cs)) = Inr (VStr [c])"
| "first_of (VDict kvs) = Inl (KeyError ''0'')"
| "first_of _ = Inl IndexError"

text \<open>\<open>except (ZohoError, httpx.TransportError)\<close>.\<close>

fun zoho_failure :: "pyexn \<Rightarrow> bool" where
  "zoho_failure (ZohoError st reason message retry) = True"
| "zoho_failure TransportError = True"
| "zoho_failure e = False"

text \<open>What a search for an earlier attempt finds: the object if it is the only candidate and agrees, a review otherwise.\<close>

definition recovered :: "string \<Rightarrow> (string \<times> pyval) list \<Rightarrow> canonical_object connector_result \<Rightarrow> canonical_object connector_result" where
  "recovered reason mismatches found =
     (if mismatches = [] then found
      else connector_result_of RS_NEEDS_REVIEW (cr_data found) reason [(''mismatches'', VDict mismatches)])"

definition ambiguous :: "string \<Rightarrow> nat \<Rightarrow> canonical_object connector_result" where
  "ambiguous reason n =
     connector_result_of (if n = 0 then AMBIGUOUS_RESULT else RS_NEEDS_REVIEW) None reason [(''candidate_count'', VInt (int n))]"

definition recover_params :: "pyval \<Rightarrow> (string, pyval) dict result" where
  "recover_params payload =
     rbind (py_get payload ''reference_number'') (\<lambda>ref.
     if truthy ref then Inr [(''reference_number'', ref)] else rbind (py_get payload ''bill_number'') (\<lambda>n. Inr [(''bill_number'', n)]))"

definition recover_ambiguous :: "'p zoho_env \<Rightarrow> string \<Rightarrow> pyval \<Rightarrow> ('p zworld, canonical_object connector_result) op" where
  "recover_ambiguous env installation payload =
     otry
       (obind (connector_client env installation) (\<lambda>client.
        obind (olift (recover_params payload)) (\<lambda>params.
        obind (request env installation client GET ''/bills'' params None) (\<lambda>response.
        obind (olift (py_get_or response ''bills'' (VList []))) (\<lambda>candidates.
        obind (olift (py_len candidates)) (\<lambda>n.
        if n = 1 then
          obind (olift (rbind (first_of candidates) (\<lambda>c. py_index c ''bill_id''))) (\<lambda>bid.
          obind (get_object env installation ''purchase_bill'' (py_str bid)) (\<lambda>found.
          case cr_data found of
            Some ob \<Rightarrow>
              if cr_status found = SUCCESS
              then obind (olift (compare_bill payload ob (VStr (zc_org client)))) (\<lambda>mismatches.
                   oret (recovered ''ZOHO_AMBIGUOUS_CANDIDATE_MISMATCH'' mismatches found))
              else oret (ambiguous ''ZOHO_AMBIGUOUS_CREATE'' n)
          | None \<Rightarrow> oret (ambiguous ''ZOHO_AMBIGUOUS_CREATE'' n)))
        else oret (ambiguous ''ZOHO_AMBIGUOUS_CREATE'' n)))))))
       (\<lambda>e. if zoho_failure e then oret (plain_result AMBIGUOUS_RESULT ''ZOHO_AMBIGUOUS_CREATE'') else oraise e)"

definition recover_sale :: "'p zoho_env \<Rightarrow> string \<Rightarrow> pyval \<Rightarrow> ('p zworld, canonical_object connector_result) op" where
  "recover_sale env installation payload =
     otry
       (obind (connector_client env installation) (\<lambda>client.
        obind (olift (py_index payload ''invoice_number'')) (\<lambda>number.
        obind (request env installation client GET ''/invoices'' [(''invoice_number'', number)] None) (\<lambda>response.
        obind (olift (py_get_or response ''invoices'' (VList []))) (\<lambda>candidates.
        obind (olift (py_len candidates)) (\<lambda>n.
        if n = 1 then
          obind (olift (rbind (first_of candidates) (\<lambda>c. py_index c ''invoice_id''))) (\<lambda>iid.
          obind (get_object env installation ''sales_invoice'' (py_str iid)) (\<lambda>found.
          case cr_data found of
            Some ob \<Rightarrow>
              if cr_status found = SUCCESS
              then obind (olift (compare_sales_invoice payload ob (VStr (zc_org client)))) (\<lambda>mismatches.
                   oret (recovered ''ZOHO_SALES_CANDIDATE_MISMATCH'' mismatches found))
              else oret (ambiguous ''ZOHO_AMBIGUOUS_SALES_CREATE'' n)
          | None \<Rightarrow> oret (ambiguous ''ZOHO_AMBIGUOUS_SALES_CREATE'' n)))
        else oret (ambiguous ''ZOHO_AMBIGUOUS_SALES_CREATE'' n)))))))
       (\<lambda>e. if zoho_failure e then oret (plain_result AMBIGUOUS_RESULT ''ZOHO_AMBIGUOUS_SALES_CREATE'') else oraise e)"

text \<open>The one create request, after the search found nothing.\<close>

definition create_bill :: "'p zoho_env \<Rightarrow> string \<Rightarrow> pyval \<Rightarrow> string \<Rightarrow> ('p zworld, canonical_object connector_result) op" where
  "create_bill env installation payload hash =
     obind (connector_client env installation) (\<lambda>client.
     obind (request env installation client POST ''/bills'' [] (Some payload)) (\<lambda>response.
     obind (olift (py_get_or response ''bill'' (VDict []))) (\<lambda>created.
     obind (olift (py_get created ''bill_id'')) (\<lambda>bid.
     if \<not> truthy bid then oret (plain_result AMBIGUOUS_RESULT ''ZOHO_CREATE_MISSING_ID'')
     else obind (olift (map_bill created (zc_org client))) (\<lambda>ob.
          oret (connector_result_of SUCCESS (Some ob) '''' [(''request_hash'', VStr hash)]))))))"

definition create_sale :: "'p zoho_env \<Rightarrow> string \<Rightarrow> pyval \<Rightarrow> string \<Rightarrow> ('p zworld, canonical_object connector_result) op" where
  "create_sale env installation payload hash =
     obind (connector_client env installation) (\<lambda>client.
     obind (request env installation client POST ''/invoices'' [] (Some payload)) (\<lambda>response.
     obind (olift (py_get_or response ''invoice'' (VDict []))) (\<lambda>created.
     obind (olift (py_get created ''invoice_id'')) (\<lambda>iid.
     if \<not> truthy iid then oret (plain_result AMBIGUOUS_RESULT ''ZOHO_SALES_CREATE_MISSING_ID'')
     else obind (olift (map_invoice created (zc_org client))) (\<lambda>ob.
          oret (connector_result_of SUCCESS (Some ob) '''' [(''request_hash'', VStr hash)]))))))"

definition after_create :: "('p zworld, canonical_object connector_result) op \<Rightarrow> ('p zworld, canonical_object connector_result) op
    \<Rightarrow> ('p zworld, canonical_object connector_result) op" where
  "after_create create recover =
     otry create (\<lambda>e. case e of
         ZohoError st reason message retry \<Rightarrow> if st = PROVIDER_UNAVAILABLE then recover else oret (error_result st reason retry)
       | TransportError \<Rightarrow> recover
       | _ \<Rightarrow> oraise e)"

text \<open>An earlier attempt's outcome ends the execution; only a search that found no candidate goes on to create.\<close>

definition unless_existing :: "('p zworld, canonical_object connector_result) op \<Rightarrow> ('p zworld, canonical_object connector_result) op
    \<Rightarrow> ('p zworld, canonical_object connector_result) op" where
  "unless_existing recover create =
     obind recover (\<lambda>existing.
     if cr_status existing \<in> {SUCCESS, RS_NEEDS_REVIEW} then oret existing
     else if map_of (cr_details existing) ''candidate_count'' \<noteq> Some (VInt 0) then oret existing
     else create)"

definition execute_sale :: "'p zoho_env \<Rightarrow> string \<Rightarrow> approved_action \<Rightarrow> ('p zworld, canonical_object connector_result) op" where
  "execute_sale env installation act =
     obind (olift (compute_payload_hash (aa_payload act))) (\<lambda>h.
     if h \<noteq> aa_payload_hash act then oret (plain_result INVALID_PAYLOAD ''APPROVED_PAYLOAD_HASH_MISMATCH'')
     else obind (olift (prepare_with (build_sales_invoice (aa_payload act)) ''ZOHO_SALES_INVOICE_INVALID'')) (\<lambda>prepared.
     case cr_data prepared of
       None \<Rightarrow> oret (plain_result INVALID_PAYLOAD ''ZOHO_SALES_INVOICE_INVALID'')
     | Some (payload, hash) \<Rightarrow>
         unless_existing (recover_sale env installation payload)
           (after_create (create_sale env installation payload hash) (recover_sale env installation payload))))"

definition execute_write :: "'p zoho_env \<Rightarrow> string \<Rightarrow> approved_action \<Rightarrow> ('p zworld, canonical_object connector_result) op" where
  "execute_write env installation act =
     (if aa_operation act = ''zoho.write.sales_invoice.create'' then execute_sale env installation act
      else if aa_operation act \<noteq> ''zoho.write.purchase_bill.create'' then oret (plain_result UNSUPPORTED ''ZOHO_WRITE_UNCERTIFIED'')
      else
        obind (olift (compute_payload_hash (aa_payload act))) (\<lambda>h.
        if h \<noteq> aa_payload_hash act then oret (plain_result INVALID_PAYLOAD ''APPROVED_PAYLOAD_HASH_MISMATCH'')
        else obind (olift (prepare_write (aa_operation act) (aa_payload act))) (\<lambda>prepared.
        case cr_data prepared of
          None \<Rightarrow> oret (plain_result (cr_status prepared) (cr_reason prepared))
        | Some (payload, hash) \<Rightarrow>
            unless_existing (recover_ambiguous env installation payload)
              (after_create (create_bill env installation payload hash) (recover_ambiguous env installation payload)))))"

definition readback_result :: "canonical_object \<Rightarrow> (string \<times> pyval) list \<Rightarrow> pyval connector_result" where
  "readback_result ob mismatches =
     connector_result_of (if mismatches \<noteq> [] then RS_NEEDS_REVIEW else SUCCESS) (Some (co_values ob)) ''''
       [(''mismatches'', VDict mismatches), (''provider_version'', opt_str (co_version ob))]"

definition verify_write :: "'p zoho_env \<Rightarrow> string \<Rightarrow> canonical_object \<Rightarrow> pyval \<Rightarrow> ('p zworld, pyval connector_result) op" where
  "verify_write env installation ob approved =
     (let sale = (co_type ob = ''sales_invoice'') in
      obind (get_object env installation (if sale then ''sales_invoice'' else ''purchase_bill'') (co_provider_id ob)) (\<lambda>readback.
      case cr_data readback of
        None \<Rightarrow> oret (plain_result (cr_status readback) (cr_reason readback))
      | Some found \<Rightarrow>
          if cr_status readback \<noteq> SUCCESS then oret (plain_result (cr_status readback) (cr_reason readback))
          else
            obind (olift (if sale then Inr () else rbind (build_purchase_bill approved) (\<lambda>_. Inr ()))) (\<lambda>_.
            obind (olift (py_index approved ''organization_id'')) (\<lambda>org.
            obind (olift ((if sale then compare_sales_invoice else compare_bill) approved found org)) (\<lambda>mismatches.
            oret (readback_result found mismatches))))))"

section \<open>Capabilities of a grant\<close>

definition REQUIRED_SCOPES :: "(string, string) dict" where
  "REQUIRED_SCOPES =
     [(''zoho.read.organizations'', ''ZohoBooks.settings.READ''), (''zoho.read.contacts'', ''ZohoBooks.contacts.READ''),
      (''zoho.read.accounts'', ''ZohoBooks.settings.READ''), (''zoho.read.items'', ''ZohoBooks.settings.READ''),
      (''zoho.read.taxes'', ''ZohoBooks.settings.READ''), (''zoho.read.purchase_bills'', ''ZohoBooks.bills.READ''),
      (''zoho.read.sales_invoices'', ''ZohoBooks.invoices.READ''),
      (''zoho.write.purchase_bill.create'', ''ZohoBooks.bills.CREATE''), (''zoho.verify.purchase_bill'', ''ZohoBooks.bills.READ''),
      (''zoho.write.sales_invoice.create'', ''ZohoBooks.invoices.CREATE''), (''zoho.verify.sales_invoice'', ''ZohoBooks.invoices.READ'')]"

definition capabilities_for_scopes :: "string list \<Rightarrow> string list" where
  "capabilities_for_scopes granted =
     map fst (filter (\<lambda>(k, scope). scope \<in> set granted) REQUIRED_SCOPES)
     @ (if {''ZohoBooks.bills.READ'', ''ZohoBooks.invoices.READ''} \<subseteq> set granted then [''zoho.read.object''] else [])"

section \<open>Invariants of the reads\<close>

text \<open>What holds of the service's state and of the requests sent, and every \<open>GET\<close> and token refresh keeps.\<close>

definition holds :: "('p \<Rightarrow> (http_request \<times> http_answer) list \<Rightarrow> bool) \<Rightarrow> 'p zworld \<Rightarrow> bool" where
  "holds J s = J (zw_provider s) (zw_sent s)"

lemma holds_update [simp]:
  "holds J (s\<lparr>zw_budget := b\<rparr>) = holds J s" "holds J (s\<lparr>zw_row := r\<rparr>) = holds J s"
  by (simp_all add: holds_def)

lemma keeps_case_dict: "(\<And>kvs. keeps I (f kvs)) \<Longrightarrow> keeps I m \<Longrightarrow> keeps I (case v of VDict kvs \<Rightarrow> f kvs | _ \<Rightarrow> m)"
  by (cases v) simp_all

lemma keeps_case_list_value: "(\<And>xs. keeps I (f xs)) \<Longrightarrow> keeps I m \<Longrightarrow> keeps I (case v of VList xs \<Rightarrow> f xs | _ \<Rightarrow> m)"
  by (cases v) simp_all

locale provider_invariant =
  fixes env :: "'p zoho_env" and J :: "'p \<Rightarrow> (http_request \<times> http_answer) list \<Rightarrow> bool"
  assumes token_step: "J p sent \<Longrightarrow> J (snd (ze_token env url t p)) sent"
    and get_step: "J p sent \<Longrightarrow> rq_method rq = GET \<Longrightarrow> ze_http env rq p = (a, p') \<Longrightarrow> J p' (sent @ [(rq, a)])"
begin

lemma keeps_load: "keeps (holds J) (load env installation)"
  unfolding load_def by (intro keeps_intros)

lemma keeps_refresh: "keeps (holds J) (refresh_access_token env t dc)"
proof -
  have "keeps (holds J) (\<lambda>s. case ze_token env u t (zw_provider s) of (r, p') \<Rightarrow> (r, s\<lparr>zw_provider := p'\<rparr>))" for u
    using token_step by (auto simp: keeps_def holds_def split: prod.split) (metis snd_conv)
  then show ?thesis unfolding refresh_access_token_def by (intro keeps_intros)
qed

lemma keeps_access_token: "keeps (holds J) (access_token env installation)"
  unfolding access_token_def
  by (intro keeps_intros keeps_load keeps_refresh keeps_case_dict keeps_omod) simp

lemma keeps_credential_client: "keeps (holds J) (credential_client env installation)"
  unfolding credential_client_def by (intro keeps_intros keeps_load keeps_access_token)

lemma keeps_connector_client: "keeps (holds J) (connector_client env installation)"
  unfolding connector_client_def by (intro keeps_intros keeps_load keeps_credential_client keeps_omod) simp

lemma keeps_send_get: "rq_method rq = GET \<Longrightarrow> keeps (holds J) (send env rq)"
  using get_step by (auto simp: keeps_def holds_def send_def split: prod.split)

lemma keeps_get: "keeps (holds J) (request env installation client GET path params body)"
  unfolding request_def authenticated_def by (intro keeps_intros keeps_send_get keeps_access_token) simp_all

lemma keeps_run_call:
  assumes "\<And>client. keeps (holds J) (operation client)"
  shows "keeps (holds J) (run_call env installation operation)"
  unfolding run_call_def
proof (intro keeps_intros keeps_connector_client assms)
  fix e :: pyexn
  show "keeps (holds J) (case e of
          ZohoError st reason message retry \<Rightarrow>
            othen (owhen (st = RATE_LIMITED) (block_for (case retry of Some n \<Rightarrow> if n = 0 then 60 else n | None \<Rightarrow> 60)))
              (oret (error_result st reason retry))
        | TransportError \<Rightarrow> oret (plain_result PROVIDER_UNAVAILABLE ''ZOHO_CONNECTION_FAILED'')
        | _ \<Rightarrow> oraise e)"
    by (cases e) (auto simp: block_for_def intro!: keeps_intros keeps_omod)
qed

lemma keeps_get_object: "keeps (holds J) (get_object env installation object_type provider_id)"
  unfolding get_object_def Let_def by (intro keeps_intros keeps_run_call keeps_get)

lemma keeps_recover_ambiguous: "keeps (holds J) (recover_ambiguous env installation payload)"
  unfolding recover_ambiguous_def
  by (intro keeps_intros keeps_connector_client keeps_get keeps_get_object)

lemma keeps_recover_sale: "keeps (holds J) (recover_sale env installation payload)"
  unfolding recover_sale_def
  by (intro keeps_intros keeps_connector_client keeps_get keeps_get_object)

lemma keeps_verify_write: "keeps (holds J) (verify_write env installation ob approved)"
  unfolding verify_write_def Let_def by (intro keeps_intros keeps_get_object)

lemma keeps_fetch_page: "keeps (holds J) (fetch_page env installation client path key cursor params)"
  unfolding fetch_page_def by (intro keeps_intros keeps_get keeps_case_list_value)

lemma keeps_list_transactions: "keeps (holds J) (list_transactions env installation resource period cursor)"
  unfolding list_transactions_def Let_def by (intro keeps_intros keeps_run_call keeps_fetch_page)

lemma keeps_list_masters: "keeps (holds J) (list_masters env installation resource cursor)"
  unfolding list_masters_def by (intro keeps_intros keeps_run_call keeps_fetch_page)

end

section \<open>At most one create request\<close>

definition is_get :: "http_request \<times> http_answer \<Rightarrow> bool" where "is_get x = (rq_method (fst x) = GET)"

definition gets_after :: "(http_request \<times> http_answer) list \<Rightarrow> 'p \<Rightarrow> (http_request \<times> http_answer) list \<Rightarrow> bool" where
  "gets_after base p sent = (\<exists>new. sent = base @ new \<and> list_all is_get new)"

interpretation reads: provider_invariant env "gets_after base" for env base
proof
  fix p p' :: 'a and sent :: "(http_request \<times> http_answer) list" and rq :: http_request and a
  assume "gets_after base p sent" "rq_method rq = GET"
  then obtain new where "sent = base @ new" "list_all is_get (new @ [(rq, a)])" by (auto simp: gets_after_def is_get_def)
  then show "gets_after base p' (sent @ [(rq, a)])" unfolding gets_after_def by (metis append.assoc)
qed (simp add: gets_after_def)

text \<open>The requests an operation sends, when each of its parts keeps \<open>gets_after\<close>.\<close>

lemma reads_only:
  assumes "\<And>base. keeps (holds (gets_after base)) m" and "m s = (r, s')"
  shows "\<exists>new. zw_sent s' = zw_sent s @ new \<and> list_all is_get new"
proof -
  have "holds (gets_after (zw_sent s)) s" by (simp add: holds_def gets_after_def)
  then have "holds (gets_after (zw_sent s)) s'" using keepsD [OF assms(1) _ assms(2)] by blast
  then show ?thesis by (simp add: holds_def gets_after_def)
qed

text \<open>Renewing a token asks the token endpoint only.\<close>

lemma keeps_sent_access_token: "keeps (\<lambda>s. zw_sent s = X) (access_token env installation)"
proof -
  have t: "keeps (\<lambda>s. zw_sent s = X) (\<lambda>s. case ze_token env u t (zw_provider s) of (r, p') \<Rightarrow> (r, s\<lparr>zw_provider := p'\<rparr>))" for u t
    by (auto simp: keeps_def split: prod.split)
  show ?thesis unfolding access_token_def load_def refresh_access_token_def
    by (intro keeps_intros t keeps_case_dict keeps_omod) simp
qed

text \<open>A create is one \<open>POST\<close>, or two of which the first was refused as unauthenticated.\<close>

definition is_post :: "string \<Rightarrow> pyval \<Rightarrow> http_request \<times> http_answer \<Rightarrow> bool" where
  "is_post path payload x = (rq_method (fst x) = POST \<and> rq_path (fst x) = path \<and> rq_body (fst x) = Some payload)"

definition one_create :: "string \<Rightarrow> pyval \<Rightarrow> (http_request \<times> http_answer) list \<Rightarrow> bool" where
  "one_create path payload posts =
     ((\<exists>x. posts = [x] \<and> is_post path payload x)
      \<or> (\<exists>x y. posts = [x, y] \<and> is_post path payload x \<and> is_post path payload y \<and> snd x \<noteq> Broken \<and> an_status (snd x) = 401))"

lemma send_step: "send env rq s = (r, s') \<Longrightarrow>
    \<exists>a. ze_http env rq (zw_provider s) = (a, zw_provider s') \<and> zw_sent s' = zw_sent s @ [(rq, a)] \<and> r = (if a = Broken then Inl TransportError else Inr a)"
  by (cases "ze_http env rq (zw_provider s)") (auto simp: send_def)

text \<open>What one call does: one request, or a refused one, a token renewal and perhaps a second request.\<close>

lemma payload_of_Broken [simp]: "payload_of Broken = Inl TransportError"
  by (simp add: payload_of_def)

lemma authenticatedE:
  assumes "authenticated env installation rq s = (r, s')"
  obtains (single) a where "ze_http env rq (zw_provider s) = (a, zw_provider s')" "zw_sent s' = zw_sent s @ [(rq, a)]"
      "a = Broken \<or> an_status a \<noteq> 401" "r = payload_of a"
  | (refused) a e s1 where "send env rq s = (Inr a, s1)" "a \<noteq> Broken" "an_status a = 401" "access_token env installation s1 = (Inl e, s')" "r = Inl e"
  | (twice) a b token s1 s2 where "send env rq s = (Inr a, s1)" "a \<noteq> Broken" "an_status a = 401"
      "access_token env installation s1 = (Inr token, s2)" "ze_http env (rq\<lparr>rq_token := token\<rparr>) (zw_provider s2) = (b, zw_provider s')"
      "zw_sent s' = zw_sent s2 @ [(rq\<lparr>rq_token := token\<rparr>, b)]" "r = payload_of b"
proof -
  note run = assms [unfolded authenticated_def obind_def olift_def oret_def]
  obtain r1 s1 where 1: "send env rq s = (r1, s1)" by fastforce
  obtain a where a: "ze_http env rq (zw_provider s) = (a, zw_provider s1)" "zw_sent s1 = zw_sent s @ [(rq, a)]"
      "r1 = (if a = Broken then Inl TransportError else Inr a)"
    using send_step [OF 1] by blast
  show thesis
  proof (cases "a = Broken \<or> an_status a \<noteq> 401")
    case True
    then have "s' = s1 \<and> r = payload_of a" using run 1 a(3) by (cases "a = Broken") auto
    then show thesis using single a True by simp
  next
    case False
    then have 2: "send env rq s = (Inr a, s1)" using 1 a(3) by simp
    obtain r2 s2 where 3: "access_token env installation s1 = (r2, s2)" by fastforce
    show thesis
    proof (cases r2)
      case (Inl e)
      then show thesis using refused [OF 2 _ _ _ ] run 2 3 False by simp
    next
      case (Inr token)
      obtain r3 s3 where 4: "send env (rq\<lparr>rq_token := token\<rparr>) s2 = (r3, s3)" by fastforce
      obtain b where b: "ze_http env (rq\<lparr>rq_token := token\<rparr>) (zw_provider s2) = (b, zw_provider s3)"
          "zw_sent s3 = zw_sent s2 @ [(rq\<lparr>rq_token := token\<rparr>, b)]" "r3 = (if b = Broken then Inl TransportError else Inr b)"
        using send_step [OF 4] by blast
      have "s' = s3 \<and> r = payload_of b" using run 2 3 4 Inr False b(3) by (cases "b = Broken") auto
      then show thesis using twice [OF 2] 3 Inr False b by simp
    qed
  qed
qed

lemma request_post:
  assumes "request env installation client POST path params (Some payload) s = (r, s')"
  shows "\<exists>posts. zw_sent s' = zw_sent s @ posts \<and> one_create path payload posts"
  using assms unfolding request_def
proof (cases rule: authenticatedE)
  case (single a)
  then show ?thesis by (auto simp: one_create_def is_post_def)
next
  case (refused a e s1)
  then have "zw_sent s' = zw_sent s1" using keepsD [OF keeps_sent_access_token _ refused(4)] by blast
  then show ?thesis using send_step [OF refused(1)] by (auto simp: one_create_def is_post_def split: if_splits)
next
  case (twice a b token s1 s2)
  then have "zw_sent s2 = zw_sent s1" using keepsD [OF keeps_sent_access_token _ twice(4)] by blast
  then show ?thesis using send_step [OF twice(1)] twice by (auto simp: one_create_def is_post_def split: if_splits)
qed

section \<open>A create follows a search that found nothing\<close>

definition empty_search :: "string \<Rightarrow> http_request \<times> http_answer \<Rightarrow> bool" where
  "empty_search ref x =
     (is_get x \<and> rq_path (fst x) = ''/bills'' \<and> map_of (rq_params (fst x)) ''reference_number'' = Some (VStr ref)
      \<and> (case payload_of (snd x) of
           Inr response \<Rightarrow> rbind (py_get_or response ''bills'' (VList [])) py_len = Inr 0 | Inl e \<Rightarrow> False))"

lemma request_get:
  assumes "request env installation client GET path params body s = (Inr response, s')"
  shows "\<exists>rq a p before. ze_http env rq p = (a, zw_provider s') \<and> zw_sent s' = zw_sent s @ before @ [(rq, a)] \<and> rq_method rq = GET \<and> rq_path rq = path
           \<and> rq_params rq = dict_set ''organization_id'' (VStr (zc_org client)) params \<and> payload_of a = Inr response"
  using assms unfolding request_def
proof (cases rule: authenticatedE)
  case (single a)
  from single(2) have "zw_sent s' = zw_sent s @ [] @ [(\<lparr>rq_method = GET, rq_base = zc_base client, rq_path = path,
      rq_params = dict_set ''organization_id'' (VStr (zc_org client)) params, rq_body = body, rq_token = zc_token client\<rparr>, a)]" by simp
  then show ?thesis using single by (intro exI conjI) (assumption | simp)+
next
  case (refused a e s1)
  then show ?thesis by simp
next
  case (twice a b token s1 s2)
  let ?rq = "\<lparr>rq_method = GET, rq_base = zc_base client, rq_path = path,
      rq_params = dict_set ''organization_id'' (VStr (zc_org client)) params, rq_body = body, rq_token = zc_token client\<rparr>"
  have "zw_sent s2 = zw_sent s @ [(?rq, a)]"
    using keepsD [OF keeps_sent_access_token _ twice(4)] send_step [OF twice(1)] twice(2) by (auto split: if_splits)
  then have "zw_sent s' = zw_sent s @ [(?rq, a)] @ [(?rq\<lparr>rq_token := token\<rparr>, b)]" using twice(6) by simp
  then show ?thesis using twice(5,7) by (intro exI conjI) (assumption | simp)+
qed

lemma olift_run [simp]: "olift r s = (Inr y, s') \<longleftrightarrow> r = Inr y \<and> s = s'"
  by (auto simp: olift_Inr)

lemma oret_run [simp]: "oret x s = (Inr y, s') \<longleftrightarrow> x = y \<and> s = s'"
  by (auto simp: oret_Inr)

definition goes_on :: "canonical_object connector_result \<Rightarrow> bool" where
  "goes_on existing =
     (cr_status existing \<notin> {SUCCESS, RS_NEEDS_REVIEW} \<and> map_of (cr_details existing) ''candidate_count'' = Some (VInt 0))"

lemma not_goes_on: "goes_on (ambiguous reason n) \<longleftrightarrow> n = 0" "cr_status found = SUCCESS \<Longrightarrow> \<not> goes_on (recovered reason mm found)"
    "\<not> goes_on (plain_result st reason)"
  by (auto simp: goes_on_def ambiguous_def recovered_def plain_result_def connector_result_of_def)

lemma recover_nothing_found:
  assumes "recover_ambiguous env installation payload s = (Inr res, s')" and "goes_on res"
    and "py_get payload ''reference_number'' = Inr (VStr r)" and "r \<noteq> ''''"
  shows "\<exists>rq a p before. ze_http env rq p = (a, zw_provider s') \<and> zw_sent s' = zw_sent s @ before @ [(rq, a)] \<and> empty_search r (rq, a)"
  using assms(1) unfolding recover_ambiguous_def
proof (cases rule: otryE)
  case (caught e s1)
  then show ?thesis using assms(2) by (cases "zoho_failure e") (auto simp: not_goes_on oraise_def)
next
  case (fine x)
  have params: "recover_params payload = Inr [(''reference_number'', VStr r)]"
    using assms(3,4) by (simp add: recover_params_def)
  obtain client s1 response c n s2 where
      0: "connector_client env installation s = (Inr client, s1)"
      and 1: "request env installation client GET ''/bills'' [(''reference_number'', VStr r)] None s1 = (Inr response, s2)"
      and 2: "py_get_or response ''bills'' (VList []) = Inr c" "py_len c = Inr n"
      and 3: "n = 0 \<Longrightarrow> s2 = s'" and 4: "n = 0"
    using fine assms(2) by (auto simp: params not_goes_on obind_Inr split: if_splits option.splits)
  obtain rq a p before where "ze_http env rq p = (a, zw_provider s2)" "zw_sent s2 = zw_sent s1 @ before @ [(rq, a)]" "rq_method rq = GET" "rq_path rq = ''/bills''"
      "rq_params rq = dict_set ''organization_id'' (VStr (zc_org client)) [(''reference_number'', VStr r)]" "payload_of a = Inr response"
    using request_get [OF 1] by blast
  moreover obtain first where "zw_sent s1 = zw_sent s @ first" using reads_only [OF reads.keeps_connector_client 0] by blast
  ultimately show ?thesis using 2 3 4
    by (intro exI [of _ rq] exI [of _ a] exI [of _ p] exI [of _ "first @ before"]) (simp add: empty_search_def is_get_def)
qed

text \<open>What a create and what its recovery send.\<close>

definition create_trace :: "string \<Rightarrow> pyval \<Rightarrow> (http_request \<times> http_answer) list \<Rightarrow> bool" where
  "create_trace path payload new =
     (\<exists>pre posts post. new = pre @ posts @ post \<and> list_all is_get pre \<and> list_all is_get post \<and> (posts = [] \<or> one_create path payload posts))"

lemma create_traceI:
  "list_all is_get pre \<Longrightarrow> posts = [] \<or> one_create path payload posts \<Longrightarrow> list_all is_get post \<Longrightarrow> create_trace path payload (pre @ posts @ post)"
  unfolding create_trace_def by blast

lemma create_with_trace:
  assumes "obind (connector_client env installation) (\<lambda>client.
     obind (request env installation client POST path [] (Some payload)) (after client)) s = (r, s')"
    and "\<And>client response t. keeps (\<lambda>s. s = t) (after client response)"
  shows "\<exists>pre posts. zw_sent s' = zw_sent s @ pre @ posts \<and> list_all is_get pre \<and> (posts = [] \<or> one_create path payload posts)"
  using assms(1)
proof (cases rule: obindE)
  case (stop e)
  obtain new where "zw_sent s' = zw_sent s @ new @ []" "list_all is_get new"
    using reads_only [OF reads.keeps_connector_client stop(1)] by auto
  then show ?thesis by blast
next
  case (go client s1)
  obtain pre where pre: "zw_sent s1 = zw_sent s @ pre" "list_all is_get pre"
    using reads_only [OF reads.keeps_connector_client go(1)] by blast
  obtain r1 where "request env installation client POST path [] (Some payload) s1 = (r1, s')"
    using go(2)
  proof (cases rule: obindE)
    case (go response s2)
    then show thesis using that pure_tail [OF assms(2) go(2)] by simp
  qed (use that in blast)
  then obtain posts where "zw_sent s' = zw_sent s1 @ posts" "one_create path payload posts" using request_post by blast
  then show ?thesis using pre by auto
qed

lemma create_bill_trace:
  "create_bill env installation payload hash s = (r, s') \<Longrightarrow>
     \<exists>pre posts. zw_sent s' = zw_sent s @ pre @ posts \<and> list_all is_get pre \<and> (posts = [] \<or> one_create ''/bills'' payload posts)"
  unfolding create_bill_def by (erule create_with_trace) (intro keeps_intros)

lemma create_sale_trace:
  "create_sale env installation payload hash s = (r, s') \<Longrightarrow>
     \<exists>pre posts. zw_sent s' = zw_sent s @ pre @ posts \<and> list_all is_get pre \<and> (posts = [] \<or> one_create ''/invoices'' payload posts)"
  unfolding create_sale_def by (erule create_with_trace) (intro keeps_intros)

lemma after_create_trace:
  assumes "after_create create recover s = (r, s')"
    and "\<And>r s1. create s = (r, s1) \<Longrightarrow>
           \<exists>pre posts. zw_sent s1 = zw_sent s @ pre @ posts \<and> list_all is_get pre \<and> (posts = [] \<or> one_create path payload posts)"
    and "\<And>base. keeps (holds (gets_after base)) recover"
  shows "\<exists>new. zw_sent s' = zw_sent s @ new \<and> create_trace path payload new"
  using assms(1) unfolding after_create_def
proof (cases rule: otryE)
  case (fine x)
  obtain pre posts where "zw_sent s' = zw_sent s @ (pre @ posts @ [])" "list_all is_get pre" "posts = [] \<or> one_create path payload posts"
    using assms(2) [OF fine(1)] by auto
  then show ?thesis using create_traceI [of pre posts path payload "[]"] by auto
next
  case (caught e s1)
  obtain pre posts where p: "zw_sent s1 = zw_sent s @ pre @ posts" "list_all is_get pre" "posts = [] \<or> one_create path payload posts"
    using assms(2) [OF caught(1)] by blast
  have "\<exists>new. zw_sent s' = zw_sent s1 @ new \<and> list_all is_get new"
  proof (cases "\<exists>r'. recover s1 = (r', s')")
    case True
    then show ?thesis using reads_only [OF assms(3)] by blast
  next
    case False
    then have "s' = s1" using caught(2) by (cases e) (auto simp: oraise_def oret_def split: if_splits)
    then show ?thesis by simp
  qed
  then obtain post where "zw_sent s' = zw_sent s1 @ post" "list_all is_get post" by blast
  then have "zw_sent s' = zw_sent s @ (pre @ posts @ post)" using p(1) by simp
  then show ?thesis using p \<open>list_all is_get post\<close> unfolding create_trace_def by blast
qed

lemma bill_creation_trace:
  assumes "after_create (create_bill env installation payload hash) (recover_ambiguous env installation payload) s = (r, s')"
  shows "\<exists>new. zw_sent s' = zw_sent s @ new \<and> create_trace ''/bills'' payload new"
  by (rule after_create_trace [OF assms]) (erule create_bill_trace, rule reads.keeps_recover_ambiguous)

lemma sale_creation_trace:
  assumes "after_create (create_sale env installation payload hash) (recover_sale env installation payload) s = (r, s')"
  shows "\<exists>new. zw_sent s' = zw_sent s @ new \<and> create_trace ''/invoices'' payload new"
  by (rule after_create_trace [OF assms]) (erule create_sale_trace, rule reads.keeps_recover_sale)

lemma create_trace_prepend:
  assumes "list_all is_get pre" and "create_trace path payload new"
  shows "create_trace path payload (pre @ new)"
proof -
  obtain pre' posts post where "new = pre' @ posts @ post" "list_all is_get pre'" "list_all is_get post" "posts = [] \<or> one_create path payload posts"
    using assms(2) unfolding create_trace_def by blast
  then show ?thesis using assms(1) create_traceI [of "pre @ pre'" posts path payload post] by simp
qed

lemma gets_trace: "list_all is_get new \<Longrightarrow> create_trace path payload new"
  using create_traceI [of new "[]" path payload "[]"] by simp

lemma unless_existingE:
  assumes "unless_existing recover create s = (r, s')"
  obtains (same) r0 where "recover s = (r0, s')"
  | (create) existing s1 where "recover s = (Inr existing, s1)" "goes_on existing" "create s1 = (r, s')"
  using assms unfolding unless_existing_def
proof (cases rule: obindE)
  case (go existing s1)
  show thesis
  proof (cases "goes_on existing")
    case True
    then show thesis using create [OF go(1) True] go(2) by (auto simp: goes_on_def)
  next
    case False
    then have "s' = s1" using go(2) by (auto simp: goes_on_def oret_def split: if_splits)
    then show thesis using same go(1) by blast
  qed
qed (use same in blast)

text \<open>Everything an execution does before its recovery and create is pure.\<close>

lemma execute_sale_cases:
  assumes "execute_sale env installation act s = (r, s')"
  obtains (nothing) "s' = s"
  | (runs) payload hash where "build_sales_invoice (aa_payload act) = Inr (payload, hash)"
      "unless_existing (recover_sale env installation payload)
         (after_create (create_sale env installation payload hash) (recover_sale env installation payload)) s = (r, s')"
proof (cases "\<exists>h p. compute_payload_hash (aa_payload act) = Inr h \<and> h = aa_payload_hash act \<and> build_sales_invoice (aa_payload act) = Inr p")
  case True
  then obtain payload hash where p: "compute_payload_hash (aa_payload act) = Inr (aa_payload_hash act)"
      "build_sales_invoice (aa_payload act) = Inr (payload, hash)" by auto
  have "prepare_with (build_sales_invoice (aa_payload act)) reason = Inr (data_result SUCCESS (payload, hash))" for reason
    by (simp add: p prepare_with_def)
  then show thesis using runs [OF p(2)] assms p
    by (simp add: execute_sale_def obind_def olift_def data_result_def connector_result_of_def)
next
  case False
  then have "s' = s" using assms
    by (auto simp: execute_sale_def obind_def olift_def oret_def prepare_with_def plain_result_def connector_result_of_def
        split: sum.splits if_splits)
  then show thesis by (rule nothing)
qed

lemma execute_write_cases:
  assumes "execute_write env installation act s = (r, s')"
  obtains (nothing) "s' = s"
  | (sale) "aa_operation act = ''zoho.write.sales_invoice.create''" "execute_sale env installation act s = (r, s')"
  | (bill) payload hash where "aa_operation act = ''zoho.write.purchase_bill.create''" "build_purchase_bill (aa_payload act) = Inr (payload, hash)"
      "unless_existing (recover_ambiguous env installation payload)
         (after_create (create_bill env installation payload hash) (recover_ambiguous env installation payload)) s = (r, s')"
proof (cases "aa_operation act = ''zoho.write.sales_invoice.create''")
  case True
  then show thesis using sale assms by (simp add: execute_write_def)
next
  case False
  show thesis
  proof (cases "aa_operation act = ''zoho.write.purchase_bill.create'' \<and>
      (\<exists>h p. compute_payload_hash (aa_payload act) = Inr h \<and> h = aa_payload_hash act \<and> build_purchase_bill (aa_payload act) = Inr p)")
    case True
    then obtain payload hash where p: "compute_payload_hash (aa_payload act) = Inr (aa_payload_hash act)"
        "build_purchase_bill (aa_payload act) = Inr (payload, hash)" "aa_operation act = ''zoho.write.purchase_bill.create''" by auto
    have "prepare_write (aa_operation act) (aa_payload act) = Inr (data_result SUCCESS (payload, hash))"
      by (simp add: p prepare_write_def prepare_with_def)
    then show thesis using bill [OF p(3,2)] assms p
      by (simp add: execute_write_def obind_def olift_def data_result_def connector_result_of_def)
  next
    case other: False
    then have "s' = s" using False assms
      by (auto simp: execute_write_def prepare_write_def obind_def olift_def oret_def prepare_with_def plain_result_def connector_result_of_def
          split: sum.splits if_splits)
    then show thesis by (rule nothing)
  qed
qed

text \<open>
  C4. An execution against Zoho sends at most one create: the requests it sends are reads, then nothing or one \<open>POST\<close> (two when
  the first was refused as unauthenticated), then reads. For a purchase bill the \<open>POST\<close> carries the payload built from the
  approved one and comes only after a search for its non-blank reference number that the service answered with no bill.
\<close>

theorem create_after_empty_search:
  assumes "execute_write env installation act s = (r, s')"
  shows "\<exists>pre posts post. zw_sent s' = zw_sent s @ pre @ posts @ post \<and> list_all is_get pre \<and> list_all is_get post
           \<and> (posts = []
              \<or> aa_operation act = ''zoho.write.sales_invoice.create'' \<and> (\<exists>payload. one_create ''/invoices'' payload posts)
              \<or> aa_operation act = ''zoho.write.purchase_bill.create''
                \<and> (\<exists>payload hash ref. build_purchase_bill (aa_payload act) = Inr (payload, hash) \<and> one_create ''/bills'' payload posts
                     \<and> py_get payload ''reference_number'' = Inr (VStr ref) \<and> py_strip ref \<noteq> '''' \<and> list_ex (empty_search ref) pre))"
  using assms
proof (cases rule: execute_write_cases)
  case nothing
  then show ?thesis by (intro exI [of _ "[]"]) simp
next
  case sale
  from sale(2) show ?thesis
  proof (cases rule: execute_sale_cases)
    case nothing
    then show ?thesis by (intro exI [of _ "[]"]) simp
  next
    case (runs payload hash)
    from runs(2) have "\<exists>new. zw_sent s' = zw_sent s @ new \<and> create_trace ''/invoices'' payload new"
    proof (cases rule: unless_existingE)
      case (same r0)
      then show ?thesis using reads_only [OF reads.keeps_recover_sale] gets_trace by metis
    next
      case (create existing s1)
      obtain pre where pre: "zw_sent s1 = zw_sent s @ pre" "list_all is_get pre"
        using reads_only [OF reads.keeps_recover_sale create(1)] by blast
      obtain new where "zw_sent s' = zw_sent s1 @ new" "create_trace ''/invoices'' payload new"
        using sale_creation_trace [OF create(3)] by blast
      then show ?thesis using pre create_trace_prepend by (metis append.assoc)
    qed
    then show ?thesis using sale(1) unfolding create_trace_def by blast
  qed
next
  case (bill payload hash)
  obtain ref where ref: "py_get payload ''reference_number'' = Inr (VStr ref)" "py_strip ref \<noteq> ''''"
    using built_reference [OF bill(2)] by blast
  have ne: "ref \<noteq> ''''" using ref(2) by (auto simp: py_strip_def py_lstrip_def)
  from bill(3) show ?thesis
  proof (cases rule: unless_existingE)
    case (same r0)
    obtain new where "zw_sent s' = zw_sent s @ new @ [] @ []" "list_all is_get new"
      using reads_only [OF reads.keeps_recover_ambiguous same] by auto
    then show ?thesis by (metis list.pred_inject(1))
  next
    case (create existing s1)
    obtain pre where pre: "zw_sent s1 = zw_sent s @ pre" "list_all is_get pre"
      using reads_only [OF reads.keeps_recover_ambiguous create(1)] by blast
    obtain x before where x: "zw_sent s1 = zw_sent s @ before @ [x]" "empty_search ref x"
      using recover_nothing_found [OF create(1,2) ref(1) ne] by blast
    obtain pre' posts post where new: "zw_sent s' = zw_sent s1 @ pre' @ posts @ post" "list_all is_get pre'" "list_all is_get post"
        "posts = [] \<or> one_create ''/bills'' payload posts"
      using bill_creation_trace [OF create(3)] unfolding create_trace_def by blast
    have "list_ex (empty_search ref) pre" using pre(1) x by (auto simp: list_ex_iff)
    then show ?thesis using pre new bill(1,2) ref
      by (intro exI [of _ "pre @ pre'"] exI [of _ posts] exI [of _ post]) auto
  qed
qed

section \<open>One bill per reference number\<close>

text \<open>
  What the service promises of the reference numbers of its bills: reads and token requests change nothing; a \<open>POST\<close> adds at
  most the bill of its body, and none when it is refused as unauthenticated; a successful search by reference number that lists
  no bill means there is none. The promise is a hypothesis on the parameter, not on the code.
\<close>

definition books_service :: "'p zoho_env \<Rightarrow> ('p \<Rightarrow> string list) \<Rightarrow> bool" where
  "books_service env refs =
     ((\<forall>url t p. refs (snd (ze_token env url t p)) = refs p)
      \<and> (\<forall>rq p a p'. ze_http env rq p = (a, p') \<longrightarrow>
           (rq_method rq = GET \<longrightarrow> refs p' = refs p)
           \<and> (rq_method rq = POST \<longrightarrow> refs p' = refs p
                \<or> rq_path rq = ''/bills'' \<and> (a = Broken \<or> an_status a \<noteq> 401)
                  \<and> (\<exists>payload r. rq_body rq = Some payload \<and> py_get payload ''reference_number'' = Inr (VStr r) \<and> refs p' = r # refs p))
           \<and> (\<forall>r. empty_search r (rq, a) \<longrightarrow> r \<notin> set (refs p'))))"

definition refs_in :: "'p zoho_env \<Rightarrow> ('p \<Rightarrow> string list) \<Rightarrow> string list set \<Rightarrow> 'p \<Rightarrow> (http_request \<times> http_answer) list \<Rightarrow> bool" where
  "refs_in env refs X p sent = (books_service env refs \<longrightarrow> refs p \<in> X)"

interpretation frame: provider_invariant env "refs_in env refs X" for env refs X
proof
  fix p p' :: 'a and sent url t
  show "refs_in env refs X p sent \<Longrightarrow> refs_in env refs X (snd (ze_token env url t p)) sent"
    by (simp add: refs_in_def books_service_def)
next
  fix p p' :: 'a and sent :: "(http_request \<times> http_answer) list" and rq :: http_request and a
  assume "refs_in env refs X p sent" "rq_method rq = GET" "ze_http env rq p = (a, p')"
  then show "refs_in env refs X p' (sent @ [(rq, a)])" unfolding refs_in_def books_service_def by metis
qed

text \<open>An operation that reads leaves the references where they are.\<close>

lemma frame_refs:
  assumes "\<And>X. keeps (holds (refs_in env refs X)) m" and "books_service env refs" and "m s = (r, s')"
  shows "refs (zw_provider s') = refs (zw_provider s)"
proof -
  have "holds (refs_in env refs {refs (zw_provider s)}) s" by (simp add: holds_def refs_in_def)
  then have "holds (refs_in env refs {refs (zw_provider s)}) s'" using keepsD [OF assms(1) _ assms(3)] by blast
  then show ?thesis using assms(2) by (simp add: holds_def refs_in_def)
qed

definition at_most_added :: "string option \<Rightarrow> string list \<Rightarrow> string list \<Rightarrow> bool" where
  "at_most_added r old new = (new = old \<or> (\<exists>x. r = Some x \<and> new = x # old))"

definition bill_reference :: "string \<Rightarrow> pyval \<Rightarrow> string option" where
  "bill_reference path payload =
     (if path = ''/bills'' then (case py_get payload ''reference_number'' of Inr (VStr r) \<Rightarrow> Some r | _ \<Rightarrow> None) else None)"

lemma post_step:
  assumes "books_service env refs" and "ze_http env rq p = (a, p')" and "rq_method rq = POST" and "rq_body rq = Some payload"
  shows "at_most_added (bill_reference (rq_path rq) payload) (refs p) (refs p')"
    and "a \<noteq> Broken \<Longrightarrow> an_status a = 401 \<Longrightarrow> refs p' = refs p"
  using assms unfolding books_service_def at_most_added_def bill_reference_def by fastforce+

lemma post_refs:
  assumes "books_service env refs" and "request env installation client POST path params (Some payload) s = (r, s')"
  shows "at_most_added (bill_reference path payload) (refs (zw_provider s)) (refs (zw_provider s'))"
  using assms(2) unfolding request_def
proof (cases rule: authenticatedE)
  case (single a)
  then show ?thesis using post_step(1) [OF assms(1) single(1)] by simp
next
  case (refused a e s1)
  have "refs (zw_provider s1) = refs (zw_provider s)"
    using send_step [OF refused(1)] post_step(2) [OF assms(1)] refused(2,3) by (auto split: if_splits)
  then show ?thesis using frame_refs [OF frame.keeps_access_token assms(1) refused(4)] by (simp add: at_most_added_def)
next
  case (twice a b token s1 s2)
  have "refs (zw_provider s1) = refs (zw_provider s)"
    using send_step [OF twice(1)] post_step(2) [OF assms(1)] twice(2,3) by (auto split: if_splits)
  then have "refs (zw_provider s2) = refs (zw_provider s)" using frame_refs [OF frame.keeps_access_token assms(1) twice(4)] by simp
  then show ?thesis using post_step(1) [OF assms(1) twice(5)] by simp
qed

lemma create_with_refs:
  assumes "books_service env refs"
    and "obind (connector_client env installation) (\<lambda>client.
     obind (request env installation client POST path [] (Some payload)) (after client)) s = (r, s')"
    and "\<And>client response t. keeps (\<lambda>s. s = t) (after client response)"
  shows "at_most_added (bill_reference path payload) (refs (zw_provider s)) (refs (zw_provider s'))"
  using assms(2)
proof (cases rule: obindE)
  case (stop e)
  then show ?thesis using frame_refs [OF frame.keeps_connector_client assms(1) stop(1)] by (simp add: at_most_added_def)
next
  case (go client s1)
  obtain r1 where "request env installation client POST path [] (Some payload) s1 = (r1, s')"
    using go(2)
  proof (cases rule: obindE)
    case (go response s2)
    then show thesis using that pure_tail [OF assms(3) go(2)] by simp
  qed (use that in blast)
  from post_refs [OF assms(1) this] frame_refs [OF frame.keeps_connector_client assms(1) go(1)] show ?thesis by simp
qed

lemma after_create_refs:
  assumes "books_service env refs" and "after_create create recover s = (r, s')"
    and "\<And>r s1. create s = (r, s1) \<Longrightarrow> at_most_added x (refs (zw_provider s)) (refs (zw_provider s1))"
    and "\<And>X. keeps (holds (refs_in env refs X)) recover"
  shows "at_most_added x (refs (zw_provider s)) (refs (zw_provider s'))"
  using assms(2) unfolding after_create_def
proof (cases rule: otryE)
  case (fine y)
  then show ?thesis using assms(3) by blast
next
  case (caught e s1)
  have "refs (zw_provider s') = refs (zw_provider s1)"
  proof (cases "\<exists>r'. recover s1 = (r', s')")
    case True
    then show ?thesis using frame_refs [OF assms(4,1)] by blast
  next
    case False
    then have "s' = s1" using caught(2) by (cases e) (auto simp: oraise_def oret_def split: if_splits)
    then show ?thesis by simp
  qed
  then show ?thesis using assms(3) [OF caught(1)] by simp
qed

lemma bill_creation_refs:
  assumes "books_service env refs" and "after_create (create_bill env installation payload hash) (recover_ambiguous env installation payload) s = (r, s')"
  shows "at_most_added (bill_reference ''/bills'' payload) (refs (zw_provider s)) (refs (zw_provider s'))"
  by (rule after_create_refs [OF assms])
    (unfold create_bill_def, erule create_with_refs [OF assms(1)], intro keeps_intros, rule frame.keeps_recover_ambiguous)

lemma sale_creation_refs:
  assumes "books_service env refs" and "after_create (create_sale env installation payload hash) (recover_sale env installation payload) s = (r, s')"
  shows "refs (zw_provider s') = refs (zw_provider s)"
proof -
  have "at_most_added (bill_reference ''/invoices'' payload) (refs (zw_provider s)) (refs (zw_provider s'))"
    by (rule after_create_refs [OF assms])
      (unfold create_sale_def, erule create_with_refs [OF assms(1)], intro keeps_intros, rule frame.keeps_recover_sale)
  then show ?thesis by (simp add: bill_reference_def at_most_added_def)
qed

text \<open>What happens to the connector's world: executions of approved actions, verifications, listings and look-ups by any worker,
  the clock, and changes of the stored credentials.\<close>

datatype zoho_event =
    Execute approved_action
  | Verify canonical_object pyval
  | ListTransactions string "string option" cursor
  | ListMasters string cursor
  | LookUp string string
  | Wait int
  | Reconnect "cred_row option"

fun zoho_step :: "'p zoho_env \<Rightarrow> string \<Rightarrow> zoho_event \<Rightarrow> 'p zworld \<Rightarrow> 'p zworld" where
  "zoho_step env installation (Execute act) s = snd (execute_write env installation act s)"
| "zoho_step env installation (Verify ob approved) s = snd (verify_write env installation ob approved s)"
| "zoho_step env installation (ListTransactions resource period cursor) s = snd (list_transactions env installation resource period cursor s)"
| "zoho_step env installation (ListMasters resource cursor) s = snd (list_masters env installation resource cursor s)"
| "zoho_step env installation (LookUp object_type provider_id) s = snd (get_object env installation object_type provider_id s)"
| "zoho_step env installation (Wait n) s = s\<lparr>zw_now := zw_now s + n\<rparr>"
| "zoho_step env installation (Reconnect row) s = s\<lparr>zw_row := row\<rparr>"

definition zoho_run :: "'p zoho_env \<Rightarrow> string \<Rightarrow> zoho_event list \<Rightarrow> 'p zworld \<Rightarrow> 'p zworld" where
  "zoho_run env installation steps s = fold (zoho_step env installation) steps s"

lemma execute_write_distinct:
  assumes "books_service env refs" and "distinct (refs (zw_provider s))" and "execute_write env installation act s = (r, s')"
  shows "distinct (refs (zw_provider s'))"
  using assms(3)
proof (cases rule: execute_write_cases)
  case nothing
  then show ?thesis using assms(2) by simp
next
  case sale
  from sale(2) have "refs (zw_provider s') = refs (zw_provider s)"
  proof (cases rule: execute_sale_cases)
    case (runs payload hash)
    from runs(2) show ?thesis
    proof (cases rule: unless_existingE)
      case (same r0)
      then show ?thesis using frame_refs [OF frame.keeps_recover_sale assms(1)] by blast
    next
      case (create existing s1)
      then show ?thesis using frame_refs [OF frame.keeps_recover_sale assms(1) create(1)] sale_creation_refs [OF assms(1) create(3)] by simp
    qed
  qed simp
  then show ?thesis using assms(2) by simp
next
  case (bill payload hash)
  obtain ref where ref: "py_get payload ''reference_number'' = Inr (VStr ref)" "py_strip ref \<noteq> ''''"
    using built_reference [OF bill(2)] by blast
  have ne: "ref \<noteq> ''''" using ref(2) by (auto simp: py_strip_def py_lstrip_def)
  from bill(3) show ?thesis
  proof (cases rule: unless_existingE)
    case (same r0)
    then show ?thesis using frame_refs [OF frame.keeps_recover_ambiguous assms(1) same] assms(2) by simp
  next
    case (create existing s1)
    have s1: "refs (zw_provider s1) = refs (zw_provider s)" using frame_refs [OF frame.keeps_recover_ambiguous assms(1) create(1)] .
    obtain rq a p where "ze_http env rq p = (a, zw_provider s1)" "empty_search ref (rq, a)"
      using recover_nothing_found [OF create(1,2) ref(1) ne] by blast
    then have "ref \<notin> set (refs (zw_provider s1))" using assms(1) unfolding books_service_def by blast
    moreover have "at_most_added (Some ref) (refs (zw_provider s1)) (refs (zw_provider s'))"
      using bill_creation_refs [OF assms(1) create(3)] by (simp add: bill_reference_def ref(1))
    ultimately show ?thesis using s1 assms(2) by (auto simp: at_most_added_def)
  qed
qed

text \<open>
  C3. Against a service that keeps its promise there is never more than one bill per reference number, however often approved
  actions are executed: every interleaving of executions, retries, verifications, listings, clock ticks and reconnections
  leaves the reference numbers of the service's bills distinct.
\<close>

theorem one_bill_per_reference:
  assumes "books_service env refs" and "distinct (refs (zw_provider s))"
  shows "distinct (refs (zw_provider (zoho_run env installation steps s)))"
  using assms(2)
proof (induction steps arbitrary: s)
  case (Cons step steps)
  have "distinct (refs (zw_provider (zoho_step env installation step s)))"
  proof (cases step)
    case (Execute act)
    then show ?thesis using execute_write_distinct [OF assms(1) Cons.prems] by (metis prod.collapse zoho_step.simps(1))
  next
    case (Verify ob approved)
    then show ?thesis using frame_refs [OF frame.keeps_verify_write assms(1)] Cons.prems by (metis prod.collapse zoho_step.simps(2))
  next
    case (ListTransactions resource period cursor)
    then show ?thesis using frame_refs [OF frame.keeps_list_transactions assms(1)] Cons.prems by (metis prod.collapse zoho_step.simps(3))
  next
    case (ListMasters resource cursor)
    then show ?thesis using frame_refs [OF frame.keeps_list_masters assms(1)] Cons.prems by (metis prod.collapse zoho_step.simps(4))
  next
    case (LookUp object_type provider_id)
    then show ?thesis using frame_refs [OF frame.keeps_get_object assms(1)] Cons.prems by (metis prod.collapse zoho_step.simps(5))
  qed (use Cons.prems in simp_all)
  from Cons.IH [OF this] show ?case by (simp add: zoho_run_def)
qed (simp add: zoho_run_def)

text \<open>A service that keeps the promise: its state is the list of its bills' reference numbers.\<close>

definition sample_http :: "http_request \<Rightarrow> string list \<Rightarrow> http_answer \<times> string list" where
  "sample_http rq p =
     (if rq_method rq = POST
      then (Answer 201 0 (Some (VDict [])) None,
            (case rq_body rq of
               Some payload \<Rightarrow> (case bill_reference (rq_path rq) payload of Some r \<Rightarrow> r # p | None \<Rightarrow> p)
             | None \<Rightarrow> p))
      else (Answer 200 0 (Some (VDict [(''bills'', VList (map (\<lambda>r. VDict [(''bill_id'', VStr r)])
              (filter (\<lambda>r. map_of (rq_params rq) ''reference_number'' = Some (VStr r)) p)))])) None, p))"

definition sample_env :: "string list zoho_env" where
  "sample_env =
     \<lparr> ze_http = sample_http, ze_token = (\<lambda>url t p. (Inl TransportError, p)), ze_decrypt = (\<lambda>nonce data aad. Some data),
       ze_encrypt = (\<lambda>aad v. ''''), ze_json = (\<lambda>t. Inr (VDict [(''access_token'', VStr t)])), ze_key_version = ''v1'' \<rparr>"

lemma sample_service: "books_service sample_env (\<lambda>p. p)"
proof -
  have "r \<notin> set p" if "empty_search r (rq, fst (sample_http rq p))" for r rq p
  proof -
    have m: "rq_method rq \<noteq> POST" using that by (auto simp: empty_search_def is_get_def GET_def POST_def)
    then show ?thesis
      using that by (auto simp: empty_search_def sample_http_def payload_of_def MAX_RESPONSE_BYTES_def py_get_def py_get_or_def get_or_def
          code_ok_def filter_empty_conv)
  qed
  moreover have "rq_method rq = GET \<Longrightarrow> snd (sample_http rq p) = p" for rq p by (simp add: sample_http_def GET_def POST_def)
  moreover have "snd (sample_http rq p) = p \<or> rq_path rq = ''/bills'' \<and> (\<exists>payload r. rq_body rq = Some payload
      \<and> py_get payload ''reference_number'' = Inr (VStr r) \<and> snd (sample_http rq p) = r # p)" for rq p
    by (auto simp: sample_http_def bill_reference_def split: option.splits sum.splits pyval.splits if_splits)
  moreover have "fst (sample_http rq p) = Broken \<or> an_status (fst (sample_http rq p)) \<noteq> 401" for rq p
    by (simp add: sample_http_def)
  ultimately have step: "(rq_method rq = GET \<longrightarrow> p' = p)
      \<and> (rq_method rq = POST \<longrightarrow> p' = p \<or> rq_path rq = ''/bills'' \<and> (a = Broken \<or> an_status a \<noteq> 401)
          \<and> (\<exists>payload r. rq_body rq = Some payload \<and> py_get payload ''reference_number'' = Inr (VStr r) \<and> p' = r # p))
      \<and> (\<forall>r. empty_search r (rq, a) \<longrightarrow> r \<notin> set p')" if "sample_http rq p = (a, p')" for rq p a p'
  proof -
    have a: "a = fst (sample_http rq p)" "p' = snd (sample_http rq p)" using that by simp_all
    have "r \<notin> set p'" if "empty_search r (rq, a)" for r
    proof -
      have "p' = p" using that \<open>\<And>rq p. rq_method rq = GET \<Longrightarrow> snd (sample_http rq p) = p\<close> a(2) by (simp add: empty_search_def is_get_def)
      then show ?thesis using that \<open>\<And>r rq p. empty_search r (rq, fst (sample_http rq p)) \<Longrightarrow> r \<notin> set p\<close> a(1) by simp
    qed
    then show ?thesis
      unfolding a using \<open>\<And>rq p. rq_method rq = GET \<Longrightarrow> snd (sample_http rq p) = p\<close>
        \<open>\<And>rq p. snd (sample_http rq p) = p \<or> rq_path rq = ''/bills'' \<and> (\<exists>payload r. rq_body rq = Some payload
           \<and> py_get payload ''reference_number'' = Inr (VStr r) \<and> snd (sample_http rq p) = r # p)\<close>
        \<open>\<And>rq p. fst (sample_http rq p) = Broken \<or> an_status (fst (sample_http rq p)) \<noteq> 401\<close> by blast
  qed
  show ?thesis unfolding books_service_def sample_env_def using step by simp
qed

definition sample_zworld :: "string list zworld" where
  "sample_zworld =
     \<lparr> zw_provider = [''R0''], zw_sent = [],
       zw_row = Some \<lparr> cw_firm = ''f'', cw_configuration = VDict [(''organization_id'', VStr ''o'')], cw_ciphertext = ''0123456789abtoken'',
                       cw_key_version = ''v1'', cw_data_center = None, cw_api_domain = None, cw_scopes = [], cw_expires = Some 100000 \<rparr>,
       zw_budget = None, zw_now = 0 \<rparr>"

lemma one_bill_per_reference_witness:
  "distinct (zw_provider (zoho_run sample_env ''i''
     [Execute \<lparr> aa_operation = ''zoho.write.purchase_bill.create'', aa_payload = sample_bill, aa_payload_hash = '''' \<rparr>, Wait 60] sample_zworld))"
  using one_bill_per_reference [OF sample_service, of sample_zworld] by (simp add: sample_zworld_def)

text \<open>An execution against the sample service, evaluated: the search finds nothing and the bill is created.\<close>

definition sample_client :: zoho_client where
  "sample_client = \<lparr> zc_token = ''token'', zc_org = ''o'', zc_base = ZOHO_API_BASE \<rparr>"

lemma sample_connector_client:
  assumes "zw_row s = zw_row sample_zworld" and "zw_now s = 0" and "zw_budget s = None \<or> bu_blocked (the (zw_budget s)) = None"
  shows "connector_client sample_env ''i'' s = (Inr sample_client, s\<lparr>zw_budget := Some (spend 0 (zw_budget s))\<rparr>)"
  using assms
  by (cases "zw_budget s")
    (auto simp: connector_client_def load_def sample_env_def obind_def othen_def oget_def omod_def olift_def oret_def open_credentials_def
      credential_client_def access_token_def parsed_configuration_def organization_of_def py_get_def py_get_or_def get_or_def
      text_index_def py_index_def spend_def still_blocked_def text_or_empty_def py_or_def sample_zworld_def sample_client_def)

lemma sample_call:
  "request sample_env ''i'' sample_client m path params body s =
     (let rq = \<lparr> rq_method = m, rq_base = ZOHO_API_BASE, rq_path = path, rq_params = dict_set ''organization_id'' (VStr ''o'') params,
                 rq_body = body, rq_token = ''token'' \<rparr>;
          (a, p') = sample_http rq (zw_provider s)
      in (payload_of a, s\<lparr>zw_provider := p', zw_sent := zw_sent s @ [(rq, a)]\<rparr>))"
  by (simp add: request_def authenticated_def sample_client_def send_def sample_env_def sample_http_def obind_def oret_def olift_def Let_def)

lemma sample_recover:
  "\<exists>s1. recover_ambiguous sample_env ''i'' sample_request sample_zworld = (Inr (ambiguous ''ZOHO_AMBIGUOUS_CREATE'' 0), s1)
     \<and> zw_provider s1 = [''R0''] \<and> zw_row s1 = zw_row sample_zworld \<and> zw_now s1 = 0 \<and> bu_blocked (the (zw_budget s1)) = None"
  by (simp add: recover_ambiguous_def otry_def obind_def olift_def oret_def sample_connector_client recover_params_def sample_request_def
      py_get_def py_get_or_def get_or_def sample_call Let_def sample_http_def GET_def POST_def payload_of_def MAX_RESPONSE_BYTES_def code_ok_def
      sample_zworld_def spend_def)

lemma sample_bill_hash: "\<exists>h. compute_payload_hash sample_bill = Inr h"
proof -
  have "json_defined sample_bill" unfolding sample_bill_def
    by (rule json_defined_dict) (auto intro!: json_defined_list json_defined_dict)
  then show ?thesis by (auto simp: json_defined_def compute_payload_hash_def is_ok_def split: sum.splits)
qed

lemma create_after_empty_search_witness:
  "\<exists>h r s'. execute_write sample_env ''i''
       \<lparr> aa_operation = ''zoho.write.purchase_bill.create'', aa_payload = sample_bill, aa_payload_hash = h \<rparr> sample_zworld = (r, s')
     \<and> zw_provider s' = [''R1'', ''R0'']
     \<and> (\<exists>pre posts post. zw_sent s' = pre @ posts @ post \<and> list_all is_get pre \<and> (posts = [] \<or> (\<exists>payload. one_create ''/bills'' payload posts)))"
proof -
  obtain h where h: "compute_payload_hash sample_bill = Inr h" using sample_bill_hash by blast
  obtain k where k: "build_purchase_bill sample_bill = Inr (sample_request, k)" using sample_bill_built by blast
  let ?act = "\<lparr> aa_operation = ''zoho.write.purchase_bill.create'', aa_payload = sample_bill, aa_payload_hash = h \<rparr>"
  obtain s1 where s1: "recover_ambiguous sample_env ''i'' sample_request sample_zworld = (Inr (ambiguous ''ZOHO_AMBIGUOUS_CREATE'' 0), s1)"
      "zw_provider s1 = [''R0'']" "zw_row s1 = zw_row sample_zworld" "zw_now s1 = 0" "bu_blocked (the (zw_budget s1)) = None"
    using sample_recover by blast
  define c where "c = create_bill sample_env ''i'' sample_request k s1"
  have c: "fst c = Inr (plain_result AMBIGUOUS_RESULT ''ZOHO_CREATE_MISSING_ID'')" "zw_provider (snd c) = [''R1'', ''R0'']"
    using s1(2-5) by (simp_all add: c_def create_bill_def obind_def olift_def oret_def sample_connector_client sample_call Let_def sample_http_def
      POST_def payload_of_def MAX_RESPONSE_BYTES_def code_ok_def py_get_def py_get_or_def get_or_def bill_reference_def sample_request_def)
  obtain r s' where e: "execute_write sample_env ''i'' ?act sample_zworld = (r, s')" by fastforce
  have "s' = snd c"
    using e c s1(1)
    by (cases c) (simp add: execute_write_def h k prepare_write_def prepare_with_def obind_def olift_def oret_def data_result_def
        connector_result_of_def unless_existing_def after_create_def otry_def ambiguous_def c_def [symmetric])
  moreover have "\<exists>pre posts post. zw_sent s' = pre @ posts @ post \<and> list_all is_get pre \<and> (posts = [] \<or> (\<exists>payload. one_create ''/bills'' payload posts))"
    using create_after_empty_search [OF e] by (auto simp: sample_zworld_def)
  ultimately show ?thesis using e c(2) by blast
qed

section \<open>The rate budget\<close>

definition cooling_down :: "'p zoho_env \<Rightarrow> string \<Rightarrow> int \<Rightarrow> 'p zworld \<Rightarrow> bool" where
  "cooling_down env installation t s =
     ((case fst (load env installation s) of
         Inr (row, values) \<Rightarrow> is_ok (rbind (parsed_configuration env row) (\<lambda>c. py_get c ''organization_id'')) | Inl e \<Rightarrow> False)
      \<and> (case zw_budget s of Some b \<Rightarrow> bu_blocked b = Some t | None \<Rightarrow> False) \<and> zw_now s < t)"

lemma cooling_client:
  assumes "cooling_down env installation t s"
  shows "connector_client env installation s
         = (Inl (ZohoError RATE_LIMITED ''ZOHO_RATE_BUDGET_BLOCKED'' ''Zoho rate limit is cooling down'' (Some 60)),
            s\<lparr>zw_budget := Some (spend (zw_now s) (zw_budget s))\<rparr>)"
proof -
  obtain row vals b where l: "load env installation s = (Inr (row, vals), s)"
      and c: "is_ok (rbind (parsed_configuration env row) (\<lambda>c. py_get c ''organization_id''))"
      and b: "zw_budget s = Some b" "bu_blocked b = Some t" "zw_now s < t"
    using assms by (auto simp: cooling_down_def load_def obind_def oget_def olift_def oret_def oraise_def split: option.splits sum.splits prod.splits)
  obtain o1 where "rbind (parsed_configuration env row) (\<lambda>c. py_get c ''organization_id'') = Inr o1"
    using c by (auto simp: is_ok_def split: sum.splits)
  then show ?thesis
    using l b by (simp add: connector_client_def obind_def othen_def olift_def omod_def oget_def oraise_def spend_def still_blocked_def)
qed

text \<open>
  A call refused while the rate budget is cooling down sends nothing, and is then treated as if the service itself had
  refused it: the end of the cooling period is set to one minute from now, so that a period the service asked to last longer
  is cut short by the first call that respects it.
\<close>

theorem refused_call_resets_cooldown:
  assumes "cooling_down env installation t s" and "object_type \<in> {''purchase_bill'', ''sales_invoice''}"
  shows "\<exists>r s'. get_object env installation object_type provider_id s = (Inr r, s') \<and> cr_status r = RATE_LIMITED \<and> zw_sent s' = zw_sent s
           \<and> map_option bu_blocked (zw_budget s') = Some (Some (zw_now s + 60))"
proof -
  have "connector_client env installation s
         = (Inl (ZohoError RATE_LIMITED ''ZOHO_RATE_BUDGET_BLOCKED'' ''Zoho rate limit is cooling down'' (Some 60)),
            s\<lparr>zw_budget := Some (spend (zw_now s) (zw_budget s))\<rparr>)" by (rule cooling_client [OF assms(1)])
  then show ?thesis using assms(2)
    by (auto simp: get_object_def Let_def run_call_def otry_def obind_def othen_def owhen_def block_for_def omod_def oret_def error_result_def
        plain_result_def connector_result_of_def)
qed

text \<open>
  A purchase bill executed during the cooling period is reported as an ambiguous result although no request was sent: the
  refusal inside the search for an earlier attempt is swallowed there, so the worker sends the action to manual review instead
  of scheduling the retry a rate limit calls for.
\<close>

theorem cooling_create_is_ambiguous:
  assumes "cooling_down env installation t s" and "aa_operation act = ''zoho.write.purchase_bill.create''"
    and "compute_payload_hash (aa_payload act) = Inr (aa_payload_hash act)" and "build_purchase_bill (aa_payload act) = Inr (payload, hash)"
  shows "\<exists>r s'. execute_write env installation act s = (Inr r, s') \<and> cr_status r = AMBIGUOUS_RESULT \<and> zw_sent s' = zw_sent s"
proof -
  have "connector_client env installation s
         = (Inl (ZohoError RATE_LIMITED ''ZOHO_RATE_BUDGET_BLOCKED'' ''Zoho rate limit is cooling down'' (Some 60)),
            s\<lparr>zw_budget := Some (spend (zw_now s) (zw_budget s))\<rparr>)" by (rule cooling_client [OF assms(1)])
  then have "recover_ambiguous env installation payload s
      = (Inr (plain_result AMBIGUOUS_RESULT ''ZOHO_AMBIGUOUS_CREATE''), s\<lparr>zw_budget := Some (spend (zw_now s) (zw_budget s))\<rparr>)"
    by (simp add: recover_ambiguous_def otry_def obind_def oret_def)
  then show ?thesis
    by (simp add: execute_write_def assms prepare_write_def prepare_with_def obind_def olift_def oret_def data_result_def
        connector_result_of_def unless_existing_def plain_result_def)
qed

lemma sample_cooling:
  "cooling_down sample_env ''i'' 3600 (sample_zworld\<lparr>zw_budget := Some \<lparr> bu_window = 0, bu_used = 1, bu_blocked = Some 3600 \<rparr>\<rparr>)"
  by (simp add: cooling_down_def load_def sample_env_def sample_zworld_def obind_def oget_def olift_def oret_def open_credentials_def
      parsed_configuration_def py_get_def py_get_or_def get_or_def)

lemma refused_call_resets_cooldown_witness:
  "\<exists>s'. map_option bu_blocked (zw_budget s') = Some (Some 60)
     \<and> snd (get_object sample_env ''i'' ''purchase_bill'' ''1''
              (sample_zworld\<lparr>zw_budget := Some \<lparr> bu_window = 0, bu_used = 1, bu_blocked = Some 3600 \<rparr>\<rparr>)) = s'"
  using refused_call_resets_cooldown [OF sample_cooling, of "''purchase_bill''" "''1''"] by (auto simp: sample_zworld_def)

lemma cooling_create_is_ambiguous_witness:
  "\<exists>h r. fst (execute_write sample_env ''i''
       \<lparr> aa_operation = ''zoho.write.purchase_bill.create'', aa_payload = sample_bill, aa_payload_hash = h \<rparr>
       (sample_zworld\<lparr>zw_budget := Some \<lparr> bu_window = 0, bu_used = 1, bu_blocked = Some 3600 \<rparr>\<rparr>)) = Inr r \<and> cr_status r = AMBIGUOUS_RESULT"
proof -
  obtain h where h: "compute_payload_hash sample_bill = Inr h" using sample_bill_hash by blast
  obtain k where k: "build_purchase_bill sample_bill = Inr (sample_request, k)" using sample_bill_built by blast
  have "\<exists>r s'. execute_write sample_env ''i''
       \<lparr> aa_operation = ''zoho.write.purchase_bill.create'', aa_payload = sample_bill, aa_payload_hash = h \<rparr>
       (sample_zworld\<lparr>zw_budget := Some \<lparr> bu_window = 0, bu_used = 1, bu_blocked = Some 3600 \<rparr>\<rparr>) = (Inr r, s') \<and> cr_status r = AMBIGUOUS_RESULT"
    using cooling_create_is_ambiguous [OF sample_cooling, of "\<lparr> aa_operation = ''zoho.write.purchase_bill.create'', aa_payload = sample_bill, aa_payload_hash = h \<rparr>"
        sample_request k] h k by (simp only: approved_action.simps) blast
  then show ?thesis by (metis fst_conv)
qed

end
