(* ===== verification/Gst_Calculation.thy ===== *)
theory Gst_Calculation
  imports Registers
begin

text \<open>
  \<open>core/gst_workpapers/calculation.py\<close>: how verified register rows and the decisions of the 2B reconciliation
  become rows of a GST return, and the totals of its tables. A register row is the dictionary the database
  driver returns. The theory proves where input tax credit is claimed and that no figure of a table comes
  from anywhere but its rows and adjustments.
\<close>

section \<open>Rows of a return\<close>

definition COMPONENTS :: "string list" where
  "COMPONENTS = [''taxable_paise'', ''igst_paise'', ''cgst_paise'', ''sgst_paise'', ''cess_paise'']"

definition INELIGIBLE :: "string list" where
  "INELIGIBLE = [''INELIGIBLE'', ''BLOCKED'', ''17_5'', ''17(5)'']"

definition REVERSAL :: "string list" where
  "REVERSAL = [''REVERSAL'', ''REVERSED'', ''RULE_38'', ''RULE_42'', ''RULE_43'']"

record workpaper_source =
  ws_table :: string
  ws_kind :: string
  ws_id :: string
  ws_version :: string
  ws_amount :: int
  ws_treatment :: string
  ws_details :: "(string, pyval) dict"

record adjustment =
  ad_id :: string
  ad_table :: string
  ad_component :: string
  ad_amount :: int
  ad_reason :: string

definition amounts :: "(string, pyval) dict \<Rightarrow> (string, pyval) dict result" where
  "amounts row = rmap (\<lambda>k. rbind (int_or_zero (get_or row k VNone)) (\<lambda>i. Inr (k, VInt i))) COMPONENTS"

definition text_or :: "(string, pyval) dict \<Rightarrow> string \<Rightarrow> string \<Rightarrow> string" where
  "text_or row k dflt = py_str (py_or (get_or row k VNone) (VStr dflt))"

definition decision_text :: "(string, pyval) dict \<Rightarrow> string" where
  "decision_text row =
     py_join ''|'' (map (\<lambda>k. text_or row k '''') [''match_decision'', ''ims_decision'', ''itc_classification'', ''reverse_charge''])"

definition row_version :: "(string, pyval) dict \<Rightarrow> string \<Rightarrow> string" where
  "row_version row kind =
     (let version = text_or row ''source_version'' ''1''
      in if kind = ''PURCHASE_REGISTER'' then version @ '':'' @ take 12 (sha256_hex (decision_text row)) else version)"

definition carried :: "(string, pyval) dict \<Rightarrow> (string, pyval) dict" where
  "carried row = map (\<lambda>k. (k, get_or row k VNone))
     (filter (\<lambda>k. k \<in> fst ` set row) [''customer_gstin'', ''place_of_supply'', ''reverse_charge'', ''itc_classification'',
                                       ''match_decision'', ''ims_decision'', ''document_type''])"

definition source_of :: "(string, pyval) dict \<Rightarrow> string \<Rightarrow> string \<Rightarrow> string \<Rightarrow> workpaper_source result" where
  "source_of row table kind treatment =
     rbind (py_index (VDict row) ''id'') (\<lambda>i.
     rbind (int_or_zero (get_or row ''taxable_paise'' VNone)) (\<lambda>taxable.
     rbind (amounts row) (\<lambda>am.
       Inr \<lparr> ws_table = table, ws_kind = kind, ws_id = py_str i, ws_version = row_version row kind, ws_amount = taxable,
             ws_treatment = treatment, ws_details = dict_merge am (carried row) \<rparr>)))"

definition ITC_OTHER :: string where "ITC_OTHER = ''4(A)(5) Other ITC''"
definition ITC_RCM :: string where "ITC_RCM = ''4(A)(3) RCM ITC''"
definition ITC_REVERSED :: string where "ITC_REVERSED = ''4(B) ITC reversed''"
definition ITC_INELIGIBLE :: string where "ITC_INELIGIBLE = ''4(D) Ineligible ITC''"

definition OUTWARD :: string where "OUTWARD = ''3.1(a) Outward taxable''"
definition RCM_LIABILITY :: string where "RCM_LIABILITY = ''3.1(d) Reverse charge''"

definition itc_table :: "(string, pyval) dict \<Rightarrow> string \<times> string \<times> string option" where
  "itc_table row =
     (let classification = py_upper (text_or row ''itc_classification'' '''');
          matched = text_or row ''match_decision'' ''''; ims = text_or row ''ims_decision'' '''';
          origin = (if matched \<noteq> '''' then ''IMPORTED'' else ''SYSTEM_CALCULATED'')
      in if list_ex (py_contains classification) REVERSAL then (ITC_REVERSED, ''REVIEWER_ADJUSTED'', None)
         else if list_ex (py_contains classification) INELIGIBLE \<or> matched = ''REJECTED'' \<or> ims = ''REJECT''
           then (ITC_INELIGIBLE, origin, None)
         else if ims = ''PENDING'' \<or> matched \<in> {'''', ''PENDING''} then (ITC_INELIGIBLE, origin, Some ''ITC_DECISION_REQUIRED'')
         else if truthy (get_or row ''reverse_charge'' VNone) then
           (if py_contains classification ''RCM_PAID'' then (ITC_RCM, ''REVIEWER_ADJUSTED'', None)
            else (ITC_INELIGIBLE, ''SYSTEM_CALCULATED'', Some ''RCM_PAYMENT_EVIDENCE_REQUIRED''))
         else (ITC_OTHER, ''IMPORTED'', None))"

definition sale_table :: "(string, pyval) dict \<Rightarrow> string \<Rightarrow> string" where
  "sale_table sale return_type =
     (if return_type = ''GSTR1''
      then (if truthy (get_or sale ''customer_gstin'' VNone) then ''GSTR-1 B2B'' else ''GSTR-1 B2C'')
      else OUTWARD)"

definition purchase_rows :: "(string, pyval) dict \<Rightarrow> (workpaper_source list \<times> (string \<times> string) list) result" where
  "purchase_rows purchase =
     rbind (if truthy (get_or purchase ''reverse_charge'' VNone)
            then rbind (source_of purchase RCM_LIABILITY ''PURCHASE_REGISTER'' ''SYSTEM_CALCULATED'') (\<lambda>r. Inr [r])
            else Inr []) (\<lambda>rcm.
     (case itc_table purchase of (table, treatment, warning) \<Rightarrow>
       rbind (source_of purchase table ''PURCHASE_REGISTER'' treatment) (\<lambda>r.
         Inr (rcm @ [r], case warning of None \<Rightarrow> [] | Some code \<Rightarrow> [(code, ws_id r)]))))"

definition build_source_rows :: "(string, pyval) dict list \<Rightarrow> (string, pyval) dict list \<Rightarrow> string
    \<Rightarrow> (workpaper_source list \<times> (string \<times> string) list) result" where
  "build_source_rows sold bought return_type =
     rbind (rmap (\<lambda>sale. source_of sale (sale_table sale return_type) ''SALES_REGISTER'' ''SYSTEM_CALCULATED'') sold) (\<lambda>rows.
     if return_type = ''GSTR1'' then Inr (rows, [])
     else rbind (rmap purchase_rows bought) (\<lambda>parts.
       Inr (rows @ concat (map fst parts), concat (map snd parts))))"

section \<open>Totals of the tables\<close>

type_synonym table_totals = "(string, (string, int) dict) dict"

definition no_totals :: "(string, int) dict" where "no_totals = map (\<lambda>k. (k, 0)) COMPONENTS"

definition add_total :: "string \<Rightarrow> string \<Rightarrow> int \<Rightarrow> table_totals \<Rightarrow> table_totals" where
  "add_total table k x totals =
     (let row = dict_get totals table no_totals in dict_set table (dict_set k (dict_get row k 0 + x) row) totals)"

definition bump :: "string \<Rightarrow> int \<Rightarrow> (string, int) dict \<Rightarrow> (string, int) dict" where
  "bump table x d = dict_set table (dict_get d table 0 + x) d"

definition add_row :: "workpaper_source \<Rightarrow> table_totals \<times> (string, int) dict \<Rightarrow> (table_totals \<times> (string, int) dict) result" where
  "add_row row acc =
     (let details = (if ws_details row \<noteq> [] then ws_details row else [(''taxable_paise'', VInt (ws_amount row))])
      in rbind (rfold (\<lambda>k t. rbind (int_or_zero (get_or details k VNone)) (\<lambda>i. Inr (add_total (ws_table row) k i t)))
                  COMPONENTS (fst acc)) (\<lambda>totals.
         Inr (totals, bump (ws_table row) (ws_amount row) (snd acc))))"

definition adjusted_table :: "adjustment \<Rightarrow> string" where
  "adjusted_table item = (if ad_table item \<noteq> '''' then ad_table item else ''Adjustments'')"

definition adjusted_component :: "adjustment \<Rightarrow> string" where
  "adjusted_component item = (if ad_component item \<noteq> '''' then ad_component item else ''taxable_paise'')"

definition add_adjustment :: "adjustment \<Rightarrow> table_totals \<times> (string, int) dict \<Rightarrow> (table_totals \<times> (string, int) dict) result" where
  "add_adjustment item acc =
     (if adjusted_component item \<notin> set COMPONENTS
      then Inl (ValueError (''Unsupported GST component: '' @ adjusted_component item))
      else Inr (add_total (adjusted_table item) (adjusted_component item) (ad_amount item) (fst acc),
                bump (adjusted_table item) (ad_amount item) (snd acc)))"

definition summarize_tables :: "workpaper_source list \<Rightarrow> adjustment list \<Rightarrow> table_totals result" where
  "summarize_tables rows adjustments =
     rbind (rfold add_row rows ([], [])) (\<lambda>(totals, source_totals).
     rbind (rfold add_adjustment adjustments (totals, [])) (\<lambda>(totals', adjustment_totals).
       Inr (map (\<lambda>(table, vals).
              (table, dict_merge vals [(''source_total_paise'', dict_get source_totals table 0),
                       (''adjustment_paise'', dict_get adjustment_totals table 0),
                       (''total_paise'', dict_get source_totals table 0 + dict_get adjustment_totals table 0)])) totals')))"

section \<open>Where the totals come from\<close>

definition details_of :: "workpaper_source \<Rightarrow> (string, pyval) dict" where
  "details_of row = (if ws_details row \<noteq> [] then ws_details row else [(''taxable_paise'', VInt (ws_amount row))])"

definition component_of :: "string \<Rightarrow> workpaper_source \<Rightarrow> int" where
  "component_of k row = (case int_or_zero (get_or (details_of row) k VNone) of Inl _ \<Rightarrow> 0 | Inr i \<Rightarrow> i)"

definition entry :: "table_totals \<Rightarrow> string \<Rightarrow> string \<Rightarrow> int" where
  "entry totals table k = dict_get (dict_get totals table no_totals) k 0"

lemma rfold_sum:
  fixes h :: "'s \<Rightarrow> int"
  assumes "rfold f xs s = Inr s'" and "\<And>x s s'. x \<in> set xs \<Longrightarrow> f x s = Inr s' \<Longrightarrow> h s' = h s + g x"
  shows "h s' = h s + sum_list (map g xs)"
  using assms
proof (induction xs arbitrary: s)
  case (Cons x xs)
  then obtain s1 where s1: "f x s = Inr s1" "rfold f xs s1 = Inr s'" by (auto simp: rbind_eq_Inr)
  then have "h s' = h s1 + sum_list (map g xs)" using Cons by (metis list.set_intros(2))
  then show ?case using s1 Cons.prems(2) [of x s s1] by simp
qed simp

lemma rfold_keys:
  assumes "rfold f xs s = Inr s'" and "\<And>x s s'. x \<in> set xs \<Longrightarrow> f x s = Inr s' \<Longrightarrow> h s' = h s \<union> g x"
  shows "h s' = h s \<union> (\<Union>x\<in>set xs. g x)"
  using assms
proof (induction xs arbitrary: s)
  case (Cons x xs)
  then obtain s1 where s1: "f x s = Inr s1" "rfold f xs s1 = Inr s'" by (auto simp: rbind_eq_Inr)
  then have "h s' = h s1 \<union> (\<Union>x\<in>set xs. g x)" using Cons by (metis list.set_intros(2))
  then show ?case using s1 Cons.prems(2) [of x s s1] by auto
qed simp

lemma dict_get_no_totals [simp]: "dict_get no_totals k 0 = 0"
  by (simp add: no_totals_def COMPONENTS_def dict_get_def)

lemma entry_add_total: "entry (add_total t k x totals) t' k' = entry totals t' k' + (if t' = t \<and> k' = k then x else 0)"
  by (simp add: entry_def add_total_def Let_def dict_get_set)

lemma keys_add_total: "fst ` set (add_total t k x totals) = insert t (fst ` set totals)"
proof -
  have "set (map fst (add_total t k x totals)) = insert t (set (map fst totals))"
    by (auto simp: add_total_def Let_def keys_dict_set)
  then show ?thesis by simp
qed

lemma distinct_add_total: "distinct (map fst totals) \<Longrightarrow> distinct (map fst (add_total t k x totals))"
  by (simp add: add_total_def Let_def distinct_dict_set)

lemma bump_get: "dict_get (bump t x d) t' 0 = dict_get d t' 0 + (if t' = t then x else 0)"
  by (simp add: bump_def dict_get_set)

text \<open>One row adds its own components to its own table, and one adjustment its amount.\<close>

lemma add_row_effect:
  assumes "add_row row acc = Inr acc'" and "k \<in> set COMPONENTS"
  shows "entry (fst acc') t k = entry (fst acc) t k + (if t = ws_table row then component_of k row else 0)"
    and "dict_get (snd acc') t 0 = dict_get (snd acc) t 0 + (if t = ws_table row then ws_amount row else 0)"
    and "fst ` set (fst acc') = insert (ws_table row) (fst ` set (fst acc))"
    and "distinct (map fst (fst acc)) \<Longrightarrow> distinct (map fst (fst acc'))"
proof -
  let ?f = "\<lambda>k t. rbind (int_or_zero (get_or (details_of row) k VNone)) (\<lambda>i. Inr (add_total (ws_table row) k i t))"
  obtain totals where fold: "rfold ?f COMPONENTS (fst acc) = Inr totals"
      and acc': "acc' = (totals, bump (ws_table row) (ws_amount row) (snd acc))"
    using assms(1) unfolding add_row_def Let_def details_of_def [symmetric] by (rule rbindE) simp
  have "entry totals t k = entry (fst acc) t k
      + (\<Sum>k'\<leftarrow>COMPONENTS. if t = ws_table row \<and> k = k' then component_of k' row else 0)"
    by (rule rfold_sum [OF fold, where h = "\<lambda>s. entry s t k"]) (auto simp: rbind_eq_Inr entry_add_total component_of_def)
  moreover have "(\<Sum>k'\<leftarrow>COMPONENTS. if t = ws_table row \<and> k = k' then component_of k' row else 0)
      = (if t = ws_table row then component_of k row else 0)"
    using assms(2) by (auto simp: COMPONENTS_def)
  ultimately show "entry (fst acc') t k = entry (fst acc) t k + (if t = ws_table row then component_of k row else 0)"
    by (simp add: acc')
  show "dict_get (snd acc') t 0 = dict_get (snd acc) t 0 + (if t = ws_table row then ws_amount row else 0)"
    by (simp add: acc' bump_get)
  have "fst ` set totals = fst ` set (fst acc) \<union> (\<Union>k\<in>set COMPONENTS. {ws_table row})"
    by (rule rfold_keys [OF fold, where h = "\<lambda>s. fst ` set s"]) (clarsimp simp: rbind_eq_Inr keys_add_total)
  then show "fst ` set (fst acc') = insert (ws_table row) (fst ` set (fst acc))" by (auto simp: acc' COMPONENTS_def)
  show "distinct (map fst (fst acc'))" if "distinct (map fst (fst acc))"
    unfolding acc' fst_conv
    by (rule rfold_inv [where P = "\<lambda>d. distinct (map fst d)", OF _ that fold]) (auto simp: rbind_eq_Inr distinct_add_total)
qed

lemma add_adjustment_effect:
  assumes "add_adjustment item acc = Inr acc'"
  shows "entry (fst acc') t k = entry (fst acc) t k
          + (if t = adjusted_table item \<and> k = adjusted_component item then ad_amount item else 0)"
    and "dict_get (snd acc') t 0 = dict_get (snd acc) t 0 + (if t = adjusted_table item then ad_amount item else 0)"
    and "fst ` set (fst acc') = insert (adjusted_table item) (fst ` set (fst acc))"
    and "distinct (map fst (fst acc)) \<Longrightarrow> distinct (map fst (fst acc'))"
proof -
  have acc': "acc' = (add_total (adjusted_table item) (adjusted_component item) (ad_amount item) (fst acc),
      bump (adjusted_table item) (ad_amount item) (snd acc))"
    using assms by (simp add: add_adjustment_def split: if_splits)
  show "entry (fst acc') t k = entry (fst acc) t k
          + (if t = adjusted_table item \<and> k = adjusted_component item then ad_amount item else 0)"
    and "dict_get (snd acc') t 0 = dict_get (snd acc) t 0 + (if t = adjusted_table item then ad_amount item else 0)"
    and "fst ` set (fst acc') = insert (adjusted_table item) (fst ` set (fst acc))"
    and "distinct (map fst (fst acc)) \<Longrightarrow> distinct (map fst (fst acc'))"
    by (simp_all add: acc' entry_add_total bump_get keys_add_total distinct_add_total)
qed

definition sum_for :: "('a \<Rightarrow> string) \<Rightarrow> ('a \<Rightarrow> int) \<Rightarrow> string \<Rightarrow> 'a list \<Rightarrow> int" where
  "sum_for tab amount table xs = sum_list (map amount (filter (\<lambda>x. tab x = table) xs))"

lemma sum_for_if: "sum_list (map (\<lambda>x. if t = tab x then f x else 0) xs) = sum_for tab f t xs"
  by (induction xs) (auto simp: sum_for_def)

lemma sum_for_component:
  "sum_list (map (\<lambda>a. if t = adjusted_table a \<and> k = adjusted_component a then ad_amount a else 0) xs)
     = sum_for adjusted_table ad_amount t (filter (\<lambda>a. adjusted_component a = k) xs)"
  by (induction xs) (auto simp: sum_for_def)

lemma dict_get_merge_totals:
  "dict_get (dict_merge vals [(''source_total_paise'', a), (''adjustment_paise'', b), (''total_paise'', c)]) k 0
     = (if k = ''total_paise'' then c else if k = ''adjustment_paise'' then b else if k = ''source_total_paise'' then a
        else dict_get vals k 0)"
  by (auto simp: dict_merge_def dict_get_set)

lemma row_totals:
  assumes "rfold add_row rows ([], []) = Inr (T, S)"
  shows "distinct (map fst T)" and "fst ` set T = ws_table ` set rows"
    and "dict_get S t 0 = sum_for ws_table ws_amount t rows"
    and "k \<in> set COMPONENTS \<Longrightarrow> entry T t k = sum_for ws_table (component_of k) t rows"
proof -
  note effect = add_row_effect [where k = "''taxable_paise''"]
  have "distinct (map fst (fst (T, S)))"
    by (rule rfold_inv [where P = "\<lambda>a. distinct (map fst (fst a))", OF _ _ assms]) (use effect(4) in \<open>auto simp: COMPONENTS_def\<close>)
  then show "distinct (map fst T)" by simp
  have "fst ` set (fst (T, S)) = fst ` set (fst ([]::table_totals, []::(string, int) dict)) \<union> (\<Union>r\<in>set rows. {ws_table r})"
    by (rule rfold_keys [OF assms, where h = "\<lambda>a. fst ` set (fst a)"]) (simp add: effect(3) COMPONENTS_def)
  then show "fst ` set T = ws_table ` set rows" by auto
  show "dict_get S t 0 = sum_for ws_table ws_amount t rows"
    using rfold_sum [OF assms, where h = "\<lambda>a. dict_get (snd a) t 0" and g = "\<lambda>r. if t = ws_table r then ws_amount r else 0"]
      effect(2) by (simp add: COMPONENTS_def sum_for_if dict_get_def)
  show "entry T t k = sum_for ws_table (component_of k) t rows" if k: "k \<in> set COMPONENTS"
    using rfold_sum [OF assms, where h = "\<lambda>a. entry (fst a) t k" and g = "\<lambda>r. if t = ws_table r then component_of k r else 0"]
      add_row_effect(1) [OF _ k] by (simp add: sum_for_if entry_def dict_get_def [of "[]"])
qed

lemma adjustment_totals:
  assumes "rfold add_adjustment adjustments (T, []) = Inr (T', A)"
  shows "distinct (map fst T) \<Longrightarrow> distinct (map fst T')"
    and "fst ` set T' = fst ` set T \<union> adjusted_table ` set adjustments"
    and "dict_get A t 0 = sum_for adjusted_table ad_amount t adjustments"
    and "entry T' t k = entry T t k + sum_for adjusted_table ad_amount t (filter (\<lambda>a. adjusted_component a = k) adjustments)"
proof -
  have "distinct (map fst (fst (T', A)))" if "distinct (map fst (fst (T, []::(string, int) dict)))"
    by (rule rfold_inv [where P = "\<lambda>a. distinct (map fst (fst a))", OF _ that assms]) (rule add_adjustment_effect(4))
  then show "distinct (map fst T) \<Longrightarrow> distinct (map fst T')" by simp
  have "fst ` set (fst (T', A)) = fst ` set (fst (T, []::(string, int) dict)) \<union> (\<Union>a\<in>set adjustments. {adjusted_table a})"
    by (rule rfold_keys [OF assms, where h = "\<lambda>a. fst ` set (fst a)"]) (simp add: add_adjustment_effect(3))
  then show "fst ` set T' = fst ` set T \<union> adjusted_table ` set adjustments" by auto
  show "dict_get A t 0 = sum_for adjusted_table ad_amount t adjustments"
    using rfold_sum [OF assms, where h = "\<lambda>a. dict_get (snd a) t 0" and g = "\<lambda>r. if t = adjusted_table r then ad_amount r else 0"]
      add_adjustment_effect(2) by (simp add: sum_for_if dict_get_def)
  show "entry T' t k = entry T t k + sum_for adjusted_table ad_amount t (filter (\<lambda>a. adjusted_component a = k) adjustments)"
    using rfold_sum [OF assms, where h = "\<lambda>a. entry (fst a) t k"
        and g = "\<lambda>r. if t = adjusted_table r \<and> k = adjusted_component r then ad_amount r else 0"]
      add_adjustment_effect(1) by (simp add: sum_for_component)
qed

text \<open>C35. Every figure of the tables is accounted for: the tables are exactly those the rows and adjustments
  name, each once; a component of a table is the sum of that component over its rows plus the adjustments to it,
  and its total is the taxable value of its rows plus all its adjustments.\<close>

theorem tables_account:
  assumes "summarize_tables rows adjustments = Inr out"
  shows "distinct (map fst out) \<and> fst ` set out = ws_table ` set rows \<union> adjusted_table ` set adjustments
    \<and> (\<forall>(t, vals)\<in>set out.
          (\<forall>k\<in>set COMPONENTS. dict_get vals k 0 = sum_for ws_table (component_of k) t rows
             + sum_for adjusted_table ad_amount t (filter (\<lambda>a. adjusted_component a = k) adjustments))
        \<and> dict_get vals ''total_paise'' 0 = sum_for ws_table ws_amount t rows + sum_for adjusted_table ad_amount t adjustments)"
proof -
  obtain T S T' A where rows: "rfold add_row rows ([], []) = Inr (T, S)"
      and adjs: "rfold add_adjustment adjustments (T, []) = Inr (T', A)"
      and out: "out = map (\<lambda>(table, vals). (table, dict_merge vals [(''source_total_paise'', dict_get S table 0),
                       (''adjustment_paise'', dict_get A table 0),
                       (''total_paise'', dict_get S table 0 + dict_get A table 0)])) T'"
    using assms by (auto simp: summarize_tables_def rbind_eq_Inr)
  note R = row_totals [OF rows] and J = adjustment_totals [OF adjs]
  have fst_out: "map fst out = map fst T'" by (simp add: out comp_def case_prod_beta)
  have dist: "distinct (map fst T')" using J(1) R(1) by blast
  have tables: "fst ` set out = ws_table ` set rows \<union> adjusted_table ` set adjustments"
    using J(2) R(2) by (metis fst_out list.set_map)
  have "(\<forall>k\<in>set COMPONENTS. dict_get vals k 0 = sum_for ws_table (component_of k) t rows
             + sum_for adjusted_table ad_amount t (filter (\<lambda>a. adjusted_component a = k) adjustments))
        \<and> dict_get vals ''total_paise'' 0 = sum_for ws_table ws_amount t rows + sum_for adjusted_table ad_amount t adjustments"
    if mem: "(t, vals) \<in> set out" for t vals
  proof -
    obtain v where v: "(t, v) \<in> set T'" "vals = dict_merge v [(''source_total_paise'', dict_get S t 0),
        (''adjustment_paise'', dict_get A t 0), (''total_paise'', dict_get S t 0 + dict_get A t 0)]"
      using mem by (auto simp: out)
    have "dict_get T' t no_totals = v" using v(1) dist by (simp add: dict_get_def)
    then have "dict_get vals k 0 = entry T' t k" if "k \<in> set COMPONENTS" for k
      using that by (auto simp: v(2) dict_get_merge_totals entry_def COMPONENTS_def)
    then show ?thesis using R(3,4) J(3,4) by (simp add: v(2) dict_get_merge_totals)
  qed
  then show ?thesis using dist tables by (auto simp: fst_out)
qed

section \<open>Where credit is claimed\<close>

text \<open>What a purchase must have for its credit to be claimed: an accepted match, no adverse decision in the
  invoice management system, no label of blocked or reversed credit, and no reverse charge.\<close>

definition claimable :: "(string, pyval) dict \<Rightarrow> bool" where
  "claimable p =
     (text_or p ''match_decision'' '''' = ''ACCEPTED'' \<and> text_or p ''ims_decision'' '''' \<notin> {''REJECT'', ''PENDING''}
      \<and> \<not> truthy (get_or p ''reverse_charge'' VNone)
      \<and> (\<forall>label\<in>set (REVERSAL @ INELIGIBLE). \<not> py_contains (py_upper (text_or p ''itc_classification'' '''')) label))"

definition known_decision :: "(string, pyval) dict \<Rightarrow> bool" where
  "known_decision p = (text_or p ''match_decision'' '''' \<in> {'''', ''PENDING'', ''ACCEPTED'', ''REJECTED''})"

definition purchase_paise :: "string \<Rightarrow> (string, pyval) dict \<Rightarrow> int" where
  "purchase_paise k p = (case int_or_zero (get_or p k VNone) of Inl _ \<Rightarrow> 0 | Inr i \<Rightarrow> i)"

definition itc_row :: "workpaper_source \<Rightarrow> bool" where
  "itc_row r = (ws_table r \<in> {ITC_OTHER, ITC_RCM, ITC_REVERSED, ITC_INELIGIBLE})"

definition row_id :: "(string, pyval) dict \<Rightarrow> string" where "row_id p = py_str (get_or p ''id'' VNone)"

lemma int_or_zero_VInt [simp]: "int_or_zero (VInt i) = Inr i"
  by (cases "i = 0") (simp_all add: int_or_zero_def py_or_def)

lemma carried_no_component:
  assumes "k \<in> set COMPONENTS"
  shows "k \<notin> fst ` set (carried row)"
  using assms by (auto simp: COMPONENTS_def carried_def)

lemma get_or_merge_other: "k \<notin> fst ` set d2 \<Longrightarrow> get_or (dict_merge d1 d2) k v = get_or d1 k v"
proof (induction d2 arbitrary: d1)
  case (Cons x d2)
  then show ?case by (cases x) (auto simp: dict_merge_def)
qed (simp add: dict_merge_def)

lemma amounts_get:
  assumes "amounts row = Inr am" and "k \<in> set COMPONENTS"
  shows "int_or_zero (get_or am k VNone) = Inr (purchase_paise k row)" and "am \<noteq> []"
  using assms by (auto simp: amounts_def COMPONENTS_def rbind_eq_Inr purchase_paise_def)

lemma dict_merge_nonempty: "d1 \<noteq> [] \<Longrightarrow> dict_merge d1 d2 \<noteq> []"
proof (induction d2 arbitrary: d1)
  case (Cons x d2)
  have "dict_set (fst x) (snd x) d1 \<noteq> []" by (cases d1) (auto split: if_splits)
  then show ?case using Cons.IH by (cases x) (simp add: dict_merge_def)
qed (simp add: dict_merge_def)

lemma source_of_fields:
  assumes "source_of row table kind treatment = Inr r"
  shows "ws_table r = table" and "ws_id r = row_id row" and "k \<in> set COMPONENTS \<Longrightarrow> component_of k r = purchase_paise k row"
proof -
  obtain i am taxable where i: "py_index (VDict row) ''id'' = Inr i" and am: "amounts row = Inr am"
      and r: "r = \<lparr> ws_table = table, ws_kind = kind, ws_id = py_str i, ws_version = row_version row kind, ws_amount = taxable,
             ws_treatment = treatment, ws_details = dict_merge am (carried row) \<rparr>"
    using assms by (auto simp: source_of_def rbind_eq_Inr)
  show "ws_table r = table" by (simp add: r)
  show "ws_id r = row_id row" using i by (simp add: r row_id_def py_index_def get_or_def split: option.splits)
  have ne: "dict_merge am (carried row) \<noteq> []"
    by (rule dict_merge_nonempty, rule amounts_get(2) [OF am, of "''taxable_paise''"]) (simp add: COMPONENTS_def)
  show "component_of k r = purchase_paise k row" if k: "k \<in> set COMPONENTS"
    using ne amounts_get(1) [OF am k]
    by (simp add: component_of_def details_of_def r get_or_merge_other [OF carried_no_component [OF k]])
qed

lemma itc_table_cases:
  assumes "itc_table p = (table, treatment, warning)" and "known_decision p"
  shows "table \<in> {ITC_OTHER, ITC_RCM, ITC_REVERSED, ITC_INELIGIBLE}" and "table = ITC_OTHER \<longleftrightarrow> claimable p"
    and "warning \<noteq> None \<Longrightarrow> table = ITC_INELIGIBLE"
proof -
  have labels: "list_ex (py_contains s) REVERSAL \<or> list_ex (py_contains s) INELIGIBLE
      \<longleftrightarrow> \<not> (\<forall>label\<in>set (REVERSAL @ INELIGIBLE). \<not> py_contains s label)" for s
    by (auto simp: list_ex_iff)
  have names: "distinct [ITC_OTHER, ITC_RCM, ITC_REVERSED, ITC_INELIGIBLE]"
    by (simp add: ITC_OTHER_def ITC_RCM_def ITC_REVERSED_def ITC_INELIGIBLE_def)
  show "table \<in> {ITC_OTHER, ITC_RCM, ITC_REVERSED, ITC_INELIGIBLE}"
    and "warning \<noteq> None \<Longrightarrow> table = ITC_INELIGIBLE"
    using assms(1) by (auto simp: itc_table_def Let_def split: if_splits)
  show "table = ITC_OTHER \<longleftrightarrow> claimable p"
    using assms names labels [of "py_upper (text_or p ''itc_classification'' '''')"] unfolding claimable_def
    by (auto simp: itc_table_def Let_def known_decision_def simp del: list_ex_iff set_append split: if_splits)
qed

definition reverse_charged :: "(string, pyval) dict \<Rightarrow> bool" where
  "reverse_charged p = truthy (get_or p ''reverse_charge'' VNone)"

definition labelled :: "string list \<Rightarrow> (string, pyval) dict \<Rightarrow> bool" where
  "labelled labels p = (\<exists>label\<in>set labels. py_contains (py_upper (text_or p ''itc_classification'' [])) label)"

text \<open>A purchase whose match or IMS decision is still open, and one under reverse charge that could be claimed.\<close>

definition undecided :: "(string, pyval) dict \<Rightarrow> bool" where
  "undecided p =
     (\<not> labelled (REVERSAL @ INELIGIBLE) p \<and> text_or p ''match_decision'' [] \<noteq> ''REJECTED'' \<and> text_or p ''ims_decision'' [] \<noteq> ''REJECT''
      \<and> (text_or p ''ims_decision'' [] = ''PENDING'' \<or> text_or p ''match_decision'' [] \<in> {[], ''PENDING''}))"

definition rcm_claimable :: "(string, pyval) dict \<Rightarrow> bool" where
  "rcm_claimable p =
     (\<not> labelled (REVERSAL @ INELIGIBLE) p \<and> text_or p ''match_decision'' [] = ''ACCEPTED''
      \<and> text_or p ''ims_decision'' [] \<notin> {''REJECT'', ''PENDING''} \<and> reverse_charged p)"

text \<open>The table of a purchase's credit, by what was decided about it.\<close>

definition credit_table :: "(string, pyval) dict \<Rightarrow> string" where
  "credit_table p =
     (if claimable p then ITC_OTHER
      else if labelled REVERSAL p then ITC_REVERSED
      else if rcm_claimable p \<and> labelled [''RCM_PAID''] p then ITC_RCM
      else ITC_INELIGIBLE)"

definition stands_for :: "(string, pyval) dict \<Rightarrow> workpaper_source \<Rightarrow> bool" where
  "stands_for p r = (ws_id r = row_id p \<and> (\<forall>k\<in>set COMPONENTS. component_of k r = purchase_paise k p))"

lemmas table_names = ITC_OTHER_def ITC_RCM_def ITC_REVERSED_def ITC_INELIGIBLE_def OUTWARD_def RCM_LIABILITY_def

lemma itc_table_credit:
  assumes "itc_table p = (table, treatment, warning)" and "known_decision p"
  shows "table = credit_table p"
    and "warning = (if undecided p then Some ''ITC_DECISION_REQUIRED''
           else if rcm_claimable p \<and> \<not> labelled [''RCM_PAID''] p then Some ''RCM_PAYMENT_EVIDENCE_REQUIRED'' else None)"
proof -
  define classification where "classification = py_upper (text_or p ''itc_classification'' [])"
  have labels: "labelled ls p = list_ex (py_contains classification) ls" for ls
    by (simp add: labelled_def classification_def list_ex_iff)
  have l: "(\<forall>label\<in>set (REVERSAL @ INELIGIBLE). \<not> py_contains classification label)
      \<longleftrightarrow> \<not> list_ex (py_contains classification) REVERSAL \<and> \<not> list_ex (py_contains classification) INELIGIBLE"
    by (auto simp: list_ex_iff)
  have a: "labelled (REVERSAL @ INELIGIBLE) p
      \<longleftrightarrow> list_ex (py_contains classification) REVERSAL \<or> list_ex (py_contains classification) INELIGIBLE"
    by (simp add: labels)
  show "table = credit_table p"
    and "warning = (if undecided p then Some ''ITC_DECISION_REQUIRED''
           else if rcm_claimable p \<and> \<not> labelled [''RCM_PAID''] p then Some ''RCM_PAYMENT_EVIDENCE_REQUIRED'' else None)"
    using assms unfolding credit_table_def undecided_def rcm_claimable_def claimable_def a labels [of "[''RCM_PAID'']"]
      labels [of REVERSAL] reverse_charged_def classification_def [symmetric] l
    by (auto simp: itc_table_def Let_def known_decision_def classification_def [symmetric] simp del: list_ex_iff split: if_splits)
qed

lemma purchase_rows_shape:
  assumes "purchase_rows p = Inr (rs, es)" and "known_decision p"
  obtains r where "filter itc_row rs = [r]" and "stands_for p r" and "ws_table r = credit_table p"
    and "map ws_id (filter (\<lambda>r. ws_table r = RCM_LIABILITY) rs) = (if reverse_charged p then [row_id p] else [])"
    and "filter (\<lambda>r. ws_table r = OUTWARD) rs = []"
    and "es = (if undecided p then [(''ITC_DECISION_REQUIRED'', row_id p)]
        else if rcm_claimable p \<and> \<not> labelled [''RCM_PAID''] p then [(''RCM_PAYMENT_EVIDENCE_REQUIRED'', row_id p)] else [])"
proof -
  obtain table treatment warning where itc: "itc_table p = (table, treatment, warning)" by (metis prod_cases3)
  obtain rcm r where rcm: "(if reverse_charged p
            then rbind (source_of p RCM_LIABILITY ''PURCHASE_REGISTER'' ''SYSTEM_CALCULATED'') (\<lambda>r. Inr [r]) else Inr []) = Inr rcm"
      and r: "source_of p table ''PURCHASE_REGISTER'' treatment = Inr r" and rs: "rs = rcm @ [r]"
      and es: "es = (case warning of None \<Rightarrow> [] | Some code \<Rightarrow> [(code, ws_id r)])"
    using assms(1) unfolding purchase_rows_def reverse_charged_def by (auto simp: rbind_eq_Inr itc simp del: if_split)
  note cases = itc_table_cases [OF itc assms(2)] and fields = source_of_fields [OF r]
  have rcm_rows: "\<forall>x\<in>set rcm. ws_table x = RCM_LIABILITY"
    using rcm source_of_fields(1) by (auto simp: rbind_eq_Inr split: if_splits)
  have rcm_ids: "map ws_id rcm = (if reverse_charged p then [row_id p] else [])"
    using rcm source_of_fields(2) by (auto simp: rbind_eq_Inr split: if_splits)
  have itc_r: "itc_row r" using cases(1) fields(1) by (simp add: itc_row_def)
  have no_itc: "filter itc_row rcm = []" using rcm_rows by (auto simp: itc_row_def table_names filter_empty_conv)
  have keep: "filter (\<lambda>r. ws_table r = RCM_LIABILITY) rcm = rcm" using rcm_rows by simp
  show thesis
  proof (rule that [of r])
    show "filter itc_row rs = [r]" using itc_r no_itc by (simp add: rs)
    show "stands_for p r" using fields by (simp add: stands_for_def)
    show "ws_table r = credit_table p" using itc_table_credit(1) [OF itc assms(2)] fields(1) by simp
    show "map ws_id (filter (\<lambda>r. ws_table r = RCM_LIABILITY) rs) = (if reverse_charged p then [row_id p] else [])"
    proof -
      have "filter (\<lambda>r. ws_table r = RCM_LIABILITY) [r] = []" using cases(1) fields(1) by (auto simp: table_names)
      then show ?thesis using rcm_ids by (simp only: rs filter_append keep append_Nil2)
    qed
    show "filter (\<lambda>r. ws_table r = OUTWARD) rs = []"
      using cases(1) fields(1) rcm_rows by (auto simp: rs table_names filter_empty_conv)
    show "es = (if undecided p then [(''ITC_DECISION_REQUIRED'', row_id p)]
        else if rcm_claimable p \<and> \<not> labelled [''RCM_PAID''] p then [(''RCM_PAYMENT_EVIDENCE_REQUIRED'', row_id p)] else [])"
      using fields(2) by (simp add: es itc_table_credit(2) [OF itc assms(2)])
  qed
qed

text \<open>The open questions of a purchase.\<close>

definition exceptions_of :: "(string, pyval) dict \<Rightarrow> (string \<times> string) list" where
  "exceptions_of p =
     (if undecided p then [(''ITC_DECISION_REQUIRED'', row_id p)]
      else if rcm_claimable p \<and> \<not> labelled [''RCM_PAID''] p then [(''RCM_PAYMENT_EVIDENCE_REQUIRED'', row_id p)] else [])"

lemma purchase_parts:
  assumes "rmap purchase_rows bought = Inr parts" and "\<forall>p\<in>set bought. known_decision p"
  shows "list_all2 (\<lambda>p r. stands_for p r \<and> ws_table r = credit_table p) bought (filter itc_row (concat (map fst parts)))
    \<and> map ws_id (filter (\<lambda>r. ws_table r = RCM_LIABILITY) (concat (map fst parts))) = map row_id (filter reverse_charged bought)
    \<and> filter (\<lambda>r. ws_table r = OUTWARD) (concat (map fst parts)) = []
    \<and> concat (map snd parts) = concat (map exceptions_of bought)"
  using assms
proof (induction bought arbitrary: parts)
  case (Cons p bought)
  then obtain rs es parts' where p: "purchase_rows p = Inr (rs, es)" "rmap purchase_rows bought = Inr parts'"
      "parts = (rs, es) # parts'"
    by (auto simp: rbind_eq_Inr)
  note ih = Cons.IH [OF p(2)]
  show ?case
    by (rule purchase_rows_shape [OF p(1)]) (use Cons.prems(2) ih in \<open>auto simp: p(3) exceptions_of_def\<close>)
qed simp

lemma outward_rows:
  assumes "rmap (\<lambda>sale. source_of sale OUTWARD k t) sold = Inr rows"
  shows "filter itc_row rows = []" "filter (\<lambda>r. ws_table r = RCM_LIABILITY) rows = []"
    "map ws_id (filter (\<lambda>r. ws_table r = OUTWARD) rows) = map row_id sold"
  using assms
  by (induction sold arbitrary: rows) (auto simp: rbind_eq_Inr source_of_fields itc_row_def table_names)

text \<open>C34. In a monthly return every purchase has exactly one row of input tax credit, with its own amounts. The row is in table
  4(A)(5), claimed credit, exactly when the match was accepted, the IMS decision is neither reject nor pending, no label
  blocks or reverses the credit and the purchase is not under reverse charge; with a reversal label it is in 4(B), under reverse
  charge with the tax paid in 4(A)(3), and in 4(D) otherwise, which is where undecided purchases are. Every reverse-charge purchase and every sale has its
  liability row, and the exceptions are, in order, the undecided purchases and those under reverse charge without payment evidence.\<close>

theorem itc_claim_sound:
  assumes "build_source_rows sold bought return_type = Inr (rows, exceptions)" and "return_type \<noteq> ''GSTR1''"
    and "\<forall>p\<in>set bought. known_decision p"
  shows "list_all2 (\<lambda>p r. stands_for p r \<and> ws_table r = credit_table p) bought (filter itc_row rows)
    \<and> map ws_id (filter (\<lambda>r. ws_table r = RCM_LIABILITY) rows) = map row_id (filter reverse_charged bought)
    \<and> map ws_id (filter (\<lambda>r. ws_table r = OUTWARD) rows) = map row_id sold
    \<and> exceptions = concat (map exceptions_of bought)
    \<and> (\<forall>p\<in>set bought. credit_table p = ITC_OTHER \<longleftrightarrow>
          text_or p ''match_decision'' [] = ''ACCEPTED'' \<and> text_or p ''ims_decision'' [] \<notin> {''REJECT'', ''PENDING''}
          \<and> \<not> reverse_charged p \<and> \<not> labelled (REVERSAL @ INELIGIBLE) p)
    \<and> (\<forall>p\<in>set bought. undecided p \<longrightarrow> credit_table p = ITC_INELIGIBLE)"
proof -
  obtain out parts where out: "rmap (\<lambda>sale. source_of sale OUTWARD ''SALES_REGISTER'' ''SYSTEM_CALCULATED'') sold = Inr out"
      and parts: "rmap purchase_rows bought = Inr parts" and rows: "rows = out @ concat (map fst parts)"
      and exs: "exceptions = concat (map snd parts)"
    using assms(1,2) by (auto simp: build_source_rows_def sale_table_def rbind_eq_Inr)
  have "credit_table p = ITC_OTHER \<longleftrightarrow> claimable p" for p by (simp add: credit_table_def table_names)
  then have "credit_table p = ITC_OTHER \<longleftrightarrow>
          text_or p ''match_decision'' [] = ''ACCEPTED'' \<and> text_or p ''ims_decision'' [] \<notin> {''REJECT'', ''PENDING''}
          \<and> \<not> reverse_charged p \<and> \<not> labelled (REVERSAL @ INELIGIBLE) p" for p
    by (auto simp: claimable_def reverse_charged_def labelled_def)
  moreover have "undecided p \<Longrightarrow> credit_table p = ITC_INELIGIBLE" for p
    by (auto simp: credit_table_def undecided_def claimable_def rcm_claimable_def labelled_def)
  ultimately show ?thesis using purchase_parts [OF parts assms(3)] outward_rows [OF out] by (simp add: rows exs)
qed

definition sample_bought :: "(string, pyval) dict" where
  "sample_bought = [(''id'', VStr ''P1''), (''taxable_paise'', VInt 10000), (''igst_paise'', VInt 1800),
     (''match_decision'', VStr ''ACCEPTED''), (''ims_decision'', VStr ''NO_ACTION''), (''reverse_charge'', VBool False),
     (''itc_classification'', VNone)]"

lemma sample_claimable: "claimable sample_bought" "known_decision sample_bought"
  by code_simp+

lemma sample_built: "\<exists>r. build_source_rows [] [sample_bought] ''GSTR3B'' = Inr ([r], [])"
proof -
  have "itc_table sample_bought = (ITC_OTHER, ''IMPORTED'', None)" "\<not> truthy (get_or sample_bought ''reverse_charge'' VNone)"
      "\<exists>v. py_index (VDict sample_bought) ''id'' = Inr v" "\<exists>i. int_or_zero (get_or sample_bought ''taxable_paise'' VNone) = Inr i"
      "\<exists>am. amounts sample_bought = Inr am"
    by (code_simp, code_simp, simp_all add: sample_bought_def py_index_def amounts_def COMPONENTS_def int_or_zero_def)
  then show ?thesis by (auto simp: build_source_rows_def purchase_rows_def source_of_def)
qed

lemma itc_claim_sound_witness:
  "\<exists>rows::workpaper_source list. build_source_rows [] [sample_bought] ''GSTR3B'' = Inr (rows, [])
     \<and> (\<exists>r\<in>set rows. ws_table r = ITC_OTHER \<and> ws_id r = row_id sample_bought)"
proof -
  obtain r where r: "build_source_rows [] [sample_bought] ''GSTR3B'' = Inr ([r], [])" using sample_built by blast
  have "ws_table r = ITC_OTHER \<and> ws_id r = row_id sample_bought"
    using itc_claim_sound [OF r] sample_claimable by (auto simp: list_all2_Cons1 stands_for_def credit_table_def split: if_splits)
  then show ?thesis using r by auto
qed

definition sample_source :: workpaper_source where
  "sample_source = \<lparr> ws_table = ITC_OTHER, ws_kind = ''PURCHASE_REGISTER'', ws_id = ''P1'', ws_version = ''1'', ws_amount = 10000,
     ws_treatment = ''IMPORTED'', ws_details = [(''taxable_paise'', VInt 10000), (''igst_paise'', VInt 1800)] \<rparr>"

definition sample_adjustment :: adjustment where
  "sample_adjustment = \<lparr> ad_id = ''adj-1'', ad_table = ITC_OTHER, ad_component = ''igst_paise'', ad_amount = - 300,
     ad_reason = ''credit note'' \<rparr>"

lemma tables_account_witness:
  "\<exists>out::table_totals. summarize_tables [sample_source] [sample_adjustment] = Inr out
     \<and> (\<exists>vals. out = [(ITC_OTHER, vals)] \<and> dict_get vals ''igst_paise'' 0 = 1500 \<and> dict_get vals ''total_paise'' 0 = 9700)"
proof -
  have "summarize_tables [sample_source] [sample_adjustment] = Inr [(ITC_OTHER, [(''taxable_paise'', 10000),
      (''igst_paise'', 1500), (''cgst_paise'', 0), (''sgst_paise'', 0), (''cess_paise'', 0), (''source_total_paise'', 10000),
      (''adjustment_paise'', - 300), (''total_paise'', 9700)])]"
    by code_simp
  then obtain vals where vals: "summarize_tables [sample_source] [sample_adjustment] = Inr [(ITC_OTHER, vals)]" by blast
  show ?thesis
    using tables_account [OF vals] vals
    by (simp add: sum_for_def component_of_def details_of_def sample_source_def sample_adjustment_def adjusted_table_def
        adjusted_component_def COMPONENTS_def ITC_OTHER_def)
qed

end
