(* ===== verification/Gst_Workpapers.thy ===== *)
theory Gst_Workpapers
  imports Gst_Calculation Gstr2b Access_Control
begin

text \<open>
  The 2B import runs and reviewer decisions (\<open>api/routes/gstr2b_runs.py\<close>) and the versioned workpapers of a GST
  return with their approval and manual filing (\<open>api/routes/gst_workpapers.py\<close>, \<open>gst_rules.py\<close>), over the tables of
  migrations 20260715071223, 20260715081149 and 20260715091401 with their check and unique constraints and the
  trigger that marks approved papers stale when a register changes. A text bound to a typed parameter is read as the
  cast in the statement says. Row-level security is left out; every endpoint carries the firm in its conditions.
\<close>

section \<open>Tables\<close>

record tax_entry = register_row +
  te_verified :: bool
  te_reverse :: bool
  te_class :: "string option"
  te_place :: "string option"

record client =
  c_id :: string
  c_firm :: string
  c_gstin :: string

record import_run =
  ir_id :: nat
  ir_firm :: string
  ir_client :: string
  ir_hash :: string
  ir_gstin :: string
  ir_period :: string
  ir_format :: string
  ir_status :: string
  ir_errors :: "string list"

record stored_document =
  sd_id :: nat
  sd_run :: nat
  sd_doc :: g2b_document

record stored_match =
  sm_id :: nat
  sm_run :: nat
  sm_firm :: string
  sm_client :: string
  sm_purchase :: "string option"
  sm_document :: "nat option"
  sm_bucket :: g2b_bucket
  sm_warned :: bool
  sm_decision :: string
  sm_ims :: string
  sm_decided_by :: "string option"

record itc_claim =
  cl_firm :: string
  cl_client :: string
  cl_key :: string
  cl_root :: "string option"
  cl_period :: string
  cl_match :: nat

record g2b_paper =
  gp_run :: nat
  gp_version :: nat
  gp_items :: nat
  gp_accepted :: nat
  gp_unresolved :: nat

datatype paper_status = WP_DATA_REQUIRED | WP_NEEDS_REVIEW | WP_APPROVED | WP_READY_FOR_MANUAL_FILING
  | WP_FILED_EXTERNALLY | WP_ACKNOWLEDGEMENT_UPLOADED | WP_COMPLETED

record filing_pack =
  pk_tables :: table_totals
  pk_schedules :: "workpaper_source list"
  pk_exceptions :: "(string \<times> string option) list"
  pk_versions :: "(string \<times> string \<times> string) list"

record workpaper =
  wp_id :: nat
  wp_firm :: string
  wp_client :: string
  wp_return :: string
  wp_period :: string
  wp_version :: nat
  wp_status :: paper_status
  wp_sources :: "(string \<times> string \<times> string) list"
  wp_rules :: "(string \<times> string) list"
  wp_adjustments :: "adjustment list"
  wp_tables :: table_totals
  wp_exceptions :: "(string \<times> string option) list"
  wp_hash :: string
  wp_approved_hash :: "string option"
  wp_stale :: bool
  wp_prepared_by :: string
  wp_reviewed_by :: "string option"
  wp_approved_at :: "int option"
  wp_pack :: "filing_pack option"

record acknowledgement =
  ak_paper :: nat
  ak_firm :: string
  ak_number :: string
  ak_filed_at :: string
  ak_evidence :: string
  ak_by :: string

record gst_rule =
  gr_key :: string
  gr_version :: string
  gr_from :: pydate
  gr_to :: "pydate option"
  gr_by :: string

record gst_db =
  q_now :: int
  q_fresh :: nat
  q_clients :: "client list"
  q_sold :: "tax_entry list"
  q_bought :: "tax_entry list"
  q_runs :: "import_run list"
  q_documents :: "stored_document list"
  q_matches :: "stored_match list"
  q_claims :: "itc_claim list"
  q_g2b_papers :: "g2b_paper list"
  q_rules :: "gst_rule list"
  q_papers :: "workpaper list"
  q_lines :: "(nat \<times> workpaper_source) list"
  q_acks :: "acknowledgement list"

section \<open>Statements\<close>

definition next_id :: "(gst_db, nat) op" where
  "next_id = obind (oget q_fresh) (\<lambda>n. othen (omod (\<lambda>s. s\<lparr>q_fresh := Suc n\<rparr>)) (oret n))"

text \<open>The check constraint of \<open>gst_workpapers\<close>.\<close>

definition settled :: "paper_status \<Rightarrow> bool" where
  "settled st = (st \<notin> {WP_DATA_REQUIRED, WP_NEEDS_REVIEW})"

definition paper_check :: "workpaper \<Rightarrow> workpaper result" where
  "paper_check w =
     (if settled (wp_status w) \<and> (wp_approved_at w = None \<or> wp_approved_hash w \<notin> {None, Some (wp_hash w)} \<or> wp_stale w)
      then Inl (DatabaseError ''gst_workpapers_check'') else Inr w)"

definition update_papers :: "(workpaper \<Rightarrow> bool) \<Rightarrow> (workpaper \<Rightarrow> workpaper) \<Rightarrow> (gst_db, workpaper list) op" where
  "update_papers p f s =
     (case update_rows p (\<lambda>w. paper_check (f w)) (q_papers s) of
        Inl e \<Rightarrow> (Inl e, s)
      | Inr (rows, hits) \<Rightarrow> (Inr hits, s\<lparr>q_papers := rows\<rparr>))"

definition insert_paper :: "workpaper \<Rightarrow> (gst_db, unit) op" where
  "insert_paper w = obind (olift (paper_check w)) (\<lambda>w. omod (\<lambda>s. s\<lparr>q_papers := q_papers s @ [w]\<rparr>))"

definition same_line :: "nat \<Rightarrow> workpaper_source \<Rightarrow> nat \<times> workpaper_source \<Rightarrow> bool" where
  "same_line pid r pr = (fst pr = pid \<and> ws_table (snd pr) = ws_table r \<and> ws_kind (snd pr) = ws_kind r
      \<and> ws_id (snd pr) = ws_id r \<and> ws_version (snd pr) = ws_version r)"

definition insert_line :: "nat \<Rightarrow> workpaper_source \<Rightarrow> (gst_db, unit) op" where
  "insert_line pid r =
     obind (oget (\<lambda>s. list_ex (same_line pid r) (q_lines s))) (\<lambda>dup.
     if dup then oraise (DatabaseError ''duplicate key value'')
     else if length (ws_table r) > 50 then oraise (DatabaseError ''value too long for type character varying(50)'')
     else omod (\<lambda>s. s\<lparr>q_lines := q_lines s @ [(pid, r)]\<rparr>))"

text \<open>\<open>mark_gst_workpapers_stale_from_register\<close>; the same update is part of the reviewer's decisions.\<close>

definition on_the_desk :: "string \<Rightarrow> string \<Rightarrow> string \<Rightarrow> workpaper \<Rightarrow> bool" where
  "on_the_desk firm cl period w = (wp_firm w = firm \<and> wp_client w = cl \<and> wp_period w = period
      \<and> wp_status w \<in> {WP_APPROVED, WP_READY_FOR_MANUAL_FILING})"

definition reopen :: "workpaper \<Rightarrow> workpaper" where
  "reopen w = w\<lparr>wp_stale := True, wp_status := WP_NEEDS_REVIEW\<rparr>"

definition register_trigger :: "tax_entry \<Rightarrow> (gst_db, unit) op" where
  "register_trigger e = obind (update_papers (on_the_desk (g_firm e) (g_client e) (g_period e)) reopen) (\<lambda>_. oret ())"

text \<open>An \<open>INSERT\<close> or an \<open>UPDATE\<close> of a register row by another component, with its trigger.\<close>

definition put_entry :: "tax_entry \<Rightarrow> tax_entry list \<Rightarrow> tax_entry list" where
  "put_entry e es = (if g_id e \<in> g_id ` set es then map (\<lambda>x. if g_id x = g_id e then e else x) es else es @ [e])"

definition write_sale :: "tax_entry \<Rightarrow> (gst_db, unit) op" where
  "write_sale e = transaction (othen (omod (\<lambda>s. s\<lparr>q_sold := put_entry e (q_sold s)\<rparr>)) (register_trigger e))"

definition write_purchase :: "tax_entry \<Rightarrow> (gst_db, unit) op" where
  "write_purchase e = transaction (othen (omod (\<lambda>s. s\<lparr>q_bought := put_entry e (q_bought s)\<rparr>)) (register_trigger e))"

section \<open>Import runs of the 2B statement\<close>

definition month_of :: "string \<Rightarrow> nat" where "month_of period = digits_to_nat (take 2 period)"
definition year_of :: "string \<Rightarrow> nat" where "year_of period = digits_to_nat (drop 2 period)"

definition period_pattern :: "string \<Rightarrow> bool" where
  "period_pattern period = (length period = 6 \<and> list_all is_digit period \<and> 1 \<le> month_of period \<and> month_of period \<le> 12)"

text \<open>\<open>_period_bounds\<close>: the first and the last day of the month; the last day is found from the first day of the
  next month, which must be a date too.\<close>

definition period_bounds :: "string \<Rightarrow> (string \<times> string) result" where
  "period_bounds period =
     (if \<not> period_pattern period then Inl (HTTPException 422 ''period must use MMYYYY, for example 062026'')
      else let y = int (year_of period); m = int (month_of period)
           in rbind (mk_date y m 1) (\<lambda>start.
              rbind (mk_date (y + (if m = 12 then 1 else 0)) (m mod 12 + 1) 1) (\<lambda>next_start.
                Inr (isoformat start, isoformat (prev_day next_start)))))"

text \<open>\<open>_build_purchase_source\<close>: the rows of the period, by date and identifier, undated rows last. An undated row
  has no \<open>isoformat\<close>.\<close>

definition recon_line_of :: "tax_entry \<Rightarrow> recon_line result" where
  "recon_line_of e =
     (if g_date e = '''' then Inl AttributeError
      else let party = (if g_party e \<noteq> '''' then g_party e else ''Unknown'')
           in Inr \<lparr> rl_id = g_id e, rl_date = g_date e, rl_description = ''Purchase - '' @ party, rl_counterparty = party,
                   rl_amount = g_total e, rl_ref = (if g_number e \<noteq> '''' then Some (g_number e) else None),
                   rl_gstin = (if g_gstin e \<noteq> '''' then Some (g_gstin e) else None) \<rparr>)"

definition by_date :: "tax_entry list \<Rightarrow> tax_entry list" where
  "by_date es = (let ordered = sort_key g_id es
     in sort_key g_date (filter (\<lambda>e. g_date e \<noteq> '''') ordered) @ filter (\<lambda>e. g_date e = '''') ordered)"

definition purchase_lines :: "string \<Rightarrow> string \<Rightarrow> string \<Rightarrow> gst_db \<Rightarrow> recon_line list result" where
  "purchase_lines firm cl period s =
     rmap recon_line_of (by_date (filter (\<lambda>e. g_firm e = firm \<and> g_client e = cl \<and> g_period e = period) (q_bought s)))"

definition claimed_keys :: "string \<Rightarrow> string \<Rightarrow> gst_db \<Rightarrow> string set" where
  "claimed_keys firm cl s = cl_key ` {c \<in> set (q_claims s). cl_firm c = firm \<and> cl_client c = cl}"

datatype statement_file = JsonStatement pyval | CorruptJson | ExcelStatement "(string \<times> pyval) list list"

fun parsed_file :: "statement_file \<Rightarrow> g2b_result result" where
  "parsed_file (JsonStatement payload) = parse_gstr2b_json payload"
| "parsed_file CorruptJson = Inl (HTTPException 422 ''CORRUPT_GSTR2B_FILE'')"
| "parsed_file (ExcelStatement rows) = parse_gstr2b_rows rows"

definition store_document :: "nat \<Rightarrow> g2b_document \<Rightarrow> (gst_db, unit) op" where
  "store_document run d = obind next_id (\<lambda>i.
     omod (\<lambda>s. s\<lparr>q_documents := q_documents s @ [\<lparr> sd_id = i, sd_run = run, sd_doc = d \<rparr>]\<rparr>))"

text \<open>\<open>document_ids.get(key)\<close>: the last document of the run with the key.\<close>

definition document_id :: "nat \<Rightarrow> string \<Rightarrow> gst_db \<Rightarrow> nat option" where
  "document_id run key s =
     map_option sd_id (find (\<lambda>d. sd_run d = run \<and> identity_key (sd_doc d) = key) (rev (q_documents s)))"

definition store_match :: "nat \<Rightarrow> string \<Rightarrow> string \<Rightarrow> g2b_match \<Rightarrow> (gst_db, unit) op" where
  "store_match run firm cl m = obind next_id (\<lambda>i.
     omod (\<lambda>s. s\<lparr>q_matches := q_matches s @
        [\<lparr> sm_id = i, sm_run = run, sm_firm = firm, sm_client = cl, sm_purchase = m_purchase m,
           sm_document = (case m_document m of None \<Rightarrow> None | Some d \<Rightarrow> document_id run (identity_key d) s),
           sm_bucket = m_bucket m, sm_warned = m_claimed_before m, sm_decision = ''PENDING'', sm_ims = ''NO_ACTION'',
           sm_decided_by = None \<rparr>]\<rparr>))"

definition set_run_status :: "nat \<Rightarrow> string \<Rightarrow> (gst_db, unit) op" where
  "set_run_status run st = omod (\<lambda>s. s\<lparr>q_runs := map_where (\<lambda>r. ir_id r = run) (\<lambda>r. r\<lparr>ir_status := st\<rparr>) (q_runs s)\<rparr>)"

record run_answer =
  ra_run :: nat
  ra_status :: string
  ra_duplicate :: bool

text \<open>Every request runs in one transaction, which the dependency \<open>get_db\<close> opens (\<open>api/deps.py\<close>), so an
  exception of \<open>create_run\<close> takes back all it wrote; \<open>fill_run\<close> is its part after the identity checks. For a
  handler below that writes with a single statement or opens a transaction of its own this makes no difference.\<close>

definition fill_run :: "string \<Rightarrow> string \<Rightarrow> string \<Rightarrow> nat \<Rightarrow> g2b_document list \<Rightarrow> (gst_db, unit) op" where
  "fill_run firm cl period run docs =
     othen (oeach (store_document run) docs)
     (obind (oget (purchase_lines firm cl period)) (\<lambda>lines.
      obind (olift lines) (\<lambda>lines.
      obind (oget (claimed_keys firm cl)) (\<lambda>claimed.
      obind (olift (match_gstr2b lines docs claimed)) (\<lambda>ms.
      othen (oeach (store_match run firm cl) ms)
        (set_run_status run ''RECONCILED''))))))"

definition create_run :: "firm_context \<Rightarrow> string \<Rightarrow> string \<Rightarrow> string \<Rightarrow> string \<Rightarrow> statement_file \<Rightarrow> (gst_db, run_answer) op" where
  "create_run firm cl period extension upload_hash content =
     transaction (othen (olift (require firm ''books.read''))
     (othen (olift (period_bounds period))
     (if extension \<notin> {''json'', ''xls'', ''xlsx''} then oraise (HTTPException 415 ''UNSUPPORTED_FORMAT'')
      else obind (olift (parsed_file content)) (\<lambda>parsed.
     obind (oget (\<lambda>s. find (\<lambda>c. c_id c = cl \<and> c_firm c = f_firm firm) (q_clients s))) (\<lambda>found.
     case found of
       None \<Rightarrow> oraise (HTTPException 404 ''Client not found'')
     | Some c \<Rightarrow>
       (let selected = py_upper (c_gstin c); file_gstin = (if p_gstin parsed \<noteq> '''' then p_gstin parsed else selected);
            errors = (if file_gstin \<noteq> selected then [''GSTIN_MISMATCH''] else [])
                   @ (if p_period parsed \<noteq> '''' \<and> p_period parsed \<noteq> period then [''PERIOD_MISMATCH''] else []);
            st = (if errors \<noteq> [] then ''IDENTITY_MISMATCH'' else ''READY'')
        in obind (oget (\<lambda>s. find (\<lambda>r. ir_firm r = f_firm firm \<and> ir_client r = cl \<and> ir_hash r = upload_hash) (q_runs s))) (\<lambda>existing.
        case existing of
          Some r \<Rightarrow> oret \<lparr> ra_run = ir_id r, ra_status = ir_status r, ra_duplicate = True \<rparr>
        | None \<Rightarrow>
          obind next_id (\<lambda>run.
          othen (omod (\<lambda>s. s\<lparr>q_runs := q_runs s @
              [\<lparr> ir_id = run, ir_firm = f_firm firm, ir_client = cl, ir_hash = upload_hash, ir_gstin = file_gstin, ir_period = period,
                 ir_format = py_upper extension, ir_status = st, ir_errors = errors \<rparr>]\<rparr>))
          (if errors \<noteq> [] then oret \<lparr> ra_run = run, ra_status = st, ra_duplicate = False \<rparr>
           else
             othen (fill_run (f_firm firm) cl period run (p_documents parsed))
               (oret \<lparr> ra_run = run, ra_status = ''RECONCILED'', ra_duplicate = False \<rparr>))))))))))"

section \<open>Decisions of the reviewer\<close>

definition run_of :: "nat \<Rightarrow> gst_db \<Rightarrow> import_run option" where
  "run_of i s = find (\<lambda>r. ir_id r = i) (q_runs s)"

definition reopen_monthly :: "string \<Rightarrow> string \<Rightarrow> string \<Rightarrow> (gst_db, unit) op" where
  "reopen_monthly firm cl period =
     obind (update_papers (\<lambda>w. on_the_desk firm cl period w \<and> wp_return w = ''GSTR3B'') reopen) (\<lambda>_. oret ())"

definition decide :: "firm_context \<Rightarrow> nat \<Rightarrow> string \<Rightarrow> string \<Rightarrow> (gst_db, bool) op" where
  "decide firm mid decision ims =
     othen (olift (require firm ''compliance.review''))
     (if decision \<notin> {''PENDING'', ''ACCEPTED'', ''REJECTED''} \<or> ims \<notin> {''ACCEPT'', ''REJECT'', ''PENDING'', ''NO_ACTION''}
      then oraise (HTTPException 422 ''Invalid reconciliation or IMS decision'')
      else transaction
        (obind (oget (\<lambda>s. find (\<lambda>m. sm_id m = mid \<and> sm_firm m = f_firm firm) (q_matches s))) (\<lambda>found.
         othen (omod (\<lambda>s. s\<lparr>q_matches := map_where (\<lambda>m. sm_id m = mid \<and> sm_firm m = f_firm firm)
            (\<lambda>m. m\<lparr>sm_decision := decision, sm_ims := ims, sm_decided_by := Some (f_user firm)\<rparr>) (q_matches s)\<rparr>))
         (case found of
            None \<Rightarrow> oret False
          | Some m \<Rightarrow>
              obind (oget (run_of (sm_run m))) (\<lambda>run.
              othen (case run of None \<Rightarrow> oret () | Some r \<Rightarrow> reopen_monthly (f_firm firm) (sm_client m) (ir_period r))
                (oret True))))))"

record clean_row =
  cr_match :: nat
  cr_client :: string
  cr_doc :: g2b_document
  cr_period :: string

definition clean_rows :: "string \<Rightarrow> nat \<Rightarrow> gst_db \<Rightarrow> clean_row list" where
  "clean_rows firm run s =
     concat (map (\<lambda>m.
       case (sm_document m, run_of (sm_run m) s) of
         (Some i, Some r) \<Rightarrow>
           map (\<lambda>d. \<lparr> cr_match = sm_id m, cr_client = sm_client m, cr_doc = sd_doc d, cr_period = ir_period r \<rparr>)
             (filter (\<lambda>d. sd_id d = i) (q_documents s))
       | _ \<Rightarrow> [])
     (filter (\<lambda>m. sm_run m = run \<and> sm_firm m = firm \<and> sm_bucket m = EXACT \<and> \<not> sm_warned m \<and> sm_decision m = ''PENDING'')
        (q_matches s)))"

definition accept_clean :: "firm_context \<Rightarrow> clean_row \<Rightarrow> (gst_db, unit) op" where
  "accept_clean firm row =
     othen (omod (\<lambda>s. s\<lparr>q_matches := map_where (\<lambda>m. sm_id m = cr_match row)
        (\<lambda>m. m\<lparr>sm_decision := ''ACCEPTED'', sm_decided_by := Some (f_user firm)\<rparr>) (q_matches s)\<rparr>))
     (omod (\<lambda>s. if list_ex (\<lambda>c. cl_firm c = f_firm firm \<and> cl_client c = cr_client row \<and> cl_key c = identity_key (cr_doc row)) (q_claims s)
        then s
        else s\<lparr>q_claims := q_claims s @
           [\<lparr> cl_firm = f_firm firm, cl_client = cr_client row, cl_key = identity_key (cr_doc row),
              cl_root = amendment_of_key (cr_doc row), cl_period = cr_period row, cl_match = cr_match row \<rparr>]\<rparr>))"

definition bulk_accept :: "firm_context \<Rightarrow> nat \<Rightarrow> bool \<Rightarrow> (gst_db, nat \<times> int \<times> bool) op" where
  "bulk_accept firm run confirm =
     othen (olift (require firm ''compliance.review''))
     (transaction
       (obind (oget (clean_rows (f_firm firm) run)) (\<lambda>clean.
          let preview = (length clean, sum_list (map (\<lambda>r. d_total (cr_doc r)) clean))
          in if \<not> confirm then oret (fst preview, snd preview, False)
             else othen (oeach (accept_clean firm) clean)
               (othen (case clean of [] \<Rightarrow> oret () | r # _ \<Rightarrow> reopen_monthly (f_firm firm) (cr_client r) (cr_period r))
                 (oret (fst preview, snd preview, True))))))"

text \<open>The driver returns a \<open>jsonb\<close> column as its text, so the list of warnings is never falsy.\<close>

definition warnings_text :: "stored_match \<Rightarrow> string" where
  "warnings_text m = ''['' @ (if sm_warned m
      then json_string ''This 2B document was already accepted for ITC in another period.'' else '''') @ '']''"

definition create_workpaper :: "firm_context \<Rightarrow> nat \<Rightarrow> (gst_db, g2b_paper) op" where
  "create_workpaper firm run =
     othen (olift (require firm ''compliance.review''))
     (obind (oget (\<lambda>s. find (\<lambda>r. ir_id r = run \<and> ir_firm r = f_firm firm) (q_runs s))) (\<lambda>found.
      case found of
        None \<Rightarrow> oraise (HTTPException 404 ''Import run not found'')
      | Some r \<Rightarrow>
          obind (oget (\<lambda>s. filter (\<lambda>m. sm_run m = run) (q_matches s))) (\<lambda>rows.
          obind (oget (\<lambda>s. fold max (map gp_version (filter (\<lambda>p. gp_run p = run) (q_g2b_papers s))) 0 + 1)) (\<lambda>version.
          let paper = \<lparr> gp_run = run, gp_version = version, gp_items = length rows,
                gp_accepted = length (filter (\<lambda>m. sm_decision m = ''ACCEPTED'') rows),
                gp_unresolved = length (filter (\<lambda>m. sm_decision m = ''PENDING'' \<or> warnings_text m \<noteq> '''') rows) \<rparr>
          in othen (omod (\<lambda>s. s\<lparr>q_g2b_papers := q_g2b_papers s @ [paper]\<rparr>)) (oret paper)))))"

section \<open>Workpapers of a return\<close>

record prepare_request =
  pr_client :: string
  pr_period :: string
  pr_return :: string
  pr_adjustments :: "adjustment list"

definition adjustment_valid :: "adjustment \<Rightarrow> bool" where
  "adjustment_valid a = (3 \<le> length (ad_id a) \<and> length (ad_id a) \<le> 100 \<and> 2 \<le> length (ad_table a) \<and> length (ad_table a) \<le> 100
      \<and> ad_component a \<in> set COMPONENTS \<and> 3 \<le> length (ad_reason a) \<and> length (ad_reason a) \<le> 1000)"

definition request_valid :: "prepare_request \<Rightarrow> bool" where
  "request_valid req = (period_pattern (pr_period req) \<and> pr_return req \<in> {''GSTR1'', ''GSTR3B''}
      \<and> list_all adjustment_valid (pr_adjustments req))"

definition sale_dict :: "tax_entry \<Rightarrow> (string, pyval) dict" where
  "sale_dict e = [(''id'', VStr (g_id e)), (''source_version'', VStr (g_source_version e)), (''taxable_paise'', VInt (g_taxable e)),
     (''cgst_paise'', VInt (g_cgst e)), (''sgst_paise'', VInt (g_sgst e)), (''igst_paise'', VInt (g_igst e)),
     (''cess_paise'', VInt (g_other e)), (''total_paise'', VInt (g_total e)), (''customer_gstin'', VStr (g_gstin e)),
     (''place_of_supply'', case te_place e of None \<Rightarrow> VNone | Some p \<Rightarrow> VStr p)]"

text \<open>The lateral join: the latest match of the purchase, whatever run it is from, and the type of its document.\<close>

definition latest_match :: "gst_db \<Rightarrow> string \<Rightarrow> stored_match option" where
  "latest_match s pid = find (\<lambda>m. sm_purchase m = Some pid) (rev (q_matches s))"

definition purchase_dict :: "gst_db \<Rightarrow> tax_entry \<Rightarrow> (string, pyval) dict" where
  "purchase_dict s e =
     (let m = latest_match s (g_id e);
          doc = (case m of None \<Rightarrow> None | Some m \<Rightarrow>
                   (case sm_document m of None \<Rightarrow> None | Some i \<Rightarrow> find (\<lambda>d. sd_id d = i) (q_documents s)))
      in [(''id'', VStr (g_id e)), (''source_version'', VStr (g_source_version e)), (''taxable_paise'', VInt (g_taxable e)),
          (''cgst_paise'', VInt (g_cgst e)), (''sgst_paise'', VInt (g_sgst e)), (''igst_paise'', VInt (g_igst e)),
          (''cess_paise'', VInt 0), (''reverse_charge'', VBool (te_reverse e)),
          (''itc_classification'', case te_class e of None \<Rightarrow> VNone | Some c \<Rightarrow> VStr c),
          (''match_decision'', case m of None \<Rightarrow> VNone | Some m \<Rightarrow> VStr (sm_decision m)),
          (''ims_decision'', case m of None \<Rightarrow> VNone | Some m \<Rightarrow> VStr (sm_ims m)),
          (''document_type'', case doc of None \<Rightarrow> VNone | Some d \<Rightarrow> VStr (document_type (sd_doc d)))])"

definition reportable :: "string \<Rightarrow> string \<Rightarrow> string \<Rightarrow> tax_entry \<Rightarrow> bool" where
  "reportable firm cl period e = (g_firm e = firm \<and> g_client e = cl \<and> g_period e = period \<and> g_active e \<and> te_verified e)"

definition source_rows :: "string \<Rightarrow> string \<Rightarrow> string \<Rightarrow> string \<Rightarrow> gst_db \<Rightarrow> (workpaper_source list \<times> (string \<times> string) list) result" where
  "source_rows firm cl period return_type s =
     build_source_rows (map sale_dict (sort_key g_id (filter (reportable firm cl period) (q_sold s))))
       (if return_type = ''GSTR3B''
        then map (purchase_dict s) (sort_key g_id (filter (reportable firm cl period) (q_bought s))) else [])
       return_type"

text \<open>The rules in force in the month: \<open>$1::date + INTERVAL '1 month - 1 day'\<close> is its last day.\<close>

definition rules_in_force :: "string \<Rightarrow> gst_db \<Rightarrow> (string \<times> string) list result" where
  "rules_in_force period s =
     (if year_of period = 0 then Inl (DatabaseError ''date/time field value out of range'')
      else let first = Date (year_of period) (month_of period) 1;
               last_day = Date (year_of period) (month_of period) (days_in_month (year_of period) (month_of period))
           in Inr (map (\<lambda>r. (gr_key r, gr_version r))
                (filter (\<lambda>r. gr_from r \<le> last_day \<and> (case gr_to r of None \<Rightarrow> True | Some d \<Rightarrow> first \<le> d)) (q_rules s))))"

definition adjustment_value :: "adjustment \<Rightarrow> pyval" where
  "adjustment_value a = VDict [(''adjustment_id'', VStr (ad_id a)), (''table_key'', VStr (ad_table a)),
     (''component'', VStr (ad_component a)), (''amount_paise'', VInt (ad_amount a)), (''reason'', VStr (ad_reason a))]"

definition version_of :: "workpaper_source \<Rightarrow> string \<times> string \<times> string" where
  "version_of r = (ws_kind r, ws_id r, ws_version r)"

definition version_value :: "string \<times> string \<times> string \<Rightarrow> pyval" where
  "version_value v = VDict [(''kind'', VStr (fst v)), (''id'', VStr (fst (snd v))), (''version'', VStr (snd (snd v)))]"

definition source_hash_of :: "(string \<times> string \<times> string) list \<Rightarrow> adjustment list \<Rightarrow> string result" where
  "source_hash_of versions adjustments =
     rbind (json_sorted (VDict [(''sources'', VList (map version_value versions)),
                                (''adjustments'', VList (map adjustment_value adjustments))])) (\<lambda>j. Inr (sha256_hex j))"

definition same_return :: "string \<Rightarrow> prepare_request \<Rightarrow> workpaper \<Rightarrow> bool" where
  "same_return firm req w = (wp_firm w = firm \<and> wp_client w = pr_client req \<and> wp_period w = pr_period req
      \<and> wp_return w = pr_return req)"

definition adjustment_line :: "nat \<Rightarrow> adjustment \<Rightarrow> workpaper_source" where
  "adjustment_line version a =
     \<lparr> ws_table = ad_table a, ws_kind = ''REVIEWER_ADJUSTMENT'', ws_id = ad_id a, ws_version = nat_to_str version,
       ws_amount = ad_amount a, ws_treatment = ''REVIEWER_ADJUSTED'',
       ws_details = (case adjustment_value a of VDict kvs \<Rightarrow> kvs | _ \<Rightarrow> []) \<rparr>"

definition outdated :: "string \<Rightarrow> prepare_request \<Rightarrow> string \<Rightarrow> workpaper \<Rightarrow> bool" where
  "outdated firm req digest w = (same_return firm req w \<and> wp_approved_hash w \<noteq> None \<and> wp_hash w \<noteq> digest)"

definition mark_stale :: "workpaper \<Rightarrow> workpaper" where "mark_stale w = w\<lparr>wp_stale := True\<rparr>"

definition next_version :: "string \<Rightarrow> prepare_request \<Rightarrow> workpaper list \<Rightarrow> nat" where
  "next_version firm req ws = fold max (map wp_version (filter (same_return firm req) ws)) 0 + 1"

definition new_paper :: "firm_context \<Rightarrow> prepare_request \<Rightarrow> nat \<Rightarrow> nat \<Rightarrow> workpaper_source list \<Rightarrow> (string \<times> string) list
    \<Rightarrow> (string \<times> string) list \<Rightarrow> table_totals \<Rightarrow> string \<Rightarrow> workpaper" where
  "new_paper firm req pid version rows exceptions rules tables digest =
     \<lparr> wp_id = pid, wp_firm = f_firm firm, wp_client = pr_client req, wp_return = pr_return req,
       wp_period = pr_period req, wp_version = version,
       wp_status = (if rows \<noteq> [] \<and> rules \<noteq> [] \<and> exceptions = [] then WP_NEEDS_REVIEW else WP_DATA_REQUIRED),
       wp_sources = map version_of rows, wp_rules = rules, wp_adjustments = pr_adjustments req, wp_tables = tables,
       wp_exceptions = map (\<lambda>(c, i). (c, Some i)) exceptions
          @ (if rows = [] then [(''VERIFIED_REGISTER_EMPTY'', None)] else [])
          @ (if rules = [] then [(''EFFECTIVE_RULE_REQUIRED'', None)] else []),
       wp_hash = digest, wp_approved_hash = None, wp_stale = False, wp_prepared_by = f_user firm,
       wp_reviewed_by = None, wp_approved_at = None, wp_pack = None \<rparr>"

definition store_paper :: "workpaper \<Rightarrow> workpaper_source list \<Rightarrow> (gst_db, workpaper) op" where
  "store_paper w rows =
     othen (insert_paper w)
     (othen (oeach (insert_line (wp_id w)) rows)
     (othen (oeach (insert_line (wp_id w)) (map (adjustment_line (wp_version w)) (wp_adjustments w)))
       (oret w)))"

definition prepare :: "firm_context \<Rightarrow> prepare_request \<Rightarrow> (gst_db, workpaper) op" where
  "prepare firm req =
     (if \<not> request_valid req then oraise (HTTPException 422 ''Unprocessable request'')
      else othen (olift (require firm ''books.propose''))
     (transaction
       (obind (oget (source_rows (f_firm firm) (pr_client req) (pr_period req) (pr_return req))) (\<lambda>built.
        obind (olift built) (\<lambda>(rows, exceptions).
        obind (oget (rules_in_force (pr_period req))) (\<lambda>in_force.
        obind (olift in_force) (\<lambda>rules.
        obind (olift (source_hash_of (map version_of rows) (pr_adjustments req))) (\<lambda>digest.
        obind (update_papers (outdated (f_firm firm) req digest) mark_stale) (\<lambda>_.
        obind (oget (\<lambda>s. next_version (f_firm firm) req (q_papers s))) (\<lambda>version.
        obind (olift (summarize_tables rows (pr_adjustments req))) (\<lambda>tables.
        obind next_id (\<lambda>pid.
          store_paper (new_paper firm req pid version rows exceptions rules tables digest) rows))))))))))))"

definition approve_paper :: "firm_context \<Rightarrow> nat \<Rightarrow> (gst_db, workpaper) op" where
  "approve_paper firm pid =
     othen (olift (require firm ''compliance.review''))
     (obind (oget q_now) (\<lambda>t.
      obind (update_papers (\<lambda>w. wp_id w = pid \<and> wp_firm w = f_firm firm \<and> wp_status w = WP_NEEDS_REVIEW \<and> \<not> wp_stale w)
               (\<lambda>w. w\<lparr>wp_status := WP_APPROVED, wp_reviewed_by := Some (f_user firm), wp_approved_at := Some t,
                      wp_approved_hash := Some (wp_hash w)\<rparr>)) (\<lambda>hits.
      case hits of [] \<Rightarrow> oraise (HTTPException 409 ''Only a current reviewed workpaper can be approved'') | w # _ \<Rightarrow> oret w)))"

text \<open>\<open>ORDER BY table_key,source_kind,source_id\<close>.\<close>

definition schedule_order :: "workpaper_source list \<Rightarrow> workpaper_source list" where
  "schedule_order rows = sort_key ws_table (sort_key ws_kind (sort_key ws_id rows))"

definition lines_of :: "gst_db \<Rightarrow> nat \<Rightarrow> workpaper_source list" where
  "lines_of s pid = map snd (filter (\<lambda>pr. fst pr = pid) (q_lines s))"

definition make_pack :: "firm_context \<Rightarrow> nat \<Rightarrow> (gst_db, workpaper) op" where
  "make_pack firm pid =
     obind (oget (\<lambda>s. find (\<lambda>w. wp_id w = pid \<and> wp_firm w = f_firm firm) (q_papers s))) (\<lambda>found.
     case found of
       None \<Rightarrow> oraise (HTTPException 409 ''Approve a current workpaper first'')
     | Some w \<Rightarrow>
        if wp_status w \<noteq> WP_APPROVED \<or> wp_stale w then oraise (HTTPException 409 ''Approve a current workpaper first'')
        else obind (oget (\<lambda>s. schedule_order (lines_of s (wp_id w)))) (\<lambda>schedules.
             let pack = \<lparr> pk_tables = wp_tables w, pk_schedules = schedules, pk_exceptions = wp_exceptions w,
                          pk_versions = wp_sources w \<rparr>
             in obind (update_papers (\<lambda>x. wp_id x = wp_id w)
                    (\<lambda>x. x\<lparr>wp_status := WP_READY_FOR_MANUAL_FILING, wp_pack := Some pack\<rparr>)) (\<lambda>hits.
                case hits of [] \<Rightarrow> oraise TypeError | x # _ \<Rightarrow> oret x)))"

definition filed :: "firm_context \<Rightarrow> nat \<Rightarrow> (gst_db, workpaper) op" where
  "filed firm pid =
     obind (update_papers (\<lambda>w. wp_id w = pid \<and> wp_firm w = f_firm firm \<and> wp_status w = WP_READY_FOR_MANUAL_FILING)
              (\<lambda>w. w\<lparr>wp_status := WP_FILED_EXTERNALLY\<rparr>)) (\<lambda>hits.
     case hits of [] \<Rightarrow> oraise (HTTPException 409 ''Manual filing pack is not ready'') | w # _ \<Rightarrow> oret w)"

definition acknowledge :: "firm_context \<Rightarrow> nat \<Rightarrow> string \<Rightarrow> string \<Rightarrow> string \<Rightarrow> (gst_db, workpaper) op" where
  "acknowledge firm pid number filed_at evidence =
     (if \<not> (3 \<le> length number \<and> length number \<le> 200 \<and> 3 \<le> length evidence \<and> length evidence \<le> 1000)
      then oraise (HTTPException 422 ''Unprocessable request'')
      else transaction
       (obind (oget (\<lambda>s. list_ex (\<lambda>w. wp_id w = pid \<and> wp_firm w = f_firm firm \<and> wp_status w = WP_FILED_EXTERNALLY) (q_papers s))) (\<lambda>there.
        if \<not> there then oraise (HTTPException 409 ''Record external filing before acknowledgement'')
        else obind (oget (\<lambda>s. list_ex (\<lambda>a. ak_paper a = pid) (q_acks s))) (\<lambda>dup.
        if dup then oraise (DatabaseError ''duplicate key value'')
        else othen (omod (\<lambda>s. s\<lparr>q_acks := q_acks s @
               [\<lparr> ak_paper = pid, ak_firm = f_firm firm, ak_number = number, ak_filed_at = filed_at, ak_evidence = evidence,
                  ak_by = f_user firm \<rparr>]\<rparr>))
             (obind (update_papers (\<lambda>w. wp_id w = pid) (\<lambda>w. w\<lparr>wp_status := WP_ACKNOWLEDGEMENT_UPLOADED\<rparr>)) (\<lambda>_.
              obind (update_papers (\<lambda>w. wp_id w = pid) (\<lambda>w. w\<lparr>wp_status := WP_COMPLETED\<rparr>)) (\<lambda>hits.
              case hits of [] \<Rightarrow> oraise TypeError | w # _ \<Rightarrow> oret w)))))))"

section \<open>Rules\<close>

definition DEFAULT_GST_RULES :: "(string \<times> pydate) list" where
  "DEFAULT_GST_RULES = [(''GSTR1_BASE'', Date 2017 7 1), (''GSTR3B_BASE'', Date 2024 10 1)]"

definition activate_rule :: "string \<Rightarrow> string \<times> pydate \<Rightarrow> (gst_db, unit) op" where
  "activate_rule user rule = omod (\<lambda>s.
     if list_ex (\<lambda>r. gr_key r = fst rule \<and> gr_version r = ''firmos-2026.1'') (q_rules s)
     then s\<lparr>q_rules := map_where (\<lambda>r. gr_key r = fst rule \<and> gr_version r = ''firmos-2026.1'') (\<lambda>r. r\<lparr>gr_by := user\<rparr>) (q_rules s)\<rparr>
     else s\<lparr>q_rules := q_rules s @
        [\<lparr> gr_key = fst rule, gr_version = ''firmos-2026.1'', gr_from = snd rule, gr_to = None, gr_by = user \<rparr>]\<rparr>)"

definition activate_defaults :: "firm_context \<Rightarrow> (gst_db, unit) op" where
  "activate_defaults firm =
     othen (olift (require firm ''compliance.review''))
     (transaction (oeach (activate_rule (f_user firm)) DEFAULT_GST_RULES))"

end
