(* ===== verification/Gst_Filing.thy ===== *)
theory Gst_Filing
  imports Gst_Workpapers
begin

text \<open>
  The workpapers of GST returns as a state machine: every endpoint of the import runs, the decisions, the papers
  and their filing is a step, and so are the other components' writes to the registers, in any order. The invariant
  says that every paper can be traced to its recorded lines and that what is approved, packed, filed or completed
  was approved with the sources it has.
\<close>

section \<open>The invariant\<close>

definition traceable :: "workpaper_source list \<Rightarrow> workpaper \<Rightarrow> bool" where
  "traceable L w = (\<exists>rows. L = rows @ map (adjustment_line (wp_version w)) (wp_adjustments w)
      \<and> map version_of rows = wp_sources w
      \<and> source_hash_of (wp_sources w) (wp_adjustments w) = Inr (wp_hash w)
      \<and> summarize_tables rows (wp_adjustments w) = Inr (wp_tables w))"

definition packed :: "workpaper_source list \<Rightarrow> workpaper \<Rightarrow> bool" where
  "packed L w = (\<exists>pk. wp_pack w = Some pk \<and> pk_tables pk = wp_tables w \<and> mset (pk_schedules pk) = mset L
      \<and> pk_versions pk = wp_sources w)"

definition signed_off :: "workpaper \<Rightarrow> bool" where
  "signed_off w = (wp_approved_hash w = Some (wp_hash w) \<and> wp_approved_at w \<noteq> None \<and> wp_reviewed_by w \<noteq> None)"

definition has_pack :: "workpaper \<Rightarrow> bool" where "has_pack w = (wp_pack w \<noteq> None)"

definition paper_fine :: "workpaper_source list \<Rightarrow> bool \<Rightarrow> workpaper \<Rightarrow> bool" where
  "paper_fine L acked w =
     (traceable L w
      \<and> (wp_approved_hash w \<noteq> None \<or> wp_approved_at w \<noteq> None \<longrightarrow> signed_off w)
      \<and> (settled (wp_status w) \<longrightarrow> signed_off w \<and> \<not> wp_stale w)
      \<and> (wp_status w \<in> {WP_READY_FOR_MANUAL_FILING, WP_FILED_EXTERNALLY, WP_ACKNOWLEDGEMENT_UPLOADED, WP_COMPLETED}
          \<longrightarrow> packed L w)
      \<and> (has_pack w \<longrightarrow> signed_off w \<and> packed L w)
      \<and> (wp_status w \<in> {WP_ACKNOWLEDGEMENT_UPLOADED, WP_COMPLETED} \<longrightarrow> acked))"

definition acked :: "gst_db \<Rightarrow> nat \<Rightarrow> bool" where
  "acked s pid = (pid \<in> ak_paper ` set (q_acks s))"

text \<open>The acknowledgement belongs to a paper of its firm that has a pack.\<close>

definition acknowledges :: "workpaper list \<Rightarrow> acknowledgement \<Rightarrow> bool" where
  "acknowledges ws a = (\<exists>w\<in>set ws. wp_id w = ak_paper a \<and> wp_firm w = ak_firm a \<and> has_pack w)"

definition paper_key :: "workpaper \<Rightarrow> string \<times> string \<times> string \<times> string \<times> nat" where
  "paper_key w = (wp_firm w, wp_client w, wp_return w, wp_period w, wp_version w)"

definition gst_ok :: "gst_db \<Rightarrow> bool" where
  "gst_ok s =
     (distinct (map wp_id (q_papers s)) \<and> distinct (map paper_key (q_papers s))
      \<and> (\<forall>w\<in>set (q_papers s). wp_id w < q_fresh s \<and> paper_fine (lines_of s (wp_id w)) (acked s (wp_id w)) w)
      \<and> (\<forall>pr\<in>set (q_lines s). fst pr < q_fresh s)
      \<and> (\<forall>a\<in>set (q_acks s). acknowledges (q_papers s) a))"

section \<open>What the statements do\<close>

lemma update_papers_Inr:
  assumes "update_papers p f s = (Inr hits, s')"
  shows "s' = s\<lparr>q_papers := map_where p f (q_papers s)\<rparr>" and "hits = map f (filter p (q_papers s))"
    and "\<forall>w\<in>set (q_papers s). p w \<longrightarrow> paper_check (f w) = Inr (f w)"
proof -
  have check: "paper_check x = Inr y \<Longrightarrow> y = x" for x y by (auto simp: paper_check_def split: if_splits)
  obtain rows where u: "update_rows p (\<lambda>w. paper_check (f w)) (q_papers s) = Inr (rows, hits)" "s' = s\<lparr>q_papers := rows\<rparr>"
    using assms by (auto simp: update_papers_def split: sum.splits prod.splits)
  note e = update_rows_checked [where check = paper_check and f = f, OF u(1) check]
  show "s' = s\<lparr>q_papers := map_where p f (q_papers s)\<rparr>" and "hits = map f (filter p (q_papers s))"
    and "\<forall>w\<in>set (q_papers s). p w \<longrightarrow> paper_check (f w) = Inr (f w)"
    using e u(2) by simp_all
qed

lemma update_papers_pass:
  assumes "\<And>w. w \<in> set (q_papers s) \<Longrightarrow> p w \<Longrightarrow> paper_check (f w) = Inr (f w)"
  shows "update_papers p f s = (Inr (map f (filter p (q_papers s))), s\<lparr>q_papers := map_where p f (q_papers s)\<rparr>)"
  using update_rows_pass [of "q_papers s" p paper_check f] assms by (simp add: update_papers_def)

lemma update_papers_Inl: "update_papers p f s = (Inl e, s') \<Longrightarrow> s' = s"
  by (auto simp: update_papers_def split: sum.splits prod.splits)

definition core :: "workpaper \<Rightarrow> nat \<times> (string \<times> string \<times> string \<times> string \<times> nat)
    \<times> (string \<times> string \<times> string) list \<times> adjustment list \<times> table_totals \<times> string" where
  "core w = (wp_id w, paper_key w, wp_sources w, wp_adjustments w, wp_tables w, wp_hash w)"

lemma core_fields:
  "core w' = core w \<Longrightarrow> wp_id w' = wp_id w \<and> paper_key w' = paper_key w \<and> wp_version w' = wp_version w"
  by (simp add: core_def paper_key_def)

lemma traceable_core: "core w' = core w \<Longrightarrow> traceable L w' = traceable L w"
  by (simp add: traceable_def core_def paper_key_def)

lemma check_settled:
  assumes "paper_check w = Inr w" and "wp_approved_hash w \<noteq> None \<or> wp_approved_at w \<noteq> None \<longrightarrow> signed_off w" and "settled (wp_status w)"
  shows "signed_off w" and "\<not> wp_stale w"
  using assms by (cases "wp_approved_at w = None"; simp add: paper_check_def signed_off_def split: if_splits)+

lemma gst_ok_frame:
  assumes "gst_ok s" and "q_papers s' = q_papers s" "q_lines s' = q_lines s" "q_acks s' = q_acks s" "q_fresh s \<le> q_fresh s'"
  shows "gst_ok s'"
  using assms by (fastforce simp: gst_ok_def lines_of_def acked_def)

text \<open>A guarded update of papers keeps the invariant when it leaves what identifies a paper alone and each paper it
  changes is still fine, where the check constraint may be used.\<close>

lemma gst_ok_update:
  assumes "gst_ok s" and "update_papers p f s = (r, s')"
    and "\<And>w. core (f w) = core w \<and> (has_pack w \<longrightarrow> has_pack (f w))"
    and "\<And>w. w \<in> set (q_papers s) \<Longrightarrow> p w \<Longrightarrow> paper_fine (lines_of s (wp_id w)) (acked s (wp_id w)) w \<Longrightarrow>
           paper_check (f w) = Inr (f w) \<Longrightarrow>
           paper_fine (lines_of s (wp_id w)) (acked s (wp_id w)) (f w)"
  shows "gst_ok s'"
proof (cases r)
  case (Inl e)
  then show ?thesis using update_papers_Inl assms(1,2) by blast
next
  case (Inr hits)
  note u = update_papers_Inr [OF assms(2) [unfolded Inr]]
  have same: "map g (map_where p f ws) = map g ws" if "\<And>w. g (f w) = g w" for g :: "workpaper \<Rightarrow> 'b" and ws
    using that by (simp add: map_where_def)
  have ids: "map wp_id (map_where p f ws) = map wp_id ws" "map paper_key (map_where p f ws) = map paper_key ws" for ws
    using core_fields [OF conjunct1 [OF assms(3)]] by (simp_all add: same)
  have fine: "wp_id w' < q_fresh s \<and> paper_fine (lines_of s (wp_id w')) (acked s (wp_id w')) w'"
    if mem: "w' \<in> set (map_where p f (q_papers s))" for w'
  proof -
    obtain w where w: "w \<in> set (q_papers s)" "w' = (if p w then f w else w)" using mem by (auto simp: map_where_def)
    then have old: "wp_id w < q_fresh s" "paper_fine (lines_of s (wp_id w)) (acked s (wp_id w)) w"
      using assms(1) by (auto simp: gst_ok_def)
    show ?thesis
    proof (cases "p w")
      case True
      then have "paper_check (f w) = Inr (f w)" using u(3) w(1) by simp
      then have "paper_fine (lines_of s (wp_id w)) (acked s (wp_id w)) (f w)" using assms(4) [OF w(1) True old(2)] by blast
      then show ?thesis using core_fields [OF conjunct1 [OF assms(3)], of w] True w old by simp
    qed (use w old in simp)
  qed
  have acks: "acknowledges (map_where p f (q_papers s)) a" if a: "a \<in> set (q_acks s)" for a
  proof -
    obtain w where w: "w \<in> set (q_papers s)" "wp_id w = ak_paper a" "wp_firm w = ak_firm a" "has_pack w"
      using assms(1) a by (auto simp: gst_ok_def acknowledges_def)
    have "(if p w then f w else w) \<in> set (map_where p f (q_papers s))" using w(1) by (simp add: map_where_def)
    moreover have "wp_id (f w) = wp_id w" "wp_firm (f w) = wp_firm w" "has_pack (f w)"
      using assms(3) [of w] w(4) by (auto simp: core_def paper_key_def)
    ultimately show ?thesis using w unfolding acknowledges_def by (intro bexI [of _ "if p w then f w else w"]) simp_all
  qed
  show ?thesis using assms(1) u(1) fine acks by (simp add: gst_ok_def ids lines_of_def acked_def)
qed

lemma keeps_update_papers:
  assumes "\<And>w. core (f w) = core w \<and> (has_pack w \<longrightarrow> has_pack (f w))"
    and "\<And>L a w. p w \<Longrightarrow> paper_fine L a w \<Longrightarrow>
           paper_check (f w) = Inr (f w) \<Longrightarrow>
           paper_fine L a (f w)"
  shows "keeps gst_ok (update_papers p f)"
  unfolding keeps_def using gst_ok_update [OF _ surjective_pairing assms(1)] assms(2) by blast

lemma keeps_frame:
  assumes "\<And>s. q_papers (g s) = q_papers s" "\<And>s. q_lines (g s) = q_lines s" "\<And>s. q_acks (g s) = q_acks s"
    "\<And>s. q_fresh s \<le> q_fresh (g s)"
  shows "keeps gst_ok (omod g)"
  by (rule keeps_omod) (use assms in \<open>blast intro: gst_ok_frame\<close>)

lemma keeps_next_id [keeps_intros]: "keeps gst_ok next_id"
  by (auto simp: keeps_def next_id_def obind_def othen_def oget_def omod_def oret_def elim!: gst_ok_frame)

lemma fine_reopen: "paper_fine L a w \<Longrightarrow> paper_fine L a (reopen w)"
proof -
  have "traceable L (reopen w) = traceable L w" "signed_off (reopen w) = signed_off w" "wp_status (reopen w) = WP_NEEDS_REVIEW"
    "wp_approved_hash (reopen w) = wp_approved_hash w" "wp_approved_at (reopen w) = wp_approved_at w"
    "has_pack (reopen w) = has_pack w" "packed L (reopen w) = packed L w"
    by (simp_all add: reopen_def traceable_def signed_off_def packed_def has_pack_def)
  then show "paper_fine L a w \<Longrightarrow> paper_fine L a (reopen w)" by (simp add: paper_fine_def settled_def del: not_None_eq)
qed

lemma keeps_reopen [keeps_intros]:
  "keeps gst_ok (register_trigger e)" "keeps gst_ok (reopen_monthly firm cl period)"
  unfolding register_trigger_def reopen_monthly_def
  by (rule keeps_obind, rule keeps_update_papers, simp add: reopen_def core_def paper_key_def has_pack_def, rule fine_reopen, assumption,
      rule keeps_oret)+

section \<open>Every operation keeps the invariant\<close>

lemma keeps_write_sale: "keeps gst_ok (write_sale e)"
  unfolding write_sale_def by (intro keeps_intros keeps_frame) simp_all

lemma keeps_write_purchase: "keeps gst_ok (write_purchase e)"
  unfolding write_purchase_def by (intro keeps_intros keeps_frame) simp_all

lemma keeps_create_run: "keeps gst_ok (create_run firm cl period extension digest content)"
  unfolding create_run_def fill_run_def store_document_def store_match_def set_run_status_def Let_def
  by (intro keeps_intros keeps_frame) simp_all

lemma keeps_decide: "keeps gst_ok (decide firm mid decision ims)"
  unfolding decide_def by (intro keeps_intros keeps_frame) simp_all

lemma keeps_bulk_accept: "keeps gst_ok (bulk_accept firm run confirm)"
  unfolding bulk_accept_def accept_clean_def Let_def by (intro keeps_intros keeps_frame) simp_all

lemma keeps_create_workpaper: "keeps gst_ok (create_workpaper firm run)"
  unfolding create_workpaper_def Let_def by (intro keeps_intros keeps_frame) simp_all

lemma keeps_activate: "keeps gst_ok (activate_defaults firm)"
  unfolding activate_defaults_def activate_rule_def by (intro keeps_intros keeps_frame) simp_all

lemma traceable_update [simp]:
  "traceable L (w\<lparr>wp_status := st\<rparr>) = traceable L w" "traceable L (w\<lparr>wp_stale := b\<rparr>) = traceable L w"
  "traceable L (w\<lparr>wp_reviewed_by := u\<rparr>) = traceable L w" "traceable L (w\<lparr>wp_approved_at := t\<rparr>) = traceable L w"
  "traceable L (w\<lparr>wp_approved_hash := h\<rparr>) = traceable L w" "traceable L (w\<lparr>wp_pack := pk\<rparr>) = traceable L w"
  by (simp_all add: traceable_def)

lemma packed_update [simp]:
  "packed L (w\<lparr>wp_status := st\<rparr>) = packed L w" "packed L (w\<lparr>wp_stale := b\<rparr>) = packed L w"
  "packed L (w\<lparr>wp_reviewed_by := u\<rparr>) = packed L w" "packed L (w\<lparr>wp_approved_at := t\<rparr>) = packed L w"
  "packed L (w\<lparr>wp_approved_hash := h\<rparr>) = packed L w"
  by (simp_all add: packed_def)

lemma has_pack_update [simp]:
  "has_pack (w\<lparr>wp_status := st\<rparr>) = has_pack w" "has_pack (w\<lparr>wp_stale := b\<rparr>) = has_pack w"
  "has_pack (w\<lparr>wp_reviewed_by := u\<rparr>) = has_pack w" "has_pack (w\<lparr>wp_approved_at := t\<rparr>) = has_pack w"
  "has_pack (w\<lparr>wp_approved_hash := h\<rparr>) = has_pack w" "has_pack (w\<lparr>wp_pack := Some pk\<rparr>)"
  by (simp_all add: has_pack_def)

lemma packed_has_pack: "packed L w \<Longrightarrow> has_pack w"
  by (auto simp: packed_def has_pack_def)

lemma signed_off_update [simp]: "signed_off (w\<lparr>wp_status := st\<rparr>) = signed_off w" "signed_off (w\<lparr>wp_pack := pk\<rparr>) = signed_off w"
  by (simp_all add: signed_off_def)

lemmas paper_simps = core_def paper_key_def paper_fine_def settled_def

lemma keeps_approve_paper: "keeps gst_ok (approve_paper firm pid)"
  unfolding approve_paper_def
proof (rule keeps_othen, rule keeps_olift, rule keeps_obind, rule keeps_oget, rule keeps_obind, rule keeps_update_papers)
  fix t L a and w :: workpaper
  let ?w = "w\<lparr>wp_status := WP_APPROVED, wp_reviewed_by := Some (f_user firm), wp_approved_at := Some t,
      wp_approved_hash := Some (wp_hash w)\<rparr>"
  assume "wp_id w = pid \<and> wp_firm w = f_firm firm \<and> wp_status w = WP_NEEDS_REVIEW \<and> \<not> wp_stale w" and "paper_fine L a w"
  moreover have "signed_off ?w" by (simp add: signed_off_def)
  ultimately show "paper_fine L a ?w" unfolding paper_fine_def by (simp add: settled_def del: not_None_eq)
qed (simp add: core_def paper_key_def, intro keeps_intros)

lemma keeps_filed: "keeps gst_ok (filed firm pid)"
  unfolding filed_def
proof (rule keeps_obind, rule keeps_update_papers)
  fix L a w assume "wp_id w = pid \<and> wp_firm w = f_firm firm \<and> wp_status w = WP_READY_FOR_MANUAL_FILING" "paper_fine L a w"
  then show "paper_fine L a (w\<lparr>wp_status := WP_FILED_EXTERNALLY\<rparr>)" by (auto simp: paper_simps)
qed (simp add: core_def paper_key_def, intro keeps_intros)

lemma find_paper:
  assumes "gst_ok s" and "find P (q_papers s) = Some w"
  shows "w \<in> set (q_papers s)" and "P w" and "\<And>x. x \<in> set (q_papers s) \<Longrightarrow> wp_id x = wp_id w \<Longrightarrow> x = w"
proof -
  show m: "w \<in> set (q_papers s)" and "P w" using assms(2) by (auto simp: find_Some_iff)
  show "x = w" if "x \<in> set (q_papers s)" "wp_id x = wp_id w" for x
    using assms(1) m that by (auto simp: gst_ok_def distinct_map dest: inj_onD)
qed

lemma mset_schedule_order [simp]: "mset (schedule_order rows) = mset rows"
  by (simp add: schedule_order_def)

lemma keeps_make_pack: "keeps gst_ok (make_pack firm pid)"
  unfolding keeps_def
proof (intro allI impI)
  fix s assume ok: "gst_ok s"
  show "gst_ok (snd (make_pack firm pid s))"
  proof (cases "find (\<lambda>w. wp_id w = pid \<and> wp_firm w = f_firm firm) (q_papers s)")
    case None
    then show ?thesis using ok by (simp add: make_pack_def op_simps)
  next
    case (Some w)
    note w = find_paper [OF ok Some]

    define pack where "pack = \<lparr> pk_tables = wp_tables w, pk_schedules = schedule_order (lines_of s (wp_id w)),
        pk_exceptions = wp_exceptions w, pk_versions = wp_sources w \<rparr>"
    have "gst_ok (snd (update_papers (\<lambda>x. wp_id x = wp_id w)
                    (\<lambda>x. x\<lparr>wp_status := WP_READY_FOR_MANUAL_FILING, wp_pack := Some pack\<rparr>) s))"
    proof (rule gst_ok_update [OF ok surjective_pairing])
      fix x assume x: "x \<in> set (q_papers s)" "wp_id x = wp_id w"
        and "paper_fine (lines_of s (wp_id x)) (acked s (wp_id x)) x"
      then have "x = w" using w(3) by blast
      then show "paper_fine (lines_of s (wp_id x)) (acked s (wp_id x)) (x\<lparr>wp_status := WP_READY_FOR_MANUAL_FILING, wp_pack := Some pack\<rparr>)"
        if "paper_check (x\<lparr>wp_status := WP_READY_FOR_MANUAL_FILING, wp_pack := Some pack\<rparr>) = Inr (x\<lparr>wp_status := WP_READY_FOR_MANUAL_FILING, wp_pack := Some pack\<rparr>)"
        using \<open>paper_fine _ _ x\<close> check_settled [OF that] \<open>x = w\<close>
        by (simp add: paper_fine_def settled_def) (simp add: packed_def pack_def)
    qed (simp add: core_def paper_key_def)
    then show ?thesis using ok Some
      by (auto simp: make_pack_def op_simps pack_def obind_def Let_def split: prod.split sum.split list.split)
  qed
qed

text \<open>The endpoint of the acknowledgement runs on the paper it found filed: both updates hit that paper only.\<close>

lemma keeps_acknowledge: "keeps gst_ok (acknowledge firm pid number filed_at evidence)"
  unfolding keeps_def
proof (intro allI impI)
  fix s assume ok: "gst_ok s"
  show "gst_ok (snd (acknowledge firm pid number filed_at evidence s))"
  proof (cases "(3 \<le> length number \<and> length number \<le> 200 \<and> 3 \<le> length evidence \<and> length evidence \<le> 1000)
      \<and> list_ex (\<lambda>w. wp_id w = pid \<and> wp_firm w = f_firm firm \<and> wp_status w = WP_FILED_EXTERNALLY) (q_papers s)
      \<and> \<not> list_ex (\<lambda>a. ak_paper a = pid) (q_acks s)")
    case False
    then show ?thesis using ok by (auto simp: acknowledge_def transaction_def op_simps)
  next
    case True
    then obtain w where w: "w \<in> set (q_papers s)" "wp_id w = pid" "wp_status w = WP_FILED_EXTERNALLY" "wp_firm w = f_firm firm"
      by (auto simp: list_ex_iff)
    define ak where "ak = \<lparr> ak_paper = pid, ak_firm = f_firm firm, ak_number = number, ak_filed_at = filed_at,
        ak_evidence = evidence, ak_by = f_user firm \<rparr>"
    define t where "t = s\<lparr>q_acks := q_acks s @ [ak]\<rparr>"
    have fine_t: "paper_fine (lines_of t (wp_id x)) (acked t (wp_id x)) x" if "x \<in> set (q_papers t)" for x
      using ok that by (auto simp: gst_ok_def t_def lines_of_def acked_def paper_fine_def)
    have "packed (lines_of s (wp_id w)) w" using ok w by (auto simp: gst_ok_def paper_fine_def)
    then have "acknowledges (q_papers s) ak" using w packed_has_pack unfolding acknowledges_def by (auto simp: ak_def)
    then have "gst_ok t" using ok fine_t by (auto simp: gst_ok_def t_def lines_of_def)
    define I where "I = (\<lambda>u. gst_ok u \<and> acked u pid \<and> (\<forall>x\<in>set (q_papers u). wp_id x = pid \<longrightarrow> packed (lines_of u pid) x))"
    have "I t" using \<open>gst_ok t\<close> w fine_t ok
      by (auto simp: I_def t_def acked_def ak_def gst_ok_def distinct_map paper_fine_def dest: inj_onD)
    have keep: "keeps I (update_papers (\<lambda>x. wp_id x = pid) (\<lambda>x. x\<lparr>wp_status := st\<rparr>))" for st
      unfolding keeps_def
    proof (intro allI impI)
      fix u assume u: "I u"
      obtain r u' where run: "update_papers (\<lambda>x. wp_id x = pid) (\<lambda>x. x\<lparr>wp_status := st\<rparr>) u = (r, u')" by fastforce
      have "gst_ok u'"
      proof (rule gst_ok_update [OF _ run])
        show "gst_ok u" using u by (simp add: I_def)
        fix x assume x: "x \<in> set (q_papers u)" "wp_id x = pid" "paper_fine (lines_of u (wp_id x)) (acked u (wp_id x)) x"
          and "paper_check (x\<lparr>wp_status := st\<rparr>) = Inr (x\<lparr>wp_status := st\<rparr>)"
        then show "paper_fine (lines_of u (wp_id x)) (acked u (wp_id x)) (x\<lparr>wp_status := st\<rparr>)"
          using u check_settled [of "x\<lparr>wp_status := st\<rparr>"] by (simp add: I_def paper_fine_def)
      qed (simp add: core_def paper_key_def)
      moreover have "u' = u \<or> u' = u\<lparr>q_papers := map_where (\<lambda>x. wp_id x = pid) (\<lambda>x. x\<lparr>wp_status := st\<rparr>) (q_papers u)\<rparr>"
        using run update_papers_Inr(1) update_papers_Inl by (cases r) blast+
      ultimately show "I (snd (update_papers (\<lambda>x. wp_id x = pid) (\<lambda>x. x\<lparr>wp_status := st\<rparr>) u))"
        using u by (auto simp: run I_def acked_def lines_of_def map_where_def)
    qed
    have "keeps I (obind (update_papers (\<lambda>w. wp_id w = pid) (\<lambda>w. w\<lparr>wp_status := WP_ACKNOWLEDGEMENT_UPLOADED\<rparr>)) (\<lambda>_.
              obind (update_papers (\<lambda>w. wp_id w = pid) (\<lambda>w. w\<lparr>wp_status := WP_COMPLETED\<rparr>)) (\<lambda>hits.
              case hits of [] \<Rightarrow> oraise TypeError | w # _ \<Rightarrow> oret w)))"
      by (intro keeps_obind keep keeps_case_list keeps_oraise keeps_oret)
    then show ?thesis using True ok \<open>I t\<close>
      by (auto simp: acknowledge_def transaction_def op_simps keeps_def I_def t_def [symmetric] ak_def [symmetric]
          split: prod.split sum.split)
  qed
qed

text \<open>The statements of the preparation, as what they leave behind.\<close>

lemma insert_lines:
  "oeach (insert_line pid) rows s = (Inr (), s') \<Longrightarrow> s' = s\<lparr>q_lines := q_lines s @ map (Pair pid) rows\<rparr>"
proof (induction rows arbitrary: s)
  case (Cons r rows)
  obtain x s1 where s1: "insert_line pid r s = (Inr x, s1)" "oeach (insert_line pid) rows s1 = (Inr (), s')"
    using Cons.prems by (auto elim: othen_InrE)
  obtain dup where "(if dup then oraise (DatabaseError ''duplicate key value'')
     else if length (ws_table r) > 50 then oraise (DatabaseError ''value too long for type character varying(50)'')
     else omod (\<lambda>s. s\<lparr>q_lines := q_lines s @ [(pid, r)]\<rparr>)) s = (Inr x, s1)"
    using s1(1) unfolding insert_line_def by (simp only: op_simps)
  then have "s1 = s\<lparr>q_lines := q_lines s @ [(pid, r)]\<rparr>"
    by (simp add: op_simps split: if_splits)
  then show ?case using Cons.IH [OF s1(2)] by simp
qed (simp add: oret_def)

lemma fold_max_ge: "x \<in> set xs \<or> x \<le> n \<Longrightarrow> (x::nat) \<le> fold max xs n"
proof (induction xs arbitrary: n)
  case (Cons y ys)
  then have "x \<in> set ys \<or> x \<le> max y n" by auto
  then show ?case using Cons.IH by simp
qed simp

lemma version_is_new: "w \<in> set ws \<Longrightarrow> same_return firm req w \<Longrightarrow> wp_version w < next_version firm req ws"
  unfolding next_version_def Suc_eq_plus1 [symmetric] by (intro le_imp_less_Suc fold_max_ge) simp

lemma store_paper_effect:
  assumes "store_paper w rows s = (Inr w', s')"
  shows "w' = w" and "paper_check w = Inr w"
    and "s' = s\<lparr>q_papers := q_papers s @ [w],
           q_lines := q_lines s @ map (Pair (wp_id w)) (rows @ map (adjustment_line (wp_version w)) (wp_adjustments w))\<rparr>"
proof -
  obtain s1 s2 u1 u2 u3 where i: "insert_paper w s = (Inr u1, s1)" "oeach (insert_line (wp_id w)) rows s1 = (Inr u2, s2)"
      "oeach (insert_line (wp_id w)) (map (adjustment_line (wp_version w)) (wp_adjustments w)) s2 = (Inr u3, s')" "w' = w"
    using assms unfolding store_paper_def by (auto elim!: othen_InrE simp: oret_Inr)
  have s1: "paper_check w = Inr w" "s1 = s\<lparr>q_papers := q_papers s @ [w]\<rparr>"
    using i(1) by (auto simp: insert_paper_def obind_Inr olift_Inr omod_Inr paper_check_def split: if_splits)
  show "w' = w" "paper_check w = Inr w" using i s1 by simp_all
  show "s' = s\<lparr>q_papers := q_papers s @ [w],
           q_lines := q_lines s @ map (Pair (wp_id w)) (rows @ map (adjustment_line (wp_version w)) (wp_adjustments w))\<rparr>"
    using insert_lines [OF i(2) [unfolded unit_eq [of u2]]] insert_lines [OF i(3) [unfolded unit_eq [of u3]]] s1 by simp
qed

lemma prepare_effect:
  assumes "prepare firm req s = (Inr w, s')"
  obtains rows exceptions rules digest tables version
  where "request_valid req" and "''books.propose'' \<in> set (f_permissions firm)"
    and "source_rows (f_firm firm) (pr_client req) (pr_period req) (pr_return req) s = Inr (rows, exceptions)"
    and "source_hash_of (map version_of rows) (pr_adjustments req) = Inr digest"
    and "summarize_tables rows (pr_adjustments req) = Inr tables"
    and "\<forall>x\<in>set (q_papers s). outdated (f_firm firm) req digest x \<longrightarrow> paper_check (mark_stale x) = Inr (mark_stale x)"
    and "version = next_version (f_firm firm) req (map_where (outdated (f_firm firm) req digest) mark_stale (q_papers s))"
    and "w = new_paper firm req (q_fresh s) version rows exceptions rules tables digest"
    and "s' = s\<lparr>q_fresh := Suc (q_fresh s),
           q_papers := map_where (outdated (f_firm firm) req digest) mark_stale (q_papers s) @ [w],
           q_lines := q_lines s @ map (Pair (q_fresh s)) (rows @ map (adjustment_line version) (pr_adjustments req))\<rparr>"
proof -
  have valid: "request_valid req" using assms by (auto simp: prepare_def split: if_splits)
  have perm: "''books.propose'' \<in> set (f_permissions firm)"
    using assms valid by (auto simp: prepare_def othen_def obind_Inr olift_Inr require_def split: if_splits)
  obtain rows exceptions rules digest hits s1 tables where
      1: "source_rows (f_firm firm) (pr_client req) (pr_period req) (pr_return req) s = Inr (rows, exceptions)"
         "source_hash_of (map version_of rows) (pr_adjustments req) = Inr digest"
         "update_papers (outdated (f_firm firm) req digest) mark_stale s = (Inr hits, s1)"
         "summarize_tables rows (pr_adjustments req) = Inr tables"
    and 2: "store_paper (new_paper firm req (q_fresh s1) (next_version (f_firm firm) req (q_papers s1)) rows exceptions rules tables digest) rows
         (s1\<lparr>q_fresh := Suc (q_fresh s1)\<rparr>) = (Inr w, s')"
    using assms valid
    by (auto simp: prepare_def othen_def obind_Inr olift_Inr oget_Inr transaction_Inr next_id_def omod_Inr oret_Inr)
  note u = update_papers_Inr [OF 1(3)] and st = store_paper_effect [OF 2]
  show thesis
    by (rule that [OF valid perm 1(1,2,4), where version = "next_version (f_firm firm) req (q_papers s1)" and rules = rules])
       (use u st in \<open>simp_all add: new_paper_def\<close>)
qed

lemma lines_of_append:
  "lines_of (s\<lparr>q_lines := q_lines s @ map (Pair pid) rows\<rparr>) i = lines_of s i @ (if i = pid then rows else [])"
  by (auto simp: lines_of_def filter_map comp_def)

lemma no_lines_yet: "gst_ok s \<Longrightarrow> q_fresh s \<le> pid \<Longrightarrow> lines_of s pid = []"
  by (fastforce simp: gst_ok_def lines_of_def filter_empty_conv)

lemma keeps_mark_stale: "keeps gst_ok (update_papers p mark_stale)"
proof (rule keeps_update_papers)
  fix L a w assume "paper_fine L a w"
    and "paper_check (mark_stale w) = Inr (mark_stale w)"
  moreover have "signed_off (mark_stale w) = signed_off w" by (simp add: signed_off_def mark_stale_def)
  ultimately show "paper_fine L a (mark_stale w)"
    using check_settled [of "mark_stale w"] by (simp add: paper_fine_def mark_stale_def) blast
qed (simp add: core_def paper_key_def mark_stale_def)

lemma gst_ok_prepare:
  assumes ok: "gst_ok s" and run: "prepare firm req s = (Inr w, s')"
  shows "gst_ok s'"
proof (rule prepare_effect [OF run])
  fix rows exceptions rules digest tables version
  assume hash: "source_hash_of (map version_of rows) (pr_adjustments req) = Inr digest"
    and tables: "summarize_tables rows (pr_adjustments req) = Inr tables"
    and checks: "\<forall>x\<in>set (q_papers s). outdated (f_firm firm) req digest x \<longrightarrow> paper_check (mark_stale x) = Inr (mark_stale x)"
    and version: "version = next_version (f_firm firm) req (map_where (outdated (f_firm firm) req digest) mark_stale (q_papers s))"
    and w: "w = new_paper firm req (q_fresh s) version rows exceptions rules tables digest"
    and s': "s' = s\<lparr>q_fresh := Suc (q_fresh s),
           q_papers := map_where (outdated (f_firm firm) req digest) mark_stale (q_papers s) @ [w],
           q_lines := q_lines s @ map (Pair (q_fresh s)) (rows @ map (adjustment_line version) (pr_adjustments req))\<rparr>"
  define s1 where "s1 = s\<lparr>q_papers := map_where (outdated (f_firm firm) req digest) mark_stale (q_papers s)\<rparr>"
  have "update_papers (outdated (f_firm firm) req digest) mark_stale s
      = (Inr (map mark_stale (filter (outdated (f_firm firm) req digest) (q_papers s))), s1)"
    unfolding s1_def by (rule update_papers_pass) (use checks in blast)
  then have ok1: "gst_ok s1" using keepsD [OF keeps_mark_stale ok] by blast
  have s'': "s' = s1\<lparr>q_fresh := Suc (q_fresh s1), q_papers := q_papers s1 @ [w],
      q_lines := q_lines s1 @ map (Pair (q_fresh s1)) (rows @ map (adjustment_line version) (pr_adjustments req))\<rparr>"
    by (simp add: s' s1_def)
  have lines: "lines_of s' i = lines_of s1 i @ (if i = q_fresh s1 then rows @ map (adjustment_line version) (pr_adjustments req) else [])" for i
    using lines_of_append [of s1 "q_fresh s1" _ i] by (simp add: s'' lines_of_def)
  have fr: "q_fresh s1 = q_fresh s" by (simp add: s1_def)
  have wid: "wp_id w = q_fresh s1" "wp_version w = version" by (simp_all add: w new_paper_def s1_def)
  have "paper_fine (lines_of s' (wp_id w)) (acked s' (wp_id w)) w"
    using hash tables no_lines_yet [OF ok1, of "q_fresh s1"]
    by (auto simp: lines wid paper_fine_def w new_paper_def settled_def traceable_def has_pack_def fr intro!: exI [of _ rows])
  moreover have "paper_key x \<noteq> paper_key w" if x: "x \<in> set (q_papers s1)" for x
  proof
    assume "paper_key x = paper_key w"
    then have "same_return (f_firm firm) req x" "wp_version x = version"
      using wid by (auto simp: paper_key_def w new_paper_def same_return_def)
    then show False using version_is_new [of x "q_papers s1" "f_firm firm" req] x version by (simp add: s1_def)
  qed
  moreover have "wp_id x < q_fresh s1" "paper_fine (lines_of s' (wp_id x)) (acked s' (wp_id x)) x" if "x \<in> set (q_papers s1)" for x
  proof -
    have "acked s' = acked s1" by (simp add: acked_def [abs_def] s'')
    then show "wp_id x < q_fresh s1" "paper_fine (lines_of s' (wp_id x)) (acked s' (wp_id x)) x"
      using ok1 that by (auto simp: gst_ok_def lines)
  qed
  moreover have "\<forall>a\<in>set (q_acks s'). acknowledges (q_papers s1 @ [w]) a"
    using ok1 by (auto simp: s'' gst_ok_def acknowledges_def)
  moreover have "q_papers s' = q_papers s1 @ [w]" "q_fresh s' = Suc (q_fresh s1)"
      "\<forall>pr\<in>set (q_lines s'). fst pr < Suc (q_fresh s1)"
    using ok1 by (auto simp: s'' gst_ok_def less_SucI)
  ultimately show "gst_ok s'" using ok1 wid unfolding gst_ok_def
    by (auto simp: less_Suc_eq) (metis image_eqI less_irrefl)+
qed

lemma prepare_Inl: "prepare firm req s = (Inl e, s') \<Longrightarrow> s' = s"
  by (auto simp: prepare_def othen_def obind_def olift_def oraise_def transaction_def split: if_splits prod.splits sum.splits)

lemma keeps_prepare: "keeps gst_ok (prepare firm req)"
  unfolding keeps_def
proof (intro allI impI)
  fix s assume ok: "gst_ok s"
  obtain r s' where run: "prepare firm req s = (r, s')" by fastforce
  show "gst_ok (snd (prepare firm req s))"
  proof (cases r)
    case (Inl e)
    then show ?thesis using ok run prepare_Inl by fastforce
  qed (use gst_ok_prepare [OF ok] run in simp)
qed

section \<open>The state machine\<close>

inductive gst_step :: "gst_db \<Rightarrow> gst_db \<Rightarrow> bool" where
  sale_written: "gst_step s (snd (write_sale e s))"
| purchase_written: "gst_step s (snd (write_purchase e s))"
| run_created: "gst_step s (snd (create_run firm cl period extension digest content s))"
| match_decided: "gst_step s (snd (decide firm mid decision ims s))"
| bulk_accepted: "gst_step s (snd (bulk_accept firm run confirm s))"
| run_reported: "gst_step s (snd (create_workpaper firm run s))"
| rules_activated: "gst_step s (snd (activate_defaults firm s))"
| paper_prepared: "gst_step s (snd (prepare firm req s))"
| paper_approved: "gst_step s (snd (approve_paper firm pid s))"
| paper_packed: "gst_step s (snd (make_pack firm pid s))"
| paper_filed: "gst_step s (snd (filed firm pid s))"
| paper_acknowledged: "gst_step s (snd (acknowledge firm pid number filed_at evidence s))"
| time_passes: "q_now s \<le> t \<Longrightarrow> gst_step s (s\<lparr>q_now := t\<rparr>)"
| clients_change: "gst_step s (s\<lparr>q_clients := cs\<rparr>)"

lemma gst_step_keeps: "gst_step s s' \<Longrightarrow> gst_ok s \<Longrightarrow> gst_ok s'"
proof (induction rule: gst_step.induct)
  case (time_passes s t)
  then show ?case by (auto intro: gst_ok_frame [of s])
next
  case (clients_change s cs)
  then show ?case by (auto intro: gst_ok_frame [of s])
qed (erule keeps_snd [rotated], rule keeps_write_sale keeps_write_purchase keeps_create_run keeps_decide keeps_bulk_accept
      keeps_create_workpaper keeps_activate keeps_prepare keeps_approve_paper keeps_make_pack keeps_filed keeps_acknowledge)+

interpretation gst: state_machine gst_step gst_ok
  by unfold_locales (rule gst_step_keeps)

lemma gst_ok_start: "q_papers s = [] \<Longrightarrow> q_lines s = [] \<Longrightarrow> q_acks s = [] \<Longrightarrow> gst_ok s"
  by (simp add: gst_ok_def)

lemma paper_fine_facts:
  assumes "paper_fine L (acked s (wp_id w)) w"
  shows "traceable L w
    \<and> (settled (wp_status w) \<longrightarrow> signed_off w \<and> \<not> wp_stale w)
    \<and> (wp_status w \<in> {WP_READY_FOR_MANUAL_FILING, WP_FILED_EXTERNALLY, WP_COMPLETED} \<longrightarrow> has_pack w)
    \<and> (has_pack w \<longrightarrow> signed_off w \<and> packed L w)
    \<and> (wp_status w = WP_COMPLETED \<longrightarrow> (\<exists>a\<in>set (q_acks s). ak_paper a = wp_id w))"
proof -
  have "settled (wp_status w) \<Longrightarrow> signed_off w" "settled (wp_status w) \<Longrightarrow> \<not> wp_stale w" "traceable L w"
    and "wp_status w = WP_COMPLETED \<Longrightarrow> acked s (wp_id w)" and "has_pack w \<Longrightarrow> signed_off w \<and> packed L w"
    and p: "wp_status w \<in> {WP_READY_FOR_MANUAL_FILING, WP_FILED_EXTERNALLY, WP_COMPLETED} \<Longrightarrow> packed L w"
    using assms by (auto simp: paper_fine_def)
  moreover have "acked s (wp_id w) \<Longrightarrow> \<exists>a\<in>set (q_acks s). ak_paper a = wp_id w" by (fastforce simp: acked_def)
  ultimately show ?thesis using packed_has_pack [of L w] by blast
qed

text \<open>C33. Whatever is imported, decided, prepared, approved and filed, in any order: the tables of every workpaper are
  the totals of the lines recorded with it and its hash is that of its sources and adjustments; a paper that is
  approved, packed, filed or completed was approved by a reviewer, at a recorded time and with exactly that hash, and is not
  stale; from the packing on it has a pack, and every pack, also that of a paper that was taken back to review, belongs to a paper that was approved with its hash and holds its own
  tables and all of its lines; a completed paper has an acknowledgement, and every acknowledgement belongs to a paper of its firm
  that was approved with its hash and packed.\<close>

theorem workpapers_traceable:
  assumes "q_papers s = []" and "q_lines s = []" and "q_acks s = []" and "gst_step\<^sup>*\<^sup>* s s'"
  shows "(\<forall>w\<in>set (q_papers s'). traceable (lines_of s' (wp_id w)) w
      \<and> (settled (wp_status w) \<longrightarrow> signed_off w \<and> \<not> wp_stale w)
      \<and> (wp_status w \<in> {WP_READY_FOR_MANUAL_FILING, WP_FILED_EXTERNALLY, WP_COMPLETED} \<longrightarrow> has_pack w)
      \<and> (has_pack w \<longrightarrow> signed_off w \<and> packed (lines_of s' (wp_id w)) w)
      \<and> (wp_status w = WP_COMPLETED \<longrightarrow> (\<exists>a\<in>set (q_acks s'). ak_paper a = wp_id w)))
    \<and> (\<forall>a\<in>set (q_acks s'). \<exists>w\<in>set (q_papers s'). wp_id w = ak_paper a \<and> wp_firm w = ak_firm a
         \<and> signed_off w \<and> packed (lines_of s' (wp_id w)) w)"
proof -
  have ok: "gst_ok s'" using gst.run_keeps [OF assms(4)] gst_ok_start assms(1-3) by blast
  have fine: "paper_fine (lines_of s' (wp_id w)) (acked s' (wp_id w)) w" if "w \<in> set (q_papers s')" for w
    using ok that by (simp add: gst_ok_def)
  have "\<exists>w\<in>set (q_papers s'). wp_id w = ak_paper a \<and> wp_firm w = ak_firm a \<and> signed_off w \<and> packed (lines_of s' (wp_id w)) w"
    if a: "a \<in> set (q_acks s')" for a
  proof -
    obtain w where w: "w \<in> set (q_papers s')" "wp_id w = ak_paper a" "wp_firm w = ak_firm a" "has_pack w"
      using ok a by (auto simp: gst_ok_def acknowledges_def)
    then show ?thesis using fine [OF w(1)] by (intro bexI [of _ w]) (simp_all add: paper_fine_def)
  qed
  then show ?thesis using paper_fine_facts [OF fine] by blast
qed

section \<open>Changes of the registers\<close>

lemma reopen_passes: "paper_check (reopen w) = Inr (reopen w)"
  by (simp add: paper_check_def reopen_def settled_def)

lemma write_purchase_effect:
  "write_purchase e s = (Inr (), s\<lparr>q_bought := put_entry e (q_bought s),
     q_papers := map_where (on_the_desk (g_firm e) (g_client e) (g_period e)) reopen (q_papers s)\<rparr>)"
  by (simp add: write_purchase_def register_trigger_def transaction_def othen_def obind_def omod_def oret_def
      update_papers_pass reopen_passes)

text \<open>C0. Writing a purchase always succeeds and takes every approved or packed workpaper of its client and period back
  to review, marked stale, so that no such paper can be filed any more; every other paper is left as it is.\<close>

theorem register_change_reopens:
  "\<exists>s'. write_purchase e s = (Inr (), s')
     \<and> (\<forall>w\<in>set (q_papers s'). \<not> on_the_desk (g_firm e) (g_client e) (g_period e) w)
     \<and> (\<forall>w\<in>set (q_papers s). \<not> on_the_desk (g_firm e) (g_client e) (g_period e) w \<longrightarrow> w \<in> set (q_papers s'))
     \<and> (\<forall>w\<in>set (q_papers s). on_the_desk (g_firm e) (g_client e) (g_period e) w \<longrightarrow>
          w\<lparr>wp_stale := True, wp_status := WP_NEEDS_REVIEW\<rparr> \<in> set (q_papers s'))"
  unfolding write_purchase_effect by (auto simp: map_where_def on_the_desk_def reopen_def image_iff)

text \<open>C0. A paper still under review is not marked: whatever happens to the registers after it was prepared, a reviewer can
  approve it afterwards, with the sources it was prepared from, and it is not stale. (The approval does not compare
  the hash with the registers.)\<close>

theorem outdated_paper_approvable:
  assumes "gst_ok s" and "w \<in> set (q_papers s)" and "wp_status w = WP_NEEDS_REVIEW" and "\<not> wp_stale w"
    and "wp_firm w = f_firm firm" and "''compliance.review'' \<in> set (f_permissions firm)"
  shows "\<exists>s1 w' s2. write_purchase e s = (Inr (), s1) \<and> approve_paper firm (wp_id w) s1 = (Inr w', s2)
     \<and> wp_status w' = WP_APPROVED \<and> \<not> wp_stale w' \<and> wp_sources w' = wp_sources w \<and> wp_tables w' = wp_tables w"
proof -
  let ?s1 = "snd (write_purchase e s)"
  let ?p = "\<lambda>x. wp_id x = wp_id w \<and> wp_firm x = f_firm firm \<and> wp_status x = WP_NEEDS_REVIEW \<and> \<not> wp_stale x"
  let ?f = "\<lambda>x. x\<lparr>wp_status := WP_APPROVED, wp_reviewed_by := Some (f_user firm), wp_approved_at := Some (q_now s),
      wp_approved_hash := Some (wp_hash x)\<rparr>"
  have "w \<in> set (q_papers ?s1)"
    using assms(2,3) by (force simp: write_purchase_effect map_where_def on_the_desk_def)
  moreover have "gst_ok ?s1" using keeps_write_purchase assms(1) by (simp add: keeps_def)
  ultimately have only: "x \<in> set (q_papers ?s1) \<Longrightarrow> wp_id x = wp_id w \<Longrightarrow> x = w" for x
    by (auto simp: gst_ok_def distinct_map dest: inj_onD)
  have "filter ?p (q_papers ?s1) \<noteq> []"
    using \<open>w \<in> set (q_papers ?s1)\<close> assms(3,4,5) by (auto simp: filter_empty_conv)
  then obtain x xs where hits: "filter ?p (q_papers ?s1) = x # xs" by (meson list.exhaust)
  then have "x \<in> set (filter ?p (q_papers ?s1))" by simp
  then have x: "?p x" "x = w" using only by auto
  have pass: "?p y \<Longrightarrow> paper_check (?f y) = Inr (?f y)" for y by (simp add: paper_check_def)
  have upd: "update_papers ?p ?f ?s1 = (Inr (?f x # map ?f xs), ?s1\<lparr>q_papers := map_where ?p ?f (q_papers ?s1)\<rparr>)"
    using update_papers_pass [of ?s1 ?p ?f, OF pass] unfolding hits list.map .
  have now: "q_now ?s1 = q_now s" by (simp add: write_purchase_effect)
  have "approve_paper firm (wp_id w) ?s1 = (Inr (?f x), ?s1\<lparr>q_papers := map_where ?p ?f (q_papers ?s1)\<rparr>)"
    unfolding approve_paper_def require_def if_P [OF assms(6)] op_simps now
    by (subst obind_step(1), rule upd) (simp add: op_simps)
  moreover have "write_purchase e s = (Inr (), ?s1)" by (simp add: write_purchase_effect)
  moreover have "wp_status (?f x) = WP_APPROVED" "\<not> wp_stale (?f x)" "wp_sources (?f x) = wp_sources w"
      "wp_tables (?f x) = wp_tables w"
    using x by simp_all
  ultimately show ?thesis by blast
qed

text \<open>C37. Once a return has an approved, packed, filed or completed paper, the return cannot be prepared again from changed
  sources or adjustments: the update that should mark the old paper stale violates the check constraint of the table,
  so the whole preparation is refused and nothing changes.\<close>

theorem reprepare_blocked:
  assumes "w \<in> set (q_papers s)" and "settled (wp_status w)" and "wp_approved_hash w \<noteq> None"
    and "same_return (f_firm firm) req w"
    and "source_rows (f_firm firm) (pr_client req) (pr_period req) (pr_return req) s = Inr (rows, exceptions)"
    and "source_hash_of (map version_of rows) (pr_adjustments req) = Inr digest" and "wp_hash w \<noteq> digest"
  shows "\<exists>e. prepare firm req s = (Inl e, s)"
proof (cases "prepare firm req s")
  case (Pair r s')
  show ?thesis
  proof (cases r)
    case (Inl e)
    then show ?thesis using Pair prepare_Inl by blast
  next
    case (Inr w')
    have "outdated (f_firm firm) req digest w" using assms(3,4,7) by (simp add: outdated_def)
    moreover have "paper_check (mark_stale w) \<noteq> Inr (mark_stale w)"
      using assms(2) by (simp add: paper_check_def mark_stale_def)
    moreover obtain rows' exceptions' digest' where
        rows': "source_rows (f_firm firm) (pr_client req) (pr_period req) (pr_return req) s = Inr (rows', exceptions')"
        "source_hash_of (map version_of rows') (pr_adjustments req) = Inr digest'"
      and checks: "\<forall>x\<in>set (q_papers s). outdated (f_firm firm) req digest' x \<longrightarrow> paper_check (mark_stale x) = Inr (mark_stale x)"
      by (rule prepare_effect [OF Pair [unfolded Inr]]) blast
    moreover have "digest' = digest" using assms(5,6) rows' by simp
    ultimately show ?thesis using assms(1) by blast
  qed
qed

section \<open>Credit that was claimed before\<close>

text \<open>The stored documents and matches of well-formed imports. Of a set of runs that were imported when the keys
  \<open>K\<close> had been claimed, no match that is offered as clean is for a document with one of those keys.\<close>

definition runs_ok :: "gst_db \<Rightarrow> bool" where
  "runs_ok s = (distinct (map sd_id (q_documents s)) \<and> (\<forall>d\<in>set (q_documents s). sd_id d < q_fresh s \<and> sd_run d < q_fresh s)
      \<and> (\<forall>m\<in>set (q_matches s). sm_run m < q_fresh s))"

definition held_out :: "string set \<Rightarrow> gst_db \<Rightarrow> stored_match \<Rightarrow> bool" where
  "held_out K s m = (sm_bucket m = EXACT \<and> \<not> sm_warned m \<longrightarrow>
     (\<forall>i. sm_document m = Some i \<longrightarrow> i < q_fresh s \<and> (\<forall>d\<in>set (q_documents s). sd_id d = i \<longrightarrow> identity_key (sd_doc d) \<notin> K)))"

definition import_ok :: "string set \<Rightarrow> nat set \<Rightarrow> gst_db \<Rightarrow> bool" where
  "import_ok K R s = (runs_ok s \<and> (\<forall>r\<in>R. r < q_fresh s) \<and> (\<forall>m\<in>set (q_matches s). sm_run m \<in> R \<longrightarrow> held_out K s m))"

lemma import_ok_none: "import_ok K {} s = runs_ok s"
  by (simp add: import_ok_def)

lemma held_out_frame:
  "held_out K s m \<Longrightarrow> q_documents s' = q_documents s \<Longrightarrow> q_fresh s \<le> q_fresh s' \<Longrightarrow> held_out K s' m"
  by (auto simp: held_out_def)

lemma import_ok_frame:
  assumes "import_ok K R s" and "q_documents s' = q_documents s" and "q_matches s' = q_matches s" and "q_fresh s \<le> q_fresh s'"
  shows "import_ok K R s'"
  using assms held_out_frame [OF _ assms(2,4)] unfolding import_ok_def runs_ok_def by (auto dest: bspec order_less_le_trans)

lemma keeps_import_frame:
  assumes "\<And>s. q_documents (g s) = q_documents s" "\<And>s. q_matches (g s) = q_matches s" "\<And>s. q_fresh s \<le> q_fresh (g s)"
  shows "keeps (import_ok K R) (omod g)"
  by (rule keeps_omod) (use assms in \<open>blast intro: import_ok_frame\<close>)

lemma keeps_import_papers: "keeps (import_ok K R) (update_papers p f)"
proof -
  have "import_ok K R (snd (update_papers p f s))" if "import_ok K R s" for s
    by (rule import_ok_frame [OF that]) (auto simp: update_papers_def split: sum.split prod.split)
  then show ?thesis by (simp add: keeps_def)
qed

lemma keeps_import_next: "keeps (import_ok K R) next_id"
proof -
  have "import_ok K R (snd (next_id s))" if "import_ok K R s" for s
    by (rule import_ok_frame [OF that]) (auto simp: next_id_def op_simps)
  then show ?thesis by (simp add: keeps_def)
qed

text \<open>A decision leaves alone what makes a match clean.\<close>

lemma keeps_import_decision:
  assumes "\<And>m. sm_run (f m) = sm_run m \<and> sm_bucket (f m) = sm_bucket m \<and> sm_warned (f m) = sm_warned m \<and> sm_document (f m) = sm_document m"
  shows "keeps (import_ok K R) (omod (\<lambda>s. s\<lparr>q_matches := map_where p f (q_matches s)\<rparr>))"
  by (rule keeps_omod) (auto simp: import_ok_def runs_ok_def held_out_def map_where_def assms)

lemmas import_parts = keeps_import_frame keeps_import_papers keeps_import_next keeps_import_decision

text \<open>A further import writes under a new run, documents under new identifiers.\<close>

definition during :: "string set \<Rightarrow> nat set \<Rightarrow> nat \<Rightarrow> gst_db \<Rightarrow> bool" where
  "during K R run s = (import_ok K R s \<and> run < q_fresh s \<and> run \<notin> R)"

lemma keeps_during_store: "keeps (during K R run) (store_document run d)" "keeps (during K R run) (store_match run firm cl m)"
  by (auto simp: keeps_def store_document_def store_match_def op_simps next_id_def during_def import_ok_def runs_ok_def held_out_def less_SucI)

lemma keeps_during_status: "keeps (during K R run) (set_run_status run' st)"
  unfolding set_run_status_def by (rule keeps_omod) (auto simp: during_def intro: import_ok_frame)

lemma keeps_import_fill:
  "keeps (during K R run) (fill_run firm cl period run docs)"
  unfolding fill_run_def by (intro keeps_intros keeps_oeach keeps_during_store keeps_during_status)

lemma keeps_import_run:
  assumes "\<And>run. keeps (during K R run) (k run)"
  shows "keeps (import_ok K R) (obind next_id k)"
  unfolding keeps_def
proof (intro allI impI)
  fix s assume ok: "import_ok K R s"
  have n: "next_id s = (Inr (q_fresh s), s\<lparr>q_fresh := Suc (q_fresh s)\<rparr>)" by (simp add: next_id_def op_simps)
  have "import_ok K R (s\<lparr>q_fresh := Suc (q_fresh s)\<rparr>)" by (rule import_ok_frame [OF ok]) simp_all
  then have "during K R (q_fresh s) (s\<lparr>q_fresh := Suc (q_fresh s)\<rparr>)" using ok by (auto simp: during_def import_ok_def)
  then have "during K R (q_fresh s) (snd (k (q_fresh s) (s\<lparr>q_fresh := Suc (q_fresh s)\<rparr>)))"
    using assms by (simp add: keeps_def)
  then show "import_ok K R (snd (obind next_id k s))" by (simp add: obind_step(1) [where m = next_id, OF n] during_def)
qed

lemma keeps_during_frame:
  assumes "\<And>s. q_documents (g s) = q_documents s" "\<And>s. q_matches (g s) = q_matches s" "\<And>s. q_fresh s \<le> q_fresh (g s)"
  shows "keeps (during K R run) (omod g)"
  by (rule keeps_omod) (use assms in \<open>auto simp: during_def intro: import_ok_frame order_less_le_trans\<close>)

lemma keeps_import_create: "keeps (import_ok K R) (create_run firm cl period extension digest content)"
  unfolding create_run_def Let_def
  by (intro keeps_intros keeps_import_run keeps_import_fill keeps_during_frame) simp_all

lemma keeps_import_decisions:
  "keeps (import_ok K R) (decide firm mid decision ims)" "keeps (import_ok K R) (bulk_accept firm run confirm)"
  "keeps (import_ok K R) (create_workpaper firm run)"
  unfolding decide_def bulk_accept_def accept_clean_def create_workpaper_def reopen_monthly_def Let_def
  by (intro keeps_intros import_parts; simp)+

lemma keeps_import_papers_desk:
  "keeps (import_ok K R) (write_sale e)" "keeps (import_ok K R) (write_purchase e)" "keeps (import_ok K R) (activate_defaults firm)"
  "keeps (import_ok K R) (prepare firm req)" "keeps (import_ok K R) (approve_paper firm pid)" "keeps (import_ok K R) (make_pack firm pid)"
  "keeps (import_ok K R) (filed firm pid)" "keeps (import_ok K R) (acknowledge firm pid number filed_at evidence)"
  unfolding write_sale_def write_purchase_def register_trigger_def activate_defaults_def activate_rule_def prepare_def store_paper_def
    insert_paper_def insert_line_def approve_paper_def make_pack_def filed_def acknowledge_def Let_def
  by (intro keeps_intros import_parts; simp)+

lemma gst_step_imports: "gst_step s s' \<Longrightarrow> import_ok K R s \<Longrightarrow> import_ok K R s'"
proof (induction rule: gst_step.induct)
  case (time_passes s t)
  then show ?case by (auto intro: import_ok_frame [of K R s])
next
  case (clients_change s cs)
  then show ?case by (auto intro: import_ok_frame [of K R s])
qed (erule keeps_snd [rotated], rule keeps_import_create keeps_import_decisions keeps_import_papers_desk)+

interpretation import_history: state_machine gst_step "import_ok K R" for K R
  by unfold_locales (rule gst_step_imports)

lemma keeps_stored_documents:
  "keeps (\<lambda>s. runs_ok s \<and> run < q_fresh s \<and> q_matches s = M \<and> q_claims s = C) (oeach (store_document run) ds)"
  by (rule keeps_oeach)
     (auto simp: keeps_def store_document_def next_id_def runs_ok_def obind_def othen_def oget_def omod_def oret_def)

definition stored_as :: "nat \<Rightarrow> string \<Rightarrow> string \<Rightarrow> gst_db \<Rightarrow> g2b_match \<Rightarrow> stored_match \<Rightarrow> bool" where
  "stored_as run firm cl s m sm = (sm_run sm = run \<and> sm_firm sm = firm \<and> sm_client sm = cl \<and> sm_bucket sm = m_bucket m
      \<and> sm_warned sm = m_claimed_before m
      \<and> sm_document sm = (case m_document m of None \<Rightarrow> None | Some d \<Rightarrow> document_id run (identity_key d) s))"

lemma stored_matches:
  "oeach (store_match run firm cl) ms s = (Inr (), s') \<Longrightarrow>
     q_documents s' = q_documents s \<and> (\<exists>new. q_matches s' = q_matches s @ new \<and> list_all2 (stored_as run firm cl s) ms new)"
proof (induction ms arbitrary: s)
  case (Cons m ms)
  obtain s1 where s1: "store_match run firm cl m s = (Inr (), s1)" "oeach (store_match run firm cl) ms s1 = (Inr (), s')"
    using Cons.prems by (auto elim: othen_InrE)
  have docs: "q_documents s1 = q_documents s" and "\<exists>sm. q_matches s1 = q_matches s @ [sm] \<and> stored_as run firm cl s m sm"
    using s1(1) by (auto simp: store_match_def next_id_def op_simps stored_as_def document_id_def split: option.splits)
  moreover have "stored_as run firm cl s1 = stored_as run firm cl s"
    by (intro ext) (simp add: stored_as_def document_id_def docs split: option.split)
  ultimately show ?case using Cons.IH [OF s1(2)] by auto
qed (simp add: oret_def)

lemma judged_claim:
  assumes "match_gstr2b lines docs claimed = Inr ms" and "m \<in> set ms" and "m_bucket m = EXACT" and "\<not> m_claimed_before m"
  obtains d where "m_document m = Some d" and "identity_key d \<notin> claimed"
proof -
  obtain outs used where ms: "ms = map (outcome docs claimed) outs
      @ map (left_over docs) (filter (\<lambda>d. identity_key d \<notin> used) docs)"
    using assms(1) by (auto simp: match_gstr2b_def rbind_eq_Inr)
  have "m \<notin> left_over docs ` X" for X using assms(3) by (auto simp: left_over_def split: if_splits)
  then obtain po where m: "m = outcome docs claimed po" using assms(2) by (auto simp: ms)
  obtain p d where po: "po = (p, Some d)"
    using assms(3) m by (cases po; cases "snd po") (auto simp: outcome_def missing_in_2b_def)
  show thesis by (rule that [of d]) (use assms(4) in \<open>auto simp: m po outcome_def judge_def Let_def split: prod.splits\<close>)
qed

lemma created_run_matches:
  assumes "create_run firm cl period extension digest content s = (Inr a, s')" and "runs_ok s"
    and "\<not> ra_duplicate a" and "ra_status a = ''RECONCILED''"
  obtains s1 lines docs ms new where "match_gstr2b lines docs (claimed_keys (f_firm firm) cl s) = Inr ms"
    and "runs_ok s1" and "q_documents s' = q_documents s1" and "q_matches s' = q_matches s @ new"
    and "list_all2 (stored_as (ra_run a) (f_firm firm) cl s1) ms new" and "\<forall>m\<in>set (q_matches s). sm_run m \<noteq> ra_run a"
proof -
  obtain r u and parsed :: g2b_result where a: "ra_run a = q_fresh s" and fill: "fill_run (f_firm firm) cl period (q_fresh s) (p_documents parsed)
      (s\<lparr>q_fresh := Suc (q_fresh s), q_runs := q_runs s @ [r]\<rparr>) = (Inr u, s')"
    using assms(1,3,4) unfolding create_run_def transaction_Inr
    by (auto simp: othen_def obind_Inr olift_Inr oget_Inr omod_Inr oret_Inr next_id_def Let_def split: if_splits option.splits)
  obtain lines ms u0 u1 s1 s2 where
      docs: "oeach (store_document (q_fresh s)) (p_documents parsed) (s\<lparr>q_fresh := Suc (q_fresh s), q_runs := q_runs s @ [r]\<rparr>) = (Inr u0, s1)"
    and ms: "match_gstr2b lines (p_documents parsed) (claimed_keys (f_firm firm) cl s1) = Inr ms"
    and store: "oeach (store_match (q_fresh s) (f_firm firm) cl) ms s1 = (Inr u1, s2)"
    and s': "q_documents s' = q_documents s2" "q_matches s' = q_matches s2"
    using fill unfolding fill_run_def set_run_status_def
    by (auto simp: othen_def obind_Inr olift_Inr oget_Inr omod_Inr)
  have "runs_ok s1 \<and> q_fresh s < q_fresh s1 \<and> q_matches s1 = q_matches s \<and> q_claims s1 = q_claims s"
    by (rule keepsD [OF keeps_stored_documents _ docs]) (use assms(2) in \<open>auto simp: runs_ok_def less_SucI\<close>)
  moreover from this have "claimed_keys (f_firm firm) cl s1 = claimed_keys (f_firm firm) cl s" by (simp add: claimed_keys_def)
  moreover obtain new where "q_documents s2 = q_documents s1" "q_matches s2 = q_matches s1 @ new"
      "list_all2 (stored_as (q_fresh s) (f_firm firm) cl s1) ms new"
    using stored_matches [OF store [unfolded unit_eq [of u1]]] by auto
  moreover have "\<forall>m\<in>set (q_matches s). sm_run m \<noteq> q_fresh s" using assms(2) by (auto simp: runs_ok_def)
  ultimately show thesis
    using that [of lines "p_documents parsed" ms s1 new] ms s' a by auto
qed

lemma keeps_larger:
  "keeps (\<lambda>s. n < q_fresh s) (store_document run d)" "keeps (\<lambda>s. n < q_fresh s) (store_match run firm cl m)"
  by (auto simp: keeps_def store_document_def store_match_def op_simps next_id_def)

lemma created_run_fresh:
  assumes "create_run firm cl period extension digest content s = (Inr a, s')" and "\<not> ra_duplicate a" and "ra_status a = ''RECONCILED''"
  shows "ra_run a < q_fresh s'"
proof -
  obtain r u and parsed :: g2b_result where a: "ra_run a = q_fresh s" and fill: "fill_run (f_firm firm) cl period (q_fresh s) (p_documents parsed)
      (s\<lparr>q_fresh := Suc (q_fresh s), q_runs := q_runs s @ [r]\<rparr>) = (Inr u, s')"
    using assms unfolding create_run_def transaction_Inr
    by (auto simp: othen_def obind_Inr olift_Inr oget_Inr omod_Inr oret_Inr next_id_def Let_def split: if_splits option.splits)
  have "keeps (\<lambda>t. q_fresh s < q_fresh t) (fill_run (f_firm firm) cl period (q_fresh s) (p_documents parsed))"
    unfolding fill_run_def set_run_status_def by (intro keeps_intros keeps_oeach keeps_larger keeps_omod) simp_all
  from keepsD [OF this _ fill] show ?thesis by (simp add: a)
qed

lemma imported_held_out:
  assumes "create_run firm cl period extension digest content s = (Inr a, s')" and "runs_ok s"
    and "\<not> ra_duplicate a" and "ra_status a = ''RECONCILED''"
  shows "import_ok (claimed_keys (f_firm firm) cl s) {ra_run a} s'"
proof (rule created_run_matches [OF assms(1-4)])
  fix s1 lines docs ms new
  assume ms: "match_gstr2b lines docs (claimed_keys (f_firm firm) cl s) = Inr ms"
    and ok: "runs_ok s1" and docs: "q_documents s' = q_documents s1" and matches: "q_matches s' = q_matches s @ new"
    and new: "list_all2 (stored_as (ra_run a) (f_firm firm) cl s1) ms new" and old: "\<forall>m\<in>set (q_matches s). sm_run m \<noteq> ra_run a"
  have ok': "runs_ok s'" using keepsD [OF keeps_import_create [of _ "{}"] _ assms(1)] assms(2) by (simp add: import_ok_none)
  have held: "held_out (claimed_keys (f_firm firm) cl s) s' sm" if sm: "sm \<in> set new" for sm
    unfolding held_out_def
  proof (intro impI allI conjI ballI)
    fix i assume clean: "sm_bucket sm = EXACT \<and> \<not> sm_warned sm" and i: "sm_document sm = Some i"
    obtain m where m: "m \<in> set ms" "stored_as (ra_run a) (f_firm firm) cl s1 m sm" using list_all2_right [OF new sm] by blast
    obtain d where d: "m_document m = Some d" "identity_key d \<notin> claimed_keys (f_firm firm) cl s"
      by (rule judged_claim [OF ms m(1)]) (use m(2) clean in \<open>auto simp: stored_as_def\<close>)
    then have "document_id (ra_run a) (identity_key d) s1 = Some i" using m(2) i by (simp add: stored_as_def)
    then obtain sd' where sd': "sd' \<in> set (q_documents s1)" "identity_key (sd_doc sd') = identity_key d" "sd_id sd' = i"
      by (auto simp: document_id_def find_Some_iff) (metis length_rev nth_mem set_rev)
    then show "i < q_fresh s'" using ok' docs by (auto simp: runs_ok_def)
    fix sd assume "sd \<in> set (q_documents s')" "sd_id sd = i"
    then have "sd' = sd" using ok sd' docs by (auto simp: runs_ok_def distinct_map dest: inj_onD)
    then show "identity_key (sd_doc sd) \<notin> claimed_keys (f_firm firm) cl s" using sd' d(2) by simp
  qed
  have "ra_run a < q_fresh s'" by (rule created_run_fresh [OF assms(1,3,4)])
  then show ?thesis using ok' held matches old by (auto simp: import_ok_def)
qed

text \<open>C36. A document whose credit had been accepted for this client when a statement was imported is never among the
  matches of that import that are offered for bulk acceptance, in any later state, whatever is imported, decided, prepared or
  written afterwards. (Claims made after the import are not looked at: see below.)\<close>

theorem claimed_document_not_clean:
  assumes "q_documents s0 = []" and "q_matches s0 = []" and "gst_step\<^sup>*\<^sup>* s0 s"
    and "create_run firm cl period extension digest content s = (Inr a, s')"
    and "\<not> ra_duplicate a" and "ra_status a = ''RECONCILED''" and "gst_step\<^sup>*\<^sup>* s' s''"
    and "row \<in> set (clean_rows firm_id (ra_run a) s'')"
  shows "identity_key (cr_doc row) \<notin> claimed_keys (f_firm firm) cl s"
proof -
  have "import_ok {} {} s0" using assms(1,2) by (simp add: import_ok_def runs_ok_def)
  then have "runs_ok s" using import_history.run_keeps [OF assms(3)] import_ok_none by blast
  then have "import_ok (claimed_keys (f_firm firm) cl s) {ra_run a} s''"
    using import_history.run_keeps [OF assms(7) imported_held_out [OF assms(4) _ assms(5,6)]] by blast
  moreover obtain m i sd where "m \<in> set (q_matches s'')" "sm_run m = ra_run a" "sm_bucket m = EXACT" "\<not> sm_warned m"
      "sm_document m = Some i" "sd \<in> set (q_documents s'')" "sd_id sd = i" "cr_doc row = sd_doc sd"
    using assms(8) by (auto simp: clean_rows_def split: option.splits) (metis (no_types, lifting))
  ultimately show ?thesis by (auto simp: import_ok_def held_out_def)
qed

text \<open>The claims for one document of a client.\<close>

definition claims_for :: "string \<Rightarrow> string \<Rightarrow> string \<Rightarrow> gst_db \<Rightarrow> itc_claim list" where
  "claims_for firm cl key s = filter (\<lambda>c. cl_firm c = firm \<and> cl_client c = cl \<and> cl_key c = key) (q_claims s)"

lemma accept_clean_all:
  "\<exists>s'. oeach (accept_clean firm) rows s = (Inr (), s')
     \<and> (\<forall>m\<in>set (q_matches s'). (\<exists>row\<in>set rows. sm_id m = cr_match row) \<longrightarrow> sm_decision m = ''ACCEPTED'')
     \<and> (\<forall>m\<in>set (q_matches s'). \<exists>m0\<in>set (q_matches s). sm_id m0 = sm_id m \<and> (sm_decision m = sm_decision m0 \<or> sm_decision m = ''ACCEPTED''))
     \<and> map sm_id (q_matches s') = map sm_id (q_matches s)
     \<and> (\<forall>cl key. claims_for (f_firm firm) cl key s \<noteq> [] \<longrightarrow> claims_for (f_firm firm) cl key s' = claims_for (f_firm firm) cl key s)"
proof (induction rows arbitrary: s)
  case Nil
  show ?case by (auto simp: oret_def)
next
  case (Cons row rows)
  obtain s1 where s1: "accept_clean firm row s = (Inr (), s1)"
      "q_matches s1 = map_where (\<lambda>m. sm_id m = cr_match row)
         (\<lambda>m. m\<lparr>sm_decision := ''ACCEPTED'', sm_decided_by := Some (f_user firm)\<rparr>) (q_matches s)"
      "\<forall>cl key. claims_for (f_firm firm) cl key s \<noteq> [] \<longrightarrow> claims_for (f_firm firm) cl key s1 = claims_for (f_firm firm) cl key s"
    by (auto simp: accept_clean_def op_simps claims_for_def list_ex_iff filter_empty_conv)
  obtain s' where s': "oeach (accept_clean firm) rows s1 = (Inr (), s')"
      "\<forall>m\<in>set (q_matches s'). (\<exists>row\<in>set rows. sm_id m = cr_match row) \<longrightarrow> sm_decision m = ''ACCEPTED''"
      "\<forall>m\<in>set (q_matches s'). \<exists>m0\<in>set (q_matches s1). sm_id m0 = sm_id m \<and> (sm_decision m = sm_decision m0 \<or> sm_decision m = ''ACCEPTED'')"
      "map sm_id (q_matches s') = map sm_id (q_matches s1)"
      "\<forall>cl key. claims_for (f_firm firm) cl key s1 \<noteq> [] \<longrightarrow> claims_for (f_firm firm) cl key s' = claims_for (f_firm firm) cl key s1"
    using Cons.IH [of s1] by blast
  have first: "m0 \<in> set (q_matches s1) \<Longrightarrow> sm_id m0 = cr_match row \<Longrightarrow> sm_decision m0 = ''ACCEPTED''"
    and old: "m0 \<in> set (q_matches s1) \<Longrightarrow> \<exists>m\<in>set (q_matches s). sm_id m = sm_id m0 \<and> (sm_decision m0 = sm_decision m \<or> sm_decision m0 = ''ACCEPTED'')" for m0
    by (auto simp: s1(2) map_where_def)
  have "oeach (accept_clean firm) (row # rows) s = (Inr (), s')" using s1(1) s'(1) by (simp add: othen_def obind_def)
  moreover have "sm_decision m = ''ACCEPTED''" if "m \<in> set (q_matches s')" "\<exists>r\<in>set (row # rows). sm_id m = cr_match r" for m
    using that s'(2,3) first by fastforce
  moreover have "\<exists>m0\<in>set (q_matches s). sm_id m0 = sm_id m \<and> (sm_decision m = sm_decision m0 \<or> sm_decision m = ''ACCEPTED'')"
    if "m \<in> set (q_matches s')" for m
    using that s'(3) old by metis
  moreover have "map sm_id (q_matches s') = map sm_id (q_matches s)"
    using s'(4) by (simp add: s1(2) map_where_def comp_def if_distrib cong: if_cong)
  ultimately show ?case using s1(3) s'(5) by (intro exI [of _ s']) simp
qed

text \<open>Bulk acceptance does not look at the claims made since the import: every clean match of the run is accepted, also one for a
  document that has been claimed meanwhile, whose history of claims is left as it is, so two imports of a document before
  its first claim give it two accepted matches and one claim.\<close>

theorem bulk_accept_ignores_claims:
  assumes "''compliance.review'' \<in> set (f_permissions firm)" and "row \<in> set (clean_rows (f_firm firm) run s)"
    and "claims_for (f_firm firm) (cr_client row) (identity_key (cr_doc row)) s \<noteq> []"
  shows "\<exists>n total s'. bulk_accept firm run True s = (Inr (n, total, True), s')
     \<and> (\<exists>m\<in>set (q_matches s'). sm_id m = cr_match row)
     \<and> (\<forall>m\<in>set (q_matches s'). sm_id m = cr_match row \<longrightarrow> sm_decision m = ''ACCEPTED'')
     \<and> claims_for (f_firm firm) (cr_client row) (identity_key (cr_doc row)) s'
         = claims_for (f_firm firm) (cr_client row) (identity_key (cr_doc row)) s"
proof -
  obtain s1 where s1: "oeach (accept_clean firm) (clean_rows (f_firm firm) run s) s = (Inr (), s1)"
      "\<forall>m\<in>set (q_matches s1). (\<exists>r\<in>set (clean_rows (f_firm firm) run s). sm_id m = cr_match r) \<longrightarrow> sm_decision m = ''ACCEPTED''"
      "map sm_id (q_matches s1) = map sm_id (q_matches s)"
      "\<forall>cl key. claims_for (f_firm firm) cl key s \<noteq> [] \<longrightarrow> claims_for (f_firm firm) cl key s1 = claims_for (f_firm firm) cl key s"
    using accept_clean_all [of firm "clean_rows (f_firm firm) run s" s] by blast
  obtain r0 rest where rows: "clean_rows (f_firm firm) run s = r0 # rest" using assms(2) by (cases "clean_rows (f_firm firm) run s") auto
  let ?s2 = "s1\<lparr>q_papers := map_where (\<lambda>w. on_the_desk (f_firm firm) (cr_client r0) (cr_period r0) w \<and> wp_return w = ''GSTR3B'') reopen (q_papers s1)\<rparr>"
  have re: "reopen_monthly (f_firm firm) (cr_client r0) (cr_period r0) s1 = (Inr (), ?s2)"
    by (simp add: reopen_monthly_def obind_def oret_def update_papers_pass reopen_passes)
  have run: "bulk_accept firm run True s
      = (Inr (length (r0 # rest), sum_list (map (\<lambda>r. d_total (cr_doc r)) (r0 # rest)), True), ?s2)"
    using s1(1) assms(1) re
    by (simp add: bulk_accept_def require_def transaction_def op_simps Let_def rows othen_def obind_def)
  obtain m where "m \<in> set (q_matches s)" "sm_id m = cr_match row"
    using assms(2) by (auto simp: clean_rows_def split: option.splits)
  then have "cr_match row \<in> set (map sm_id (q_matches s1))" using s1(3) by (metis in_set_conv_nth length_map nth_map)
  then show ?thesis unfolding run using s1(2,4) assms(2,3) by (auto simp: claims_for_def)
qed

section \<open>Concrete states\<close>

lemma rmap_total: "\<forall>x\<in>set xs. \<exists>y. f x = Inr y \<Longrightarrow> \<exists>ys. rmap f xs = Inr ys"
proof (induction xs)
  case (Cons x xs)
  then obtain y ys where "f x = Inr y" "rmap f xs = Inr ys" by fastforce
  then show ?case by simp
qed simp

lemma json_plain:
  "\<exists>j. json_sorted (version_value v) = Inr j" "\<exists>j. json_sorted (adjustment_value a) = Inr j"
  by (simp_all add: version_value_def adjustment_value_def)

lemma source_hash_total: "\<exists>d. source_hash_of versions adjustments = Inr d"
proof -
  have "\<exists>x. rmap json_sorted (map version_value versions) = Inr x" "\<exists>y. rmap json_sorted (map adjustment_value adjustments) = Inr y"
    by (rule rmap_total; use json_plain in auto)+
  then show ?thesis by (auto simp: source_hash_of_def)
qed

definition sample_firm :: firm_context where
  "sample_firm = \<lparr> f_user = ''u1'', f_firm = ''f1'', f_role = ''OWNER'',
     f_permissions = [''books.read'', ''books.propose'', ''compliance.review''] \<rparr>"

definition sample_request :: prepare_request where
  "sample_request = \<lparr> pr_client = ''c1'', pr_period = ''062026'', pr_return = ''GSTR1'', pr_adjustments = [] \<rparr>"

definition sample_entry :: tax_entry where
  "sample_entry = \<lparr> g_id = ''i1'', g_firm = ''f1'', g_client = ''c1'', g_period = ''062026'', g_number = ''A1'', g_party = ''Acme'',
     g_gstin = ''27AAAAA0000A1Z5'', g_date = ''2026-06-01'', g_total = 0, g_tax = 0, g_taxable = 0, g_cgst = 0, g_sgst = 0,
     g_igst = 0, g_other = 0, g_status = ''Synced'', g_source = ''s'', g_source_version = ''v1'', g_provider = ''ZOHO_BOOKS'',
     g_provider_object = ''o1'', g_document = '''', g_draft = 0, g_action = 0, g_verification = 0, g_active = True,
     te_verified = True, te_reverse = False, te_class = None, te_place = None \<rparr>"

definition sample_gst :: gst_db where
  "sample_gst = \<lparr> q_now = 0, q_fresh = 1, q_clients = [\<lparr> c_id = ''c1'', c_firm = ''f1'', c_gstin = ''27BBBBB0000B1Z5'' \<rparr>],
     q_sold = [sample_entry], q_bought = [sample_entry], q_runs = [], q_documents = [], q_matches = [], q_claims = [],
     q_g2b_papers = [], q_rules = [\<lparr> gr_key = ''GSTR1_BASE'', gr_version = ''firmos-2026.1'', gr_from = Date 2017 7 1, gr_to = None,
     gr_by = ''u1'' \<rparr>], q_papers = [], q_lines = [], q_acks = [] \<rparr>"

lemma sample_request_valid: "request_valid sample_request" by code_simp

lemma sample_rules: "\<exists>rules. rules_in_force ''062026'' s = Inr rules"
proof -
  have "year_of ''062026'' = 2026" by code_simp
  then show ?thesis by (simp add: rules_in_force_def Let_def)
qed

definition sample_row :: workpaper_source where
  "sample_row = \<lparr> ws_table = ''GSTR-1 B2B'', ws_kind = ''SALES_REGISTER'', ws_id = ''i1'', ws_version = ''v1'', ws_amount = 0,
     ws_treatment = ''SYSTEM_CALCULATED'', ws_details = [(''taxable_paise'', VInt 0), (''igst_paise'', VInt 0), (''cgst_paise'', VInt 0),
       (''sgst_paise'', VInt 0), (''cess_paise'', VInt 0), (''customer_gstin'', VStr ''27AAAAA0000A1Z5''), (''place_of_supply'', VNone)] \<rparr>"

lemma sample_build: "build_source_rows [sale_dict sample_entry] [] ''GSTR1'' = Inr ([sample_row], [])"
  by code_simp

lemma sample_rows:
  assumes "q_sold s = [sample_entry]"
  shows "source_rows ''f1'' ''c1'' ''062026'' ''GSTR1'' s = Inr ([sample_row], [])"
  using sample_build assms by (simp add: source_rows_def) (simp add: reportable_def sample_entry_def)

definition sample_tables :: table_totals where
  "sample_tables = [(''GSTR-1 B2B'', [(''taxable_paise'', 0), (''igst_paise'', 0), (''cgst_paise'', 0), (''sgst_paise'', 0),
     (''cess_paise'', 0), (''source_total_paise'', 0), (''adjustment_paise'', 0), (''total_paise'', 0)])]"

lemma sample_totals: "summarize_tables [sample_row] [] = Inr sample_tables" by code_simp

text \<open>A paper as the preparation writes it, in the given status.\<close>

definition sample_paper :: "paper_status \<Rightarrow> string \<Rightarrow> workpaper" where
  "sample_paper st digest = \<lparr> wp_id = 0, wp_firm = ''f1'', wp_client = ''c1'', wp_return = ''GSTR1'', wp_period = ''062026'', wp_version = 1,
     wp_status = st, wp_sources = [version_of sample_row], wp_rules = [], wp_adjustments = [], wp_tables = sample_tables,
     wp_exceptions = [], wp_hash = digest, wp_approved_hash = (if settled st then Some digest else None), wp_stale = False,
     wp_prepared_by = ''u1'', wp_reviewed_by = (if settled st then Some ''u1'' else None),
     wp_approved_at = (if settled st then Some 0 else None), wp_pack = None \<rparr>"

definition sample_state :: "paper_status \<Rightarrow> string \<Rightarrow> gst_db" where
  "sample_state st digest = sample_gst\<lparr>q_papers := [sample_paper st digest], q_lines := [(0, sample_row)]\<rparr>"

lemma sample_state_ok:
  assumes "source_hash_of [version_of sample_row] [] = Inr digest" and "st \<in> {WP_NEEDS_REVIEW, WP_APPROVED}"
  shows "gst_ok (sample_state st digest)"
  using assms sample_totals
  by (auto simp: gst_ok_def sample_state_def sample_gst_def sample_paper_def paper_fine_def traceable_def lines_of_def settled_def
      signed_off_def has_pack_def intro!: exI [of _ "[sample_row]"])

lemma sample_prepare: "\<exists>w s'. prepare sample_firm sample_request sample_gst = (Inr w, s')"
proof -
  obtain d where d: "source_hash_of [version_of sample_row] [] = Inr d" using source_hash_total by blast
  obtain rules where r: "rules_in_force ''062026'' sample_gst = Inr rules" using sample_rules by blast
  have fields: "f_firm sample_firm = ''f1''" "pr_client sample_request = ''c1''" "pr_period sample_request = ''062026''"
      "pr_return sample_request = ''GSTR1''" "pr_adjustments sample_request = []" "q_papers sample_gst = []" "q_lines sample_gst = []"
      "require sample_firm ''books.propose'' = Inr ()" "q_sold sample_gst = [sample_entry]"
    by (simp_all add: sample_firm_def sample_request_def sample_gst_def require_def)
  have line: "length (ws_table sample_row) \<le> 50" by (simp add: sample_row_def)
  show ?thesis
    using sample_request_valid sample_rows [OF fields(9)] d r sample_totals line
    by (simp add: prepare_def fields op_simps transaction_def obind_def othen_def oget_def olift_def update_papers_def next_id_def
        store_paper_def insert_paper_def new_paper_def paper_check_def settled_def insert_line_def omod_def oret_def)
qed

lemma workpapers_traceable_witness:
  "\<exists>s::gst_db. gst_step\<^sup>*\<^sup>* sample_gst s \<and> (\<exists>w\<in>set (q_papers s). traceable (lines_of s (wp_id w)) w \<and> wp_adjustments w = [])"
proof -
  obtain w s where run: "prepare sample_firm sample_request sample_gst = (Inr w, s)" using sample_prepare by blast
  then have "gst_step sample_gst s" using paper_prepared [of sample_gst sample_firm sample_request] by simp
  then have step: "gst_step\<^sup>*\<^sup>* sample_gst s" by blast
  obtain ws where papers: "q_papers s = ws @ [w]" "wp_adjustments w = []"
    by (rule prepare_effect [OF run]) (simp add: new_paper_def sample_request_def)
  then have "w \<in> set (q_papers s)" by simp
  moreover have "q_papers sample_gst = []" "q_lines sample_gst = []" "q_acks sample_gst = []" by (simp_all add: sample_gst_def)
  ultimately show ?thesis using workpapers_traceable [OF _ _ _ step] step papers(2) by blast
qed

lemma register_change_reopens_witness:
  "\<exists>s'. write_purchase sample_entry (sample_state WP_APPROVED ''d'') = (Inr (), s')
     \<and> (\<exists>w\<in>set (q_papers s'). wp_stale w \<and> wp_status w = WP_NEEDS_REVIEW)"
proof -
  have "sample_paper WP_APPROVED ''d'' \<in> set (q_papers (sample_state WP_APPROVED ''d''))"
      "on_the_desk (g_firm sample_entry) (g_client sample_entry) (g_period sample_entry) (sample_paper WP_APPROVED ''d'')"
    by (simp_all add: sample_state_def on_the_desk_def sample_paper_def sample_entry_def)
  then show ?thesis using register_change_reopens [of sample_entry "sample_state WP_APPROVED ''d''"] by fastforce
qed

lemma outdated_paper_approvable_witness:
  "\<exists>s::gst_db. gst_ok s \<and> (\<exists>s1 w' s2. write_purchase sample_entry s = (Inr (), s1) \<and> approve_paper sample_firm 0 s1 = (Inr w', s2)
     \<and> wp_status w' = WP_APPROVED \<and> wp_tables w' = sample_tables)"
proof -
  obtain d where d: "source_hash_of [version_of sample_row] [] = Inr d" using source_hash_total by blast
  let ?w = "sample_paper WP_NEEDS_REVIEW d"
  have "?w \<in> set (q_papers (sample_state WP_NEEDS_REVIEW d))" "wp_status ?w = WP_NEEDS_REVIEW" "\<not> wp_stale ?w"
      "wp_firm ?w = f_firm sample_firm" "''compliance.review'' \<in> set (f_permissions sample_firm)" "wp_id ?w = 0"
      "wp_tables ?w = sample_tables"
    by (simp_all add: sample_state_def sample_paper_def sample_firm_def)
  then show ?thesis
    using outdated_paper_approvable [OF sample_state_ok [OF d], of WP_NEEDS_REVIEW ?w sample_firm sample_entry]
      sample_state_ok [OF d, of WP_NEEDS_REVIEW] by (metis insertI1)
qed

lemma reprepare_blocked_witness:
  "\<exists>(s::gst_db) e. q_papers s \<noteq> [] \<and> prepare sample_firm sample_request s = (Inl e, s)"
proof -
  obtain d where d: "source_hash_of [version_of sample_row] [] = Inr d" using source_hash_total by blast
  let ?w = "sample_paper WP_APPROVED (d @ ''!'')" and ?s = "sample_state WP_APPROVED (d @ ''!'')"
  have w: "?w \<in> set (q_papers ?s)" "settled (wp_status ?w)" "wp_approved_hash ?w \<noteq> None"
      "same_return (f_firm sample_firm) sample_request ?w" "wp_hash ?w \<noteq> d" "q_papers ?s \<noteq> []"
    by (simp_all add: sample_state_def sample_paper_def settled_def same_return_def sample_firm_def sample_request_def)
  have "q_sold ?s = [sample_entry]" by (simp add: sample_state_def sample_gst_def)
  then have "source_rows (f_firm sample_firm) (pr_client sample_request) (pr_period sample_request) (pr_return sample_request) ?s
      = Inr ([sample_row], [])"
    using sample_rows by (simp add: sample_firm_def sample_request_def)
  moreover have "source_hash_of (map version_of [sample_row]) (pr_adjustments sample_request) = Inr d"
    using d by (simp add: sample_request_def)
  ultimately show ?thesis using reprepare_blocked [OF w(1-4)] w(5,6) by blast
qed
lemma sample_statement:
  "\<exists>r d. parse_gstr2b_json sample_payload = Inr r \<and> p_documents r = [d] \<and> p_gstin r = '''' \<and> p_period r = ''''
     \<and> supplier_gstin d = ''27AAAAA0000A1Z5'' \<and> invoice_number d = ''A1'' \<and> invoice_date d = Date 2026 6 1
     \<and> document_type d = ''INVOICE'' \<and> amendment_of_key d = None \<and> d_total d = 0"
proof -
  let ?inv = "VDict [(''inum'', VStr ''A1''), (''idt'', VDate (Date 2026 6 1))]"
  let ?sup = "VDict [(''ctin'', VStr ''27AAAAA0000A1Z5''), (''inv'', VList [?inv])]"
  have "clean_gstin VNone = ''''" by code_simp
  moreover have "doc_type_of ''b2b'' [(''inum'', VStr ''A1''), (''idt'', VDate (Date 2026 6 1))] = ''INVOICE''" by code_simp
  ultimately show ?thesis
    by (simp add: g2b_document_of_def sample_strings g2b_date_def g2b_taxes_def g2b_paise_def zero_paise amendment_key_def
        py_or_def Let_def parse_gstr2b_json_def sample_payload_def g2b_unwrap_def g2b_sections_def parse_section_def
        parse_supplier_def)
qed

lemma claimed_document_not_clean_witness:
  "\<exists>(a::run_answer) s'. create_run sample_firm ''c1'' ''062026'' ''json'' ''h'' (JsonStatement sample_payload) sample_gst = (Inr a, s')
     \<and> (\<exists>row\<in>set (clean_rows ''f1'' (ra_run a) s'). identity_key (cr_doc row) \<notin> claimed_keys ''f1'' ''c1'' sample_gst)"
proof -
  obtain r d where r: "parse_gstr2b_json sample_payload = Inr r" "p_documents r = [d]" "p_gstin r = ''''" "p_period r = ''''"
      and d: "supplier_gstin d = ''27AAAAA0000A1Z5''" "invoice_number d = ''A1''" "invoice_date d = Date 2026 6 1"
        "document_type d = ''INVOICE''" "amendment_of_key d = None" "d_total d = 0"
    using sample_statement by blast
  define line where "line = \<lparr> rl_id = ''i1'', rl_date = ''2026-06-01'', rl_description = ''Purchase - Acme'',
     rl_counterparty = ''Acme'', rl_amount = 0, rl_ref = Some ''A1'', rl_gstin = Some ''27AAAAA0000A1Z5'' \<rparr>"
  have line: "recon_line_of sample_entry = Inr line" by (simp add: recon_line_of_def sample_entry_def line_def Let_def)
  have up: "py_upper ''27AAAAA0000A1Z5'' = ''27AAAAA0000A1Z5''" "py_upper ''27BBBBB0000B1Z5'' \<noteq> ''''" by code_simp+
  have bd: "book_date line = Some (Date 2026 6 1)"
  proof -
    have "date_fromisoformat ''2026-06-01'' = Inr (Date 2026 6 1)" by code_simp
    then show ?thesis by (simp add: book_date_def line_def)
  qed
  define m where "m = outcome [d] {} (line, Some d)"
  have ms: "match_gstr2b [line] [d] {} = Inr [m]"
    by (simp add: match_gstr2b_def g2b_choose_def g2b_candidates_def same_number_def opt_str_def Let_def line_def d up m_def)
  have m: "m_bucket m = EXACT" "\<not> m_claimed_before m" "m_document m = Some d"
    using bd by (simp_all add: m_def outcome_def judge_def key_count_def d days_between_def Let_def)
       (simp_all add: line_def d)
  have bounds: "period_bounds ''062026'' = Inr (''2026-06-01'', ''2026-06-30'')" by code_simp
  have q: "require sample_firm ''books.read'' = Inr ()" "f_firm sample_firm = ''f1''" by (simp_all add: require_def sample_firm_def)
  have lines: "purchase_lines ''f1'' ''c1'' ''062026'' s = Inr [line]" if "q_bought s = [sample_entry]" for s
    using line by (simp add: purchase_lines_def that by_date_def) (simp add: sample_entry_def)
  have sample: "q_runs sample_gst = []" "q_documents sample_gst = []" "q_matches sample_gst = []" "q_claims sample_gst = []"
      "q_bought sample_gst = [sample_entry]" "q_clients sample_gst = [\<lparr> c_id = ''c1'', c_firm = ''f1'', c_gstin = ''27BBBBB0000B1Z5'' \<rparr>]"
    by (simp_all add: sample_gst_def)
  have "\<exists>a s'. create_run sample_firm ''c1'' ''062026'' ''json'' ''h'' (JsonStatement sample_payload) sample_gst = (Inr a, s')
      \<and> \<not> ra_duplicate a \<and> ra_status a = ''RECONCILED'' \<and> clean_rows ''f1'' (ra_run a) s' \<noteq> []"
    using r ms m lines up
    by (simp add: create_run_def transaction_def fill_run_def q bounds sample op_simps obind_def othen_def oget_def olift_def omod_def oret_def next_id_def
        store_document_def store_match_def set_run_status_def claimed_keys_def document_id_def clean_rows_def run_of_def
        map_where_def Let_def)
  then obtain a s' where run: "create_run sample_firm ''c1'' ''062026'' ''json'' ''h'' (JsonStatement sample_payload) sample_gst = (Inr a, s')"
      "\<not> ra_duplicate a" "ra_status a = ''RECONCILED''" "clean_rows ''f1'' (ra_run a) s' \<noteq> []" by blast
  then obtain row where row: "row \<in> set (clean_rows (f_firm sample_firm) (ra_run a) s')" using q by (metis list.set_intros(1) neq_Nil_conv)
  have "gst_step\<^sup>*\<^sup>* sample_gst sample_gst" "gst_step\<^sup>*\<^sup>* s' s'" by simp_all
  from claimed_document_not_clean [OF sample(2,3) this(1) run(1-3) this(2) row] show ?thesis using run(1) row q by auto
qed

text \<open>A decision taken by hand is not recorded in the history of claimed credit, so a later import does not warn of it.\<close>

lemma hand_acceptance_not_claimed: "q_claims (snd (decide firm mid decision ims s)) = q_claims s"
proof -
  have "keeps (\<lambda>t. q_claims t = q_claims s) (update_papers p f)" for p f
    by (auto simp: keeps_def update_papers_def split: sum.split prod.split)
  then have "keeps (\<lambda>t. q_claims t = q_claims s) (decide firm mid decision ims)"
    unfolding decide_def reopen_monthly_def by (intro keeps_intros keeps_omod) simp_all
  then show ?thesis by (simp add: keeps_def)
qed

text \<open>The report of a run counts every match as unresolved.\<close>

lemma every_match_unresolved:
  "create_workpaper firm run s = (Inr paper, s') \<Longrightarrow> gp_unresolved paper = gp_items paper"
  by (auto simp: create_workpaper_def warnings_text_def othen_def obind_Inr olift_Inr oget_Inr omod_Inr oret_Inr Let_def
      split: option.splits)

end
