(* ===== verification/Itr_Drafting.thy ===== *)
theory Itr_Drafting
  imports Income_Tax Registers
begin

text \<open>
  Source aggregation for an income-tax return (\<open>core/itr_drafting.py\<close>): the classified sources of a workspace are
  added up by kind and key, compared in pairs, and turned into the amounts of the draft. The totals are shown to be the
  sums over the sources, so neither the order in which sources arrive nor that of their values matters.
\<close>

section \<open>Sources\<close>

record itr_source =
  so_id :: string
  so_workspace :: string
  so_firm :: string
  so_kind :: string
  so_period :: string
  so_pan :: string
  so_document :: "string option"
  so_version :: string
  so_values :: "(string, pyval) dict"
  so_at :: int

type_synonym kind_totals = "(string, (string, int) dict) dict"

definition set_default :: "string \<Rightarrow> kind_totals \<Rightarrow> kind_totals" where
  "set_default kind totals = (if kind \<in> fst ` set totals then totals else totals @ [(kind, [])])"

definition amount_of :: "kind_totals \<Rightarrow> string \<Rightarrow> string \<Rightarrow> int" where
  "amount_of by_type kind key = dict_get (dict_get by_type kind []) key 0"

definition add_amount :: "string \<Rightarrow> string \<Rightarrow> int \<Rightarrow> kind_totals \<Rightarrow> kind_totals" where
  "add_amount kind key x totals =
     dict_set kind (dict_set key (amount_of totals kind key + x) (dict_get totals kind [])) totals"

definition add_value :: "string \<Rightarrow> string \<times> pyval \<Rightarrow> kind_totals \<Rightarrow> kind_totals result" where
  "add_value kind kv totals =
     (if py_endswith (fst kv) ''_paise'' then rbind (int_or_zero (snd kv)) (\<lambda>x. Inr (add_amount kind (fst kv) x totals))
      else Inr totals)"

definition add_source_values :: "itr_source \<Rightarrow> kind_totals \<Rightarrow> kind_totals result" where
  "add_source_values row totals = rfold (add_value (so_kind row)) (so_values row) (set_default (so_kind row) totals)"

definition aggregate_sources :: "itr_source list \<Rightarrow> kind_totals result" where
  "aggregate_sources rows = rfold add_source_values rows []"

definition form_tds :: "kind_totals \<Rightarrow> int" where
  "form_tds by_type = amount_of by_type ''FORM16'' ''tds_paise'' + amount_of by_type ''FORM16A'' ''tds_paise''"

definition reconciliation_pairs :: "kind_totals \<Rightarrow> (string \<times> (string, int) dict) list" where
  "reconciliation_pairs by_type =
     [(''REPORTED_INCOME'', [(''AIS'', amount_of by_type ''AIS'' ''reported_income_paise''),
                             (''BOOKS'', amount_of by_type ''BOOKS'' ''reported_income_paise'')]),
      (''TDS'', [(''26AS'', amount_of by_type ''26AS'' ''tds_paise''), (''FORMS'', form_tds by_type)]),
      (''BANK_CREDITS'', [(''BANK'', amount_of by_type ''BANK'' ''bank_credits_paise''),
                          (''AIS'', amount_of by_type ''AIS'' ''bank_credits_paise'')])]"

record draft_totals =
  dt_salary :: int
  dt_business :: int
  dt_other :: int
  dt_gains :: int
  dt_deductions :: int
  dt_credits :: int

definition draft_amounts :: "kind_totals \<Rightarrow> draft_totals" where
  "draft_amounts by_type =
     \<lparr> dt_salary = amount_of by_type ''FORM16'' ''salary_income_paise'',
       dt_business = amount_of by_type ''BOOKS'' ''business_income_paise'',
       dt_other = amount_of by_type ''AIS'' ''other_income_paise'',
       dt_gains = amount_of by_type ''AIS'' ''capital_gains_paise'',
       dt_deductions = amount_of by_type ''FORM16'' ''deductions_paise'' + amount_of by_type ''BOOKS'' ''deductions_paise'',
       dt_credits = max (amount_of by_type ''26AS'' ''tds_paise'') (form_tds by_type) + amount_of by_type ''26AS'' ''tcs_paise''
         + amount_of by_type ''BOOKS'' ''advance_tax_paise'' + amount_of by_type ''BOOKS'' ''self_assessment_tax_paise'' \<rparr>"

definition source_links :: "itr_source list \<Rightarrow> string \<Rightarrow> pyval list" where
  "source_links rows kind =
     map (\<lambda>r. VDict [(''source_id'', VStr (so_id r)), (''source_type'', VStr kind), (''source_version'', VStr (so_version r))])
       (filter (\<lambda>r. so_kind r = kind) rows)"

section \<open>The totals are sums over the sources\<close>

definition value_paise :: "pyval \<Rightarrow> int" where
  "value_paise v = (case int_or_zero v of Inl _ \<Rightarrow> 0 | Inr x \<Rightarrow> x)"

definition values_total :: "string \<Rightarrow> (string, pyval) dict \<Rightarrow> int" where
  "values_total key kvs = (if py_endswith key ''_paise'' then \<Sum>kv\<leftarrow>filter (\<lambda>kv. fst kv = key) kvs. value_paise (snd kv) else 0)"

definition source_total :: "itr_source list \<Rightarrow> string \<Rightarrow> string \<Rightarrow> int" where
  "source_total rows kind key = (\<Sum>r\<leftarrow>filter (\<lambda>r. so_kind r = kind) rows. values_total key (so_values r))"


lemma add_value_effect:
  assumes "add_value kind kv t = Inr t'" and "kind \<in> fst ` set t"
  shows "fst ` set t' = fst ` set t"
    and "amount_of t' k key = amount_of t k key + (if k = kind then values_total key [kv] else 0)"
proof -
  consider "\<not> py_endswith (fst kv) ''_paise''" "t' = t"
    | x where "py_endswith (fst kv) ''_paise''" "int_or_zero (snd kv) = Inr x" "t' = add_amount kind (fst kv) x t"
    using assms(1) by (auto simp: add_value_def rbind_eq_Inr split: if_splits)
  then have "fst ` set t' = fst ` set t \<and> amount_of t' k key = amount_of t k key + (if k = kind then values_total key [kv] else 0)"
  proof cases
    case 1
    then show ?thesis by (auto simp: values_total_def)
  next
    case (2 x)
    have "fst ` set t' = fst ` set t"
      unfolding 2(3) add_amount_def set_map [symmetric] keys_dict_set using assms(2) by simp
    then show ?thesis
      by (simp add: 2 add_amount_def amount_of_def dict_get_set values_total_def value_paise_def)
  qed
  then show "fst ` set t' = fst ` set t"
    and "amount_of t' k key = amount_of t k key + (if k = kind then values_total key [kv] else 0)"
    by blast+
qed

lemma values_total_Cons: "values_total key (kv # kvs) = values_total key [kv] + values_total key kvs"
  by (simp add: values_total_def)

lemma add_values_effect:
  assumes "rfold (add_value kind) kvs t = Inr t'" and "kind \<in> fst ` set t"
  shows "fst ` set t' = fst ` set t \<and> amount_of t' k key = amount_of t k key + (if k = kind then values_total key kvs else 0)"
  using assms
proof (induction kvs arbitrary: t)
  case (Cons kv kvs)
  then obtain t1 where t1: "add_value kind kv t = Inr t1" "rfold (add_value kind) kvs t1 = Inr t'" by (auto simp: rbind_eq_Inr)
  note e = add_value_effect [OF t1(1) Cons.prems(2)]
  show ?case using Cons.IH [OF t1(2)] e Cons.prems(2) by (simp add: values_total_Cons [of key kv kvs])
qed (simp add: values_total_def)

lemma set_default_effect:
  "fst ` set (set_default kind t) = insert kind (fst ` set t)" "amount_of (set_default kind t) k key = amount_of t k key"
proof -
  have "map_of t kind = None" if "kind \<notin> fst ` set t" using that by (simp add: map_of_eq_None_iff)
  then show "fst ` set (set_default kind t) = insert kind (fst ` set t)" "amount_of (set_default kind t) k key = amount_of t k key"
    by (auto simp: set_default_def amount_of_def dict_get_def map_add_def split: option.split)
qed

lemma aggregate_from:
  assumes "rfold add_source_values rows t = Inr t'"
  shows "fst ` set t' = fst ` set t \<union> so_kind ` set rows
    \<and> amount_of t' kind key = amount_of t kind key + source_total rows kind key"
  using assms
proof (induction rows arbitrary: t)
  case (Cons r rows)
  then obtain t1 where t1: "add_source_values r t = Inr t1" "rfold add_source_values rows t1 = Inr t'" by (auto simp: rbind_eq_Inr)
  have "fst ` set t1 = insert (so_kind r) (fst ` set t)
      \<and> amount_of t1 kind key = amount_of t kind key + (if kind = so_kind r then values_total key (so_values r) else 0)"
    using add_values_effect [OF t1(1) [unfolded add_source_values_def], of kind key] by (simp add: set_default_effect)
  then show ?case using Cons.IH [OF t1(2)] by (auto simp: source_total_def)
qed (simp add: source_total_def)

lemma aggregate_totals:
  assumes "aggregate_sources rows = Inr by_type"
  shows "fst ` set by_type = so_kind ` set rows" and "amount_of by_type kind key = source_total rows kind key"
  using aggregate_from [OF assms [unfolded aggregate_sources_def], of kind key] by (simp_all add: amount_of_def dict_get_def)

lemma source_total_mset: "mset rows = mset rows' \<Longrightarrow> source_total rows kind key = source_total rows' kind key"
proof -
  assume "mset rows = mset rows'"
  then have "image_mset (\<lambda>r. values_total key (so_values r)) (filter_mset (\<lambda>r. so_kind r = kind) (mset rows))
      = image_mset (\<lambda>r. values_total key (so_values r)) (filter_mset (\<lambda>r. so_kind r = kind) (mset rows'))" by simp
  then have "mset (map (\<lambda>r. values_total key (so_values r)) (filter (\<lambda>r. so_kind r = kind) rows))
      = mset (map (\<lambda>r. values_total key (so_values r)) (filter (\<lambda>r. so_kind r = kind) rows'))" by simp
  from arg_cong [OF this, of sum_mset] show ?thesis unfolding source_total_def sum_mset_sum_list .
qed

lemma aggregate_sources_returns:
  assumes "\<forall>r\<in>set rows. \<forall>kv\<in>set (so_values r). is_ok (int_or_zero (snd kv))"
  shows "\<exists>by_type. aggregate_sources rows = Inr by_type"
proof -
  have vals: "\<exists>t'. rfold (add_value kind) kvs t = Inr t'" if "\<forall>kv\<in>set kvs. is_ok (int_or_zero (snd kv))" for kind kvs t
    using that
  proof (induction kvs arbitrary: t)
    case (Cons kv kvs)
    then obtain x where "int_or_zero (snd kv) = Inr x" by (auto simp: is_ok_def split: sum.splits)
    then have "\<exists>t1. add_value kind kv t = Inr t1" by (simp add: add_value_def)
    then obtain t1 where "add_value kind kv t = Inr t1" by blast
    moreover obtain t2 where "rfold (add_value kind) kvs t1 = Inr t2" using Cons by auto
    ultimately show ?case by simp
  qed simp
  have "\<exists>t'. rfold add_source_values rows t = Inr t'" for t using assms
  proof (induction rows arbitrary: t)
    case (Cons r rows)
    have "\<exists>t1. add_source_values r t = Inr t1"
      unfolding add_source_values_def by (rule vals) (use Cons.prems in simp)
    then show ?case using Cons by auto
  qed simp
  then show ?thesis by (simp add: aggregate_sources_def)
qed

end
