(* ===== verification/Itr_Workspaces.thy ===== *)
theory Itr_Workspaces
  imports Itr_Drafting Access_Control
begin

text \<open>
  The workspace of an income-tax return (\<open>api/routes/itr_workspaces.py\<close>, \<open>itr_computation.py\<close>, \<open>itr_rules.py\<close>) over the
  tables of migration 20260715081150 with their check, unique and reference constraints. The database chooses the
  \<open>uuid\<close> of a new row, so it is an argument of the operations. A text bound to a typed parameter is read as the cast in
  the statement says; a check constraint that evaluates to \<open>NULL\<close> passes. Row-level security is left out; texts
  contain no NUL.
\<close>

section \<open>Tables\<close>

datatype itr_status = IW_DATA_REQUIRED | IW_PREPARING | IW_NEEDS_REVIEW | IW_APPROVED | IW_READY_FOR_MANUAL_FILING
  | IW_FILED_EXTERNALLY | IW_E_VERIFICATION_PENDING | IW_REJECTED | IW_ACKNOWLEDGEMENT_UPLOADED | IW_COMPLETED

record schedule_line =
  sl_schedule :: string
  sl_line :: string
  sl_amount :: int
  sl_links :: "pyval list"
  sl_rule :: "string option"
  sl_rounding :: string
  sl_adjustment :: int
  sl_explanation :: string

datatype itr_computation = NoComputation | ScheduleTotal int nat | DraftComputation tax_output

record itr_pack =
  ip_computation :: itr_computation
  ip_lines :: "schedule_line list"
  ip_missing :: "string list"
  ip_evidence :: "(string \<times> string \<times> string \<times> string option) list"

record itr_workspace =
  iw_id :: string
  iw_firm :: string
  iw_client :: string
  iw_year :: string
  iw_pan :: string
  iw_name :: string
  iw_status :: itr_status
  iw_hash :: "string option"
  iw_approved_hash :: "string option"
  iw_stale :: bool
  iw_computation :: itr_computation
  iw_pack :: "itr_pack option"
  iw_approved_by :: "string option"
  iw_approved_at :: "int option"

record itr_authorization =
  au_workspace :: string
  au_firm :: string
  au_by :: string
  au_evidence :: string
  au_permissions :: "string list"
  au_to :: string
  au_at :: string
  au_revoked :: bool

record itr_rule =
  ru_id :: string
  ru_year :: string
  ru_key :: string
  ru_version :: string
  ru_citation :: string
  ru_rule :: tax_rule
  ru_by :: string
  ru_at :: int

record recon_item =
  ri_workspace :: string
  ri_category :: string
  ri_values :: "(string, int) dict"
  ri_difference :: int
  ri_status :: string

record filing_event =
  fe_workspace :: string
  fe_kind :: string
  fe_reference :: string
  fe_evidence :: "string option"
  fe_at :: string
  fe_by :: string

record itr_db =
  t_now :: int
  t_documents :: "string list"
  t_workspaces :: "itr_workspace list"
  t_sources :: "itr_source list"
  t_authorizations :: "itr_authorization list"
  t_rules :: "itr_rule list"
  t_lines :: "(string \<times> schedule_line) list"
  t_items :: "recon_item list"
  t_events :: "filing_event list"

definition evidenced :: "itr_status \<Rightarrow> bool" where
  "evidenced st = (st \<in> {IW_APPROVED, IW_READY_FOR_MANUAL_FILING, IW_FILED_EXTERNALLY, IW_E_VERIFICATION_PENDING,
      IW_ACKNOWLEDGEMENT_UPLOADED, IW_COMPLETED})"

text \<open>\<open>approved_source_hash=source_hash\<close> is unknown when one of them is \<open>NULL\<close>.\<close>

definition hashes_differ :: "itr_workspace \<Rightarrow> bool" where
  "hashes_differ w = (iw_approved_hash w \<noteq> None \<and> iw_hash w \<noteq> None \<and> iw_approved_hash w \<noteq> iw_hash w)"

definition workspace_check :: "itr_workspace \<Rightarrow> itr_workspace result" where
  "workspace_check w =
     (if evidenced (iw_status w) \<and> (iw_approved_at w = None \<or> hashes_differ w \<or> iw_stale w)
      then Inl (DatabaseError ''itr_workspaces_check'') else Inr w)"

definition update_workspaces :: "(itr_workspace \<Rightarrow> bool) \<Rightarrow> (itr_workspace \<Rightarrow> itr_workspace) \<Rightarrow> (itr_db, itr_workspace list) op" where
  "update_workspaces p f s =
     (case update_rows p (\<lambda>w. workspace_check (f w)) (t_workspaces s) of
        Inl e \<Rightarrow> (Inl e, s)
      | Inr (rows, hits) \<Rightarrow> (Inr hits, s\<lparr>t_workspaces := rows\<rparr>))"

definition first_row :: "'a list \<Rightarrow> ('s, 'a) op" where
  "first_row rows = (case rows of [] \<Rightarrow> oraise TypeError | r # _ \<Rightarrow> oret r)"

definition find_workspace :: "firm_context \<Rightarrow> string \<Rightarrow> itr_db \<Rightarrow> itr_workspace option" where
  "find_workspace firm wid s = find (\<lambda>w. iw_id w = wid \<and> iw_firm w = f_firm firm) (t_workspaces s)"

definition sources_of :: "itr_db \<Rightarrow> string \<Rightarrow> itr_source list" where
  "sources_of s wid = filter (\<lambda>r. so_workspace r = wid) (t_sources s)"

definition schedule_of :: "itr_db \<Rightarrow> string \<Rightarrow> schedule_line list" where
  "schedule_of s wid = map snd (filter (\<lambda>l. fst l = wid) (t_lines s))"

definition items_of :: "itr_db \<Rightarrow> string \<Rightarrow> recon_item list" where
  "items_of s wid = filter (\<lambda>i. ri_workspace i = wid) (t_items s)"

definition is_bigint :: "int \<Rightarrow> bool" where "is_bigint i = (- (2 ^ 63) \<le> i \<and> i < 2 ^ 63)"

section \<open>Opening a workspace\<close>

definition year_pattern :: "string \<Rightarrow> bool" where
  "year_pattern y = (length y = 7 \<and> list_all is_digit (take 4 y) \<and> y ! 4 = CHR ''-'' \<and> list_all is_digit (drop 5 y))"

definition pan_pattern :: "string \<Rightarrow> bool" where
  "pan_pattern p = (length p = 10 \<and> list_all is_upper (take 5 p) \<and> list_all is_digit (take 4 (drop 5 p)) \<and> is_upper (p ! 9))"

record workspace_request =
  wr_client :: string
  wr_year :: string
  wr_pan :: string
  wr_name :: string

definition workspace_valid :: "workspace_request \<Rightarrow> bool" where
  "workspace_valid b = (year_pattern (wr_year b) \<and> pan_pattern (wr_pan b) \<and> 2 \<le> length (wr_name b) \<and> length (wr_name b) \<le> 255)"

definition new_workspace :: "firm_context \<Rightarrow> string \<Rightarrow> workspace_request \<Rightarrow> itr_workspace" where
  "new_workspace firm uuid b =
     \<lparr> iw_id = uuid, iw_firm = f_firm firm, iw_client = wr_client b, iw_year = wr_year b, iw_pan = wr_pan b,
       iw_name = wr_name b, iw_status = IW_DATA_REQUIRED, iw_hash = None, iw_approved_hash = None, iw_stale = False,
       iw_computation = NoComputation, iw_pack = None, iw_approved_by = None, iw_approved_at = None \<rparr>"

definition create_workspace :: "firm_context \<Rightarrow> string \<Rightarrow> workspace_request \<Rightarrow> (itr_db, itr_workspace) op" where
  "create_workspace firm uuid b =
     (if \<not> workspace_valid b then oraise (HTTPException 422 ''Unprocessable request'')
      else othen (olift (require firm ''books.propose''))
       (if 50 < length (wr_client b) then oraise (DatabaseError ''value too long'')
        else
          (let same = (\<lambda>w. iw_firm w = f_firm firm \<and> iw_client w = wr_client b \<and> iw_year w = wr_year b)
           in obind (oget (\<lambda>s. (list_ex (\<lambda>w. iw_id w = uuid) (t_workspaces s), list_ex same (t_workspaces s)))) (\<lambda>(taken, there).
              if taken then oraise (DatabaseError ''duplicate key value'')
              else if there then obind (update_workspaces same (\<lambda>w. w\<lparr>iw_pan := wr_pan b, iw_name := wr_name b\<rparr>)) first_row
              else othen (omod (\<lambda>s. s\<lparr>t_workspaces := t_workspaces s @ [new_workspace firm uuid b]\<rparr>))
                   (oret (new_workspace firm uuid b))))))"

section \<open>Authorizations\<close>

definition require_authorization :: "string \<Rightarrow> string \<Rightarrow> string \<Rightarrow> (itr_db, unit) op" where
  "require_authorization wid permission user =
     obind (oget (\<lambda>s. list_ex (\<lambda>a. au_workspace a = wid \<and> permission \<in> set (au_permissions a) \<and> au_to a = user \<and> \<not> au_revoked a)
              (t_authorizations s))) (\<lambda>allowed.
     if allowed then oret ()
     else oraise (HTTPException 409 (''Taxpayer authorization with '' @ py_lower permission @ '' permission is required'')))"

record authorization_request =
  ar_by :: string
  ar_evidence :: string
  ar_to :: "string option"
  ar_permissions :: "string list"
  ar_at :: string

definition granted_to :: "firm_context \<Rightarrow> authorization_request \<Rightarrow> string" where
  "granted_to firm b = (case ar_to b of Some u \<Rightarrow> if u = '''' then f_user firm else u | None \<Rightarrow> f_user firm)"

definition authorize :: "firm_context \<Rightarrow> string \<Rightarrow> authorization_request \<Rightarrow> (itr_db, itr_authorization) op" where
  "authorize firm wid b =
     othen (olift (require firm ''books.propose''))
     (if \<not> set (ar_permissions b) \<subseteq> {''VIEW'', ''PREPARE'', ''APPROVE''} \<or> ar_permissions b = []
      then oraise (HTTPException 422 ''Choose view, prepare, or approve permissions'')
      else obind (oget (find_workspace firm wid)) (\<lambda>owned.
        if owned = None then oraise (HTTPException 404 ''Workspace not found'')
        else let a = \<lparr> au_workspace = wid, au_firm = f_firm firm, au_by = ar_by b, au_evidence = ar_evidence b,
                       au_permissions = ar_permissions b, au_to = granted_to firm b, au_at = ar_at b, au_revoked = False \<rparr>
             in othen (omod (\<lambda>s. s\<lparr>t_authorizations := t_authorizations s @ [a]\<rparr>)) (oret a)))"

section \<open>Sources\<close>

text \<open>What PostgreSQL returns for a \<open>jsonb\<close> object: keys by length, then bytewise, with a space after colon and comma.\<close>

definition jsonb_order :: "(string, pyval) dict \<Rightarrow> (string, pyval) dict" where
  "jsonb_order kvs = sort_key (\<lambda>kv. (length (fst kv), fst kv)) kvs"

definition jsonb_string :: "string \<Rightarrow> string" where
  "jsonb_string s = dquote_char # concat (map (\<lambda>c. let n = of_char c in if n < 128 then escape_ascii n else [c]) s) @ [dquote_char]"

definition paise_value :: "pyval \<Rightarrow> bool" where
  "paise_value v = (case v of VInt _ \<Rightarrow> True | VBool _ \<Rightarrow> True | _ \<Rightarrow> False)"

definition jsonb_scalar :: "pyval \<Rightarrow> string" where
  "jsonb_scalar v = (case v of VInt i \<Rightarrow> int_to_str i | VBool b \<Rightarrow> if b then ''true'' else ''false'' | _ \<Rightarrow> ''null'')"

definition jsonb_text :: "(string, pyval) dict \<Rightarrow> string" where
  "jsonb_text kvs = ''{'' @ py_join '', '' (map (\<lambda>kv. jsonb_string (fst kv) @ '': '' @ jsonb_scalar (snd kv)) kvs) @ ''}''"

definition source_digest :: "itr_source list \<Rightarrow> string result" where
  "source_digest rows =
     rbind (json_sorted (VList (map (\<lambda>r. VDict [(''source_type'', VStr (so_kind r)), (''source_version'', VStr (so_version r)),
                                               (''extracted_values'', VStr (jsonb_text (so_values r)))]) rows)))
       (\<lambda>j. Inr (sha256_hex j))"

definition SOURCE_KINDS :: "string list" where
  "SOURCE_KINDS = [''AIS'', ''TIS'', ''26AS'', ''FORM16'', ''FORM16A'', ''BOOKS'', ''BANK'', ''EVIDENCE'']"

record source_request =
  sq_kind :: string
  sq_period :: string
  sq_pan :: string
  sq_version :: string
  sq_document :: "string option"
  sq_values :: "(string, pyval) dict"

definition source_valid :: "source_request \<Rightarrow> bool" where
  "source_valid b = (sq_kind b \<in> set SOURCE_KINDS \<and> pan_pattern (sq_pan b) \<and> sq_values b \<noteq> []
      \<and> (\<forall>kv\<in>set (sq_values b). py_endswith (fst kv) ''_paise'' \<and> paise_value (snd kv)))"

definition insert_source :: "itr_source \<Rightarrow> (itr_db, unit) op" where
  "insert_source r =
     obind (oget (\<lambda>s. (list_ex (\<lambda>x. so_id x = so_id r) (t_sources s)
                     \<or> list_ex (\<lambda>x. so_workspace x = so_workspace r \<and> so_kind x = so_kind r \<and> so_version x = so_version r) (t_sources s),
                     case so_document r of None \<Rightarrow> True | Some d \<Rightarrow> d \<in> set (t_documents s)))) (\<lambda>(taken, known).
     if 20 < length (so_period r) \<or> 100 < length (so_version r) then oraise (DatabaseError ''value too long'')
     else if taken then oraise (DatabaseError ''duplicate key value'')
     else if \<not> known then oraise (DatabaseError ''foreign key violation'')
     else omod (\<lambda>s. s\<lparr>t_sources := t_sources s @ [r]\<rparr>))"

definition drop_lines :: "string \<Rightarrow> (itr_db, unit) op" where
  "drop_lines wid = omod (\<lambda>s. s\<lparr>t_lines := filter (\<lambda>l. fst l \<noteq> wid) (t_lines s)\<rparr>)"

definition changed_sources :: "string \<Rightarrow> itr_workspace \<Rightarrow> itr_workspace" where
  "changed_sources digest w =
     (let outdated = (iw_approved_hash w \<noteq> None \<and> iw_approved_hash w \<noteq> Some digest)
      in w\<lparr>iw_hash := Some digest, iw_computation := NoComputation, iw_stale := outdated,
           iw_status := (if outdated then IW_NEEDS_REVIEW else IW_DATA_REQUIRED)\<rparr>)"

definition add_source :: "firm_context \<Rightarrow> string \<Rightarrow> string \<Rightarrow> source_request \<Rightarrow> (itr_db, itr_source) op" where
  "add_source firm uuid wid b =
     (if \<not> source_valid b then oraise (HTTPException 422 ''Unprocessable request'')
      else othen (olift (require firm ''books.propose''))
       (transaction
        (obind (oget (find_workspace firm wid)) (\<lambda>found.
         case found of
           None \<Rightarrow> oraise (HTTPException 404 ''Workspace not found'')
         | Some w \<Rightarrow>
             othen (require_authorization wid ''PREPARE'' (f_user firm))
             (if iw_pan w \<noteq> sq_pan b then oraise (HTTPException 422 ''Source taxpayer does not match the workspace'')
              else obind (oget t_now) (\<lambda>t.
                let row = \<lparr> so_id = uuid, so_workspace = iw_id w, so_firm = f_firm firm, so_kind = sq_kind b, so_period = sq_period b,
                            so_pan = sq_pan b, so_document = sq_document b, so_version = sq_version b,
                            so_values = jsonb_order (sq_values b), so_at = t \<rparr>
                in othen (insert_source row)
                  (obind (oget (\<lambda>s. source_digest (sort_key so_id (sources_of s (iw_id w))))) (\<lambda>d.
                   obind (olift d) (\<lambda>digest.
                   othen (drop_lines (iw_id w))
                   (obind (update_workspaces (\<lambda>x. iw_id x = iw_id w) (changed_sources digest)) (\<lambda>_. oret row)))))))))))"

section \<open>Reconciliation\<close>

definition available :: "kind_totals \<Rightarrow> string \<Rightarrow> bool" where
  "available by_type kind =
     (if kind = ''FORMS'' then ''FORM16'' \<in> fst ` set by_type \<or> ''FORM16A'' \<in> fst ` set by_type else kind \<in> fst ` set by_type)"

definition recon_result :: "string \<Rightarrow> kind_totals \<Rightarrow> string \<times> (string, int) dict \<Rightarrow> recon_item" where
  "recon_result wid by_type pair =
     (let present = map snd (filter (\<lambda>kv. available by_type (fst kv)) (snd pair));
          difference = (if present = [] then 0 else Max (set present) - Min (set present))
      in \<lparr> ri_workspace = wid, ri_category = fst pair, ri_values = snd pair, ri_difference = difference,
           ri_status = (if length present < 2 then ''MISSING_EVIDENCE''
                        else if difference \<le> 100 then ''MATCHED'' else ''CONFLICT'') \<rparr>)"

definition insert_item :: "recon_item \<Rightarrow> (itr_db, unit) op" where
  "insert_item i = (if \<not> is_bigint (ri_difference i) then oraise (DatabaseError ''value out of int64 range'')
                    else omod (\<lambda>s. s\<lparr>t_items := t_items s @ [i]\<rparr>))"

definition reconcile_workspace :: "firm_context \<Rightarrow> string \<Rightarrow> (itr_db, recon_item list) op" where
  "reconcile_workspace firm wid =
     othen (olift (require firm ''books.propose''))
     (transaction
      (obind (oget (find_workspace firm wid)) (\<lambda>found.
       case found of
         None \<Rightarrow> oraise (HTTPException 404 ''Workspace not found'')
       | Some w \<Rightarrow>
           othen (require_authorization wid ''PREPARE'' (f_user firm))
           (obind (oget (\<lambda>s. aggregate_sources (sources_of s (iw_id w)))) (\<lambda>totals.
            obind (olift totals) (\<lambda>by_type.
            othen (omod (\<lambda>s. s\<lparr>t_items := filter (\<lambda>i. ri_workspace i \<noteq> iw_id w) (t_items s)\<rparr>))
            (let results = map (recon_result (iw_id w) by_type) (reconciliation_pairs by_type);
                 next = (if results \<noteq> [] \<and> list_all (\<lambda>i. ri_status i = ''MATCHED'') results then IW_NEEDS_REVIEW else IW_DATA_REQUIRED)
             in othen (oeach insert_item results)
                (obind (update_workspaces (\<lambda>x. iw_id x = iw_id w) (\<lambda>x. x\<lparr>iw_status := next\<rparr>)) (\<lambda>_. oret results)))))))))"

definition reconciled :: "string \<Rightarrow> itr_db \<Rightarrow> bool" where
  "reconciled wid s = (3 \<le> length (items_of s wid) \<and> list_all (\<lambda>i. ri_status i = ''MATCHED'') (items_of s wid))"

section \<open>Schedules and drafts\<close>

definition insert_schedule_line :: "string \<Rightarrow> schedule_line \<Rightarrow> (itr_db, unit) op" where
  "insert_schedule_line wid l =
     obind (oget (\<lambda>s. (list_ex (\<lambda>x. sl_schedule x = sl_schedule l \<and> sl_line x = sl_line l) (schedule_of s wid),
                     case sl_rule l of None \<Rightarrow> True | Some r \<Rightarrow> list_ex (\<lambda>x. ru_id x = r) (t_rules s)))) (\<lambda>(taken, known).
     if \<not> is_bigint (sl_amount l) \<or> \<not> is_bigint (sl_adjustment l) then oraise (DatabaseError ''value out of int64 range'')
     else if 50 < length (sl_schedule l) \<or> 100 < length (sl_line l) \<or> 50 < length (sl_rounding l)
       then oraise (DatabaseError ''value too long'')
     else if \<not> list_all jsonb_ok (sl_links l) then oraise (DatabaseError ''invalid input syntax for type json'')
     else if taken then oraise (DatabaseError ''duplicate key value'')
     else if \<not> known then oraise (DatabaseError ''foreign key violation'')
     else omod (\<lambda>s. s\<lparr>t_lines := t_lines s @ [(wid, l)]\<rparr>))"

definition put_line :: "string \<Rightarrow> schedule_line \<Rightarrow> (itr_db, unit) op" where
  "put_line wid l = (if sl_links l = [] then oraise (HTTPException 422 ''Every schedule line needs source links'')
                     else insert_schedule_line wid l)"

definition put_schedules :: "firm_context \<Rightarrow> string \<Rightarrow> schedule_line list \<Rightarrow> (itr_db, itr_workspace) op" where
  "put_schedules firm wid ls =
     (if \<not> list_all (\<lambda>l. list_all is_dict (sl_links l)) ls then oraise (HTTPException 422 ''Unprocessable request'')
      else othen (olift (require firm ''books.propose''))
       (transaction
        (obind (oget (find_workspace firm wid)) (\<lambda>found.
         case found of
           None \<Rightarrow> oraise (HTTPException 404 ''Workspace not found'')
         | Some w \<Rightarrow>
             othen (require_authorization wid ''PREPARE'' (f_user firm))
             (othen (drop_lines (iw_id w))
             (othen (oeach (put_line (iw_id w)) ls)
             (let computation = ScheduleTotal (\<Sum>l\<leftarrow>ls. sl_amount l + sl_adjustment l) (length ls)
              in obind (update_workspaces (\<lambda>x. iw_id x = iw_id w)
                   (\<lambda>x. x\<lparr>iw_computation := computation, iw_status := IW_NEEDS_REVIEW\<rparr>)) first_row)))))))"

record draft_request =
  dr_regime :: string
  dr_resident :: bool
  dr_special_tax :: int

definition rule_for :: "string \<Rightarrow> itr_db \<Rightarrow> itr_rule option" where
  "rule_for year s =
     (case rev (sort_key ru_at (filter (\<lambda>r. ru_year r = year \<and> ru_key r = ''INDIVIDUAL_NORMAL_INCOME'') (t_rules s))) of
        [] \<Rightarrow> None | r # _ \<Rightarrow> Some r)"

definition draft_input :: "draft_request \<Rightarrow> draft_totals \<Rightarrow> tax_input" where
  "draft_input b am =
     \<lparr> i_income = dt_salary am + dt_business am + dt_other am, i_deductions = dt_deductions am, i_tax_credits = dt_credits am,
       i_regime = dr_regime b, i_resident = dr_resident b, i_special_income = dt_gains am,
       i_special_tax = dr_special_tax b, i_new_allowed = 0 \<rparr>"

definition draft_specs :: "draft_totals \<Rightarrow> (string \<times> string \<times> int \<times> string) list" where
  "draft_specs am =
     [(''SALARY'', ''income'', dt_salary am, ''FORM16''), (''BUSINESS'', ''income'', dt_business am, ''BOOKS''),
      (''OTHER_SOURCES'', ''income'', dt_other am, ''AIS''), (''CAPITAL_GAINS'', ''income'', dt_gains am, ''AIS''),
      (''DEDUCTIONS'', ''deductions'', - dt_deductions am, ''FORM16''), (''TAX_CREDITS'', ''credits'', - dt_credits am, ''26AS'')]"

definition draft_line :: "itr_source list \<Rightarrow> string \<Rightarrow> string \<times> string \<times> int \<times> string \<Rightarrow> schedule_line" where
  "draft_line rows rule spec =
     (case spec of (schedule, line, amount, kind) \<Rightarrow>
        \<lparr> sl_schedule = schedule, sl_line = line, sl_amount = amount, sl_links = source_links rows kind, sl_rule = Some rule,
          sl_rounding = ''NEAREST_RUPEE'', sl_adjustment = 0,
          sl_explanation = ''Drafted from classified '' @ kind @ '' source values'' \<rparr>)"

definition put_draft_line :: "string \<Rightarrow> itr_source list \<Rightarrow> string \<Rightarrow> string \<times> string \<times> int \<times> string \<Rightarrow> (itr_db, unit) op" where
  "put_draft_line wid rows rule spec =
     (let l = draft_line rows rule spec
      in if sl_amount l \<noteq> 0 \<and> sl_links l = [] then oraise (HTTPException 409 (sl_schedule l @ '' has no source link''))
         else owhen (sl_amount l \<noteq> 0) (insert_schedule_line wid l))"

definition draft :: "firm_context \<Rightarrow> string \<Rightarrow> draft_request \<Rightarrow> (itr_db, itr_workspace) op" where
  "draft firm wid b =
     (if dr_regime b \<notin> {''NEW'', ''OLD''} \<or> dr_special_tax b < 0 then oraise (HTTPException 422 ''Unprocessable request'')
      else othen (olift (require firm ''books.propose''))
       (transaction
        (obind (oget (find_workspace firm wid)) (\<lambda>found.
         case found of
           None \<Rightarrow> oraise (HTTPException 404 ''Workspace not found'')
         | Some w \<Rightarrow>
             othen (require_authorization wid ''PREPARE'' (f_user firm))
             (obind (oget (\<lambda>s. (reconciled (iw_id w) s, rule_for (iw_year w) s, sort_key so_at (sources_of s (iw_id w)))))
              (\<lambda>(matched, rule_row, rows).
              if \<not> matched then oraise (HTTPException 409 ''Reconcile all required sources before drafting'')
              else case rule_row of
                None \<Rightarrow> oraise (HTTPException 409 ''Activate and review the assessment-year rule before drafting'')
              | Some rule \<Rightarrow>
                  if rows = [] then oraise (HTTPException 409 ''Classified source evidence is required'')
                  else obind (olift (aggregate_sources rows)) (\<lambda>by_type.
                    let am = draft_amounts by_type
                    in if dt_gains am \<noteq> 0 \<and> dr_special_tax b = 0
                       then oraise (HTTPException 409 ''Enter reviewed special-rate tax for the capital-gains schedule'')
                       else obind (olift (calculate (ru_rule rule) (draft_input b am))) (\<lambda>computation.
                         othen (drop_lines (iw_id w))
                         (othen (oeach (put_draft_line (iw_id w) rows (ru_id rule)) (draft_specs am))
                         (obind (update_workspaces (\<lambda>x. iw_id x = iw_id w)
                            (\<lambda>x. x\<lparr>iw_computation := DraftComputation computation, iw_status := IW_NEEDS_REVIEW, iw_stale := False\<rparr>))
                          first_row))))))))))"

section \<open>Approval, pack and filing\<close>

definition approve_workspace :: "firm_context \<Rightarrow> string \<Rightarrow> (itr_db, itr_workspace) op" where
  "approve_workspace firm wid =
     othen (olift (require firm ''compliance.review''))
     (othen (require_authorization wid ''APPROVE'' (f_user firm))
     (obind (oget (\<lambda>s. (reconciled wid s, schedule_of s wid, t_now s))) (\<lambda>(matched, ls, t).
      if \<not> matched then oraise (HTTPException 409 ''Resolve all required reconciliation checks first'')
      else if ls = [] then oraise (HTTPException 409 ''Draft source-linked schedules before approval'')
      else obind (update_workspaces
             (\<lambda>w. iw_id w = wid \<and> iw_firm w = f_firm firm \<and> iw_status w = IW_NEEDS_REVIEW \<and> iw_hash w \<noteq> None)
             (\<lambda>w. w\<lparr>iw_status := IW_APPROVED, iw_approved_by := Some (f_user firm), iw_approved_at := Some t,
                    iw_approved_hash := iw_hash w, iw_stale := False\<rparr>)) (\<lambda>hits.
           case hits of [] \<Rightarrow> oraise (HTTPException 409 ''Workspace is not ready for approval'') | w # _ \<Rightarrow> oret w))))"

definition itr_pack_of :: "itr_workspace \<Rightarrow> itr_db \<Rightarrow> itr_pack" where
  "itr_pack_of w s =
     (let rows = sources_of s (iw_id w)
      in \<lparr> ip_computation = iw_computation w,
           ip_lines = sort_key (\<lambda>l. (sl_schedule l, sl_line l)) (schedule_of s (iw_id w)),
           ip_missing = filter (\<lambda>k. k \<notin> so_kind ` set rows) [''26AS'', ''AIS'', ''BOOKS''],
           ip_evidence = map (\<lambda>r. (so_kind r, so_period r, so_version r, so_document r)) rows \<rparr>)"

definition pack_workspace :: "firm_context \<Rightarrow> string \<Rightarrow> (itr_db, itr_workspace) op" where
  "pack_workspace firm wid =
     obind (oget (find_workspace firm wid)) (\<lambda>found.
     case found of
       None \<Rightarrow> oraise (HTTPException 409 ''Approve a current workspace first'')
     | Some w \<Rightarrow>
         if iw_status w \<noteq> IW_APPROVED \<or> iw_stale w then oraise (HTTPException 409 ''Approve a current workspace first'')
         else obind (oget (itr_pack_of w)) (\<lambda>pack.
           obind (update_workspaces (\<lambda>x. iw_id x = iw_id w)
             (\<lambda>x. x\<lparr>iw_status := IW_READY_FOR_MANUAL_FILING, iw_pack := Some pack\<rparr>)) first_row))"

definition event_status :: "string \<Rightarrow> itr_status option" where
  "event_status kind =
     (if kind = ''FILED_EXTERNALLY'' then Some IW_FILED_EXTERNALLY else if kind = ''PAYMENT_RECORDED'' then Some IW_FILED_EXTERNALLY
      else if kind = ''E_VERIFIED'' then Some IW_FILED_EXTERNALLY else if kind = ''REJECTED'' then Some IW_REJECTED
      else if kind = ''ACKNOWLEDGEMENT_UPLOADED'' then Some IW_COMPLETED else None)"

record event_request =
  er_kind :: string
  er_reference :: string
  er_evidence :: "string option"
  er_at :: string

definition no_evidence :: "event_request \<Rightarrow> bool" where
  "no_evidence b = (er_evidence b = None \<or> er_evidence b = Some '''')"

definition record_event :: "firm_context \<Rightarrow> string \<Rightarrow> event_request \<Rightarrow> (itr_db, itr_workspace) op" where
  "record_event firm wid b =
     (case event_status (er_kind b) of
        None \<Rightarrow> oraise (HTTPException 422 ''Unprocessable request'')
      | Some status \<Rightarrow>
         transaction
         (obind (oget (find_workspace firm wid)) (\<lambda>found.
          case found of
            None \<Rightarrow> oraise (HTTPException 404 ''Workspace not found'')
          | Some w \<Rightarrow>
              if er_kind b = ''FILED_EXTERNALLY'' \<and> iw_status w \<noteq> IW_READY_FOR_MANUAL_FILING
              then oraise (HTTPException 409 ''Manual filing pack is not ready'')
              else if er_kind b = ''ACKNOWLEDGEMENT_UPLOADED''
                  \<and> (iw_status w \<notin> {IW_FILED_EXTERNALLY, IW_E_VERIFICATION_PENDING} \<or> no_evidence b)
              then oraise (HTTPException 409 ''Acknowledgement evidence is required after external filing'')
              else othen (omod (\<lambda>s. s\<lparr>t_events := t_events s @
                       [\<lparr> fe_workspace = iw_id w, fe_kind = er_kind b, fe_reference = er_reference b,
                          fe_evidence = er_evidence b, fe_at = er_at b, fe_by = f_user firm \<rparr>]\<rparr>))
                   (obind (update_workspaces (\<lambda>x. iw_id x = iw_id w) (\<lambda>x. x\<lparr>iw_status := status\<rparr>)) first_row))))"

section \<open>Rules\<close>

definition OFFICIAL_SOURCE :: string where
  "OFFICIAL_SOURCE = ''https://www.incometax.gov.in/iec/foportal/help/individual/return-applicable-1''"

definition reviewed_rule :: "string \<Rightarrow> tax_rule result" where
  "reviewed_rule year =
     (case rbind (official_rule year) (\<lambda>rule. rbind (validate_rule rule) (\<lambda>_. Inr rule)) of
        Inl (ValueError m) \<Rightarrow> Inl (HTTPException 422 m) | r \<Rightarrow> r)"

definition activate_rule_version :: "firm_context \<Rightarrow> string \<Rightarrow> string \<Rightarrow> (itr_db, itr_rule) op" where
  "activate_rule_version firm uuid year =
     othen (olift (require firm ''compliance.review''))
     (obind (olift (reviewed_rule year)) (\<lambda>rule.
      obind (oget (\<lambda>s. (list_ex (\<lambda>r. ru_id r = uuid) (t_rules s), t_now s))) (\<lambda>(taken, t).
      let same = (\<lambda>r. ru_year r = year \<and> ru_key r = ''INDIVIDUAL_NORMAL_INCOME'' \<and> ru_version r = ''firmos-2026.1'');
          new = \<lparr> ru_id = uuid, ru_year = year, ru_key = ''INDIVIDUAL_NORMAL_INCOME'', ru_version = ''firmos-2026.1'',
                  ru_citation = OFFICIAL_SOURCE, ru_rule = rule, ru_by = f_user firm, ru_at = t \<rparr>
      in if taken then oraise (DatabaseError ''duplicate key value'')
         else othen (omod (\<lambda>s. s\<lparr>t_rules :=
                (if list_ex same (t_rules s) then map_where same (\<lambda>r. r\<lparr>ru_by := f_user firm, ru_at := t\<rparr>) (t_rules s)
                 else t_rules s @ [new])\<rparr>))
              (obind (oget (\<lambda>s. filter same (t_rules s))) first_row))))"

end
