(* ===== verification/Itr_Filing.thy ===== *)
theory Itr_Filing
  imports Itr_Workspaces
begin

text \<open>
  What the workspaces of \<open>Itr_Workspaces\<close> guarantee in every reachable state: a return that is approved, packed, filed or
  completed was approved by an authorized reviewer and its sources are still the ones that were approved; every schedule
  line has source links; the draft is the official rule's computation on the totals of the sources. Where the code stops
  short of what it means to enforce, a theorem says so.
\<close>

section \<open>The invariant\<close>

definition sources_signed :: "itr_source list \<Rightarrow> itr_workspace \<Rightarrow> bool" where
  "sources_signed rows w =
     (if rows = [] then iw_hash w = None
      else \<exists>digest. source_digest (sort_key so_id rows) = Inr digest \<and> iw_hash w = Some digest)"

definition may_approve :: "itr_db \<Rightarrow> string \<Rightarrow> string \<Rightarrow> bool" where
  "may_approve s wid user =
     (\<exists>a\<in>set (t_authorizations s). au_workspace a = wid \<and> ''APPROVE'' \<in> set (au_permissions a) \<and> au_to a = user)"

definition acknowledged :: "itr_db \<Rightarrow> string \<Rightarrow> bool" where
  "acknowledged s wid = (\<exists>e\<in>set (t_events s). fe_workspace e = wid \<and> fe_kind e = ''ACKNOWLEDGEMENT_UPLOADED''
      \<and> fe_evidence e \<notin> {None, Some ''''})"

definition approval_recorded :: "itr_db \<Rightarrow> itr_workspace \<Rightarrow> bool" where
  "approval_recorded s w = (iw_hash w \<noteq> None \<and> iw_approved_at w \<noteq> None \<and> iw_approved_hash w \<noteq> None
      \<and> (\<exists>u. iw_approved_by w = Some u \<and> may_approve s (iw_id w) u))"

definition workspace_fine :: "itr_db \<Rightarrow> itr_workspace \<Rightarrow> bool" where
  "workspace_fine s w =
     (sources_signed (sources_of s (iw_id w)) w
      \<and> (iw_approved_at w \<noteq> None \<or> iw_approved_hash w \<noteq> None \<longrightarrow> approval_recorded s w)
      \<and> (evidenced (iw_status w) \<longrightarrow> workspace_check w = Inr w)
      \<and> (iw_status w = IW_COMPLETED \<longrightarrow> acknowledged s (iw_id w)))"

definition itr_ok :: "itr_db \<Rightarrow> bool" where
  "itr_ok s =
     (distinct (map iw_id (t_workspaces s))
      \<and> (\<forall>w\<in>set (t_workspaces s). workspace_fine s w)
      \<and> so_workspace ` set (t_sources s) \<subseteq> iw_id ` set (t_workspaces s)
      \<and> (\<forall>l\<in>set (t_lines s). sl_links (snd l) \<noteq> [])
      \<and> (\<forall>r\<in>set (t_rules s). reviewed_rule (ru_year r) = Inr (ru_rule r)))"

text \<open>A workspace that must be approved carries the hash of its present sources as the approved one.\<close>

lemma evidenced_facts:
  assumes "workspace_fine s w" and "evidenced (iw_status w)"
  shows "iw_approved_at w \<noteq> None" and "\<not> iw_stale w" and "iw_approved_hash w = iw_hash w" and "approval_recorded s w"
proof -
  have c: "iw_approved_at w \<noteq> None \<and> \<not> hashes_differ w \<and> \<not> iw_stale w"
    using assms by (simp add: workspace_fine_def workspace_check_def split: if_splits)
  then have r: "approval_recorded s w" using assms(1) by (simp only: workspace_fine_def) blast
  show "iw_approved_at w \<noteq> None" "\<not> iw_stale w" "approval_recorded s w" using c r by blast+
  show "iw_approved_hash w = iw_hash w" using c r by (simp only: hashes_differ_def approval_recorded_def) blast
qed

section \<open>What the statements do\<close>

lemma workspace_check_Inr: "workspace_check x = Inr y \<Longrightarrow> y = x"
  by (simp add: workspace_check_def split: if_splits)

lemma update_workspaces_Inr:
  assumes "update_workspaces p f s = (Inr hits, s')"
  shows "s' = s\<lparr>t_workspaces := map_where p f (t_workspaces s)\<rparr>" and "hits = map f (filter p (t_workspaces s))"
    and "w \<in> set (t_workspaces s) \<Longrightarrow> p w \<Longrightarrow> workspace_check (f w) = Inr (f w)"
proof -
  obtain rows where u: "update_rows p (\<lambda>w. workspace_check (f w)) (t_workspaces s) = Inr (rows, hits)" "s' = s\<lparr>t_workspaces := rows\<rparr>"
    using assms by (auto simp: update_workspaces_def split: sum.splits prod.splits)
  note e = update_rows_checked [where check = workspace_check and f = f, OF u(1) workspace_check_Inr]
  show "s' = s\<lparr>t_workspaces := map_where p f (t_workspaces s)\<rparr>" "hits = map f (filter p (t_workspaces s))"
    and "w \<in> set (t_workspaces s) \<Longrightarrow> p w \<Longrightarrow> workspace_check (f w) = Inr (f w)"
    using e u(2) by simp_all
qed

lemma update_workspaces_Inl: "update_workspaces p f s = (Inl e, s') \<Longrightarrow> s' = s"
  by (auto simp: update_workspaces_def split: sum.splits prod.splits)

lemma update_workspaces_pass:
  assumes "\<And>w. w \<in> set (t_workspaces s) \<Longrightarrow> p w \<Longrightarrow> workspace_check (f w) = Inr (f w)"
  shows "update_workspaces p f s = (Inr (map f (filter p (t_workspaces s))), s\<lparr>t_workspaces := map_where p f (t_workspaces s)\<rparr>)"
  using update_rows_pass [of "t_workspaces s" p workspace_check f] assms by (simp add: update_workspaces_def)

lemma fine_frame:
  assumes "sources_of s' (iw_id w) = sources_of s (iw_id w)" and "set (t_authorizations s) \<subseteq> set (t_authorizations s')"
    and "set (t_events s) \<subseteq> set (t_events s')" and "workspace_fine s w"
  shows "workspace_fine s' w"
  using assms by (auto simp: workspace_fine_def approval_recorded_def may_approve_def acknowledged_def)

lemma itr_ok_frame:
  assumes "itr_ok s" and "t_workspaces s' = t_workspaces s" "t_sources s' = t_sources s"
    and "set (t_authorizations s) \<subseteq> set (t_authorizations s')" "set (t_events s) \<subseteq> set (t_events s')"
    and "\<forall>l\<in>set (t_lines s'). sl_links (snd l) \<noteq> []" "\<forall>r\<in>set (t_rules s'). reviewed_rule (ru_year r) = Inr (ru_rule r)"
  shows "itr_ok s'"
proof -
  have "workspace_fine s' w" if "workspace_fine s w" for w
    by (rule fine_frame [OF _ assms(4,5) that]) (simp add: sources_of_def assms(3))
  then show ?thesis using assms by (simp add: itr_ok_def)
qed

text \<open>A guarded update keeps the invariant when it leaves ids alone and every workspace it changes is fine, where the
  check constraint may be used.\<close>

lemma itr_ok_update:
  assumes ok: "itr_ok s" and run: "update_workspaces p f s = (r, s')" and id: "\<And>w. iw_id (f w) = iw_id w"
    and f: "\<And>w. w \<in> set (t_workspaces s) \<Longrightarrow> p w \<Longrightarrow> workspace_fine s w \<Longrightarrow> workspace_check (f w) = Inr (f w) \<Longrightarrow> workspace_fine s (f w)"
  shows "itr_ok s'"
proof (cases r)
  case (Inl e)
  then show ?thesis using run ok update_workspaces_Inl by blast
next
  case (Inr hits)
  note u = update_workspaces_Inr [OF run [unfolded Inr]]
  have ids: "map iw_id (map_where p f ws) = map iw_id ws" for ws by (simp add: map_where_def id)
  have same: "workspace_fine s' = workspace_fine s"
    by (intro ext) (simp add: u(1) workspace_fine_def approval_recorded_def may_approve_def acknowledged_def sources_of_def)
  have "workspace_fine s w'" if mem: "w' \<in> set (map_where p f (t_workspaces s))" for w'
  proof -
    obtain w where w: "w \<in> set (t_workspaces s)" "w' = (if p w then f w else w)" using mem by (auto simp: map_where_def)
    have "workspace_fine s w" using ok w(1) by (simp add: itr_ok_def)
    then show ?thesis using w f [OF w(1)] u(3) [OF w(1)] by (cases "p w") simp_all
  qed
  moreover have "iw_id ` set (map_where p f (t_workspaces s)) = iw_id ` set (t_workspaces s)"
    using arg_cong [OF ids, of set "t_workspaces s"] by simp
  ultimately show ?thesis using ok by (simp add: itr_ok_def same ids) (simp add: u(1) ids)
qed

lemma keeps_update_workspaces:
  assumes "\<And>w. iw_id (f w) = iw_id w"
    and "\<And>s w. p w \<Longrightarrow> workspace_fine s w \<Longrightarrow> workspace_check (f w) = Inr (f w) \<Longrightarrow> workspace_fine s (f w)"
  shows "keeps itr_ok (update_workspaces p f)"
  unfolding keeps_def using itr_ok_update [OF _ surjective_pairing assms(1)] assms(2) by blast

lemma keeps_olift_bind: "(\<And>x. r = Inr x \<Longrightarrow> keeps I (f x)) \<Longrightarrow> keeps I (obind (olift r) f)"
  by (cases r) (simp_all add: keeps_def op_simps)

lemma keeps_itr_frame:
  assumes "\<And>s. t_workspaces (g s) = t_workspaces s" "\<And>s. t_sources (g s) = t_sources s"
    and "\<And>s. set (t_authorizations s) \<subseteq> set (t_authorizations (g s))" "\<And>s. set (t_events s) \<subseteq> set (t_events (g s))"
    and "\<And>s l. itr_ok s \<Longrightarrow> l \<in> set (t_lines (g s)) \<Longrightarrow> sl_links (snd l) \<noteq> []"
    and "\<And>s r. itr_ok s \<Longrightarrow> r \<in> set (t_rules (g s)) \<Longrightarrow> reviewed_rule (ru_year r) = Inr (ru_rule r)"
  shows "keeps itr_ok (omod g)"
  by (rule keeps_omod, rule itr_ok_frame, assumption) (use assms in blast)+

lemma keeps_first_row [keeps_intros]: "keeps I (first_row rows)"
  unfolding first_row_def by (intro keeps_intros)

lemma keeps_require_authorization [keeps_intros]: "keeps I (require_authorization wid permission user)"
  unfolding require_authorization_def by (intro keeps_intros)

text \<open>Changes that touch neither the sources nor the approval of a workspace.\<close>

lemma fine_plain:
  assumes "workspace_fine s w" and "iw_id w' = iw_id w" "iw_hash w' = iw_hash w" "iw_approved_hash w' = iw_approved_hash w"
    "iw_approved_at w' = iw_approved_at w" "iw_approved_by w' = iw_approved_by w"
    and "evidenced (iw_status w') \<longrightarrow> workspace_check w' = Inr w'"
    and "iw_status w' = IW_COMPLETED \<longrightarrow> acknowledged s (iw_id w)"
  shows "workspace_fine s w'"
proof -
  have "approval_recorded s w' = approval_recorded s w" "sources_signed (sources_of s (iw_id w')) w' = sources_signed (sources_of s (iw_id w)) w"
    using assms(2-6) by (simp_all add: sources_signed_def approval_recorded_def)
  then show ?thesis using assms by (simp add: workspace_fine_def del: not_None_eq)
qed


section \<open>Every operation keeps the invariant\<close>

lemma find_workspace_Some:
  assumes "find_workspace firm wid s = Some w"
  shows "w \<in> set (t_workspaces s)" and "iw_id w = wid" and "iw_firm w = f_firm firm"
  using assms by (auto simp: find_workspace_def find_Some_iff)

lemma only_workspace:
  assumes "itr_ok s" and "w \<in> set (t_workspaces s)" "x \<in> set (t_workspaces s)" and "iw_id x = iw_id w"
  shows "x = w"
  using assms by (auto simp: itr_ok_def distinct_map dest: inj_onD)

lemma not_evidenced [simp]: "\<not> evidenced IW_DATA_REQUIRED" "\<not> evidenced IW_NEEDS_REVIEW" "\<not> evidenced IW_REJECTED"
  by (simp_all add: evidenced_def)

lemma itr_ok_insert_workspace:
  assumes ok: "itr_ok s" and fresh: "uuid \<notin> iw_id ` set (t_workspaces s)"
  shows "itr_ok (s\<lparr>t_workspaces := t_workspaces s @ [new_workspace firm uuid b]\<rparr>)"
proof -
  let ?s = "s\<lparr>t_workspaces := t_workspaces s @ [new_workspace firm uuid b]\<rparr>"
  have old: "workspace_fine s w \<Longrightarrow> workspace_fine ?s w" for w
    by (rule fine_frame [where s = s]) (simp_all add: sources_of_def)
  have none: "sources_of ?s uuid = []"
    using ok fresh by (auto simp: itr_ok_def sources_of_def filter_empty_conv)
  have new: "workspace_fine ?s (new_workspace firm uuid b)"
    using none by (simp add: workspace_fine_def new_workspace_def sources_signed_def)
  have "iw_id (new_workspace firm uuid b) = uuid" by (simp add: new_workspace_def)
  then show ?thesis using ok old new fresh by (auto simp: itr_ok_def)
qed

lemma keeps_create_workspace: "keeps itr_ok (create_workspace firm uuid b)"
  unfolding keeps_def
proof (intro allI impI)
  fix s assume ok: "itr_ok s"
  define same :: "itr_workspace \<Rightarrow> bool" where "same = (\<lambda>w. iw_firm w = f_firm firm \<and> iw_client w = wr_client b \<and> iw_year w = wr_year b)"
  have upd: "keeps itr_ok (obind (update_workspaces same (\<lambda>w. w\<lparr>iw_pan := wr_pan b, iw_name := wr_name b\<rparr>)) first_row)"
    by (intro keeps_intros keeps_update_workspaces) (simp, rule fine_plain, assumption, simp_all add: workspace_fine_def)
  show "itr_ok (snd (create_workspace firm uuid b s))"
  proof (cases "uuid \<in> iw_id ` set (t_workspaces s)")
    case True
    then have "list_ex (\<lambda>w. iw_id w = uuid) (t_workspaces s)" by (auto simp: list_ex_iff)
    then show ?thesis using ok
      by (cases "require firm ''books.propose''") (simp_all add: create_workspace_def Let_def op_simps)
  next
    case False
    then have "\<not> list_ex (\<lambda>w. iw_id w = uuid) (t_workspaces s)" by (auto simp: list_ex_iff)
    then show ?thesis
      using ok keeps_snd [OF upd ok] itr_ok_insert_workspace [OF ok False]
      by (cases "require firm ''books.propose''") (simp_all add: create_workspace_def Let_def op_simps same_def)
  qed
qed

lemma keeps_authorize: "keeps itr_ok (authorize firm wid b)"
  unfolding authorize_def Let_def
  by (intro keeps_intros keeps_itr_frame) (auto simp: itr_ok_def)

lemma keeps_activate_rule: "keeps itr_ok (activate_rule_version firm uuid year)"
proof -
  have step: "itr_ok (s\<lparr>t_rules := (if list_ex same (t_rules s) then map_where same (\<lambda>r. r\<lparr>ru_by := u, ru_at := t\<rparr>) (t_rules s)
          else t_rules s @ [new])\<rparr>)"
    if "itr_ok s" "reviewed_rule (ru_year new) = Inr (ru_rule new)" for s same u t new
    by (rule itr_ok_frame [OF that(1)]) (use that in \<open>auto simp: itr_ok_def map_where_def\<close>)
  show ?thesis unfolding activate_rule_version_def Let_def
    by (intro keeps_othen keeps_olift_bind keeps_if keeps_obind keeps_prod keeps_intros keeps_omod step) simp_all
qed

lemma keeps_drop_lines [keeps_intros]: "keeps itr_ok (drop_lines wid)"
  unfolding drop_lines_def by (rule keeps_itr_frame) (auto simp: itr_ok_def)

lemma itr_ok_insert_source:
  assumes ok: "itr_ok s" and w: "w \<in> set (t_workspaces s)" "so_workspace row = iw_id w"
    and digest: "source_digest (sort_key so_id (sources_of s (iw_id w) @ [row])) = Inr digest"
    and run: "update_workspaces (\<lambda>x. iw_id x = iw_id w) (changed_sources digest) (s\<lparr>t_sources := t_sources s @ [row], t_lines := L\<rparr>) = (Inr hits, s')"
    and L: "set L \<subseteq> set (t_lines s)"
  shows "itr_ok s'"
proof -
  let ?s = "s\<lparr>t_sources := t_sources s @ [row], t_lines := L\<rparr>"
  note u = update_workspaces_Inr [OF run]
  have id: "iw_id (changed_sources digest x) = iw_id x" for x by (simp add: changed_sources_def Let_def)
  have ids: "map iw_id (map_where (\<lambda>x. iw_id x = iw_id w) (changed_sources digest) ws) = map iw_id ws" for ws
    by (simp add: map_where_def id)
  have src: "sources_of s' i = sources_of s i @ (if i = iw_id w then [row] else [])" for i
    using w(2) by (simp add: u(1) sources_of_def)
  have other: "workspace_fine s' x" if "workspace_fine s x" "iw_id x \<noteq> iw_id w" for x
    by (rule fine_frame [OF _ _ _ that(1)]) (use that(2) in \<open>simp_all add: src, simp_all add: u(1)\<close>)
  have changed: "workspace_fine s' (changed_sources digest w)"
  proof -
    have fine: "workspace_fine s w" using ok w(1) by (simp add: itr_ok_def)
    have "sources_signed (sources_of s' (iw_id w)) (changed_sources digest w)"
      using digest by (simp add: src sources_signed_def changed_sources_def Let_def)
    moreover have "\<not> evidenced (iw_status (changed_sources digest w))" "iw_status (changed_sources digest w) \<noteq> IW_COMPLETED"
      by (simp_all add: changed_sources_def Let_def)
    moreover have "iw_approved_at w \<noteq> None \<or> iw_approved_hash w \<noteq> None \<Longrightarrow> approval_recorded s' (changed_sources digest w)"
      using fine by (simp add: workspace_fine_def approval_recorded_def changed_sources_def Let_def may_approve_def u(1) del: not_None_eq)
    moreover have "iw_approved_at (changed_sources digest w) = iw_approved_at w"
        "iw_approved_hash (changed_sources digest w) = iw_approved_hash w"
      by (simp_all add: changed_sources_def Let_def)
    ultimately show ?thesis by (simp add: workspace_fine_def id del: not_None_eq)
  qed
  have "workspace_fine s' x'" if "x' \<in> set (t_workspaces s')" for x'
  proof -
    obtain x where x: "x \<in> set (t_workspaces s)" "x' = (if iw_id x = iw_id w then changed_sources digest x else x)"
      using \<open>x' \<in> _\<close> by (auto simp: u(1) map_where_def)
    show ?thesis
    proof (cases "iw_id x = iw_id w")
      case True
      then show ?thesis using only_workspace [OF ok w(1) x(1)] changed x(2) by simp
    next
      case False
      then show ?thesis using other [of x] x ok by (simp add: itr_ok_def)
    qed
  qed
  moreover have "iw_id ` set (t_workspaces s') = iw_id ` set (t_workspaces s)"
    using arg_cong [OF ids, of set "t_workspaces s"] by (simp add: u(1))
  ultimately show ?thesis using ok L w by (auto simp: itr_ok_def u(1) ids)
qed

lemma add_source_effect:
  assumes "add_source firm uuid wid b s = (Inr row, s')"
  obtains w digest hits where "source_valid b" and "find_workspace firm wid s = Some w"
    and "so_workspace row = iw_id w" and "so_values row = jsonb_order (sq_values b)" and "so_kind row = sq_kind b"
    and "source_digest (sort_key so_id (sources_of s (iw_id w) @ [row])) = Inr digest"
    and "update_workspaces (\<lambda>x. iw_id x = iw_id w) (changed_sources digest)
           (s\<lparr>t_sources := t_sources s @ [row], t_lines := filter (\<lambda>l. fst l \<noteq> iw_id w) (t_lines s)\<rparr>) = (Inr hits, s')"
proof -
  have valid: "source_valid b" using assms by (simp add: add_source_def oraise_def split: if_splits)
  obtain w where w: "find_workspace firm wid s = Some w"
    using assms by (auto simp: add_source_def othen_def obind_Inr op_runs oraise_def split: if_splits option.splits)
  define new where "new = \<lparr> so_id = uuid, so_workspace = iw_id w, so_firm = f_firm firm, so_kind = sq_kind b, so_period = sq_period b,
      so_pan = sq_pan b, so_document = sq_document b, so_version = sq_version b, so_values = jsonb_order (sq_values b), so_at = t_now s \<rparr>"
  obtain digest hits s1 u where
      ins: "insert_source new s = (Inr u, s1)" and d: "source_digest (sort_key so_id (sources_of s1 (iw_id w))) = Inr digest"
    and upd: "update_workspaces (\<lambda>x. iw_id x = iw_id w) (changed_sources digest) (snd (drop_lines (iw_id w) s1)) = (Inr hits, s')"
    and row: "row = new"
    using assms valid w
    by (auto simp: add_source_def othen_def obind_Inr op_runs require_authorization_def oraise_def drop_lines_def omod_def Let_def new_def
        split: if_splits)
  have s1: "s1 = s\<lparr>t_sources := t_sources s @ [new]\<rparr>"
    using ins by (auto simp: insert_source_def op_simps split: if_splits)
  have "sources_of s1 (iw_id w) = sources_of s (iw_id w) @ [new]" by (simp add: s1 sources_of_def new_def)
  then show thesis
    using that [OF valid w, of digest hits] d upd by (simp add: row s1 drop_lines_def omod_def) (simp add: new_def)
qed

lemma add_source_Inl: "add_source firm uuid wid b s = (Inl e, s') \<Longrightarrow> s' = s"
  by (auto simp: add_source_def othen_def obind_def olift_def oraise_def transaction_def split: if_splits prod.splits sum.splits)

lemma keeps_add_source: "keeps itr_ok (add_source firm uuid wid b)"
  unfolding keeps_def
proof (intro allI impI)
  fix s assume ok: "itr_ok s"
  obtain r s' where run: "add_source firm uuid wid b s = (r, s')" by fastforce
  show "itr_ok (snd (add_source firm uuid wid b s))"
  proof (cases r)
    case (Inl e)
    then show ?thesis using ok run add_source_Inl by fastforce
  next
    case (Inr row)
    show ?thesis
      by (rule add_source_effect [OF run [unfolded Inr]])
         (use itr_ok_insert_source [OF ok find_workspace_Some(1)] run in \<open>auto\<close>)
  qed
qed

lemma keeps_insert_item [keeps_intros]: "keeps itr_ok (insert_item i)"
  unfolding insert_item_def by (intro keeps_intros keeps_itr_frame) (auto simp: itr_ok_def)

lemma keeps_plain_status [keeps_intros]:
  "st \<in> {IW_NEEDS_REVIEW, IW_DATA_REQUIRED} \<Longrightarrow> keeps itr_ok (update_workspaces p (\<lambda>x. x\<lparr>iw_status := st\<rparr>))"
  by (rule keeps_update_workspaces) (auto intro: fine_plain simp: evidenced_def)

lemma keeps_reconcile_workspace: "keeps itr_ok (reconcile_workspace firm wid)"
  unfolding reconcile_workspace_def Let_def
  by (intro keeps_intros keeps_itr_frame) (auto simp: itr_ok_def)

lemma keeps_insert_schedule_line: "sl_links l \<noteq> [] \<Longrightarrow> keeps itr_ok (insert_schedule_line wid l)"
  unfolding insert_schedule_line_def by (intro keeps_intros keeps_itr_frame) (auto simp: itr_ok_def)

lemma keeps_put_line [keeps_intros]: "keeps itr_ok (put_line wid l)"
  by (simp add: put_line_def keeps_oraise keeps_insert_schedule_line)

lemma keeps_put_schedules: "keeps itr_ok (put_schedules firm wid ls)"
  unfolding put_schedules_def Let_def
  by (intro keeps_intros keeps_update_workspaces) (auto intro: fine_plain simp: evidenced_def)

lemma keeps_put_draft_line [keeps_intros]: "keeps itr_ok (put_draft_line wid rows rule spec)"
  by (auto simp: put_draft_line_def Let_def owhen_def keeps_oraise keeps_oret intro: keeps_insert_schedule_line)

lemma keeps_draft: "keeps itr_ok (draft firm wid b)"
  unfolding draft_def Let_def
  by (intro keeps_intros keeps_update_workspaces) (auto intro: fine_plain simp: evidenced_def)

lemma itr_ok_approve:
  assumes ok: "itr_ok s" and may: "may_approve s wid user"
    and run: "update_workspaces (\<lambda>w. iw_id w = wid \<and> iw_firm w = firm \<and> iw_status w = IW_NEEDS_REVIEW \<and> iw_hash w \<noteq> None)
       (\<lambda>w. w\<lparr>iw_status := IW_APPROVED, iw_approved_by := Some user, iw_approved_at := Some t,
              iw_approved_hash := iw_hash w, iw_stale := False\<rparr>) s = (r, s')"
  shows "itr_ok s'"
  by (rule itr_ok_update [OF ok run])
     (use may in \<open>auto simp: workspace_fine_def sources_signed_def approval_recorded_def\<close>)

lemma snd_obind_pure:
  assumes "\<And>x t. snd (f x t) = t"
  shows "snd (obind m f s) = snd (m s)"
  using assms by (simp add: obind_def split: prod.split sum.split)

lemma keeps_approve_workspace: "keeps itr_ok (approve_workspace firm wid)"
  unfolding keeps_def
proof (intro allI impI)
  fix s assume ok: "itr_ok s"
  show "itr_ok (snd (approve_workspace firm wid s))"
  proof (cases "require firm ''compliance.review''")
    case (Inl e)
    then show ?thesis using ok by (simp add: approve_workspace_def op_simps)
  next
    case (Inr u)
    show ?thesis
    proof (cases "list_ex (\<lambda>a. au_workspace a = wid \<and> ''APPROVE'' \<in> set (au_permissions a) \<and> au_to a = f_user firm \<and> \<not> au_revoked a)
        (t_authorizations s)")
      case False
      then show ?thesis using ok by (simp add: approve_workspace_def op_simps Inr require_authorization_def)
    next
      case True
      then have may: "may_approve s wid (f_user firm)" by (auto simp: may_approve_def list_ex_iff)
      have tail: "snd ((case hits of [] \<Rightarrow> oraise e | w # _ \<Rightarrow> oret w) t) = t" for hits :: "itr_workspace list" and e t
        by (simp add: oraise_def oret_def split: list.split)
      show ?thesis using ok itr_ok_approve [OF ok may surjective_pairing]
        by (simp add: approve_workspace_def op_simps Inr require_authorization_def True snd_obind_pure tail)
    qed
  qed
qed

lemma fine_packed:
  assumes "workspace_fine s w" and "workspace_check (w\<lparr>iw_status := st, iw_pack := pk\<rparr>) = Inr (w\<lparr>iw_status := st, iw_pack := pk\<rparr>)"
    and "st \<noteq> IW_COMPLETED"
  shows "workspace_fine s (w\<lparr>iw_status := st, iw_pack := pk\<rparr>)"
  by (rule fine_plain [OF assms(1)]) (use assms in simp_all)

lemma keeps_pack_workspace: "keeps itr_ok (pack_workspace firm wid)"
  unfolding pack_workspace_def
  by (intro keeps_intros keeps_update_workspaces fine_packed) simp_all

lemma keeps_record_event: "keeps itr_ok (record_event firm wid b)"
proof (cases "event_status (er_kind b)")
  case None
  then show ?thesis by (simp add: record_event_def keeps_oraise)
next
  case (Some st)
  have ev: "itr_ok (s\<lparr>t_events := t_events s @ [e]\<rparr>)" if "itr_ok s" for s e
    by (rule itr_ok_frame [OF that]) (use that in \<open>auto simp: itr_ok_def\<close>)
  show ?thesis unfolding keeps_def
  proof (intro allI impI)
    fix s assume ok: "itr_ok s"
    show "itr_ok (snd (record_event firm wid b s))"
    proof (cases "find_workspace firm wid s")
      case None
      then show ?thesis using ok by (simp add: record_event_def Some op_simps transaction_def)
    next
      case (Some w)
      define e where "e = \<lparr> fe_workspace = iw_id w, fe_kind = er_kind b, fe_reference = er_reference b,
          fe_evidence = er_evidence b, fe_at = er_at b, fe_by = f_user firm \<rparr>"
      let ?t = "s\<lparr>t_events := t_events s @ [e]\<rparr>"
      have upd: "itr_ok (snd (update_workspaces (\<lambda>x. iw_id x = iw_id w) (\<lambda>x. x\<lparr>iw_status := st\<rparr>) ?t))"
        if "er_kind b = ''ACKNOWLEDGEMENT_UPLOADED'' \<longrightarrow> \<not> no_evidence b"
      proof (rule itr_ok_update [OF ev [OF ok] surjective_pairing])
        fix x assume x: "iw_id x = iw_id w" "workspace_fine ?t x" "workspace_check (x\<lparr>iw_status := st\<rparr>) = Inr (x\<lparr>iw_status := st\<rparr>)"
        have "acknowledged ?t (iw_id x)" if "st = IW_COMPLETED"
        proof -
          have "er_kind b = ''ACKNOWLEDGEMENT_UPLOADED''"
            using \<open>event_status _ = Some st\<close> that by (auto simp: event_status_def split: if_splits)
          then show ?thesis using \<open>_ \<longrightarrow> \<not> no_evidence b\<close> x(1) by (auto simp: acknowledged_def e_def no_evidence_def)
        qed
        then show "workspace_fine ?t (x\<lparr>iw_status := st\<rparr>)"
          by (intro fine_plain [OF x(2)]) (use x(3) in simp_all)
      qed simp
      have tail: "snd (first_row hits t) = t" for hits :: "itr_workspace list" and t :: itr_db
        by (simp add: first_row_def oraise_def oret_def split: list.split)
      have body: "itr_ok t \<Longrightarrow> itr_ok (snd (m t)) \<Longrightarrow> itr_ok (snd (transaction m t))" for m :: "(itr_db, itr_workspace) op" and t
        by (auto simp: transaction_def split: prod.split sum.split)
      show ?thesis unfolding record_event_def \<open>event_status _ = Some st\<close> option.case
        by (rule body [OF ok]) (use upd ok in \<open>simp add: op_simps Some snd_obind_pure tail e_def [symmetric]\<close>)
    qed
  qed
qed


section \<open>The state machine\<close>

inductive itr_step :: "itr_db \<Rightarrow> itr_db \<Rightarrow> bool" where
  workspace_opened: "itr_step s (snd (create_workspace firm uuid req s))"
| permission_granted: "itr_step s (snd (authorize firm wid grant s))"
| source_added: "itr_step s (snd (add_source firm uuid wid source s))"
| sources_reconciled: "itr_step s (snd (reconcile_workspace firm wid s))"
| schedules_put: "itr_step s (snd (put_schedules firm wid ls s))"
| return_drafted: "itr_step s (snd (draft firm wid d s))"
| return_approved: "itr_step s (snd (approve_workspace firm wid s))"
| return_packed: "itr_step s (snd (pack_workspace firm wid s))"
| event_recorded: "itr_step s (snd (record_event firm wid ev s))"
| rule_activated: "itr_step s (snd (activate_rule_version firm uuid year s))"
| time_passes: "t_now s \<le> t \<Longrightarrow> itr_step s (s\<lparr>t_now := t\<rparr>)"
| documents_change: "itr_step s (s\<lparr>t_documents := ds\<rparr>)"

lemma itr_ok_environment:
  assumes "itr_ok s"
  shows "itr_ok (s\<lparr>t_now := t\<rparr>)" and "itr_ok (s\<lparr>t_documents := ds\<rparr>)"
  by (rule itr_ok_frame [OF assms]; use assms in \<open>auto simp: itr_ok_def\<close>)+

lemma itr_step_keeps: "itr_step s s' \<Longrightarrow> itr_ok s \<Longrightarrow> itr_ok s'"
  by (induction rule: itr_step.induct)
     (auto intro: itr_ok_environment keeps_snd keeps_create_workspace keeps_authorize keeps_add_source
        keeps_reconcile_workspace keeps_put_schedules keeps_draft keeps_approve_workspace keeps_pack_workspace
        keeps_record_event keeps_activate_rule)

interpretation itr: state_machine itr_step itr_ok
  by unfold_locales (rule itr_step_keeps)

lemma itr_ok_start: "t_workspaces s = [] \<Longrightarrow> t_sources s = [] \<Longrightarrow> t_lines s = [] \<Longrightarrow> t_rules s = [] \<Longrightarrow> itr_ok s"
  by (simp add: itr_ok_def)

text \<open>C38. Whatever is opened, granted, added, reconciled, drafted, approved, packed and recorded, in any order: a return that
  is approved, packed, filed or completed was approved by a reviewer to whom the taxpayer's authorization grants approval,
  is not stale, and the hash that was approved is that of the sources it has now; a completed one has an acknowledgement
  with evidence; and every schedule line links to a source.\<close>

theorem filed_return_approved:
  assumes "t_workspaces s = []" "t_sources s = []" "t_lines s = []" "t_rules s = []" and "itr_step\<^sup>*\<^sup>* s s'"
    and "w \<in> set (t_workspaces s')"
  shows "(evidenced (iw_status w) \<longrightarrow> \<not> iw_stale w
        \<and> (\<exists>u. iw_approved_by w = Some u \<and> may_approve s' (iw_id w) u)
        \<and> (\<exists>h. iw_approved_hash w = Some h \<and> source_digest (sort_key so_id (sources_of s' (iw_id w))) = Inr h))
    \<and> (iw_status w = IW_COMPLETED \<longrightarrow> acknowledged s' (iw_id w))
    \<and> (\<forall>l\<in>set (schedule_of s' (iw_id w)). sl_links l \<noteq> [])"
proof -
  have ok: "itr_ok s'" using itr.run_keeps [OF assms(5)] itr_ok_start assms(1-4) by blast
  then have fine: "workspace_fine s' w" using assms(6) by (simp add: itr_ok_def)
  have "\<not> iw_stale w \<and> (\<exists>u. iw_approved_by w = Some u \<and> may_approve s' (iw_id w) u)
      \<and> (\<exists>h. iw_approved_hash w = Some h \<and> source_digest (sort_key so_id (sources_of s' (iw_id w))) = Inr h)"
    if "evidenced (iw_status w)"
  proof -
    note e = evidenced_facts [OF fine that]
    have "sources_signed (sources_of s' (iw_id w)) w" "iw_hash w \<noteq> None"
      using fine e(4) by (simp_all add: workspace_fine_def approval_recorded_def)
    then obtain h where "source_digest (sort_key so_id (sources_of s' (iw_id w))) = Inr h" "iw_hash w = Some h"
      by (auto simp: sources_signed_def split: if_splits)
    then show ?thesis using e by (simp add: approval_recorded_def)
  qed
  moreover have "iw_status w = IW_COMPLETED \<longrightarrow> acknowledged s' (iw_id w)" using fine by (simp add: workspace_fine_def)
  moreover have "\<forall>l\<in>set (schedule_of s' (iw_id w)). sl_links l \<noteq> []"
    using ok by (auto simp: itr_ok_def schedule_of_def)
  ultimately show ?thesis by blast
qed

section \<open>The draft\<close>

definition source_amounts :: "itr_source list \<Rightarrow> draft_totals" where
  "source_amounts rows =
     (let T = source_total rows
      in \<lparr> dt_salary = T ''FORM16'' ''salary_income_paise'', dt_business = T ''BOOKS'' ''business_income_paise'',
           dt_other = T ''AIS'' ''other_income_paise'', dt_gains = T ''AIS'' ''capital_gains_paise'',
           dt_deductions = T ''FORM16'' ''deductions_paise'' + T ''BOOKS'' ''deductions_paise'',
           dt_credits = max (T ''26AS'' ''tds_paise'') (T ''FORM16'' ''tds_paise'' + T ''FORM16A'' ''tds_paise'')
             + T ''26AS'' ''tcs_paise'' + T ''BOOKS'' ''advance_tax_paise'' + T ''BOOKS'' ''self_assessment_tax_paise'' \<rparr>)"

lemma draft_amounts_totals:
  assumes "aggregate_sources (sort_key f rows) = Inr by_type"
  shows "draft_amounts by_type = source_amounts rows"
  using aggregate_totals(2) [OF assms] source_total_mset [of "sort_key f rows" rows]
  by (simp add: draft_amounts_def source_amounts_def form_tds_def Let_def)

lemma put_draft_lines:
  "oeach (put_draft_line wid rows rule) specs s = (Inr (), s') \<Longrightarrow>
     s' = s\<lparr>t_lines := t_lines s @ map (Pair wid) (filter (\<lambda>l. sl_amount l \<noteq> 0) (map (draft_line rows rule) specs))\<rparr>
     \<and> (\<forall>l\<in>set (map (draft_line rows rule) specs). sl_amount l \<noteq> 0 \<longrightarrow> sl_links l \<noteq> [])"
proof (induction specs arbitrary: s)
  case (Cons spec specs)
  let ?l = "draft_line rows rule spec"
  obtain s1 where s1: "put_draft_line wid rows rule spec s = (Inr (), s1)" "oeach (put_draft_line wid rows rule) specs s1 = (Inr (), s')"
    using Cons.prems by (auto elim: othen_InrE)
  have "s1 = s\<lparr>t_lines := t_lines s @ (if sl_amount ?l \<noteq> 0 then [(wid, ?l)] else [])\<rparr> \<and> (sl_amount ?l \<noteq> 0 \<longrightarrow> sl_links ?l \<noteq> [])"
    using s1(1)
    by (auto simp: put_draft_line_def Let_def insert_schedule_line_def op_simps owhen_def split: if_splits)
  then show ?case using Cons.IH [OF s1(2)] by auto
qed (simp add: oret_def)

lemma first_row_Inr: "first_row hits s = (Inr w, s') \<longleftrightarrow> s' = s \<and> (\<exists>ws. hits = w # ws)"
  by (cases hits) (auto simp: first_row_def oraise_def oret_def)

lemma draft_effect:
  assumes "draft firm wid b s = (Inr w, s')"
  obtains w0 and rule :: itr_rule and out where "find_workspace firm wid s = Some w0" and "reconciled wid s"
    and "rule_for (iw_year w0) s = Some rule"
    and "calculate (ru_rule rule) (draft_input b (source_amounts (sources_of s wid))) = Inr out"
    and "\<forall>l\<in>set (map (draft_line (sort_key so_at (sources_of s wid)) (ru_id rule)) (draft_specs (source_amounts (sources_of s wid)))).
           sl_amount l \<noteq> 0 \<longrightarrow> sl_links l \<noteq> []"
    and "s' = s\<lparr>t_lines := filter (\<lambda>l. fst l \<noteq> wid) (t_lines s) @ map (Pair wid) (filter (\<lambda>l. sl_amount l \<noteq> 0)
            (map (draft_line (sort_key so_at (sources_of s wid)) (ru_id rule)) (draft_specs (source_amounts (sources_of s wid))))),
          t_workspaces := map_where (\<lambda>x. iw_id x = wid)
            (\<lambda>x. x\<lparr>iw_computation := DraftComputation out, iw_status := IW_NEEDS_REVIEW, iw_stale := False\<rparr>) (t_workspaces s)\<rparr>"
    and "w \<in> set (map (\<lambda>x. x\<lparr>iw_computation := DraftComputation out, iw_status := IW_NEEDS_REVIEW, iw_stale := False\<rparr>)
            (filter (\<lambda>x. iw_id x = wid) (t_workspaces s)))"
proof -
  have valid: "\<not> (dr_regime b \<notin> {''NEW'', ''OLD''} \<or> dr_special_tax b < 0)"
    using assms by (auto simp: draft_def oraise_def split: if_splits)
  obtain w0 by_type out s1 s2 hits and rule :: itr_rule where w0: "find_workspace firm wid s = Some w0"
    and r: "reconciled (iw_id w0) s" "rule_for (iw_year w0) s = Some rule"
    and agg: "aggregate_sources (sort_key so_at (sources_of s (iw_id w0))) = Inr by_type"
    and out: "calculate (ru_rule rule) (draft_input b (draft_amounts by_type)) = Inr out"
    and put: "oeach (put_draft_line (iw_id w0) (sort_key so_at (sources_of s (iw_id w0))) (ru_id rule)) (draft_specs (draft_amounts by_type))
        (snd (drop_lines (iw_id w0) s)) = (Inr (), s1)"
    and upd: "update_workspaces (\<lambda>x. iw_id x = iw_id w0)
        (\<lambda>x. x\<lparr>iw_computation := DraftComputation out, iw_status := IW_NEEDS_REVIEW, iw_stale := False\<rparr>) s1 = (Inr hits, s2)"
    and first: "first_row hits s2 = (Inr w, s')"
    using assms valid
    by (auto simp: draft_def othen_def obind_Inr op_runs require_authorization_def oraise_def drop_lines_def omod_def Let_def
        split: if_splits option.splits)
  have wid: "iw_id w0 = wid" using find_workspace_Some(2) [OF w0] .
  note am = draft_amounts_totals [OF agg [unfolded wid]] and u = update_workspaces_Inr [OF upd]
  note p = put_draft_lines [OF put]
  have f: "s' = s2" "w \<in> set hits" using first by (auto simp: first_row_Inr)
  show thesis
    by (rule that [OF w0 r(1) [unfolded wid] r(2)])
       (use out u p f in \<open>simp_all add: wid am drop_lines_def omod_def\<close>)
qed

lemma schedule_of_replaced:
  "schedule_of (s\<lparr>t_lines := filter (\<lambda>l. fst l \<noteq> wid) (t_lines s) @ map (Pair wid) ls, t_workspaces := W\<rparr>) wid = ls"
  by (simp add: schedule_of_def filter_map comp_def)

lemma rule_in_force:
  assumes "itr_ok s" and "rule_for year s = Some rule"
  shows "official_rule year = Inr (ru_rule rule)"
proof -
  let ?rows = "filter (\<lambda>r. ru_year r = year \<and> ru_key r = ''INDIVIDUAL_NORMAL_INCOME'') (t_rules s)"
  obtain rest where "rev (sort_key ru_at ?rows) = rule # rest" using assms(2) by (auto simp: rule_for_def split: list.splits)
  then have "rule \<in> set (rev (sort_key ru_at ?rows))" by simp
  then have "rule \<in> set ?rows" by simp
  then have "reviewed_rule year = Inr (ru_rule rule)" using assms(1) by (auto simp: itr_ok_def)
  then show ?thesis by (auto simp: reviewed_rule_def rbind_eq_Inr split: sum.splits pyexn.splits)
qed

text \<open>C39. A successful draft is the computation of the official rule of the assessment year on the sums of the sources, and the
  schedule then consists of exactly the non-zero heads of those sums, each with source links; the return is back in review.\<close>

theorem draft_follows_rule:
  assumes "itr_ok s" and "draft firm wid b s = (Inr w, s')"
  defines "am \<equiv> source_amounts (sources_of s wid)"
  shows "\<exists>rule out. official_rule (iw_year w) = Inr rule \<and> calculate rule (draft_input b am) = Inr out
     \<and> iw_computation w = DraftComputation out \<and> iw_id w = wid \<and> iw_status w = IW_NEEDS_REVIEW
     \<and> map (\<lambda>l. (sl_schedule l, sl_amount l)) (schedule_of s' wid)
         = filter (\<lambda>p. snd p \<noteq> 0) [(''SALARY'', dt_salary am), (''BUSINESS'', dt_business am), (''OTHER_SOURCES'', dt_other am),
             (''CAPITAL_GAINS'', dt_gains am), (''DEDUCTIONS'', - dt_deductions am), (''TAX_CREDITS'', - dt_credits am)]
     \<and> (\<forall>l\<in>set (schedule_of s' wid). sl_links l \<noteq> [])"
proof (rule draft_effect [OF assms(2)])
  fix w0 and rule :: itr_rule and out
  let ?f = "\<lambda>x. x\<lparr>iw_computation := DraftComputation out, iw_status := IW_NEEDS_REVIEW, iw_stale := False\<rparr>"
  let ?new = "filter (\<lambda>l. sl_amount l \<noteq> 0) (map (draft_line (sort_key so_at (sources_of s wid)) (ru_id rule)) (draft_specs am))"
  assume w0: "find_workspace firm wid s = Some w0" and rule: "rule_for (iw_year w0) s = Some rule"
    and out: "calculate (ru_rule rule) (draft_input b (source_amounts (sources_of s wid))) = Inr out"
    and links: "\<forall>l\<in>set (map (draft_line (sort_key so_at (sources_of s wid)) (ru_id rule)) (draft_specs (source_amounts (sources_of s wid)))).
           sl_amount l \<noteq> 0 \<longrightarrow> sl_links l \<noteq> []"
    and s': "s' = s\<lparr>t_lines := filter (\<lambda>l. fst l \<noteq> wid) (t_lines s) @ map (Pair wid) (filter (\<lambda>l. sl_amount l \<noteq> 0)
            (map (draft_line (sort_key so_at (sources_of s wid)) (ru_id rule)) (draft_specs (source_amounts (sources_of s wid))))),
          t_workspaces := map_where (\<lambda>x. iw_id x = wid) ?f (t_workspaces s)\<rparr>"
    and w: "w \<in> set (map ?f (filter (\<lambda>x. iw_id x = wid) (t_workspaces s)))"
  obtain x where x: "x \<in> set (t_workspaces s)" "iw_id x = wid" "w = ?f x" using w by auto
  then have "x = w0" using only_workspace [OF assms(1)] find_workspace_Some [OF w0] by metis
  have sched: "schedule_of s' wid = ?new" unfolding s' am_def by (rule schedule_of_replaced)
  have "map (\<lambda>l. (sl_schedule l, sl_amount l)) ?new
         = filter (\<lambda>p. snd p \<noteq> 0) [(''SALARY'', dt_salary am), (''BUSINESS'', dt_business am), (''OTHER_SOURCES'', dt_other am),
             (''CAPITAL_GAINS'', dt_gains am), (''DEDUCTIONS'', - dt_deductions am), (''TAX_CREDITS'', - dt_credits am)]"
    by (simp add: draft_specs_def draft_line_def)
  moreover have "\<forall>l\<in>set ?new. sl_links l \<noteq> []" using links by (auto simp: am_def)
  ultimately show ?thesis using rule_in_force [OF assms(1) rule] out x \<open>x = w0\<close> by (auto simp: sched am_def)
qed

section \<open>Events without a pack\<close>

lemma event_effect:
  assumes "distinct (map iw_id (t_workspaces s))" and "w \<in> set (t_workspaces s)" and "iw_firm w = f_firm firm"
    and "event_status (er_kind b) = Some st" and "workspace_check (w\<lparr>iw_status := st\<rparr>) = Inr (w\<lparr>iw_status := st\<rparr>)"
    and "er_kind b \<noteq> ''FILED_EXTERNALLY''"
    and "er_kind b = ''ACKNOWLEDGEMENT_UPLOADED'' \<Longrightarrow> iw_status w = IW_FILED_EXTERNALLY \<and> \<not> no_evidence b"
  shows "\<exists>e. record_event firm (iw_id w) b s = (Inr (w\<lparr>iw_status := st\<rparr>),
     s\<lparr>t_events := t_events s @ [e], t_workspaces := map_where (\<lambda>x. iw_id x = iw_id w) (\<lambda>x. x\<lparr>iw_status := st\<rparr>) (t_workspaces s)\<rparr>)"
proof -
  have only: "x = w" if "x \<in> set (t_workspaces s)" "iw_id x = iw_id w" for x
    using assms(1,2) that by (auto simp: distinct_map dest: inj_onD)
  have "find_workspace firm (iw_id w) s \<noteq> None"
    using assms(2,3) by (auto simp: find_workspace_def find_None_iff)
  then have found: "find_workspace firm (iw_id w) s = Some w" using only find_workspace_Some by blast
  define e where "e = \<lparr> fe_workspace = iw_id w, fe_kind = er_kind b, fe_reference = er_reference b,
      fe_evidence = er_evidence b, fe_at = er_at b, fe_by = f_user firm \<rparr>"
  have upd: "update_workspaces (\<lambda>x. iw_id x = iw_id w) (\<lambda>x. x\<lparr>iw_status := st\<rparr>) (s\<lparr>t_events := t_events s @ [e]\<rparr>)
    = (Inr (map (\<lambda>x. x\<lparr>iw_status := st\<rparr>) (filter (\<lambda>x. iw_id x = iw_id w) (t_workspaces s))),
       s\<lparr>t_events := t_events s @ [e], t_workspaces := map_where (\<lambda>x. iw_id x = iw_id w) (\<lambda>x. x\<lparr>iw_status := st\<rparr>) (t_workspaces s)\<rparr>)"
    by (subst update_workspaces_pass) (use only assms(5) in auto)
  have "filter (\<lambda>x. iw_id x = iw_id w) (t_workspaces s) \<noteq> []" using assms(2) by (auto simp: filter_empty_conv)
  then obtain x xs where hits: "filter (\<lambda>x. iw_id x = iw_id w) (t_workspaces s) = x # xs" by (meson list.exhaust)
  then have "x \<in> set (filter (\<lambda>x. iw_id x = iw_id w) (t_workspaces s))" by simp
  then have "x = w" using only by simp
  then show ?thesis
    using assms(6,7)
    by (intro exI [of _ e])
       (auto simp: record_event_def assms(4) transaction_def op_simps found hits first_row_def e_def upd [unfolded e_def]
          obind_def [of "update_workspaces (\<lambda>x. iw_id x = iw_id w) (\<lambda>x. x\<lparr>iw_status := st\<rparr>)" first_row])
qed

text \<open>C40. A payment event asks for nothing but a workspace that was once approved with its present sources: also after its schedules
  were replaced (which takes it back to review), without a pack, and by any member of the firm, it makes the return filed,
  and an acknowledgement then completes it. The schedules that are filed this way were never approved.\<close>

theorem payment_files_unapproved_schedules:
  assumes "distinct (map iw_id (t_workspaces s))" and "w \<in> set (t_workspaces s)" and "iw_firm w = f_firm firm"
    and "iw_approved_at w \<noteq> None" and "iw_approved_hash w = iw_hash w" and "\<not> iw_stale w"
    and "er_kind b = ''PAYMENT_RECORDED''" and "er_kind c = ''ACKNOWLEDGEMENT_UPLOADED''" and "\<not> no_evidence c"
  shows "\<exists>w1 s1 w2 s2. record_event firm (iw_id w) b s = (Inr w1, s1) \<and> iw_status w1 = IW_FILED_EXTERNALLY
     \<and> record_event firm (iw_id w) c s1 = (Inr w2, s2) \<and> iw_status w2 = IW_COMPLETED
     \<and> iw_pack w2 = iw_pack w \<and> schedule_of s2 (iw_id w) = schedule_of s (iw_id w)"
proof -
  have check: "workspace_check (w\<lparr>iw_status := st\<rparr>) = Inr (w\<lparr>iw_status := st\<rparr>)" for st
    using assms(4-6) by (simp add: workspace_check_def hashes_differ_def)
  let ?w1 = "w\<lparr>iw_status := IW_FILED_EXTERNALLY\<rparr>"
  obtain e where e: "record_event firm (iw_id w) b s = (Inr ?w1, s\<lparr>t_events := t_events s @ [e],
      t_workspaces := map_where (\<lambda>x. iw_id x = iw_id w) (\<lambda>x. x\<lparr>iw_status := IW_FILED_EXTERNALLY\<rparr>) (t_workspaces s)\<rparr>)"
    (is "_ = (_, ?s1)")
    using event_effect [OF assms(1-3) _ check, of b] assms(7) by (auto simp: event_status_def)
  have "map iw_id (t_workspaces ?s1) = map iw_id (t_workspaces s)" by (simp add: map_where_def)
  moreover have "?w1 \<in> set (t_workspaces ?s1)" using assms(2) by (force simp: map_where_def)
  ultimately obtain e' where e': "record_event firm (iw_id ?w1) c ?s1 = (Inr (?w1\<lparr>iw_status := IW_COMPLETED\<rparr>), ?s1\<lparr>t_events := t_events ?s1 @ [e'],
      t_workspaces := map_where (\<lambda>x. iw_id x = iw_id ?w1) (\<lambda>x. x\<lparr>iw_status := IW_COMPLETED\<rparr>) (t_workspaces ?s1)\<rparr>)"
    using event_effect [of ?s1 ?w1 firm c IW_COMPLETED] assms(1,3,8,9) check [of IW_COMPLETED] by (auto simp: event_status_def)
  show ?thesis
    using e e' by (intro exI [of _ ?w1] exI [of _ ?s1] exI) (auto simp: schedule_of_def)
qed

text \<open>Adding a source leaves the reconciliation as it was: a draft or an approval after it rests on totals that were never compared.\<close>

lemma source_keeps_reconciliation: "add_source firm uuid wid b s = (Inr row, s') \<Longrightarrow> t_items s' = t_items s"
  by (erule add_source_effect) (auto dest: update_workspaces_Inr(1))

text \<open>Opening a workspace again replaces the taxpayer of a return that is approved, with the sources of the former one.\<close>

lemma taxpayer_replaced_after_approval:
  assumes "create_workspace firm uuid b s = (Inr w', s')" and "w \<in> set (t_workspaces s)"
    and "iw_firm w = f_firm firm" "iw_client w = wr_client b" "iw_year w = wr_year b"
  shows "w\<lparr>iw_pan := wr_pan b, iw_name := wr_name b\<rparr> \<in> set (t_workspaces s') \<and> t_sources s' = t_sources s"
proof -
  have there: "list_ex (\<lambda>w. iw_firm w = f_firm firm \<and> iw_client w = wr_client b \<and> iw_year w = wr_year b) (t_workspaces s)"
    using assms(2-5) by (auto simp: list_ex_iff)
  obtain hits where "update_workspaces (\<lambda>w. iw_firm w = f_firm firm \<and> iw_client w = wr_client b \<and> iw_year w = wr_year b)
      (\<lambda>w. w\<lparr>iw_pan := wr_pan b, iw_name := wr_name b\<rparr>) s = (Inr hits, s')"
    using assms(1) there
    by (simp add: create_workspace_def othen_def obind_Inr op_runs oraise_def Let_def split: if_splits)
       (auto simp: first_row_Inr)
  from update_workspaces_Inr(1) [OF this] show ?thesis using assms(2-5) by (auto simp: map_where_def image_iff)
qed

section \<open>An approved return\<close>

definition digest_of :: "itr_source list \<Rightarrow> string" where
  "digest_of rows = (case source_digest rows of Inl _ \<Rightarrow> '''' | Inr d \<Rightarrow> d)"

lemma source_digest_total: "source_digest rows = Inr (digest_of rows)"
proof -
  have "\<exists>ys. rmap json_sorted (map (\<lambda>r. VDict [(''source_type'', VStr (so_kind r)), (''source_version'', VStr (so_version r)),
      (''extracted_values'', VStr (jsonb_text (so_values r)))]) rows) = Inr ys"
    by (induction rows) auto
  then show ?thesis by (auto simp: digest_of_def source_digest_def)
qed

lemma changed_passes: "workspace_check (changed_sources digest w) = Inr (changed_sources digest w)"
  by (simp add: workspace_check_def changed_sources_def Let_def)

lemma add_source_succeeds:
  assumes "source_valid b" and "''books.propose'' \<in> set (f_permissions firm)" and "find_workspace firm wid s = Some w"
    and "list_ex (\<lambda>a. au_workspace a = wid \<and> ''PREPARE'' \<in> set (au_permissions a) \<and> au_to a = f_user firm \<and> \<not> au_revoked a)
           (t_authorizations s)" and "iw_pan w = sq_pan b"
    and "row = \<lparr> so_id = uuid, so_workspace = wid, so_firm = f_firm firm, so_kind = sq_kind b, so_period = sq_period b,
           so_pan = sq_pan b, so_document = sq_document b, so_version = sq_version b, so_values = jsonb_order (sq_values b), so_at = t_now s \<rparr>"
    and "insert_source row s = (Inr (), s\<lparr>t_sources := t_sources s @ [row]\<rparr>)"
  shows "add_source firm uuid wid b s = (Inr row, s\<lparr>t_sources := t_sources s @ [row], t_lines := filter (\<lambda>l. fst l \<noteq> wid) (t_lines s),
     t_workspaces := map_where (\<lambda>x. iw_id x = wid) (changed_sources (digest_of (sort_key so_id (sources_of s wid @ [row])))) (t_workspaces s)\<rparr>)"
proof -
  have w: "iw_id w = wid" using find_workspace_Some(2) [OF assms(3)] .
  have src: "sources_of (s\<lparr>t_sources := t_sources s @ [row]\<rparr>) wid = sources_of s wid @ [row]"
    using assms(6) by (simp add: sources_of_def)
  have step: "othen (insert_source row) k s = k (s\<lparr>t_sources := t_sources s @ [row]\<rparr>)" for k :: "(itr_db, itr_source) op"
    by (simp add: othen_def obind_def assms(7))
  have upd: "obind (update_workspaces p (changed_sources d)) k t
      = k (map (changed_sources d) (filter p (t_workspaces t))) (t\<lparr>t_workspaces := map_where p (changed_sources d) (t_workspaces t)\<rparr>)"
    for p d t and k :: "itr_workspace list \<Rightarrow> (itr_db, itr_source) op"
    by (simp add: obind_def update_workspaces_pass changed_passes)
  show ?thesis
    using assms(1-5) w src [unfolded assms(6)] unfolding assms(6)
    by (simp add: add_source_def require_def require_authorization_def transaction_def op_simps source_digest_total drop_lines_def
        step [unfolded assms(6)] upd Let_def)
qed

definition preparer :: firm_context where
  "preparer = \<lparr> f_user = ''u1'', f_firm = ''f1'', f_role = ''OWNER'', f_permissions = [''books.propose'', ''compliance.review''] \<rparr>"

definition no_returns :: itr_db where
  "no_returns = \<lparr> t_now = 0, t_documents = [], t_workspaces = [], t_sources = [], t_authorizations = [], t_rules = [],
     t_lines = [], t_items = [], t_events = [] \<rparr>"

definition sample_opening :: workspace_request where
  "sample_opening = \<lparr> wr_client = ''c1'', wr_year = ''2025-26'', wr_pan = ''ABCDE1234F'', wr_name = ''Asha'' \<rparr>"

definition sample_grant :: authorization_request where
  "sample_grant = \<lparr> ar_by = ''Asha'', ar_evidence = ''letter'', ar_to = None, ar_permissions = [''PREPARE'', ''APPROVE''], ar_at = ''2025-04-01'' \<rparr>"

definition source_req :: "string \<Rightarrow> (string, pyval) dict \<Rightarrow> source_request" where
  "source_req kind vals = \<lparr> sq_kind = kind, sq_period = ''2024-25'', sq_pan = ''ABCDE1234F'', sq_version = ''v1'', sq_document = None, sq_values = vals \<rparr>"

definition source_row :: "string \<Rightarrow> string \<Rightarrow> (string, pyval) dict \<Rightarrow> itr_source" where
  "source_row uuid kind vals = \<lparr> so_id = uuid, so_workspace = ''w1'', so_firm = ''f1'', so_kind = kind, so_period = ''2024-25'',
     so_pan = ''ABCDE1234F'', so_document = None, so_version = ''v1'', so_values = vals, so_at = 0 \<rparr>"

definition AIS_values :: "(string, pyval) dict" where
  "AIS_values = [(''bank_credits_paise'', VInt 900), (''reported_income_paise'', VInt 80000000)]"

definition sample_books :: "(string \<times> string \<times> (string, pyval) dict) list" where
  "sample_books = [(''s1'', ''AIS'', AIS_values), (''s2'', ''BOOKS'', [(''reported_income_paise'', VInt 80000000)]),
     (''s3'', ''26AS'', [(''tds_paise'', VInt 500)]), (''s4'', ''FORM16'', [(''tds_paise'', VInt 500), (''salary_income_paise'', VInt 80000000)]),
     (''s5'', ''BANK'', [(''bank_credits_paise'', VInt 950)])]"

definition stocked :: "(string \<times> string \<times> (string, pyval) dict) list \<Rightarrow> itr_db" where
  "stocked srcs =
     (let rows = map (\<lambda>(uuid, kind, vals). source_row uuid kind (jsonb_order vals)) srcs
      in no_returns\<lparr>t_workspaces := [(if srcs = [] then new_workspace preparer ''w1'' sample_opening
              else changed_sources (digest_of (sort_key so_id rows)) (new_workspace preparer ''w1'' sample_opening))],
           t_authorizations := [\<lparr> au_workspace = ''w1'', au_firm = ''f1'', au_by = ''Asha'', au_evidence = ''letter'',
              au_permissions = [''PREPARE'', ''APPROVE''], au_to = ''u1'', au_at = ''2025-04-01'', au_revoked = False \<rparr>],
           t_sources := rows\<rparr>)"

lemma stocked_opened:
  "create_workspace preparer ''w1'' sample_opening no_returns
     = (Inr (new_workspace preparer ''w1'' sample_opening), no_returns\<lparr>t_workspaces := [new_workspace preparer ''w1'' sample_opening]\<rparr>)"
  "\<exists>a. authorize preparer ''w1'' sample_grant (no_returns\<lparr>t_workspaces := [new_workspace preparer ''w1'' sample_opening]\<rparr>) = (Inr a, stocked [])"
proof -
  have "workspace_valid sample_opening" by code_simp
  then show "create_workspace preparer ''w1'' sample_opening no_returns
     = (Inr (new_workspace preparer ''w1'' sample_opening), no_returns\<lparr>t_workspaces := [new_workspace preparer ''w1'' sample_opening]\<rparr>)"
    by (simp add: create_workspace_def require_def preparer_def sample_opening_def no_returns_def op_simps Let_def)
  show "\<exists>a. authorize preparer ''w1'' sample_grant (no_returns\<lparr>t_workspaces := [new_workspace preparer ''w1'' sample_opening]\<rparr>) = (Inr a, stocked [])"
    by (simp add: authorize_def require_def preparer_def sample_grant_def no_returns_def op_simps Let_def find_workspace_def
        new_workspace_def granted_to_def stocked_def)
qed

lemma stocked_step:
  assumes "source_valid (source_req kind vals)" and "uuid \<notin> fst ` set srcs" and "kind \<notin> (fst \<circ> snd) ` set srcs"
  shows "add_source preparer uuid ''w1'' (source_req kind vals) (stocked srcs)
    = (Inr (source_row uuid kind (jsonb_order vals)), stocked (srcs @ [(uuid, kind, vals)]))"
proof -
  let ?row = "source_row uuid kind (jsonb_order vals)" and ?w = "hd (t_workspaces (stocked srcs))"
  have found: "find_workspace preparer ''w1'' (stocked srcs) = Some ?w"
    by (simp add: find_workspace_def stocked_def Let_def new_workspace_def preparer_def changed_sources_def)
  have ins: "insert_source ?row (stocked srcs) = (Inr (), (stocked srcs)\<lparr>t_sources := t_sources (stocked srcs) @ [?row]\<rparr>)"
    using assms(2,3)
    by (force simp: insert_source_def op_simps source_row_def stocked_def Let_def list_ex_iff split: prod.splits)
  have again: "changed_sources d (changed_sources d' (new_workspace preparer ''w1'' sample_opening))
      = changed_sources d (new_workspace preparer ''w1'' sample_opening)" for d d'
    by (simp add: changed_sources_def Let_def new_workspace_def)
  have src: "sources_of (stocked srcs) ''w1'' = t_sources (stocked srcs)"
    by (auto simp: sources_of_def stocked_def Let_def source_row_def filter_id_conv)
  have "add_source preparer uuid ''w1'' (source_req kind vals) (stocked srcs)
    = (Inr ?row, (stocked srcs)\<lparr>t_sources := t_sources (stocked srcs) @ [?row], t_lines := filter (\<lambda>l. fst l \<noteq> ''w1'') (t_lines (stocked srcs)),
     t_workspaces := map_where (\<lambda>x. iw_id x = ''w1'') (changed_sources (digest_of (sort_key so_id (sources_of (stocked srcs) ''w1'' @ [?row]))))
       (t_workspaces (stocked srcs))\<rparr>)"
    by (rule add_source_succeeds [OF assms(1) _ found _ _ _ ins])
       (simp_all add: preparer_def source_req_def source_row_def stocked_def Let_def no_returns_def new_workspace_def changed_sources_def sample_opening_def)
  then show ?thesis unfolding src
    by (simp add: stocked_def Let_def no_returns_def map_where_def again)
       (simp add: new_workspace_def changed_sources_def Let_def)
qed

definition sample_rule :: itr_rule where
  "sample_rule = \<lparr> ru_id = ''r1'', ru_year = ''2025-26'', ru_key = ''INDIVIDUAL_NORMAL_INCOME'', ru_version = ''firmos-2026.1'',
     ru_citation = OFFICIAL_SOURCE, ru_rule = rule_2025, ru_by = ''u1'', ru_at = 0 \<rparr>"

definition sample_rows :: "itr_source list" where
  "sample_rows = map (\<lambda>(uuid, kind, vals). source_row uuid kind vals) sample_books"

definition sample_kinds :: kind_totals where
  "sample_kinds = [(''AIS'', [(''bank_credits_paise'', 900), (''reported_income_paise'', 80000000)]),
     (''BOOKS'', [(''reported_income_paise'', 80000000)]), (''26AS'', [(''tds_paise'', 500)]),
     (''FORM16'', [(''tds_paise'', 500), (''salary_income_paise'', 80000000)]), (''BANK'', [(''bank_credits_paise'', 950)])]"

definition sample_items :: "recon_item list" where
  "sample_items = map (recon_result ''w1'' sample_kinds) (reconciliation_pairs sample_kinds)"

definition sample_draft :: draft_request where
  "sample_draft = \<lparr> dr_regime = ''NEW'', dr_resident = True, dr_special_tax = 0 \<rparr>"

definition sample_workspace :: itr_workspace where
  "sample_workspace = changed_sources (digest_of sample_rows) (new_workspace preparer ''w1'' sample_opening)"

definition ready_returns :: itr_db where
  "ready_returns = (stocked [])\<lparr>t_workspaces := [sample_workspace\<lparr>iw_status := IW_NEEDS_REVIEW\<rparr>], t_sources := sample_rows,
     t_rules := [sample_rule], t_items := sample_items\<rparr>"

lemma sample_jsonb: "\<forall>(uuid, kind, vals)\<in>set sample_books. jsonb_order vals = vals \<and> source_valid (source_req kind vals)"
  by code_simp

lemma sample_sorted: "sort_key so_id sample_rows = sample_rows" "sort_key so_at sample_rows = sample_rows"
    "filter (\<lambda>r. so_workspace r = ''w1'') sample_rows = sample_rows"
  by code_simp+

lemma sample_aggregate: "aggregate_sources sample_rows = Inr sample_kinds"
  by code_simp

lemma sample_matched: "list_all (\<lambda>i. ri_status i = ''MATCHED'' \<and> ri_workspace i = ''w1'' \<and> is_bigint (ri_difference i)) sample_items"
    "length sample_items = 3"
  by code_simp+

lemma stocked_run: "itr_step\<^sup>*\<^sup>* no_returns (stocked sample_books)"
proof -
  have step: "itr_step\<^sup>*\<^sup>* no_returns (stocked (srcs @ [(uuid, kind, vals)]))"
    if "itr_step\<^sup>*\<^sup>* no_returns (stocked srcs)" "source_valid (source_req kind vals)" "uuid \<notin> fst ` set srcs" "kind \<notin> (fst \<circ> snd) ` set srcs"
    for srcs uuid kind vals
    using itr_step.source_added [of "stocked srcs" preparer uuid "''w1''" "source_req kind vals"] stocked_step [OF that(2-4)] that(1)
    by (simp add: rtranclp.rtrancl_into_rtrancl)
  have "itr_step\<^sup>*\<^sup>* no_returns (stocked [])"
    using itr_step.workspace_opened [of no_returns preparer "''w1''" sample_opening] stocked_opened
      itr_step.permission_granted [of "no_returns\<lparr>t_workspaces := [new_workspace preparer ''w1'' sample_opening]\<rparr>" preparer "''w1''" sample_grant]
    by (metis (no_types, lifting) converse_rtranclp_into_rtranclp rtranclp.rtrancl_refl snd_conv)
  moreover have "list_all (\<lambda>x. source_valid (source_req (fst (snd x)) (snd (snd x)))) sample_books" by code_simp
  ultimately have "itr_step\<^sup>*\<^sup>* no_returns (stocked (take n sample_books))" for n
  proof (induction n)
    case (Suc n)
    then have run: "itr_step\<^sup>*\<^sup>* no_returns (stocked (take n sample_books))" by simp
    show ?case
    proof (cases "n < length sample_books")
      case True
      obtain uuid kind vals where x: "sample_books ! n = (uuid, kind, vals)" by (cases "sample_books ! n") auto
      have nth: "take (Suc n) sample_books = take n sample_books @ [(uuid, kind, vals)]" using True x by (simp add: take_Suc_conv_app_nth)
      have d: "distinct (map fst sample_books)" "distinct (map (fst \<circ> snd) sample_books)" by code_simp+
      have fresh: "uuid \<notin> fst ` set (take n sample_books)" "kind \<notin> (fst \<circ> snd) ` set (take n sample_books)"
        using distinct_take [OF d(1), of "Suc n"] distinct_take [OF d(2), of "Suc n"] by (simp_all add: take_map nth)
      have "source_valid (source_req kind vals)"
        using Suc.prems(2) True by (simp add: list_all_length) (metis x fst_conv snd_conv)
      then show ?thesis using step [OF run _ fresh] by (simp add: nth)
    qed (use run in simp)
  qed simp
  from this [of 5] show ?thesis by (simp add: sample_books_def)
qed

lemma stocked_books: "stocked sample_books = (stocked [])\<lparr>t_workspaces := [sample_workspace], t_sources := sample_rows\<rparr>"
proof -
  have rows: "map (\<lambda>(uuid, kind, vals). source_row uuid kind (jsonb_order vals)) sample_books = sample_rows"
    unfolding sample_rows_def using sample_jsonb by (intro map_cong refl) auto
  have "sample_books \<noteq> []" by (simp add: sample_books_def)
  then show ?thesis by (simp add: stocked_def Let_def rows sample_sorted sample_workspace_def)
qed

lemma sample_activated:
  "\<exists>r. activate_rule_version preparer ''r1'' ''2025-26'' (stocked sample_books) = (Inr r, (stocked sample_books)\<lparr>t_rules := [sample_rule]\<rparr>)"
proof -
  have "reviewed_rule ''2025-26'' = Inr rule_2025" by (simp add: reviewed_rule_def official_rule_2025 validate_2025)
  then show ?thesis
    by (simp add: activate_rule_version_def require_def preparer_def op_simps Let_def stocked_def no_returns_def first_row_def sample_rule_def)
qed

lemma sample_authorized:
  "list_ex (\<lambda>a. au_workspace a = ''w1'' \<and> permission \<in> set (au_permissions a) \<and> au_to a = ''u1'' \<and> \<not> au_revoked a)
     (t_authorizations (stocked srcs)) \<longleftrightarrow> permission \<in> {''PREPARE'', ''APPROVE''}"
  by (auto simp: stocked_def Let_def)

lemma sample_workspace_fields:
  "iw_id sample_workspace = ''w1''" "iw_firm sample_workspace = ''f1''" "iw_year sample_workspace = ''2025-26''"
  "iw_hash sample_workspace = Some (digest_of sample_rows)" "\<not> iw_stale sample_workspace" "iw_approved_at sample_workspace = None"
  by (simp_all add: sample_workspace_def changed_sources_def Let_def new_workspace_def preparer_def sample_opening_def)

lemma insert_items:
  "list_all (\<lambda>i. is_bigint (ri_difference i)) is \<Longrightarrow> oeach insert_item is s = (Inr (), s\<lparr>t_items := t_items s @ is\<rparr>)"
  by (induction "is" arbitrary: s) (auto simp: insert_item_def op_simps oret_def)

lemma update_one:
  assumes "t_workspaces s = [w]" and "p w" and "workspace_check (f w) = Inr (f w)"
  shows "update_workspaces p f s = (Inr [f w], s\<lparr>t_workspaces := [f w]\<rparr>)"
  using update_workspaces_pass [of s p f] assms by (simp add: map_where_def)

lemma review_passes: "workspace_check (w\<lparr>iw_status := IW_NEEDS_REVIEW\<rparr>) = Inr (w\<lparr>iw_status := IW_NEEDS_REVIEW\<rparr>)"
    "workspace_check (w\<lparr>iw_computation := c, iw_status := IW_NEEDS_REVIEW, iw_stale := b\<rparr>)
       = Inr (w\<lparr>iw_computation := c, iw_status := IW_NEEDS_REVIEW, iw_stale := b\<rparr>)"
  by (simp_all add: workspace_check_def)

lemma sample_reconciled:
  "reconcile_workspace preparer ''w1'' ((stocked sample_books)\<lparr>t_rules := [sample_rule]\<rparr>) = (Inr sample_items, ready_returns)"
proof -
  have bound: "list_all (\<lambda>i. is_bigint (ri_difference i)) sample_items" "list_all (\<lambda>i. ri_status i = ''MATCHED'') sample_items"
    "sample_items \<noteq> []"
    using sample_matched by (auto simp: list_all_iff)
  have ins: "othen (oeach insert_item sample_items) k s = k (s\<lparr>t_items := t_items s @ sample_items\<rparr>)" for s and k :: "(itr_db, recon_item list) op"
    by (simp add: othen_def obind_def insert_items [OF bound(1)])
  have upd: "obind (update_workspaces (\<lambda>x. iw_id x = ''w1'') (\<lambda>x. x\<lparr>iw_status := IW_NEEDS_REVIEW\<rparr>)) k s
      = k [sample_workspace\<lparr>iw_status := IW_NEEDS_REVIEW\<rparr>] (s\<lparr>t_workspaces := [sample_workspace\<lparr>iw_status := IW_NEEDS_REVIEW\<rparr>]\<rparr>)"
    if "t_workspaces s = [sample_workspace]" for s and k :: "itr_workspace list \<Rightarrow> (itr_db, recon_item list) op"
    using update_one [OF that, of "\<lambda>x. iw_id x = ''w1''" "\<lambda>x. x\<lparr>iw_status := IW_NEEDS_REVIEW\<rparr>"]
    by (simp add: obind_def sample_workspace_fields review_passes)
  have none: "t_items (stocked []) = []" "reconciliation_pairs sample_kinds \<noteq> []"
    by (simp_all add: stocked_def Let_def no_returns_def reconciliation_pairs_def)
  show ?thesis
    by (simp add: reconcile_workspace_def stocked_books require_def preparer_def op_simps find_workspace_def sample_workspace_fields
        require_authorization_def sample_authorized sources_of_def sample_sorted sample_aggregate transaction_def
        sample_items_def [symmetric] Let_def ins bound upd none ready_returns_def)
qed

lemma ready_reconciled: "reconciled ''w1'' ready_returns" "find_workspace preparer ''w1'' ready_returns = Some (sample_workspace\<lparr>iw_status := IW_NEEDS_REVIEW\<rparr>)"
  "rule_for ''2025-26'' ready_returns = Some sample_rule" "sources_of ready_returns ''w1'' = sample_rows"
proof -
  have "items_of ready_returns ''w1'' = sample_items"
    using sample_matched(1) by (auto simp: items_of_def ready_returns_def list_all_iff filter_id_conv)
  then show "reconciled ''w1'' ready_returns" using sample_matched by (auto simp: reconciled_def list_all_iff)
  show "find_workspace preparer ''w1'' ready_returns = Some (sample_workspace\<lparr>iw_status := IW_NEEDS_REVIEW\<rparr>)"
    by (simp add: find_workspace_def ready_returns_def sample_workspace_fields preparer_def)
  show "rule_for ''2025-26'' ready_returns = Some sample_rule" by (simp add: rule_for_def ready_returns_def sample_rule_def)
  show "sources_of ready_returns ''w1'' = sample_rows" by (simp add: sources_of_def ready_returns_def sample_sorted)
qed

definition sample_tax :: tax_output where
  "sample_tax = (case calculate rule_2025 (draft_input sample_draft (draft_amounts sample_kinds)) of Inr out \<Rightarrow> out)"

lemma sample_calculated: "calculate rule_2025 (draft_input sample_draft (draft_amounts sample_kinds)) = Inr sample_tax"
proof -
  have "is_ok (calculate rule_2025 (draft_input sample_draft (draft_amounts sample_kinds)))" by code_simp
  then show ?thesis by (auto simp: sample_tax_def is_ok_def split: sum.splits)
qed

definition sample_lines :: "schedule_line list" where
  "sample_lines = [draft_line sample_rows ''r1'' (''SALARY'', ''income'', 80000000, ''FORM16''),
     draft_line sample_rows ''r1'' (''TAX_CREDITS'', ''credits'', - 500, ''26AS'')]"

definition drafted_workspace :: itr_workspace where
  "drafted_workspace = sample_workspace\<lparr>iw_status := IW_NEEDS_REVIEW, iw_computation := DraftComputation sample_tax, iw_stale := False\<rparr>"

definition drafted_returns :: itr_db where
  "drafted_returns = ready_returns\<lparr>t_lines := map (Pair ''w1'') sample_lines, t_workspaces := [drafted_workspace]\<rparr>"

lemma sample_put:
  "oeach (put_draft_line ''w1'' sample_rows ''r1'') (draft_specs (draft_amounts sample_kinds)) (ready_returns\<lparr>t_lines := []\<rparr>)
     = (Inr (), ready_returns\<lparr>t_lines := map (Pair ''w1'') sample_lines\<rparr>)"
proof -
  have specs: "draft_specs (draft_amounts sample_kinds) =
     [(''SALARY'', ''income'', 80000000, ''FORM16''), (''BUSINESS'', ''income'', 0, ''BOOKS''),
      (''OTHER_SOURCES'', ''income'', 0, ''AIS''), (''CAPITAL_GAINS'', ''income'', 0, ''AIS''),
      (''DEDUCTIONS'', ''deductions'', 0, ''FORM16''), (''TAX_CREDITS'', ''credits'', - 500, ''26AS'')]" by code_simp
  have links: "source_links sample_rows ''FORM16'' \<noteq> []" "source_links sample_rows ''26AS'' \<noteq> []"
      "list_all jsonb_ok (source_links sample_rows ''FORM16'')" "list_all jsonb_ok (source_links sample_rows ''26AS'')"
    by code_simp+
  have rule: "list_ex (\<lambda>x. ru_id x = ''r1'') (t_rules ready_returns)" by (simp add: ready_returns_def sample_rule_def)
  show ?thesis unfolding specs sample_lines_def
    by (simp add: put_draft_line_def draft_line_def Let_def links insert_schedule_line_def op_simps schedule_of_def rule is_bigint_def)
qed

lemma sample_drafted: "draft preparer ''w1'' sample_draft ready_returns = (Inr drafted_workspace, drafted_returns)"
proof -
  have upd: "obind (update_workspaces (\<lambda>x. iw_id x = ''w1'')
        (\<lambda>x. x\<lparr>iw_computation := DraftComputation sample_tax, iw_status := IW_NEEDS_REVIEW, iw_stale := False\<rparr>)) first_row
      (ready_returns\<lparr>t_lines := L\<rparr>) = (Inr drafted_workspace, ready_returns\<lparr>t_lines := L, t_workspaces := [drafted_workspace]\<rparr>)" for L
    using update_one [of "ready_returns\<lparr>t_lines := L\<rparr>" "sample_workspace\<lparr>iw_status := IW_NEEDS_REVIEW\<rparr>" "\<lambda>x. iw_id x = ''w1''"
        "\<lambda>x. x\<lparr>iw_computation := DraftComputation sample_tax, iw_status := IW_NEEDS_REVIEW, iw_stale := False\<rparr>"]
    by (simp add: obind_def ready_returns_def sample_workspace_fields review_passes first_row_def oret_def drafted_workspace_def)
  have put: "othen (oeach (put_draft_line ''w1'' sample_rows ''r1'') (draft_specs (draft_amounts sample_kinds))) k (ready_returns\<lparr>t_lines := []\<rparr>)
     = k (ready_returns\<lparr>t_lines := map (Pair ''w1'') sample_lines\<rparr>)" for k :: "(itr_db, itr_workspace) op"
    by (simp add: othen_def obind_def sample_put)
  have facts: "dt_gains (draft_amounts sample_kinds) = 0" "sample_rows \<noteq> []" by code_simp+
  have fields: "ru_rule sample_rule = rule_2025" "ru_id sample_rule = ''r1''" "t_lines ready_returns = []"
      "t_authorizations ready_returns = t_authorizations (stocked [])"
    by (simp_all add: sample_rule_def ready_returns_def stocked_def Let_def no_returns_def)
  have d: "dr_regime sample_draft = ''NEW''" "dr_special_tax sample_draft = 0" by (simp_all add: sample_draft_def)
  have f: "f_user preparer = ''u1''" "''books.propose'' \<in> set (f_permissions preparer)" by (simp_all add: preparer_def)
  show ?thesis
    by (simp add: draft_def d f require_def transaction_def op_simps ready_reconciled require_authorization_def fields sample_authorized
        sample_workspace_fields sample_sorted sample_aggregate facts sample_calculated drop_lines_def put upd Let_def drafted_returns_def)
qed

definition approved_workspace :: itr_workspace where
  "approved_workspace = drafted_workspace\<lparr>iw_status := IW_APPROVED, iw_approved_by := Some ''u1'', iw_approved_at := Some 0,
     iw_approved_hash := Some (digest_of sample_rows)\<rparr>"

definition approved_returns :: itr_db where
  "approved_returns = drafted_returns\<lparr>t_workspaces := [approved_workspace]\<rparr>"

lemma drafted_fields:
  "iw_id drafted_workspace = ''w1''" "iw_firm drafted_workspace = ''f1''" "iw_status drafted_workspace = IW_NEEDS_REVIEW"
  "iw_hash drafted_workspace = Some (digest_of sample_rows)" "\<not> iw_stale drafted_workspace" "iw_year drafted_workspace = ''2025-26''"
  by (simp_all add: drafted_workspace_def sample_workspace_fields)

lemma approved_fields:
  "iw_id approved_workspace = ''w1''" "iw_firm approved_workspace = ''f1''" "iw_approved_at approved_workspace = Some 0"
  "iw_approved_hash approved_workspace = iw_hash approved_workspace" "\<not> iw_stale approved_workspace" "iw_status approved_workspace = IW_APPROVED"
  by (simp_all add: approved_workspace_def drafted_fields)

lemma sample_approved: "approve_workspace preparer ''w1'' drafted_returns = (Inr approved_workspace, approved_returns)"
proof -
  let ?p = "\<lambda>w. iw_id w = ''w1'' \<and> iw_firm w = f_firm preparer \<and> iw_status w = IW_NEEDS_REVIEW \<and> iw_hash w \<noteq> None"
  let ?f = "\<lambda>w. w\<lparr>iw_status := IW_APPROVED, iw_approved_by := Some ''u1'', iw_approved_at := Some 0,
              iw_approved_hash := iw_hash w, iw_stale := False\<rparr>"
  have same: "?f drafted_workspace = approved_workspace" by (simp add: approved_workspace_def drafted_workspace_def sample_workspace_fields)
  have upd: "update_workspaces ?p ?f drafted_returns = (Inr [approved_workspace], approved_returns)"
    using update_one [of drafted_returns drafted_workspace ?p ?f] unfolding same
    by (simp add: drafted_returns_def drafted_fields preparer_def approved_returns_def workspace_check_def hashes_differ_def approved_fields)
  have facts: "reconciled ''w1'' drafted_returns" "schedule_of drafted_returns ''w1'' \<noteq> []" "t_now drafted_returns = 0"
      "t_authorizations drafted_returns = t_authorizations (stocked [])" "f_user preparer = ''u1''"
      "''compliance.review'' \<in> set (f_permissions preparer)"
    using ready_reconciled(1)
    by (simp_all add: reconciled_def items_of_def drafted_returns_def schedule_of_def sample_lines_def ready_returns_def stocked_def
        Let_def no_returns_def preparer_def)
  show ?thesis
    by (simp add: approve_workspace_def require_def op_simps require_authorization_def facts sample_authorized obind_def [of "update_workspaces p f" for p f]
        upd del: not_None_eq)
qed

lemma ready_run: "itr_step\<^sup>*\<^sup>* no_returns ready_returns"
proof -
  obtain r where r: "activate_rule_version preparer ''r1'' ''2025-26'' (stocked sample_books) = (Inr r, (stocked sample_books)\<lparr>t_rules := [sample_rule]\<rparr>)"
    using sample_activated by blast
  have "itr_step (stocked sample_books) ((stocked sample_books)\<lparr>t_rules := [sample_rule]\<rparr>)"
    using itr_step.rule_activated [of "stocked sample_books" preparer "''r1''" "''2025-26''"] by (simp add: r)
  moreover have "itr_step ((stocked sample_books)\<lparr>t_rules := [sample_rule]\<rparr>) ready_returns"
    using itr_step.sources_reconciled [of "(stocked sample_books)\<lparr>t_rules := [sample_rule]\<rparr>" preparer "''w1''"] by (simp add: sample_reconciled)
  ultimately show ?thesis using stocked_run by (meson rtranclp.rtrancl_into_rtrancl)
qed

lemma approved_run: "itr_step\<^sup>*\<^sup>* no_returns approved_returns"
proof -
  have "itr_step ready_returns drafted_returns"
    using itr_step.return_drafted [of ready_returns preparer "''w1''" sample_draft] by (simp add: sample_drafted)
  moreover have "itr_step drafted_returns approved_returns"
    using itr_step.return_approved [of drafted_returns preparer "''w1''"] by (simp add: sample_approved)
  ultimately show ?thesis using ready_run by (meson rtranclp.rtrancl_into_rtrancl)
qed

lemma no_returns_empty: "t_workspaces no_returns = []" "t_sources no_returns = []" "t_lines no_returns = []" "t_rules no_returns = []"
  by (simp_all add: no_returns_def)

theorem filed_return_approved_witness:
  "itr_step\<^sup>*\<^sup>* no_returns approved_returns \<and> approved_workspace \<in> set (t_workspaces approved_returns)
   \<and> iw_status approved_workspace = IW_APPROVED \<and> may_approve approved_returns ''w1'' ''u1''
   \<and> source_digest (sort_key so_id (sources_of approved_returns ''w1'')) = Inr (the (iw_approved_hash approved_workspace))"
proof -
  have mem: "approved_workspace \<in> set (t_workspaces approved_returns)" by (simp add: approved_returns_def)
  have by_u1: "iw_approved_by approved_workspace = Some ''u1''" by (simp add: approved_workspace_def)
  show ?thesis
    using filed_return_approved [OF no_returns_empty approved_run mem] approved_run mem by_u1
    by (auto simp: evidenced_def approved_fields)
qed

theorem draft_follows_rule_witness:
  "draft preparer ''w1'' sample_draft ready_returns = (Inr drafted_workspace, drafted_returns)
   \<and> (\<exists>rule out. official_rule ''2025-26'' = Inr rule \<and> iw_computation drafted_workspace = DraftComputation out
        \<and> calculate rule (draft_input sample_draft (source_amounts sample_rows)) = Inr out)"
proof -
  have "itr_ok ready_returns" using itr.run_keeps [OF ready_run] itr_ok_start [OF no_returns_empty] by blast
  from draft_follows_rule [OF this sample_drafted] show ?thesis by (auto simp: sample_drafted drafted_fields ready_reconciled)
qed

theorem payment_files_unapproved_schedules_witness:
  "\<exists>w1 s1 w2 s2. record_event preparer ''w1'' \<lparr> er_kind = ''PAYMENT_RECORDED'', er_reference = ''c'', er_evidence = None, er_at = ''t'' \<rparr>
       (approved_returns\<lparr>t_workspaces := [approved_workspace\<lparr>iw_status := IW_NEEDS_REVIEW\<rparr>], t_lines := []\<rparr>) = (Inr w1, s1)
     \<and> record_event preparer ''w1'' \<lparr> er_kind = ''ACKNOWLEDGEMENT_UPLOADED'', er_reference = ''c'', er_evidence = Some ''e'', er_at = ''t'' \<rparr> s1 = (Inr w2, s2)
     \<and> iw_status w2 = IW_COMPLETED \<and> iw_pack w2 = None \<and> schedule_of s2 ''w1'' = []"
proof -
  let ?w = "approved_workspace\<lparr>iw_status := IW_NEEDS_REVIEW\<rparr>"
  have "iw_pack ?w = None" "f_firm preparer = ''f1''"
    by (simp_all add: approved_workspace_def drafted_workspace_def sample_workspace_def changed_sources_def Let_def new_workspace_def preparer_def)
  then show ?thesis
    using payment_files_unapproved_schedules [of "approved_returns\<lparr>t_workspaces := [?w], t_lines := []\<rparr>" ?w preparer
        "\<lparr> er_kind = ''PAYMENT_RECORDED'', er_reference = ''c'', er_evidence = None, er_at = ''t'' \<rparr>"
        "\<lparr> er_kind = ''ACKNOWLEDGEMENT_UPLOADED'', er_reference = ''c'', er_evidence = Some ''e'', er_at = ''t'' \<rparr>"]
    by (auto simp: approved_fields no_evidence_def schedule_of_def)
qed

end
