(* ===== verification/Spec2Isabelle.thy ===== *)
theory Spec2Isabelle
  imports Money Gst_Engine Income_Tax Interest_Tds Gstr2b Reconcile Bank Access_Control Trust_Spine Tally_Lapses
    Invoice_Validation Upload_Contract Zoho_Connector Gst_Filing Itr_Filing
begin

text \<open>
  A verification library for firmOS, the back office of an Indian accounting firm (\<open>src/firmos-backend\<close>). The program
  reads invoices, bank statements and GST statements, computes taxes and reconciliations from them, and writes approved
  vouchers to Zoho Books and to Tally. Its core is the trust spine: a finance action is proposed, reviewed, approved,
  queued, executed by a worker or handed to a desktop agent, verified against what the provider holds, and only then
  projected into the registers.

  \<^bold>\<open>The language.\<close> \<open>Py_Prelude\<close> has the exceptions as values of a sum type, strings, integers in text and
  insertion-ordered dictionaries; \<open>Py_Float\<close> binary64 arithmetic on rationals with correct rounding; \<open>Py_Decimal\<close> the
  \<open>decimal\<close> module at its default context of 28 digits; \<open>Py_Date\<close> dates and \<open>strptime\<close>; \<open>Py_Value\<close> the dynamic
  values of JSON with truth testing, \<open>str\<close> and \<open>int\<close>; \<open>Sha256\<close> and \<open>Json_Canon\<close> the canonical JSON text and its digest,
  which does not depend on insertion order; \<open>Db_Monad\<close> operations on database state that may raise, with transactions and
  handlers, and the rules (\<open>keeps\<close>) that carry an invariant through them. A request runs in the one transaction of \<open>get_db\<close>
  (\<open>api/deps.py\<close>): an endpoint that writes more than once is a \<open>transaction\<close>, and for one that writes once and fails
  only before it this makes no difference. The statements of the worker commit one by one.

  \<^bold>\<open>Money and taxes.\<close> \<open>Money\<close> models \<open>core/money.py\<close>: the exact value of both conversions and the round trip of up to 27
  digits of paise. \<open>Gst_Engine\<close> models \<open>engines/gst.py\<close> and \<open>gst_components.py\<close>: credit utilization conserves credits
  and liabilities, the tables balance, the export reads back. \<open>Income_Tax\<close> models the float slab engine \<open>engines/tax.py\<close> and
  the rule engine \<open>engines/income_tax_rules.py\<close> and shows that they agree for the new regime of 2025-26. \<open>Interest_Tds\<close>
  models \<open>engines/interest.py\<close> and \<open>engines/tds.py\<close>. The float results hold below the bounds the theorems state, since the
  products must be exact in 53 bits.

  \<^bold>\<open>Reading and matching.\<close> \<open>Gstr2b\<close> models the parser and matcher of the 2B statement, \<open>Reconcile\<close> the fuzzy
  reconciliation, both as instances of the loop of \<open>Claim_Loop\<close>, whose locale gives the accounting of sources and claims;
  \<open>Bank\<close> the statement parser, the running balance and the candidate scoring. \<open>Upload_Contract\<close> models the inspection of
  an upload (\<open>core/purchase_invoices/file_contract.py\<close>), \<open>Invoice_Validation\<close> the findings on an invoice
  (\<open>core/purchase_invoices/validation.py\<close>, \<open>core/sales_invoices/validation.py\<close>).

  \<^bold>\<open>The trust spine.\<close> \<open>Ledger_Db\<close> has the tables as lists of records and the two triggers of \<open>finance_actions\<close>.
  \<open>Finance_Actions\<close> has the engine, the approval and cancel endpoints, drafts, revisions and the preparation of a
  document's action, and the invariant \<open>ledger_ok\<close>. \<open>Access_Control\<close> has permissions, kill switches and the capability
  catalog; \<open>Registers\<close> the snapshots, verifications and register projections; \<open>Automation\<close> the worker and the scheduler, with
  the connector's answers as arbitrary functions; \<open>Tally_Actions\<close> the endpoints of the desktop agent. \<open>Trust_Spine\<close> puts
  them together: a locale states what a step of the ledger keeps, its interpretation on the step relation of the code's
  operations (requests, worker statements, reports, scheduler ticks, in any order) gives the safety, refinement and
  uniqueness properties of every reachable state. \<open>Tally_Lapses\<close> takes the steps of the machines alone (agents, worker,
  scheduler, the clock) and shows what becomes of an action whose third lease lapsed.

  \<^bold>\<open>GST returns.\<close> \<open>Gst_Calculation\<close> models \<open>core/gst_workpapers/calculation.py\<close>: which row of the registers reaches
  which table of a return, and the totals; credit reaches table 4(A)(5) only as \<open>itc_claim_sound\<close> says. \<open>Gst_Workpapers\<close> has
  the tables of the GST desk with their checks and triggers (the phase 12, 14 and 15 migrations) and the endpoints of
  \<open>api/routes/gstr2b_runs.py\<close>, \<open>gst_workpapers.py\<close>, \<open>gst_rules.py\<close> and the purchase source of \<open>reconciliation.py\<close>; the
  matcher is that of \<open>Gstr2b\<close>. \<open>Gst_Filing\<close> has the invariant of the desk, that every operation keeps it, the step relation
  and its interpretation in the locale \<open>state_machine\<close> of \<open>Db_Monad\<close>, and what follows for papers, packs, acknowledgements,
  filings and documents claimed before an import.

  \<^bold>\<open>Income-tax returns.\<close> \<open>Itr_Drafting\<close> models \<open>core/itr_drafting.py\<close>: sources are added up by kind and key, in any order.
  \<open>Itr_Workspaces\<close> has the tables of the phase 16 migration with their constraints and the endpoints of
  \<open>api/routes/itr_workspaces.py\<close>, \<open>itr_computation.py\<close> and \<open>itr_rules.py\<close>; the draft uses \<open>calculate\<close> of \<open>Income_Tax\<close>.
  \<open>Itr_Filing\<close> has the invariant that every operation keeps, its interpretation in \<open>state_machine\<close>, the correctness of the
  draft, a run from the empty database to an approved return, and where the guards of the filing events fall short.

  \<^bold>\<open>Providers.\<close> \<open>Tally_Voucher\<close> models \<open>connectors/tally/canonical.py\<close>, \<open>write_engine.py\<close> and \<open>versions.py\<close>: vouchers
  balance, the envelope is written exactly for balanced vouchers, a clean read-back is the approved voucher.
  \<open>Connector_Types\<close> has the results of a connector. \<open>Zoho_Books\<close> models the payload mappers, the request builders and the
  read-back comparison, \<open>Zoho_Connector\<close> the HTTP client, credentials, rate budget, reads, writes and verification over an
  abstract service: the service, its token endpoint, the cipher and the JSON decoder are parameters. There the sent requests
  are recorded, a locale states what reads keep, and its interpretations show that an execution sends at most one create after
  an empty search and that a service which keeps its promise (\<open>books_service\<close>, a hypothesis with an instance) never holds two
  bills with one reference number.

  \<^bold>\<open>Bounds and fuel.\<close> Every definition is a total function; there is no fuel. Loops of the code are structural recursions
  or recursions with a proved measure, and the retry loop of the worker is bounded by \<open>MAX_ATTEMPTS\<close>.

  \<^bold>\<open>Not modelled.\<close> Concurrency inside one transaction and row locks (each modelled operation runs alone, operations interleave
  in any order); row-level security; heartbeats and logging; web framework glue and request parsing; Excel, PDF and zip readers,
  the string similarity of rapidfuzz and the language model (parameters or inputs); extraction services, the GSP client, the
  WhatsApp connector, and the disconnection and authorization-code exchange of Zoho. Strings are byte strings in UTF-8 and case mapping is that of ASCII.
\<close>

end
